(* ===== verification/Prelude.thy ===== *)
theory Prelude
  imports Main
begin

text \<open>
  Shared vocabulary of the development.

  A Go function that returns \<open>(T, error)\<close> and may panic is a function into \<open>'a res\<close>:
  \<open>Ok\<close> for a nil error, \<open>Err\<close> for a non-nil one, \<open>Panic\<close> for a run-time panic. A method that also
  reads and writes the chain context is a state-passing function \<open>'w \<Rightarrow> 'a res \<times> 'w\<close>; the state
  it returns next to an error is the state the code has reached at the moment it returns, because
  Go does not undo the writes made before an early return.

  The error values of the repository are the constructors of one datatype: the sentinel errors of
  x/tokenfactory/types/errors.go and x/lumiwaveprotocol/types/errors.go, the errors of the
  generated protobuf code, the SDK sentinels the code wraps, plain \<open>fmt.Errorf\<close> and
  \<open>errors.New\<close> values and wrapped errors. \<open>ErrorText\<close> is what \<open>err.Error()\<close> returns.
\<close>

named_theorems act_simps \<open>rewrite rules of the state-passing combinators\<close>
named_theorems frame_simps \<open>what an operation leaves unchanged\<close>

section \<open>Errors and results\<close>

datatype error =
    ErrDenomExists | ErrUnauthorized | ErrInvalidDenom | ErrInvalidCreator
  | ErrInvalidAuthorityMetadata | ErrInvalidGenesis | ErrSubdenomTooLong | ErrCreatorTooLong
  | ErrDenomDoesNotExist | ErrBurnFromModuleAccount | ErrBeforeSendHookOutOfGas
  | ErrMintToModuleAccount
  | ErrInvalidSigner
  | ErrInvalidAddress | ErrInvalidCoins | ErrInvalidRequest
  | ErrIntOverflow | ErrInvalidLength | ErrUnexpectedEndOfGroup | ErrUnexpectedEOF
  | ErrNotFound
  | Errorf string
  | Wrap error string

fun ErrorText :: "error \<Rightarrow> string" where
  "ErrorText ErrDenomExists = ''attempting to create a denom that already exists (has bank metadata)''"
| "ErrorText ErrUnauthorized = ''unauthorized account''"
| "ErrorText ErrInvalidDenom = ''invalid denom''"
| "ErrorText ErrInvalidCreator = ''invalid creator''"
| "ErrorText ErrInvalidAuthorityMetadata = ''invalid authority metadata''"
| "ErrorText ErrInvalidGenesis = ''invalid genesis''"
| "ErrorText ErrSubdenomTooLong = ''subdenom too long, max length is 44 bytes''"
| "ErrorText ErrCreatorTooLong = ''creator too long, max length is 75 bytes''"
| "ErrorText ErrDenomDoesNotExist = ''denom does not exist''"
| "ErrorText ErrBurnFromModuleAccount = ''burning from Module Account is not allowed''"
| "ErrorText ErrBeforeSendHookOutOfGas = ''gas meter hit maximum limit''"
| "ErrorText ErrMintToModuleAccount = ''minting to Module Account is not allowed''"
| "ErrorText ErrInvalidSigner = ''expected gov account as only signer for proposal message''"
| "ErrorText ErrInvalidAddress = ''invalid address''"
| "ErrorText ErrInvalidCoins = ''invalid coins''"
| "ErrorText ErrInvalidRequest = ''invalid request''"
| "ErrorText ErrIntOverflow = ''proto: integer overflow''"
| "ErrorText ErrInvalidLength = ''proto: negative length found during unmarshaling''"
| "ErrorText ErrUnexpectedEndOfGroup = ''proto: unexpected end of group''"
| "ErrorText ErrUnexpectedEOF = ''unexpected EOF''"
| "ErrorText ErrNotFound = ''collections: not found''"
| "ErrorText (Errorf t) = t"
| "ErrorText (Wrap e d) = d @ '': '' @ ErrorText e"

datatype 'a res = Ok 'a | Err error | Panic string

fun is_ok :: "'a res \<Rightarrow> bool" where
  "is_ok (Ok _) = True"
| "is_ok _ = False"

fun is_panic :: "'a res \<Rightarrow> bool" where
  "is_panic (Panic _) = True"
| "is_panic _ = False"

definition bindR :: "'a res \<Rightarrow> ('a \<Rightarrow> 'b res) \<Rightarrow> 'b res" where
  "bindR r f = (case r of Ok v \<Rightarrow> f v | Err e \<Rightarrow> Err e | Panic p \<Rightarrow> Panic p)"

lemma bindR_simps [simp]:
  "bindR (Ok v) f = f v" "bindR (Err e) f = Err e" "bindR (Panic p) f = Panic p"
  by (simp_all add: bindR_def)

lemma bindR_eq_Ok [simp]: "bindR r f = Ok v \<longleftrightarrow> (\<exists>u. r = Ok u \<and> f u = Ok v)"
  by (cases r) auto

lemma bindR_eq_Err: "bindR r f = Err er \<longleftrightarrow> r = Err er \<or> (\<exists>u. r = Ok u \<and> f u = Err er)"
  by (cases r) simp_all

text \<open>A Go call that returns only an error: \<open>nil\<close> is \<open>None\<close>.\<close>

definition check :: "error option \<Rightarrow> unit res" where
  "check e = (case e of None \<Rightarrow> Ok () | Some x \<Rightarrow> Err x)"

lemma check_simps [simp]:
  "check None = Ok ()" "check (Some e) = Err e"
  by (simp_all add: check_def)

lemma check_eq_Ok [simp]: "check e = Ok u \<longleftrightarrow> e = None"
  by (cases e) auto

definition mapErr :: "(error \<Rightarrow> error) \<Rightarrow> 'a res \<Rightarrow> 'a res" where
  "mapErr f r = (case r of Ok v \<Rightarrow> Ok v | Err e \<Rightarrow> Err (f e) | Panic p \<Rightarrow> Panic p)"

lemma mapErr_simps [simp]:
  "mapErr f (Ok v) = Ok v" "mapErr f (Err e) = Err (f e)" "mapErr f (Panic p) = Panic p"
  by (simp_all add: mapErr_def)

lemma mapErr_eq_Ok [simp]: "mapErr f r = Ok v \<longleftrightarrow> r = Ok v"
  by (cases r) auto

section \<open>State-passing actions\<close>

type_synonym ('w, 'a) act = "'w \<Rightarrow> 'a res \<times> 'w"

definition ret :: "'a \<Rightarrow> ('w, 'a) act" where
  "ret v = (\<lambda>w. (Ok v, w))"

definition throw :: "error \<Rightarrow> ('w, 'a) act" where
  "throw e = (\<lambda>w. (Err e, w))"

definition panic :: "string \<Rightarrow> ('w, 'a) act" where
  "panic p = (\<lambda>w. (Panic p, w))"

definition lift :: "'a res \<Rightarrow> ('w, 'a) act" where
  "lift r = (\<lambda>w. (r, w))"

definition gets :: "('w \<Rightarrow> 'a) \<Rightarrow> ('w, 'a) act" where
  "gets f = (\<lambda>w. (Ok (f w), w))"

text \<open>A call that reads the state and may fail.\<close>

definition query :: "('w \<Rightarrow> 'a res) \<Rightarrow> ('w, 'a) act" where
  "query f = (\<lambda>w. (f w, w))"

definition modify :: "('w \<Rightarrow> 'w) \<Rightarrow> ('w, unit) act" where
  "modify f = (\<lambda>w. (Ok (), f w))"

definition bindA :: "('w, 'a) act \<Rightarrow> ('a \<Rightarrow> ('w, 'b) act) \<Rightarrow> ('w, 'b) act" where
  "bindA m f = (\<lambda>w. case m w of
      (Ok v, w') \<Rightarrow> f v w'
    | (Err e, w') \<Rightarrow> (Err e, w')
    | (Panic p, w') \<Rightarrow> (Panic p, w'))"

lemma act_run [simp, act_simps]:
  "ret v w = (Ok v, w)" "throw e w = (Err e, w)" "panic p w = (Panic p, w)"
  "lift r w = (r, w)" "gets f w = (Ok (f w), w)" "modify g w = (Ok (), g w)"
  "query h w = (h w, w)"
  by (simp_all add: query_def ret_def throw_def panic_def lift_def gets_def modify_def)

lemma bindA_run [act_simps]:
  "m w = (Ok v, w') \<Longrightarrow> bindA m f w = f v w'"
  "m w = (Err e, w') \<Longrightarrow> bindA m f w = (Err e, w')"
  "m w = (Panic p, w') \<Longrightarrow> bindA m f w = (Panic p, w')"
  by (simp_all add: bindA_def)

lemma bindA_simps [simp, act_simps]:
  "bindA (ret v) f w = f v w" "bindA (throw e) f w = (Err e, w)"
  "bindA (panic p) f w = (Panic p, w)"
  "bindA (lift (Ok v)) f w = f v w" "bindA (lift (Err e)) f w = (Err e, w)"
  "bindA (lift (Panic p)) f w = (Panic p, w)"
  "bindA (gets g) f w = f (g w) w" "bindA (modify h) k w = k () (h w)"
  by (simp_all add: bindA_def)

lemma bindA_OkE:
  assumes "bindA m f w = (Ok v, w')"
  obtains u w1 where "m w = (Ok u, w1)" and "f u w1 = (Ok v, w')"
  using assms by (cases "m w"; cases "fst (m w)") (auto simp: bindA_def)

lemma bindA_Ok_iff:
  "bindA m f w = (Ok v, w') \<longleftrightarrow> (\<exists>u w1. m w = (Ok u, w1) \<and> f u w1 = (Ok v, w'))"
  by (cases "m w"; cases "fst (m w)") (auto simp: bindA_def)

lemma bindA_lift_Ok_iff:
  "bindA (lift r) f w = (Ok v, w') \<longleftrightarrow> (\<exists>u. r = Ok u \<and> f u w = (Ok v, w'))"
  by (cases r) auto

lemma bindA_query [simp]: "bindA (query h) f w = bindA (lift (h w)) f w"
  by (simp add: bindA_def)

lemma bindA_assoc: "bindA (bindA m f) g = bindA m (\<lambda>x. bindA (f x) g)"
  by (rule ext) (auto simp: bindA_def split: prod.splits res.splits)

lemma if_run [act_simps]: "(if b then m else n) w = (if b then m w else n w)"
  by simp

text \<open>
  A frame rule: an action preserves an observation \<open>P\<close> of the state when every exit, error and
  panic exits included, does.
\<close>

definition preserves :: "('w \<Rightarrow> 'b) \<Rightarrow> ('w, 'a) act \<Rightarrow> bool" where
  "preserves obs m \<longleftrightarrow> (\<forall>w. obs (snd (m w)) = obs w)"

lemma preservesD: "preserves obs m \<Longrightarrow> m w = (r, w') \<Longrightarrow> obs w' = obs w"
  unfolding preserves_def by (metis snd_conv)

lemma preserves_basic [intro!, simp]:
  "preserves obs (ret v)" "preserves obs (throw e)" "preserves obs (panic p)"
  "preserves obs (lift r)" "preserves obs (gets f)" "preserves obs (query h)"
  by (simp_all add: preserves_def)

lemma preserves_modify: "(\<And>w. obs (f w) = obs w) \<Longrightarrow> preserves obs (modify f)"
  by (simp add: preserves_def)

lemma preserves_bindA [intro]:
  assumes "preserves obs m" and "\<And>v. preserves obs (f v)"
  shows "preserves obs (bindA m f)"
  using assms unfolding preserves_def bindA_def
  by (auto split: prod.splits res.splits) (metis snd_conv)+

lemma preserves_if [intro]:
  "preserves obs m \<Longrightarrow> preserves obs n \<Longrightarrow> preserves obs (if b then m else n)"
  by simp

text \<open>
  Two weaker forms: \<open>when_ok\<close> keeps the observation on the exits without an error, \<open>unless_ok\<close> on the
  error and panic exits.
\<close>

definition when_ok :: "('w \<Rightarrow> 'b) \<Rightarrow> ('w, 'a) act \<Rightarrow> bool" where
  "when_ok obs m \<longleftrightarrow> (\<forall>w v w'. m w = (Ok v, w') \<longrightarrow> obs w' = obs w)"

lemma when_okD: "when_ok obs m \<Longrightarrow> m w = (Ok v, w') \<Longrightarrow> obs w' = obs w"
  by (simp add: when_ok_def)

lemma preserves_when_ok: "preserves obs m \<Longrightarrow> when_ok obs m"
  unfolding when_ok_def by (metis preservesD)

lemma when_ok_basic [intro!, simp]:
  "when_ok obs (ret v)" "when_ok obs (throw e)" "when_ok obs (panic p)"
  "when_ok obs (lift r)" "when_ok obs (gets f)" "when_ok obs (query h)"
  by (simp_all add: preserves_when_ok)

lemma when_ok_modify: "(\<And>w. obs (f w) = obs w) \<Longrightarrow> when_ok obs (modify f)"
  by (simp add: when_ok_def)

lemma when_ok_bindA:
  assumes "when_ok obs m" and "\<And>v. when_ok obs (f v)"
  shows "when_ok obs (bindA m f)"
  unfolding when_ok_def
proof (intro allI impI)
  fix w v w'
  assume "bindA m f w = (Ok v, w')"
  then obtain u w1 where "m w = (Ok u, w1)" "f u w1 = (Ok v, w')" by (rule bindA_OkE)
  then show "obs w' = obs w" using assms when_okD by metis
qed

definition unless_ok :: "('w \<Rightarrow> 'b) \<Rightarrow> ('w, 'a) act \<Rightarrow> bool" where
  "unless_ok obs m \<longleftrightarrow> (\<forall>w. \<not> is_ok (fst (m w)) \<longrightarrow> obs (snd (m w)) = obs w)"

lemma unless_okD: "unless_ok obs m \<Longrightarrow> m w = (r, w') \<Longrightarrow> \<not> is_ok r \<Longrightarrow> obs w' = obs w"
  unfolding unless_ok_def by (metis fst_conv snd_conv)

lemma preserves_unless_ok: "preserves obs m \<Longrightarrow> unless_ok obs m"
  by (simp add: preserves_def unless_ok_def)

lemma unless_ok_basic [intro!, simp]:
  "unless_ok obs (ret v)" "unless_ok obs (throw e)" "unless_ok obs (panic p)"
  "unless_ok obs (lift r)" "unless_ok obs (gets f)" "unless_ok obs (query h)"
  "unless_ok obs (modify g)"
  by (simp_all add: unless_ok_def preserves_unless_ok)

lemma unless_ok_if:
  "unless_ok obs m \<Longrightarrow> unless_ok obs n \<Longrightarrow> unless_ok obs (if b then m else n)"
  by simp

lemma unless_ok_bindA:
  assumes "preserves obs m" and "\<And>v. unless_ok obs (f v)"
  shows "unless_ok obs (bindA m f)"
  unfolding unless_ok_def
proof (intro allI impI)
  fix w
  assume n: "\<not> is_ok (fst (bindA m f w))"
  obtain r w1 where m: "m w = (r, w1)" by (cases "m w")
  then have "obs w1 = obs w" using assms(1) preservesD by metis
  with n m show "obs (snd (bindA m f w)) = obs w"
    using assms(2) by (cases r) (auto simp: bindA_def unless_ok_def)
qed

text \<open>A last step that cannot fail does not matter: everything after a write returns \<open>Ok\<close>.\<close>

definition always_ok :: "('w, 'a) act \<Rightarrow> bool" where
  "always_ok m \<longleftrightarrow> (\<forall>w. is_ok (fst (m w)))"

lemma always_ok_intros [intro!, simp]:
  "always_ok (ret v)" "always_ok (gets f)" "always_ok (modify g)"
  by (simp_all add: always_ok_def)

lemma always_ok_bindA: "always_ok m \<Longrightarrow> (\<And>v. always_ok (f v)) \<Longrightarrow> always_ok (bindA m f)"
  unfolding always_ok_def bindA_def by (auto split: prod.splits res.splits) (metis fst_conv is_ok.simps)+

lemma unless_ok_bindA_ok:
  assumes "unless_ok obs m" and "\<And>v. always_ok (f v)"
  shows "unless_ok obs (bindA m f)"
  unfolding unless_ok_def
proof (intro allI impI)
  fix w
  assume n: "\<not> is_ok (fst (bindA m f w))"
  obtain r w1 where m: "m w = (r, w1)" by (cases "m w")
  have "\<not> is_ok r" using n m assms(2) by (cases r) (auto simp: bindA_def always_ok_def)
  with m show "obs (snd (bindA m f w)) = obs w"
    using unless_okD [OF assms(1) m] by (cases r) (auto simp: bindA_def)
qed

text \<open>The errors of a call, wrapped, or turned into a panic with the error's text.\<close>

definition wrap_err :: "(error \<Rightarrow> error) \<Rightarrow> ('w, 'a) act \<Rightarrow> ('w, 'a) act" where
  "wrap_err f m w = (case m w of (r, w') \<Rightarrow> (mapErr f r, w'))"

definition or_panic :: "string \<Rightarrow> 'a res \<Rightarrow> 'a res" where
  "or_panic what r = (case r of Err e \<Rightarrow> Panic (what @ ErrorText e) | other \<Rightarrow> other)"

definition must :: "string \<Rightarrow> ('w, 'a) act \<Rightarrow> ('w, 'a) act" where
  "must what m w = (case m w of (r, w') \<Rightarrow> (or_panic what r, w'))"

text \<open>A result that the code drops: only a panic goes on.\<close>

definition ignore :: "('w, 'a) act \<Rightarrow> ('w, unit) act" where
  "ignore m w = (case m w of (Panic p, w') \<Rightarrow> (Panic p, w') | (_, w') \<Rightarrow> (Ok (), w'))"

lemma or_panic_simps [simp]:
  "or_panic t (Ok v) = Ok v" "or_panic t (Err e) = Panic (t @ ErrorText e)" "or_panic t (Panic p) = Panic p"
  by (simp_all add: or_panic_def)

lemma or_panic_Ok [simp]: "or_panic t r = Ok v \<longleftrightarrow> r = Ok v"
  by (cases r) simp_all

lemma or_panic_not_Err [simp]: "or_panic t r \<noteq> Err e"
  by (cases r) simp_all

lemma wrap_err_run [simp]:
  "wrap_err f (lift r) w = (mapErr f r, w)" "wrap_err f (query h) w = (mapErr f (h w), w)"
  by (simp_all add: wrap_err_def)

lemma bindA_wrap_lift [simp]:
  "bindA (wrap_err f (lift r)) g w = bindA (lift (mapErr f r)) g w"
  "bindA (wrap_err f (query h)) g w = bindA (lift (mapErr f (h w))) g w"
  by (simp_all add: bindA_def)

lemma wrap_must_Ok [simp]:
  "wrap_err f m w = (Ok v, w') \<longleftrightarrow> m w = (Ok v, w')" "must t m w = (Ok v, w') \<longleftrightarrow> m w = (Ok v, w')"
  by (auto simp: wrap_err_def must_def split: prod.splits)

lemma must_not_Err [simp]: "must t m w \<noteq> (Err e, w')"
  by (auto simp: must_def split: prod.splits)

lemma wrap_err_is_ok [simp]: "is_ok (fst (wrap_err f m w)) = is_ok (fst (m w))"
  by (cases "m w"; cases "fst (m w)") (auto simp: wrap_err_def)

lemma preserves_wrap_must [intro]:
  "preserves obs m \<Longrightarrow> preserves obs (wrap_err f m)" "preserves obs m \<Longrightarrow> preserves obs (must t m)"
  by (auto simp: preserves_def wrap_err_def must_def split: prod.splits) (metis snd_conv)+

section \<open>Lists and maps\<close>

lemma sorted_distinct_map_fst_unique:
  fixes xs ys :: "('a::linorder \<times> 'b) list"
  assumes "sorted (map fst xs)" "distinct (map fst xs)"
    and "sorted (map fst ys)" "distinct (map fst ys)" and "set xs = set ys"
  shows "xs = ys"
proof -
  from assms(2) have "inj_on fst (set xs \<union> set ys)"
    using assms(5) by (simp add: distinct_map)
  then show ?thesis
    using assms by (intro map_sorted_distinct_set_unique [where f = fst]) auto
qed

lemma prefix_free_append:
  assumes "xs @ c # ys = xs' @ c # ys'" and "c \<notin> set xs" and "c \<notin> set xs'"
  shows "xs = xs' \<and> ys = ys'"
  using assms
proof (induction xs arbitrary: xs')
  case Nil
  then show ?case by (cases xs') auto
next
  case (Cons x xs)
  then show ?case by (cases xs') auto
qed

end
