(* ===== verification/GoLib.thy ===== *)
theory GoLib
  imports Prelude "HOL-Library.Word" "HOL-Library.List_Lexorder" "HOL-Library.Char_ord"
begin

text \<open>
  The part of the Go language and its standard library that the repository uses: byte strings
  (\<open>string\<close> and \<open>[]byte\<close> are both lists of 8-bit characters, so \<open>len\<close> is \<open>length\<close> and the
  conversions between the two are the identity), the functions of package strings, the ordering
  of sort.Strings, decimal formatting, \<open>url.QueryUnescape\<close> and the wrap-around of 64-bit \<open>int\<close>.
\<close>

unbundle bit_operations_syntax

type_synonym bytes = string

section \<open>Machine integers\<close>

type_synonym u64 = "64 word"

text \<open>\<open>int\<close> and \<open>int64\<close> are 64-bit two's complement: the value of an expression is wrapped.\<close>

definition wrap64 :: "int \<Rightarrow> int" where
  "wrap64 x = (x + 2 ^ 63) mod 2 ^ 64 - 2 ^ 63"

lemma wrap64_id [simp]: "- (2 ^ 63) \<le> x \<Longrightarrow> x < 2 ^ 63 \<Longrightarrow> wrap64 x = x"
  unfolding wrap64_def by (subst mod_pos_pos_trivial) auto

lemma wrap64_range: "- (2 ^ 63) \<le> wrap64 x" "wrap64 x < 2 ^ 63"
  unfolding wrap64_def
  using pos_mod_sign [of "2 ^ 64" "x + 2 ^ 63"] pos_mod_bound [of "2 ^ 64" "x + 2 ^ 63"]
  by simp_all

lemma wrap64_overflow:
  assumes "2 ^ 63 \<le> x" "x < 2 ^ 64"
  shows "wrap64 x = x - 2 ^ 64"
proof -
  have "(x + 2 ^ 63) mod 2 ^ 64 = (x + 2 ^ 63 - 2 ^ 64) mod 2 ^ 64"
    by (rule minus_mod_self2 [symmetric])
  also have "\<dots> = x + 2 ^ 63 - 2 ^ 64"
    using assms by (intro mod_pos_pos_trivial) auto
  finally show ?thesis by (simp add: wrap64_def)
qed

lemma wrap64_nat_plus:
  assumes "0 \<le> a" "a < 2 ^ 63" "0 \<le> b" "b < 2 ^ 63"
  shows "0 \<le> wrap64 (a + b) \<longleftrightarrow> a + b < 2 ^ 63"
  using assms wrap64_overflow [of "a + b"] by (cases "a + b < 2 ^ 63") auto

section \<open>Slices\<close>

text \<open>A Go slice that may be nil.\<close>

definition slice :: "'x list option \<Rightarrow> 'x list" where
  "slice x = (case x of None \<Rightarrow> [] | Some xs \<Rightarrow> xs)"

definition unslice :: "'x list \<Rightarrow> 'x list option" where
  "unslice xs = (if xs = [] then None else Some xs)"

lemma slice_simps [simp]:
  "slice None = []" "slice (Some xs) = xs" "slice (unslice xs) = xs" "unslice [] = None"
  "unslice (xs @ [x]) = Some (xs @ [x])"
  by (simp_all add: slice_def unslice_def)

lemma unslice_slice [simp]: "x \<noteq> Some [] \<Longrightarrow> unslice (slice x) = x"
  by (cases x) (simp_all add: unslice_def)

section \<open>Package strings\<close>

definition HasPrefix :: "string \<Rightarrow> string \<Rightarrow> bool" where
  "HasPrefix s p \<longleftrightarrow> take (length p) s = p"

fun Contains :: "string \<Rightarrow> string \<Rightarrow> bool" where
  "Contains [] sub = (sub = [])"
| "Contains (c # s) sub = (HasPrefix (c # s) sub \<or> Contains s sub)"

lemma HasPrefix_append [simp]: "HasPrefix (p @ s) p"
  by (simp add: HasPrefix_def)

lemma Contains_iff: "Contains s sub \<longleftrightarrow> (\<exists>a b. s = a @ sub @ b)"
proof (induction s)
  case Nil
  show ?case by auto
next
  case (Cons c s)
  have "HasPrefix (c # s) sub \<longleftrightarrow> (\<exists>b. c # s = sub @ b)"
    unfolding HasPrefix_def by (metis append_eq_conv_conj append_take_drop_id)
  with Cons show ?case
    by (simp, metis append_Cons append_Nil list.exhaust list.inject)
qed

lemma Contains_char [simp]: "Contains s [c] \<longleftrightarrow> c \<in> set s"
  by (simp add: Contains_iff in_set_conv_decomp)

text \<open>\<open>strings.Split\<close> with a one-byte separator, and \<open>strings.Join\<close>.\<close>

fun Split :: "string \<Rightarrow> char \<Rightarrow> string list" where
  "Split [] c = [[]]"
| "Split (x # xs) c =
     (if x = c then [] # Split xs c
      else (case Split xs c of [] \<Rightarrow> [[x]] | y # ys \<Rightarrow> (x # y) # ys))"

fun Join :: "string list \<Rightarrow> string \<Rightarrow> string" where
  "Join [] sep = []"
| "Join [s] sep = s"
| "Join (s # t # r) sep = s @ sep @ Join (t # r) sep"

lemma Split_not_Nil [simp]: "Split s c \<noteq> []"
  by (cases s) (auto split: list.splits)

lemma Split_no_sep: "c \<notin> set s \<Longrightarrow> Split s c = [s]"
  by (induction s) auto

lemma Split_sep: "c \<notin> set x \<Longrightarrow> Split (x @ c # y) c = x # Split y c"
  by (induction x) auto

lemma Join_Cons: "ts \<noteq> [] \<Longrightarrow> Join (s # ts) sep = s @ sep @ Join ts sep"
  by (cases ts) auto

lemma Join_Split [simp]: "Join (Split s c) [c] = s"
proof (induction s)
  case Nil
  show ?case by simp
next
  case (Cons x s)
  obtain y ys where ys: "Split s c = y # ys" by (cases "Split s c") auto
  show ?case
  proof (cases "x = c")
    case True
    with Cons ys show ?thesis by simp
  next
    case False
    with Cons ys show ?thesis by (cases ys) auto
  qed
qed

lemma Split_parts_no_sep: "p \<in> set (Split s c) \<Longrightarrow> c \<notin> set p"
  by (induction s arbitrary: p) (auto split: if_splits list.splits)

lemma Split_Cons_decomp:
  assumes "Split s c = p # q # r"
  shows "s = p @ c # Join (q # r) [c]" and "c \<notin> set p"
  using assms Join_Split [of s c] Split_parts_no_sep [of p s c] by auto

section \<open>Decimal formatting and hexadecimal digits\<close>

fun digits :: "nat \<Rightarrow> string" where
  "digits n = (if n < 10 then [char_of (48 + n)] else digits (n div 10) @ [char_of (48 + n mod 10)])"

declare digits.simps [simp del]

definition itoa :: "int \<Rightarrow> string" where
  "itoa x = (if x < 0 then ''-'' @ digits (nat (- x)) else digits (nat x))"

definition unhex :: "char \<Rightarrow> nat option" where
  "unhex c = (let n = (of_char c :: nat) in
     if 48 \<le> n \<and> n \<le> 57 then Some (n - 48)
     else if 97 \<le> n \<and> n \<le> 102 then Some (n - 97 + 10)
     else if 65 \<le> n \<and> n \<le> 70 then Some (n - 65 + 10)
     else None)"

text \<open>\<open>url.QueryUnescape\<close>: \<open>%XY\<close> is a byte, \<open>+\<close> a space, a bad escape an error (\<open>None\<close>).\<close>

fun QueryUnescape :: "string \<Rightarrow> string option" where
  "QueryUnescape [] = Some []"
| "QueryUnescape (c # s) =
     (if c = CHR ''%'' then
        (case s of
           a # b # r \<Rightarrow>
             (case (unhex a, unhex b) of
                (Some h, Some l) \<Rightarrow> map_option (\<lambda>t. char_of (16 * h + l) # t) (QueryUnescape r)
              | _ \<Rightarrow> None)
         | _ \<Rightarrow> None)
      else map_option (\<lambda>t. (if c = CHR ''+'' then CHR '' '' else c) # t) (QueryUnescape s))"

lemma QueryUnescape_plain:
  "CHR ''%'' \<notin> set s \<Longrightarrow> CHR ''+'' \<notin> set s \<Longrightarrow> QueryUnescape s = Some s"
  by (induction s) auto

end
