(* ===== verification/Sdk.thy ===== *)
theory Sdk
  imports GoLib
begin

text \<open>
  What the repository uses of the Cosmos SDK, CosmWasm and the other modules. Their code is not
  part of the repository, so it is a parameter of the model: a record of functions per interface,
  over an arbitrary type \<open>'w\<close> of chain contexts. The records \<open>BankKeeper\<close>, \<open>AccountKeeper\<close>,
  \<open>CommunityPoolKeeper\<close> and \<open>ContractKeeper\<close> are the Go interfaces of
  x/tokenfactory/types/expected_keepers.go; \<open>Sdk\<close> holds the pure functions of the SDK's types
  packages, \<open>Ctx\<close> what \<open>sdk.Context\<close> gives (the module's KV store behind \<open>prefix.NewStore\<close>, the gas
  meter, the event manager) and \<open>ParamSubspace\<close> the module's legacy parameter subspace.

  The predicates at the end state the documented behaviour the theorems rely on; each is a
  hypothesis, by name, of the theorems that need it. The gas that the store operations charge is
  not modelled; the explicit \<open>ConsumeGas\<close> calls of the repository are.
\<close>

section \<open>Data\<close>

type_synonym addr = bytes

record Coin =
  coin_denom :: string
  coin_amount :: int

record DenomUnit =
  du_denom :: string
  du_exponent :: "32 word"
  du_aliases :: "string list"

record Metadata =
  md_description :: string
  md_denom_units :: "DenomUnit list"
  md_base :: string
  md_display :: string
  md_name :: string
  md_symbol :: string
  md_uri :: string
  md_uri_hash :: string

type_synonym Event = "string \<times> (string \<times> string) list"

text \<open>An account: what the code looks at is whether it implements \<open>sdk.ModuleAccountI\<close>.\<close>

datatype AccountI = BaseAccount addr | ModuleAccount addr

section \<open>The interfaces\<close>

record Sdk =
  AccAddressFromBech32 :: "string \<Rightarrow> addr res"
  AccAddressString :: "addr \<Rightarrow> string"
  ValidateDenom :: "string \<Rightarrow> error option"
  MetadataValidate :: "Metadata \<Rightarrow> error option"
  MetadataString :: "Metadata \<Rightarrow> string"
  CoinIsValid :: "Coin \<Rightarrow> bool"
  CoinString :: "Coin \<Rightarrow> string"
  NewCoins :: "Coin list \<Rightarrow> Coin list res"
  CoinsValidate :: "Coin list \<Rightarrow> error option"
  CoinsString :: "Coin list \<Rightarrow> string"
  NewModuleAddress :: "string \<Rightarrow> addr"

record 'w Ctx =
  StoreGet :: "'w \<Rightarrow> bytes \<Rightarrow> bytes \<Rightarrow> bytes option"
  StoreSet :: "bytes \<Rightarrow> bytes \<Rightarrow> bytes \<Rightarrow> 'w \<Rightarrow> 'w"
  StoreDelete :: "bytes \<Rightarrow> bytes \<Rightarrow> 'w \<Rightarrow> 'w"
  StoreIterator :: "'w \<Rightarrow> bytes \<Rightarrow> (bytes \<times> bytes) list"
  GasRemaining :: "'w \<Rightarrow> u64"
  GasConsumed :: "'w \<Rightarrow> u64"
  ConsumeGas :: "u64 \<Rightarrow> string \<Rightarrow> ('w, unit) act"
  WithGasMeter :: "u64 \<Rightarrow> 'w \<Rightarrow> 'w"
  WithStoreOf :: "'w \<Rightarrow> 'w \<Rightarrow> 'w"
  DropCache :: "'w \<Rightarrow> 'w \<Rightarrow> 'w"
  EmitEvent :: "Event \<Rightarrow> 'w \<Rightarrow> 'w"

record 'w BankKeeper =
  GetDenomMetaData :: "'w \<Rightarrow> string \<Rightarrow> Metadata option"
  SetDenomMetaData :: "Metadata \<Rightarrow> 'w \<Rightarrow> 'w"
  HasSupply :: "'w \<Rightarrow> string \<Rightarrow> bool"
  SendCoinsFromModuleToAccount :: "string \<Rightarrow> addr \<Rightarrow> Coin list \<Rightarrow> ('w, unit) act"
  SendCoinsFromAccountToModule :: "addr \<Rightarrow> string \<Rightarrow> Coin list \<Rightarrow> ('w, unit) act"
  MintCoins :: "string \<Rightarrow> Coin list \<Rightarrow> ('w, unit) act"
  BurnCoins :: "string \<Rightarrow> Coin list \<Rightarrow> ('w, unit) act"
  SendCoins :: "addr \<Rightarrow> addr \<Rightarrow> Coin list \<Rightarrow> ('w, unit) act"
  HasBalance :: "'w \<Rightarrow> addr \<Rightarrow> Coin \<Rightarrow> bool"

record 'w AccountKeeper =
  GetAccount :: "'w \<Rightarrow> addr \<Rightarrow> AccountI option"
  GetModuleAccount :: "string \<Rightarrow> ('w, addr option) act"

record 'w CommunityPoolKeeper =
  FundCommunityPool :: "Coin list \<Rightarrow> addr \<Rightarrow> ('w, unit) act"

record 'w ContractKeeper =
  Sudo :: "addr \<Rightarrow> bytes \<Rightarrow> ('w, bytes) act"

text \<open>
  A parameter value in the subspace: a \<open>sdk.Coins\<close> (nil is \<open>None\<close>), a \<open>uint64\<close>, or a value of
  another type. \<open>SetParamSet\<close> gets the pairs of \<open>ParamSetPairs\<close>: key, value and validation function.
\<close>

datatype param_value = PVCoins "Coin list option" | PVUint64 u64 | PVOther string

type_synonym ParamSetPair = "bytes \<times> param_value \<times> (param_value \<Rightarrow> error option)"

record 'w ParamSubspace =
  SubspaceHas :: "'w \<Rightarrow> bytes \<Rightarrow> bool"
  SubspaceGetIfExists :: "'w \<Rightarrow> bytes \<Rightarrow> param_value option"
  SubspaceSet :: "bytes \<Rightarrow> param_value \<Rightarrow> ('w, unit) act"
  SubspaceSetParamSet :: "ParamSetPair list \<Rightarrow> ('w, unit) act"

text \<open>
  The JSON encoding of a module's genesis state, a collections item in the store of a module (one
  value, \<open>ErrNotFound\<close> when it was never set) and the address codec.
\<close>

record 'g JSONCodec =
  MarshalJSON :: "'g \<Rightarrow> string res"
  UnmarshalJSON :: "string \<Rightarrow> 'g res"

record ('w, 'v) Item =
  ItemGet :: "'w \<Rightarrow> 'v res"
  ItemSet :: "'v \<Rightarrow> ('w, unit) act"

record AddressCodec =
  StringToBytes :: "string \<Rightarrow> bytes res"
  BytesToString :: "bytes \<Rightarrow> string res"

section \<open>Documented behaviour\<close>

text \<open>
  The KV store behind a prefix is the module's store with the prefix put before the key; its
  iterator gives the entries under the prefix, prefix removed, in ascending order of the keys.
  Events and gas are not in the store. \<open>WithStoreOf w s\<close> is the context \<open>w\<close> (its gas meter, its
  events) after calls made in a context derived from it have left the store of \<open>s\<close>;
  \<open>DropCache w s\<close> is the context \<open>w\<close> after calls made in \<open>w.CacheContext()\<close> have led to \<open>s\<close> and the
  cache is not written back: the store is that of \<open>w\<close>.
\<close>

definition kv :: "'w Ctx \<Rightarrow> 'w \<Rightarrow> bytes \<rightharpoonup> bytes" where
  "kv c w key = StoreGet c w [] key"

definition kv_laws :: "'w Ctx \<Rightarrow> bool" where
  "kv_laws c \<longleftrightarrow>
     (\<forall>w p k. StoreGet c w p k = kv c w (p @ k)) \<and>
     (\<forall>w p k v. kv c (StoreSet c p k v w) = (kv c w)(p @ k \<mapsto> v)) \<and>
     (\<forall>w p k. kv c (StoreDelete c p k w) = (kv c w)(p @ k := None)) \<and>
     (\<forall>w p. sorted (map fst (StoreIterator c w p)) \<and> distinct (map fst (StoreIterator c w p))
        \<and> (\<forall>k v. (k, v) \<in> set (StoreIterator c w p) \<longleftrightarrow> kv c w (p @ k) = Some v)) \<and>
     (\<forall>e w. kv c (EmitEvent c e w) = kv c w) \<and>
     (\<forall>g d. preserves (kv c) (ConsumeGas c g d)) \<and>
     (\<forall>g w. kv c (WithGasMeter c g w) = kv c w) \<and>
     (\<forall>w s. kv c (WithStoreOf c w s) = kv c s) \<and>
     (\<forall>w s. kv c (DropCache c w s) = kv c w)"

lemma kv_get: "kv_laws c \<Longrightarrow> StoreGet c w p k = kv c w (p @ k)"
  by (simp add: kv_laws_def)

lemma kv_frame [frame_simps]:
  assumes "kv_laws c"
  shows "kv c (StoreSet c p k v w) = (kv c w)(p @ k \<mapsto> v)"
    and "kv c (StoreDelete c p k w) = (kv c w)(p @ k := None)"
    and "kv c (EmitEvent c e w) = kv c w"
    and "kv c (WithGasMeter c g w) = kv c w"
    and "kv c (WithStoreOf c w s) = kv c s"
    and "kv c (DropCache c w s) = kv c w"
  using assms by (cases e; simp add: kv_laws_def)+

lemma kv_ConsumeGas [frame_simps]: "kv_laws c \<Longrightarrow> preserves (kv c) (ConsumeGas c g d)"
  unfolding kv_laws_def by blast

lemma kv_iterator:
  assumes "kv_laws c"
  shows "sorted (map fst (StoreIterator c w p))" "distinct (map fst (StoreIterator c w p))"
    "(k, v) \<in> set (StoreIterator c w p) \<longleftrightarrow> kv c w (p @ k) = Some v"
  using assms by (simp_all add: kv_laws_def)

lemma kv_iterator_cong:
  assumes "kv_laws c" and "\<And>k. kv c w (p @ k) = kv c w' (p @ k)"
  shows "StoreIterator c w p = StoreIterator c w' p"
  using assms(2) kv_iterator [OF assms(1)]
  by (intro sorted_distinct_map_fst_unique) (auto simp: kv_iterator [OF assms(1)])

text \<open>
  Denominations match \<open>[a-zA-Z][a-zA-Z0-9/:._-]{2,127}\<close>; a bech32 account address of the chain is
  the prefix lumi, the separator 1 and at most 1023 characters of lower or upper case letters and
  digits, and the text of a decoded address decodes to the same address. \<open>NewCoins()\<close> is the empty,
  valid set of coins.
\<close>

definition denom_char :: "char \<Rightarrow> bool" where
  "denom_char c \<longleftrightarrow> (let n = (of_char c :: nat) in
     (48 \<le> n \<and> n \<le> 57) \<or> (65 \<le> n \<and> n \<le> 90) \<or> (97 \<le> n \<and> n \<le> 122)
     \<or> c \<in> set ''/:._-'')"

definition alnum :: "char \<Rightarrow> bool" where
  "alnum c \<longleftrightarrow> (let n = (of_char c :: nat) in
     (48 \<le> n \<and> n \<le> 57) \<or> (65 \<le> n \<and> n \<le> 90) \<or> (97 \<le> n \<and> n \<le> 122))"

definition sdk_laws :: "Sdk \<Rightarrow> bool" where
  "sdk_laws S \<longleftrightarrow>
     (\<forall>d. ValidateDenom S d = None \<longrightarrow>
        3 \<le> length d \<and> length d \<le> 128 \<and> list_all denom_char d) \<and>
     (\<forall>s a. AccAddressFromBech32 S s = Ok a \<longrightarrow>
        s \<noteq> [] \<and> length s \<le> 1023 \<and> list_all alnum s
        \<and> AccAddressFromBech32 S (AccAddressString S a) = Ok a) \<and>
     (\<forall>s p. AccAddressFromBech32 S s \<noteq> Panic p) \<and>
     NewCoins S [] = Ok [] \<and> CoinsValidate S [] = None"

lemma denom_char_bar: "\<not> denom_char CHR ''|''"
  by (simp add: denom_char_def)

lemma alnum_slash: "\<not> alnum CHR ''/''"
  by (simp add: alnum_def)

lemma sdk_denom:
  assumes "sdk_laws S" "ValidateDenom S d = None"
  shows "3 \<le> length d" "length d \<le> 128" "CHR ''|'' \<notin> set d"
  using assms denom_char_bar unfolding sdk_laws_def by (auto simp: list_all_iff)

lemma sdk_empty_coins:
  assumes "sdk_laws S"
  shows "NewCoins S [] = Ok []" "CoinsValidate S [] = None"
  using assms by (simp_all add: sdk_laws_def)

lemma sdk_bech32_not_Panic: "sdk_laws S \<Longrightarrow> AccAddressFromBech32 S s \<noteq> Panic p"
  by (simp add: sdk_laws_def)

lemma sdk_bech32:
  assumes "sdk_laws S" "AccAddressFromBech32 S s = Ok a"
  shows "s \<noteq> []" "length s \<le> 1023" "CHR ''/'' \<notin> set s"
    "AccAddressFromBech32 S (AccAddressString S a) = Ok a"
  using assms alnum_slash unfolding sdk_laws_def by (auto simp: list_all_iff)

text \<open>
  The other keepers write to their own stores: no bank, account, community pool or parameter
  operation touches the module's KV store, and the module's store operations, events and gas do
  not touch the bank's denom metadata. The metadata set for a base denom is the one read back.
\<close>

definition bank_store_laws :: "'w Ctx \<Rightarrow> 'w BankKeeper \<Rightarrow> bool" where
  "bank_store_laws c B \<longleftrightarrow>
     (\<forall>m w. kv c (SetDenomMetaData B m w) = kv c w) \<and>
     (\<forall>m a cs. preserves (kv c) (SendCoinsFromModuleToAccount B m a cs)) \<and>
     (\<forall>a m cs. preserves (kv c) (SendCoinsFromAccountToModule B a m cs)) \<and>
     (\<forall>m cs. preserves (kv c) (MintCoins B m cs)) \<and>
     (\<forall>m cs. preserves (kv c) (BurnCoins B m cs)) \<and>
     (\<forall>a b cs. preserves (kv c) (SendCoins B a b cs))"

lemma bank_store:
  assumes "bank_store_laws c B"
  shows "kv c (SetDenomMetaData B m w) = kv c w"
    and "preserves (kv c) (SendCoinsFromModuleToAccount B n a cs)"
    and "preserves (kv c) (SendCoinsFromAccountToModule B a n cs)"
    and "preserves (kv c) (MintCoins B n cs)"
    and "preserves (kv c) (BurnCoins B n cs)"
    and "preserves (kv c) (SendCoins B a b cs)"
  using assms by (simp_all add: bank_store_laws_def)

definition bank_metadata_laws :: "'w Ctx \<Rightarrow> 'w BankKeeper \<Rightarrow> bool" where
  "bank_metadata_laws c B \<longleftrightarrow>
     (\<forall>m w. GetDenomMetaData B (SetDenomMetaData B m w)
        = (GetDenomMetaData B w)(md_base m \<mapsto> m)) \<and>
     (\<forall>p k v w. GetDenomMetaData B (StoreSet c p k v w) = GetDenomMetaData B w) \<and>
     (\<forall>p k w. GetDenomMetaData B (StoreDelete c p k w) = GetDenomMetaData B w) \<and>
     (\<forall>e w. GetDenomMetaData B (EmitEvent c e w) = GetDenomMetaData B w) \<and>
     (\<forall>g d. preserves (GetDenomMetaData B) (ConsumeGas c g d)) \<and>
     (\<forall>w s. GetDenomMetaData B (DropCache c w s) = GetDenomMetaData B w) \<and>
     (\<forall>m a cs. preserves (GetDenomMetaData B) (SendCoinsFromModuleToAccount B m a cs)) \<and>
     (\<forall>a m cs. preserves (GetDenomMetaData B) (SendCoinsFromAccountToModule B a m cs)) \<and>
     (\<forall>m cs. preserves (GetDenomMetaData B) (MintCoins B m cs)) \<and>
     (\<forall>m cs. preserves (GetDenomMetaData B) (BurnCoins B m cs)) \<and>
     (\<forall>a b cs. preserves (GetDenomMetaData B) (SendCoins B a b cs))"

lemma bank_metadata:
  assumes "bank_metadata_laws c B"
  shows "GetDenomMetaData B (SetDenomMetaData B m w) = (GetDenomMetaData B w)(md_base m \<mapsto> m)"
    and "GetDenomMetaData B (StoreSet c p k v w) = GetDenomMetaData B w"
    and "GetDenomMetaData B (StoreDelete c p k w) = GetDenomMetaData B w"
    and "GetDenomMetaData B (EmitEvent c e w) = GetDenomMetaData B w"
    and "preserves (GetDenomMetaData B) (ConsumeGas c g t)"
    and "GetDenomMetaData B (DropCache c w s) = GetDenomMetaData B w"
    and "preserves (GetDenomMetaData B) (SendCoinsFromModuleToAccount B n a cs)"
    and "preserves (GetDenomMetaData B) (SendCoinsFromAccountToModule B a n cs)"
    and "preserves (GetDenomMetaData B) (MintCoins B n cs)"
    and "preserves (GetDenomMetaData B) (BurnCoins B n cs)"
    and "preserves (GetDenomMetaData B) (SendCoins B a b cs)"
  using assms by (cases e; simp add: bank_metadata_laws_def)+

text \<open>
  \<open>SetParamSet\<close> runs each pair's validation function and panics on the first that fails; a value set
  is the value read, and the other parameters stay. The parameters, the accounts and the community
  pool are not in the module's store, and no account or community pool operation touches the bank's
  denom metadata.
\<close>

definition param_laws :: "'w Ctx \<Rightarrow> 'w ParamSubspace \<Rightarrow> bool" where
  "param_laws c P \<longleftrightarrow>
     (\<forall>ps w. distinct (map fst ps) \<and> list_all (\<lambda>(k, v, validate). validate v = None) ps \<longrightarrow>
        (\<exists>w'. SubspaceSetParamSet P ps w = (Ok (), w') \<and>
           (\<forall>key. SubspaceGetIfExists P w' key =
              (case map_of (map (\<lambda>(k, v, _). (k, v)) ps) key of
                 Some v \<Rightarrow> Some v | None \<Rightarrow> SubspaceGetIfExists P w key)))) \<and>
     (\<forall>ps. preserves (kv c) (SubspaceSetParamSet P ps)) \<and>
     (\<forall>k v. preserves (kv c) (SubspaceSet P k v))"

definition other_store_laws :: "'w Ctx \<Rightarrow> 'w BankKeeper \<Rightarrow> 'w AccountKeeper \<Rightarrow>
    'w CommunityPoolKeeper \<Rightarrow> bool" where
  "other_store_laws c B A P \<longleftrightarrow>
     (\<forall>n. preserves (GetDenomMetaData B) (GetModuleAccount A n)) \<and>
     (\<forall>cs a. preserves (GetDenomMetaData B) (FundCommunityPool P cs a)) \<and>
     (\<forall>n. preserves (kv c) (GetModuleAccount A n)) \<and>
     (\<forall>cs a. preserves (kv c) (FundCommunityPool P cs a))"

text \<open>
  The supply of a denomination, as the bank counts it: minting adds the coins, burning takes them
  away, and no other call of an interface changes it when it succeeds. \<open>NewCoins(c)\<close> is \<open>c\<close> alone.
\<close>

definition coins_amount :: "Coin list \<Rightarrow> string \<Rightarrow> int" where
  "coins_amount cs d = sum_list (map coin_amount (filter (\<lambda>c. coin_denom c = d) cs))"

definition supply_laws :: "Sdk \<Rightarrow> 'w Ctx \<Rightarrow> 'w BankKeeper \<Rightarrow> 'w AccountKeeper \<Rightarrow>
    'w CommunityPoolKeeper \<Rightarrow> ('w \<Rightarrow> string \<Rightarrow> int) \<Rightarrow> bool" where
  "supply_laws S c B A P supply \<longleftrightarrow>
     (\<forall>x cs. NewCoins S [x] = Ok cs \<longrightarrow>
        coins_amount cs = (\<lambda>d. if d = coin_denom x then coin_amount x else 0)) \<and>
     (\<forall>m cs w w'. MintCoins B m cs w = (Ok (), w') \<longrightarrow>
        supply w' = (\<lambda>d. supply w d + coins_amount cs d)) \<and>
     (\<forall>m cs w w'. BurnCoins B m cs w = (Ok (), w') \<longrightarrow>
        supply w' = (\<lambda>d. supply w d - coins_amount cs d)) \<and>
     (\<forall>m a cs. when_ok supply (SendCoinsFromModuleToAccount B m a cs)) \<and>
     (\<forall>a m cs. when_ok supply (SendCoinsFromAccountToModule B a m cs)) \<and>
     (\<forall>a b cs. when_ok supply (SendCoins B a b cs)) \<and>
     (\<forall>n. when_ok supply (GetModuleAccount A n)) \<and>
     (\<forall>cs a. when_ok supply (FundCommunityPool P cs a)) \<and>
     (\<forall>g t. when_ok supply (ConsumeGas c g t)) \<and>
     (\<forall>m w. supply (SetDenomMetaData B m w) = supply w) \<and>
     (\<forall>p key v w. supply (StoreSet c p key v w) = supply w) \<and>
     (\<forall>p key w. supply (StoreDelete c p key w) = supply w) \<and>
     (\<forall>t ps w. supply (EmitEvent c (t, ps) w) = supply w) \<and>
     (\<forall>w s. supply (DropCache c w s) = supply w)"

lemma supply_law:
  assumes "supply_laws S c B A P supply"
  shows "NewCoins S [x] = Ok cs \<Longrightarrow>
      coins_amount cs = (\<lambda>d. if d = coin_denom x then coin_amount x else 0)"
    and "MintCoins B m cs w = (Ok (), w') \<Longrightarrow> supply w' = (\<lambda>d. supply w d + coins_amount cs d)"
    and "BurnCoins B m cs w = (Ok (), w') \<Longrightarrow> supply w' = (\<lambda>d. supply w d - coins_amount cs d)"
    and "when_ok supply (SendCoinsFromModuleToAccount B m a cs)"
    and "when_ok supply (SendCoinsFromAccountToModule B a m cs)"
    and "when_ok supply (SendCoins B a b cs)"
    and "when_ok supply (GetModuleAccount A n)"
    and "when_ok supply (FundCommunityPool P cs a)"
    and "when_ok supply (ConsumeGas c g t)"
    and "supply (SetDenomMetaData B md w) = supply w"
    and "supply (StoreSet c p key v w) = supply w"
    and "supply (StoreDelete c p key w) = supply w"
    and "supply (EmitEvent c e w) = supply w"
    and "supply (DropCache c w s) = supply w"
  using assms by (cases e; simp add: supply_laws_def)+

text \<open>The account of a module has the address derived from the module's name.\<close>

definition module_account_laws :: "Sdk \<Rightarrow> 'w AccountKeeper \<Rightarrow> bool" where
  "module_account_laws S A \<longleftrightarrow>
     (\<forall>n w a w'. GetModuleAccount A n w = (Ok (Some a), w') \<longrightarrow> a = NewModuleAddress S n)"

text \<open>What is read back after \<open>MarshalJSON\<close> is what was written; an item holds the value set last.\<close>

definition json_laws :: "'g JSONCodec \<Rightarrow> bool" where
  "json_laws J \<longleftrightarrow> (\<forall>g t. MarshalJSON J g = Ok t \<longrightarrow> UnmarshalJSON J t = Ok g)"

definition item_laws :: "('w, 'v) Item \<Rightarrow> bool" where
  "item_laws I \<longleftrightarrow> (\<forall>v w w'. ItemSet I v w = (Ok (), w') \<longrightarrow> ItemGet I w' = Ok v)
     \<and> (\<forall>v. unless_ok (ItemGet I) (ItemSet I v))"

end
