(* ===== verification/TokenTypes.thy ===== *)
theory TokenTypes
  imports Sdk
begin

text \<open>
  The message, parameter and genesis types of x/tokenfactory: the structs of the generated files
  x/tokenfactory/types/tx.pb.go, params.pb.go, genesis.pb.go and authorityMetadata.pb.go, with the
  constructors and accessors of x/tokenfactory/types/msgs.go.
\<close>

section \<open>Authority metadata, parameters, genesis\<close>

record DenomAuthorityMetadata =
  Admin :: string

text \<open>A nil \<open>sdk.Coins\<close> is \<open>None\<close>.\<close>

record Params =
  DenomCreationFee :: "Coin list option"
  DenomCreationGasConsume :: u64

record GenesisDenom =
  gd_Denom :: string
  gd_AuthorityMetadata :: DenomAuthorityMetadata

record GenesisState =
  gs_Params :: Params
  gs_FactoryDenoms :: "GenesisDenom list"

section \<open>Messages\<close>

record MsgCreateDenom =
  cd_Sender :: string
  cd_Subdenom :: string

record MsgCreateDenomResponse =
  cd_NewTokenDenom :: string

record MsgMint =
  mt_Sender :: string
  mt_Amount :: Coin
  mt_MintToAddress :: string

record MsgBurn =
  bn_Sender :: string
  bn_Amount :: Coin
  bn_BurnFromAddress :: string

record MsgForceTransfer =
  ft_Sender :: string
  ft_Amount :: Coin
  ft_TransferFromAddress :: string
  ft_TransferToAddress :: string

record MsgChangeAdmin =
  ca_Sender :: string
  ca_Denom :: string
  ca_NewAdmin :: string

record MsgSetDenomMetadata =
  sm_Sender :: string
  sm_Metadata :: Metadata

record MsgSetBeforeSendHook =
  sh_Sender :: string
  sh_Denom :: string
  sh_CosmwasmAddress :: string

text \<open>The responses without fields.\<close>

type_synonym MsgMintResponse = unit
type_synonym MsgBurnResponse = unit
type_synonym MsgForceTransferResponse = unit
type_synonym MsgChangeAdminResponse = unit
type_synonym MsgSetDenomMetadataResponse = unit
type_synonym MsgSetBeforeSendHookResponse = unit

section \<open>Constructors\<close>

definition NewMsgCreateDenom :: "string \<Rightarrow> string \<Rightarrow> MsgCreateDenom" where
  "NewMsgCreateDenom sender subdenom = \<lparr>cd_Sender = sender, cd_Subdenom = subdenom\<rparr>"

definition NewMsgMint :: "string \<Rightarrow> Coin \<Rightarrow> MsgMint" where
  "NewMsgMint sender amount = \<lparr>mt_Sender = sender, mt_Amount = amount, mt_MintToAddress = []\<rparr>"

definition NewMsgMintTo :: "string \<Rightarrow> Coin \<Rightarrow> string \<Rightarrow> MsgMint" where
  "NewMsgMintTo sender amount mintToAddress =
     \<lparr>mt_Sender = sender, mt_Amount = amount, mt_MintToAddress = mintToAddress\<rparr>"

definition NewMsgBurn :: "string \<Rightarrow> Coin \<Rightarrow> MsgBurn" where
  "NewMsgBurn sender amount = \<lparr>bn_Sender = sender, bn_Amount = amount, bn_BurnFromAddress = []\<rparr>"

definition NewMsgBurnFrom :: "string \<Rightarrow> Coin \<Rightarrow> string \<Rightarrow> MsgBurn" where
  "NewMsgBurnFrom sender amount burnFromAddress =
     \<lparr>bn_Sender = sender, bn_Amount = amount, bn_BurnFromAddress = burnFromAddress\<rparr>"

definition NewMsgForceTransfer :: "string \<Rightarrow> Coin \<Rightarrow> string \<Rightarrow> string \<Rightarrow> MsgForceTransfer" where
  "NewMsgForceTransfer sender amount fromAddr toAddr =
     \<lparr>ft_Sender = sender, ft_Amount = amount,
      ft_TransferFromAddress = fromAddr, ft_TransferToAddress = toAddr\<rparr>"

definition NewMsgChangeAdmin :: "string \<Rightarrow> string \<Rightarrow> string \<Rightarrow> MsgChangeAdmin" where
  "NewMsgChangeAdmin sender denom newAdmin =
     \<lparr>ca_Sender = sender, ca_Denom = denom, ca_NewAdmin = newAdmin\<rparr>"

definition NewMsgSetDenomMetadata :: "string \<Rightarrow> Metadata \<Rightarrow> MsgSetDenomMetadata" where
  "NewMsgSetDenomMetadata sender metadata = \<lparr>sm_Sender = sender, sm_Metadata = metadata\<rparr>"

definition NewMsgSetBeforeSendHook :: "string \<Rightarrow> string \<Rightarrow> string \<Rightarrow> MsgSetBeforeSendHook" where
  "NewMsgSetBeforeSendHook sender denom cosmwasmAddress =
     \<lparr>sh_Sender = sender, sh_Denom = denom, sh_CosmwasmAddress = cosmwasmAddress\<rparr>"

end
