(* ===== verification/MemChain.thy ===== *)
theory MemChain
  imports Sdk "HOL-Library.AList"
begin

text \<open>
  A small chain in memory: one concrete instance of every interface of \<open>Sdk\<close>, which shows that the
  laws the theorems assume can hold together and on which the theorems are applied to concrete
  inputs. Addresses are written \<open>lumi1...\<close>, the store is an association list, the bank keeps
  balances and denom metadata, the gas meter a limit and the gas used.
\<close>

section \<open>The pure functions\<close>

definition memSdk :: Sdk where
  "memSdk = \<lparr>
     AccAddressFromBech32 = (\<lambda>s.
       if HasPrefix s ''lumi1'' \<and> 5 < length s \<and> length s \<le> 90 \<and> list_all alnum s
       then Ok (drop 5 s) else Err (Errorf ''decoding bech32 failed'')),
     AccAddressString = (\<lambda>a. ''lumi1'' @ a),
     ValidateDenom = (\<lambda>d.
       if 3 \<le> length d \<and> length d \<le> 128 \<and> list_all denom_char d
       then None else Some (Errorf (''invalid denom: '' @ d))),
     MetadataValidate = (\<lambda>m. if md_base m = [] then Some (Errorf ''invalid base'') else None),
     MetadataString = md_base,
     CoinIsValid = (\<lambda>c. 3 \<le> length (coin_denom c) \<and> 0 \<le> coin_amount c),
     CoinString = (\<lambda>c. itoa (coin_amount c) @ coin_denom c),
     NewCoins = (\<lambda>cs. if list_all (\<lambda>c. 0 \<le> coin_amount c) cs
       then Ok (filter (\<lambda>c. coin_amount c \<noteq> 0) cs) else Panic ''negative coin amount''),
     CoinsValidate = (\<lambda>cs. if list_all (\<lambda>c. 0 < coin_amount c) cs then None
       else Some (Errorf ''coin amount is not positive'')),
     CoinsString = (\<lambda>cs. concat (map (\<lambda>c. itoa (coin_amount c) @ coin_denom c) cs)),
     NewModuleAddress = (\<lambda>name. ''mod'' @ name)\<rparr>"

lemma HasPrefix_iff: "HasPrefix s p \<longleftrightarrow> s = p @ drop (length p) s"
  unfolding HasPrefix_def by (metis append_eq_conv_conj append_take_drop_id)

lemma memSdk_laws: "sdk_laws memSdk"
proof -
  have bech32: "s \<noteq> [] \<and> length s \<le> 1023 \<and> list_all alnum s \<and>
      HasPrefix (''lumi1'' @ drop 5 s) ''lumi1'' \<and> list_all alnum (''lumi1'' @ drop 5 s)"
    if s: "HasPrefix s ''lumi1'' \<and> 5 < length s \<and> length s \<le> 90 \<and> list_all alnum s" for s
  proof -
    from s obtain t where t: "s = ''lumi1'' @ t"
      using HasPrefix_iff [of s "''lumi1''"] by blast
    then show ?thesis
      using s by (simp add: HasPrefix_def)
  qed
  then show ?thesis
    unfolding sdk_laws_def memSdk_def by auto
qed

section \<open>The chain state\<close>

record Mem =
  mem_kv :: "(bytes \<times> bytes) list"
  mem_meta :: "string \<Rightarrow> Metadata option"
  mem_bal :: "addr \<Rightarrow> string \<Rightarrow> int"
  mem_supply :: "string \<Rightarrow> int"
  mem_params :: "bytes \<Rightarrow> param_value option"
  mem_accounts :: "addr \<Rightarrow> AccountI option"
  mem_limit :: int
  mem_used :: int
  mem_events :: "Event list"

definition mem0 :: Mem where
  "mem0 = \<lparr>mem_kv = [], mem_meta = Map.empty, mem_bal = (\<lambda>_ _. 0), mem_supply = (\<lambda>_. 0),
     mem_params = Map.empty,
     mem_accounts = Map.empty, mem_limit = 10000000, mem_used = 0, mem_events = []\<rparr>"

definition mem_consume :: "u64 \<Rightarrow> Mem \<Rightarrow> unit res \<times> Mem" where
  "mem_consume g w = (let w' = w\<lparr>mem_used := mem_used w + uint g\<rparr> in
     if mem_limit w < mem_used w' then (Panic ''out of gas'', w') else (Ok (), w'))"

definition mem_iterator :: "Mem \<Rightarrow> bytes \<Rightarrow> (bytes \<times> bytes) list" where
  "mem_iterator w p = sort_key fst (map (\<lambda>(k, v). (drop (length p) k, v))
     (filter (\<lambda>(k, v). HasPrefix k p) (AList.clearjunk (mem_kv w))))"

definition memCtx :: "Mem Ctx" where
  "memCtx = \<lparr>
     StoreGet = (\<lambda>w p k. map_of (mem_kv w) (p @ k)),
     StoreSet = (\<lambda>p k v w. w\<lparr>mem_kv := AList.update (p @ k) v (mem_kv w)\<rparr>),
     StoreDelete = (\<lambda>p k w. w\<lparr>mem_kv := AList.delete (p @ k) (mem_kv w)\<rparr>),
     StoreIterator = mem_iterator,
     GasRemaining = (\<lambda>w. word_of_int (mem_limit w - mem_used w)),
     GasConsumed = (\<lambda>w. word_of_int (mem_used w)),
     ConsumeGas = (\<lambda>g d. mem_consume g),
     WithGasMeter = (\<lambda>g w. w\<lparr>mem_limit := uint g, mem_used := 0\<rparr>),
     WithStoreOf = (\<lambda>w s. s\<lparr>mem_limit := mem_limit w, mem_used := mem_used w,
       mem_events := mem_events w\<rparr>),
     DropCache = (\<lambda>w s. w\<lparr>mem_limit := mem_limit s, mem_used := mem_used s\<rparr>),
     EmitEvent = (\<lambda>e w. w\<lparr>mem_events := mem_events w @ [e]\<rparr>)\<rparr>"

lemma mem_kv_eq: "kv memCtx w = map_of (mem_kv w)"
  by (rule ext) (simp add: kv_def memCtx_def)

lemma mem_iterator_distinct: "distinct (map fst (mem_iterator w p))"
proof -
  let ?xs = "filter (\<lambda>(k, v). HasPrefix k p) (AList.clearjunk (mem_kv w))"
  have "distinct (map fst ?xs)"
    using distinct_clearjunk [of "mem_kv w"] by (simp add: distinct_map_filter)
  moreover have "inj_on (drop (length p)) (fst ` set ?xs)"
    by (rule inj_on_inverseI [where g = "\<lambda>k. p @ k"])
      (use HasPrefix_iff in \<open>auto simp del: append_assoc\<close>)
  ultimately have "distinct (map (drop (length p)) (map fst ?xs))"
    by (subst distinct_map) simp
  then have "distinct (map fst (map (\<lambda>(k, v). (drop (length p) k, v)) ?xs))"
    by (simp add: comp_def case_prod_unfold)
  then show ?thesis
    unfolding mem_iterator_def by (simp add: distinct_map distinct_sort del: map_map)
qed

lemma mem_iterator_set:
  "(k, v) \<in> set (mem_iterator w p) \<longleftrightarrow> map_of (mem_kv w) (p @ k) = Some v"
proof -
  have "(k, v) \<in> set (mem_iterator w p) \<longleftrightarrow> (p @ k, v) \<in> set (AList.clearjunk (mem_kv w))"
    unfolding mem_iterator_def
    by (auto simp: HasPrefix_iff image_iff intro!: bexI [where x = "(p @ k, v)"])
  also have "\<dots> \<longleftrightarrow> map_of (AList.clearjunk (mem_kv w)) (p @ k) = Some v"
    using distinct_clearjunk [of "mem_kv w"] by simp
  finally show ?thesis by (simp add: map_of_clearjunk)
qed

lemma mem_kv_laws: "kv_laws memCtx"
  unfolding kv_laws_def mem_kv_eq preserves_def
  using mem_iterator_distinct mem_iterator_set
  by (auto simp: memCtx_def update_conv' delete_conv' mem_consume_def Let_def mem_iterator_def)

section \<open>The other keepers\<close>

definition mem_add :: "addr \<Rightarrow> Coin list \<Rightarrow> int \<Rightarrow> Mem \<Rightarrow> Mem" where
  "mem_add a cs sign w = w\<lparr>mem_bal := fold (\<lambda>c b. b(a := (b a)(coin_denom c :=
     b a (coin_denom c) + sign * coin_amount c))) cs (mem_bal w)\<rparr>"

definition mem_issue :: "Coin list \<Rightarrow> int \<Rightarrow> Mem \<Rightarrow> Mem" where
  "mem_issue cs sign w = w\<lparr>mem_supply := (\<lambda>d. mem_supply w d + sign * coins_amount cs d)\<rparr>"

definition mem_sub :: "addr \<Rightarrow> Coin list \<Rightarrow> Mem \<Rightarrow> unit res \<times> Mem" where
  "mem_sub a cs w =
     (if list_all (\<lambda>c. coin_amount c \<le> mem_bal w a (coin_denom c)) cs
      then (Ok (), mem_add a cs (- 1) w) else (Err (Errorf ''insufficient funds''), w))"

definition mem_send :: "addr \<Rightarrow> addr \<Rightarrow> Coin list \<Rightarrow> Mem \<Rightarrow> unit res \<times> Mem" where
  "mem_send a b cs = bindA (mem_sub a cs) (\<lambda>_. modify (mem_add b cs 1))"

definition memBank :: "Mem BankKeeper" where
  "memBank = \<lparr>
     GetDenomMetaData = mem_meta,
     SetDenomMetaData = (\<lambda>m w. w\<lparr>mem_meta := (mem_meta w)(md_base m \<mapsto> m)\<rparr>),
     HasSupply = (\<lambda>w d. d = ''ulumi''),
     SendCoinsFromModuleToAccount = (\<lambda>m a cs. mem_send (''mod'' @ m) a cs),
     SendCoinsFromAccountToModule = (\<lambda>a m cs. mem_send a (''mod'' @ m) cs),
     MintCoins = (\<lambda>m cs. modify (mem_issue cs 1 \<circ> mem_add (''mod'' @ m) cs 1)),
     BurnCoins = (\<lambda>m cs. bindA (mem_sub (''mod'' @ m) cs) (\<lambda>_. modify (mem_issue cs (- 1)))),
     SendCoins = mem_send,
     HasBalance = (\<lambda>w a c. coin_amount c \<le> mem_bal w a (coin_denom c))\<rparr>"

definition memAccounts :: "Mem AccountKeeper" where
  "memAccounts = \<lparr>GetAccount = mem_accounts,
     GetModuleAccount = (\<lambda>name. bindA (modify (\<lambda>w. w\<lparr>mem_accounts :=
       (mem_accounts w)(''mod'' @ name \<mapsto> ModuleAccount (''mod'' @ name))\<rparr>))
       (\<lambda>_. ret (Some (''mod'' @ name))))\<rparr>"

definition memPool :: "Mem CommunityPoolKeeper" where
  "memPool = \<lparr>FundCommunityPool = (\<lambda>cs a. mem_send a ''modpool'' cs)\<rparr>"

text \<open>Contracts: the address accept runs, reject returns an error, burn runs out of gas.\<close>

definition memContracts :: "Mem ContractKeeper" where
  "memContracts = \<lparr>Sudo = (\<lambda>a m.
     if a = ''accept'' then bindA (mem_consume 100) (\<lambda>_. ret [])
     else if a = ''reject'' then throw (Errorf ''rejected'')
     else if a = ''burn'' then bindA (mem_consume 1000000) (\<lambda>_. ret [])
     else throw (Errorf ''no such contract''))\<rparr>"

definition memParams :: "Mem ParamSubspace" where
  "memParams = \<lparr>
     SubspaceHas = (\<lambda>w k. mem_params w k \<noteq> None),
     SubspaceGetIfExists = mem_params,
     SubspaceSet = (\<lambda>k v. modify (\<lambda>w. w\<lparr>mem_params := (mem_params w)(k \<mapsto> v)\<rparr>)),
     SubspaceSetParamSet = (\<lambda>ps w.
       if list_all (\<lambda>(k, v, chk). chk v = None) ps
       then (Ok (), w\<lparr>mem_params := fold (\<lambda>(k, v, chk) m. m(k \<mapsto> v)) ps (mem_params w)\<rparr>)
       else (Panic ''value from ParamSetPair is invalid'', w))\<rparr>"

lemma mem_send_preserves:
  assumes "\<And>w b. obs (w\<lparr>mem_bal := b\<rparr>) = obs w"
  shows "preserves obs (mem_sub a cs)" "preserves obs (mem_send a b cs)"
    "preserves obs (modify (mem_add a cs n))"
proof -
  show add: "preserves obs (modify (mem_add a cs n))" for a n
    using assms by (intro preserves_modify) (simp add: mem_add_def)
  show sub: "preserves obs (mem_sub a cs)"
    using assms by (simp add: preserves_def mem_sub_def mem_add_def)
  then show "preserves obs (mem_send a b cs)"
    unfolding mem_send_def by (intro preserves_bindA add)
qed

lemma mem_burn_preserves:
  assumes "\<And>w b. obs (w\<lparr>mem_bal := b\<rparr>) = obs w" "\<And>w b. obs (w\<lparr>mem_supply := b\<rparr>) = obs w"
  shows "preserves obs (MintCoins memBank m cs)" "preserves obs (BurnCoins memBank m cs)"
proof -
  show "preserves obs (MintCoins memBank m cs)"
    using assms by (simp add: memBank_def preserves_def mem_add_def mem_issue_def)
  have "preserves obs (modify (mem_issue cs (- 1)))"
    using assms(2) by (intro preserves_modify) (simp add: mem_issue_def)
  then show "preserves obs (BurnCoins memBank m cs)"
    using mem_send_preserves(1) [OF assms(1)] by (simp add: memBank_def preserves_bindA)
qed

lemma memBank_simps [simp]:
  "GetDenomMetaData memBank = mem_meta"
  "SetDenomMetaData memBank m w = w\<lparr>mem_meta := (mem_meta w)(md_base m \<mapsto> m)\<rparr>"
  "SendCoinsFromModuleToAccount memBank n a cs = mem_send (''mod'' @ n) a cs"
  "SendCoinsFromAccountToModule memBank a n cs = mem_send a (''mod'' @ n) cs"
  "SendCoins memBank = mem_send"
  by (simp_all add: memBank_def)

lemma mem_bank_store_laws: "bank_store_laws memCtx memBank"
  unfolding bank_store_laws_def mem_kv_eq
  by (simp add: mem_send_preserves mem_burn_preserves)

lemma mem_bank_metadata_laws: "bank_metadata_laws memCtx memBank"
  unfolding bank_metadata_laws_def
  by (simp add: mem_send_preserves mem_burn_preserves) (simp add: memCtx_def preserves_def
      mem_consume_def Let_def)

lemma mem_supply_laws: "supply_laws memSdk memCtx memBank memAccounts memPool mem_supply"
proof -
  have coins: "NewCoins memSdk [x] = Ok cs \<Longrightarrow>
      coins_amount cs = (\<lambda>d. if d = coin_denom x then coin_amount x else 0)" for x cs
    by (rule ext) (auto simp: memSdk_def coins_amount_def split: if_splits)
  have mint: "MintCoins memBank m cs w = (Ok (), w') \<Longrightarrow>
      mem_supply w' = (\<lambda>d. mem_supply w d + coins_amount cs d)" for m cs w w'
    by (auto simp: memBank_def mem_issue_def mem_add_def)
  have burn: "BurnCoins memBank m cs w = (Ok (), w') \<Longrightarrow>
      mem_supply w' = (\<lambda>d. mem_supply w d - coins_amount cs d)" for m cs w w'
    by (auto simp: memBank_def mem_issue_def mem_add_def mem_sub_def bindA_Ok_iff split: if_splits)
  have rest: "when_ok mem_supply (GetModuleAccount memAccounts n)"
    "when_ok mem_supply (FundCommunityPool memPool cs a)"
    "when_ok mem_supply (ConsumeGas memCtx g t)" for n cs a g t
    by (simp_all add: memAccounts_def memPool_def preserves_when_ok mem_send_preserves)
      (auto simp: when_ok_def memCtx_def mem_consume_def Let_def bindA_Ok_iff split: if_splits)
  show ?thesis
    unfolding supply_laws_def using coins mint burn rest
    by (simp add: preserves_when_ok mem_send_preserves) (simp add: memCtx_def)
qed

lemma mem_module_account_laws: "module_account_laws memSdk memAccounts"
  by (auto simp: module_account_laws_def memAccounts_def memSdk_def)

lemma fold_params:
  "distinct (map fst ps) \<Longrightarrow> fold (\<lambda>(k, v, chk) m. m(k \<mapsto> v)) ps m key =
     (case map_of (map (\<lambda>(k, v, _). (k, v)) ps) key of Some v \<Rightarrow> Some v | None \<Rightarrow> m key)"
proof (induction ps arbitrary: m)
  case (Cons p ps)
  obtain k v chk where p: "p = (k, v, chk)" by (cases p)
  have "map_of (map (\<lambda>(k, v, _). (k, v)) ps) k = None"
    using Cons.prems by (force simp: p map_of_eq_None_iff)
  with Cons show ?case by (auto simp: p split: option.splits)
qed simp

lemma mem_param_laws: "param_laws memCtx memParams"
  unfolding param_laws_def mem_kv_eq
  by (auto simp: memParams_def fold_params preserves_def split: option.splits)

lemma mem_other_store_laws: "other_store_laws memCtx memBank memAccounts memPool"
  unfolding other_store_laws_def mem_kv_eq
  by (simp add: memPool_def mem_send_preserves) (simp add: memAccounts_def preserves_def bindA_def)

end
