(* ===== verification/Denoms.thy ===== *)
theory Denoms
  imports TokenTypes MemChain
begin

text \<open>
  The names of x/tokenfactory: the denominations \<open>factory/{creator}/{subdenom}\<close>
  (x/tokenfactory/types/denoms.go) and the keys of the module's store (x/tokenfactory/types/keys.go).

  The lemmas show that a denomination determines its creator and its subdenom, that taking it apart
  gives back what it was made of, that the length limits keep every denomination within the 128
  bytes of the SDK, and that the keys of two different denominations, of two different cells of one
  denomination and of the creator index never meet.
\<close>

section \<open>Denominations\<close>

definition ModuleDenomPrefix :: string where "ModuleDenomPrefix = ''factory''"
definition MaxSubdenomLength :: nat where "MaxSubdenomLength = 44"
definition MaxHrpLength :: nat where "MaxHrpLength = 16"
definition MaxCreatorLength :: nat where "MaxCreatorLength = 59 + MaxHrpLength"

definition GetTokenDenom :: "Sdk \<Rightarrow> string \<Rightarrow> string \<Rightarrow> string res" where
  "GetTokenDenom S creator subdenom =
     (if MaxSubdenomLength < length subdenom then Err ErrSubdenomTooLong
      else if MaxCreatorLength < length creator then Err ErrCreatorTooLong
      else if Contains creator ''/'' then Err ErrInvalidCreator
      else let denom = Join [ModuleDenomPrefix, creator, subdenom] ''/'' in
        bindR (check (ValidateDenom S denom)) (\<lambda>_. Ok denom))"

definition DeconstructDenom :: "Sdk \<Rightarrow> string \<Rightarrow> (string \<times> string) res" where
  "DeconstructDenom S denom =
     bindR (check (ValidateDenom S denom)) (\<lambda>_.
       let strParts = Split denom CHR ''/'' in
       if length strParts < 3 then
         Err (Wrap ErrInvalidDenom (''not enough parts of denom '' @ denom))
       else if strParts ! 0 \<noteq> ModuleDenomPrefix then
         Err (Wrap ErrInvalidDenom (''denom prefix is incorrect. Is: '' @ strParts ! 0
                @ ''.  Should be: '' @ ModuleDenomPrefix))
       else let creator = strParts ! 1 in
         bindR (mapErr (\<lambda>e. Wrap ErrInvalidDenom (''Invalid creator address ('' @ ErrorText e @ '')''))
                  (AccAddressFromBech32 S creator)) (\<lambda>creatorAddr.
           let subdenom = Join (drop 2 strParts) ''/'' in
           Ok (AccAddressString S creatorAddr, subdenom)))"

definition denom_of :: "string \<Rightarrow> string \<Rightarrow> string" where
  "denom_of creator subdenom = ''factory/'' @ creator @ ''/'' @ subdenom"

lemma Join_denom:
  "ModuleDenomPrefix @ CHR ''/'' # creator @ CHR ''/'' # subdenom = denom_of creator subdenom"
  by (simp add: ModuleDenomPrefix_def denom_of_def)

lemma GetTokenDenom_Ok:
  "GetTokenDenom S creator subdenom = Ok d \<longleftrightarrow>
     length subdenom \<le> 44 \<and> length creator \<le> 75 \<and> CHR ''/'' \<notin> set creator \<and>
     d = denom_of creator subdenom \<and> ValidateDenom S d = None"
  by (auto simp: GetTokenDenom_def Join_denom Let_def MaxSubdenomLength_def MaxCreatorLength_def
      MaxHrpLength_def)

lemma GetTokenDenom_not_Panic: "GetTokenDenom S creator subdenom \<noteq> Panic p"
  by (cases "ValidateDenom S (denom_of creator subdenom)")
    (simp_all add: GetTokenDenom_def Join_denom Let_def)

lemma Split_denom:
  assumes "CHR ''/'' \<notin> set creator"
  shows "Split (denom_of creator subdenom) CHR ''/'' = ''factory'' # creator # Split subdenom CHR ''/''"
proof -
  have "denom_of creator subdenom = ''factory'' @ CHR ''/'' # creator @ CHR ''/'' # subdenom"
    by (simp add: denom_of_def)
  then show ?thesis
    by (simp only:) (subst Split_sep, simp, subst Split_sep [OF assms], rule refl)
qed

lemma Split_factory:
  assumes "\<not> length (Split d CHR ''/'') < 3" "Split d CHR ''/'' ! 0 = ''factory''"
  shows "d = denom_of (Split d CHR ''/'' ! 1) (Join (drop 2 (Split d CHR ''/'')) ''/'')"
    and "CHR ''/'' \<notin> set (Split d CHR ''/'' ! 1)"
proof -
  obtain p q t ts where s: "Split d CHR ''/'' = p # q # t # ts"
    using assms(1) by (cases "Split d CHR ''/''"; cases "tl (Split d CHR ''/'')";
        cases "tl (tl (Split d CHR ''/''))") auto
  have "d = p @ CHR ''/'' # Join (q # t # ts) ''/''"
    by (rule Split_Cons_decomp(1) [OF s])
  then show "d = denom_of (Split d CHR ''/'' ! 1) (Join (drop 2 (Split d CHR ''/'')) ''/'')"
    using assms(2) unfolding s by (simp add: denom_of_def)
  show "CHR ''/'' \<notin> set (Split d CHR ''/'' ! 1)"
    using Split_parts_no_sep [of q d] by (simp add: s)
qed

lemma DeconstructDenom_denom_of:
  assumes "ValidateDenom S (denom_of creator subdenom) = None" "CHR ''/'' \<notin> set creator"
    and "AccAddressFromBech32 S creator = Ok a"
  shows "DeconstructDenom S (denom_of creator subdenom) = Ok (AccAddressString S a, subdenom)"
  using assms Join_Split [of subdenom "CHR ''/''"]
  by (cases "Split subdenom CHR ''/''")
    (simp_all add: DeconstructDenom_def Split_denom Let_def ModuleDenomPrefix_def)

lemma DeconstructDenom_OkE:
  assumes "DeconstructDenom S d = Ok (c, sub)"
  obtains creator a where "ValidateDenom S d = None" "CHR ''/'' \<notin> set creator"
    "AccAddressFromBech32 S creator = Ok a" "c = AccAddressString S a" "d = denom_of creator sub"
proof -
  let ?parts = "Split d CHR ''/''"
  from assms obtain a where d: "ValidateDenom S d = None" "\<not> length ?parts < 3"
      "?parts ! 0 = ''factory''" and a: "AccAddressFromBech32 S (?parts ! 1) = Ok a"
      "c = AccAddressString S a" "sub = Join (drop 2 ?parts) ''/''"
    by (auto simp: DeconstructDenom_def Let_def ModuleDenomPrefix_def split: if_splits)
  from Split_factory [OF d(2,3)] a show ?thesis
    by (intro that [of "?parts ! 1" a]) (simp_all add: d(1))
qed

lemma denom_of_inj:
  assumes "denom_of c s = denom_of c' s'" "CHR ''/'' \<notin> set c" "CHR ''/'' \<notin> set c'"
  shows "c = c' \<and> s = s'"
  using assms by (intro prefix_free_append [of c "CHR ''/''" s c' s']) (simp_all add: denom_of_def)

section \<open>Store keys\<close>

definition ModuleName :: string where "ModuleName = ''tokenfactory''"
definition KeySeparator :: string where "KeySeparator = ''|''"
definition DenomAuthorityMetadataKey :: string where
  "DenomAuthorityMetadataKey = ''authoritymetadata''"
definition DenomsPrefixKey :: string where "DenomsPrefixKey = ''denoms''"
definition CreatorPrefixKey :: string where "CreatorPrefixKey = ''creator''"
definition AdminPrefixKey :: string where "AdminPrefixKey = ''admin''"
definition BeforeSendHookAddressPrefixKey :: string where
  "BeforeSendHookAddressPrefixKey = ''beforesendhook''"

definition GetDenomPrefixStore :: "string \<Rightarrow> bytes" where
  "GetDenomPrefixStore denom = Join [DenomsPrefixKey, denom, ''''] KeySeparator"

definition GetCreatorPrefix :: "string \<Rightarrow> bytes" where
  "GetCreatorPrefix creator = Join [CreatorPrefixKey, creator, ''''] KeySeparator"

definition GetCreatorsPrefix :: bytes where
  "GetCreatorsPrefix = Join [CreatorPrefixKey, ''''] KeySeparator"

text \<open>The three kinds of keys the module writes.\<close>

definition meta_key :: "string \<Rightarrow> bytes" where
  "meta_key d = GetDenomPrefixStore d @ DenomAuthorityMetadataKey"

definition hook_key :: "string \<Rightarrow> bytes" where
  "hook_key d = GetDenomPrefixStore d @ BeforeSendHookAddressPrefixKey"

definition index_key :: "string \<Rightarrow> string \<Rightarrow> bytes" where
  "index_key creator d = GetCreatorPrefix creator @ d"

lemmas key_defs = GetDenomPrefixStore_def GetCreatorPrefix_def GetCreatorsPrefix_def
  DenomsPrefixKey_def CreatorPrefixKey_def KeySeparator_def DenomAuthorityMetadataKey_def
  BeforeSendHookAddressPrefixKey_def

lemma GetCreatorsPrefix_index: "GetCreatorsPrefix @ creator @ ''|'' @ d = index_key creator d"
  by (simp add: index_key_def key_defs)

lemma denom_prefix_inj:
  assumes "GetDenomPrefixStore d @ k = GetDenomPrefixStore d' @ k'"
    and "CHR ''|'' \<notin> set d" "CHR ''|'' \<notin> set d'"
  shows "d = d' \<and> k = k'"
  using assms by (intro prefix_free_append [of d "CHR ''|''" k d' k']) (simp_all add: key_defs)

lemma meta_key_inj [simp]:
  "CHR ''|'' \<notin> set d \<Longrightarrow> CHR ''|'' \<notin> set d' \<Longrightarrow> meta_key d = meta_key d' \<longleftrightarrow> d = d'"
  unfolding meta_key_def using denom_prefix_inj by blast

lemma hook_key_inj [simp]:
  "CHR ''|'' \<notin> set d \<Longrightarrow> CHR ''|'' \<notin> set d' \<Longrightarrow> hook_key d = hook_key d' \<longleftrightarrow> d = d'"
  unfolding hook_key_def using denom_prefix_inj by blast

lemma meta_hook_key:
  assumes "CHR ''|'' \<notin> set d" "CHR ''|'' \<notin> set d'"
  shows "meta_key d \<noteq> hook_key d'"
proof
  assume "meta_key d = hook_key d'"
  from denom_prefix_inj [OF this [unfolded meta_key_def hook_key_def] assms] show False
    by (simp add: key_defs)
qed

lemma meta_index_key [simp]: "meta_key d \<noteq> index_key c d'" "index_key c d' \<noteq> meta_key d"
  by (simp_all add: meta_key_def index_key_def key_defs)

lemma hook_index_key [simp]: "hook_key d \<noteq> index_key c d'" "index_key c d' \<noteq> hook_key d"
  by (simp_all add: hook_key_def index_key_def key_defs)

lemma creators_prefix_keys [simp]:
  "GetCreatorsPrefix @ k \<noteq> meta_key d" "GetCreatorsPrefix @ k \<noteq> hook_key d"
  "meta_key d \<noteq> GetCreatorsPrefix @ k" "hook_key d \<noteq> GetCreatorsPrefix @ k"
  by (simp_all add: hook_key_def meta_key_def key_defs)

lemma index_key_inj:
  assumes "index_key c d = index_key c' d'" "CHR ''|'' \<notin> set c" "CHR ''|'' \<notin> set c'"
  shows "c = c' \<and> d = d'"
  using assms by (intro prefix_free_append [of c "CHR ''|''" d c' d'])
    (simp_all add: index_key_def key_defs)

lemma meta_hook_key_simps [simp]:
  "CHR ''|'' \<notin> set d \<Longrightarrow> CHR ''|'' \<notin> set d' \<Longrightarrow> meta_key d = hook_key d' \<longleftrightarrow> False"
  "CHR ''|'' \<notin> set d \<Longrightarrow> CHR ''|'' \<notin> set d' \<Longrightarrow> hook_key d = meta_key d' \<longleftrightarrow> False"
  using meta_hook_key by metis+

lemma index_key_mono: "c \<noteq> c' \<Longrightarrow> CHR ''|'' \<notin> set c \<Longrightarrow> CHR ''|'' \<notin> set c' \<Longrightarrow>
    index_key c d \<noteq> index_key c' d'"
  using index_key_inj by blast

section \<open>Properties\<close>

text \<open>C25. Taking a token's denomination apart gives back the creator, in the canonical text of its
  address, and the subdenom it was made from, slashes in the subdenom included.\<close>

theorem DeconstructDenom_GetTokenDenom:
  assumes "GetTokenDenom S creator subdenom = Ok d" "AccAddressFromBech32 S creator = Ok a"
  shows "DeconstructDenom S d = Ok (AccAddressString S a, subdenom)"
  using assms by (auto simp: GetTokenDenom_Ok intro: DeconstructDenom_denom_of)

text \<open>Two tokens have the same denomination only if they have the same creator and subdenom, and
  no denomination is longer than the 128 bytes the SDK accepts: the limits on the creator's and the
  subdenom's length keep it so before the SDK checks it.\<close>

theorem GetTokenDenom_inj_bound:
  assumes "GetTokenDenom S creator subdenom = Ok d"
  shows "length d \<le> 128 \<and>
    (GetTokenDenom S creator' subdenom' = Ok d \<longrightarrow> creator' = creator \<and> subdenom' = subdenom)"
proof -
  from assms have "length d \<le> 128"
    by (auto simp: GetTokenDenom_Ok denom_of_def)
  with assms show ?thesis
    using denom_of_inj [of creator subdenom creator' subdenom'] by (auto simp: GetTokenDenom_Ok)
qed

text \<open>C26. The store keys of valid denominations never meet: the authority metadata of two
  denominations, their hooks, the two cells of one denomination and the creator index are all under
  different keys.\<close>

theorem store_keys_separated:
  assumes "sdk_laws S" "ValidateDenom S d = None" "ValidateDenom S d' = None"
  shows "(GetDenomPrefixStore d @ DenomAuthorityMetadataKey
        = GetDenomPrefixStore d' @ DenomAuthorityMetadataKey \<longleftrightarrow> d = d')
    \<and> (GetDenomPrefixStore d @ BeforeSendHookAddressPrefixKey
        = GetDenomPrefixStore d' @ BeforeSendHookAddressPrefixKey \<longleftrightarrow> d = d')
    \<and> GetDenomPrefixStore d @ DenomAuthorityMetadataKey
        \<noteq> GetDenomPrefixStore d' @ BeforeSendHookAddressPrefixKey
    \<and> GetDenomPrefixStore d @ k \<noteq> GetCreatorPrefix c @ k'"
proof -
  note bar = sdk_denom(3) [OF assms(1,2)] sdk_denom(3) [OF assms(1,3)]
  have "GetDenomPrefixStore d @ k \<noteq> GetCreatorPrefix c @ k'"
    by (simp add: key_defs)
  with bar show ?thesis
    using meta_key_inj [OF bar] hook_key_inj [OF bar] meta_hook_key [OF bar]
    by (simp add: meta_key_def hook_key_def)
qed

section \<open>Concrete instances\<close>

theorem DeconstructDenom_GetTokenDenom_witness:
  "GetTokenDenom memSdk ''lumi1abc'' ''gold/x'' = Ok ''factory/lumi1abc/gold/x'' \<and>
   DeconstructDenom memSdk ''factory/lumi1abc/gold/x'' = Ok (''lumi1abc'', ''gold/x'')"
proof -
  have made: "GetTokenDenom memSdk ''lumi1abc'' ''gold/x'' = Ok ''factory/lumi1abc/gold/x''"
    and addr: "AccAddressFromBech32 memSdk ''lumi1abc'' = Ok ''abc''"
    and canonical: "AccAddressString memSdk ''abc'' = ''lumi1abc''"
    by code_simp+
  show ?thesis
    using DeconstructDenom_GetTokenDenom [OF made addr] made by (simp add: canonical)
qed

theorem GetTokenDenom_inj_bound_witness:
  "length ''factory/lumi1abc/gold'' \<le> 128 \<and>
   GetTokenDenom memSdk ''lumi1abd'' ''gold'' \<noteq> Ok ''factory/lumi1abc/gold''"
proof -
  have "GetTokenDenom memSdk ''lumi1abc'' ''gold'' = Ok ''factory/lumi1abc/gold''"
    by code_simp
  from GetTokenDenom_inj_bound [OF this, of "''lumi1abd''" "''gold''"] show ?thesis by simp
qed

theorem store_keys_separated_witness:
  "GetDenomPrefixStore ''factory/lumi1abc/a'' @ DenomAuthorityMetadataKey
     \<noteq> GetDenomPrefixStore ''factory/lumi1abc/b'' @ DenomAuthorityMetadataKey"
proof -
  have "ValidateDenom memSdk ''factory/lumi1abc/a'' = None"
    "ValidateDenom memSdk ''factory/lumi1abc/b'' = None" by code_simp+
  from store_keys_separated [OF memSdk_laws this] show ?thesis by simp
qed

end
