(* ===== verification/Msgs.thy ===== *)
theory Msgs
  imports Denoms
begin

text \<open>
  The stateless checks of the transaction messages (x/tokenfactory/types/msgs.go) and of a value of
  the authority metadata (x/tokenfactory/types/authorityMetadata.go): \<open>ValidateBasic\<close>, \<open>GetSigners\<close>,
  \<open>Route\<close> and \<open>Type\<close>.

  The locale \<open>sdk_msg\<close> is what the ante handler relies on for every message type: a message that
  passes \<open>ValidateBasic\<close> has a sender that decodes, so that its one signer is that address. It is
  interpreted for the seven messages.
\<close>

section \<open>Type names\<close>

definition RouterKey :: string where "RouterKey = ModuleName"
definition TypeMsgCreateDenom :: string where "TypeMsgCreateDenom = ''create_denom''"
definition TypeMsgMint :: string where "TypeMsgMint = ''tf_mint''"
definition TypeMsgBurn :: string where "TypeMsgBurn = ''tf_burn''"
definition TypeMsgForceTransfer :: string where "TypeMsgForceTransfer = ''force_transfer''"
definition TypeMsgChangeAdmin :: string where "TypeMsgChangeAdmin = ''change_admin''"
definition TypeMsgSetDenomMetadata :: string where
  "TypeMsgSetDenomMetadata = ''set_denom_metadata''"
definition TypeMsgSetBeforeSendHook :: string where
  "TypeMsgSetBeforeSendHook = ''set_before_send_hook''"

section \<open>ValidateBasic\<close>

text \<open>\<open>_, err := AccAddressFromBech32(s)\<close>, the error wrapped with \<open>what (err)\<close>.\<close>

definition check_address :: "Sdk \<Rightarrow> error \<Rightarrow> string \<Rightarrow> string \<Rightarrow> unit res" where
  "check_address S e0 what s =
     bindR (mapErr (\<lambda>e. Wrap e0 (what @ '' ('' @ ErrorText e @ '')'')) (AccAddressFromBech32 S s))
       (\<lambda>_. Ok ())"

definition DenomAuthorityMetadata_Validate :: "Sdk \<Rightarrow> DenomAuthorityMetadata \<Rightarrow> unit res" where
  "DenomAuthorityMetadata_Validate S metadata =
     (if Admin metadata \<noteq> '''' then bindR (AccAddressFromBech32 S (Admin metadata)) (\<lambda>_. Ok ())
      else Ok ())"

definition MsgCreateDenom_ValidateBasic :: "Sdk \<Rightarrow> MsgCreateDenom \<Rightarrow> unit res" where
  "MsgCreateDenom_ValidateBasic S m =
     bindR (check_address S ErrInvalidAddress ''Invalid sender address'' (cd_Sender m)) (\<lambda>_.
     bindR (mapErr (\<lambda>e. Wrap ErrInvalidDenom (ErrorText e))
              (GetTokenDenom S (cd_Sender m) (cd_Subdenom m))) (\<lambda>_.
     Ok ()))"

definition MsgMint_ValidateBasic :: "Sdk \<Rightarrow> MsgMint \<Rightarrow> unit res" where
  "MsgMint_ValidateBasic S m =
     bindR (check_address S ErrInvalidAddress ''Invalid sender address'' (mt_Sender m)) (\<lambda>_.
     if \<not> CoinIsValid S (mt_Amount m) \<or> coin_amount (mt_Amount m) = 0
     then Err (Wrap ErrInvalidCoins (CoinString S (mt_Amount m)))
     else Ok ())"

definition MsgBurn_ValidateBasic :: "Sdk \<Rightarrow> MsgBurn \<Rightarrow> unit res" where
  "MsgBurn_ValidateBasic S m =
     bindR (check_address S ErrInvalidAddress ''Invalid sender address'' (bn_Sender m)) (\<lambda>_.
     if \<not> CoinIsValid S (bn_Amount m) \<or> coin_amount (bn_Amount m) = 0
     then Err (Wrap ErrInvalidCoins (CoinString S (bn_Amount m)))
     else Ok ())"

definition MsgForceTransfer_ValidateBasic :: "Sdk \<Rightarrow> MsgForceTransfer \<Rightarrow> unit res" where
  "MsgForceTransfer_ValidateBasic S m =
     bindR (check_address S ErrInvalidAddress ''Invalid sender address'' (ft_Sender m)) (\<lambda>_.
     bindR (check_address S ErrInvalidAddress ''Invalid address'' (ft_TransferFromAddress m)) (\<lambda>_.
     bindR (check_address S ErrInvalidAddress ''Invalid address'' (ft_TransferToAddress m)) (\<lambda>_.
     if \<not> CoinIsValid S (ft_Amount m)
     then Err (Wrap ErrInvalidCoins (CoinString S (ft_Amount m)))
     else Ok ())))"

definition MsgChangeAdmin_ValidateBasic :: "Sdk \<Rightarrow> MsgChangeAdmin \<Rightarrow> unit res" where
  "MsgChangeAdmin_ValidateBasic S m =
     bindR (check_address S ErrInvalidAddress ''Invalid sender address'' (ca_Sender m)) (\<lambda>_.
     bindR (check_address S ErrInvalidAddress ''Invalid address'' (ca_NewAdmin m)) (\<lambda>_.
     bindR (DeconstructDenom S (ca_Denom m)) (\<lambda>_.
     Ok ())))"

definition MsgSetDenomMetadata_ValidateBasic :: "Sdk \<Rightarrow> MsgSetDenomMetadata \<Rightarrow> unit res" where
  "MsgSetDenomMetadata_ValidateBasic S m =
     bindR (check_address S ErrInvalidAddress ''Invalid sender address'' (sm_Sender m)) (\<lambda>_.
     bindR (check (MetadataValidate S (sm_Metadata m))) (\<lambda>_.
     bindR (DeconstructDenom S (md_base (sm_Metadata m))) (\<lambda>_.
     Ok ())))"

definition MsgSetBeforeSendHook_ValidateBasic :: "Sdk \<Rightarrow> MsgSetBeforeSendHook \<Rightarrow> unit res" where
  "MsgSetBeforeSendHook_ValidateBasic S m =
     bindR (check_address S ErrInvalidAddress ''Invalid sender address'' (sh_Sender m)) (\<lambda>_.
     bindR (if sh_CosmwasmAddress m \<noteq> ''''
            then check_address S ErrInvalidAddress ''Invalid cosmwasm contract address''
                   (sh_CosmwasmAddress m)
            else Ok ()) (\<lambda>_.
     bindR (mapErr (\<lambda>_. ErrInvalidDenom) (DeconstructDenom S (sh_Denom m))) (\<lambda>_.
     Ok ())))"

text \<open>\<open>sender, _ := AccAddressFromBech32(m.Sender)\<close>: the error is dropped, the address then nil.\<close>

definition GetSigners :: "Sdk \<Rightarrow> string \<Rightarrow> addr list res" where
  "GetSigners S sender = (case AccAddressFromBech32 S sender of
     Ok a \<Rightarrow> Ok [a] | Err e \<Rightarrow> Ok [[]] | Panic p \<Rightarrow> Panic p)"

definition MsgCreateDenom_GetSigners :: "Sdk \<Rightarrow> MsgCreateDenom \<Rightarrow> addr list res" where
  "MsgCreateDenom_GetSigners S m = GetSigners S (cd_Sender m)"
definition MsgMint_GetSigners :: "Sdk \<Rightarrow> MsgMint \<Rightarrow> addr list res" where
  "MsgMint_GetSigners S m = GetSigners S (mt_Sender m)"
definition MsgBurn_GetSigners :: "Sdk \<Rightarrow> MsgBurn \<Rightarrow> addr list res" where
  "MsgBurn_GetSigners S m = GetSigners S (bn_Sender m)"
definition MsgForceTransfer_GetSigners :: "Sdk \<Rightarrow> MsgForceTransfer \<Rightarrow> addr list res" where
  "MsgForceTransfer_GetSigners S m = GetSigners S (ft_Sender m)"
definition MsgChangeAdmin_GetSigners :: "Sdk \<Rightarrow> MsgChangeAdmin \<Rightarrow> addr list res" where
  "MsgChangeAdmin_GetSigners S m = GetSigners S (ca_Sender m)"
definition MsgSetDenomMetadata_GetSigners :: "Sdk \<Rightarrow> MsgSetDenomMetadata \<Rightarrow> addr list res" where
  "MsgSetDenomMetadata_GetSigners S m = GetSigners S (sm_Sender m)"
definition MsgSetBeforeSendHook_GetSigners ::
    "Sdk \<Rightarrow> MsgSetBeforeSendHook \<Rightarrow> addr list res" where
  "MsgSetBeforeSendHook_GetSigners S m = GetSigners S (sh_Sender m)"

section \<open>What a checked message guarantees\<close>

lemma check_address_Ok [simp]:
  "check_address S e0 what s = Ok () \<longleftrightarrow> (\<exists>a. AccAddressFromBech32 S s = Ok a)"
  by (cases "AccAddressFromBech32 S s") (simp_all add: check_address_def)

locale sdk_msg =
  fixes sender :: "'m \<Rightarrow> string"
    and ValidateBasic :: "Sdk \<Rightarrow> 'm \<Rightarrow> unit res"
    and Signers :: "Sdk \<Rightarrow> 'm \<Rightarrow> addr list res"
  assumes sender_checked: "ValidateBasic S m = Ok () \<Longrightarrow> \<exists>a. AccAddressFromBech32 S (sender m) = Ok a"
    and signers_sender: "Signers S m = GetSigners S (sender m)"
begin

lemma one_signer:
  assumes "ValidateBasic S m = Ok ()"
  shows "\<exists>a. AccAddressFromBech32 S (sender m) = Ok a \<and> Signers S m = Ok [a]"
  using sender_checked [OF assms] by (auto simp: signers_sender GetSigners_def)

lemma bad_sender_rejected:
  assumes "AccAddressFromBech32 S (sender m) = Err e"
  shows "ValidateBasic S m \<noteq> Ok ()"
  using sender_checked [of S m] assms by auto

end

lemmas validate_defs = MsgCreateDenom_ValidateBasic_def MsgMint_ValidateBasic_def
  MsgBurn_ValidateBasic_def MsgForceTransfer_ValidateBasic_def MsgChangeAdmin_ValidateBasic_def
  MsgSetDenomMetadata_ValidateBasic_def MsgSetBeforeSendHook_ValidateBasic_def

lemmas signer_defs = MsgCreateDenom_GetSigners_def MsgMint_GetSigners_def MsgBurn_GetSigners_def
  MsgForceTransfer_GetSigners_def MsgChangeAdmin_GetSigners_def MsgSetDenomMetadata_GetSigners_def
  MsgSetBeforeSendHook_GetSigners_def

interpretation create_msg: sdk_msg cd_Sender MsgCreateDenom_ValidateBasic MsgCreateDenom_GetSigners
  by unfold_locales (auto simp: validate_defs signer_defs)
interpretation mint_msg: sdk_msg mt_Sender MsgMint_ValidateBasic MsgMint_GetSigners
  by unfold_locales (auto simp: validate_defs signer_defs)
interpretation burn_msg: sdk_msg bn_Sender MsgBurn_ValidateBasic MsgBurn_GetSigners
  by unfold_locales (auto simp: validate_defs signer_defs)
interpretation force_msg: sdk_msg ft_Sender MsgForceTransfer_ValidateBasic MsgForceTransfer_GetSigners
  by unfold_locales (auto simp: validate_defs signer_defs)
interpretation admin_msg: sdk_msg ca_Sender MsgChangeAdmin_ValidateBasic MsgChangeAdmin_GetSigners
  by unfold_locales (auto simp: validate_defs signer_defs)
interpretation metadata_msg: sdk_msg sm_Sender MsgSetDenomMetadata_ValidateBasic
  MsgSetDenomMetadata_GetSigners
  by unfold_locales (auto simp: validate_defs signer_defs)
interpretation hook_msg: sdk_msg sh_Sender MsgSetBeforeSendHook_ValidateBasic
  MsgSetBeforeSendHook_GetSigners
  by unfold_locales (auto simp: validate_defs signer_defs)

section \<open>Properties\<close>

text \<open>C20. The checks of a create message decide exactly whether the denomination can be named: it
  passes if and only if the sender decodes and \<open>GetTokenDenom\<close> gives the denomination, which then
  comes apart into the signer's canonical address and the subdenom.\<close>

theorem MsgCreateDenom_ValidateBasic_exact:
  "MsgCreateDenom_ValidateBasic S m = Ok () \<longleftrightarrow>
     (\<exists>a d. MsgCreateDenom_GetSigners S m = Ok [a] \<and> AccAddressFromBech32 S (cd_Sender m) = Ok a
        \<and> GetTokenDenom S (cd_Sender m) (cd_Subdenom m) = Ok d
        \<and> DeconstructDenom S d = Ok (AccAddressString S a, cd_Subdenom m))"
proof
  assume ok: "MsgCreateDenom_ValidateBasic S m = Ok ()"
  from create_msg.one_signer [OF this] obtain a where
    a: "AccAddressFromBech32 S (cd_Sender m) = Ok a" "MsgCreateDenom_GetSigners S m = Ok [a]"
    by blast
  from ok obtain d where d: "GetTokenDenom S (cd_Sender m) (cd_Subdenom m) = Ok d"
    by (auto simp: validate_defs)
  then have "DeconstructDenom S d = Ok (AccAddressString S a, cd_Subdenom m)"
    using a(1) by (auto simp: GetTokenDenom_Ok intro: DeconstructDenom_denom_of)
  with a d show "\<exists>a d. MsgCreateDenom_GetSigners S m = Ok [a]
      \<and> AccAddressFromBech32 S (cd_Sender m) = Ok a
      \<and> GetTokenDenom S (cd_Sender m) (cd_Subdenom m) = Ok d
      \<and> DeconstructDenom S d = Ok (AccAddressString S a, cd_Subdenom m)" by blast
qed (auto simp: validate_defs)

end
