(* ===== verification/Wire.thy ===== *)
theory Wire
  imports GoLib
begin

text \<open>
  The varint primitives that protoc-gen-gogo writes into every generated file of the repository
  (\<open>encodeVarintX\<close>, \<open>sovX\<close> and the read loops of every \<open>Unmarshal\<close>): their definitions, the byte
  string they encode to, and that reading is the inverse of writing.

  A buffer is written from its end towards its start, as the code does: a pair of the byte slice
  and the index \<open>i\<close> of the first byte already written. \<open>None\<close> is the index-out-of-range panic.
  Reading works on the slice and an index \<open>iNdEx\<close>; index arithmetic that can overflow is wrapped to
  64 bits.
\<close>

section \<open>Varints\<close>

definition u8 :: "u64 \<Rightarrow> char" where
  "u8 v = char_of (unat v)"

definition byte_val :: "char \<Rightarrow> u64" where
  "byte_val c = word_of_nat (of_char c)"

lemma byte_val_u8: "byte_val (u8 v) = take_bit 8 v"
  by (simp add: byte_val_def u8_def word_unat_eq_iff unsigned_take_bit_eq take_bit_eq_mod
      unat_of_nat unat_mod)

text \<open>\<open>bits.Len64\<close>: the number of bits needed for the value, 0 for 0.\<close>

fun Len64 :: "nat \<Rightarrow> nat" where
  "Len64 n = (if n = 0 then 0 else Suc (Len64 (n div 2)))"

declare Len64.simps [simp del]

definition sov :: "u64 \<Rightarrow> nat" where
  "sov x = (Len64 (unat (x OR 1)) + 6) div 7"

lemma unat_drop_bit7: "unat (drop_bit 7 (v::u64)) = unat v div 128"
  by (simp add: drop_bit_eq_div unat_div)

text \<open>The varint as a byte string: the reference the two loops are compared with.\<close>

function varint :: "u64 \<Rightarrow> bytes" where
  "varint v = (if v < 128 then [u8 v] else u8 ((v AND 0x7F) OR 0x80) # varint (drop_bit 7 v))"
  by pat_completeness auto
termination
  by (relation "measure unat") (auto simp: unat_drop_bit7 word_less_nat_alt not_less)

declare varint.simps [simp del]

definition putb :: "bytes \<Rightarrow> int \<Rightarrow> char \<Rightarrow> bytes option" where
  "putb d i c = (if 0 \<le> i \<and> i < int (length d) then Some (d[nat i := c]) else None)"

text \<open>The loop of \<open>encodeVarint\<close>, writing forwards from \<open>offset\<close>, and the function itself.\<close>

function encodeVarint_loop :: "bytes \<Rightarrow> int \<Rightarrow> u64 \<Rightarrow> bytes option" where
  "encodeVarint_loop d offset v =
     (if v < 128 then putb d offset (u8 v)
      else case putb d offset (u8 ((v AND 0x7F) OR 0x80)) of
             None \<Rightarrow> None
           | Some d' \<Rightarrow> encodeVarint_loop d' (offset + 1) (drop_bit 7 v))"
  by pat_completeness auto
termination
  by (relation "measure (\<lambda>(d, i, v). unat v)") (auto simp: unat_drop_bit7 word_less_nat_alt not_less)

declare encodeVarint_loop.simps [simp del]

definition encodeVarint :: "bytes \<times> int \<Rightarrow> u64 \<Rightarrow> (bytes \<times> int) option" where
  "encodeVarint b v =
     (let base = snd b - int (sov v)
      in map_option (\<lambda>d'. (d', base)) (encodeVarint_loop (fst b) base v))"

text \<open>The read loop: \<open>shift\<close> grows by 7 and the error is returned once it reaches 64.\<close>

function decodeVarint :: "bytes \<Rightarrow> nat \<Rightarrow> nat \<Rightarrow> u64 \<Rightarrow> (u64 \<times> nat) res" where
  "decodeVarint d iNdEx shift acc =
     (if 64 \<le> shift then Err ErrIntOverflow
      else if length d \<le> iNdEx then Err ErrUnexpectedEOF
      else let b = byte_val (d ! iNdEx); acc' = acc OR push_bit shift (b AND 0x7F)
           in if b < 0x80 then Ok (acc', iNdEx + 1)
              else decodeVarint d (iNdEx + 1) (shift + 7) acc')"
  by pat_completeness auto
termination
  by (relation "measure (\<lambda>(d, i, s, a). 64 - s)") auto

declare decodeVarint.simps [simp del]

lemma decodeVarint_stop [simp]:
  "64 \<le> s \<Longrightarrow> decodeVarint d i s a = Err ErrIntOverflow"
  "s < 64 \<Longrightarrow> length d \<le> i \<Longrightarrow> decodeVarint d i s a = Err ErrUnexpectedEOF"
  by (simp_all add: decodeVarint.simps [of d i s a])

lemma decodeVarint_step:
  "s < 64 \<Longrightarrow> i < length d \<Longrightarrow>
   decodeVarint d i s a =
     (let b = byte_val (d ! i); a' = a OR push_bit s (b AND 0x7F)
      in if b < 0x80 then Ok (a', i + 1) else decodeVarint d (i + 1) (s + 7) a')"
  by (simp add: decodeVarint.simps [of d i s a])

lemma decodeVarint_progress:
  "decodeVarint d i s a = Ok (v, j) \<Longrightarrow> i < j \<and> j \<le> length d"
proof (induction d i s a rule: decodeVarint.induct)
  case (1 d i s a)
  show ?case
  proof (cases "64 \<le> s \<or> length d \<le> i")
    case True
    with "1.prems" show ?thesis by (cases "64 \<le> s") simp_all
  next
    case False
    then have lt: "\<not> 64 \<le> s" "\<not> length d \<le> i" by auto
    note IH = "1.IH" [OF lt refl refl]
    show ?thesis
    proof (cases "byte_val (d ! i) < 0x80")
      case True
      with "1.prems" lt show ?thesis by (auto simp: decodeVarint_step Let_def)
    next
      case False
      with "1.prems" lt have "decodeVarint d (i + 1) (s + 7)
          (a OR push_bit s (byte_val (d ! i) AND 127)) = Ok (v, j)"
        by (simp add: decodeVarint_step Let_def)
      from IH [OF False this] show ?thesis by simp
    qed
  qed
qed

lemma decodeVarint_not_Panic: "decodeVarint d i s a \<noteq> Panic p"
proof (induction d i s a rule: decodeVarint.induct)
  case (1 d i s a)
  then show ?case by (subst decodeVarint.simps) (auto simp: Let_def)
qed

section \<open>Varint lemmas\<close>

lemma Len64_half: "0 < n \<Longrightarrow> Len64 n = Suc (Len64 (n div 2))"
  by (simp add: Len64.simps [of n])

lemma Len64_0 [simp]: "Len64 0 = 0"
  by (simp add: Len64.simps)

lemma Len64_less_iff: "Len64 n \<le> k \<longleftrightarrow> n < 2 ^ k"
proof (induction k arbitrary: n)
  case 0
  show ?case by (cases "n = 0") (simp_all add: Len64_half)
next
  case (Suc k)
  show ?case
  proof (cases "n = 0")
    case True
    then show ?thesis by simp
  next
    case False
    then have "Len64 n \<le> Suc k \<longleftrightarrow> n div 2 < 2 ^ k"
      by (simp add: Len64_half Suc)
    then show ?thesis by (simp add: less_mult_imp_div_less div_less_iff_less_mult mult.commute)
  qed
qed

lemma Len64_or_1: "Len64 (unat (x OR 1 :: u64)) = max 1 (Len64 (unat x))"
proof -
  have "unat (x OR 1) = unat x OR 1"
    by (simp only: unsigned_or_eq unsigned_1)
  also have "\<dots> = unat x + of_bool (even (unat x))"
    by (rule or_one_eq)
  finally have eq: "unat (x OR 1) = unat x + of_bool (even (unat x))" .
  have half: "(unat x + of_bool (even (unat x))) div 2 = unat x div 2"
    by (cases "even (unat x)") auto
  show ?thesis
  proof (cases "unat x = 0")
    case True
    then show ?thesis by (simp add: eq Len64_half)
  next
    case False
    then show ?thesis using half by (simp add: eq Len64_half)
  qed
qed

lemma Len64_div_128: "128 \<le> n \<Longrightarrow> Len64 n = 7 + Len64 (n div 128)"
proof -
  assume n: "128 \<le> n"
  have "Len64 n = k + Len64 (n div 2 ^ k)" if "k \<le> 7" for k
    using that
  proof (induction k)
    case 0
    show ?case by simp
  next
    case (Suc k)
    have "(2::nat) ^ k \<le> 2 ^ 7" using Suc.prems by (intro power_increasing) auto
    then have "0 < n div 2 ^ k" using n by (simp add: div_greater_zero_iff)
    with Suc show ?case by (simp add: Len64_half div_mult2_eq [symmetric] mult.commute)
  qed
  from this [of 7] show ?thesis by simp
qed

lemma sov_small: "v < 128 \<Longrightarrow> sov v = 1"
proof -
  assume "v < 128"
  then have "Len64 (unat v) \<le> 7" by (simp add: Len64_less_iff word_less_nat_alt)
  then show ?thesis by (simp add: sov_def Len64_or_1)
qed

lemma sov_large: "\<not> v < 128 \<Longrightarrow> sov v = Suc (sov (drop_bit 7 v))"
proof -
  assume v: "\<not> v < 128"
  then have n: "128 \<le> unat v" by (simp add: word_less_nat_alt)
  then have pos: "1 \<le> Len64 (unat v div 128)"
    by (subst Len64_half) (auto simp: div_greater_zero_iff)
  have "Len64 (unat v) = 7 + Len64 (unat v div 128)" using n by (rule Len64_div_128)
  with pos show ?thesis
    by (simp add: sov_def Len64_or_1 unat_drop_bit7 max_def)
qed

lemma length_varint: "length (varint v) = sov v"
proof (induction v rule: varint.induct)
  case (1 v)
  then show ?case
    by (cases "v < 128") (simp_all add: varint.simps [of v] sov_small sov_large)
qed

lemma sov_pos [simp]: "0 < sov v"
  by (cases "v < 128") (simp_all add: sov_small sov_large)

lemma varint_not_Nil [simp]: "varint v \<noteq> []"
  by (subst varint.simps) simp

lemma encodeVarint_loop_eq:
  assumes "0 \<le> off" "off + int (sov v) \<le> int (length d)"
  shows "encodeVarint_loop d off v =
    Some (take (nat off) d @ varint v @ drop (nat off + sov v) d)"
  using assms
proof (induction d off v rule: encodeVarint_loop.induct)
  case (1 d off v)
  have range: "nat off < length d" using "1.prems" by (simp add: nat_less_iff)
        (smt (verit) of_nat_0_less_iff sov_pos)
  have put: "putb d off c = Some (d[nat off := c])" for c
    using range "1.prems"(1) by (simp add: putb_def nat_less_iff)
  have upd: "d[nat off := c] = take (nat off) d @ c # drop (Suc (nat off)) d" for c
    using range by (rule upd_conv_take_nth_drop)
  show ?case
  proof (cases "v < 128")
    case True
    then show ?thesis
      by (simp add: encodeVarint_loop.simps [of d off v] put varint.simps [of v] upd sov_small)
  next
    case False
    let ?d = "d[nat off := u8 ((v AND 0x7F) OR 0x80)]"
    have s: "sov v = Suc (sov (drop_bit 7 v))" using False by (rule sov_large)
    have "encodeVarint_loop ?d (off + 1) (drop_bit 7 v) =
        Some (take (nat (off + 1)) ?d @ varint (drop_bit 7 v)
              @ drop (nat (off + 1) + sov (drop_bit 7 v)) ?d)"
      using "1.IH" [OF False put] "1.prems" s by simp
    moreover have "nat (off + 1) = Suc (nat off)" using "1.prems"(1) by simp
    moreover have "take (Suc (nat off)) ?d = take (nat off) d @ [u8 ((v AND 0x7F) OR 0x80)]"
      using range by (simp add: take_Suc_conv_app_nth)
    ultimately show ?thesis
      using False by (simp add: encodeVarint_loop.simps [of d off v] put
          varint.simps [of v] s)
  qed
qed

text \<open>Reading back: at shift \<open>s\<close> the decoder adds \<open>push_bit s v\<close> to what it has.\<close>

lemma and_127: "v AND 0x7F = take_bit 7 (v::u64)"
  by (simp add: take_bit_eq_mask mask_eq_exp_minus_1)

lemma take_bit_small: "v < 128 \<Longrightarrow> 7 \<le> n \<Longrightarrow> take_bit n (v::u64) = v"
proof -
  assume "v < 128" "7 \<le> n"
  then have "unat v < 2 ^ 7" by (simp add: word_less_nat_alt)
  also have "(2::nat) ^ 7 \<le> 2 ^ n" using \<open>7 \<le> n\<close> by (intro power_increasing) auto
  finally show ?thesis
    by (simp add: word_unat_eq_iff unsigned_take_bit_eq take_bit_nat_eq_self del: power_numeral)
qed

lemma push_bit_split7:
  "push_bit s (take_bit 7 v) OR push_bit (s + 7) (drop_bit 7 v) = push_bit s (v::u64)"
proof (rule bit_word_eqI)
  fix n
  assume "n < LENGTH(64)"
  have "7 + (n - (s + 7)) = n - s" if "s + 7 \<le> n" using that by simp
  then show "bit (push_bit s (take_bit 7 v) OR push_bit (s + 7) (drop_bit 7 v)) n =
      bit (push_bit s v) n"
    by (cases "s + 7 \<le> n") (auto simp: bit_simps)
qed

lemma continuation_byte:
  fixes v :: u64
  defines "b \<equiv> take_bit 7 v OR 0x80"
  shows "take_bit 8 b = b" "\<not> b < 0x80" "take_bit 7 b = take_bit 7 v"
proof -
  have b: "b = take_bit 7 v OR push_bit 7 1" by (simp add: b_def)
  show "take_bit 8 b = b" "take_bit 7 b = take_bit 7 v"
    unfolding b by (auto intro!: bit_word_eqI simp: bit_simps)
  show "\<not> b < 0x80"
  proof
    assume "b < 0x80"
    then have "take_bit 7 b = b" by (simp add: take_bit_small)
    then have "\<not> bit b 7" by (metis bit_take_bit_iff less_irrefl)
    then show False unfolding b by (simp add: bit_simps)
  qed
qed

lemma decodeVarint_varint:
  assumes "drop i d = varint v @ post" and "i \<le> length d" and "s < 64"
    and "unat v < 2 ^ (64 - s)"
  shows "decodeVarint d i s a = Ok (a OR push_bit s v, i + sov v)"
  using assms
proof (induction v arbitrary: i s a rule: varint.induct)
  case (1 v)
  have i: "i < length d"
    using "1.prems"(1) by (metis append_is_Nil_conv drop_all not_le varint_not_Nil)
  show ?case
  proof (cases "v < 128")
    case True
    then have "d ! i = u8 v"
      using "1.prems"(1) i by (simp add: varint.simps [of v] Cons_nth_drop_Suc [symmetric])
    then show ?thesis
      using True i "1.prems"(3)
      by (simp add: decodeVarint_step Let_def byte_val_u8 sov_small and_127 take_bit_small)
  next
    case False
    let ?b = "take_bit 7 v OR 0x80"
    have di: "d ! i = u8 ?b" and rest: "drop (Suc i) d = varint (drop_bit 7 v) @ post"
      using "1.prems"(1) i False
      by (simp_all add: varint.simps [of v] Cons_nth_drop_Suc [symmetric] and_127)
    note b = continuation_byte [of v]
    have n: "128 \<le> unat v" using False by (simp add: word_less_nat_alt)
    have s7: "s + 7 < 64"
    proof (rule ccontr)
      assume "\<not> s + 7 < 64"
      then have "(2::nat) ^ (64 - s) \<le> 2 ^ 7" by (intro power_increasing) auto
      with n "1.prems"(4) show False by simp
    qed
    have small: "unat (drop_bit 7 v) < 2 ^ (64 - (s + 7))"
    proof -
      have "(2::nat) ^ (64 - s) = 2 ^ (64 - (s + 7)) * 2 ^ 7"
        using s7 by (subst power_add [symmetric]) simp
      with "1.prems"(4) show ?thesis by (simp add: unat_drop_bit7 less_mult_imp_div_less)
    qed
    have "decodeVarint d i s a =
        Ok ((a OR push_bit s (take_bit 7 v)) OR push_bit (s + 7) (drop_bit 7 v), Suc i + sov (drop_bit 7 v))"
      using "1.IH" [OF False rest _ s7 small] i "1.prems"(3) di b
      by (simp add: decodeVarint_step Let_def byte_val_u8 and_127)
    then show ?thesis
      using False by (simp add: sov_large or.assoc push_bit_split7)
  qed
qed

end
