(* ===== verification/Proto.thy ===== *)
theory Proto
  imports Wire
begin

text \<open>
  The generated message code that is the same for every message: \<open>skipX\<close>, the field loop of
  \<open>Unmarshal\<close> and the backward writers of \<open>MarshalToSizedBuffer\<close>.

  The \<open>switch fieldNum\<close> of a message is a list of pairs of a field number and what its case does:
  \<open>FString\<close> for a string field, \<open>FUint64\<close> for a varint field and \<open>FMsg\<close> for an embedded message,
  each with the field's name in the error text. No Go slice has \<open>2^63\<close> bytes or more, so the loops
  are given for such slices only.

  The locale \<open>pb_message\<close> is the contract of a generated message type: the bytes it encodes to, that
  \<open>Size\<close> counts them, that \<open>MarshalToSizedBuffer\<close> right-aligns them in any buffer that is large
  enough, and that \<open>Unmarshal\<close> reads them back. The round trip and the absence of index panics
  follow from it once.
\<close>

named_theorems reads_intros \<open>what one encoded field makes the decoder do\<close>
named_theorems writes_intros \<open>what one backward writer puts into the buffer\<close>

section \<open>Skipping an unknown field\<close>

definition skip_field :: "bytes \<Rightarrow> nat \<Rightarrow> nat \<Rightarrow> nat \<Rightarrow> (int \<times> nat) res" where
  "skip_field d wireType iNdEx depth =
     (if wireType = 0 then bindR (decodeVarint d iNdEx 0 0) (\<lambda>(_, j). Ok (int j, depth))
      else if wireType = 1 then Ok (wrap64 (int iNdEx + 8), depth)
      else if wireType = 2 then
        bindR (decodeVarint d iNdEx 0 0) (\<lambda>(v, j).
          if sint v < 0 then Err ErrInvalidLength else Ok (wrap64 (int j + sint v), depth))
      else if wireType = 3 then Ok (int iNdEx, depth + 1)
      else if wireType = 4 then
        (if depth = 0 then Err ErrUnexpectedEndOfGroup else Ok (int iNdEx, depth - 1))
      else if wireType = 5 then Ok (wrap64 (int iNdEx + 4), depth)
      else Err (Errorf (''proto: illegal wireType '' @ itoa (int wireType))))"

lemma sint_less: "sint (v::u64) < 2 ^ 63"
  using sint_lt [of v] by simp

lemma skip_field_progress:
  assumes "skip_field d wt i dep = Ok (k, dep')" and "i \<le> length d" and "length d < 2 ^ 63"
  shows "k < 0 \<or> int i \<le> k"
proof -
  have wrap: "wrap64 (int j + n) < 0 \<or> int j \<le> wrap64 (int j + n)"
    if "j \<le> length d" "0 \<le> n" "n < 2 ^ 63" for j n
    using wrap64_overflow [of "int j + n"] that assms(3)
    by (cases "int j + n < 2 ^ 63") auto
  have step: "wrap64 (int j + sint v) < 0 \<or> int i \<le> wrap64 (int j + sint v)"
    if "decodeVarint d i 0 0 = Ok (v, j)" "\<not> sint v < 0" for j v
    using wrap [of j "sint v"] decodeVarint_progress [OF that(1)] that(2) sint_less [of v] by auto
  show ?thesis
    using assms(1,2) wrap [of i 8] wrap [of i 4]
    by (auto simp: skip_field_def dest: step decodeVarint_progress split: if_splits)
qed

function skip_loop :: "bytes \<Rightarrow> int \<Rightarrow> nat \<Rightarrow> int res" where
  "skip_loop d iNdEx depth =
     (if 0 \<le> iNdEx \<and> iNdEx < int (length d) \<and> length d < 2 ^ 63 then
        (case decodeVarint d (nat iNdEx) 0 0 of
           Err e \<Rightarrow> Err e
         | Panic p \<Rightarrow> Panic p
         | Ok (wire, j) \<Rightarrow>
             (case skip_field d (unat (wire AND 7)) j depth of
                Err e \<Rightarrow> Err e
              | Panic p \<Rightarrow> Panic p
              | Ok (k, depth') \<Rightarrow>
                  if k < 0 then Err ErrInvalidLength
                  else if depth' = 0 then Ok k
                  else skip_loop d k depth'))
      else Err ErrUnexpectedEOF)"
  by pat_completeness auto
termination
proof (relation "measure (\<lambda>(d, i, dep). nat (int (length d) - i))")
  fix d :: bytes and i :: int and dep :: nat and x :: "u64 \<times> nat" and wire j y k dep'
  assume lt: "0 \<le> i \<and> i < int (length d) \<and> length d < 2 ^ 63"
    and v: "decodeVarint d (nat i) 0 0 = Ok x" "(wire, j) = x"
    and f: "skip_field d (unat (wire AND 7)) j dep = Ok y" "(k, dep') = y" "\<not> k < 0" "dep' \<noteq> 0"
  have "nat i < j \<and> j \<le> length d"
    using v decodeVarint_progress by blast
  moreover from this have "k < 0 \<or> int j \<le> k"
    using f lt skip_field_progress by blast
  ultimately show "((d, k, dep'), d, i, dep) \<in> measure (\<lambda>(d, i, dep). nat (int (length d) - i))"
    using lt f(3) by auto
qed auto

declare skip_loop.simps [simp del]

definition skip :: "bytes \<Rightarrow> int res" where
  "skip d = skip_loop d 0 0"

lemma skip_loop_progress: "skip_loop d i dep = Ok k \<Longrightarrow> 0 \<le> i \<and> i < k"
proof (induction d i dep rule: skip_loop.induct)
  case (1 d i dep)
  from "1.prems" obtain wire j k' dep' where
    lt: "0 \<le> i \<and> i < int (length d) \<and> length d < 2 ^ 63"
    and v: "decodeVarint d (nat i) 0 0 = Ok (wire, j)"
    and f: "skip_field d (unat (wire AND 7)) j dep = Ok (k', dep')" "\<not> k' < 0"
    and r: "if dep' = 0 then k' = k else skip_loop d k' dep' = Ok k"
    by (subst (asm) skip_loop.simps) (auto split: if_splits res.splits)
  have "nat i < j \<and> j \<le> length d"
    using v decodeVarint_progress by blast
  with f lt have "i < k'"
    using skip_field_progress [OF f(1)] by auto
  with r show ?case
    using "1.IH" [OF lt v refl f(1) refl f(2)] lt by (cases "dep' = 0") auto
qed

lemma skip_progress: "skip d = Ok k \<Longrightarrow> 0 < k"
  using skip_loop_progress [of d 0 0 k] by (simp add: skip_def)


lemma skip_field_bound:
  assumes "skip_field d wt i dep = Ok (k, dep')" and "i \<le> length d" and "length d < 2 ^ 63"
  shows "k < 2 ^ 63"
  using assms wrap64_range
  by (auto simp: skip_field_def dest: decodeVarint_progress split: if_splits)

lemma skip_loop_bound: "skip_loop d i dep = Ok k \<Longrightarrow> length d < 2 ^ 63 \<Longrightarrow> k < 2 ^ 63"
proof (induction d i dep rule: skip_loop.induct)
  case (1 d i dep)
  from "1.prems"(1) obtain wire j k' dep' where
    lt: "0 \<le> i \<and> i < int (length d) \<and> length d < 2 ^ 63"
    and v: "decodeVarint d (nat i) 0 0 = Ok (wire, j)"
    and f: "skip_field d (unat (wire AND 7)) j dep = Ok (k', dep')" "\<not> k' < 0"
    and r: "if dep' = 0 then k' = k else skip_loop d k' dep' = Ok k"
    by (subst (asm) skip_loop.simps) (auto split: if_splits res.splits)
  have "nat i < j \<and> j \<le> length d"
    using v decodeVarint_progress by blast
  with f lt have "k' < 2 ^ 63"
    using skip_field_bound [OF f(1)] by auto
  with r show ?case
    using "1.IH" [OF lt v refl f(1) refl f(2)] lt by (cases "dep' = 0") auto
qed

lemma skip_bound: "skip d = Ok k \<Longrightarrow> length d < 2 ^ 63 \<Longrightarrow> k < 2 ^ 63"
  unfolding skip_def by (rule skip_loop_bound)

section \<open>Reading the fields of a message\<close>

datatype 'm field =
    FString string "string \<Rightarrow> 'm \<Rightarrow> 'm"
  | FUint64 string "u64 \<Rightarrow> 'm \<Rightarrow> 'm"
  | FMsg string "bytes \<Rightarrow> 'm \<Rightarrow> 'm res"

text \<open>The length prefix of a string or message field: where its bytes start and end.\<close>

definition read_len :: "bytes \<Rightarrow> nat \<Rightarrow> (nat \<times> nat) res" where
  "read_len d iNdEx =
     bindR (decodeVarint d iNdEx 0 0) (\<lambda>(v, j).
       if sint v < 0 then Err ErrInvalidLength
       else let postIndex = wrap64 (int j + sint v) in
         if postIndex < 0 then Err ErrInvalidLength
         else if int (length d) < postIndex then Err ErrUnexpectedEOF
         else Ok (j, nat postIndex))"

text \<open>\<open>dAtA[j:p]\<close>, which panics when it is out of range.\<close>

definition sub_slice :: "bytes \<Rightarrow> nat \<Rightarrow> nat \<Rightarrow> bytes res" where
  "sub_slice d j p =
     (if j \<le> p \<and> p \<le> length d then Ok (take (p - j) (drop j d)) else Panic ''slice bounds out of range'')"

definition wrong_wireType :: "nat \<Rightarrow> string \<Rightarrow> 'a res" where
  "wrong_wireType wt name =
     Err (Errorf (''proto: wrong wireType = '' @ itoa (int wt) @ '' for field '' @ name))"

fun read_field :: "'m field \<Rightarrow> nat \<Rightarrow> bytes \<Rightarrow> nat \<Rightarrow> 'm \<Rightarrow> ('m \<times> nat) res" where
  "read_field (FString name upd) wt d i m =
     (if wt \<noteq> 2 then wrong_wireType wt name
      else bindR (read_len d i) (\<lambda>(j, p).
             bindR (sub_slice d j p) (\<lambda>s. Ok (upd s m, p))))"
| "read_field (FUint64 name upd) wt d i m =
     (if wt \<noteq> 0 then wrong_wireType wt name
      else bindR (decodeVarint d i 0 0) (\<lambda>(v, j). Ok (upd v m, j)))"
| "read_field (FMsg name upd) wt d i m =
     (if wt \<noteq> 2 then wrong_wireType wt name
      else bindR (read_len d i) (\<lambda>(j, p).
             bindR (sub_slice d j p) (\<lambda>bs. bindR (upd bs m) (\<lambda>m'. Ok (m', p)))))"

lemma read_len_progress:
  assumes "read_len d i = Ok (j, p)" "length d < 2 ^ 63"
  shows "i < j \<and> j \<le> p \<and> p \<le> length d"
proof -
  from assms(1) obtain v where v: "decodeVarint d i 0 0 = Ok (v, j)" "\<not> sint v < 0"
    and p: "\<not> wrap64 (int j + sint v) < 0" "\<not> int (length d) < wrap64 (int j + sint v)"
      "p = nat (wrap64 (int j + sint v))"
    by (auto simp: read_len_def Let_def split: if_splits)
  from v have j: "i < j" "j \<le> length d" using decodeVarint_progress by blast+
  have "int j + sint v < 2 ^ 63"
    using wrap64_nat_plus [of "int j" "sint v"] p(1) v(2) j(2) assms(2) sint_less [of v] by auto
  then have "wrap64 (int j + sint v) = int j + sint v" using v(2) by simp
  with j p v(2) show ?thesis by auto
qed

lemma sub_slice_read_len:
  assumes "read_len d i = Ok (j, p)" "length d < 2 ^ 63"
  shows "sub_slice d j p = Ok (take (p - j) (drop j d))"
  using read_len_progress [OF assms] by (simp add: sub_slice_def)

lemma read_field_progress:
  assumes "read_field f wt d i m = Ok (m', p)" "length d < 2 ^ 63"
  shows "i < p \<and> p \<le> length d"
  using assms
  by (cases f) (auto simp: wrong_wireType_def split: if_splits
      dest!: read_len_progress dest: decodeVarint_progress)

text \<open>\<open>fieldNum := int32(wire >> 3)\<close>\<close>

definition field_num :: "u64 \<Rightarrow> int" where
  "field_num wire = sint (ucast (drop_bit 3 wire) :: 32 word)"

lemma skip_index_progress:
  assumes "i < length d" "length d < 2 ^ 63" "skip (drop i d) = Ok k"
    and "\<not> (k < 0 \<or> wrap64 (int i + k) < 0)" "\<not> int (length d) < wrap64 (int i + k)"
  shows "i < nat (wrap64 (int i + k)) \<and> nat (wrap64 (int i + k)) \<le> length d"
proof -
  have k: "0 < k" "k < 2 ^ 63"
    using assms(2,3) skip_progress skip_bound [of "drop i d" k] by auto
  then have "int i + k < 2 ^ 63"
    using wrap64_nat_plus [of "int i" k] assms by auto
  then have "wrap64 (int i + k) = int i + k" using k by simp
  with k assms(5) show ?thesis by auto
qed

text \<open>
  \<open>Unmarshal\<close>: the loop over the fields, from index \<open>iNdEx\<close>, into the message \<open>m\<close>. An unknown field
  is skipped from the index before its tag.
\<close>

function unmarshal_loop ::
    "string \<Rightarrow> (int \<times> 'm field) list \<Rightarrow> bytes \<Rightarrow> nat \<Rightarrow> 'm \<Rightarrow> 'm res" where
  "unmarshal_loop name fields d iNdEx m =
     (if iNdEx < length d \<and> length d < 2 ^ 63 then
        (case decodeVarint d iNdEx 0 0 of
           Err e \<Rightarrow> Err e
         | Panic p \<Rightarrow> Panic p
         | Ok (wire, j) \<Rightarrow>
             (let fieldNum = field_num wire; wireType = unat (wire AND 7) in
              if wireType = 4 then
                Err (Errorf (''proto: '' @ name @ '': wiretype end group for non-group''))
              else if fieldNum \<le> 0 then
                Err (Errorf (''proto: '' @ name @ '': illegal tag '' @ itoa fieldNum
                       @ '' (wire type '' @ itoa (uint wire) @ '')''))
              else (case map_of fields fieldNum of
                Some f \<Rightarrow>
                  (case read_field f wireType d j m of
                     Err e \<Rightarrow> Err e
                   | Panic p \<Rightarrow> Panic p
                   | Ok (m', i') \<Rightarrow> unmarshal_loop name fields d i' m')
              | None \<Rightarrow>
                  (case skip (drop iNdEx d) of
                     Err e \<Rightarrow> Err e
                   | Panic p \<Rightarrow> Panic p
                   | Ok skippy \<Rightarrow>
                       if skippy < 0 \<or> wrap64 (int iNdEx + skippy) < 0 then Err ErrInvalidLength
                       else if int (length d) < wrap64 (int iNdEx + skippy) then Err ErrUnexpectedEOF
                       else unmarshal_loop name fields d (nat (wrap64 (int iNdEx + skippy))) m))))
      else if length d < iNdEx then Err ErrUnexpectedEOF else Ok m)"
  by pat_completeness auto

termination
proof (relation "measure (\<lambda>(n, fs, d, i, m). length d - i)")
  show "wf (measure (\<lambda>(n, fs, d, i, m). length d - i))" by simp
next
  fix name and fields :: "(int \<times> 'a field) list" and d :: bytes and i :: nat and m :: 'a
    and x wire j fnum wt f y m' i'
  assume "i < length d \<and> length d < 2 ^ 63" "decodeVarint d i 0 0 = Ok x" "(wire, j) = x"
    and "read_field f wt d j m = Ok y" "(m', i') = y"
  then show "((name, fields, d, i', m'), name, fields, d, i, m)
      \<in> measure (\<lambda>(n, fs, d, i, m). length d - i)"
    using decodeVarint_progress [of d i 0 0 wire j] read_field_progress [of f wt d j m m' i']
    by auto
next
  fix name and fields :: "(int \<times> 'a field) list" and d :: bytes and i :: nat and m :: 'a and k
  assume "i < length d \<and> length d < 2 ^ 63" "skip (drop i d) = Ok k"
    and "\<not> (k < 0 \<or> wrap64 (int i + k) < 0)" "\<not> int (length d) < wrap64 (int i + k)"
  then show "((name, fields, d, nat (wrap64 (int i + k)), m), name, fields, d, i, m)
      \<in> measure (\<lambda>(n, fs, d, i, m). length d - i)"
    using skip_index_progress [of i d k] by auto
qed

declare unmarshal_loop.simps [simp del]

definition unmarshal :: "string \<Rightarrow> (int \<times> 'm field) list \<Rightarrow> bytes \<Rightarrow> 'm \<Rightarrow> 'm res" where
  "unmarshal name fields d m = unmarshal_loop name fields d 0 m"


section \<open>Encoded fields and what reading them does\<close>

definition pbs :: "nat \<Rightarrow> string \<Rightarrow> bytes" where
  "pbs t s = (if s = [] then [] else char_of t # varint (word_of_nat (length s)) @ s)"

definition pbu :: "nat \<Rightarrow> u64 \<Rightarrow> bytes" where
  "pbu t v = (if v = 0 then [] else char_of t # varint v)"

definition pbm :: "nat \<Rightarrow> bytes \<Rightarrow> bytes" where
  "pbm t out = char_of t # varint (word_of_nat (length out)) @ out"

definition reads ::
    "string \<Rightarrow> (int \<times> 'm field) list \<Rightarrow> bytes \<Rightarrow> 'm \<Rightarrow> 'm \<Rightarrow> bool" where
  "reads name fields c m m' \<longleftrightarrow>
     (\<forall>d i post. drop i d = c @ post \<longrightarrow> i \<le> length d \<longrightarrow> length d < 2 ^ 63 \<longrightarrow>
        unmarshal_loop name fields d i m = unmarshal_loop name fields d (i + length c) m')"

lemma drop_length_le: "drop i d = c @ post \<Longrightarrow> i \<le> length d \<Longrightarrow> i + length c \<le> length d"
  by (metis add_le_cancel_left le_add1 length_append length_drop le_add_diff_inverse)

lemma drop_add: "drop i d = c @ post \<Longrightarrow> drop (i + length c) d = post"
  by (metis add.commute append_eq_conv_conj drop_drop)

lemma reads_Nil: "reads name fields [] m m"
  by (simp add: reads_def)

lemma reads_append:
  assumes "reads name fields c1 m m1" and "reads name fields c2 m1 m2"
  shows "reads name fields (c1 @ c2) m m2"
  unfolding reads_def
proof (intro allI impI)
  fix d i post
  assume d: "drop i d = (c1 @ c2) @ post" "i \<le> length d" "length d < 2 ^ 63"
  then have "unmarshal_loop name fields d i m = unmarshal_loop name fields d (i + length c1) m1"
    using assms(1) by (simp add: reads_def)
  also have "\<dots> = unmarshal_loop name fields d (i + length c1 + length c2) m2"
    using assms(2) d drop_add [of i d c1 "c2 @ post"] drop_length_le [of i d c1 "c2 @ post"]
    by (simp add: reads_def)
  finally show "unmarshal_loop name fields d i m =
      unmarshal_loop name fields d (i + length (c1 @ c2)) m2"
    by (simp add: add.assoc)
qed

lemma unmarshal_reads:
  assumes "reads name fields c m m'" and "length c < 2 ^ 63"
  shows "unmarshal name fields c m = Ok m'"
proof -
  have "unmarshal_loop name fields c 0 m = unmarshal_loop name fields c (0 + length c) m'"
    using assms unfolding reads_def by (metis append_Nil2 drop0 le0)
  then show ?thesis
    by (simp add: unmarshal_def unmarshal_loop.simps [of name fields c "length c"])
qed

lemma decode_tag:
  assumes "drop i d = char_of t # post" "i \<le> length d" "t < 128"
  shows "decodeVarint d i 0 0 = Ok (word_of_nat t, i + 1)"
proof -
  have t: "unat (word_of_nat t :: u64) = t" using assms(3) by (simp add: unat_of_nat)
  then have "varint (word_of_nat t) = [char_of t]"
    using assms(3) by (simp add: varint.simps [of "word_of_nat t"] u8_def word_less_nat_alt)
  then show ?thesis
    using decodeVarint_varint [of i d "word_of_nat t" post 0 0] assms t
    by (simp add: sov_small word_less_nat_alt)
qed

lemma tag_type: "t < 128 \<Longrightarrow> unat ((word_of_nat t :: u64) AND 7) = t mod 8"
proof -
  assume t: "t < 128"
  have "(word_of_nat t :: u64) AND 7 = take_bit 3 (word_of_nat t)"
    by (simp add: take_bit_eq_mask mask_eq_exp_minus_1)
  then have "unat ((word_of_nat t :: u64) AND 7) = take_bit 3 (unat (word_of_nat t :: u64))"
    by (simp only: unsigned_take_bit_eq)
  then show ?thesis using t by (simp add: unat_of_nat take_bit_eq_mod)
qed

lemma tag_num: "t < 128 \<Longrightarrow> field_num (word_of_nat t) = int (t div 8)"
proof -
  assume t: "t < 128"
  then have u: "unat (word_of_nat t :: u64) = t" by (simp add: unat_of_nat)
  have "drop_bit 3 (word_of_nat t :: u64) = word_of_nat (t div 8)"
    using u t by (simp add: drop_bit_eq_div word_unat_eq_iff unat_div unat_of_nat)
  moreover have "ucast (word_of_nat (t div 8) :: u64) = (word_of_nat (t div 8) :: 32 word)"
    using t by (simp add: word_unat_eq_iff unat_of_nat unsigned_ucast_eq take_bit_eq_mod)
  moreover have "sint (word_of_nat (t div 8) :: 32 word) = int (t div 8)"
    using t by (simp add: sint_uint signed_take_bit_int_eq_self uint_nat unat_of_nat)
  ultimately show ?thesis by (simp add: field_num_def)
qed

lemma read_len_eq:
  assumes "drop j d = varint (word_of_nat (length s)) @ s @ post" "j \<le> length d" "length d < 2 ^ 63"
  defines "k \<equiv> j + sov (word_of_nat (length s))"
  shows "read_len d j = Ok (k, k + length s)" and "sub_slice d k (k + length s) = Ok s"
proof -
  have drop_k: "drop k d = s @ post"
    using drop_add [OF assms(1)] by (simp add: k_def length_varint)
  have "k \<le> length d"
    using drop_length_le [OF assms(1,2)] by (simp add: k_def length_varint)
  then have ks: "k + length s \<le> length d" using drop_length_le [OF drop_k] by simp
  then have u: "unat (word_of_nat (length s) :: u64) = length s"
    using assms(3) by (simp add: unat_of_nat)
  then have si: "sint (word_of_nat (length s) :: u64) = int (length s)"
    using ks assms(3) by (simp add: sint_uint signed_take_bit_int_eq_self uint_nat)
  have "decodeVarint d j 0 0 = Ok (word_of_nat (length s), k)"
    using decodeVarint_varint [OF assms(1,2), of 0 0] u ks assms(3) by (simp add: k_def)
  then show "read_len d j = Ok (k, k + length s)"
    using ks assms(3) by (simp add: read_len_def si)
  show "sub_slice d k (k + length s) = Ok s" using ks by (simp add: sub_slice_def drop_k)
qed

lemma unmarshal_loop_field:
  assumes d: "drop i d = char_of t # post" "i \<le> length d" "length d < 2 ^ 63" "t < 128"
    and f: "map_of fields (int (t div 8)) = Some f" "t mod 8 \<noteq> 4" "0 < t div 8"
    and r: "read_field f (t mod 8) d (i + 1) m = Ok (m', k)"
  shows "unmarshal_loop name fields d i m = unmarshal_loop name fields d k m'"
proof -
  have "i < length d" using d(1,2) by (metis drop_all le_neq_implies_less list.distinct(1))
  moreover have "0 < int (t div 8)" using f(3) by simp
  ultimately show ?thesis
    using d f r decode_tag [OF d(1,2,4)]
    by (subst unmarshal_loop.simps) (simp add: tag_type tag_num Let_def)
qed

text \<open>The case of a string field on the bytes of any string, the empty one with its length too.\<close>

lemma reads_FString_any:
  assumes "map_of fields (int (t div 8)) = Some (FString nm upd)" "t < 128" "t mod 8 = 2"
    and "0 < t div 8"
  shows "reads name fields (pbm t s) m (upd s m)"
  unfolding reads_def
proof (intro allI impI)
  fix d i post
  assume d: "drop i d = pbm t s @ post" "i \<le> length d" "length d < 2 ^ 63"
  then have d1: "drop i d = char_of t # varint (word_of_nat (length s)) @ s @ post"
    by (simp add: pbm_def)
  then have d2: "drop (i + 1) d = varint (word_of_nat (length s)) @ s @ post" "i + 1 \<le> length d"
    using d(2) drop_add [of i d "[char_of t]"] drop_length_le [of i d "[char_of t]"] by auto
  have "read_field (FString nm upd) (t mod 8) d (i + 1) m = Ok (upd s m, i + length (pbm t s))"
    using read_len_eq [OF d2 d(3)] assms(3) by (simp add: pbm_def length_varint)
  then show "unmarshal_loop name fields d i m =
      unmarshal_loop name fields d (i + length (pbm t s)) (upd s m)"
    using assms by (intro unmarshal_loop_field [OF d1 d(2,3)]) auto
qed

lemma reads_FString [reads_intros]:
  assumes "map_of fields (int (t div 8)) = Some (FString nm upd)" "t < 128" "t mod 8 = 2"
    and "0 < t div 8" and "s = [] \<Longrightarrow> upd [] m = m"
  shows "reads name fields (pbs t s) m (upd s m)"
proof (cases "s = []")
  case True
  then show ?thesis using assms(5) by (simp add: pbs_def reads_Nil)
next
  case False
  then have "pbs t s = pbm t s" by (simp add: pbs_def pbm_def)
  then show ?thesis using reads_FString_any [OF assms(1-4)] by simp
qed

lemma reads_FMsg [reads_intros]:
  assumes "map_of fields (int (t div 8)) = Some (FMsg nm upd)" "t < 128" "t mod 8 = 2"
    and "0 < t div 8" and "upd out m = Ok m'"
  shows "reads name fields (pbm t out) m m'"
  unfolding reads_def
proof (intro allI impI)
  fix d i post
  assume d: "drop i d = pbm t out @ post" "i \<le> length d" "length d < 2 ^ 63"
  then have d1: "drop i d = char_of t # varint (word_of_nat (length out)) @ out @ post"
    by (simp add: pbm_def)
  then have d2: "drop (i + 1) d = varint (word_of_nat (length out)) @ out @ post" "i + 1 \<le> length d"
    using d(2) drop_add [of i d "[char_of t]"] drop_length_le [of i d "[char_of t]"] by auto
  have "read_field (FMsg nm upd) (t mod 8) d (i + 1) m = Ok (m', i + length (pbm t out))"
    using read_len_eq [OF d2 d(3)] assms(3,5) by (simp add: pbm_def length_varint)
  then show "unmarshal_loop name fields d i m =
      unmarshal_loop name fields d (i + length (pbm t out)) m'"
    using assms by (intro unmarshal_loop_field [OF d1 d(2,3)]) auto
qed

lemma reads_FUint64 [reads_intros]:
  assumes "map_of fields (int (t div 8)) = Some (FUint64 nm upd)" "t < 128" "t mod 8 = 0"
    and "0 < t div 8" and "v = 0 \<Longrightarrow> upd 0 m = m"
  shows "reads name fields (pbu t v) m (upd v m)"
proof (cases "v = 0")
  case True
  then show ?thesis using assms(5) by (simp add: pbu_def reads_Nil)
next
  case False
  show ?thesis
    unfolding reads_def
  proof (intro allI impI)
    fix d i post
    assume d: "drop i d = pbu t v @ post" "i \<le> length d" "length d < 2 ^ 63"
    then have d1: "drop i d = char_of t # varint v @ post"
      using False by (simp add: pbu_def)
    then have d2: "drop (i + 1) d = varint v @ post" "i + 1 \<le> length d"
      using d(2) drop_add [of i d "[char_of t]"] drop_length_le [of i d "[char_of t]"] by auto
    have "read_field (FUint64 nm upd) (t mod 8) d (i + 1) m = Ok (upd v m, i + length (pbu t v))"
      using decodeVarint_varint [OF d2, of 0 0] assms(3) False unsigned_less [of v, where ?'a = nat]
      by (simp add: pbu_def length_varint)
    then show "unmarshal_loop name fields d i m =
        unmarshal_loop name fields d (i + length (pbu t v)) (upd v m)"
      using assms by (intro unmarshal_loop_field [OF d1 d(2,3)]) auto
  qed
qed


section \<open>Writing a message backwards\<close>

type_synonym buf = "bytes \<times> int"

definition oob :: "'a option \<Rightarrow> 'a res" where
  "oob x = (case x of Some v \<Rightarrow> Ok v | None \<Rightarrow> Panic ''index out of range'')"

lemma oob_simps [simp]: "oob (Some v) = Ok v" "oob None = Panic ''index out of range''"
  by (simp_all add: oob_def)

text \<open>\<open>i -= len(s); copy(dAtA[i:], s)\<close>\<close>

definition b_copy :: "string \<Rightarrow> buf \<Rightarrow> buf res" where
  "b_copy s b = (let d = fst b; i = snd b - int (length s) in
     if 0 \<le> i \<and> i \<le> int (length d)
     then let n = min (length d - nat i) (length s) in
       Ok (take (nat i) d @ take n s @ drop (nat i + n) d, i)
     else Panic ''index out of range'')"

definition b_varint :: "u64 \<Rightarrow> buf \<Rightarrow> buf res" where
  "b_varint v b = oob (encodeVarint b v)"

text \<open>\<open>i--; dAtA[i] = c\<close>\<close>

definition b_byte :: "nat \<Rightarrow> buf \<Rightarrow> buf res" where
  "b_byte c b = oob (map_option (\<lambda>d. (d, snd b - 1)) (putb (fst b) (snd b - 1) (char_of c)))"

definition b_string :: "nat \<Rightarrow> string \<Rightarrow> buf \<Rightarrow> buf res" where
  "b_string t s b =
     (if 0 < length s then
        bindR (b_copy s b) (\<lambda>b. bindR (b_varint (word_of_nat (length s)) b) (b_byte t))
      else Ok b)"

definition b_uint64 :: "nat \<Rightarrow> u64 \<Rightarrow> buf \<Rightarrow> buf res" where
  "b_uint64 t v b = (if v \<noteq> 0 then bindR (b_varint v b) (b_byte t) else Ok b)"

text \<open>The block of an embedded message: it is written into \<open>dAtA[:i]\<close>, the same array.\<close>

definition b_msg :: "nat \<Rightarrow> (bytes \<Rightarrow> (bytes \<times> nat) res) \<Rightarrow> buf \<Rightarrow> buf res" where
  "b_msg t f b = (let d = fst b; i = snd b in
     if 0 \<le> i \<and> i \<le> int (length d) then
       bindR (f (take (nat i) d)) (\<lambda>(d1, size).
         bindR (b_varint (word_of_nat size) (d1 @ drop (nat i) d, i - int size)) (b_byte t))
     else Panic ''index out of range'')"

fun run_writers :: "(buf \<Rightarrow> buf res) list \<Rightarrow> buf \<Rightarrow> buf res" where
  "run_writers [] b = Ok b"
| "run_writers (g # gs) b = bindR (g b) (run_writers gs)"

definition to_sized_buffer :: "(buf \<Rightarrow> buf res) list \<Rightarrow> bytes \<Rightarrow> (bytes \<times> nat) res" where
  "to_sized_buffer ws d =
     bindR (run_writers ws (d, int (length d))) (\<lambda>(d', i). Ok (d', nat (int (length d) - i)))"

text \<open>\<open>Marshal\<close>: a buffer of \<open>Size()\<close> zero bytes, written, cut to the bytes written.\<close>

definition marshal :: "('m \<Rightarrow> nat) \<Rightarrow> ('m \<Rightarrow> bytes \<Rightarrow> (bytes \<times> nat) res) \<Rightarrow> 'm \<Rightarrow> bytes res" where
  "marshal Size ToSized m =
     bindR (ToSized m (replicate (Size m) (char_of (0::nat)))) (\<lambda>(d, n). Ok (take n d))"

text \<open>What a writer does to any buffer with room for it.\<close>

definition writes :: "(bytes \<Rightarrow> (bytes \<times> nat) res) \<Rightarrow> bytes \<Rightarrow> bool" where
  "writes f out \<longleftrightarrow> (\<forall>d. length out \<le> length d \<longrightarrow>
     f d = Ok (take (length d - length out) d @ out, length out))"

definition bwrites :: "(buf \<Rightarrow> buf res) \<Rightarrow> bytes \<Rightarrow> bool" where
  "bwrites g out \<longleftrightarrow> (\<forall>d i. length out \<le> i \<longrightarrow> i \<le> length d \<longrightarrow>
     g (d, int i) = Ok (take (i - length out) d @ out @ drop i d, int (i - length out)))"

lemma bwritesD:
  "bwrites g out \<Longrightarrow> length out \<le> i \<Longrightarrow> i \<le> length d \<Longrightarrow>
   g (d, int i) = Ok (take (i - length out) d @ out @ drop i d, int (i - length out))"
  by (simp add: bwrites_def)

lemma bwrites_seq:
  assumes "bwrites g out1" and "bwrites h out2"
  shows "bwrites (\<lambda>b. bindR (g b) h) (out2 @ out1)"
  unfolding bwrites_def
proof (intro allI impI)
  fix d :: bytes and i
  assume i: "length (out2 @ out1) \<le> i" "i \<le> length d"
  let ?d = "take (i - length out1) d @ out1 @ drop i d" and ?i = "i - length out1"
  have "g (d, int i) = Ok (?d, int ?i)"
    using assms(1) i by (intro bwritesD) auto
  moreover have "h (?d, int ?i) = Ok (take (?i - length out2) ?d @ out2 @ drop ?i ?d,
      int (?i - length out2))"
    using assms(2) i by (intro bwritesD) auto
  ultimately show "bindR (g (d, int i)) h =
      Ok (take (i - length (out2 @ out1)) d @ (out2 @ out1) @ drop i d, int (i - length (out2 @ out1)))"
    using i by (simp add: diff_diff_left add.commute min_def)
qed

lemma bwrites_Ok: "bwrites Ok []"
  by (simp add: bwrites_def)

lemma bwrites_copy: "bwrites (b_copy s) s"
  unfolding bwrites_def by (auto simp: b_copy_def Let_def nat_diff_distrib min_def)

lemma bwrites_varint: "bwrites (b_varint v) (varint v)"
  unfolding bwrites_def
  by (auto simp: b_varint_def encodeVarint_def Let_def length_varint encodeVarint_loop_eq
      nat_diff_distrib)

lemma bwrites_byte: "bwrites (b_byte t) [char_of t]"
  unfolding bwrites_def
proof (intro allI impI)
  fix d :: bytes and i
  assume i: "length [char_of t :: char] \<le> i" "i \<le> length d"
  then obtain j where j: "i = Suc j" by (cases i) auto
  then have "putb d (int j) (char_of t) = Some (take j d @ char_of t # drop (Suc j) d)"
    using i by (simp add: putb_def upd_conv_take_nth_drop)
  then show "b_byte t (d, int i) =
      Ok (take (i - length [char_of t]) d @ [char_of t] @ drop i d, int (i - length [char_of t]))"
    using j by (simp add: b_byte_def)
qed

lemma bwrites_string [writes_intros]: "bwrites (b_string t s) (pbs t s)"
proof (cases "s = []")
  case True
  then show ?thesis by (simp add: pbs_def bwrites_def b_string_def)
next
  case False
  have "bwrites (\<lambda>b. bindR (b_copy s b) (\<lambda>b. bindR (b_varint (word_of_nat (length s)) b) (b_byte t)))
      (([char_of t] @ varint (word_of_nat (length s))) @ s)"
    by (intro bwrites_seq bwrites_copy bwrites_varint bwrites_byte)
  with False show ?thesis by (simp add: pbs_def b_string_def [abs_def])
qed

lemma bwrites_uint64 [writes_intros]: "bwrites (b_uint64 t v) (pbu t v)"
proof (cases "v = 0")
  case True
  then show ?thesis by (simp add: pbu_def bwrites_def b_uint64_def)
next
  case False
  have "bwrites (\<lambda>b. bindR (b_varint v b) (b_byte t)) ([char_of t] @ varint v)"
    by (intro bwrites_seq bwrites_varint bwrites_byte)
  with False show ?thesis by (simp add: pbu_def b_uint64_def [abs_def])
qed

lemma bwrites_msg [writes_intros]:
  assumes "writes f out"
  shows "bwrites (b_msg t f) (pbm t out)"
proof -
  let ?tail = "\<lambda>b. bindR (b_varint (word_of_nat (length out)) b) (b_byte t)"
  have tail: "bwrites ?tail ([char_of t] @ varint (word_of_nat (length out)))"
    by (intro bwrites_seq bwrites_varint bwrites_byte)
  have emb: "bwrites (\<lambda>b. bindR (f (take (nat (snd b)) (fst b)))
      (\<lambda>(d1, size). Ok (d1 @ drop (nat (snd b)) (fst b), snd b - int size))) out"
    using assms by (simp add: bwrites_def writes_def of_nat_diff min_def)
  have "bwrites (\<lambda>b. bindR (bindR (f (take (nat (snd b)) (fst b)))
      (\<lambda>(d1, size). Ok (d1 @ drop (nat (snd b)) (fst b), snd b - int size))) ?tail)
      (([char_of t] @ varint (word_of_nat (length out))) @ out)"
    by (rule bwrites_seq [OF emb tail])
  then show ?thesis
    using assms unfolding bwrites_def
    by (auto simp: b_msg_def pbm_def writes_def min_def)
qed

lemma run_writers_Nil [writes_intros]: "bwrites (run_writers []) []"
  by (simp add: bwrites_def)

lemma run_writers_Cons [writes_intros]:
  "bwrites g out1 \<Longrightarrow> bwrites (run_writers gs) out2 \<Longrightarrow> bwrites (run_writers (g # gs)) (out2 @ out1)"
proof -
  have "run_writers (g # gs) = (\<lambda>b. bindR (g b) (run_writers gs))"
    by (rule ext) (rule run_writers.simps(2))
  then show "bwrites g out1 \<Longrightarrow> bwrites (run_writers gs) out2 \<Longrightarrow> ?thesis"
    by (simp only: bwrites_seq)
qed

lemma to_sized_buffer_writes:
  assumes "bwrites (run_writers ws) out"
  shows "writes (to_sized_buffer ws) out"
  unfolding writes_def
proof (intro allI impI)
  fix d :: bytes
  assume "length out \<le> length d"
  then show "to_sized_buffer ws d = Ok (take (length d - length out) d @ out, length out)"
    using bwritesD [OF assms, of "length d" d] by (simp add: to_sized_buffer_def of_nat_diff)
qed

section \<open>The contract of a generated message type\<close>

locale pb_message =
  fixes Size :: "'m \<Rightarrow> nat"
    and ToSized :: "'m \<Rightarrow> bytes \<Rightarrow> (bytes \<times> nat) res"
    and Unmarshal :: "bytes \<Rightarrow> 'm \<Rightarrow> 'm res"
    and zero :: 'm
    and enc :: "'m \<Rightarrow> bytes"
    and wf :: "'m \<Rightarrow> bool"
  assumes size_enc: "wf m \<Longrightarrow> Size m = length (enc m)"
    and writes_enc: "wf m \<Longrightarrow> writes (ToSized m) (enc m)"
    and wf_length: "wf m \<Longrightarrow> length (enc m) < 2 ^ 63"
    and unmarshal_enc: "wf m \<Longrightarrow> Unmarshal (enc m) zero = Ok m"
begin

lemma marshal_enc: "wf m \<Longrightarrow> marshal Size ToSized m = Ok (enc m)"
  using writes_enc [of m] size_enc [of m] by (simp add: marshal_def writes_def)

lemma round_trip: "wf m \<Longrightarrow> bindR (marshal Size ToSized m) (\<lambda>bz. Unmarshal bz zero) = Ok m"
  by (simp add: marshal_enc unmarshal_enc)

lemma marshal_size: "wf m \<Longrightarrow> \<exists>bz. marshal Size ToSized m = Ok bz \<and> length bz = Size m"
  by (simp add: marshal_enc size_enc)

lemma marshal_inj:
  "wf m \<Longrightarrow> wf m' \<Longrightarrow> marshal Size ToSized m = marshal Size ToSized m' \<Longrightarrow> m = m'"
  by (metis marshal_enc res.inject(1) unmarshal_enc)

end

end
