(* ===== verification/MetaCodec.thy ===== *)
theory MetaCodec
  imports Proto TokenTypes
begin

text \<open>
  The generated codec of \<open>DenomAuthorityMetadata\<close>
  (x/tokenfactory/types/authorityMetadata.pb.go), the value stored under every denom, and what the
  codecs of the other messages share: the size of a field and the codec of a message type that is
  not generated in this repository (\<open>sdk.Coin\<close>, the bank's \<open>Metadata\<close>), a parameter.
\<close>

section \<open>Field sizes\<close>

definition size_string :: "string \<Rightarrow> nat" where
  "size_string s = (let l = length s in if 0 < l then 1 + l + sov (word_of_nat l) else 0)"

definition size_msg :: "nat \<Rightarrow> nat" where
  "size_msg l = 1 + l + sov (word_of_nat l)"

definition size_uint64 :: "u64 \<Rightarrow> nat" where
  "size_uint64 v = (if v \<noteq> 0 then 1 + sov v else 0)"

lemma length_fields [simp]:
  "length (pbs t s) = size_string s"
  "length (pbm t out) = size_msg (length out)"
  "length (pbu t v) = size_uint64 v"
  by (simp_all add: pbs_def size_string_def Let_def pbm_def size_msg_def pbu_def size_uint64_def
      length_varint)

lemma sov_le_10: "sov v \<le> 10"
proof -
  have "Len64 (unat (v OR 1)) \<le> 64"
    using unsigned_less [of "v OR 1", where ?'a = nat] by (simp add: Len64_less_iff)
  then show ?thesis by (simp add: sov_def)
qed

lemma size_string_le: "size_string s \<le> 11 + length s"
  using sov_le_10 [of "word_of_nat (length s)"] by (simp add: size_string_def Let_def)

section \<open>Codecs from outside the repository\<close>

record 'm Codec =
  cSize :: "'m \<Rightarrow> nat"
  cToSized :: "'m \<Rightarrow> bytes \<Rightarrow> (bytes \<times> nat) res"
  cUnmarshal :: "bytes \<Rightarrow> 'm \<Rightarrow> 'm res"
  cZero :: 'm

definition codec_laws :: "'m Codec \<Rightarrow> ('m \<Rightarrow> bytes) \<Rightarrow> ('m \<Rightarrow> bool) \<Rightarrow> bool" where
  "codec_laws C enc ok \<longleftrightarrow> pb_message (cSize C) (cToSized C) (cUnmarshal C) (cZero C) enc ok"

lemma codec_law:
  assumes "codec_laws C enc ok" "ok m"
  shows "cSize C m = length (enc m)" "writes (cToSized C m) (enc m)"
    "length (enc m) < 2 ^ 63" "cUnmarshal C (enc m) (cZero C) = Ok m"
proof -
  have pm: "pb_message (cSize C) (cToSized C) (cUnmarshal C) (cZero C) enc ok"
    using assms(1) by (simp add: codec_laws_def)
  note facts = pb_message.size_enc [OF pm assms(2)] pb_message.writes_enc [OF pm assms(2)]
    pb_message.wf_length [OF pm assms(2)] pb_message.unmarshal_enc [OF pm assms(2)]
  show "cSize C m = length (enc m)" "writes (cToSized C m) (enc m)"
    "length (enc m) < 2 ^ 63" "cUnmarshal C (enc m) (cZero C) = Ok m"
    by (rule facts)+
qed

text \<open>
  A message whose \<open>MarshalToSizedBuffer\<close> runs the writers \<open>ws m\<close> (the last field first) and whose
  \<open>Unmarshal\<close> has the cases \<open>fs\<close>: what is left to show is what each writer and each case does.
\<close>

lemma run_writers_concat:
  "list_all2 bwrites gs outs \<Longrightarrow> bwrites (run_writers gs) (concat (rev outs))"
  by (induction rule: list_all2_induct) (auto simp: bwrites_Ok bwrites_seq)

lemma pb_messageI:
  assumes "\<And>m. ok m \<Longrightarrow> Size m = length (enc m)"
    and "\<And>m. ok m \<Longrightarrow> list_all2 bwrites (ws m) (outs m)"
    and "\<And>m. ok m \<Longrightarrow> enc m = concat (rev (outs m))"
    and "\<And>m. ok m \<Longrightarrow> length (enc m) < 2 ^ 63"
    and "\<And>m. ok m \<Longrightarrow> reads name fs (enc m) zero m"
  shows "pb_message Size (\<lambda>m. to_sized_buffer (ws m)) (unmarshal name fs) zero enc ok"
proof
  fix m
  assume ok: "ok m"
  show "Size m = length (enc m)" "length (enc m) < 2 ^ 63" using assms(1,4) ok by blast+
  show "writes (to_sized_buffer (ws m)) (enc m)"
    using run_writers_concat [OF assms(2) [OF ok]] assms(3) [OF ok]
    by (intro to_sized_buffer_writes) simp
  show "unmarshal name fs (enc m) zero = Ok m"
    using assms(4,5) ok by (intro unmarshal_reads) auto
qed

section \<open>Repeated fields\<close>

text \<open>
  \<open>for iNdEx := len(xs) - 1; iNdEx >= 0; iNdEx--\<close> writes the elements from the last to the first,
  each with its length, the empty ones too.
\<close>

definition b_repeated :: "('x \<Rightarrow> buf \<Rightarrow> buf res) \<Rightarrow> 'x list \<Rightarrow> buf \<Rightarrow> buf res" where
  "b_repeated w xs = run_writers (map w (rev xs))"

definition b_bytes :: "nat \<Rightarrow> string \<Rightarrow> buf \<Rightarrow> buf res" where
  "b_bytes t s b = bindR (b_copy s b) (\<lambda>b. bindR (b_varint (word_of_nat (length s)) b) (b_byte t))"

lemma bwrites_bytes [writes_intros]: "bwrites (b_bytes t s) (pbm t s)"
proof -
  have "bwrites (\<lambda>b. bindR (b_copy s b) (\<lambda>b. bindR (b_varint (word_of_nat (length s)) b) (b_byte t)))
      (([char_of t] @ varint (word_of_nat (length s))) @ s)"
    by (intro bwrites_seq bwrites_copy bwrites_varint bwrites_byte)
  then show ?thesis by (simp add: pbm_def b_bytes_def [abs_def])
qed

lemma bwrites_repeated [writes_intros]:
  assumes "\<And>x. x \<in> set xs \<Longrightarrow> bwrites (w x) (e x)"
  shows "bwrites (b_repeated w xs) (concat (map e xs))"
proof -
  have "list_all2 bwrites (map w (rev xs)) (map e (rev xs))"
    using assms by (simp add: list_all2_map1 list_all2_map2 list_all2_same)
  from run_writers_concat [OF this] show ?thesis
    by (simp add: b_repeated_def rev_map)
qed

lemma length_repeated:
  "length (concat (map (\<lambda>x. pbm t (e x)) xs)) = sum_list (map (\<lambda>x. size_msg (length (e x))) xs)"
  by (induction xs) simp_all

section \<open>What the case of a field does\<close>

text \<open>The rules of a field with its case looked up in the table, so that \<open>simp\<close> evaluates it.\<close>

lemma reads_stringI:
  assumes "case map_of fs (int (t div 8)) of
      Some (FString nm upd) \<Rightarrow> upd s m = m' \<and> (s = [] \<longrightarrow> m = m') | _ \<Rightarrow> False"
    and "t < 128" "t mod 8 = 2" "0 < t div 8"
  shows "reads name fs (pbs t s) m m'"
proof -
  obtain nm upd where f: "map_of fs (int (t div 8)) = Some (FString nm upd)"
    using assms(1) by (simp split: option.splits field.splits)
  note u = assms(1) [unfolded this option.case field.case]
  show ?thesis
    using reads_FString [OF f assms(2-4)] u by metis
qed

lemma reads_uint64I:
  assumes "case map_of fs (int (t div 8)) of
      Some (FUint64 nm upd) \<Rightarrow> upd v m = m' \<and> (v = 0 \<longrightarrow> m = m') | _ \<Rightarrow> False"
    and "t < 128" "t mod 8 = 0" "0 < t div 8"
  shows "reads name fs (pbu t v) m m'"
proof -
  obtain nm upd where f: "map_of fs (int (t div 8)) = Some (FUint64 nm upd)"
    using assms(1) by (simp split: option.splits field.splits)
  note u = assms(1) [unfolded this option.case field.case]
  show ?thesis
    using reads_FUint64 [OF f assms(2-4)] u by metis
qed

lemma reads_msgI:
  assumes "case map_of fs (int (t div 8)) of Some (FMsg nm upd) \<Rightarrow> upd out m = Ok m' | _ \<Rightarrow> False"
    and "t < 128" "t mod 8 = 2" "0 < t div 8"
  shows "reads name fs (pbm t out) m m'"
  using assms by (auto split: option.splits field.splits intro: reads_FMsg)

lemma reads_string_any:
  assumes "case map_of fs (int (t div 8)) of Some (FString nm upd) \<Rightarrow> upd s m = m' | _ \<Rightarrow> False"
    and "t < 128" "t mod 8 = 2" "0 < t div 8"
  shows "reads name fs (pbm t s) m m'"
  using assms by (auto split: option.splits field.splits intro: reads_FString_any)

text \<open>A repeated field: \<open>put xs\<close> is the message with the elements \<open>xs\<close> read so far.\<close>

lemma reads_repeated:
  assumes "\<And>acc x. x \<in> set xs \<Longrightarrow> reads name fs (pbm t (e x)) (put acc) (put (acc @ [x]))"
  shows "reads name fs (concat (map (\<lambda>x. pbm t (e x)) xs)) (put []) (put xs)"
proof -
  have "reads name fs (concat (map (\<lambda>x. pbm t (e x)) xs)) (put acc) (put (acc @ xs))" for acc
    using assms
  proof (induction xs arbitrary: acc)
    case (Cons x xs)
    have "reads name fs (concat (map (\<lambda>x. pbm t (e x)) xs)) (put (acc @ [x])) (put ((acc @ [x]) @ xs))"
      using Cons.prems by (intro Cons.IH) auto
    with Cons.prems [of x acc] show ?case using reads_append by fastforce
  qed (simp add: reads_Nil)
  from this [of "[]"] show ?thesis by simp
qed

section \<open>DenomAuthorityMetadata\<close>

definition DenomAuthorityMetadata_Size :: "DenomAuthorityMetadata \<Rightarrow> nat" where
  "DenomAuthorityMetadata_Size m = size_string (Admin m)"

definition DenomAuthorityMetadata_MarshalToSizedBuffer ::
    "DenomAuthorityMetadata \<Rightarrow> bytes \<Rightarrow> (bytes \<times> nat) res" where
  "DenomAuthorityMetadata_MarshalToSizedBuffer m = to_sized_buffer [b_string 0x0a (Admin m)]"

definition DenomAuthorityMetadata_Marshal :: "DenomAuthorityMetadata \<Rightarrow> bytes res" where
  "DenomAuthorityMetadata_Marshal =
     marshal DenomAuthorityMetadata_Size DenomAuthorityMetadata_MarshalToSizedBuffer"

definition DenomAuthorityMetadata_fields :: "(int \<times> DenomAuthorityMetadata field) list" where
  "DenomAuthorityMetadata_fields = [(1, FString ''Admin'' (\<lambda>v m. m\<lparr>Admin := v\<rparr>))]"

definition DenomAuthorityMetadata_Unmarshal ::
    "bytes \<Rightarrow> DenomAuthorityMetadata \<Rightarrow> DenomAuthorityMetadata res" where
  "DenomAuthorityMetadata_Unmarshal =
     unmarshal ''DenomAuthorityMetadata'' DenomAuthorityMetadata_fields"

definition DenomAuthorityMetadata_zero :: DenomAuthorityMetadata where
  "DenomAuthorityMetadata_zero = \<lparr>Admin = []\<rparr>"

definition DenomAuthorityMetadata_enc :: "DenomAuthorityMetadata \<Rightarrow> bytes" where
  "DenomAuthorityMetadata_enc m = pbs 0x0a (Admin m)"

definition DenomAuthorityMetadata_ok :: "DenomAuthorityMetadata \<Rightarrow> bool" where
  "DenomAuthorityMetadata_ok m \<longleftrightarrow> length (DenomAuthorityMetadata_enc m) < 2 ^ 63"

lemma DenomAuthorityMetadata_reads:
  "reads name DenomAuthorityMetadata_fields (DenomAuthorityMetadata_enc m)
     DenomAuthorityMetadata_zero m"
  unfolding DenomAuthorityMetadata_enc_def
  by (rule reads_stringI)
    (simp_all add: DenomAuthorityMetadata_fields_def DenomAuthorityMetadata_zero_def)

interpretation authmeta: pb_message DenomAuthorityMetadata_Size
  DenomAuthorityMetadata_MarshalToSizedBuffer DenomAuthorityMetadata_Unmarshal
  DenomAuthorityMetadata_zero DenomAuthorityMetadata_enc DenomAuthorityMetadata_ok
  unfolding DenomAuthorityMetadata_MarshalToSizedBuffer_def [abs_def]
    DenomAuthorityMetadata_Unmarshal_def
  by (rule pb_messageI [where outs = "\<lambda>m. [pbs 0x0a (Admin m)]"])
    (simp_all add: DenomAuthorityMetadata_Size_def DenomAuthorityMetadata_reads bwrites_string
      DenomAuthorityMetadata_ok_def, simp_all add: DenomAuthorityMetadata_enc_def)

lemma DenomAuthorityMetadata_okI: "length (Admin m) < 2 ^ 62 \<Longrightarrow> DenomAuthorityMetadata_ok m"
  using size_string_le [of "Admin m"]
  by (simp add: DenomAuthorityMetadata_ok_def DenomAuthorityMetadata_enc_def)

text \<open>Reading an absent value: \<open>proto.Unmarshal(nil, &metadata)\<close> leaves the zero message.\<close>

lemma DenomAuthorityMetadata_Unmarshal_Nil:
  "DenomAuthorityMetadata_Unmarshal [] m = Ok m"
  unfolding DenomAuthorityMetadata_Unmarshal_def
  by (rule unmarshal_reads [OF reads_Nil]) simp

definition DenomAuthorityMetadata_codec :: "DenomAuthorityMetadata Codec" where
  "DenomAuthorityMetadata_codec =
     \<lparr>cSize = DenomAuthorityMetadata_Size, cToSized = DenomAuthorityMetadata_MarshalToSizedBuffer,
      cUnmarshal = DenomAuthorityMetadata_Unmarshal, cZero = DenomAuthorityMetadata_zero\<rparr>"

lemma authmeta_DenomAuthorityMetadata:
  "codec_laws DenomAuthorityMetadata_codec DenomAuthorityMetadata_enc DenomAuthorityMetadata_ok"
  unfolding codec_laws_def DenomAuthorityMetadata_codec_def Codec.simps
  by (rule authmeta.pb_message_axioms)

end
