(* ===== verification/Keeper.thy ===== *)
theory Keeper
  imports Msgs MetaCodec
begin

text \<open>
  The keeper of x/tokenfactory: its record (keeper/keeper.go), the module parameters
  (keeper/params.go, types/params.go), the authority metadata (keeper/admins.go) and the creator
  index (keeper/creators.go).

  The locale \<open>denom_cell\<close> is the contract of a value kept per denomination: a value put under one
  denomination is the one read there, and no other denomination sees it. It is interpreted for the
  authority metadata here and for the before-send hooks in \<open>BeforeSend\<close>.
\<close>

section \<open>The keeper\<close>

text \<open>
  A Go map is the list of its entries in the order an iteration happens to visit them; a set of
  texts is a function to \<open>bool\<close>.
\<close>

record 'w Keeper =
  sdk :: Sdk
  ctx :: "'w Ctx"
  permAddrs :: "(string \<times> (addr \<times> string list)) list"
  permAddrMap :: "string \<Rightarrow> bool"
  paramSpace :: "'w ParamSubspace"
  accountKeeper :: "'w AccountKeeper"
  bankKeeper :: "'w BankKeeper"
  contractKeeper :: "'w ContractKeeper option"
  communityPoolKeeper :: "'w CommunityPoolKeeper"

text \<open>\<open>withKeyTable\<close> is what \<open>paramSpace.WithKeyTable(ParamKeyTable())\<close> returns.\<close>

definition NewKeeper :: "Sdk \<Rightarrow> 'w Ctx \<Rightarrow> bool \<Rightarrow> 'w ParamSubspace \<Rightarrow> 'w ParamSubspace \<Rightarrow>
    (string \<times> string list) list \<Rightarrow> 'w AccountKeeper \<Rightarrow> 'w BankKeeper \<Rightarrow> 'w CommunityPoolKeeper \<Rightarrow>
    'w Keeper" where
  "NewKeeper S c hasKeyTable space withKeyTable maccPerms ak bk cpk =
     \<lparr>sdk = S, ctx = c,
      permAddrs = map (\<lambda>(name, perms). (name, (NewModuleAddress S name, perms))) maccPerms,
      permAddrMap = (\<lambda>s. s \<in> (\<lambda>(name, _). AccAddressString S (NewModuleAddress S name)) ` set maccPerms),
      paramSpace = (if \<not> hasKeyTable then withKeyTable else space),
      accountKeeper = ak, bankKeeper = bk, contractKeeper = None, communityPoolKeeper = cpk\<rparr>"

definition SetContractKeeper :: "'w ContractKeeper \<Rightarrow> 'w Keeper \<Rightarrow> 'w Keeper" where
  "SetContractKeeper ck k = k\<lparr>contractKeeper := Some ck\<rparr>"

definition CreateModuleAccount :: "'w Keeper \<Rightarrow> ('w, unit) act" where
  "CreateModuleAccount k =
     bindA (GetModuleAccount (accountKeeper k) ModuleName) (\<lambda>_. ret ())"

definition IsModuleAcc :: "'w Keeper \<Rightarrow> addr \<Rightarrow> bool" where
  "IsModuleAcc k a = permAddrMap k (AccAddressString (sdk k) a)"

section \<open>Parameters\<close>

definition KeyDenomCreationFee :: bytes where "KeyDenomCreationFee = ''DenomCreationFee''"
definition KeyDenomCreationGasConsume :: bytes where
  "KeyDenomCreationGasConsume = ''DenomCreationGasConsume''"
definition DefaultCreationGasFee :: int where "DefaultCreationGasFee = 1000000"

definition NewParams :: "Coin list option \<Rightarrow> u64 \<Rightarrow> Params" where
  "NewParams fee gas = \<lparr>DenomCreationFee = fee, DenomCreationGasConsume = gas\<rparr>"

definition DefaultParams :: "Sdk \<Rightarrow> Params res" where
  "DefaultParams S = bindR (NewCoins S []) (\<lambda>fee.
     Ok \<lparr>DenomCreationFee = Some fee,
         DenomCreationGasConsume = word_of_int DefaultCreationGasFee\<rparr>)"

fun validateDenomCreationFee :: "Sdk \<Rightarrow> param_value \<Rightarrow> error option" where
  "validateDenomCreationFee S (PVCoins v) =
     (if CoinsValidate S (slice v) \<noteq> None
      then Some (Errorf (''invalid denom creation fee: '' @ CoinsString S (slice v))) else None)"
| "validateDenomCreationFee S (PVUint64 v) = Some (Errorf ''invalid parameter type: uint64'')"
| "validateDenomCreationFee S (PVOther t) = Some (Errorf (''invalid parameter type: '' @ t))"

fun validateDenomCreationGasConsume :: "param_value \<Rightarrow> error option" where
  "validateDenomCreationGasConsume (PVUint64 v) = None"
| "validateDenomCreationGasConsume (PVCoins v) = Some (Errorf ''invalid parameter type: types.Coins'')"
| "validateDenomCreationGasConsume (PVOther t) = Some (Errorf (''invalid parameter type: '' @ t))"

definition Params_Validate :: "Sdk \<Rightarrow> Params \<Rightarrow> error option" where
  "Params_Validate S p =
     (case validateDenomCreationFee S (PVCoins (DenomCreationFee p)) of
        Some e \<Rightarrow> Some e | None \<Rightarrow> None)"

definition ParamSetPairs :: "Sdk \<Rightarrow> Params \<Rightarrow> ParamSetPair list" where
  "ParamSetPairs S p =
     [(KeyDenomCreationFee, PVCoins (DenomCreationFee p), validateDenomCreationFee S),
      (KeyDenomCreationGasConsume, PVUint64 (DenomCreationGasConsume p),
       validateDenomCreationGasConsume)]"

text \<open>\<open>GetIfExists\<close> into a variable: absent leaves the default, a value of another type panics.\<close>

fun into_coins :: "Coin list option \<Rightarrow> param_value option \<Rightarrow> Coin list option res" where
  "into_coins dflt None = Ok dflt"
| "into_coins dflt (Some (PVCoins v)) = Ok v"
| "into_coins dflt (Some _) = Panic ''parameter type mismatch''"

fun into_uint64 :: "u64 \<Rightarrow> param_value option \<Rightarrow> u64 res" where
  "into_uint64 dflt None = Ok dflt"
| "into_uint64 dflt (Some (PVUint64 v)) = Ok v"
| "into_uint64 dflt (Some _) = Panic ''parameter type mismatch''"

definition GetParams :: "'w Keeper \<Rightarrow> 'w \<Rightarrow> Params res" where
  "GetParams k w =
     bindR (DefaultParams (sdk k)) (\<lambda>params.
     bindR (into_coins (DenomCreationFee params)
              (SubspaceGetIfExists (paramSpace k) w KeyDenomCreationFee)) (\<lambda>fee.
     bindR (into_uint64 (DenomCreationGasConsume params)
              (SubspaceGetIfExists (paramSpace k) w KeyDenomCreationGasConsume)) (\<lambda>gas.
     Ok \<lparr>DenomCreationFee = fee, DenomCreationGasConsume = gas\<rparr>)))"

definition SetParams :: "'w Keeper \<Rightarrow> Params \<Rightarrow> ('w, unit) act" where
  "SetParams k params =
     bindA (lift (if DenomCreationFee params = None
                  then bindR (NewCoins (sdk k) []) (\<lambda>cs. Ok (params\<lparr>DenomCreationFee := Some cs\<rparr>))
                  else Ok params)) (\<lambda>params.
     SubspaceSetParamSet (paramSpace k) (ParamSetPairs (sdk k) params))"

definition SetParam :: "'w Keeper \<Rightarrow> bytes \<Rightarrow> param_value \<Rightarrow> ('w, unit) act" where
  "SetParam k key value = SubspaceSet (paramSpace k) key value"

section \<open>Authority metadata\<close>

definition GetAuthorityMetadata :: "'w Keeper \<Rightarrow> string \<Rightarrow> 'w \<Rightarrow> DenomAuthorityMetadata res" where
  "GetAuthorityMetadata k denom w =
     (let bz = StoreGet (ctx k) w (GetDenomPrefixStore denom) DenomAuthorityMetadataKey
      in DenomAuthorityMetadata_Unmarshal (case bz of None \<Rightarrow> [] | Some b \<Rightarrow> b)
           DenomAuthorityMetadata_zero)"

definition setAuthorityMetadata ::
    "'w Keeper \<Rightarrow> string \<Rightarrow> DenomAuthorityMetadata \<Rightarrow> ('w, unit) act" where
  "setAuthorityMetadata k denom metadata =
     bindA (lift (DenomAuthorityMetadata_Validate (sdk k) metadata)) (\<lambda>_.
     bindA (lift (DenomAuthorityMetadata_Marshal metadata)) (\<lambda>bz.
     modify (StoreSet (ctx k) (GetDenomPrefixStore denom) DenomAuthorityMetadataKey bz)))"

definition setAdmin :: "'w Keeper \<Rightarrow> string \<Rightarrow> string \<Rightarrow> ('w, unit) act" where
  "setAdmin k denom admin =
     bindA (query (GetAuthorityMetadata k denom)) (\<lambda>metadata.
     setAuthorityMetadata k denom (metadata\<lparr>Admin := admin\<rparr>))"

section \<open>The creator index\<close>

definition addDenomFromCreator :: "'w Keeper \<Rightarrow> string \<Rightarrow> string \<Rightarrow> ('w, unit) act" where
  "addDenomFromCreator k creator denom =
     modify (StoreSet (ctx k) (GetCreatorPrefix creator) denom denom)"

definition getDenomsFromCreator :: "'w Keeper \<Rightarrow> string \<Rightarrow> 'w \<Rightarrow> string list" where
  "getDenomsFromCreator k creator w = map fst (StoreIterator (ctx k) w (GetCreatorPrefix creator))"

definition GetAllDenomsIterator :: "'w Keeper \<Rightarrow> 'w \<Rightarrow> (bytes \<times> bytes) list" where
  "GetAllDenomsIterator k w = StoreIterator (ctx k) w GetCreatorsPrefix"

section \<open>Cells\<close>

locale denom_cell =
  fixes get :: "'k \<Rightarrow> string \<Rightarrow> 'w \<Rightarrow> 'g" and put :: "'k \<Rightarrow> string \<Rightarrow> 'v \<Rightarrow> 'w \<Rightarrow> 'w"
    and seen :: "'v \<Rightarrow> 'g" and ok :: "'k \<Rightarrow> bool" and good :: "string \<Rightarrow> bool"
    and storable :: "'v \<Rightarrow> bool"
  assumes get_put: "ok k \<Longrightarrow> good d \<Longrightarrow> good d' \<Longrightarrow> storable v \<Longrightarrow>
      get k d (put k d' v w) = (if d = d' then seen v else get k d w)"
begin

lemma get_same: "ok k \<Longrightarrow> good d \<Longrightarrow> storable v \<Longrightarrow> get k d (put k d v w) = seen v"
  by (simp add: get_put)

lemma get_other:
  "ok k \<Longrightarrow> good d \<Longrightarrow> good d' \<Longrightarrow> storable v \<Longrightarrow> d \<noteq> d' \<Longrightarrow> get k d (put k d' v w) = get k d w"
  by (simp add: get_put)

lemma put_twice:
  "ok k \<Longrightarrow> good d \<Longrightarrow> good d' \<Longrightarrow> storable v \<Longrightarrow> storable v' \<Longrightarrow>
     get k d (put k d' v (put k d' v' w)) = get k d (put k d' v w)"
  by (simp add: get_put)

lemma get_fold:
  assumes "ok k" "good d" "\<forall>(d', v) \<in> set xs. good d' \<and> storable v" "distinct (map fst xs)"
  shows "get k d (fold (\<lambda>(d', v). put k d' v) xs w) =
    (case map_of xs d of Some v \<Rightarrow> seen v | None \<Rightarrow> get k d w)"
  using assms(3,4)
proof (induction xs arbitrary: w)
  case (Cons x xs)
  obtain d' v where x: "x = (d', v)" by (cases x)
  have "map_of xs d' = None" using Cons.prems(2) by (simp add: x map_of_eq_None_iff)
  with Cons assms(1,2) show ?case by (auto simp: x get_put split: option.splits)
qed simp

end

text \<open>What a denomination and a keeper must be for the cells to be apart.\<close>

definition store_ok :: "'w Keeper \<Rightarrow> bool" where
  "store_ok k \<longleftrightarrow> kv_laws (ctx k)"

definition bar_free :: "string \<Rightarrow> bool" where
  "bar_free d \<longleftrightarrow> CHR ''|'' \<notin> set d"

definition write_metadata ::
    "'w Keeper \<Rightarrow> string \<Rightarrow> DenomAuthorityMetadata \<Rightarrow> 'w \<Rightarrow> 'w" where
  "write_metadata k d m = StoreSet (ctx k) (GetDenomPrefixStore d) DenomAuthorityMetadataKey
     (DenomAuthorityMetadata_enc m)"

lemma kv_write_metadata:
  "kv_laws (ctx k) \<Longrightarrow> kv (ctx k) (write_metadata k d m w) =
     (kv (ctx k) w)(meta_key d \<mapsto> DenomAuthorityMetadata_enc m)"
  by (simp add: write_metadata_def kv_frame meta_key_def)

definition metadata_of :: "bytes option \<Rightarrow> DenomAuthorityMetadata res" where
  "metadata_of bz = DenomAuthorityMetadata_Unmarshal (case bz of None \<Rightarrow> [] | Some b \<Rightarrow> b)
     DenomAuthorityMetadata_zero"

lemma metadata_of_simps [simp]:
  "metadata_of None = Ok DenomAuthorityMetadata_zero"
  "DenomAuthorityMetadata_ok m \<Longrightarrow> metadata_of (Some (DenomAuthorityMetadata_enc m)) = Ok m"
  by (simp_all add: metadata_of_def DenomAuthorityMetadata_Unmarshal_Nil authmeta.unmarshal_enc)

lemma GetAuthorityMetadata_kv:
  "kv_laws (ctx k) \<Longrightarrow> GetAuthorityMetadata k d w = metadata_of (kv (ctx k) w (meta_key d))"
  by (simp add: GetAuthorityMetadata_def kv_get meta_key_def metadata_of_def)

interpretation meta_cell: denom_cell "GetAuthorityMetadata :: 'w Keeper \<Rightarrow> _" write_metadata Ok
  store_ok bar_free DenomAuthorityMetadata_ok
  by unfold_locales
    (simp add: store_ok_def bar_free_def GetAuthorityMetadata_kv kv_write_metadata)

end
