(* ===== verification/CreateDenom.thy ===== *)
theory CreateDenom
  imports Keeper
begin

text \<open>
  Creating a denomination (x/tokenfactory/keeper/createdenom.go): validation, the creation fee and
  gas, and the three writes (bank metadata, authority metadata, creator index).

  The lemmas give the state after each step, that a failed creation leaves the module's store as it
  was, and that a successful one makes the creator its admin, lists it under the creator and
  registers it with the bank.
\<close>

section \<open>Operations\<close>

definition validateCreateDenom :: "'w Keeper \<Rightarrow> string \<Rightarrow> string \<Rightarrow> 'w \<Rightarrow> string res" where
  "validateCreateDenom k creatorAddr subdenom w =
     (if HasSupply (bankKeeper k) w subdenom then
        Err (Errorf ''temporary error until IBC bug is sorted out, can't create subdenoms that are the same as a native denom'')
      else bindR (GetTokenDenom (sdk k) creatorAddr subdenom) (\<lambda>denom.
        if GetDenomMetaData (bankKeeper k) w denom \<noteq> None then Err ErrDenomExists
        else Ok denom))"

definition chargeForCreateDenom :: "'w Keeper \<Rightarrow> string \<Rightarrow> ('w, unit) act" where
  "chargeForCreateDenom k creatorAddr =
     bindA (query (GetParams k)) (\<lambda>params.
     bindA (case DenomCreationFee params of
              None \<Rightarrow> ret ()
            | Some fee \<Rightarrow>
                bindA (lift (AccAddressFromBech32 (sdk k) creatorAddr)) (\<lambda>accAddr.
                FundCommunityPool (communityPoolKeeper k) fee accAddr)) (\<lambda>_.
     if DenomCreationGasConsume params \<noteq> 0
     then ConsumeGas (ctx k) (DenomCreationGasConsume params) ''consume denom creation gas''
     else ret ()))"

definition base_metadata :: "string \<Rightarrow> Metadata" where
  "base_metadata denom = \<lparr>md_description = [],
     md_denom_units = [\<lparr>du_denom = denom, du_exponent = 0, du_aliases = []\<rparr>],
     md_base = denom, md_display = denom, md_name = denom, md_symbol = denom,
     md_uri = [], md_uri_hash = []\<rparr>"

definition createDenomAfterValidation :: "'w Keeper \<Rightarrow> string \<Rightarrow> string \<Rightarrow> ('w, unit) act" where
  "createDenomAfterValidation k creatorAddr denom =
     bindA (gets (\<lambda>w. GetDenomMetaData (bankKeeper k) w denom \<noteq> None)) (\<lambda>exists.
     bindA (if \<not> exists then modify (SetDenomMetaData (bankKeeper k) (base_metadata denom))
            else ret ()) (\<lambda>_.
     bindA (setAuthorityMetadata k denom \<lparr>Admin = creatorAddr\<rparr>) (\<lambda>_.
     addDenomFromCreator k creatorAddr denom)))"

definition CreateDenom :: "'w Keeper \<Rightarrow> string \<Rightarrow> string \<Rightarrow> ('w, string) act" where
  "CreateDenom k creatorAddr subdenom =
     bindA (query (validateCreateDenom k creatorAddr subdenom)) (\<lambda>denom.
     bindA (chargeForCreateDenom k creatorAddr) (\<lambda>_.
     bindA (createDenomAfterValidation k creatorAddr denom) (\<lambda>_.
     ret denom)))"

section \<open>The environment\<close>

text \<open>The laws of everything the keeper is given, and what they say of its store.\<close>

definition env_ok :: "'w Keeper \<Rightarrow> bool" where
  "env_ok k \<longleftrightarrow> sdk_laws (sdk k) \<and> kv_laws (ctx k) \<and> bank_store_laws (ctx k) (bankKeeper k)
     \<and> bank_metadata_laws (ctx k) (bankKeeper k) \<and> param_laws (ctx k) (paramSpace k)
     \<and> other_store_laws (ctx k) (bankKeeper k) (accountKeeper k) (communityPoolKeeper k)"

lemma env_okD:
  assumes "env_ok k"
  shows "sdk_laws (sdk k)" "kv_laws (ctx k)" "bank_store_laws (ctx k) (bankKeeper k)"
    "bank_metadata_laws (ctx k) (bankKeeper k)" "param_laws (ctx k) (paramSpace k)"
    "other_store_laws (ctx k) (bankKeeper k) (accountKeeper k) (communityPoolKeeper k)"
  using assms by (simp_all add: env_ok_def)

lemma env_preserves:
  assumes "env_ok k"
  shows "preserves (kv (ctx k)) (ConsumeGas (ctx k) g t)"
    "preserves (kv (ctx k)) (FundCommunityPool (communityPoolKeeper k) cs a)"
    "preserves (kv (ctx k)) (GetModuleAccount (accountKeeper k) n)"
    "preserves (kv (ctx k)) (modify (SetDenomMetaData (bankKeeper k) m))"
    "preserves (kv (ctx k)) (modify (EmitEvent (ctx k) e))"
  using env_okD [OF assms]
  by (auto simp: other_store_laws_def kv_ConsumeGas bank_store kv_frame intro!: preserves_modify)

lemma authority_ok:
  assumes "sdk_laws S" "DenomAuthorityMetadata_Validate S m = Ok u"
  shows "DenomAuthorityMetadata_ok m"
proof (rule DenomAuthorityMetadata_okI)
  show "length (Admin m) < 2 ^ 62"
    using assms sdk_bech32(2) [OF assms(1)]
    by (fastforce simp: DenomAuthorityMetadata_Validate_def split: if_splits)
qed

lemma setAuthorityMetadata_run:
  assumes "sdk_laws (sdk k)"
  shows "setAuthorityMetadata k d m w =
    (case DenomAuthorityMetadata_Validate (sdk k) m of
       Ok _ \<Rightarrow> (Ok (), write_metadata k d m w) | Err e \<Rightarrow> (Err e, w) | Panic p \<Rightarrow> (Panic p, w))"
proof (cases "DenomAuthorityMetadata_Validate (sdk k) m")
  case (Ok u)
  then have "DenomAuthorityMetadata_Marshal m = res.Ok (DenomAuthorityMetadata_enc m)"
    using authority_ok [OF assms] authmeta.marshal_enc by (simp add: DenomAuthorityMetadata_Marshal_def)
  with Ok show ?thesis
    by (simp add: setAuthorityMetadata_def write_metadata_def)
qed (simp_all add: setAuthorityMetadata_def)

lemma setAuthorityMetadata_unless_ok: "unless_ok obs (setAuthorityMetadata k d m)"
  unfolding setAuthorityMetadata_def
  by (intro unless_ok_bindA preserves_basic unless_ok_basic)

section \<open>A failed creation\<close>

lemma chargeForCreateDenom_preserves:
  "env_ok k \<Longrightarrow> preserves (kv (ctx k)) (chargeForCreateDenom k a)"
  unfolding chargeForCreateDenom_def
  by (intro preserves_bindA preserves_basic preserves_if)
    (auto split: option.splits intro: env_preserves)

text \<open>The fee and the gas touch no metadata of the bank.\<close>

lemma chargeForCreateDenom_metadata:
  assumes "env_ok k"
  shows "preserves (GetDenomMetaData (bankKeeper k)) (chargeForCreateDenom k a)"
  using env_okD(4,6) [OF assms] unfolding chargeForCreateDenom_def
  by (intro preserves_bindA preserves_basic preserves_if)
    (auto simp: other_store_laws_def bank_metadata split: option.splits)

lemma createDenomAfterValidation_unless_ok:
  "env_ok k \<Longrightarrow> unless_ok (kv (ctx k)) (createDenomAfterValidation k a d)"
  unfolding createDenomAfterValidation_def addDenomFromCreator_def
  by (intro unless_ok_bindA unless_ok_bindA_ok setAuthorityMetadata_unless_ok preserves_if
      always_ok_intros preserves_basic env_preserves)

lemma CreateDenom_unless_ok: "env_ok k \<Longrightarrow> unless_ok (kv (ctx k)) (CreateDenom k a s)"
  unfolding CreateDenom_def
  by (intro unless_ok_bindA unless_ok_bindA_ok createDenomAfterValidation_unless_ok
      chargeForCreateDenom_preserves always_ok_intros preserves_basic) assumption+

section \<open>A successful creation\<close>

lemma createDenomAfterValidation_Ok:
  assumes env: "env_ok k" and run: "createDenomAfterValidation k a d w = (Ok u, w')"
  shows "DenomAuthorityMetadata_Validate (sdk k) \<lparr>Admin = a\<rparr> = Ok ()"
    and "kv (ctx k) w' = (kv (ctx k) w)(meta_key d \<mapsto> DenomAuthorityMetadata_enc \<lparr>Admin = a\<rparr>,
           index_key a d \<mapsto> d)"
    and "GetDenomMetaData (bankKeeper k) w' =
           (if GetDenomMetaData (bankKeeper k) w d = None
            then (GetDenomMetaData (bankKeeper k) w)(d \<mapsto> base_metadata d)
            else GetDenomMetaData (bankKeeper k) w)"
proof -
  note laws = env_okD [OF env]
  let ?w1 = "if GetDenomMetaData (bankKeeper k) w d = None
     then SetDenomMetaData (bankKeeper k) (base_metadata d) w else w"
  from run have v: "DenomAuthorityMetadata_Validate (sdk k) \<lparr>Admin = a\<rparr> = Ok ()"
    and w': "w' = StoreSet (ctx k) (GetCreatorPrefix a) d d
       (write_metadata k d \<lparr>Admin = a\<rparr> ?w1)"
    by (auto simp: createDenomAfterValidation_def addDenomFromCreator_def bindA_Ok_iff
        setAuthorityMetadata_run [OF laws(1)] split: if_splits res.splits)
  show "DenomAuthorityMetadata_Validate (sdk k) \<lparr>Admin = a\<rparr> = Ok ()" by (rule v)
  show "kv (ctx k) w' = (kv (ctx k) w)(meta_key d \<mapsto> DenomAuthorityMetadata_enc \<lparr>Admin = a\<rparr>,
           index_key a d \<mapsto> d)"
    using laws by (simp add: w' kv_frame kv_write_metadata bank_store index_key_def)
  show "GetDenomMetaData (bankKeeper k) w' =
      (if GetDenomMetaData (bankKeeper k) w d = None
       then (GetDenomMetaData (bankKeeper k) w)(d \<mapsto> base_metadata d)
       else GetDenomMetaData (bankKeeper k) w)"
    using laws by (simp add: w' bank_metadata write_metadata_def base_metadata_def)
qed

lemma CreateDenom_OkD:
  assumes env: "env_ok k" and run: "CreateDenom k a s w = (Ok d, w')"
  obtains w1 where "GetTokenDenom (sdk k) a s = Ok d"
    "GetDenomMetaData (bankKeeper k) w d = None" "\<not> HasSupply (bankKeeper k) w s"
    "chargeForCreateDenom k a w = (Ok (), w1)" "kv (ctx k) w1 = kv (ctx k) w"
    "createDenomAfterValidation k a d w1 = (Ok (), w')"
proof -
  from run obtain w1 where v: "validateCreateDenom k a s w = Ok d"
    and c: "chargeForCreateDenom k a w = (Ok (), w1)"
    and r: "createDenomAfterValidation k a d w1 = (Ok (), w')"
    by (auto simp: CreateDenom_def bindA_Ok_iff)
  have "kv (ctx k) w1 = kv (ctx k) w"
    using preservesD [OF chargeForCreateDenom_preserves [OF env] c] .
  with v c r show ?thesis
    by (intro that) (auto simp: validateCreateDenom_def split: if_splits)
qed

lemma CreateDenom_kv:
  assumes "env_ok k" and "CreateDenom k a s w = (Ok d, w')"
  shows "kv (ctx k) w' = (kv (ctx k) w)(meta_key d \<mapsto> DenomAuthorityMetadata_enc \<lparr>Admin = a\<rparr>,
      index_key a d \<mapsto> d)"
  using CreateDenom_OkD [OF assms] createDenomAfterValidation_Ok(2) [OF assms(1)] by metis

lemma CreateDenom_bar_free:
  assumes "env_ok k" and "CreateDenom k a s w = (Ok d, w')"
  shows "CHR ''|'' \<notin> set d" "CHR ''|'' \<notin> set a"
proof -
  obtain w1 where "GetTokenDenom (sdk k) a s = Ok d"
    using CreateDenom_OkD [OF assms] by blast
  then have "ValidateDenom (sdk k) d = None" and d: "d = denom_of a s"
    by (auto simp: GetTokenDenom_Ok)
  then show bar: "CHR ''|'' \<notin> set d"
    using sdk_denom(3) [OF env_okD(1) [OF assms(1)]] by blast
  then show "CHR ''|'' \<notin> set a"
    by (simp add: d denom_of_def)
qed

section \<open>Properties\<close>

lemma CreateDenom_metadata:
  assumes "env_ok k" and "CreateDenom k a s w = (Ok d, w')"
  shows "GetDenomMetaData (bankKeeper k) w' = (GetDenomMetaData (bankKeeper k) w)(d \<mapsto> base_metadata d)"
proof -
  obtain w1 where none: "GetDenomMetaData (bankKeeper k) w d = None"
    and c: "chargeForCreateDenom k a w = (Ok (), w1)"
    and r: "createDenomAfterValidation k a d w1 = (Ok (), w')"
    using CreateDenom_OkD [OF assms] by blast
  have "GetDenomMetaData (bankKeeper k) w1 = GetDenomMetaData (bankKeeper k) w"
    using preservesD [OF chargeForCreateDenom_metadata [OF assms(1)] c] .
  then show ?thesis using createDenomAfterValidation_Ok(3) [OF assms(1) r] none by simp
qed

lemma CreateDenom_index:
  assumes "env_ok k" and "CreateDenom k a s w = (Ok d, w')"
  shows "set (getDenomsFromCreator k a w') = insert d (set (getDenomsFromCreator k a w))"
    and "CHR ''|'' \<notin> set c \<Longrightarrow> c \<noteq> a \<Longrightarrow> getDenomsFromCreator k c w' = getDenomsFromCreator k c w"
proof -
  note kvl = env_okD(2) [OF assms(1)] and kv = CreateDenom_kv [OF assms] and bar = CreateDenom_bar_free [OF assms]
  have listed: "x \<in> set (getDenomsFromCreator k a v) \<longleftrightarrow> kv (ctx k) v (GetCreatorPrefix a @ x) \<noteq> None" for x v
    unfolding getDenomsFromCreator_def set_map using kv_iterator(3) [OF kvl, of _ _ v "GetCreatorPrefix a"] by force
  have "kv (ctx k) w' (GetCreatorPrefix a @ x) = (if x = d then Some d else kv (ctx k) w (GetCreatorPrefix a @ x))" for x
    by (simp add: kv index_key_def [symmetric]) (simp add: index_key_def)
  then show "set (getDenomsFromCreator k a w') = insert d (set (getDenomsFromCreator k a w))"
    by (auto simp: listed split: if_splits)
  show "getDenomsFromCreator k c w' = getDenomsFromCreator k c w" if "CHR ''|'' \<notin> set c" "c \<noteq> a"
  proof -
    have "kv (ctx k) w' (GetCreatorPrefix c @ x) = kv (ctx k) w (GetCreatorPrefix c @ x)" for x
      using index_key_mono [OF that(2,1) bar(2), of x d] by (simp add: kv index_key_def [symmetric])
    then show ?thesis unfolding getDenomsFromCreator_def using kv_iterator_cong [OF kvl] by metis
  qed
qed

text \<open>C12. A successful creation returns \<open>factory/{creator}/{subdenom}\<close>, which the bank did not know
  before. Afterwards the bank has the base metadata of the denomination, and of every other denomination
  what it had; the creator is its admin; the denominations of the creator are the earlier ones and the new
  one. The authority metadata of every other denomination and the denominations of every other creator are
  what they were, and of the store of the module, hooks included, nothing else has changed: only the cell of
  the authority metadata and the entry of the index are written.\<close>

theorem CreateDenom_effect:
  assumes "env_ok k" "CreateDenom k a s w = (Ok d, w')"
  shows "d = denom_of a s
    \<and> GetDenomMetaData (bankKeeper k) w d = None
    \<and> GetDenomMetaData (bankKeeper k) w' = (GetDenomMetaData (bankKeeper k) w)(d \<mapsto> base_metadata d)
    \<and> GetAuthorityMetadata k d w' = Ok \<lparr>Admin = a\<rparr>
    \<and> set (getDenomsFromCreator k a w') = insert d (set (getDenomsFromCreator k a w))
    \<and> (\<forall>d'. CHR ''|'' \<notin> set d' \<longrightarrow> d' \<noteq> d \<longrightarrow>
         GetAuthorityMetadata k d' w' = GetAuthorityMetadata k d' w)
    \<and> (\<forall>c. CHR ''|'' \<notin> set c \<longrightarrow> c \<noteq> a \<longrightarrow> getDenomsFromCreator k c w' = getDenomsFromCreator k c w)
    \<and> (\<forall>p key. p @ key \<notin> {meta_key d, index_key a d} \<longrightarrow>
         StoreGet (ctx k) w' p key = StoreGet (ctx k) w p key)"
proof -
  note laws = env_okD [OF assms(1)]
  note kv = CreateDenom_kv [OF assms] and bar = CreateDenom_bar_free [OF assms]
  obtain w1 where t: "GetTokenDenom (sdk k) a s = Ok d" "GetDenomMetaData (bankKeeper k) w d = None"
    and r: "createDenomAfterValidation k a d w1 = (Ok (), w')"
    using CreateDenom_OkD [OF assms] by blast
  have m: "DenomAuthorityMetadata_ok \<lparr>Admin = a\<rparr>"
    using authority_ok [OF laws(1) createDenomAfterValidation_Ok(1) [OF assms(1) r]] .
  show ?thesis
    using t m bar
    by (auto simp: GetTokenDenom_Ok GetAuthorityMetadata_kv [OF laws(2)] kv kv_get [OF laws(2)]
        CreateDenom_metadata [OF assms] CreateDenom_index [OF assms])
qed

text \<open>C13. A creation that fails, whatever the reason (the name, the bank, the fee, the gas), leaves
  the module's store exactly as it was: there is no half-created denomination.\<close>

theorem CreateDenom_failed_unchanged:
  assumes "env_ok k" "CreateDenom k a s w = (r, w')" "\<not> is_ok r"
  shows "StoreGet (ctx k) w' p key = StoreGet (ctx k) w p key"
  using unless_okD [OF CreateDenom_unless_ok [OF assms(1)] assms(2,3)]
  by (simp add: kv_get [OF env_okD(2) [OF assms(1)]])

text \<open>C11. No denomination is created twice: once the bank knows a denomination, creating it again
  returns \<open>ErrDenomExists\<close> and changes nothing, whoever asks.\<close>

theorem CreateDenom_twice_rejected:
  assumes "env_ok k" "CreateDenom k a s w = (Ok d, w')" "GetTokenDenom (sdk k) a' s' = Ok d"
    "\<not> HasSupply (bankKeeper k) w' s'"
  shows "CreateDenom k a' s' w' = (Err ErrDenomExists, w')"
proof -
  obtain w1 where "createDenomAfterValidation k a d w1 = (Ok (), w')"
    using CreateDenom_OkD [OF assms(1,2)] by blast
  from createDenomAfterValidation_Ok(3) [OF assms(1) this]
  have "GetDenomMetaData (bankKeeper k) w' d \<noteq> None" by simp
  then have "validateCreateDenom k a' s' w' = Err ErrDenomExists"
    using assms(3,4) by (simp add: validateCreateDenom_def)
  then show ?thesis by (simp add: CreateDenom_def)
qed

end
