(* ===== verification/MemKeeper.thy ===== *)
theory MemKeeper
  imports CreateDenom
begin

text \<open>
  The keeper of x/tokenfactory on the chain in memory: the environment the theorems are applied in.
\<close>

definition memKeeper :: "Mem Keeper" where
  "memKeeper = SetContractKeeper memContracts
     (NewKeeper memSdk memCtx True memParams memParams
        [(''tokenfactory'', [''minter'', ''burner'']), (''distribution'', [])]
        memAccounts memBank memPool)"

lemma memKeeper_simps [simp]:
  "sdk memKeeper = memSdk" "ctx memKeeper = memCtx" "bankKeeper memKeeper = memBank"
  "paramSpace memKeeper = memParams" "accountKeeper memKeeper = memAccounts"
  "contractKeeper memKeeper = Some memContracts" "communityPoolKeeper memKeeper = memPool"
  by (simp_all add: memKeeper_def SetContractKeeper_def NewKeeper_def)

lemma mem_env_ok: "env_ok memKeeper"
  by (simp add: env_ok_def memSdk_laws mem_kv_laws mem_bank_store_laws mem_bank_metadata_laws
      mem_param_laws mem_other_store_laws)

text \<open>The chain after lumi1abc has created the denomination gold.\<close>

definition mem1 :: Mem where
  "mem1 = snd (CreateDenom memKeeper ''lumi1abc'' ''gold'' mem0)"

lemma mem1_created:
  "CreateDenom memKeeper ''lumi1abc'' ''gold'' mem0 = (Ok ''factory/lumi1abc/gold'', mem1)"
proof -
  have "fst (CreateDenom memKeeper ''lumi1abc'' ''gold'' mem0) = Ok ''factory/lumi1abc/gold''"
    by code_simp
  then show ?thesis by (simp add: mem1_def prod_eq_iff)
qed

section \<open>Concrete instances\<close>

theorem CreateDenom_effect_witness:
  "GetAuthorityMetadata memKeeper ''factory/lumi1abc/gold'' mem1 = Ok \<lparr>Admin = ''lumi1abc''\<rparr> \<and>
   ''factory/lumi1abc/gold'' \<in> set (getDenomsFromCreator memKeeper ''lumi1abc'' mem1) \<and>
   GetDenomMetaData (bankKeeper memKeeper) mem1 ''factory/lumi1abc/gold'' = Some (base_metadata ''factory/lumi1abc/gold'')"
proof -
  note eff = CreateDenom_effect [OF mem_env_ok mem1_created]
  from eff have "GetAuthorityMetadata memKeeper ''factory/lumi1abc/gold'' mem1 = Ok \<lparr>Admin = ''lumi1abc''\<rparr>" by blast
  moreover from eff have "''factory/lumi1abc/gold'' \<in> set (getDenomsFromCreator memKeeper ''lumi1abc'' mem1)"
    by blast
  moreover from eff have "GetDenomMetaData (bankKeeper memKeeper) mem1
      = (GetDenomMetaData (bankKeeper memKeeper) mem0)(''factory/lumi1abc/gold'' \<mapsto> base_metadata ''factory/lumi1abc/gold'')"
    by blast
  ultimately show ?thesis by (simp only: fun_upd_same simp_thms)
qed

theorem CreateDenom_failed_unchanged_witness:
  "fst (CreateDenom memKeeper ''lumi1abc'' ''gold'' mem1) = Err ErrDenomExists \<and>
   StoreGet memCtx (snd (CreateDenom memKeeper ''lumi1abc'' ''gold'' mem1)) '''' ''x''
     = StoreGet memCtx mem1 '''' ''x''"
proof -
  have err: "fst (CreateDenom memKeeper ''lumi1abc'' ''gold'' mem1) = Err ErrDenomExists"
    by code_simp
  then show ?thesis
    using CreateDenom_failed_unchanged [OF mem_env_ok surjective_pairing] by simp
qed

theorem CreateDenom_twice_rejected_witness:
  "CreateDenom memKeeper ''lumi1abc'' ''gold'' mem1 = (Err ErrDenomExists, mem1)"
proof -
  have "GetTokenDenom (sdk memKeeper) ''lumi1abc'' ''gold'' = Ok ''factory/lumi1abc/gold''"
    "\<not> HasSupply (bankKeeper memKeeper) mem1 ''gold''" by code_simp+
  from CreateDenom_twice_rejected [OF mem_env_ok mem1_created this] show ?thesis .
qed

end
