(* ===== verification/BankActions.thy ===== *)
theory BankActions
  imports MemKeeper "HOL-Library.Multiset"
begin

text \<open>
  Minting, burning and forced transfers (x/tokenfactory/keeper/bankactions.go). The bank is called
  only after the denomination and the addresses have been checked; module accounts are refused.

  The lemmas give what each action must have passed when it succeeds, its effect on the supply, and
  that none touches the module's own store.
\<close>

section \<open>Operations\<close>

definition mintTo :: "'w Keeper \<Rightarrow> Coin \<Rightarrow> string \<Rightarrow> ('w, unit) act" where
  "mintTo k amount mintTo_addr =
     bindA (lift (DeconstructDenom (sdk k) (coin_denom amount))) (\<lambda>_.
     bindA (lift (AccAddressFromBech32 (sdk k) mintTo_addr)) (\<lambda>addr.
     if IsModuleAcc k addr then throw ErrMintToModuleAccount
     else
       bindA (lift (NewCoins (sdk k) [amount])) (\<lambda>coins.
       bindA (MintCoins (bankKeeper k) ModuleName coins) (\<lambda>_.
       bindA (lift (NewCoins (sdk k) [amount])) (\<lambda>coins.
       SendCoinsFromModuleToAccount (bankKeeper k) ModuleName addr coins)))))"

definition burnFrom :: "'w Keeper \<Rightarrow> Coin \<Rightarrow> string \<Rightarrow> ('w, unit) act" where
  "burnFrom k amount burnFrom_addr =
     bindA (lift (DeconstructDenom (sdk k) (coin_denom amount))) (\<lambda>_.
     bindA (lift (AccAddressFromBech32 (sdk k) burnFrom_addr)) (\<lambda>addr.
     if IsModuleAcc k addr then throw ErrBurnFromModuleAccount
     else
       bindA (lift (NewCoins (sdk k) [amount])) (\<lambda>coins.
       bindA (SendCoinsFromAccountToModule (bankKeeper k) addr ModuleName coins) (\<lambda>_.
       bindA (lift (NewCoins (sdk k) [amount])) (\<lambda>coins.
       BurnCoins (bankKeeper k) ModuleName coins)))))"

text \<open>
  The loop over the module names in sorted order; \<open>status.Errorf(code, text)\<close> prints as
  \<open>rpc error: code = ... desc = text\<close>.
\<close>

fun check_module_accounts :: "'w Keeper \<Rightarrow> addr \<Rightarrow> addr \<Rightarrow> string list \<Rightarrow> ('w, unit) act" where
  "check_module_accounts k fromAddr toAddr [] = ret ()"
| "check_module_accounts k fromAddr toAddr (moduleName # names) =
     bindA (GetModuleAccount (accountKeeper k) moduleName) (\<lambda>account.
     case account of
       None \<Rightarrow> throw (Errorf (''rpc error: code = NotFound desc = account '' @ moduleName @ '' not found''))
     | Some a \<Rightarrow>
         if a = fromAddr then
           throw (Errorf ''rpc error: code = Internal desc = send from module acc not available'')
         else if a = toAddr then
           throw (Errorf ''rpc error: code = Internal desc = send to module acc not available'')
         else check_module_accounts k fromAddr toAddr names)"

definition forceTransfer :: "'w Keeper \<Rightarrow> Coin \<Rightarrow> string \<Rightarrow> string \<Rightarrow> ('w, unit) act" where
  "forceTransfer k amount fromAddr toAddr =
     bindA (lift (DeconstructDenom (sdk k) (coin_denom amount))) (\<lambda>_.
     bindA (lift (AccAddressFromBech32 (sdk k) fromAddr)) (\<lambda>fromSdkAddr.
     bindA (lift (AccAddressFromBech32 (sdk k) toAddr)) (\<lambda>toSdkAddr.
     let sortedPermAddrs = sort (map fst (permAddrs k)) in
     bindA (check_module_accounts k fromSdkAddr toSdkAddr sortedPermAddrs) (\<lambda>_.
     bindA (lift (NewCoins (sdk k) [amount])) (\<lambda>coins.
     SendCoins (bankKeeper k) fromSdkAddr toSdkAddr coins)))))"

section \<open>Frames\<close>

lemma mintTo_preserves: "env_ok k \<Longrightarrow> preserves (kv (ctx k)) (mintTo k c a)"
  unfolding mintTo_def using env_okD(3) [of k]
  by (intro preserves_bindA preserves_basic preserves_if bank_store)

lemma burnFrom_preserves: "env_ok k \<Longrightarrow> preserves (kv (ctx k)) (burnFrom k c a)"
  unfolding burnFrom_def using env_okD(3) [of k]
  by (intro preserves_bindA preserves_basic preserves_if bank_store)

lemma check_module_accounts_preserves:
  "env_ok k \<Longrightarrow> preserves (kv (ctx k)) (check_module_accounts k a b ns)"
  by (induction ns) (auto intro!: preserves_bindA env_preserves(3) split: option.split)

lemma forceTransfer_preserves: "env_ok k \<Longrightarrow> preserves (kv (ctx k)) (forceTransfer k c a b)"
  unfolding forceTransfer_def Let_def using env_okD(3) [of k]
  by (intro preserves_bindA preserves_basic check_module_accounts_preserves bank_store)

section \<open>Supply\<close>

definition supply_ok :: "'w Keeper \<Rightarrow> ('w \<Rightarrow> string \<Rightarrow> int) \<Rightarrow> bool" where
  "supply_ok k supply \<longleftrightarrow> supply_laws (sdk k) (ctx k) (bankKeeper k) (accountKeeper k)
     (communityPoolKeeper k) supply"

lemma mintTo_supply:
  assumes s: "supply_ok k supply" and run: "mintTo k c a w = (Ok u, w')"
  shows "supply w' = (supply w)(coin_denom c := supply w (coin_denom c) + coin_amount c)"
proof -
  note laws = supply_law [OF s [unfolded supply_ok_def]]
  from run obtain cs w1 addr where cs: "NewCoins (sdk k) [c] = Ok cs"
    and m: "MintCoins (bankKeeper k) ModuleName cs w = (Ok (), w1)"
    and t: "SendCoinsFromModuleToAccount (bankKeeper k) ModuleName addr cs w1 = (Ok (), w')"
    by (auto simp: mintTo_def bindA_Ok_iff split: if_splits)
  show ?thesis
    using laws(1) [OF cs] laws(2) [OF m] when_okD [OF laws(4) t] by auto
qed

lemma burnFrom_supply:
  assumes s: "supply_ok k supply" and run: "burnFrom k c a w = (Ok u, w')"
  shows "supply w' = (supply w)(coin_denom c := supply w (coin_denom c) - coin_amount c)"
proof -
  note laws = supply_law [OF s [unfolded supply_ok_def]]
  from run obtain cs w1 addr where cs: "NewCoins (sdk k) [c] = Ok cs"
    and t: "SendCoinsFromAccountToModule (bankKeeper k) addr ModuleName cs w = (Ok (), w1)"
    and m: "BurnCoins (bankKeeper k) ModuleName cs w1 = (Ok (), w')"
    by (auto simp: burnFrom_def bindA_Ok_iff split: if_splits)
  show ?thesis
    using laws(1) [OF cs] laws(3) [OF m] when_okD [OF laws(5) t] by auto
qed

lemma check_module_accounts_when_ok:
  "supply_ok k supply \<Longrightarrow> when_ok supply (check_module_accounts k a b ns)"
  by (induction ns) (auto intro!: when_ok_bindA supply_law(7) simp: supply_ok_def split: option.split)

lemma forceTransfer_when_ok: "supply_ok k supply \<Longrightarrow> when_ok supply (forceTransfer k c a b)"
  unfolding forceTransfer_def Let_def
  by (intro when_ok_bindA when_ok_basic check_module_accounts_when_ok)
    (auto simp: supply_ok_def intro: supply_law)

section \<open>Module accounts\<close>

lemma check_module_accounts_Ok:
  assumes "module_account_laws (sdk k) (accountKeeper k)"
    and "check_module_accounts k a b ns w = (Ok u, w')" and "n \<in> set ns"
  shows "NewModuleAddress (sdk k) n \<noteq> a \<and> NewModuleAddress (sdk k) n \<noteq> b"
  using assms(2,3)
proof (induction ns arbitrary: w)
  case (Cons m ns)
  from Cons.prems(1) obtain acc w1 where
    g: "GetModuleAccount (accountKeeper k) m w = (Ok (Some acc), w1)"
    and n: "acc \<noteq> a" "acc \<noteq> b" and r: "check_module_accounts k a b ns w1 = (Ok u, w')"
    by (auto simp: bindA_Ok_iff split: option.splits if_splits)
  have "acc = NewModuleAddress (sdk k) m"
    using assms(1) g unfolding module_account_laws_def by blast
  with n Cons.IH [OF r] Cons.prems(2) show ?case by auto
qed simp

lemma forceTransfer_OkE:
  assumes "forceTransfer k c fromAddr toAddr w = (Ok u, w')"
  obtains a b cs w1 where "AccAddressFromBech32 (sdk k) fromAddr = Ok a"
    "AccAddressFromBech32 (sdk k) toAddr = Ok b" "is_ok (DeconstructDenom (sdk k) (coin_denom c))"
    "check_module_accounts k a b (sort (map fst (permAddrs k))) w = (Ok (), w1)"
    "NewCoins (sdk k) [c] = Ok cs" "SendCoins (bankKeeper k) a b cs w1 = (Ok (), w')"
  using assms by (auto simp: forceTransfer_def Let_def bindA_Ok_iff)

section \<open>Properties\<close>

text \<open>C14. A forced transfer that succeeds moves the coins between the two decoded addresses, and
  neither of them is the account of a module in the keeper's permission table.\<close>

theorem forceTransfer_no_module_account:
  assumes "module_account_laws (sdk k) (accountKeeper k)"
    and "forceTransfer k c fromAddr toAddr w = (Ok u, w')"
    and "(name, perms) \<in> set (permAddrs k)"
  shows "\<exists>a b. AccAddressFromBech32 (sdk k) fromAddr = Ok a \<and> AccAddressFromBech32 (sdk k) toAddr = Ok b
    \<and> NewModuleAddress (sdk k) name \<noteq> a \<and> NewModuleAddress (sdk k) name \<noteq> b"
proof -
  obtain a b w1 where ab: "AccAddressFromBech32 (sdk k) fromAddr = Ok a"
    "AccAddressFromBech32 (sdk k) toAddr = Ok b"
    and c: "check_module_accounts k a b (sort (map fst (permAddrs k))) w = (Ok (), w1)"
    using assms(2) by (rule forceTransfer_OkE)
  have "name \<in> set (sort (map fst (permAddrs k)))" using assms(3) by force
  with ab check_module_accounts_Ok [OF assms(1) c] show ?thesis by blast
qed

text \<open>C19. A forced transfer does not depend on the order in which Go iterates over the permission
  map: two keepers that differ only in that order give the same result and the same state, so that
  every validator computes the same block.\<close>

theorem forceTransfer_deterministic:
  assumes "mset (map fst perms) = mset (map fst (permAddrs k))"
  shows "forceTransfer (k\<lparr>permAddrs := perms\<rparr>) c fromAddr toAddr w = forceTransfer k c fromAddr toAddr w"
proof -
  have loop: "check_module_accounts (k\<lparr>permAddrs := perms\<rparr>) a b ns = check_module_accounts k a b ns"
    for a b ns by (induction ns) (simp_all cong: if_cong)
  have "sort (map fst perms) = sort (map fst (permAddrs k))"
    using assms by (intro properties_for_sort) simp_all
  then show ?thesis
    by (simp add: forceTransfer_def loop)
qed

text \<open>Minting and burning check before they pay: when the denomination does not come apart, an
  address does not decode, or the account is a module's, the call returns the error and the whole
  state is what it was.\<close>

theorem mint_burn_checked_first:
  assumes "is_ok (DeconstructDenom (sdk k) (coin_denom c)) \<Longrightarrow>
      (case AccAddressFromBech32 (sdk k) a of Ok b \<Rightarrow> IsModuleAcc k b | _ \<Rightarrow> True)"
  shows "\<exists>r r'. mintTo k c a w = (r, w) \<and> \<not> is_ok r \<and> burnFrom k c a w = (r', w) \<and> \<not> is_ok r'"
  using assms
  by (cases "DeconstructDenom (sdk k) (coin_denom c)"; cases "AccAddressFromBech32 (sdk k) a")
    (auto simp: mintTo_def burnFrom_def)

section \<open>Concrete instances\<close>

definition gold :: "int \<Rightarrow> Coin" where
  "gold n = \<lparr>coin_denom = ''factory/lumi1abc/gold'', coin_amount = n\<rparr>"

definition rich :: Mem where
  "rich = mem0\<lparr>mem_bal := (\<lambda>_ _. 100)\<rparr>"

theorem forceTransfer_no_module_account_witness:
  "\<exists>a b. AccAddressFromBech32 memSdk ''lumi1abc'' = Ok a \<and> AccAddressFromBech32 memSdk ''lumi1xyz'' = Ok b
     \<and> NewModuleAddress memSdk ''distribution'' \<noteq> a \<and> NewModuleAddress memSdk ''distribution'' \<noteq> b"
proof -
  have run: "forceTransfer memKeeper (gold 5) ''lumi1abc'' ''lumi1xyz'' rich
      = (Ok (), snd (forceTransfer memKeeper (gold 5) ''lumi1abc'' ''lumi1xyz'' rich))"
    by (rule prod_eqI) (code_simp, simp)
  have "(''distribution'', ''moddistribution'', []) \<in> set (permAddrs memKeeper)"
    by (simp add: memKeeper_def SetContractKeeper_def NewKeeper_def memSdk_def)
  from forceTransfer_no_module_account [OF _ run this] show ?thesis
    by (simp add: mem_module_account_laws)
qed

theorem forceTransfer_deterministic_witness:
  "forceTransfer (memKeeper\<lparr>permAddrs := rev (permAddrs memKeeper)\<rparr>) (gold 5) ''lumi1abc'' ''lumi1xyz'' rich
   = forceTransfer memKeeper (gold 5) ''lumi1abc'' ''lumi1xyz'' rich"
  by (rule forceTransfer_deterministic) (simp add: rev_map)

theorem mint_burn_checked_first_witness:
  "\<exists>r r'. mintTo memKeeper (gold 5) ''cosmos1abc'' rich = (r, rich) \<and> \<not> is_ok r
     \<and> burnFrom memKeeper (gold 5) ''cosmos1abc'' rich = (r', rich) \<and> \<not> is_ok r'"
proof -
  have "AccAddressFromBech32 memSdk ''cosmos1abc'' = Err (Errorf ''decoding bech32 failed'')"
    by code_simp
  then show ?thesis by (intro mint_burn_checked_first) simp
qed

end
