(* ===== verification/BeforeSend.thy ===== *)
theory BeforeSend
  imports BankActions
begin

text \<open>
  The before-send hooks (x/tokenfactory/keeper/before_send.go, types/before_send.go): the contract
  address kept per denomination, and the listener the bank is to call before a transfer, which asks
  the contract of every coin.

  A contract is unknown code: it may write anything to the store, return an error or panic. The lemmas
  show that the trial call made when a hook is set leaves no trace in the store, that the listener
  never panics whatever the contracts do, what it returns when the gas runs out, and which coins it does
  not get to.
\<close>

section \<open>The messages to the contract\<close>

text \<open>
  \<open>json.Marshal\<close> of a struct: the fields in order, strings quoted and escaped. The texts in these
  messages are addresses, denominations and decimal numbers; bytes above 127 are passed on as they are.
\<close>

definition hex4 :: "nat \<Rightarrow> string" where
  "hex4 n = (let h = (\<lambda>d. if d < 10 then char_of (48 + d) else char_of (87 + d)) in
     ''00'' @ [h (n div 16), h (n mod 16)])"

definition json_char :: "char \<Rightarrow> string" where
  "json_char c = (let n = (of_char c :: nat); backslash = char_of (92::nat) in
     if n = 34 \<or> n = 92 then [backslash, c]
     else if n = 8 then [backslash, CHR ''b''] else if n = 12 then [backslash, CHR ''f'']
     else if n = 10 then [backslash, CHR ''n''] else if n = 13 then [backslash, CHR ''r'']
     else if n = 9 then [backslash, CHR ''t'']
     else if n < 32 \<or> n = 60 \<or> n = 62 \<or> n = 38 then backslash # CHR ''u'' # hex4 n
     else [c])"

definition quote :: char where "quote = char_of (34::nat)"

definition json_string :: "string \<Rightarrow> string" where
  "json_string s = quote # concat (map json_char s) @ [quote]"

definition json_object :: "(string \<times> string) list \<Rightarrow> string" where
  "json_object kvs =
     ''{'' @ Join (map (\<lambda>(name, v). json_string name @ '':'' @ v) kvs) '','' @ ''}''"

record CwCoin =
  cw_denom :: string
  cw_amount :: string

definition cwCoinFromSDKCoin :: "Coin \<Rightarrow> CwCoin" where
  "cwCoinFromSDKCoin coin = \<lparr>cw_denom = coin_denom coin, cw_amount = itoa (coin_amount coin)\<rparr>"

record BeforeSendMsg =
  bs_From :: string
  bs_To :: string
  bs_Amount :: CwCoin

datatype SudoMsg = BlockBeforeSendSudoMsg BeforeSendMsg | TrackBeforeSendSudoMsg BeforeSendMsg

definition json_msg :: "BeforeSendMsg \<Rightarrow> string" where
  "json_msg m = json_object
     [(''from'', json_string (bs_From m)), (''to'', json_string (bs_To m)),
      (''amount'', json_object [(''denom'', json_string (cw_denom (bs_Amount m))),
                                (''amount'', json_string (cw_amount (bs_Amount m)))])]"

fun json_sudo :: "SudoMsg \<Rightarrow> bytes" where
  "json_sudo (BlockBeforeSendSudoMsg m) = json_object [(''block_before_send'', json_msg m)]"
| "json_sudo (TrackBeforeSendSudoMsg m) = json_object [(''track_before_send'', json_msg m)]"

definition empty_msg :: BeforeSendMsg where
  "empty_msg = \<lparr>bs_From = [], bs_To = [], bs_Amount = \<lparr>cw_denom = [], cw_amount = []\<rparr>\<rparr>"

section \<open>The hook of a denomination\<close>

text \<open>\<open>_, err = Sudo(cacheCtx, ...)\<close>: the error is a value, a panic goes through, the cache is dropped.\<close>

definition try_contract ::
    "'w Keeper \<Rightarrow> 'w ContractKeeper \<Rightarrow> addr \<Rightarrow> bytes \<Rightarrow> ('w, error option) act" where
  "try_contract k ck cwAddr msgBz w = (case Sudo ck cwAddr msgBz w of
      (Ok _, s) \<Rightarrow> (Ok None, DropCache (ctx k) w s)
    | (Err e, s) \<Rightarrow> (Ok (Some e), DropCache (ctx k) w s)
    | (Panic p, s) \<Rightarrow> (Panic p, DropCache (ctx k) w s))"

definition no_such_contract :: "error option \<Rightarrow> bool" where
  "no_such_contract err = (case err of None \<Rightarrow> False | Some e \<Rightarrow> Contains (ErrorText e) ''no such contract'')"

definition setBeforeSendHook :: "'w Keeper \<Rightarrow> string \<Rightarrow> string \<Rightarrow> ('w, unit) act" where
  "setBeforeSendHook k denom cosmwasmAddress =
     bindA (lift (DeconstructDenom (sdk k) denom)) (\<lambda>_.
     if cosmwasmAddress = '''' then
       modify (StoreDelete (ctx k) (GetDenomPrefixStore denom) BeforeSendHookAddressPrefixKey)
     else (case contractKeeper k of
       None \<Rightarrow> throw (Wrap ErrInvalidRequest ''contract keeper not configured'')
     | Some ck \<Rightarrow>
         bindA (lift (AccAddressFromBech32 (sdk k) cosmwasmAddress)) (\<lambda>cwAddr.
         bindA (try_contract k ck cwAddr (json_sudo (TrackBeforeSendSudoMsg empty_msg))) (\<lambda>err.
         if no_such_contract err then throw (the err)
         else
           bindA (lift (AccAddressFromBech32 (sdk k) cosmwasmAddress)) (\<lambda>_.
           modify (StoreSet (ctx k) (GetDenomPrefixStore denom) BeforeSendHookAddressPrefixKey
             cosmwasmAddress))))))"

definition GetBeforeSendHook :: "'w Keeper \<Rightarrow> string \<Rightarrow> 'w \<Rightarrow> string" where
  "GetBeforeSendHook k denom w =
     (case StoreGet (ctx k) w (GetDenomPrefixStore denom) BeforeSendHookAddressPrefixKey of
        None \<Rightarrow> '''' | Some bz \<Rightarrow> bz)"

definition GetAllBeforeSendHooks :: "'w Keeper \<Rightarrow> 'w \<Rightarrow> string list \<times> string list" where
  "GetAllBeforeSendHooks k w =
     (let hooks = filter (\<lambda>(denom, hook). hook \<noteq> '''')
            (map (\<lambda>(_, denom). (denom, GetBeforeSendHook k denom w)) (GetAllDenomsIterator k w))
      in (map fst hooks, map snd hooks))"

section \<open>The listener\<close>

definition BeforeSendHookGasLimit :: u64 where "BeforeSendHookGasLimit = 500000"

definition sudo_msg :: "'w Keeper \<Rightarrow> addr \<Rightarrow> addr \<Rightarrow> Coin \<Rightarrow> bool \<Rightarrow> SudoMsg" where
  "sudo_msg k from_addr to_addr coin blockBeforeSend =
     (let m = \<lparr>bs_From = AccAddressString (sdk k) from_addr, bs_To = AccAddressString (sdk k) to_addr,
               bs_Amount = cwCoinFromSDKCoin coin\<rparr>
      in if blockBeforeSend then BlockBeforeSendSudoMsg m else TrackBeforeSendSudoMsg m)"

text \<open>
  The inner function literal: the contract runs on a gas meter of its own, what it consumed is always
  charged to the parent (which may panic), and its panic becomes the error. A nil contract keeper
  panics with a nil dereference.
\<close>

definition call_contract :: "'w Keeper \<Rightarrow> addr \<Rightarrow> bytes \<Rightarrow> ('w, error option) act" where
  "call_contract k cwAddr msgBz w =
     (let gasLimit = min (GasRemaining (ctx k) w) BeforeSendHookGasLimit;
          childCtx = WithGasMeter (ctx k) gasLimit w;
          (r, s) = (case contractKeeper k of
             None \<Rightarrow> (Panic ''runtime error: invalid memory address or nil pointer dereference'', childCtx)
           | Some ck \<Rightarrow> Sudo ck cwAddr msgBz childCtx)
      in bindA (ConsumeGas (ctx k) (GasConsumed (ctx k) s) ''track before send gas'') (\<lambda>_.
           ret (case r of Ok _ \<Rightarrow> None | Err e \<Rightarrow> Some e
                | Panic p \<Rightarrow> Some (Wrap ErrBeforeSendHookOutOfGas p)))
         (WithStoreOf (ctx k) w s))"

fun call_listeners ::
    "'w Keeper \<Rightarrow> addr \<Rightarrow> addr \<Rightarrow> bool \<Rightarrow> Coin list \<Rightarrow> ('w, unit) act" where
  "call_listeners k from_addr to_addr blockBeforeSend [] = ret ()"
| "call_listeners k from_addr to_addr blockBeforeSend (coin # coins) =
     bindA (gets (GetBeforeSendHook k (coin_denom coin))) (\<lambda>cosmwasmAddress.
     if cosmwasmAddress \<noteq> '''' then
       bindA (lift (AccAddressFromBech32 (sdk k) cosmwasmAddress)) (\<lambda>cwAddr.
       bindA (call_contract k cwAddr (json_sudo (sudo_msg k from_addr to_addr coin blockBeforeSend)))
         (\<lambda>err. case err of
            None \<Rightarrow> call_listeners k from_addr to_addr blockBeforeSend coins
          | Some e \<Rightarrow>
              if no_such_contract (Some e) then ret ()
              else if IsModuleAcc k from_addr then ret ()
              else throw (Wrap e (''failed to call before send hook for denom '' @ coin_denom coin))))
     else call_listeners k from_addr to_addr blockBeforeSend coins)"

text \<open>The deferred \<open>recover\<close> turns a panic of the loop into an error.\<close>

definition callBeforeSendListener ::
    "'w Keeper \<Rightarrow> addr \<Rightarrow> addr \<Rightarrow> Coin list \<Rightarrow> bool \<Rightarrow> ('w, unit) act" where
  "callBeforeSendListener k from_addr to_addr amount blockBeforeSend w =
     (case call_listeners k from_addr to_addr blockBeforeSend amount w of
        (Panic p, w') \<Rightarrow> (Err (Wrap ErrBeforeSendHookOutOfGas p), w')
      | other \<Rightarrow> other)"

definition TrackBeforeSend :: "'w Keeper \<Rightarrow> addr \<Rightarrow> addr \<Rightarrow> Coin list \<Rightarrow> ('w, unit) act" where
  "TrackBeforeSend k from_addr to_addr amount w =
     (Ok (), snd (callBeforeSendListener k from_addr to_addr amount False w))"

definition BlockBeforeSend :: "'w Keeper \<Rightarrow> addr \<Rightarrow> addr \<Rightarrow> Coin list \<Rightarrow> ('w, unit) act" where
  "BlockBeforeSend k from_addr to_addr amount =
     callBeforeSendListener k from_addr to_addr amount True"

section \<open>Hooks in the store\<close>

definition write_hook :: "'w Keeper \<Rightarrow> string \<Rightarrow> string \<Rightarrow> 'w \<Rightarrow> 'w" where
  "write_hook k d v w =
     (if v = '''' then StoreDelete (ctx k) (GetDenomPrefixStore d) BeforeSendHookAddressPrefixKey w
      else StoreSet (ctx k) (GetDenomPrefixStore d) BeforeSendHookAddressPrefixKey v w)"

definition hook_value :: "string \<Rightarrow> bytes option" where
  "hook_value v = (if v = '''' then None else Some v)"

lemma kv_write_hook:
  "kv_laws (ctx k) \<Longrightarrow> kv (ctx k) (write_hook k d v w) = (kv (ctx k) w)(hook_key d := hook_value v)"
  by (simp add: write_hook_def kv_frame hook_key_def hook_value_def)

lemma GetBeforeSendHook_kv:
  "kv_laws (ctx k) \<Longrightarrow> GetBeforeSendHook k d w =
     (case kv (ctx k) w (hook_key d) of None \<Rightarrow> '''' | Some bz \<Rightarrow> bz)"
  by (simp add: GetBeforeSendHook_def kv_get hook_key_def)

interpretation hook_cell: denom_cell "GetBeforeSendHook :: 'w Keeper \<Rightarrow> _" write_hook "\<lambda>v. v"
  store_ok bar_free "\<lambda>_. True"
  by unfold_locales
    (simp add: store_ok_def bar_free_def GetBeforeSendHook_kv kv_write_hook hook_value_def)

lemma try_contract_preserves: "env_ok k \<Longrightarrow> preserves (kv (ctx k)) (try_contract k ck a m)"
  unfolding preserves_def try_contract_def
  by (auto simp: kv_frame dest: env_okD(2) split: prod.split res.split)

lemma setBeforeSendHook_unless_ok:
  "env_ok k \<Longrightarrow> unless_ok (kv (ctx k)) (setBeforeSendHook k d a)"
  unfolding setBeforeSendHook_def
  by (auto split: option.split intro!: unless_ok_bindA try_contract_preserves)

lemma setBeforeSendHook_Ok:
  assumes env: "env_ok k" and run: "setBeforeSendHook k d a w = (Ok u, w')"
  shows "kv (ctx k) w' = (kv (ctx k) w)(hook_key d := hook_value a)"
    and "is_ok (DeconstructDenom (sdk k) d)"
    and "a \<noteq> '''' \<Longrightarrow> contractKeeper k \<noteq> None \<and> is_ok (AccAddressFromBech32 (sdk k) a)"
proof -
  note kv = env_okD(2) [OF env]
  have "w' = write_hook k d a w" if "a = ''''"
    using run that by (auto simp: setBeforeSendHook_def bindA_Ok_iff write_hook_def)
  moreover have "\<exists>w1. kv (ctx k) w1 = kv (ctx k) w \<and> w' = write_hook k d a w1" if "a \<noteq> ''''"
    using run that preservesD [OF try_contract_preserves [OF env]]
    by (fastforce simp: setBeforeSendHook_def bindA_Ok_iff write_hook_def split: option.splits if_splits)
  ultimately show "kv (ctx k) w' = (kv (ctx k) w)(hook_key d := hook_value a)"
    using kv_write_hook [OF kv] by metis
  show "is_ok (DeconstructDenom (sdk k) d)"
    using run by (auto simp: setBeforeSendHook_def bindA_Ok_iff)
  show "contractKeeper k \<noteq> None \<and> is_ok (AccAddressFromBech32 (sdk k) a)" if "a \<noteq> ''''"
    using run that by (auto simp: setBeforeSendHook_def bindA_Ok_iff split: option.splits)
qed

lemma DeconstructDenom_bar_free:
  assumes "sdk_laws S" "is_ok (DeconstructDenom S d)"
  shows "CHR ''|'' \<notin> set d"
proof -
  from assms(2) obtain c s where "DeconstructDenom S d = Ok (c, s)"
    by (cases "DeconstructDenom S d") auto
  then show ?thesis
    using sdk_denom(3) [OF assms(1)] by (auto elim: DeconstructDenom_OkE)
qed


section \<open>Properties\<close>

text \<open>Setting a hook is all or nothing and local: when it succeeds the denomination has the new
  hook (none for the empty address), every other denomination keeps its hook and every denomination
  its admin, whatever the contract did when it was tried; when it fails the module's store is what it
  was.\<close>

theorem setBeforeSendHook_effect:
  assumes "env_ok k" "setBeforeSendHook k d a w = (r, w')"
  shows "(is_ok r \<longrightarrow> GetBeforeSendHook k d w' = a
      \<and> (\<forall>d'. CHR ''|'' \<notin> set d' \<longrightarrow> d' \<noteq> d \<longrightarrow> GetBeforeSendHook k d' w' = GetBeforeSendHook k d' w)
      \<and> (\<forall>d'. CHR ''|'' \<notin> set d' \<longrightarrow> GetAuthorityMetadata k d' w' = GetAuthorityMetadata k d' w))
    \<and> (\<not> is_ok r \<longrightarrow> (\<forall>p key. StoreGet (ctx k) w' p key = StoreGet (ctx k) w p key))"
proof (cases r)
  case (Ok u)
  note laws = env_okD [OF assms(1)]
  note run = assms(2) [unfolded Ok]
  note bar = DeconstructDenom_bar_free [OF laws(1) setBeforeSendHook_Ok(2) [OF assms(1) run]]
  show ?thesis
    using bar by (simp add: Ok GetBeforeSendHook_kv GetAuthorityMetadata_kv laws
        setBeforeSendHook_Ok(1) [OF assms(1) run] hook_value_def)
qed (use unless_okD [OF setBeforeSendHook_unless_ok [OF assms(1)] assms(2)] in
  \<open>simp_all add: kv_get [OF env_okD(2) [OF assms(1)]]\<close>)

text \<open>The listener never panics: every panic below it comes back as an error.\<close>

lemma callBeforeSendListener_no_panic:
  "\<not> is_panic (fst (callBeforeSendListener k from_addr to_addr amount block w))"
  by (auto simp: callBeforeSendListener_def split: prod.split res.split)

lemma call_contract_run:
  assumes "contractKeeper k = Some ck"
    and "Sudo ck cw msg (WithGasMeter (ctx k) (min (GasRemaining (ctx k) w) BeforeSendHookGasLimit) w) = (r, s)"
    and "ConsumeGas (ctx k) (GasConsumed (ctx k) s) ''track before send gas'' (WithStoreOf (ctx k) w s) = (charged, w1)"
  shows "call_contract k cw msg w = (case charged of
      Ok _ \<Rightarrow> (Ok (case r of Ok _ \<Rightarrow> None | Err e \<Rightarrow> Some e | Panic p \<Rightarrow> Some (Wrap ErrBeforeSendHookOutOfGas p)), w1)
    | Err e \<Rightarrow> (Err e, w1) | Panic p \<Rightarrow> (Panic p, w1))"
  using assms by (simp add: call_contract_def Let_def bindA_run split: res.split)

text \<open>The coins without a hook before the first one with a hook cost nothing.\<close>

lemma call_listeners_skip:
  "list_all (\<lambda>c. GetBeforeSendHook k (coin_denom c) w = '''') free \<Longrightarrow>
   call_listeners k from_addr to_addr block (free @ coins) w = call_listeners k from_addr to_addr block coins w"
  by (induction free) (simp_all add: bindA_run)

text \<open>C17. What happens when the gas runs out in the contract of a coin, the first one that has a hook. The contract
  runs on a meter of its own with at most \<open>BeforeSendHookGasLimit\<close>, what it has used is charged to the
  transfer whatever it did, and the coins after it are not asked. When the transfer cannot pay, which panics, the listener does
  not panic but returns \<open>ErrBeforeSendHookOutOfGas\<close>, for which the transfer is refused while the tracking goes on
  without a trace of it; the gas stays charged. When only the contract's own meter runs out, the
  error is the same one, wrapped with the denomination.\<close>

theorem listener_out_of_gas:
  assumes "list_all (\<lambda>c. GetBeforeSendHook k (coin_denom c) w = '''') free"
    and "GetBeforeSendHook k (coin_denom coin) w = a" "a \<noteq> ''''" "AccAddressFromBech32 (sdk k) a = Ok cw"
    and "contractKeeper k = Some ck"
    and "Sudo ck cw (json_sudo (sudo_msg k from_addr to_addr coin block))
        (WithGasMeter (ctx k) (min (GasRemaining (ctx k) w) BeforeSendHookGasLimit) w) = (r, s)"
    and "ConsumeGas (ctx k) (GasConsumed (ctx k) s) ''track before send gas'' (WithStoreOf (ctx k) w s) = (charged, w1)"
  shows "(charged = Panic q \<longrightarrow>
       callBeforeSendListener k from_addr to_addr (free @ coin # coins) block w = (Err (Wrap ErrBeforeSendHookOutOfGas q), w1)
       \<and> (if block then BlockBeforeSend k from_addr to_addr (free @ coin # coins) w = (Err (Wrap ErrBeforeSendHookOutOfGas q), w1)
          else TrackBeforeSend k from_addr to_addr (free @ coin # coins) w = (Ok (), w1)))
    \<and> (charged = Ok () \<and> r = Panic p \<and> \<not> Contains (ErrorText (Wrap ErrBeforeSendHookOutOfGas p)) ''no such contract''
         \<and> \<not> IsModuleAcc k from_addr \<longrightarrow>
       callBeforeSendListener k from_addr to_addr (free @ coin # coins) block w = (Err (Wrap (Wrap ErrBeforeSendHookOutOfGas p)
         (''failed to call before send hook for denom '' @ coin_denom coin)), w1))"
proof -
  note run = call_contract_run [OF assms(5-7)]
  have "charged = Panic q \<longrightarrow> callBeforeSendListener k from_addr to_addr (free @ coin # coins) block w
      = (Err (Wrap ErrBeforeSendHookOutOfGas q), w1)"
    using assms(2-4) by (simp add: callBeforeSendListener_def call_listeners_skip [OF assms(1)] run bindA_run)
  moreover have "charged = Ok () \<and> r = Panic p \<and> \<not> Contains (ErrorText (Wrap ErrBeforeSendHookOutOfGas p)) ''no such contract''
      \<and> \<not> IsModuleAcc k from_addr \<longrightarrow> callBeforeSendListener k from_addr to_addr (free @ coin # coins) block w =
        (Err (Wrap (Wrap ErrBeforeSendHookOutOfGas p) (''failed to call before send hook for denom '' @ coin_denom coin)), w1)"
    using assms(2-4)
    by (simp add: callBeforeSendListener_def call_listeners_skip [OF assms(1)] run bindA_run no_such_contract_def)
  ultimately show ?thesis by (cases block) (simp_all add: BlockBeforeSend_def TrackBeforeSend_def)
qed

text \<open>C18. The contracts of later coins are not asked once a contract is missing: when the hook of a
  coin is an address without a contract, the listener reports success whatever coins follow, so that
  a hook that would refuse the transfer of one of them does not run.\<close>

theorem listener_stops_at_missing_contract:
  assumes "GetBeforeSendHook k (coin_denom coin) w = a" "a \<noteq> ''''"
    and "AccAddressFromBech32 (sdk k) a = Ok cw"
    and "call_contract k cw (json_sudo (sudo_msg k from_addr to_addr coin True)) w = (Ok (Some e), w1)"
    and "Contains (ErrorText e) ''no such contract''"
  shows "BlockBeforeSend k from_addr to_addr (coin # coins) w = (Ok (), w1)"
  using assms
  by (simp add: BlockBeforeSend_def callBeforeSendListener_def bindA_run no_such_contract_def)

text \<open>A contract's refusal blocks the transfer: when the contract of a coin returns any other
  error and the sender is not a module account, the listener returns that error, wrapped with the
  denomination, and the coins after it are not looked at.\<close>

theorem listener_refuses:
  assumes "GetBeforeSendHook k (coin_denom coin) w = a" "a \<noteq> ''''"
    and "AccAddressFromBech32 (sdk k) a = Ok cw"
    and "call_contract k cw (json_sudo (sudo_msg k from_addr to_addr coin True)) w = (Ok (Some e), w1)"
    and "\<not> Contains (ErrorText e) ''no such contract''" "\<not> IsModuleAcc k from_addr"
  shows "BlockBeforeSend k from_addr to_addr (coin # coins) w =
    (Err (Wrap e (''failed to call before send hook for denom '' @ coin_denom coin)), w1)"
  using assms
  by (simp add: BlockBeforeSend_def callBeforeSendListener_def bindA_run no_such_contract_def)

section \<open>Concrete instances\<close>

text \<open>gold is hooked to an address without a contract, silver to a contract that refuses.\<close>

definition silver :: "int \<Rightarrow> Coin" where
  "silver n = \<lparr>coin_denom = ''factory/lumi1abc/silver'', coin_amount = n\<rparr>"

definition hooked :: Mem where
  "hooked = write_hook memKeeper ''factory/lumi1abc/gold'' ''lumi1gone''
     (write_hook memKeeper ''factory/lumi1abc/silver'' ''lumi1reject'' mem0)"

theorem setBeforeSendHook_effect_witness:
  "GetBeforeSendHook memKeeper ''factory/lumi1abc/gold''
     (snd (setBeforeSendHook memKeeper ''factory/lumi1abc/gold'' ''lumi1accept'' mem0)) = ''lumi1accept''"
proof -
  have "is_ok (fst (setBeforeSendHook memKeeper ''factory/lumi1abc/gold'' ''lumi1accept'' mem0))"
    by code_simp
  then show ?thesis
    using setBeforeSendHook_effect [OF mem_env_ok surjective_pairing] by blast
qed

lemma hooked_gas: "mem_limit hooked = 10000000" "mem_used hooked = 0"
  by (simp_all add: hooked_def write_hook_def memCtx_def mem0_def)

lemma hooked_hooks:
  "GetBeforeSendHook memKeeper ''factory/lumi1abc/gold'' hooked = ''lumi1gone''"
  "GetBeforeSendHook memKeeper ''factory/lumi1abc/silver'' hooked = ''lumi1reject''"
proof -
  have laws: "kv_laws (ctx memKeeper)" by (rule env_okD(2) [OF mem_env_ok])
  have "store_ok memKeeper" using laws by (simp add: store_ok_def)
  moreover have "bar_free ''factory/lumi1abc/gold''" "bar_free ''factory/lumi1abc/silver''"
    by (simp_all add: bar_free_def)
  ultimately show "GetBeforeSendHook memKeeper ''factory/lumi1abc/gold'' hooked = ''lumi1gone''"
    "GetBeforeSendHook memKeeper ''factory/lumi1abc/silver'' hooked = ''lumi1reject''"
    unfolding hooked_def by (simp_all add: hook_cell.get_put)
qed

lemma mem_call:
  "call_contract memKeeper ''gone'' m hooked
     = (Ok (Some (Errorf ''no such contract'')), snd (call_contract memKeeper ''gone'' m hooked))"
  "call_contract memKeeper ''reject'' m hooked
     = (Ok (Some (Errorf ''rejected'')), snd (call_contract memKeeper ''reject'' m hooked))"
  by (simp_all add: call_contract_def memContracts_def memCtx_def mem_consume_def bindA_def ret_def throw_def
      Let_def hooked_gas)

lemma mem_bech32:
  "AccAddressFromBech32 (sdk memKeeper) ''lumi1gone'' = Ok ''gone''"
  "AccAddressFromBech32 (sdk memKeeper) ''lumi1reject'' = Ok ''reject''"
  by (simp_all add: memSdk_def HasPrefix_def alnum_def)

lemma mem_sender: "\<not> IsModuleAcc memKeeper ''x''"
  by code_simp

lemma silver_hook: "GetBeforeSendHook memKeeper (coin_denom (silver 5)) hooked = ''lumi1reject''"
  by (simp add: silver_def hooked_hooks)

text \<open>A transfer with 300000 gas left, of gold, which is hooked to a contract that uses a million.\<close>

definition starved :: Mem where
  "starved = (write_hook memKeeper ''factory/lumi1abc/gold'' ''lumi1burn'' mem0)\<lparr>mem_limit := 300000\<rparr>"

theorem listener_out_of_gas_witness:
  "fst (BlockBeforeSend memKeeper ''x'' ''y'' [gold 5, silver 5] starved) = Err (Wrap ErrBeforeSendHookOutOfGas ''out of gas'') \<and>
   mem_used (snd (BlockBeforeSend memKeeper ''x'' ''y'' [gold 5, silver 5] starved)) = 1000000"
proof -
  let ?cw = "''burn''" and ?m = "json_sudo (sudo_msg memKeeper ''x'' ''y'' (gold 5) True)"
  have "store_ok memKeeper" using env_okD(2) [OF mem_env_ok] by (simp add: store_ok_def)
  then have "GetBeforeSendHook memKeeper ''factory/lumi1abc/gold''
      (write_hook memKeeper ''factory/lumi1abc/gold'' ''lumi1burn'' mem0) = ''lumi1burn''"
    by (simp add: hook_cell.get_put bar_free_def)
  then have hook: "GetBeforeSendHook memKeeper (coin_denom (gold 5)) starved = ''lumi1burn''"
    by (simp add: starved_def gold_def GetBeforeSendHook_def memCtx_def)
  have gas: "mem_limit starved = 300000" "mem_used starved = 0"
    by (simp_all add: starved_def write_hook_def memCtx_def mem0_def)
  have bech: "AccAddressFromBech32 (sdk memKeeper) ''lumi1burn'' = Ok ?cw"
    by (simp add: memSdk_def HasPrefix_def alnum_def)
  have ck: "contractKeeper memKeeper = Some memContracts" by simp
  let ?s = "starved\<lparr>mem_limit := 300000, mem_used := 1000000\<rparr>"
  have sudo: "Sudo memContracts ?cw ?m (WithGasMeter (ctx memKeeper)
      (min (GasRemaining (ctx memKeeper) starved) BeforeSendHookGasLimit) starved) = (Panic ''out of gas'', ?s)"
    by (simp add: memContracts_def memCtx_def mem_consume_def bindA_run gas BeforeSendHookGasLimit_def min_def)
  have charge: "ConsumeGas (ctx memKeeper) (GasConsumed (ctx memKeeper) ?s) ''track before send gas''
      (WithStoreOf (ctx memKeeper) starved ?s) = (Panic ''out of gas'', starved\<lparr>mem_used := 1000000\<rparr>)"
    by (simp add: memCtx_def mem_consume_def gas Let_def)
  from listener_out_of_gas [OF _ hook _ bech ck sudo charge, where free = "[]" and coins = "[silver 5]"]
  show ?thesis by simp
qed

theorem listener_stops_at_missing_contract_witness:
  "fst (BlockBeforeSend memKeeper ''x'' ''y'' [gold 5, silver 5] hooked) = Ok () \<and>
   \<not> is_ok (fst (BlockBeforeSend memKeeper ''x'' ''y'' [silver 5] hooked))"
proof -
  have "GetBeforeSendHook memKeeper (coin_denom (gold 5)) hooked = ''lumi1gone''"
    by (simp add: gold_def hooked_hooks)
  from listener_stops_at_missing_contract [OF this _ mem_bech32(1) mem_call(1), where coins = "[silver 5]"]
  have "fst (BlockBeforeSend memKeeper ''x'' ''y'' [gold 5, silver 5] hooked) = Ok ()"
    by (simp add: HasPrefix_def)
  moreover have "\<not> is_ok (fst (BlockBeforeSend memKeeper ''x'' ''y'' [silver 5] hooked))"
    using listener_refuses [OF silver_hook _ mem_bech32(2) mem_call(2) _ mem_sender, where coins = "[]"]
    by (simp add: HasPrefix_def)
  ultimately show ?thesis by simp
qed

theorem listener_refuses_witness:
  "fst (BlockBeforeSend memKeeper ''x'' ''y'' [silver 5, gold 5] hooked) =
     Err (Wrap (Errorf ''rejected'')
       ''failed to call before send hook for denom factory/lumi1abc/silver'')"
proof -
  from listener_refuses [OF silver_hook _ mem_bech32(2) mem_call(2) _ mem_sender, where coins = "[gold 5]"]
  show ?thesis by (simp add: HasPrefix_def silver_def)
qed

end
