(* ===== verification/MsgServer.thy ===== *)
theory MsgServer
  imports BeforeSend
begin

text \<open>
  The message server of x/tokenfactory (x/tokenfactory/keeper/msg_server.go): one handler per
  message, with the events it emits (x/tokenfactory/types/events.go).

  The locale \<open>admin_gated\<close> is the contract of the six handlers that act on an existing denomination:
  nothing happens, in the whole state, unless the sender is the denomination's admin, and a call that
  fails leaves the module's store as it was. It is interpreted for each of them.
\<close>

section \<open>Events\<close>

definition AttributeAmount :: string where "AttributeAmount = ''amount''"
definition AttributeCreator :: string where "AttributeCreator = ''creator''"
definition AttributeSubdenom :: string where "AttributeSubdenom = ''subdenom''"
definition AttributeNewTokenDenom :: string where "AttributeNewTokenDenom = ''new_token_denom''"
definition AttributeMintToAddress :: string where "AttributeMintToAddress = ''mint_to_address''"
definition AttributeBurnFromAddress :: string where
  "AttributeBurnFromAddress = ''burn_from_address''"
definition AttributeTransferFromAddress :: string where
  "AttributeTransferFromAddress = ''transfer_from_address''"
definition AttributeTransferToAddress :: string where
  "AttributeTransferToAddress = ''transfer_to_address''"
definition AttributeDenom :: string where "AttributeDenom = ''denom''"
definition AttributeNewAdmin :: string where "AttributeNewAdmin = ''new_admin''"
definition AttributeDenomMetadata :: string where "AttributeDenomMetadata = ''denom_metadata''"
definition AttributeBeforeSendHookAddress :: string where
  "AttributeBeforeSendHookAddress = ''before_send_hook_address''"

definition emit :: "'w Keeper \<Rightarrow> string \<Rightarrow> (string \<times> string) list \<Rightarrow> ('w, unit) act" where
  "emit k t attrs = modify (EmitEvent (ctx k) (t, attrs))"

section \<open>Handlers\<close>

definition server_CreateDenom ::
    "'w Keeper \<Rightarrow> MsgCreateDenom \<Rightarrow> ('w, MsgCreateDenomResponse) act" where
  "server_CreateDenom k msg =
     bindA (CreateDenom k (cd_Sender msg) (cd_Subdenom msg)) (\<lambda>denom.
     bindA (emit k TypeMsgCreateDenom
              [(AttributeCreator, cd_Sender msg), (AttributeNewTokenDenom, denom)]) (\<lambda>_.
     ret \<lparr>cd_NewTokenDenom = denom\<rparr>))"

definition server_Mint :: "'w Keeper \<Rightarrow> MsgMint \<Rightarrow> ('w, MsgMintResponse) act" where
  "server_Mint k msg =
     bindA (gets (\<lambda>w. GetDenomMetaData (bankKeeper k) w (coin_denom (mt_Amount msg)) \<noteq> None))
       (\<lambda>denomExists.
     if \<not> denomExists then
       throw (Wrap ErrDenomDoesNotExist (''denom: '' @ coin_denom (mt_Amount msg)))
     else
     bindA (query (GetAuthorityMetadata k (coin_denom (mt_Amount msg)))) (\<lambda>authorityMetadata.
     if mt_Sender msg \<noteq> Admin authorityMetadata then throw ErrUnauthorized
     else let mintToAddress = (if mt_MintToAddress msg = '''' then mt_Sender msg
                               else mt_MintToAddress msg) in
       bindA (mintTo k (mt_Amount msg) mintToAddress) (\<lambda>_.
       emit k TypeMsgMint [(AttributeMintToAddress, mintToAddress),
         (AttributeAmount, CoinString (sdk k) (mt_Amount msg))])))"

text \<open>
  \<open>sdk.AccAddress(msg.BurnFromAddress)\<close> is a conversion: the account looked up is the one whose
  address is the bytes of the text, not the address the text encodes.
\<close>

definition server_Burn :: "'w Keeper \<Rightarrow> MsgBurn \<Rightarrow> ('w, MsgBurnResponse) act" where
  "server_Burn k msg =
     bindA (query (GetAuthorityMetadata k (coin_denom (bn_Amount msg)))) (\<lambda>authorityMetadata.
     if bn_Sender msg \<noteq> Admin authorityMetadata then throw ErrUnauthorized
     else let burnFromAddress = (if bn_BurnFromAddress msg = '''' then bn_Sender msg
                                 else bn_BurnFromAddress msg) in
       bindA (gets (\<lambda>w. GetAccount (accountKeeper k) w burnFromAddress)) (\<lambda>accountI.
       case accountI of
         Some (ModuleAccount _) \<Rightarrow> throw ErrBurnFromModuleAccount
       | _ \<Rightarrow>
           bindA (burnFrom k (bn_Amount msg) burnFromAddress) (\<lambda>_.
           emit k TypeMsgBurn [(AttributeBurnFromAddress, burnFromAddress),
             (AttributeAmount, CoinString (sdk k) (bn_Amount msg))])))"

definition server_ForceTransfer ::
    "'w Keeper \<Rightarrow> MsgForceTransfer \<Rightarrow> ('w, MsgForceTransferResponse) act" where
  "server_ForceTransfer k msg =
     bindA (query (GetAuthorityMetadata k (coin_denom (ft_Amount msg)))) (\<lambda>authorityMetadata.
     if ft_Sender msg \<noteq> Admin authorityMetadata then throw ErrUnauthorized
     else
       bindA (forceTransfer k (ft_Amount msg) (ft_TransferFromAddress msg)
                (ft_TransferToAddress msg)) (\<lambda>_.
       emit k TypeMsgForceTransfer
         [(AttributeTransferFromAddress, ft_TransferFromAddress msg),
          (AttributeTransferToAddress, ft_TransferToAddress msg),
          (AttributeAmount, CoinString (sdk k) (ft_Amount msg))]))"

definition server_ChangeAdmin ::
    "'w Keeper \<Rightarrow> MsgChangeAdmin \<Rightarrow> ('w, MsgChangeAdminResponse) act" where
  "server_ChangeAdmin k msg =
     bindA (query (GetAuthorityMetadata k (ca_Denom msg))) (\<lambda>authorityMetadata.
     if ca_Sender msg \<noteq> Admin authorityMetadata then throw ErrUnauthorized
     else
       bindA (setAdmin k (ca_Denom msg) (ca_NewAdmin msg)) (\<lambda>_.
       emit k TypeMsgChangeAdmin
         [(AttributeDenom, ca_Denom msg), (AttributeNewAdmin, ca_NewAdmin msg)]))"

definition server_SetDenomMetadata ::
    "'w Keeper \<Rightarrow> MsgSetDenomMetadata \<Rightarrow> ('w, MsgSetDenomMetadataResponse) act" where
  "server_SetDenomMetadata k msg =
     bindA (lift (check (MetadataValidate (sdk k) (sm_Metadata msg)))) (\<lambda>_.
     bindA (query (GetAuthorityMetadata k (md_base (sm_Metadata msg)))) (\<lambda>authorityMetadata.
     if sm_Sender msg \<noteq> Admin authorityMetadata then throw ErrUnauthorized
     else
       bindA (modify (SetDenomMetaData (bankKeeper k) (sm_Metadata msg))) (\<lambda>_.
       emit k TypeMsgSetDenomMetadata
         [(AttributeDenom, md_base (sm_Metadata msg)),
          (AttributeDenomMetadata, MetadataString (sdk k) (sm_Metadata msg))])))"

definition server_SetBeforeSendHook ::
    "'w Keeper \<Rightarrow> MsgSetBeforeSendHook \<Rightarrow> ('w, MsgSetBeforeSendHookResponse) act" where
  "server_SetBeforeSendHook k msg =
     bindA (query (GetAuthorityMetadata k (sh_Denom msg))) (\<lambda>authorityMetadata.
     if sh_Sender msg \<noteq> Admin authorityMetadata then throw ErrUnauthorized
     else
       bindA (setBeforeSendHook k (sh_Denom msg) (sh_CosmwasmAddress msg)) (\<lambda>_.
       emit k TypeMsgSetBeforeSendHook
         [(AttributeDenom, sh_Denom msg),
          (AttributeBeforeSendHookAddress, sh_CosmwasmAddress msg)]))"

section \<open>The gate\<close>

lemma emit_frames [simp]:
  "env_ok k \<Longrightarrow> preserves (kv (ctx k)) (emit k t as)"
  "always_ok (emit k t as)"
  by (simp_all add: emit_def env_preserves)

locale admin_gated =
  fixes denom :: "'m \<Rightarrow> string" and sender :: "'m \<Rightarrow> string"
    and run :: "'w Keeper \<Rightarrow> 'm \<Rightarrow> ('w, 'r) act"
  assumes gate: "run k m w = (Ok r, w') \<Longrightarrow> GetAuthorityMetadata k (denom m) w = Ok \<lparr>Admin = sender m\<rparr>"
    and stopped: "GetAuthorityMetadata k (denom m) w \<noteq> Ok \<lparr>Admin = sender m\<rparr> \<Longrightarrow> snd (run k m w) = w"
    and failed: "env_ok k \<Longrightarrow> unless_ok (kv (ctx k)) (run k m)"
begin

lemma not_admin:
  assumes "GetAuthorityMetadata k (denom m) w = Ok a" "Admin a \<noteq> sender m"
  shows "\<exists>r. run k m w = (r, w) \<and> \<not> is_ok r"
proof -
  obtain r w' where run: "run k m w = (r, w')" by (cases "run k m w")
  have ne: "GetAuthorityMetadata k (denom m) w \<noteq> Ok \<lparr>Admin = sender m\<rparr>" using assms by auto
  then have "w' = w" using stopped run by fastforce
  moreover have "\<not> is_ok r" using gate ne run by (cases r) auto
  ultimately show ?thesis using run by blast
qed

lemma failed_unchanged:
  assumes "env_ok k" "run k m w = (r, w')" "\<not> is_ok r"
  shows "kv (ctx k) w' = kv (ctx k) w"
  using unless_okD [OF failed [OF assms(1)] assms(2,3)] .

end

lemma DenomAuthorityMetadata_eq: "a = \<lparr>Admin = s\<rparr> \<longleftrightarrow> Admin a = s"
  by (cases a) simp

lemma setAdmin_unless_ok: "unless_ok obs (setAdmin k d a)"
  unfolding setAdmin_def by (intro unless_ok_bindA preserves_basic setAuthorityMetadata_unless_ok)

lemmas handler_defs = server_Mint_def server_Burn_def server_ForceTransfer_def
  server_ChangeAdmin_def server_SetDenomMetadata_def server_SetBeforeSendHook_def

text \<open>The handlers that only talk to the bank do not touch the module's store at all.\<close>

lemma bank_handlers_preserve:
  assumes "env_ok k"
  shows "preserves (kv (ctx k)) (server_Mint k m1)" "preserves (kv (ctx k)) (server_Burn k m2)"
    "preserves (kv (ctx k)) (server_ForceTransfer k m3)"
    "preserves (kv (ctx k)) (server_SetDenomMetadata k m4)"
  unfolding handler_defs Let_def using assms
  by (auto split: option.split AccountI.split simp del: bindA_simps bindA_query
      intro!: preserves_bindA mintTo_preserves burnFrom_preserves forceTransfer_preserves
        emit_frames env_preserves)

lemmas bank_handlers_unless_ok = bank_handlers_preserve [THEN preserves_unless_ok]

lemma cell_handlers_unless_ok:
  assumes "env_ok k"
  shows "unless_ok (kv (ctx k)) (server_ChangeAdmin k m1)"
    "unless_ok (kv (ctx k)) (server_SetBeforeSendHook k m2)"
    "unless_ok (kv (ctx k)) (server_CreateDenom k m3)"
  unfolding handler_defs server_CreateDenom_def using assms
  by (intro unless_ok_bindA [where m = "query _"] unless_ok_if unless_ok_bindA_ok setAdmin_unless_ok
      setBeforeSendHook_unless_ok CreateDenom_unless_ok preserves_basic unless_ok_basic emit_frames
      always_ok_bindA always_ok_intros; assumption)+

lemma gate_facts:
  "server_Mint k m1 w = (Ok r, w') \<Longrightarrow>
     GetAuthorityMetadata k (coin_denom (mt_Amount m1)) w = Ok \<lparr>Admin = mt_Sender m1\<rparr>"
  "server_Burn k m2 w = (Ok r, w') \<Longrightarrow>
     GetAuthorityMetadata k (coin_denom (bn_Amount m2)) w = Ok \<lparr>Admin = bn_Sender m2\<rparr>"
  "server_ForceTransfer k m3 w = (Ok r, w') \<Longrightarrow>
     GetAuthorityMetadata k (coin_denom (ft_Amount m3)) w = Ok \<lparr>Admin = ft_Sender m3\<rparr>"
  "server_ChangeAdmin k m4 w = (Ok r, w') \<Longrightarrow>
     GetAuthorityMetadata k (ca_Denom m4) w = Ok \<lparr>Admin = ca_Sender m4\<rparr>"
  "server_SetDenomMetadata k m5 w = (Ok r, w') \<Longrightarrow>
     GetAuthorityMetadata k (md_base (sm_Metadata m5)) w = Ok \<lparr>Admin = sm_Sender m5\<rparr>"
  "server_SetBeforeSendHook k m6 w = (Ok r, w') \<Longrightarrow>
     GetAuthorityMetadata k (sh_Denom m6) w = Ok \<lparr>Admin = sh_Sender m6\<rparr>"
  by (auto simp: handler_defs bindA_Ok_iff DenomAuthorityMetadata_eq split: if_splits)

lemma gate_query:
  "GetAuthorityMetadata k d w \<noteq> Ok \<lparr>Admin = s\<rparr> \<Longrightarrow>
     snd (bindA (query (GetAuthorityMetadata k d))
       (\<lambda>a. if s \<noteq> Admin a then throw ErrUnauthorized else f a) w) = w"
  by (cases "GetAuthorityMetadata k d w") (auto simp: DenomAuthorityMetadata_eq)

lemma gate_stops:
  "GetAuthorityMetadata k (coin_denom (mt_Amount m1)) w \<noteq> Ok \<lparr>Admin = mt_Sender m1\<rparr> \<Longrightarrow>
     snd (server_Mint k m1 w) = w"
  "GetAuthorityMetadata k (coin_denom (bn_Amount m2)) w \<noteq> Ok \<lparr>Admin = bn_Sender m2\<rparr> \<Longrightarrow>
     snd (server_Burn k m2 w) = w"
  "GetAuthorityMetadata k (coin_denom (ft_Amount m3)) w \<noteq> Ok \<lparr>Admin = ft_Sender m3\<rparr> \<Longrightarrow>
     snd (server_ForceTransfer k m3 w) = w"
  "GetAuthorityMetadata k (ca_Denom m4) w \<noteq> Ok \<lparr>Admin = ca_Sender m4\<rparr> \<Longrightarrow>
     snd (server_ChangeAdmin k m4 w) = w"
  "GetAuthorityMetadata k (md_base (sm_Metadata m5)) w \<noteq> Ok \<lparr>Admin = sm_Sender m5\<rparr> \<Longrightarrow>
     snd (server_SetDenomMetadata k m5 w) = w"
  "GetAuthorityMetadata k (sh_Denom m6) w \<noteq> Ok \<lparr>Admin = sh_Sender m6\<rparr> \<Longrightarrow>
     snd (server_SetBeforeSendHook k m6 w) = w"
  unfolding handler_defs
  by (auto intro: gate_query simp del: bindA_query simp: if_run)
    (cases "MetadataValidate (sdk k) (sm_Metadata m5)"; auto intro: gate_query simp del: bindA_query)

interpretation mint_gate: admin_gated "\<lambda>m. coin_denom (mt_Amount m)" mt_Sender server_Mint
  by unfold_locales (fact gate_facts gate_stops bank_handlers_unless_ok)+

interpretation burn_gate: admin_gated "\<lambda>m. coin_denom (bn_Amount m)" bn_Sender server_Burn
  by unfold_locales (fact gate_facts gate_stops bank_handlers_unless_ok)+

interpretation force_gate: admin_gated "\<lambda>m. coin_denom (ft_Amount m)" ft_Sender server_ForceTransfer
  by unfold_locales (fact gate_facts gate_stops bank_handlers_unless_ok)+

interpretation admin_gate: admin_gated ca_Denom ca_Sender server_ChangeAdmin
  by unfold_locales (fact gate_facts gate_stops cell_handlers_unless_ok)+

interpretation metadata_gate: admin_gated "\<lambda>m. md_base (sm_Metadata m)" sm_Sender server_SetDenomMetadata
  by unfold_locales (fact gate_facts gate_stops bank_handlers_unless_ok)+

interpretation hook_gate: admin_gated sh_Denom sh_Sender server_SetBeforeSendHook
  by unfold_locales (fact gate_facts gate_stops cell_handlers_unless_ok)+

end
