(* ===== verification/Registry.thy ===== *)
theory Registry
  imports MsgServer
begin

text \<open>
  The abstract specification of the token factory and the proof that the message server implements
  it.

  A \<open>Registry\<close> is what the module keeps, without its encoding: the admin and the hook of every
  denomination and the creator index. \<open>reg_step S a R R'\<close> are the changes the signer \<open>a\<close> of a message
  may make: create a denomination of its own that did not exist, hand one it administers over, hook
  one it administers, or nothing. \<open>registry\<close> reads the registry from the store. \<open>deliver\<close> is what the
  SDK's message router does with a message: \<open>ValidateBasic\<close>, then the handler.

  Every delivery that succeeds is such a step, every one that fails leaves the registry as it is, and
  the invariant \<open>reg_inv\<close> (a denomination with an admin is \<open>factory/{creator}/...\<close> and listed under its
  creator, and only such denominations are listed or hooked) holds in every reachable registry.
\<close>

section \<open>Messages\<close>

datatype Msg =
    MCreateDenom MsgCreateDenom | MMint MsgMint | MBurn MsgBurn | MForceTransfer MsgForceTransfer
  | MChangeAdmin MsgChangeAdmin | MSetDenomMetadata MsgSetDenomMetadata
  | MSetBeforeSendHook MsgSetBeforeSendHook

fun msg_sender :: "Msg \<Rightarrow> string" where
  "msg_sender (MCreateDenom m) = cd_Sender m"
| "msg_sender (MMint m) = mt_Sender m"
| "msg_sender (MBurn m) = bn_Sender m"
| "msg_sender (MForceTransfer m) = ft_Sender m"
| "msg_sender (MChangeAdmin m) = ca_Sender m"
| "msg_sender (MSetDenomMetadata m) = sm_Sender m"
| "msg_sender (MSetBeforeSendHook m) = sh_Sender m"

fun msg_ValidateBasic :: "Sdk \<Rightarrow> Msg \<Rightarrow> unit res" where
  "msg_ValidateBasic S (MCreateDenom m) = MsgCreateDenom_ValidateBasic S m"
| "msg_ValidateBasic S (MMint m) = MsgMint_ValidateBasic S m"
| "msg_ValidateBasic S (MBurn m) = MsgBurn_ValidateBasic S m"
| "msg_ValidateBasic S (MForceTransfer m) = MsgForceTransfer_ValidateBasic S m"
| "msg_ValidateBasic S (MChangeAdmin m) = MsgChangeAdmin_ValidateBasic S m"
| "msg_ValidateBasic S (MSetDenomMetadata m) = MsgSetDenomMetadata_ValidateBasic S m"
| "msg_ValidateBasic S (MSetBeforeSendHook m) = MsgSetBeforeSendHook_ValidateBasic S m"

fun handle :: "'w Keeper \<Rightarrow> Msg \<Rightarrow> ('w, unit) act" where
  "handle k (MCreateDenom m) = bindA (server_CreateDenom k m) (\<lambda>_. ret ())"
| "handle k (MMint m) = server_Mint k m"
| "handle k (MBurn m) = server_Burn k m"
| "handle k (MForceTransfer m) = server_ForceTransfer k m"
| "handle k (MChangeAdmin m) = server_ChangeAdmin k m"
| "handle k (MSetDenomMetadata m) = server_SetDenomMetadata k m"
| "handle k (MSetBeforeSendHook m) = server_SetBeforeSendHook k m"

definition deliver :: "'w Keeper \<Rightarrow> Msg \<Rightarrow> ('w, unit) act" where
  "deliver k m = bindA (lift (msg_ValidateBasic (sdk k) m)) (\<lambda>_. handle k m)"

lemma sender_checked: "msg_ValidateBasic S m = Ok () \<Longrightarrow> \<exists>a. AccAddressFromBech32 S (msg_sender m) = Ok a"
  by (cases m) (auto dest: create_msg.one_signer mint_msg.one_signer burn_msg.one_signer
      force_msg.one_signer admin_msg.one_signer metadata_msg.one_signer hook_msg.one_signer)

section \<open>The abstract registry\<close>

record Registry =
  reg_admin :: "string \<Rightarrow> string option"
  reg_hook :: "string \<Rightarrow> string"
  reg_index :: "string \<Rightarrow> string \<Rightarrow> bool"

inductive reg_step :: "Sdk \<Rightarrow> string \<Rightarrow> Registry \<Rightarrow> Registry \<Rightarrow> bool" for S a where
  reg_idle: "reg_step S a R R"
| reg_create: "GetTokenDenom S a s = Ok d \<Longrightarrow> is_ok (AccAddressFromBech32 S a) \<Longrightarrow> reg_admin R d = None \<Longrightarrow>
    reg_step S a R (R\<lparr>reg_admin := (reg_admin R)(d \<mapsto> a),
      reg_index := (reg_index R)(a := (reg_index R a)(d := True))\<rparr>)"
| reg_hand_over: "reg_admin R d = Some a \<Longrightarrow> is_ok (AccAddressFromBech32 S b) \<Longrightarrow>
    reg_step S a R (R\<lparr>reg_admin := (reg_admin R)(d \<mapsto> b)\<rparr>)"
| reg_hook: "reg_admin R d = Some a \<Longrightarrow> h = '''' \<or> is_ok (AccAddressFromBech32 S h) \<Longrightarrow>
    reg_step S a R (R\<lparr>reg_hook := (reg_hook R)(d := h)\<rparr>)"

inductive_cases reg_stepE: "reg_step S a R R'"

inductive reg_reachable :: "Sdk \<Rightarrow> Registry \<Rightarrow> Registry \<Rightarrow> bool" for S R0 where
  reach_start: "reg_reachable S R0 R0"
| reach_step: "reg_reachable S R0 R \<Longrightarrow> reg_step S a R R' \<Longrightarrow> reg_reachable S R0 R'"

definition reg_empty :: Registry where
  "reg_empty = \<lparr>reg_admin = Map.empty, reg_hook = (\<lambda>_. ''''), reg_index = (\<lambda>_ _. False)\<rparr>"

definition listed :: "Sdk \<Rightarrow> Registry \<Rightarrow> string \<Rightarrow> bool" where
  "listed S R d \<longleftrightarrow> (\<exists>c s. d = denom_of c s \<and> CHR ''/'' \<notin> set c \<and>
     is_ok (AccAddressFromBech32 S c) \<and> reg_index R c d)"

lemma listed_mono: "listed S R d \<Longrightarrow> (\<And>c. reg_index R c d \<Longrightarrow> reg_index R' c d) \<Longrightarrow> listed S R' d"
  unfolding listed_def by blast

definition reg_inv :: "Sdk \<Rightarrow> Registry \<Rightarrow> bool" where
  "reg_inv S R \<longleftrightarrow>
     (\<forall>d a. reg_admin R d = Some a \<longrightarrow> listed S R d \<and> (a = '''' \<or> is_ok (AccAddressFromBech32 S a))) \<and>
     (\<forall>c d. reg_index R c d \<longrightarrow> reg_admin R d \<noteq> None) \<and>
     (\<forall>d. reg_hook R d \<noteq> '''' \<longrightarrow> reg_admin R d \<noteq> None \<and> is_ok (AccAddressFromBech32 S (reg_hook R d)))"

lemma reg_inv_empty: "reg_inv S reg_empty"
  by (simp add: reg_inv_def reg_empty_def)

lemma reg_inv_step:
  assumes "reg_step S a R R'" "reg_inv S R"
  shows "reg_inv S R'"
  using assms(1)
proof (rule reg_stepE)
  fix s d
  assume R': "R' = R\<lparr>reg_admin := (reg_admin R)(d \<mapsto> a),
      reg_index := (reg_index R)(a := (reg_index R a)(d := True))\<rparr>"
    and d: "GetTokenDenom S a s = Ok d" "is_ok (AccAddressFromBech32 S a)" "reg_admin R d = None"
  then have "listed S R' d"
    unfolding listed_def by (intro exI [of _ a] exI [of _ s]) (auto simp: GetTokenDenom_Ok)
  moreover have "listed S R' x" if "listed S R x" for x
    using that by (rule listed_mono) (auto simp: R')
  ultimately show ?thesis
    using assms(2) d(2) by (auto simp: reg_inv_def R' split: if_splits)
next
  fix d b
  assume R': "R' = R\<lparr>reg_admin := (reg_admin R)(d \<mapsto> b)\<rparr>"
    and d: "reg_admin R d = Some a" "is_ok (AccAddressFromBech32 S b)"
  have "listed S R' x" if "listed S R x" for x
    using that by (rule listed_mono) (auto simp: R')
  then show ?thesis
    using assms(2) d by (auto simp: reg_inv_def R')
next
  fix d h
  assume R': "R' = R\<lparr>reg_hook := (reg_hook R)(d := h)\<rparr>" and d: "reg_admin R d = Some a"
    "h = '''' \<or> is_ok (AccAddressFromBech32 S h)"
  have "listed S R' x" if "listed S R x" for x
    using that by (rule listed_mono) (auto simp: R')
  then show ?thesis
    using assms(2) d by (auto simp: reg_inv_def R')
qed (use assms(2) in simp)

lemma reg_inv_reachable:
  assumes "reg_reachable S R0 R" "reg_inv S R0"
  shows "reg_inv S R"
  using assms by (induction rule: reg_reachable.induct) (auto intro: reg_inv_step)

section \<open>The registry in the store\<close>

definition admin_cell :: "bytes option \<Rightarrow> string option" where
  "admin_cell bz = (case bz of None \<Rightarrow> None
     | Some b \<Rightarrow> (case metadata_of (Some b) of Ok m \<Rightarrow> Some (Admin m) | _ \<Rightarrow> None))"

definition registry :: "'w Keeper \<Rightarrow> 'w \<Rightarrow> Registry" where
  "registry k w =
     \<lparr>reg_admin = (\<lambda>d. if bar_free d then admin_cell (kv (ctx k) w (meta_key d)) else None),
      reg_hook = (\<lambda>d. if bar_free d then GetBeforeSendHook k d w else ''''),
      reg_index = (\<lambda>c d. bar_free c \<and> kv (ctx k) w (index_key c d) \<noteq> None)\<rparr>"

lemma registry_cong: "kv_laws (ctx k) \<Longrightarrow> kv (ctx k) w = kv (ctx k) w' \<Longrightarrow> registry k w = registry k w'"
  by (simp add: registry_def GetBeforeSendHook_kv cong: if_cong)

lemma admin_cell_simps [simp]:
  "admin_cell None = None"
  "DenomAuthorityMetadata_ok m \<Longrightarrow> admin_cell (Some (DenomAuthorityMetadata_enc m)) = Some (Admin m)"
  by (simp_all add: admin_cell_def)

text \<open>The writes of the keeper, as changes of the registry.\<close>

lemma registry_write_metadata:
  assumes "kv_laws (ctx k)" "bar_free d" "DenomAuthorityMetadata_ok m"
    "kv (ctx k) w' = (kv (ctx k) w)(meta_key d \<mapsto> DenomAuthorityMetadata_enc m)"
  shows "registry k w' = (registry k w)\<lparr>reg_admin := (reg_admin (registry k w))(d \<mapsto> Admin m)\<rparr>"
  using assms by (auto simp: registry_def GetBeforeSendHook_kv bar_free_def fun_eq_iff)

lemma registry_write_hook:
  assumes "kv_laws (ctx k)" "bar_free d"
    "kv (ctx k) w' = (kv (ctx k) w)(hook_key d := hook_value h)"
  shows "registry k w' = (registry k w)\<lparr>reg_hook := (reg_hook (registry k w))(d := h)\<rparr>"
  using assms by (auto simp: registry_def GetBeforeSendHook_kv bar_free_def fun_eq_iff hook_value_def)

lemma registry_create:
  assumes "kv_laws (ctx k)" "bar_free d" "bar_free a" "DenomAuthorityMetadata_ok \<lparr>Admin = a\<rparr>"
    "kv (ctx k) w' = (kv (ctx k) w)(meta_key d \<mapsto> DenomAuthorityMetadata_enc \<lparr>Admin = a\<rparr>,
       index_key a d \<mapsto> d)"
  shows "registry k w' = (registry k w)\<lparr>reg_admin := (reg_admin (registry k w))(d \<mapsto> a),
    reg_index := (reg_index (registry k w))(a := (reg_index (registry k w) a)(d := True))\<rparr>"
proof -
  have "index_key c x = index_key a d \<longleftrightarrow> c = a \<and> x = d" if "bar_free c" for c x
    using index_key_inj that assms(3) unfolding bar_free_def by blast
  with assms show ?thesis
    by (auto simp: registry_def GetBeforeSendHook_kv bar_free_def fun_eq_iff)
qed

text \<open>A nonempty admin that the store gives for a denomination is the registry's.\<close>

lemma registry_admin:
  assumes "kv_laws (ctx k)" "GetAuthorityMetadata k d w = Ok \<lparr>Admin = a\<rparr>" "a \<noteq> ''''" "bar_free d"
  shows "reg_admin (registry k w) d = Some a"
  using assms
  by (cases "kv (ctx k) w (meta_key d)")
    (simp_all add: GetAuthorityMetadata_kv registry_def admin_cell_def DenomAuthorityMetadata_zero_def)

text \<open>The bank knows every denomination that has an admin.\<close>

definition bank_knows :: "'w Keeper \<Rightarrow> 'w \<Rightarrow> bool" where
  "bank_knows k w \<longleftrightarrow> (\<forall>d. reg_admin (registry k w) d \<noteq> None \<longrightarrow> GetDenomMetaData (bankKeeper k) w d \<noteq> None)"


section \<open>Refinement\<close>

lemma setAdmin_Ok:
  assumes "env_ok k" "setAdmin k d b w = (Ok u, w')"
  shows "kv (ctx k) w' = (kv (ctx k) w)(meta_key d \<mapsto> DenomAuthorityMetadata_enc \<lparr>Admin = b\<rparr>)"
    and "DenomAuthorityMetadata_ok \<lparr>Admin = b\<rparr>"
proof -
  note laws = env_okD [OF assms(1)]
  from assms(2) obtain m where "setAuthorityMetadata k d (m\<lparr>Admin := b\<rparr>) w = (Ok u, w')"
    by (auto simp: setAdmin_def bindA_lift_Ok_iff)
  moreover have "m\<lparr>Admin := b\<rparr> = \<lparr>Admin = b\<rparr>" by (cases m) simp
  ultimately have run: "setAuthorityMetadata k d \<lparr>Admin = b\<rparr> w = (Ok u, w')" by simp
  then show "kv (ctx k) w' = (kv (ctx k) w)(meta_key d \<mapsto> DenomAuthorityMetadata_enc \<lparr>Admin = b\<rparr>)"
    and "DenomAuthorityMetadata_ok \<lparr>Admin = b\<rparr>"
    using authority_ok [OF laws(1)] kv_write_metadata [OF laws(2)]
    by (auto simp: setAuthorityMetadata_run [OF laws(1)] split: res.splits)
qed

lemma emit_kv: "env_ok k \<Longrightarrow> emit k t as w = (r, w') \<Longrightarrow> kv (ctx k) w' = kv (ctx k) w"
  by (rule preservesD [OF emit_frames(1)])

lemma bar_free_deconstruct: "env_ok k \<Longrightarrow> DeconstructDenom (sdk k) d = Ok p \<Longrightarrow> bar_free d"
  using DeconstructDenom_bar_free [OF env_okD(1), of k d] by (simp add: bar_free_def)

lemma sender_not_empty:
  "env_ok k \<Longrightarrow> AccAddressFromBech32 (sdk k) s = Ok a \<Longrightarrow> s \<noteq> ''''"
  using sdk_bech32(1) [OF env_okD(1)] by blast

lemma change_admin_run:
  assumes env: "env_ok k" and vb: "MsgChangeAdmin_ValidateBasic (sdk k) m = Ok ()"
    and run: "server_ChangeAdmin k m w = (Ok u, w')"
  shows "reg_admin (registry k w) (ca_Denom m) = Some (ca_Sender m)"
    and "is_ok (AccAddressFromBech32 (sdk k) (ca_NewAdmin m))"
    and "registry k w' = (registry k w)\<lparr>reg_admin :=
      (reg_admin (registry k w))(ca_Denom m \<mapsto> ca_NewAdmin m)\<rparr>"
proof -
  note kvl = env_okD(2) [OF env]
  from vb obtain a b p where v: "AccAddressFromBech32 (sdk k) (ca_Sender m) = Ok a"
    "AccAddressFromBech32 (sdk k) (ca_NewAdmin m) = Ok b" "DeconstructDenom (sdk k) (ca_Denom m) = Ok p"
    by (auto simp: MsgChangeAdmin_ValidateBasic_def)
  note bar = bar_free_deconstruct [OF env v(3)]
  show "is_ok (AccAddressFromBech32 (sdk k) (ca_NewAdmin m))" by (simp add: v(2))
  show "reg_admin (registry k w) (ca_Denom m) = Some (ca_Sender m)"
    by (rule registry_admin [OF kvl admin_gate.gate [OF run] sender_not_empty [OF env v(1)] bar])
  from run obtain w1 where s: "setAdmin k (ca_Denom m) (ca_NewAdmin m) w = (Ok (), w1)"
    and "emit k TypeMsgChangeAdmin [(AttributeDenom, ca_Denom m), (AttributeNewAdmin, ca_NewAdmin m)] w1
      = (Ok u, w')"
    by (auto simp: server_ChangeAdmin_def bindA_Ok_iff split: if_splits)
  then have "kv (ctx k) w' = kv (ctx k) w1" using emit_kv [OF env] by metis
  then show "registry k w' = (registry k w)\<lparr>reg_admin :=
      (reg_admin (registry k w))(ca_Denom m \<mapsto> ca_NewAdmin m)\<rparr>"
    using registry_write_metadata [OF kvl bar setAdmin_Ok(2) [OF env s]] setAdmin_Ok(1) [OF env s] by simp
qed

lemma set_hook_run:
  assumes env: "env_ok k" and vb: "MsgSetBeforeSendHook_ValidateBasic (sdk k) m = Ok ()"
    and run: "server_SetBeforeSendHook k m w = (Ok u, w')"
  shows "reg_admin (registry k w) (sh_Denom m) = Some (sh_Sender m)"
    and "sh_CosmwasmAddress m = '''' \<or> is_ok (AccAddressFromBech32 (sdk k) (sh_CosmwasmAddress m))"
    and "registry k w' = (registry k w)\<lparr>reg_hook :=
      (reg_hook (registry k w))(sh_Denom m := sh_CosmwasmAddress m)\<rparr>"
proof -
  note kvl = env_okD(2) [OF env]
  from vb obtain a p where v: "AccAddressFromBech32 (sdk k) (sh_Sender m) = Ok a"
    "DeconstructDenom (sdk k) (sh_Denom m) = Ok p"
    by (auto simp: MsgSetBeforeSendHook_ValidateBasic_def)
  note bar = bar_free_deconstruct [OF env v(2)]
  show "reg_admin (registry k w) (sh_Denom m) = Some (sh_Sender m)"
    by (rule registry_admin [OF kvl hook_gate.gate [OF run] sender_not_empty [OF env v(1)] bar])
  from run obtain w1 where s: "setBeforeSendHook k (sh_Denom m) (sh_CosmwasmAddress m) w = (Ok (), w1)"
    and "emit k TypeMsgSetBeforeSendHook [(AttributeDenom, sh_Denom m),
      (AttributeBeforeSendHookAddress, sh_CosmwasmAddress m)] w1 = (Ok u, w')"
    by (auto simp: server_SetBeforeSendHook_def bindA_Ok_iff split: if_splits)
  then have "kv (ctx k) w' = kv (ctx k) w1" using emit_kv [OF env] by metis
  then show "registry k w' = (registry k w)\<lparr>reg_hook :=
      (reg_hook (registry k w))(sh_Denom m := sh_CosmwasmAddress m)\<rparr>"
    using registry_write_hook [OF kvl bar] setBeforeSendHook_Ok(1) [OF env s] by simp
  show "sh_CosmwasmAddress m = '''' \<or> is_ok (AccAddressFromBech32 (sdk k) (sh_CosmwasmAddress m))"
    using setBeforeSendHook_Ok(3) [OF env s] by blast
qed

lemma create_step:
  assumes env: "env_ok k" and known: "bank_knows k w"
    and vb: "MsgCreateDenom_ValidateBasic (sdk k) m = Ok ()"
    and run: "server_CreateDenom k m w = (Ok r, w')"
  shows "reg_step (sdk k) (cd_Sender m) (registry k w) (registry k w')"
proof -
  note kvl = env_okD(2) [OF env]
  from vb have s: "is_ok (AccAddressFromBech32 (sdk k) (cd_Sender m))"
    by (auto simp: MsgCreateDenom_ValidateBasic_def)
  from run obtain d w1 where c: "CreateDenom k (cd_Sender m) (cd_Subdenom m) w = (Ok d, w1)"
    and "emit k TypeMsgCreateDenom [(AttributeCreator, cd_Sender m), (AttributeNewTokenDenom, d)] w1
      = (Ok (), w')"
    by (auto simp: server_CreateDenom_def bindA_Ok_iff)
  then have kv': "kv (ctx k) w' = kv (ctx k) w1" using emit_kv [OF env] by metis
  obtain w2 where t: "GetTokenDenom (sdk k) (cd_Sender m) (cd_Subdenom m) = Ok d"
    "GetDenomMetaData (bankKeeper k) w d = None"
    and a: "createDenomAfterValidation k (cd_Sender m) d w2 = (Ok (), w1)"
    using CreateDenom_OkD [OF env c] by blast
  have ok: "DenomAuthorityMetadata_ok \<lparr>Admin = cd_Sender m\<rparr>"
    using authority_ok [OF env_okD(1) [OF env] createDenomAfterValidation_Ok(1) [OF env a]] .
  note bars = CreateDenom_bar_free [OF env c, folded bar_free_def]
  have fresh: "reg_admin (registry k w) d = None"
    using known t(2) by (auto simp: bank_knows_def)
  show ?thesis
    using registry_create [OF kvl bars ok] CreateDenom_kv [OF env c] kv'
      reg_create [of "sdk k" "cd_Sender m", OF t(1) s fresh] by simp
qed


section \<open>The bank's metadata\<close>

definition bank_grows :: "'w Keeper \<Rightarrow> ('w, 'a) act \<Rightarrow> bool" where
  "bank_grows k m \<longleftrightarrow> (\<forall>w v w' d. m w = (Ok v, w') \<longrightarrow> GetDenomMetaData (bankKeeper k) w d \<noteq> None \<longrightarrow>
     GetDenomMetaData (bankKeeper k) w' d \<noteq> None)"

lemma bank_grows_bindA:
  assumes "bank_grows k m" "\<And>v. bank_grows k (f v)"
  shows "bank_grows k (bindA m f)"
  using assms unfolding bank_grows_def by (metis bindA_OkE)

lemma bank_grows_preserves: "preserves (GetDenomMetaData (bankKeeper k)) m \<Longrightarrow> bank_grows k m"
  unfolding bank_grows_def by (metis preservesD)

lemma bank_grows_if: "bank_grows k m \<Longrightarrow> bank_grows k n \<Longrightarrow> bank_grows k (if b then m else n)"
  by simp

lemma env_metadata:
  assumes "env_ok k"
  shows "preserves (GetDenomMetaData (bankKeeper k)) (emit k t as)"
    "preserves (GetDenomMetaData (bankKeeper k)) (setAuthorityMetadata k d m)"
    "preserves (GetDenomMetaData (bankKeeper k)) (setAdmin k d a)"
    "preserves (GetDenomMetaData (bankKeeper k)) (GetModuleAccount (accountKeeper k) n)"
    "preserves (GetDenomMetaData (bankKeeper k)) (FundCommunityPool (communityPoolKeeper k) cs b)"
    "preserves (GetDenomMetaData (bankKeeper k)) (ConsumeGas (ctx k) g t)"
    "preserves (GetDenomMetaData (bankKeeper k)) (addDenomFromCreator k c d)"
    "preserves (GetDenomMetaData (bankKeeper k)) (try_contract k ck x y)"
proof -
  note laws = env_okD(4) [OF assms]
  show "preserves (GetDenomMetaData (bankKeeper k)) (emit k t as)"
    "preserves (GetDenomMetaData (bankKeeper k)) (addDenomFromCreator k c d)"
    by (simp_all add: emit_def addDenomFromCreator_def preserves_modify bank_metadata [OF laws])
  show sam: "preserves (GetDenomMetaData (bankKeeper k)) (setAuthorityMetadata k d m)" for d m
    unfolding setAuthorityMetadata_def
    by (intro preserves_bindA preserves_basic preserves_modify bank_metadata [OF laws])
  show "preserves (GetDenomMetaData (bankKeeper k)) (setAdmin k d a)"
    unfolding setAdmin_def by (intro preserves_bindA preserves_basic sam)
  show "preserves (GetDenomMetaData (bankKeeper k)) (GetModuleAccount (accountKeeper k) n)"
    "preserves (GetDenomMetaData (bankKeeper k)) (FundCommunityPool (communityPoolKeeper k) cs b)"
    using env_okD(6) [OF assms] by (simp_all add: other_store_laws_def)
  show "preserves (GetDenomMetaData (bankKeeper k)) (ConsumeGas (ctx k) g t)"
    by (rule bank_metadata [OF laws])
  show "preserves (GetDenomMetaData (bankKeeper k)) (try_contract k ck x y)"
    by (auto simp: preserves_def try_contract_def bank_metadata [OF laws] split: prod.split res.split)
qed

lemma bank_actions_metadata:
  assumes "env_ok k"
  shows "preserves (GetDenomMetaData (bankKeeper k)) (mintTo k c a)"
    "preserves (GetDenomMetaData (bankKeeper k)) (burnFrom k c a)"
    "preserves (GetDenomMetaData (bankKeeper k)) (forceTransfer k c a b)"
    "preserves (GetDenomMetaData (bankKeeper k)) (setBeforeSendHook k d h)"
proof -
  note laws = env_okD(4) [OF assms]
  have loop: "preserves (GetDenomMetaData (bankKeeper k)) (check_module_accounts k x y ns)" for x y ns
  proof (induction ns)
    case (Cons n ns)
    then show ?case
      by (auto intro!: preserves_bindA env_metadata(4) [OF assms] split: option.split)
  qed (simp only: check_module_accounts.simps preserves_basic)
  show "preserves (GetDenomMetaData (bankKeeper k)) (mintTo k c a)"
    "preserves (GetDenomMetaData (bankKeeper k)) (burnFrom k c a)"
    "preserves (GetDenomMetaData (bankKeeper k)) (forceTransfer k c a b)"
    unfolding mintTo_def burnFrom_def forceTransfer_def Let_def
    by (intro preserves_bindA preserves_basic preserves_if loop bank_metadata [OF laws])+
  show "preserves (GetDenomMetaData (bankKeeper k)) (setBeforeSendHook k d h)"
    unfolding setBeforeSendHook_def
    by (auto split: option.split simp: bank_metadata [OF laws]
        intro!: preserves_bindA preserves_modify env_metadata [OF assms])
qed

lemma createDenom_grows:
  assumes "env_ok k"
  shows "bank_grows k (CreateDenom k a s)"
proof -
  have "bank_grows k (createDenomAfterValidation k a d)" for d
    unfolding bank_grows_def using createDenomAfterValidation_Ok(3) [OF assms] by auto
  moreover have "preserves (GetDenomMetaData (bankKeeper k)) (chargeForCreateDenom k a)"
    unfolding chargeForCreateDenom_def
    by (auto split: option.splits intro!: preserves_bindA env_metadata [OF assms])
  ultimately show ?thesis
    unfolding CreateDenom_def
    by (intro bank_grows_bindA) (auto intro: bank_grows_preserves)
qed

lemma deliver_grows:
  assumes "env_ok k"
  shows "bank_grows k (deliver k m)"
proof -
  note meta = bank_actions_metadata [OF assms] env_metadata [OF assms]
  have "bank_grows k (server_CreateDenom k c)" for c
    unfolding server_CreateDenom_def
    by (intro bank_grows_bindA createDenom_grows [OF assms])
      (auto intro: bank_grows_preserves meta)
  moreover have set: "bank_grows k (modify (SetDenomMetaData (bankKeeper k) md))" for md
    by (auto simp: bank_grows_def bank_metadata [OF env_okD(4) [OF assms]])
  moreover have "preserves (GetDenomMetaData (bankKeeper k)) (server_Mint k m1)"
    "preserves (GetDenomMetaData (bankKeeper k)) (server_Burn k m2)"
    "preserves (GetDenomMetaData (bankKeeper k)) (server_ForceTransfer k m3)"
    "preserves (GetDenomMetaData (bankKeeper k)) (server_ChangeAdmin k m4)"
    "preserves (GetDenomMetaData (bankKeeper k)) (server_SetBeforeSendHook k m5)" for m1 m2 m3 m4 m5
    by (auto simp: handler_defs Let_def simp del: bindA_simps bindA_query
        split: option.split AccountI.split intro!: preserves_bindA meta)
  moreover have "bank_grows k (server_SetDenomMetadata k m6)" for m6
    unfolding handler_defs
    by (intro bank_grows_bindA bank_grows_if)
      (auto intro: bank_grows_preserves meta set)
  ultimately have "bank_grows k (handle k m)"
    by (cases m) (auto intro: bank_grows_preserves bank_grows_bindA)
  then show ?thesis
    unfolding deliver_def by (intro bank_grows_bindA) (auto intro: bank_grows_preserves)
qed


section \<open>Deliveries\<close>

lemma deliver_OkE:
  assumes "deliver k m w = (Ok u, w')"
  obtains "msg_ValidateBasic (sdk k) m = Ok ()" "handle k m w = (Ok (), w')"
  using assms by (auto simp: deliver_def bindA_lift_Ok_iff)

lemma deliver_unless_ok:
  assumes "env_ok k"
  shows "unless_ok (kv (ctx k)) (deliver k m)"
proof -
  note handlers = cell_handlers_unless_ok [OF assms] bank_handlers_unless_ok [OF assms]
  have "unless_ok (kv (ctx k)) (handle k m)"
    by (cases m) (simp_all add: handlers unless_ok_bindA_ok)
  then show ?thesis
    unfolding deliver_def by (intro unless_ok_bindA preserves_basic)
qed

lemma quiet_registry:
  assumes "env_ok k" "handle k m w = (Ok (), w')" "preserves (kv (ctx k)) (handle k m)"
  shows "registry k w' = registry k w"
  using registry_cong [OF env_okD(2) [OF assms(1)] preservesD [OF assms(3,2)]] .

text \<open>Every successful delivery but a creation keeps the set of denominations with an admin.\<close>

lemma deliver_no_new:
  assumes env: "env_ok k" and run: "deliver k m w = (Ok u, w')" and nc: "\<And>c. m \<noteq> MCreateDenom c"
  shows "reg_step (sdk k) (msg_sender m) (registry k w) (registry k w')"
    and "reg_admin (registry k w') d = None \<longleftrightarrow> reg_admin (registry k w) d = None"
proof -
  from run have vb: "msg_ValidateBasic (sdk k) m = Ok ()" and h: "handle k m w = (Ok (), w')"
    by (auto elim: deliver_OkE)
  note quiet = quiet_registry [OF env h] and bank = bank_handlers_preserve [OF env]
  have "reg_step (sdk k) (msg_sender m) (registry k w) (registry k w')
      \<and> (reg_admin (registry k w') d = None \<longleftrightarrow> reg_admin (registry k w) d = None)"
  proof (cases m)
    case (MChangeAdmin c)
    then have "MsgChangeAdmin_ValidateBasic (sdk k) c = Ok ()" "server_ChangeAdmin k c w = (Ok (), w')"
      using vb h by simp_all
    note r = change_admin_run [OF env this]
    show ?thesis
      using reg_hand_over [of "registry k w", OF r(1,2)] r by (simp add: MChangeAdmin)
  next
    case (MSetBeforeSendHook c)
    then have "MsgSetBeforeSendHook_ValidateBasic (sdk k) c = Ok ()"
      "server_SetBeforeSendHook k c w = (Ok (), w')"
      using vb h by simp_all
    note r = set_hook_run [OF env this]
    show ?thesis
      using reg_step.reg_hook [of "registry k w", OF r(1,2)] r by (simp add: MSetBeforeSendHook)
  qed (use nc quiet bank in \<open>simp_all add: reg_idle\<close>)
  then show "reg_step (sdk k) (msg_sender m) (registry k w) (registry k w')"
    and "reg_admin (registry k w') d = None \<longleftrightarrow> reg_admin (registry k w) d = None" by blast+
qed

lemma deliver_step:
  assumes env: "env_ok k" and known: "bank_knows k w" and run: "deliver k m w = (Ok u, w')"
  shows "reg_step (sdk k) (msg_sender m) (registry k w) (registry k w')"
proof (cases "\<exists>c. m = MCreateDenom c")
  case True
  then obtain c where m: "m = MCreateDenom c" ..
  from run have "msg_ValidateBasic (sdk k) m = Ok ()" "handle k m w = (Ok (), w')"
    by (auto elim: deliver_OkE)
  then obtain r where "MsgCreateDenom_ValidateBasic (sdk k) c = Ok ()" "server_CreateDenom k c w = (Ok r, w')"
    by (auto simp: m bindA_Ok_iff)
  from create_step [OF env known this] show ?thesis by (simp add: m)
qed (use deliver_no_new(1) [OF env run] in blast)

lemma create_known:
  assumes env: "env_ok k" and run: "deliver k (MCreateDenom c) w = (Ok u, w')"
    and "reg_admin (registry k w) d = None" "reg_admin (registry k w') d \<noteq> None"
  shows "GetDenomMetaData (bankKeeper k) w' d \<noteq> None"
proof -
  note kvl = env_okD(2) [OF env]
  from run obtain d0 w1 where c: "CreateDenom k (cd_Sender c) (cd_Subdenom c) w = (Ok d0, w1)"
    and e: "emit k TypeMsgCreateDenom [(AttributeCreator, cd_Sender c), (AttributeNewTokenDenom, d0)] w1
      = (Ok (), w')"
    by (auto simp: server_CreateDenom_def bindA_Ok_iff elim!: deliver_OkE)
  obtain w2 where a: "createDenomAfterValidation k (cd_Sender c) d0 w2 = (Ok (), w1)"
    using CreateDenom_OkD [OF env c] by blast
  have "GetDenomMetaData (bankKeeper k) w' = GetDenomMetaData (bankKeeper k) w1"
    using preservesD [OF env_metadata(1) [OF env] e] .
  moreover have "d = d0"
    using assms(3,4) CreateDenom_kv [OF env c] emit_kv [OF env e] CreateDenom_bar_free [OF env c]
    by (auto simp: registry_def bar_free_def split: if_splits)
  ultimately show ?thesis
    using createDenomAfterValidation_Ok(3) [OF env a] by simp
qed

lemma deliver_known:
  assumes env: "env_ok k" and known: "bank_knows k w" and run: "deliver k m w = (Ok u, w')"
  shows "bank_knows k w'"
  unfolding bank_knows_def
proof (intro allI impI)
  fix d
  assume now: "reg_admin (registry k w') d \<noteq> None"
  show "GetDenomMetaData (bankKeeper k) w' d \<noteq> None"
  proof (cases "reg_admin (registry k w) d = None")
    case False
    with known have "GetDenomMetaData (bankKeeper k) w d \<noteq> None" by (simp add: bank_knows_def)
    with deliver_grows [OF env, of m] run show ?thesis unfolding bank_grows_def by blast
  next
    case True
    then have "\<exists>c. m = MCreateDenom c" using deliver_no_new(2) [OF env run, of d] now by blast
    then obtain c where m: "m = MCreateDenom c" ..
    show ?thesis using create_known [OF env run [unfolded m] True now] .
  qed
qed

section \<open>Chains of deliveries\<close>

text \<open>A failed message is rolled back by the SDK, so that the chain goes on from its start.\<close>

inductive delivered :: "'w Keeper \<Rightarrow> 'w \<Rightarrow> 'w \<Rightarrow> bool" for k w0 where
  delivered_start: "delivered k w0 w0"
| delivered_msg: "delivered k w0 w \<Longrightarrow> deliver k m w = (Ok (), w') \<Longrightarrow> delivered k w0 w'"

lemma delivered_reachable:
  assumes "delivered k w0 w" "env_ok k" "bank_knows k w0"
  shows "reg_reachable (sdk k) (registry k w0) (registry k w) \<and> bank_knows k w"
  using assms(1)
proof (induction rule: delivered.induct)
  case delivered_start
  then show ?case using assms(3) by (simp add: reach_start)
next
  case (delivered_msg w m w')
  then show ?case
    using deliver_step [OF assms(2) _ delivered_msg(2)] deliver_known [OF assms(2) _ delivered_msg(2)]
    by (blast intro: reach_step)
qed

lemma supply_frames:
  assumes "supply_ok k supply"
  shows "when_ok supply (emit k t as)" "when_ok supply (setAuthorityMetadata k d md)"
    "when_ok supply (setAdmin k d a)" "when_ok supply (setBeforeSendHook k d a)"
    "when_ok supply (chargeForCreateDenom k a)" "when_ok supply (createDenomAfterValidation k a d)"
proof -
  note laws = supply_law [OF assms [unfolded supply_ok_def]]
  show "when_ok supply (emit k t as)"
    unfolding emit_def by (intro when_ok_modify laws)
  show sam: "when_ok supply (setAuthorityMetadata k d md)" for d md
    unfolding setAuthorityMetadata_def by (intro when_ok_bindA when_ok_basic when_ok_modify laws)
  show "when_ok supply (setAdmin k d a)"
    unfolding setAdmin_def by (intro when_ok_bindA when_ok_basic sam)
  have tr: "when_ok supply (try_contract k ck x y)" for ck x y
    by (auto simp: when_ok_def try_contract_def laws split: prod.splits res.splits)
  show "when_ok supply (setBeforeSendHook k d a)"
    unfolding setBeforeSendHook_def
    by (auto split: option.split simp: laws intro!: when_ok_bindA when_ok_modify tr)
  show "when_ok supply (chargeForCreateDenom k a)"
    unfolding chargeForCreateDenom_def
    by (auto split: option.split intro!: when_ok_bindA laws)
  show "when_ok supply (createDenomAfterValidation k a d)"
    unfolding createDenomAfterValidation_def addDenomFromCreator_def
    by (auto simp: laws intro!: when_ok_bindA when_ok_modify sam)
qed

lemma quiet_supply:
  assumes "supply_ok k supply"
  shows "when_ok supply (server_CreateDenom k m0)" "when_ok supply (server_ForceTransfer k m1)"
    "when_ok supply (server_ChangeAdmin k m2)" "when_ok supply (server_SetDenomMetadata k m3)"
    "when_ok supply (server_SetBeforeSendHook k m4)"
  unfolding handler_defs server_CreateDenom_def CreateDenom_def
  by (auto simp: supply_law(10) [OF assms [unfolded supply_ok_def]] simp del: bindA_query bindA_simps
      intro!: when_ok_bindA when_ok_modify supply_frames [OF assms] forceTransfer_when_ok [OF assms])

lemma deliver_supply:
  assumes s: "supply_ok k supply" and run: "deliver k m w = (Ok u, w')"
  shows "supply w' = (case m of
      MMint x \<Rightarrow> (supply w)(coin_denom (mt_Amount x) :=
        supply w (coin_denom (mt_Amount x)) + coin_amount (mt_Amount x))
    | MBurn x \<Rightarrow> (supply w)(coin_denom (bn_Amount x) :=
        supply w (coin_denom (bn_Amount x)) - coin_amount (bn_Amount x))
    | _ \<Rightarrow> supply w)"
proof -
  note quiet = when_okD [OF quiet_supply(1) [OF s]] when_okD [OF quiet_supply(2) [OF s]]
    when_okD [OF quiet_supply(3) [OF s]] when_okD [OF quiet_supply(4) [OF s]]
    when_okD [OF quiet_supply(5) [OF s]]
  note emit = when_okD [OF supply_frames(1) [OF s]]
  have h: "handle k m w = (Ok (), w')" using run by (auto elim: deliver_OkE)
  show ?thesis
  proof (cases m)
    case (MMint x)
    with h obtain a w1 t as where "mintTo k (mt_Amount x) a w = (Ok (), w1)" "emit k t as w1 = (Ok (), w')"
      by (auto simp: server_Mint_def bindA_Ok_iff Let_def split: if_splits)
    with MMint show ?thesis using mintTo_supply [OF s] emit by simp
  next
    case (MBurn x)
    with h obtain a w1 t as where "burnFrom k (bn_Amount x) a w = (Ok (), w1)" "emit k t as w1 = (Ok (), w')"
      by (auto simp: server_Burn_def bindA_Ok_iff Let_def split: if_splits option.splits AccountI.splits)
    with MBurn show ?thesis using burnFrom_supply [OF s] emit by simp
  next
    case (MCreateDenom x)
    with h show ?thesis using quiet(1) by (auto simp: bindA_Ok_iff)
  qed (use h quiet in \<open>auto simp del: bindA_simps\<close>)
qed


section \<open>Properties\<close>

text \<open>C1. The message server implements the abstract registry: a delivery that succeeds is one of the
  changes its signer may make (create an own denomination that did not exist, hand over or hook one
  it administers, or none), and a delivery that fails leaves the registry as it was.\<close>

theorem deliver_refines_registry:
  assumes "env_ok k" "bank_knows k w" "deliver k m w = (r, w')"
  shows "if is_ok r then reg_step (sdk k) (msg_sender m) (registry k w) (registry k w') \<and> bank_knows k w'
    else registry k w' = registry k w"
proof (cases "is_ok r")
  case True
  then have run: "deliver k m w = (Ok (), w')" using assms(3) by (cases r) simp_all
  show ?thesis
    using deliver_step [OF assms(1,2) run] deliver_known [OF assms(1,2) run] True by simp
next
  case False
  from registry_cong [OF env_okD(2) [OF assms(1)] unless_okD [OF deliver_unless_ok [OF assms(1)] assms(3) this]]
  show ?thesis using False by simp
qed

text \<open>C2. In every state that messages can lead to from a chain without denominations, a denomination
  that has an admin is \<open>factory/{creator}/{subdenom}\<close> for a creator that decodes, is listed under that
  creator and known to the bank, and its admin is empty or decodes; nothing else is listed, and
  nothing else has a hook.\<close>

theorem reachable_registry_invariant:
  assumes "env_ok k" "delivered k w0 w" "registry k w0 = reg_empty"
  shows "reg_inv (sdk k) (registry k w) \<and> bank_knows k w"
proof -
  have "bank_knows k w0" by (simp add: bank_knows_def assms(3) reg_empty_def)
  from delivered_reachable [OF assms(2,1) this] show ?thesis
    using reg_inv_reachable reg_inv_empty assms(3) by metis
qed

text \<open>C4. Only the admin: while a denomination has an admin, no message of anybody else changes who
  administers it or its hook.\<close>

theorem only_admin_changes_registry:
  assumes "env_ok k" "bank_knows k w" "deliver k m w = (Ok u, w')"
    and "reg_admin (registry k w) d = Some a" "msg_sender m \<noteq> a"
  shows "reg_admin (registry k w') d = Some a \<and> reg_hook (registry k w') d = reg_hook (registry k w) d"
  using deliver_step [OF assms(1-3)] assms(4,5) by (auto elim!: reg_stepE)

text \<open>C3. The supply of a denomination changes only by a mint or a burn of that denomination, by its
  admin, and by exactly the amount of the message.\<close>

theorem supply_changes_only_by_admin:
  assumes "supply_ok k supply" "deliver k m w = (Ok u, w')" "supply w' d \<noteq> supply w d"
  shows "GetAuthorityMetadata k d w = Ok \<lparr>Admin = msg_sender m\<rparr>
    \<and> ((\<exists>x. m = MMint x \<and> coin_denom (mt_Amount x) = d
          \<and> supply w' d = supply w d + coin_amount (mt_Amount x))
       \<or> (\<exists>x. m = MBurn x \<and> coin_denom (bn_Amount x) = d
          \<and> supply w' d = supply w d - coin_amount (bn_Amount x)))"
proof -
  have h: "handle k m w = (Ok (), w')" using assms(2) by (auto elim: deliver_OkE)
  show ?thesis
    using deliver_supply [OF assms(1,2)] assms(3) h
    by (cases m) (auto split: if_splits dest: mint_gate.gate burn_gate.gate)
qed

text \<open>The denomination a message acts on, which exists already.\<close>

fun acts_on :: "Msg \<Rightarrow> string option" where
  "acts_on (MCreateDenom m) = None"
| "acts_on (MMint m) = Some (coin_denom (mt_Amount m))"
| "acts_on (MBurn m) = Some (coin_denom (bn_Amount m))"
| "acts_on (MForceTransfer m) = Some (coin_denom (ft_Amount m))"
| "acts_on (MChangeAdmin m) = Some (ca_Denom m)"
| "acts_on (MSetDenomMetadata m) = Some (md_base (sm_Metadata m))"
| "acts_on (MSetBeforeSendHook m) = Some (sh_Denom m)"

text \<open>C5. A message on an existing denomination whose sender is not its admin does nothing at all: it
  is refused and the whole state, the bank's included, is what it was.\<close>

theorem not_admin_refused:
  assumes "acts_on m = Some d" "GetAuthorityMetadata k d w = Ok a" "Admin a \<noteq> msg_sender m"
  shows "\<exists>r. handle k m w = (r, w) \<and> \<not> is_ok r"
  using assms
  by (cases m) (auto dest: mint_gate.not_admin burn_gate.not_admin force_gate.not_admin
      admin_gate.not_admin metadata_gate.not_admin hook_gate.not_admin)

text \<open>C27. The burn handler does not find the module account it guards: the account it looks up is the
  one at the bytes of the address's text, so that the coins of a module account that is not in the
  keeper's permission map are burned.\<close>

theorem burn_guard_misses_module_account:
  assumes "GetAuthorityMetadata k (coin_denom (bn_Amount m)) w = Ok \<lparr>Admin = bn_Sender m\<rparr>"
    and "bn_BurnFromAddress m \<noteq> ''''"
    and "AccAddressFromBech32 (sdk k) (bn_BurnFromAddress m) = Ok a"
    and "GetAccount (accountKeeper k) w a = Some (ModuleAccount a)"
    and "GetAccount (accountKeeper k) w (bn_BurnFromAddress m) = None" "\<not> IsModuleAcc k a"
    and "burnFrom k (bn_Amount m) (bn_BurnFromAddress m) w = (Ok (), w')"
  shows "is_ok (fst (server_Burn k m w))"
  using assms by (auto simp: server_Burn_def bindA_run emit_def Let_def)

section \<open>Concrete instances\<close>

lemma mem0_registry: "registry memKeeper mem0 = reg_empty"
proof -
  have "kv (ctx memKeeper) mem0 = Map.empty" by (rule ext) (simp add: mem0_def memCtx_def kv_def)
  moreover have "kv_laws (ctx memKeeper)" by (simp add: mem_kv_laws)
  ultimately show ?thesis
    by (simp add: registry_def reg_empty_def GetBeforeSendHook_kv cong: if_cong)
qed

definition mint_gold :: "string \<Rightarrow> Msg" where
  "mint_gold s = MMint (NewMsgMint s (gold 7))"

definition create_gold :: Msg where
  "create_gold = MCreateDenom (NewMsgCreateDenom ''lumi1abc'' ''gold'')"

definition mem2 :: Mem where
  "mem2 = snd (deliver memKeeper create_gold mem0)"

lemma mem2_delivered: "deliver memKeeper create_gold mem0 = (Ok (), mem2)"
proof -
  have "msg_ValidateBasic memSdk create_gold = Ok ()" by code_simp
  then have "fst (deliver memKeeper create_gold mem0) = Ok ()"
    by (simp add: deliver_def bindA_run create_gold_def server_CreateDenom_def NewMsgCreateDenom_def
        mem1_created emit_def)
  then show ?thesis by (simp add: mem2_def prod_eq_iff)
qed

lemma mem2_known: "bank_knows memKeeper mem2"
  by (rule deliver_known [OF mem_env_ok _ mem2_delivered])
    (simp add: bank_knows_def mem0_registry reg_empty_def)

lemma mem2_kv: "kv memCtx mem2 = kv memCtx mem1"
  using mem2_delivered
  by (auto simp: deliver_def bindA_Ok_iff create_gold_def server_CreateDenom_def
      NewMsgCreateDenom_def mem1_created dest!: emit_kv [OF mem_env_ok])

lemma mem_admin:
  "GetAuthorityMetadata memKeeper ''factory/lumi1abc/gold'' mem1 = Ok \<lparr>Admin = ''lumi1abc''\<rparr>"
  "GetAuthorityMetadata memKeeper ''factory/lumi1abc/gold'' mem2 = Ok \<lparr>Admin = ''lumi1abc''\<rparr>"
proof -
  have ok: "DenomAuthorityMetadata_ok \<lparr>Admin = ''lumi1abc''\<rparr>"
    by (rule DenomAuthorityMetadata_okI) simp
  have kvl: "kv_laws (ctx memKeeper)" by (simp add: mem_kv_laws)
  have kv: "kv (ctx memKeeper) mem1 (meta_key ''factory/lumi1abc/gold'')
      = Some (DenomAuthorityMetadata_enc \<lparr>Admin = ''lumi1abc''\<rparr>)"
    using CreateDenom_kv [OF mem_env_ok mem1_created] by simp
  then show "GetAuthorityMetadata memKeeper ''factory/lumi1abc/gold'' mem1 = Ok \<lparr>Admin = ''lumi1abc''\<rparr>"
    unfolding GetAuthorityMetadata_kv [OF kvl] using ok by simp
  then show "GetAuthorityMetadata memKeeper ''factory/lumi1abc/gold'' mem2 = Ok \<lparr>Admin = ''lumi1abc''\<rparr>"
    unfolding GetAuthorityMetadata_kv [OF kvl] by (simp add: mem2_kv)
qed

definition mem3 :: Mem where
  "mem3 = snd (deliver memKeeper (mint_gold ''lumi1abc'') mem2)"

lemma mem3_delivered: "deliver memKeeper (mint_gold ''lumi1abc'') mem2 = (Ok (), mem3)"
proof -
  have "msg_ValidateBasic memSdk (mint_gold ''lumi1abc'') = Ok ()" by code_simp
  moreover have "fst (server_Mint memKeeper (NewMsgMint ''lumi1abc'' (gold 7)) mem2) = Ok ()"
  proof -
    have "fst (mintTo memKeeper (gold 7) ''lumi1abc'' mem2) = Ok ()" by code_simp
    moreover have "mem_meta mem2 ''factory/lumi1abc/gold'' \<noteq> None" by code_simp
    ultimately show ?thesis
      using mem_admin(2)
      by (auto simp: server_Mint_def NewMsgMint_def bindA_def gold_def emit_def Let_def split: prod.splits res.splits)
  qed
  ultimately have "fst (deliver memKeeper (mint_gold ''lumi1abc'') mem2) = Ok ()"
    by (simp add: deliver_def bindA_run mint_gold_def)
  then show ?thesis by (simp add: mem3_def prod_eq_iff)
qed

lemma mem_supply_ok: "supply_ok memKeeper mem_supply"
  by (simp add: supply_ok_def mem_supply_laws)

theorem deliver_refines_registry_witness:
  "reg_step memSdk ''lumi1abc'' (registry memKeeper mem0) (registry memKeeper mem2)"
proof -
  have "bank_knows memKeeper mem0" by (simp add: bank_knows_def mem0_registry reg_empty_def)
  from deliver_refines_registry [OF mem_env_ok this mem2_delivered] show ?thesis
    by (simp add: create_gold_def NewMsgCreateDenom_def)
qed

theorem reachable_registry_invariant_witness:
  "reg_inv memSdk (registry memKeeper mem3) \<and> bank_knows memKeeper mem3"
proof -
  have "delivered memKeeper mem0 mem3"
    by (rule delivered_msg [OF delivered_msg [OF delivered_start mem2_delivered] mem3_delivered])
  from reachable_registry_invariant [OF mem_env_ok this mem0_registry] show ?thesis by simp
qed

theorem only_admin_changes_registry_witness:
  "let m = MCreateDenom (NewMsgCreateDenom ''lumi1xyz'' ''iron'') in
   reg_admin (registry memKeeper (snd (deliver memKeeper m mem2))) ''factory/lumi1abc/gold'' = Some ''lumi1abc''"
proof -
  let ?m = "MCreateDenom (NewMsgCreateDenom ''lumi1xyz'' ''iron'')"
  have run: "deliver memKeeper ?m mem2 = (Ok (), snd (deliver memKeeper ?m mem2))"
  proof -
    have "fst (CreateDenom memKeeper ''lumi1xyz'' ''iron'' mem2) = Ok ''factory/lumi1xyz/iron''" by code_simp
    then obtain w where "CreateDenom memKeeper ''lumi1xyz'' ''iron'' mem2 = (Ok ''factory/lumi1xyz/iron'', w)"
      by (metis prod.collapse)
    moreover have "msg_ValidateBasic memSdk ?m = Ok ()" by code_simp
    ultimately show ?thesis
      by (simp add: deliver_def bindA_run server_CreateDenom_def NewMsgCreateDenom_def emit_def prod_eq_iff)
  qed
  have "bar_free ''factory/lumi1abc/gold''" by (simp add: bar_free_def)
  then have "reg_admin (registry memKeeper mem2) ''factory/lumi1abc/gold'' = Some ''lumi1abc''"
    by (intro registry_admin mem_admin(2)) (simp_all add: mem_kv_laws)
  from only_admin_changes_registry [OF mem_env_ok mem2_known run this] show ?thesis
    by (simp add: NewMsgCreateDenom_def)
qed

theorem supply_changes_only_by_admin_witness:
  "mem_supply mem3 ''factory/lumi1abc/gold'' = 7 \<and>
   GetAuthorityMetadata memKeeper ''factory/lumi1abc/gold'' mem2 = Ok \<lparr>Admin = ''lumi1abc''\<rparr>"
proof -
  have "mem_supply mem2 = mem_supply mem0"
    using deliver_supply [OF mem_supply_ok mem2_delivered] by (simp add: create_gold_def)
  then have s: "mem_supply mem3 ''factory/lumi1abc/gold'' = 7" "mem_supply mem2 ''factory/lumi1abc/gold'' = 0"
    using deliver_supply [OF mem_supply_ok mem3_delivered]
    by (simp_all add: mint_gold_def NewMsgMint_def gold_def mem0_def)
  then have "mem_supply mem3 ''factory/lumi1abc/gold'' \<noteq> mem_supply mem2 ''factory/lumi1abc/gold''" by simp
  from supply_changes_only_by_admin [of memKeeper mem_supply,
      OF mem_supply_ok mem3_delivered this] s show ?thesis
    by (simp add: mint_gold_def NewMsgMint_def)
qed

theorem not_admin_refused_witness:
  "\<exists>r. handle memKeeper (mint_gold ''lumi1xyz'') mem2 = (r, mem2) \<and> \<not> is_ok r"
  by (rule not_admin_refused [OF _ mem_admin(2)]) (simp_all add: mint_gold_def NewMsgMint_def gold_def)

text \<open>A module account vault that the keeper was not told about.\<close>

definition vault_state :: Mem where
  "vault_state = mem1\<lparr>mem_accounts := (mem_accounts mem1)(''vault'' \<mapsto> ModuleAccount ''vault''),
     mem_bal := (\<lambda>_ _. 100)\<rparr>"

definition burn_vault :: MsgBurn where
  "burn_vault = NewMsgBurnFrom ''lumi1abc'' (gold 5) ''lumi1vault''"

theorem burn_guard_misses_module_account_witness:
  "GetAccount memAccounts vault_state ''vault'' = Some (ModuleAccount ''vault'')
   \<and> is_ok (fst (server_Burn memKeeper burn_vault vault_state))"
proof -
  have run: "burnFrom memKeeper (bn_Amount burn_vault) (bn_BurnFromAddress burn_vault) vault_state
      = (Ok (), snd (burnFrom memKeeper (bn_Amount burn_vault) (bn_BurnFromAddress burn_vault) vault_state))"
    by (rule prod_eqI) (code_simp, simp)
  have vault: "GetAccount (accountKeeper memKeeper) vault_state ''vault'' = Some (ModuleAccount ''vault'')"
    by code_simp
  have kvl: "kv_laws (ctx memKeeper)" and kv: "kv memCtx vault_state = kv memCtx mem1"
    by (simp_all add: mem_kv_laws mem_kv_eq vault_state_def)
  have admin: "GetAuthorityMetadata memKeeper (coin_denom (bn_Amount burn_vault)) vault_state
      = Ok \<lparr>Admin = bn_Sender burn_vault\<rparr>"
    using mem_admin(1) unfolding GetAuthorityMetadata_kv [OF kvl]
    by (simp add: kv burn_vault_def NewMsgBurnFrom_def gold_def)
  have "is_ok (fst (server_Burn memKeeper burn_vault vault_state))"
    by (rule burn_guard_misses_module_account [OF admin _ _ vault _ _ run]; code_simp)
  with vault show ?thesis by simp
qed

end
