(* ===== verification/TokenGenesis.thy ===== *)
theory TokenGenesis
  imports Registry
begin

text \<open>
  The genesis state of x/tokenfactory: \<open>DefaultGenesis\<close> and \<open>Validate\<close> (types/genesis.go),
  \<open>InitGenesis\<close> and \<open>ExportGenesis\<close> of the keeper (keeper/genesis.go) and of the module (module.go).

  \<open>Validate\<close> is shown to accept exactly the states with valid parameters, distinct denominations that
  come apart and admins that decode. A state it accepts can be imported, and what is exported after
  the import is what was imported, in the order of the store.
\<close>

section \<open>The state\<close>

definition DefaultGenesis :: "Sdk \<Rightarrow> GenesisState res" where
  "DefaultGenesis S = bindR (DefaultParams S) (\<lambda>p. Ok \<lparr>gs_Params = p, gs_FactoryDenoms = []\<rparr>)"

fun validate_denoms :: "Sdk \<Rightarrow> string set \<Rightarrow> GenesisDenom list \<Rightarrow> unit res" where
  "validate_denoms S seenDenoms [] = Ok ()"
| "validate_denoms S seenDenoms (denom # denoms) =
     (if gd_Denom denom \<in> seenDenoms then
        Err (Wrap ErrInvalidGenesis (''duplicate denom: '' @ gd_Denom denom))
      else bindR (DeconstructDenom S (gd_Denom denom)) (\<lambda>_.
        let admin = Admin (gd_AuthorityMetadata denom) in
        bindR (if admin \<noteq> ''''
               then check_address S ErrInvalidAuthorityMetadata ''Invalid admin address'' admin
               else Ok ()) (\<lambda>_.
        validate_denoms S (insert (gd_Denom denom) seenDenoms) denoms)))"

definition GenesisState_Validate :: "Sdk \<Rightarrow> GenesisState \<Rightarrow> unit res" where
  "GenesisState_Validate S gs =
     bindR (check (Params_Validate S (gs_Params gs))) (\<lambda>_.
     validate_denoms S {} (gs_FactoryDenoms gs))"

section \<open>Import and export\<close>

fun init_denoms :: "'w Keeper \<Rightarrow> GenesisDenom list \<Rightarrow> ('w, unit) act" where
  "init_denoms k [] = ret ()"
| "init_denoms k (genDenom # denoms) =
     bindA (must '''' (lift (DeconstructDenom (sdk k) (gd_Denom genDenom)))) (\<lambda>(creator, _).
     bindA (must '''' (createDenomAfterValidation k creator (gd_Denom genDenom))) (\<lambda>_.
     bindA (must '''' (setAuthorityMetadata k (gd_Denom genDenom) (gd_AuthorityMetadata genDenom))) (\<lambda>_.
     init_denoms k denoms)))"

definition InitGenesis :: "'w Keeper \<Rightarrow> GenesisState \<Rightarrow> ('w, unit) act" where
  "InitGenesis k genState =
     bindA (CreateModuleAccount k) (\<lambda>_.
     bindA (lift (if DenomCreationFee (gs_Params genState) = None
                  then bindR (NewCoins (sdk k) []) (\<lambda>cs. Ok ((gs_Params genState)\<lparr>DenomCreationFee := Some cs\<rparr>))
                  else Ok (gs_Params genState))) (\<lambda>params.
     bindA (SetParams k params) (\<lambda>_.
     init_denoms k (gs_FactoryDenoms genState))))"

fun export_denoms :: "'w Keeper \<Rightarrow> 'w \<Rightarrow> (bytes \<times> bytes) list \<Rightarrow> GenesisDenom list res" where
  "export_denoms k w [] = Ok []"
| "export_denoms k w ((_, denom) # entries) =
     bindR (or_panic '''' (GetAuthorityMetadata k denom w)) (\<lambda>authorityMetadata.
     bindR (export_denoms k w entries) (\<lambda>genDenoms.
     Ok (\<lparr>gd_Denom = denom, gd_AuthorityMetadata = authorityMetadata\<rparr> # genDenoms)))"

definition ExportGenesis :: "'w Keeper \<Rightarrow> 'w \<Rightarrow> GenesisState res" where
  "ExportGenesis k w =
     bindR (export_denoms k w (GetAllDenomsIterator k w)) (\<lambda>genDenoms.
     bindR (GetParams k w) (\<lambda>params.
     Ok \<lparr>gs_Params = params, gs_FactoryDenoms = genDenoms\<rparr>))"

section \<open>Module\<close>

definition Token_DefaultGenesis :: "GenesisState JSONCodec \<Rightarrow> Sdk \<Rightarrow> string res" where
  "Token_DefaultGenesis cdc S = bindR (DefaultGenesis S) (\<lambda>g. or_panic '''' (MarshalJSON cdc g))"

definition Token_ValidateGenesis :: "GenesisState JSONCodec \<Rightarrow> Sdk \<Rightarrow> string \<Rightarrow> unit res" where
  "Token_ValidateGenesis cdc S bz =
     bindR (mapErr (\<lambda>e. Wrap e (''failed to unmarshal '' @ ModuleName @ '' genesis state''))
              (UnmarshalJSON cdc bz)) (GenesisState_Validate S)"

definition Token_InitGenesis :: "GenesisState JSONCodec \<Rightarrow> 'w Keeper \<Rightarrow> string \<Rightarrow> ('w, unit) act" where
  "Token_InitGenesis cdc k gs =
     bindA (must '''' (lift (UnmarshalJSON cdc gs))) (InitGenesis k)"

definition Token_ExportGenesis :: "GenesisState JSONCodec \<Rightarrow> 'w Keeper \<Rightarrow> 'w \<Rightarrow> string res" where
  "Token_ExportGenesis cdc k w = bindR (ExportGenesis k w) (\<lambda>g. or_panic '''' (MarshalJSON cdc g))"

section \<open>What Validate accepts\<close>

definition denom_ok :: "Sdk \<Rightarrow> GenesisDenom \<Rightarrow> bool" where
  "denom_ok S g \<longleftrightarrow> is_ok (DeconstructDenom S (gd_Denom g))
     \<and> is_ok (DenomAuthorityMetadata_Validate S (gd_AuthorityMetadata g))"

lemma DenomAuthorityMetadata_Validate_ok:
  "is_ok (DenomAuthorityMetadata_Validate S m) \<longleftrightarrow>
     Admin m = '''' \<or> is_ok (AccAddressFromBech32 S (Admin m))"
  by (cases "AccAddressFromBech32 S (Admin m)") (auto simp: DenomAuthorityMetadata_Validate_def)

lemma validate_denoms_iff:
  "validate_denoms S seen gs = Ok () \<longleftrightarrow>
     distinct (map gd_Denom gs) \<and> seen \<inter> gd_Denom ` set gs = {} \<and> (\<forall>g \<in> set gs. denom_ok S g)"
proof (induction gs arbitrary: seen)
  case (Cons g gs)
  have "validate_denoms S seen (g # gs) = Ok () \<longleftrightarrow>
      gd_Denom g \<notin> seen \<and> denom_ok S g \<and> validate_denoms S (insert (gd_Denom g) seen) gs = Ok ()"
    by (cases "DeconstructDenom S (gd_Denom g)"; cases "AccAddressFromBech32 S (Admin (gd_AuthorityMetadata g))")
      (auto simp: denom_ok_def DenomAuthorityMetadata_Validate_ok check_address_def Let_def)
  then show ?case unfolding Cons.IH by auto
qed simp

lemma GenesisState_Validate_iff:
  "GenesisState_Validate S gs = Ok () \<longleftrightarrow> Params_Validate S (gs_Params gs) = None
     \<and> distinct (map gd_Denom (gs_FactoryDenoms gs)) \<and> (\<forall>g \<in> set (gs_FactoryDenoms gs). denom_ok S g)"
  by (simp add: GenesisState_Validate_def validate_denoms_iff)

section \<open>The import in the store\<close>

definition creator_of :: "Sdk \<Rightarrow> string \<Rightarrow> string" where
  "creator_of S d = (case DeconstructDenom S d of Ok (c, _) \<Rightarrow> c | _ \<Rightarrow> '''')"

definition store_denom :: "Sdk \<Rightarrow> GenesisDenom \<Rightarrow> (bytes \<rightharpoonup> bytes) \<Rightarrow> bytes \<rightharpoonup> bytes" where
  "store_denom S g f = f(meta_key (gd_Denom g) \<mapsto> DenomAuthorityMetadata_enc (gd_AuthorityMetadata g),
     index_key (creator_of S (gd_Denom g)) (gd_Denom g) \<mapsto> gd_Denom g)"

definition gd_ok :: "Sdk \<Rightarrow> GenesisDenom \<Rightarrow> bool" where
  "gd_ok S g \<longleftrightarrow> bar_free (gd_Denom g) \<and> bar_free (creator_of S (gd_Denom g))
     \<and> DenomAuthorityMetadata_ok (gd_AuthorityMetadata g)"

lemma DeconstructDenom_creator:
  assumes "sdk_laws S" "DeconstructDenom S d = Ok (c, s)"
  shows "creator_of S d = c" "is_ok (AccAddressFromBech32 S c)" "bar_free c" "bar_free d"
proof -
  from assms(2) obtain creator a where a: "AccAddressFromBech32 S creator = Ok a" "c = AccAddressString S a"
    by (rule DeconstructDenom_OkE)
  then have c: "AccAddressFromBech32 S c = Ok a" using sdk_bech32(4) [OF assms(1)] by blast
  then show "is_ok (AccAddressFromBech32 S c)" by simp
  have "list_all alnum c" using assms(1) c by (auto simp: sdk_laws_def)
  then show "bar_free c" by (auto simp: bar_free_def list_all_iff alnum_def)
  show "creator_of S d = c" using assms(2) by (simp add: creator_of_def)
  show "bar_free d"
    using DeconstructDenom_bar_free [OF assms(1), of d] assms(2) by (simp add: bar_free_def)
qed

lemma denom_ok_gd_ok:
  assumes "sdk_laws S" "denom_ok S g"
  shows "gd_ok S g"
proof -
  from assms(2) obtain c s u where d: "DeconstructDenom S (gd_Denom g) = Ok (c, s)"
    and m: "DenomAuthorityMetadata_Validate S (gd_AuthorityMetadata g) = Ok u"
    unfolding denom_ok_def by (metis is_ok.elims(2) surj_pair)
  from DeconstructDenom_creator [OF assms(1) d] authority_ok [OF assms(1) m] show ?thesis
    by (simp add: gd_ok_def)
qed

text \<open>A denomination that is accepted is imported without an error.\<close>

lemma create_again_Ok:
  assumes "sdk_laws (sdk k)" "is_ok (AccAddressFromBech32 (sdk k) c)"
  shows "\<exists>w'. createDenomAfterValidation k c d w = (Ok (), w')"
proof -
  have "is_ok (DenomAuthorityMetadata_Validate (sdk k) \<lparr>Admin = c\<rparr>)"
    using assms(2) by (simp add: DenomAuthorityMetadata_Validate_ok)
  then show ?thesis
    by (cases "DenomAuthorityMetadata_Validate (sdk k) \<lparr>Admin = c\<rparr>")
      (simp_all add: createDenomAfterValidation_def bindA_def addDenomFromCreator_def
        setAuthorityMetadata_run [OF assms(1)])
qed

text \<open>The parameters are in a store of their own.\<close>

definition param_frame :: "'w Keeper \<Rightarrow> bool" where
  "param_frame k \<longleftrightarrow>
     (\<forall>p key v w. SubspaceGetIfExists (paramSpace k) (StoreSet (ctx k) p key v w)
        = SubspaceGetIfExists (paramSpace k) w) \<and>
     (\<forall>m w. SubspaceGetIfExists (paramSpace k) (SetDenomMetaData (bankKeeper k) m w)
        = SubspaceGetIfExists (paramSpace k) w)"

lemma param_frame_create:
  assumes "param_frame k"
  shows "when_ok (SubspaceGetIfExists (paramSpace k)) (createDenomAfterValidation k c d)"
  using assms
  unfolding createDenomAfterValidation_def addDenomFromCreator_def setAuthorityMetadata_def param_frame_def
  by (auto intro!: when_ok_bindA when_ok_modify)

lemma init_denom_run:
  assumes env: "env_ok k" "param_frame k" and g: "denom_ok (sdk k) g"
  obtains w' where "\<And>gs. init_denoms k (g # gs) w = init_denoms k gs w'"
    "kv (ctx k) w' = store_denom (sdk k) g (kv (ctx k) w)"
    "SubspaceGetIfExists (paramSpace k) w' = SubspaceGetIfExists (paramSpace k) w"
proof -
  note laws = env_okD [OF env(1)]
  from g obtain c s u where d: "DeconstructDenom (sdk k) (gd_Denom g) = Ok (c, s)"
    and m: "DenomAuthorityMetadata_Validate (sdk k) (gd_AuthorityMetadata g) = Ok u"
    unfolding denom_ok_def by (metis is_ok.elims(2) surj_pair)
  note c = DeconstructDenom_creator [OF laws(1) d]
  obtain w1 where w1: "createDenomAfterValidation k c (gd_Denom g) w = (Ok (), w1)"
    using create_again_Ok [OF laws(1) c(2)] by blast
  let ?w' = "write_metadata k (gd_Denom g) (gd_AuthorityMetadata g) w1"
  have "init_denoms k (g # gs) w = init_denoms k gs ?w'" for gs
    using w1 m by (simp add: d bindA_def must_def setAuthorityMetadata_run [OF laws(1)])
  moreover have "kv (ctx k) ?w' = store_denom (sdk k) g (kv (ctx k) w)"
    using createDenomAfterValidation_Ok(2) [OF env(1) w1]
    by (auto simp: kv_write_metadata [OF laws(2)] store_denom_def c(1) fun_eq_iff)
  moreover have "SubspaceGetIfExists (paramSpace k) ?w' = SubspaceGetIfExists (paramSpace k) w"
    using when_okD [OF param_frame_create [OF env(2)] w1] env(2)
    by (simp add: write_metadata_def param_frame_def)
  ultimately show thesis by (rule that)
qed

lemma init_denoms_run:
  assumes env: "env_ok k" "param_frame k" and "\<forall>g \<in> set gs. denom_ok (sdk k) g"
  shows "\<exists>w'. init_denoms k gs w = (Ok (), w')
    \<and> kv (ctx k) w' = fold (store_denom (sdk k)) gs (kv (ctx k) w)
    \<and> SubspaceGetIfExists (paramSpace k) w' = SubspaceGetIfExists (paramSpace k) w"
  using assms(3)
proof (induction gs arbitrary: w)
  case (Cons g gs)
  then have "denom_ok (sdk k) g" by simp
  then obtain w1 where w1: "\<And>gs. init_denoms k (g # gs) w = init_denoms k gs w1"
    "kv (ctx k) w1 = store_denom (sdk k) g (kv (ctx k) w)"
    "SubspaceGetIfExists (paramSpace k) w1 = SubspaceGetIfExists (paramSpace k) w"
    using init_denom_run [OF env, of g w] by blast
  from Cons.IH [of w1] Cons.prems w1 show ?case by simp
qed simp

text \<open>The keys after an import of distinct denominations.\<close>

lemma fold_store_meta:
  assumes "\<forall>g \<in> set gs. gd_ok S g" "distinct (map gd_Denom gs)" "bar_free d"
  shows "fold (store_denom S) gs f (meta_key d) =
    (case map_of (map (\<lambda>g. (gd_Denom g, gd_AuthorityMetadata g)) gs) d of
       Some m \<Rightarrow> Some (DenomAuthorityMetadata_enc m) | None \<Rightarrow> f (meta_key d))"
  using assms(1,2)
proof (induction gs arbitrary: f)
  case (Cons g gs)
  have "map_of (map (\<lambda>g. (gd_Denom g, gd_AuthorityMetadata g)) gs) (gd_Denom g) = None"
    using Cons.prems(2) by (force simp: map_of_eq_None_iff)
  with Cons assms(3) show ?case
    by (auto simp: store_denom_def gd_ok_def bar_free_def split: option.splits)
qed simp

lemma fold_store_hook:
  assumes "\<forall>g \<in> set gs. gd_ok S g" "bar_free d"
  shows "fold (store_denom S) gs f (hook_key d) = f (hook_key d)"
  using assms(1)
  by (induction gs arbitrary: f) (use assms(2) in \<open>auto simp: store_denom_def gd_ok_def bar_free_def\<close>)

definition gd_index :: "Sdk \<Rightarrow> GenesisDenom \<Rightarrow> bytes" where
  "gd_index S g = index_key (creator_of S (gd_Denom g)) (gd_Denom g)"

lemma gd_index_inj: "gd_ok S g \<Longrightarrow> gd_ok S g' \<Longrightarrow> gd_index S g = gd_index S g' \<Longrightarrow> gd_Denom g = gd_Denom g'"
  unfolding gd_index_def gd_ok_def bar_free_def using index_key_inj by blast

lemma fold_store_index_key:
  assumes "\<forall>g \<in> set gs. gd_ok S g" "\<And>d. K \<noteq> meta_key d"
  shows "fold (store_denom S) gs f K = Some v \<longleftrightarrow>
    (\<exists>g \<in> set gs. K = gd_index S g \<and> v = gd_Denom g)
    \<or> (f K = Some v \<and> (\<forall>g \<in> set gs. K \<noteq> gd_index S g))"
  using assms(1)
proof (induction gs arbitrary: f)
  case (Cons g gs)
  have s: "store_denom S g f K = (if K = gd_index S g then Some (gd_Denom g) else f K)"
    using assms(2) by (simp add: store_denom_def gd_index_def)
  have same: "gd_Denom g' = gd_Denom g" if "g' \<in> set gs" "K = gd_index S g'" "K = gd_index S g" for g'
    using that Cons.prems gd_index_inj [of S g' g] by auto
  let ?here = "K = gd_index S g" and ?later = "\<exists>g \<in> set gs. K = gd_index S g \<and> v = gd_Denom g"
  have "fold (store_denom S) gs (store_denom S g f) K = Some v \<longleftrightarrow>
      ?later \<or> (store_denom S g f K = Some v \<and> (\<forall>g \<in> set gs. K \<noteq> gd_index S g))"
    using Cons.IH [of "store_denom S g f"] Cons.prems by simp
  moreover have "?later \<Longrightarrow> ?here \<Longrightarrow> v = gd_Denom g" using same by blast
  moreover have "?here \<Longrightarrow> store_denom S g f K = Some v \<longleftrightarrow> v = gd_Denom g"
    "\<not> ?here \<Longrightarrow> store_denom S g f K = f K" using s by auto
  ultimately have "fold (store_denom S) gs (store_denom S g f) K = Some v \<longleftrightarrow>
      (?here \<and> v = gd_Denom g \<or> ?later) \<or> (f K = Some v \<and> \<not> ?here \<and> (\<forall>g \<in> set gs. K \<noteq> gd_index S g))"
    using same by metis
  then show ?case by simp
qed simp

lemma fold_store_index:
  assumes "\<forall>g \<in> set gs. gd_ok S g" "\<And>key. f (GetCreatorsPrefix @ key) = None"
  shows "fold (store_denom S) gs f (GetCreatorsPrefix @ key) = Some v \<longleftrightarrow>
    (\<exists>g \<in> set gs. GetCreatorsPrefix @ key = gd_index S g \<and> v = gd_Denom g)"
  using fold_store_index_key [OF assms(1), of "GetCreatorsPrefix @ key"] assms(2) by simp

section \<open>The export of a store\<close>

lemma export_denoms_map:
  assumes "\<forall>(key, d) \<in> set es. GetAuthorityMetadata k d w = Ok (m d)"
  shows "export_denoms k w es = Ok (map (\<lambda>(_, d). \<lparr>gd_Denom = d, gd_AuthorityMetadata = m d\<rparr>) es)"
  using assms by (induction es) auto

lemma SetParams_run:
  assumes env: "env_ok k" and v: "Params_Validate (sdk k) p = None"
  obtains w' where "SetParams k p w = (Ok (), w')" "kv (ctx k) w' = kv (ctx k) w"
    "SubspaceGetIfExists (paramSpace k) w' KeyDenomCreationFee = Some (PVCoins (Some (slice (DenomCreationFee p))))"
    "SubspaceGetIfExists (paramSpace k) w' KeyDenomCreationGasConsume = Some (PVUint64 (DenomCreationGasConsume p))"
proof -
  note laws = env_okD [OF env] and nc = sdk_empty_coins [OF env_okD(1) [OF env]]
  let ?p = "p\<lparr>DenomCreationFee := Some (slice (DenomCreationFee p))\<rparr>"
  let ?ps = "ParamSetPairs (sdk k) ?p"
  have "distinct (map fst ?ps) \<and> list_all (\<lambda>(k, v, validate). validate v = None) ?ps"
    using v nc by (auto simp: ParamSetPairs_def KeyDenomCreationFee_def KeyDenomCreationGasConsume_def
        Params_Validate_def split: option.splits if_splits)
  then obtain w' where w': "SubspaceSetParamSet (paramSpace k) ?ps w = (Ok (), w')"
    and g: "\<And>key. SubspaceGetIfExists (paramSpace k) w' key =
      (case map_of (map (\<lambda>(k, v, _). (k, v)) ?ps) key of
         Some v \<Rightarrow> Some v | None \<Rightarrow> SubspaceGetIfExists (paramSpace k) w key)"
    using laws(5) unfolding param_laws_def by blast
  have "SetParams k p w = (Ok (), w')"
    using w' nc by (cases p; cases "DenomCreationFee p") (simp_all add: SetParams_def)
  moreover have "kv (ctx k) w' = kv (ctx k) w"
    using laws(5) w' unfolding param_laws_def preserves_def by (metis snd_conv)
  ultimately show thesis
    by (rule that) (simp_all add: g ParamSetPairs_def KeyDenomCreationFee_def KeyDenomCreationGasConsume_def)
qed

lemma SetParams_GetParams:
  assumes "env_ok k" "Params_Validate (sdk k) p = None"
  obtains w' where "SetParams k p w = (Ok (), w')" "kv (ctx k) w' = kv (ctx k) w"
    "GetParams k w' = Ok (p\<lparr>DenomCreationFee := Some (slice (DenomCreationFee p))\<rparr>)"
proof -
  obtain w' where w': "SetParams k p w = (Ok (), w')" "kv (ctx k) w' = kv (ctx k) w"
    "SubspaceGetIfExists (paramSpace k) w' KeyDenomCreationFee = Some (PVCoins (Some (slice (DenomCreationFee p))))"
    "SubspaceGetIfExists (paramSpace k) w' KeyDenomCreationGasConsume = Some (PVUint64 (DenomCreationGasConsume p))"
    by (rule SetParams_run [OF assms])
  then have "GetParams k w' = Ok (p\<lparr>DenomCreationFee := Some (slice (DenomCreationFee p))\<rparr>)"
    by (simp add: GetParams_def DefaultParams_def sdk_empty_coins [OF env_okD(1) [OF assms(1)]])
  with w'(1,2) show thesis by (rule that)
qed

lemma GetParams_cong:
  "SubspaceGetIfExists (paramSpace k) w = SubspaceGetIfExists (paramSpace k) w' \<Longrightarrow> GetParams k w = GetParams k w'"
  by (simp add: GetParams_def)

section \<open>The import of an accepted state\<close>

lemma InitGenesis_run:
  assumes env: "env_ok k" "param_frame k" and v: "GenesisState_Validate (sdk k) gs = Ok ()"
    and acc: "CreateModuleAccount k w = (Ok (), w0)"
  obtains w' where "InitGenesis k gs w = (Ok (), w')"
    "kv (ctx k) w' = fold (store_denom (sdk k)) (gs_FactoryDenoms gs) (kv (ctx k) w)"
    "GetParams k w' = Ok ((gs_Params gs)\<lparr>DenomCreationFee := Some (slice (DenomCreationFee (gs_Params gs)))\<rparr>)"
proof -
  let ?p = "(gs_Params gs)\<lparr>DenomCreationFee := Some (slice (DenomCreationFee (gs_Params gs)))\<rparr>"
  note nc = sdk_empty_coins [OF env_okD(1) [OF env(1)]]
  have "preserves (kv (ctx k)) (CreateModuleAccount k)"
    unfolding CreateModuleAccount_def by (intro preserves_bindA env_preserves [OF env(1)] preserves_basic)
  from preservesD [OF this acc] have kv0: "kv (ctx k) w0 = kv (ctx k) w" .
  have "Params_Validate (sdk k) ?p = None"
    using v by (simp add: GenesisState_Validate_iff Params_Validate_def split: option.splits if_splits)
  then obtain w1 where w1: "SetParams k ?p w0 = (Ok (), w1)" "kv (ctx k) w1 = kv (ctx k) w0"
    "GetParams k w1 = Ok ?p"
    using SetParams_GetParams [OF env(1), of ?p w0] by (metis (no_types, lifting) slice_simps(2)
        Params.select_convs(1) Params.surjective Params.update_convs(1))
  obtain w2 where w2: "init_denoms k (gs_FactoryDenoms gs) w1 = (Ok (), w2)"
    "kv (ctx k) w2 = fold (store_denom (sdk k)) (gs_FactoryDenoms gs) (kv (ctx k) w1)"
    "SubspaceGetIfExists (paramSpace k) w2 = SubspaceGetIfExists (paramSpace k) w1"
    using init_denoms_run [OF env, of "gs_FactoryDenoms gs" w1] v by (auto simp: GenesisState_Validate_iff)
  have "InitGenesis k gs w = (Ok (), w2)"
    using acc w1(1) w2(1) nc
    by (cases "gs_Params gs"; cases "DenomCreationFee (gs_Params gs)") (simp_all add: InitGenesis_def bindA_def)
  with w2 w1 kv0 GetParams_cong [OF w2(3)] show thesis by (intro that [of w2]) simp_all
qed

lemma creators_prefix_split: "\<exists>key. gd_index S g = GetCreatorsPrefix @ key"
  unfolding gd_index_def GetCreatorsPrefix_index [symmetric] by blast

lemma export_after_import:
  assumes kvl: "kv_laws (ctx k)" and kv: "kv (ctx k) w = fold (store_denom S) gs f"
    and f: "\<And>key. f (GetCreatorsPrefix @ key) = None"
    and gs: "\<forall>g \<in> set gs. gd_ok S g" "distinct (map gd_Denom gs)"
  obtains gs' where "export_denoms k w (GetAllDenomsIterator k w) = Ok gs'"
    "set gs' = set gs" "distinct (map gd_Denom gs')"
proof -
  let ?m = "map_of (map (\<lambda>g. (gd_Denom g, gd_AuthorityMetadata g)) gs)"
  let ?it = "GetAllDenomsIterator k w" and ?mk = "\<lambda>d. \<lparr>gd_Denom = d, gd_AuthorityMetadata = the (?m d)\<rparr>"
  have it: "(key, d) \<in> set ?it \<longleftrightarrow> (\<exists>g \<in> set gs. GetCreatorsPrefix @ key = gd_index S g \<and> d = gd_Denom g)" for key d
    using kv_iterator(3) [OF kvl] fold_store_index [OF gs(1), of f] f
    by (simp add: GetAllDenomsIterator_def kv)
  have m: "?m (gd_Denom g) = Some (gd_AuthorityMetadata g)" if "g \<in> set gs" for g
    using that gs(2) by (intro map_of_is_SomeI) (auto simp: comp_def)
  have mk: "?mk (gd_Denom g) = g" if "g \<in> set gs" for g using m [OF that] by simp
  have "GetAuthorityMetadata k (gd_Denom g) w = Ok (gd_AuthorityMetadata g)" if "g \<in> set gs" for g
    using that gs m [OF that] fold_store_meta [OF gs, of "gd_Denom g" f]
    by (auto simp: GetAuthorityMetadata_kv [OF kvl] kv gd_ok_def)
  then have "\<forall>(key, d) \<in> set ?it. GetAuthorityMetadata k d w = Ok (the (?m d))"
    using it m by force
  then have e: "export_denoms k w ?it = Ok (map ?mk (map snd ?it))"
    using export_denoms_map [of ?it k w "\<lambda>d. the (?m d)"] by (simp add: case_prod_unfold comp_def)
  have snds: "set (map snd ?it) = gd_Denom ` set gs"
  proof (intro set_eqI iffI)
    fix d assume "d \<in> set (map snd ?it)"
    then obtain key where "(key, d) \<in> set ?it" by auto
    then show "d \<in> gd_Denom ` set gs" using it by blast
  next
    fix d assume "d \<in> gd_Denom ` set gs"
    then obtain g where g: "g \<in> set gs" "d = gd_Denom g" by blast
    obtain key where "gd_index S g = GetCreatorsPrefix @ key" using creators_prefix_split by blast
    with g have "(key, d) \<in> set ?it" using it by metis
    then show "d \<in> set (map snd ?it)" by force
  qed
  have "set (map ?mk (map snd ?it)) = ?mk ` gd_Denom ` set gs" unfolding snds [symmetric] by (simp only: set_map)
  also have "\<dots> = (\<lambda>g. g) ` set gs" unfolding image_image by (rule image_cong [OF refl]) (rule mk)
  finally have "set (map ?mk (map snd ?it)) = set gs" by simp
  moreover have "distinct (map snd ?it)"
  proof -
    have "inj_on snd (set ?it)"
    proof (rule inj_onI)
      fix x y assume xy: "x \<in> set ?it" "y \<in> set ?it" "snd x = snd y"
      obtain kx dx ky dy where p: "x = (kx, dx)" "y = (ky, dy)" by (cases x; cases y)
      from xy it obtain g g' where "g \<in> set gs" "g' \<in> set gs" "gd_Denom g = dx" "gd_Denom g' = dx"
        "GetCreatorsPrefix @ kx = gd_index S g" "GetCreatorsPrefix @ ky = gd_index S g'"
        unfolding p by auto
      then have "GetCreatorsPrefix @ kx = GetCreatorsPrefix @ ky" using gs(2) by (simp add: gd_index_def)
      then show "x = y" using xy(3) by (simp add: p)
    qed
    moreover have "distinct ?it"
      using kv_iterator(2) [OF kvl] by (auto simp: GetAllDenomsIterator_def distinct_map)
    ultimately show ?thesis by (simp add: distinct_map)
  qed
  then have "distinct (map gd_Denom (map ?mk (map snd ?it)))" by (simp add: comp_def)
  ultimately show thesis using that e by blast
qed

section \<open>Properties\<close>

text \<open>C29. \<open>Validate\<close> accepts a genesis state exactly when the parameters are valid, no denomination is
  twice in it, every denomination comes apart into a creator and a subdenom and every admin is empty or
  an address.\<close>

theorem GenesisState_Validate_exact:
  "GenesisState_Validate S gs = Ok () \<longleftrightarrow> Params_Validate S (gs_Params gs) = None
     \<and> distinct (map gd_Denom (gs_FactoryDenoms gs))
     \<and> (\<forall>g \<in> set (gs_FactoryDenoms gs). is_ok (DeconstructDenom S (gd_Denom g))
          \<and> (Admin (gd_AuthorityMetadata g) = '''' \<or> is_ok (AccAddressFromBech32 S (Admin (gd_AuthorityMetadata g)))))"
  by (simp add: GenesisState_Validate_iff denom_ok_def DenomAuthorityMetadata_Validate_ok)

text \<open>C16. A genesis state that \<open>Validate\<close> accepts is imported on an empty store without a panic, and
  the export after it gives the same denominations with the same admins, each once, and the same
  parameters, a nil creation fee as the empty one.\<close>

theorem genesis_import_export:
  assumes "env_ok k" "param_frame k" "GenesisState_Validate (sdk k) gs = Ok ()"
    and "kv (ctx k) w = Map.empty" "CreateModuleAccount k w = (Ok (), w0)"
  shows "\<exists>w' gs'. InitGenesis k gs w = (Ok (), w') \<and> ExportGenesis k w' = Ok gs'
    \<and> set (gs_FactoryDenoms gs') = set (gs_FactoryDenoms gs)
    \<and> distinct (map gd_Denom (gs_FactoryDenoms gs'))
    \<and> gs_Params gs' = (gs_Params gs)\<lparr>DenomCreationFee := Some (slice (DenomCreationFee (gs_Params gs)))\<rparr>"
proof -
  obtain w' where w': "InitGenesis k gs w = (Ok (), w')"
    "kv (ctx k) w' = fold (store_denom (sdk k)) (gs_FactoryDenoms gs) (kv (ctx k) w)"
    "GetParams k w' = Ok ((gs_Params gs)\<lparr>DenomCreationFee := Some (slice (DenomCreationFee (gs_Params gs)))\<rparr>)"
    by (rule InitGenesis_run [OF assms(1-3,5)])
  have gs: "\<forall>g \<in> set (gs_FactoryDenoms gs). gd_ok (sdk k) g" "distinct (map gd_Denom (gs_FactoryDenoms gs))"
    using assms(3) denom_ok_gd_ok [OF env_okD(1) [OF assms(1)]] by (auto simp: GenesisState_Validate_iff)
  obtain ds where "export_denoms k w' (GetAllDenomsIterator k w') = Ok ds"
    "set ds = set (gs_FactoryDenoms gs)" "distinct (map gd_Denom ds)"
    by (rule export_after_import [OF env_okD(2) [OF assms(1)] w'(2) _ gs]) (simp add: assms(4))
  with w' show ?thesis by (auto simp: ExportGenesis_def)
qed

section \<open>Concrete instances\<close>

lemma mem_param_frame: "param_frame memKeeper"
  by (simp add: param_frame_def memParams_def) (simp add: memCtx_def)

definition genesis_gold :: GenesisState where
  "genesis_gold = \<lparr>gs_Params = \<lparr>DenomCreationFee = None, DenomCreationGasConsume = 5\<rparr>,
     gs_FactoryDenoms = [\<lparr>gd_Denom = ''factory/lumi1xyz/gold'', gd_AuthorityMetadata = \<lparr>Admin = ''lumi1abc''\<rparr>\<rparr>,
       \<lparr>gd_Denom = ''factory/lumi1abc/iron'', gd_AuthorityMetadata = \<lparr>Admin = ''''\<rparr>\<rparr>]\<rparr>"

lemma genesis_gold_valid: "GenesisState_Validate (sdk memKeeper) genesis_gold = Ok ()"
  unfolding memKeeper_simps by code_simp

lemma mem0_module_account: "CreateModuleAccount memKeeper mem0 = (Ok (), snd (CreateModuleAccount memKeeper mem0))"
  by (simp add: CreateModuleAccount_def memAccounts_def bindA_def)

lemma mem0_empty: "kv (ctx memKeeper) mem0 = Map.empty"
  by (rule ext) (simp add: mem0_def memCtx_def kv_def)

theorem GenesisState_Validate_exact_witness:
  "is_ok (DeconstructDenom memSdk ''factory/lumi1xyz/gold'')
    \<and> distinct (map gd_Denom (gs_FactoryDenoms genesis_gold))"
proof -
  have "GenesisState_Validate memSdk genesis_gold = Ok ()" using genesis_gold_valid by simp
  then show ?thesis unfolding GenesisState_Validate_exact by (simp add: genesis_gold_def)
qed

theorem genesis_import_export_witness:
  "\<exists>w' gs'. InitGenesis memKeeper genesis_gold mem0 = (Ok (), w') \<and> ExportGenesis memKeeper w' = Ok gs'
    \<and> set (gs_FactoryDenoms gs') = set (gs_FactoryDenoms genesis_gold)
    \<and> DenomCreationFee (gs_Params gs') = Some []"
proof -
  have "slice (DenomCreationFee (gs_Params genesis_gold)) = []" by (simp add: genesis_gold_def)
  with genesis_import_export [OF mem_env_ok mem_param_frame genesis_gold_valid mem0_empty mem0_module_account]
  show ?thesis by auto
qed

end
