(* ===== verification/GenesisRegistry.thy ===== *)
theory GenesisRegistry
  imports TokenGenesis
begin

text \<open>
  Exporting a running token factory and importing it on a new chain.

  \<open>genesis_inv\<close> is what the store of the module satisfies in every state that messages lead to from an
  empty store: the creator index lists exactly the denominations with authority metadata, each under one
  creator. From it the export of such a state is accepted by \<open>Validate\<close> and imported without a panic;
  the admins survive, the index is rebuilt under the canonical text of the creator, and the hooks are
  lost, because the genesis state has no place for them.
\<close>

section \<open>The store after messages\<close>

definition meta_valid :: "'w Keeper \<Rightarrow> bytes option \<Rightarrow> bool" where
  "meta_valid k bz \<longleftrightarrow> (\<exists>m. bz = Some (DenomAuthorityMetadata_enc m)
     \<and> is_ok (DenomAuthorityMetadata_Validate (sdk k) m))"

definition genesis_inv :: "'w Keeper \<Rightarrow> 'w \<Rightarrow> bool" where
  "genesis_inv k w \<longleftrightarrow>
     (\<forall>key v. kv (ctx k) w (GetCreatorsPrefix @ key) = Some v \<longrightarrow>
        (\<exists>c. bar_free c \<and> GetCreatorsPrefix @ key = index_key c v)
        \<and> is_ok (DeconstructDenom (sdk k) v) \<and> kv (ctx k) w (meta_key v) \<noteq> None) \<and>
     (\<forall>d. bar_free d \<and> kv (ctx k) w (meta_key d) \<noteq> None \<longrightarrow>
        meta_valid k (kv (ctx k) w (meta_key d)) \<and> (\<exists>c. bar_free c \<and> kv (ctx k) w (index_key c d) = Some d)) \<and>
     (\<forall>d c c'. bar_free c \<and> bar_free c' \<and> kv (ctx k) w (index_key c d) \<noteq> None
        \<and> kv (ctx k) w (index_key c' d) \<noteq> None \<longrightarrow> c = c')"

lemma index_key_prefix: "\<exists>key. index_key c d = GetCreatorsPrefix @ key"
  unfolding GetCreatorsPrefix_index [symmetric] by blast

lemma genesis_invD:
  assumes "genesis_inv k w"
  shows "kv (ctx k) w (GetCreatorsPrefix @ key) = Some v \<Longrightarrow>
      (\<exists>c. bar_free c \<and> GetCreatorsPrefix @ key = index_key c v)
      \<and> is_ok (DeconstructDenom (sdk k) v) \<and> kv (ctx k) w (meta_key v) \<noteq> None"
    and "bar_free d \<Longrightarrow> kv (ctx k) w (meta_key d) \<noteq> None \<Longrightarrow>
      meta_valid k (kv (ctx k) w (meta_key d)) \<and> (\<exists>c. bar_free c \<and> kv (ctx k) w (index_key c d) = Some d)"
    and "bar_free c \<Longrightarrow> bar_free c' \<Longrightarrow> kv (ctx k) w (index_key c d) \<noteq> None \<Longrightarrow>
      kv (ctx k) w (index_key c' d) \<noteq> None \<Longrightarrow> c = c'"
  using assms unfolding genesis_inv_def by blast+

lemma genesis_inv_empty: "kv (ctx k) w = Map.empty \<Longrightarrow> genesis_inv k w"
  by (simp add: genesis_inv_def)

text \<open>What a delivery writes.\<close>

lemma deliver_kv:
  assumes env: "env_ok k" and known: "bank_knows k w" and run: "deliver k m w = (Ok u, w')"
  obtains "kv (ctx k) w' = kv (ctx k) w"
  | d a where "kv (ctx k) w' = (kv (ctx k) w)(meta_key d \<mapsto> DenomAuthorityMetadata_enc \<lparr>Admin = a\<rparr>,
        index_key a d \<mapsto> d)" "bar_free d" "bar_free a" "is_ok (DeconstructDenom (sdk k) d)"
      "is_ok (DenomAuthorityMetadata_Validate (sdk k) \<lparr>Admin = a\<rparr>)" "reg_admin (registry k w) d = None"
  | d b where "kv (ctx k) w' = (kv (ctx k) w)(meta_key d \<mapsto> DenomAuthorityMetadata_enc \<lparr>Admin = b\<rparr>)"
      "bar_free d" "reg_admin (registry k w) d \<noteq> None"
      "is_ok (DenomAuthorityMetadata_Validate (sdk k) \<lparr>Admin = b\<rparr>)"
  | d h where "kv (ctx k) w' = (kv (ctx k) w)(hook_key d := h)" "bar_free d"
proof -
  from run have vb: "msg_ValidateBasic (sdk k) m = Ok ()" and h: "handle k m w = (Ok (), w')"
    by (auto elim: deliver_OkE)
  note bank = bank_handlers_preserve [OF env]
  show thesis
  proof (cases m)
    case (MCreateDenom c)
    with h obtain r where "server_CreateDenom k c w = (Ok r, w')" by (auto simp: bindA_Ok_iff)
    then obtain d w1 where c: "CreateDenom k (cd_Sender c) (cd_Subdenom c) w = (Ok d, w1)"
      and e: "emit k TypeMsgCreateDenom [(AttributeCreator, cd_Sender c), (AttributeNewTokenDenom, d)] w1
        = (Ok (), w')" by (auto simp: server_CreateDenom_def bindA_Ok_iff)
    obtain w2 where t: "GetTokenDenom (sdk k) (cd_Sender c) (cd_Subdenom c) = Ok d"
      "GetDenomMetaData (bankKeeper k) w d = None"
      and a: "createDenomAfterValidation k (cd_Sender c) d w2 = (Ok (), w1)"
      using CreateDenom_OkD [OF env c] by blast
    note bars = CreateDenom_bar_free [OF env c, folded bar_free_def]
    have "is_ok (AccAddressFromBech32 (sdk k) (cd_Sender c))"
      using vb by (auto simp: MCreateDenom MsgCreateDenom_ValidateBasic_def)
    then have "is_ok (DeconstructDenom (sdk k) d)"
      using t(1) DeconstructDenom_denom_of by (cases "AccAddressFromBech32 (sdk k) (cd_Sender c)")
        (auto simp: GetTokenDenom_Ok)
    moreover have "reg_admin (registry k w) d = None" using known t(2) by (auto simp: bank_knows_def)
    ultimately show thesis
      using that(2) [of d "cd_Sender c"] CreateDenom_kv [OF env c] emit_kv [OF env e] bars
        createDenomAfterValidation_Ok(1) [OF env a] by simp
  next
    case (MChangeAdmin c)
    then have v: "MsgChangeAdmin_ValidateBasic (sdk k) c = Ok ()" and s: "server_ChangeAdmin k c w = (Ok (), w')"
      using vb h by simp_all
    from s obtain w1 where "setAdmin k (ca_Denom c) (ca_NewAdmin c) w = (Ok (), w1)"
      and "emit k TypeMsgChangeAdmin [(AttributeDenom, ca_Denom c), (AttributeNewAdmin, ca_NewAdmin c)] w1
        = (Ok (), w')"
      by (auto simp: server_ChangeAdmin_def bindA_Ok_iff split: if_splits)
    then have kv: "kv (ctx k) w' = (kv (ctx k) w)(meta_key (ca_Denom c) \<mapsto>
        DenomAuthorityMetadata_enc \<lparr>Admin = ca_NewAdmin c\<rparr>)"
      using setAdmin_Ok(1) [OF env] emit_kv [OF env] by metis
    have "bar_free (ca_Denom c)"
      using v bar_free_deconstruct [OF env] by (auto simp: MsgChangeAdmin_ValidateBasic_def)
    then show thesis
      using that(3) kv change_admin_run(1,2) [OF env v s] by (simp add: DenomAuthorityMetadata_Validate_ok)
  next
    case (MSetBeforeSendHook c)
    then have v: "MsgSetBeforeSendHook_ValidateBasic (sdk k) c = Ok ()"
      and s: "server_SetBeforeSendHook k c w = (Ok (), w')" using vb h by simp_all
    from s obtain w1 where "setBeforeSendHook k (sh_Denom c) (sh_CosmwasmAddress c) w = (Ok (), w1)"
      and "emit k TypeMsgSetBeforeSendHook [(AttributeDenom, sh_Denom c),
        (AttributeBeforeSendHookAddress, sh_CosmwasmAddress c)] w1 = (Ok (), w')"
      by (auto simp: server_SetBeforeSendHook_def bindA_Ok_iff split: if_splits)
    then have "kv (ctx k) w' = (kv (ctx k) w)(hook_key (sh_Denom c) := hook_value (sh_CosmwasmAddress c))"
      using setBeforeSendHook_Ok(1) [OF env] emit_kv [OF env] by metis
    moreover have "bar_free (sh_Denom c)"
      using v bar_free_deconstruct [OF env] by (auto simp: MsgSetBeforeSendHook_ValidateBasic_def)
    ultimately show thesis by (rule that(4))
  qed (use that(1) h preservesD bank in \<open>metis handle.simps\<close>)+
qed

lemma meta_valid_admin:
  assumes "env_ok k" "meta_valid k bz"
  obtains m where "bz = Some (DenomAuthorityMetadata_enc m)" "DenomAuthorityMetadata_ok m"
    "is_ok (DenomAuthorityMetadata_Validate (sdk k) m)" "admin_cell bz = Some (Admin m)" "metadata_of bz = Ok m"
proof -
  from assms(2) obtain m where m: "bz = Some (DenomAuthorityMetadata_enc m)"
    "is_ok (DenomAuthorityMetadata_Validate (sdk k) m)" by (auto simp: meta_valid_def)
  then have "DenomAuthorityMetadata_ok m"
    using authority_ok [OF env_okD(1) [OF assms(1)]] by (metis is_ok.elims(2))
  with m show thesis by (intro that) simp_all
qed

lemma fresh_meta:
  assumes "env_ok k" "genesis_inv k w" "bar_free d"
  shows "reg_admin (registry k w) d = None \<longleftrightarrow> kv (ctx k) w (meta_key d) = None"
proof (cases "kv (ctx k) w (meta_key d)")
  case (Some b)
  then have "meta_valid k (Some b)" using genesis_invD(2) [OF assms(2,3)] by simp
  then have "admin_cell (Some b) \<noteq> None" by (rule meta_valid_admin [OF assms(1)]) simp
  then show ?thesis using Some assms(3) by (simp add: registry_def)
qed (simp add: registry_def)

lemma genesis_inv_create:
  assumes inv: "genesis_inv k w" and bars: "bar_free d" "bar_free a"
    and ok: "is_ok (DeconstructDenom (sdk k) d)" "is_ok (DenomAuthorityMetadata_Validate (sdk k) \<lparr>Admin = a\<rparr>)"
    and fresh: "kv (ctx k) w (meta_key d) = None"
    and kv: "kv (ctx k) w' = (kv (ctx k) w)(meta_key d \<mapsto> DenomAuthorityMetadata_enc \<lparr>Admin = a\<rparr>, index_key a d \<mapsto> d)"
  shows "genesis_inv k w'"
proof -
  have inj: "index_key c x = index_key a d \<longleftrightarrow> c = a \<and> x = d" if "bar_free c" for c x
    using index_key_inj [of c x a d] that bars(2) by (auto simp: bar_free_def)
  have meta: "kv (ctx k) w' (meta_key x) = (if x = d then Some (DenomAuthorityMetadata_enc \<lparr>Admin = a\<rparr>)
      else kv (ctx k) w (meta_key x))" if "bar_free x" for x
    using that bars(1) by (simp add: kv bar_free_def)
  have unlisted: "kv (ctx k) w (index_key c d) = None" if "bar_free c" for c
  proof (rule ccontr)
    assume "kv (ctx k) w (index_key c d) \<noteq> None"
    then obtain v where v: "kv (ctx k) w (index_key c d) = Some v" by blast
    obtain key where key: "index_key c d = GetCreatorsPrefix @ key" using index_key_prefix by blast
    from genesis_invD(1) [OF inv, of key v] v key obtain c' where "bar_free c'" "index_key c d = index_key c' v"
      "kv (ctx k) w (meta_key v) \<noteq> None" by metis
    then show False using index_key_inj [of c d c' v] that fresh by (auto simp: bar_free_def)
  qed
  show ?thesis
    unfolding genesis_inv_def
  proof (intro conjI allI impI)
    fix key v assume v: "kv (ctx k) w' (GetCreatorsPrefix @ key) = Some v"
    have "v = d \<and> GetCreatorsPrefix @ key = index_key a d \<or> kv (ctx k) w (GetCreatorsPrefix @ key) = Some v"
      using v by (simp add: kv split: if_splits)
    then show "\<exists>c. bar_free c \<and> GetCreatorsPrefix @ key = index_key c v"
      "is_ok (DeconstructDenom (sdk k) v)" "kv (ctx k) w' (meta_key v) \<noteq> None"
      using genesis_invD(1) [OF inv, of key v] bars ok meta kv by auto
  next
    fix x assume x: "bar_free x \<and> kv (ctx k) w' (meta_key x) \<noteq> None"
    show "meta_valid k (kv (ctx k) w' (meta_key x))"
      using x meta ok genesis_invD(2) [OF inv, of x] by (auto simp: meta_valid_def)
    show "\<exists>c. bar_free c \<and> kv (ctx k) w' (index_key c x) = Some x"
    proof (cases "x = d")
      case True
      then show ?thesis using bars by (intro exI [of _ a]) (simp add: kv)
    next
      case False
      then obtain c where "bar_free c" "kv (ctx k) w (index_key c x) = Some x"
        using genesis_invD(2) [OF inv, of x] x meta by auto
      with False inj show ?thesis by (intro exI [of _ c]) (simp add: kv)
    qed
  next
    fix x c c'
    assume c: "bar_free c \<and> bar_free c' \<and> kv (ctx k) w' (index_key c x) \<noteq> None
      \<and> kv (ctx k) w' (index_key c' x) \<noteq> None"
    have old: "kv (ctx k) w' (index_key e x) = (if e = a \<and> x = d then Some d else kv (ctx k) w (index_key e x))"
      if "bar_free e" for e using inj [OF that] by (simp add: kv)
    show "c = c'"
      using c old [of c] old [of c'] unlisted [of c] unlisted [of c'] genesis_invD(3) [OF inv, of c c' x]
      by (auto split: if_splits)
  qed
qed

lemma genesis_inv_write:
  assumes env: "env_ok k" and inv: "genesis_inv k w"
    and idx: "\<And>key. kv (ctx k) w' (GetCreatorsPrefix @ key) = kv (ctx k) w (GetCreatorsPrefix @ key)"
    and meta: "\<And>x. bar_free x \<Longrightarrow> kv (ctx k) w' (meta_key x) = kv (ctx k) w (meta_key x)
      \<or> (meta_valid k (kv (ctx k) w' (meta_key x)) \<and> kv (ctx k) w (meta_key x) \<noteq> None)"
  shows "genesis_inv k w'"
proof -
  have i: "kv (ctx k) w' (index_key c x) = kv (ctx k) w (index_key c x)" for c x
    using index_key_prefix [of c x] idx by metis
  have bf: "bar_free v" if "kv (ctx k) w (GetCreatorsPrefix @ key) = Some v" for key v
    using genesis_invD(1) [OF inv that] DeconstructDenom_bar_free [OF env_okD(1) [OF env]]
    by (auto simp: bar_free_def)
  show ?thesis
    unfolding genesis_inv_def
  proof (intro conjI allI impI)
    fix key v assume "kv (ctx k) w' (GetCreatorsPrefix @ key) = Some v"
    then have v: "kv (ctx k) w (GetCreatorsPrefix @ key) = Some v" by (simp add: idx)
    from genesis_invD(1) [OF inv v] meta [OF bf [OF v]]
    show "\<exists>c. bar_free c \<and> GetCreatorsPrefix @ key = index_key c v"
      "is_ok (DeconstructDenom (sdk k) v)" "kv (ctx k) w' (meta_key v) \<noteq> None"
      by (auto simp: meta_valid_def)
  next
    fix x assume x: "bar_free x \<and> kv (ctx k) w' (meta_key x) \<noteq> None"
    then have "kv (ctx k) w (meta_key x) \<noteq> None" using meta [of x] by auto
    with x genesis_invD(2) [OF inv, of x] meta [of x]
    show "meta_valid k (kv (ctx k) w' (meta_key x))" "\<exists>c. bar_free c \<and> kv (ctx k) w' (index_key c x) = Some x"
      by (auto simp: i)
  next
    fix x c c'
    assume "bar_free c \<and> bar_free c' \<and> kv (ctx k) w' (index_key c x) \<noteq> None
      \<and> kv (ctx k) w' (index_key c' x) \<noteq> None"
    then show "c = c'" using genesis_invD(3) [OF inv, of c c' x] by (simp add: i)
  qed
qed

lemma genesis_inv_deliver:
  assumes env: "env_ok k" and known: "bank_knows k w" and run: "deliver k m w = (Ok u, w')"
    and inv: "genesis_inv k w"
  shows "genesis_inv k w'"
proof (rule deliver_kv [OF env known run])
  assume "kv (ctx k) w' = kv (ctx k) w"
  then show ?thesis using inv unfolding genesis_inv_def by (simp only:)
next
  fix d a
  assume "kv (ctx k) w' = (kv (ctx k) w)(meta_key d \<mapsto> DenomAuthorityMetadata_enc \<lparr>Admin = a\<rparr>, index_key a d \<mapsto> d)"
    "bar_free d" "bar_free a" "is_ok (DeconstructDenom (sdk k) d)"
    "is_ok (DenomAuthorityMetadata_Validate (sdk k) \<lparr>Admin = a\<rparr>)" "reg_admin (registry k w) d = None"
  then show ?thesis using genesis_inv_create [OF inv] fresh_meta [OF env inv] by blast
next
  fix d b
  assume kv: "kv (ctx k) w' = (kv (ctx k) w)(meta_key d \<mapsto> DenomAuthorityMetadata_enc \<lparr>Admin = b\<rparr>)"
    and d: "bar_free d" "reg_admin (registry k w) d \<noteq> None"
      "is_ok (DenomAuthorityMetadata_Validate (sdk k) \<lparr>Admin = b\<rparr>)"
  have "kv (ctx k) w (meta_key d) \<noteq> None" using fresh_meta [OF env inv d(1)] d(2) by simp
  then show ?thesis
    using d by (intro genesis_inv_write [OF env inv]) (auto simp: kv bar_free_def meta_valid_def)
next
  fix d h assume "kv (ctx k) w' = (kv (ctx k) w)(hook_key d := h)" "bar_free d"
  then show ?thesis by (intro genesis_inv_write [OF env inv]) (auto simp: bar_free_def)
qed

lemma genesis_inv_delivered:
  assumes "delivered k w0 w" "env_ok k" "bank_knows k w0" "genesis_inv k w0"
  shows "genesis_inv k w \<and> bank_knows k w"
  using assms(1)
proof (induction rule: delivered.induct)
  case delivered_start
  then show ?case using assms by blast
next
  case (delivered_msg w m w')
  then show ?case using genesis_inv_deliver [OF assms(2)] deliver_known [OF assms(2)] by blast
qed

section \<open>Export and import\<close>

lemma listed_denoms:
  assumes env: "env_ok k" and inv: "genesis_inv k w"
  shows "distinct (map snd (GetAllDenomsIterator k w))"
    and "d \<in> set (map snd (GetAllDenomsIterator k w)) \<Longrightarrow> is_ok (DeconstructDenom (sdk k) d) \<and> bar_free d
      \<and> meta_valid k (kv (ctx k) w (meta_key d))"
    and "bar_free d \<Longrightarrow> kv (ctx k) w (meta_key d) \<noteq> None \<Longrightarrow> d \<in> set (map snd (GetAllDenomsIterator k w))"
proof -
  note kvl = env_okD(2) [OF env]
  let ?it = "GetAllDenomsIterator k w"
  have it: "(key, d) \<in> set ?it \<longleftrightarrow> kv (ctx k) w (GetCreatorsPrefix @ key) = Some d" for key d
    using kv_iterator(3) [OF kvl] by (simp add: GetAllDenomsIterator_def)
  have "inj_on snd (set ?it)"
  proof (rule inj_onI)
    fix x y assume xy: "x \<in> set ?it" "y \<in> set ?it" "snd x = snd y"
    obtain kx d ky where p: "x = (kx, d)" "y = (ky, d)" using xy(3) by (cases x; cases y) auto
    have kx: "kv (ctx k) w (GetCreatorsPrefix @ kx) = Some d" and ky: "kv (ctx k) w (GetCreatorsPrefix @ ky) = Some d"
      using xy it p by auto
    obtain c c' where "bar_free c" "bar_free c'" "GetCreatorsPrefix @ kx = index_key c d"
      "GetCreatorsPrefix @ ky = index_key c' d"
      using genesis_invD(1) [OF inv kx] genesis_invD(1) [OF inv ky] by blast
    then have "GetCreatorsPrefix @ kx = GetCreatorsPrefix @ ky"
      using genesis_invD(3) [OF inv, of c c' d] kx ky by simp
    then show "x = y" by (simp add: p)
  qed
  moreover have "distinct ?it"
    using kv_iterator(2) [OF kvl] by (auto simp: GetAllDenomsIterator_def distinct_map)
  ultimately show "distinct (map snd ?it)" by (simp add: distinct_map)
  show "is_ok (DeconstructDenom (sdk k) d) \<and> bar_free d \<and> meta_valid k (kv (ctx k) w (meta_key d))"
    if "d \<in> set (map snd ?it)"
  proof -
    from that it obtain key where "kv (ctx k) w (GetCreatorsPrefix @ key) = Some d" by auto
    from genesis_invD(1) [OF inv this] have d: "is_ok (DeconstructDenom (sdk k) d)" "kv (ctx k) w (meta_key d) \<noteq> None"
      by blast+
    then have "bar_free d"
      using DeconstructDenom_bar_free [OF env_okD(1) [OF env]] by (simp add: bar_free_def)
    with d genesis_invD(2) [OF inv, of d] show ?thesis by blast
  qed
  show "d \<in> set (map snd ?it)" if d: "bar_free d" "kv (ctx k) w (meta_key d) \<noteq> None"
  proof -
    obtain c where c: "kv (ctx k) w (index_key c d) = Some d" using genesis_invD(2) [OF inv d] by blast
    obtain key where "index_key c d = GetCreatorsPrefix @ key" using index_key_prefix by blast
    with c it have "(key, d) \<in> set ?it" by metis
    then show ?thesis by force
  qed
qed

text \<open>The export of such a store, and the state it exports.\<close>

definition exported :: "'w Keeper \<Rightarrow> 'w \<Rightarrow> GenesisDenom list" where
  "exported k w = map (\<lambda>d. \<lparr>gd_Denom = d, gd_AuthorityMetadata =
     (case GetAuthorityMetadata k d w of Ok m \<Rightarrow> m | _ \<Rightarrow> DenomAuthorityMetadata_zero)\<rparr>)
     (map snd (GetAllDenomsIterator k w))"

lemma exported_run:
  assumes env: "env_ok k" and inv: "genesis_inv k w"
  shows "export_denoms k w (GetAllDenomsIterator k w) = Ok (exported k w)"
    and "validate_denoms (sdk k) {} (exported k w) = Ok ()"
    and "g \<in> set (exported k w) \<Longrightarrow> bar_free (gd_Denom g)
      \<and> reg_admin (registry k w) (gd_Denom g) = Some (Admin (gd_AuthorityMetadata g))"
    and "gd_Denom ` set (exported k w) = set (map snd (GetAllDenomsIterator k w))"
proof -
  let ?m = "\<lambda>d. case GetAuthorityMetadata k d w of Ok m \<Rightarrow> m | _ \<Rightarrow> DenomAuthorityMetadata_zero"
  have m: "GetAuthorityMetadata k d w = Ok (?m d) \<and> is_ok (DenomAuthorityMetadata_Validate (sdk k) (?m d))
      \<and> bar_free d \<and> reg_admin (registry k w) d = Some (Admin (?m d)) \<and> is_ok (DeconstructDenom (sdk k) d)"
    if d: "d \<in> set (map snd (GetAllDenomsIterator k w))" for d
  proof -
    note l = listed_denoms(2) [OF env inv d]
    then have "meta_valid k (kv (ctx k) w (meta_key d))" by blast
    then show ?thesis
      by (rule meta_valid_admin [OF env])
        (use l in \<open>simp add: GetAuthorityMetadata_kv [OF env_okD(2) [OF env]] registry_def\<close>)
  qed
  have "\<forall>(key, d) \<in> set (GetAllDenomsIterator k w). GetAuthorityMetadata k d w = Ok (?m d)"
    using m by force
  from export_denoms_map [OF this] show "export_denoms k w (GetAllDenomsIterator k w) = Ok (exported k w)"
    by (simp add: exported_def case_prod_unfold comp_def)
  show "validate_denoms (sdk k) {} (exported k w) = Ok ()"
    unfolding validate_denoms_iff
    using listed_denoms(1) [OF env inv] m by (auto simp: exported_def denom_ok_def comp_def)
  show "bar_free (gd_Denom g) \<and> reg_admin (registry k w) (gd_Denom g) = Some (Admin (gd_AuthorityMetadata g))"
    if "g \<in> set (exported k w)"
  proof -
    from that obtain d where "d \<in> set (map snd (GetAllDenomsIterator k w))"
      "g = \<lparr>gd_Denom = d, gd_AuthorityMetadata = ?m d\<rparr>" unfolding exported_def by auto
    with m [of d] show ?thesis by simp
  qed
  show "gd_Denom ` set (exported k w) = set (map snd (GetAllDenomsIterator k w))"
    by (simp add: exported_def image_comp comp_def)
qed

lemma imported_registry:
  assumes kvl: "kv_laws (ctx k)" and gs: "\<forall>g \<in> set gs. gd_ok (sdk k) g" "distinct (map gd_Denom gs)"
    and kv: "kv (ctx k) w = fold (store_denom (sdk k)) gs Map.empty"
  shows "reg_admin (registry k w) d = map_of (map (\<lambda>g. (gd_Denom g, Admin (gd_AuthorityMetadata g))) gs) d"
    and "reg_hook (registry k w) d = ''''"
proof -
  have "map_of (map (\<lambda>g. (gd_Denom g, Admin (gd_AuthorityMetadata g))) gs) d
      = map_option Admin (map_of (map (\<lambda>g. (gd_Denom g, gd_AuthorityMetadata g)) gs) d)"
    by (induction gs) auto
  moreover have "map_of (map (\<lambda>g. (gd_Denom g, gd_AuthorityMetadata g)) gs) d = None" if "\<not> bar_free d"
    using that gs(1) by (force simp: map_of_eq_None_iff gd_ok_def)
  moreover have "DenomAuthorityMetadata_ok m"
    if "map_of (map (\<lambda>g. (gd_Denom g, gd_AuthorityMetadata g)) gs) d = Some m" for m
    using map_of_SomeD [OF that] gs(1) by (auto simp: gd_ok_def)
  ultimately show "reg_admin (registry k w) d = map_of (map (\<lambda>g. (gd_Denom g, Admin (gd_AuthorityMetadata g))) gs) d"
    using fold_store_meta [OF gs, of d Map.empty]
    by (cases "bar_free d") (auto simp: registry_def kv split: option.splits)
  show "reg_hook (registry k w) d = ''''"
    using fold_store_hook [OF gs(1), of d Map.empty] by (simp add: registry_def GetBeforeSendHook_kv [OF kvl] kv)
qed

section \<open>Properties\<close>

text \<open>C15. A chain that started without denominations can be exported after any messages: the export is a
  state that \<open>Validate\<close> accepts, it is imported on a new chain without a panic, and every denomination
  has the admin it had. But no denomination has a hook any more, whatever hooks were set.\<close>

theorem export_import_keeps_admins_loses_hooks:
  assumes "env_ok k" "param_frame k" "delivered k v0 w" "kv (ctx k) v0 = Map.empty"
    and "GetParams k w = Ok p" "Params_Validate (sdk k) p = None"
    and "kv (ctx k) w0 = Map.empty" "CreateModuleAccount k w0 = (Ok (), w1)"
  shows "\<exists>gs w'. ExportGenesis k w = Ok gs \<and> GenesisState_Validate (sdk k) gs = Ok ()
    \<and> InitGenesis k gs w0 = (Ok (), w')
    \<and> reg_admin (registry k w') = reg_admin (registry k w)
    \<and> (\<forall>d. reg_hook (registry k w') d = '''')"
proof -
  note env = assms(1) and kvl = env_okD(2) [OF assms(1)]
  have "bank_knows k v0" by (simp add: bank_knows_def registry_def assms(4))
  with genesis_inv_delivered [OF assms(3,1)] genesis_inv_empty [OF assms(4)] have inv: "genesis_inv k w" by blast
  let ?gs = "\<lparr>gs_Params = p, gs_FactoryDenoms = exported k w\<rparr>"
  note e = exported_run [OF env inv]
  have exp: "ExportGenesis k w = Ok ?gs" using e(1) assms(5) by (simp add: ExportGenesis_def)
  have val: "GenesisState_Validate (sdk k) ?gs = Ok ()"
    using e(2) assms(6) by (simp add: GenesisState_Validate_def)
  then have gs: "\<forall>g \<in> set (exported k w). gd_ok (sdk k) g" "distinct (map gd_Denom (exported k w))"
    using denom_ok_gd_ok [OF env_okD(1) [OF env]] by (auto simp: GenesisState_Validate_iff)
  obtain w' where w': "InitGenesis k ?gs w0 = (Ok (), w')"
    "kv (ctx k) w' = fold (store_denom (sdk k)) (exported k w) Map.empty"
    using InitGenesis_run [OF env assms(2) val assms(8)] assms(7) by (metis GenesisState.select_convs(2))
  note reg = imported_registry [OF kvl gs w'(2)]
  have "reg_admin (registry k w') d = reg_admin (registry k w) d" for d
  proof (cases "d \<in> gd_Denom ` set (exported k w)")
    case True
    then obtain g where g: "g \<in> set (exported k w)" "d = gd_Denom g" by blast
    then have "map_of (map (\<lambda>g. (gd_Denom g, Admin (gd_AuthorityMetadata g))) (exported k w)) d
        = Some (Admin (gd_AuthorityMetadata g))"
      using gs(2) by (intro map_of_is_SomeI) (auto simp: comp_def)
    then show ?thesis using reg(1) e(3) [OF g(1)] g(2) by simp
  next
    case False
    then have "map_of (map (\<lambda>g. (gd_Denom g, Admin (gd_AuthorityMetadata g))) (exported k w)) d = None"
      by (force simp: map_of_eq_None_iff)
    moreover have "reg_admin (registry k w) d = None"
      using False e(4) listed_denoms(3) [OF env inv, of d] fresh_meta [OF env inv, of d]
      by (cases "bar_free d") (auto simp: registry_def)
    ultimately show ?thesis using reg(1) by simp
  qed
  with exp val w' reg(2) show ?thesis by blast
qed

section \<open>Concrete instances\<close>

lemma mem0_params: "GetParams memKeeper mem2 = Ok \<lparr>DenomCreationFee = Some [], DenomCreationGasConsume = 1000000\<rparr>"
  unfolding memKeeper_simps by code_simp

definition hook_gold :: Msg where
  "hook_gold = MSetBeforeSendHook (NewMsgSetBeforeSendHook ''lumi1abc'' ''factory/lumi1abc/gold'' ''lumi1accept'')"

definition mem4 :: Mem where
  "mem4 = snd (deliver memKeeper hook_gold mem2)"

lemma mem4_delivered: "deliver memKeeper hook_gold mem2 = (Ok (), mem4)"
proof -
  have "msg_ValidateBasic memSdk hook_gold = Ok ()" by code_simp
  moreover have "fst (setBeforeSendHook memKeeper ''factory/lumi1abc/gold'' ''lumi1accept'' mem2) = Ok ()"
  proof -
    have "mem_used mem2 + 100 \<le> mem_limit mem2" by code_simp
    moreover have "is_ok (DeconstructDenom memSdk ''factory/lumi1abc/gold'')" by code_simp
    then obtain x where "DeconstructDenom memSdk ''factory/lumi1abc/gold'' = Ok x"
      by (cases "DeconstructDenom memSdk ''factory/lumi1abc/gold''") auto
    moreover have "AccAddressFromBech32 memSdk ''lumi1accept'' = Ok ''accept''"
      by (simp add: memSdk_def HasPrefix_def alnum_def)
    ultimately show ?thesis
      by (simp add: setBeforeSendHook_def try_contract_def memContracts_def mem_consume_def no_such_contract_def
          bindA_def ret_def modify_def Let_def)
  qed
  ultimately have "fst (deliver memKeeper hook_gold mem2) = Ok ()"
    using mem_admin(2) by (auto simp: deliver_def hook_gold_def NewMsgSetBeforeSendHook_def bindA_def
        server_SetBeforeSendHook_def emit_def split: prod.splits res.splits)
  then show ?thesis by (simp add: mem4_def prod_eq_iff)
qed

lemma mem_hook_params: "preserves mem_params (setBeforeSendHook memKeeper d a)"
proof -
  have "preserves mem_params (try_contract memKeeper c x m)" for c x m
    by (auto simp: preserves_def try_contract_def memCtx_def split: prod.splits res.splits)
  moreover have "mem_params (StoreDelete memCtx q x w) = mem_params w"
    "mem_params (StoreSet memCtx q x v w) = mem_params w" for q x v w by (simp_all add: memCtx_def)
  ultimately show ?thesis
    unfolding setBeforeSendHook_def by (auto intro!: preserves_bindA preserves_modify)
qed

lemma mem4_params: "GetParams memKeeper mem4 = Ok \<lparr>DenomCreationFee = Some [], DenomCreationGasConsume = 1000000\<rparr>"
proof -
  have em: "emit memKeeper t as w = (Ok (), w') \<Longrightarrow> mem_params w' = mem_params w" for t as w w'
    by (auto simp: emit_def memCtx_def)
  from mem4_delivered have "mem_params mem4 = mem_params mem2"
    by (auto simp: hook_gold_def server_SetBeforeSendHook_def bindA_Ok_iff NewMsgSetBeforeSendHook_def
        dest!: preservesD [OF mem_hook_params] em elim!: deliver_OkE split: if_splits)
  then have "GetParams memKeeper mem4 = GetParams memKeeper mem2"
    by (intro GetParams_cong) (simp add: memParams_def)
  then show ?thesis by (simp only: mem0_params)
qed

lemma mem2_gold: "reg_admin (registry memKeeper mem2) ''factory/lumi1abc/gold'' = Some ''lumi1abc''"
  by (intro registry_admin mem_admin(2)) (simp_all add: mem_kv_laws bar_free_def)

lemma mem4_registry: "registry memKeeper mem4 = (registry memKeeper mem2)\<lparr>reg_hook :=
      (reg_hook (registry memKeeper mem2))(''factory/lumi1abc/gold'' := ''lumi1accept'')\<rparr>"
proof -
  have h: "server_SetBeforeSendHook memKeeper
      (NewMsgSetBeforeSendHook ''lumi1abc'' ''factory/lumi1abc/gold'' ''lumi1accept'') mem2 = (Ok (), mem4)"
    and vb: "MsgSetBeforeSendHook_ValidateBasic (sdk memKeeper)
      (NewMsgSetBeforeSendHook ''lumi1abc'' ''factory/lumi1abc/gold'' ''lumi1accept'') = Ok ()"
    using mem4_delivered by (auto simp: hook_gold_def elim!: deliver_OkE)
  show ?thesis
    using set_hook_run(3) [OF mem_env_ok vb h] by (simp add: NewMsgSetBeforeSendHook_def)
qed

lemma mem4_hook: "reg_hook (registry memKeeper mem4) ''factory/lumi1abc/gold'' = ''lumi1accept''"
  by (simp add: mem4_registry)

theorem export_import_keeps_admins_loses_hooks_witness:
  "reg_hook (registry memKeeper mem4) ''factory/lumi1abc/gold'' = ''lumi1accept'' \<and>
   (\<exists>gs w'. ExportGenesis memKeeper mem4 = Ok gs \<and> InitGenesis memKeeper gs mem0 = (Ok (), w')
     \<and> reg_admin (registry memKeeper w') ''factory/lumi1abc/gold'' = Some ''lumi1abc''
     \<and> reg_hook (registry memKeeper w') ''factory/lumi1abc/gold'' = '''')"
proof -
  have d: "delivered memKeeper mem0 mem4"
    by (rule delivered_msg [OF delivered_msg [OF delivered_start mem2_delivered] mem4_delivered])

  have v: "Params_Validate (sdk memKeeper) \<lparr>DenomCreationFee = Some [], DenomCreationGasConsume = 1000000\<rparr> = None"
    unfolding memKeeper_simps by code_simp
  from export_import_keeps_admins_loses_hooks [OF mem_env_ok mem_param_frame d mem0_empty mem4_params v
      mem0_empty mem0_module_account] mem2_gold
  show ?thesis unfolding mem4_registry by auto
qed

end
