(* ===== verification/GenesisCodec.thy ===== *)
theory GenesisCodec
  imports MetaCodec
begin

text \<open>
  The generated codecs of the parameters (x/tokenfactory/types/params.pb.go) and of the genesis
  (x/tokenfactory/types/genesis.pb.go). The coins in them are encoded by the SDK's \<open>Coin\<close>, a codec
  \<open>C\<close> that is a parameter, with encoding \<open>e\<close> on the coins \<open>k\<close>.
\<close>

section \<open>Params\<close>

definition Params_Size :: "Coin Codec \<Rightarrow> Params \<Rightarrow> nat" where
  "Params_Size C m = sum_list (map (\<lambda>x. size_msg (cSize C x)) (slice (DenomCreationFee m))) +
    size_uint64 (DenomCreationGasConsume m)"

definition Params_MarshalToSizedBuffer :: "Coin Codec \<Rightarrow> Params \<Rightarrow> bytes \<Rightarrow> (bytes \<times> nat) res" where
  "Params_MarshalToSizedBuffer C m = to_sized_buffer
    [b_uint64 0x10 (DenomCreationGasConsume m),
     b_repeated (\<lambda>x. b_msg 0x0a (cToSized C x)) (slice (DenomCreationFee m))]"

definition Params_Marshal :: "Coin Codec \<Rightarrow> Params \<Rightarrow> bytes res" where
  "Params_Marshal C = marshal (Params_Size C) (Params_MarshalToSizedBuffer C)"

definition Params_fields :: "Coin Codec \<Rightarrow> (int \<times> Params field) list" where
  "Params_fields C =
    [(1, FMsg ''DenomCreationFee'' (\<lambda>bs m.
       bindR (cUnmarshal C bs (cZero C)) (\<lambda>v. Ok (m\<lparr>DenomCreationFee := Some (slice
         (DenomCreationFee m) @ [v])\<rparr>)))),
     (2, FUint64 ''DenomCreationGasConsume'' (\<lambda>v m. m\<lparr>DenomCreationGasConsume := v\<rparr>))]"

definition Params_Unmarshal :: "Coin Codec \<Rightarrow> bytes \<Rightarrow> Params \<Rightarrow> Params res" where
  "Params_Unmarshal C = unmarshal ''Params'' (Params_fields C)"

definition Params_zero :: "Coin Codec \<Rightarrow> Params" where
  "Params_zero C = \<lparr>DenomCreationFee = None, DenomCreationGasConsume = 0\<rparr>"

definition Params_enc :: "(Coin \<Rightarrow> bytes) \<Rightarrow> Params \<Rightarrow> bytes" where
  "Params_enc e m =
     concat (map (\<lambda>x. pbm 0x0a (e x)) (slice (DenomCreationFee m))) @
     pbu 0x10 (DenomCreationGasConsume m)"

text \<open>
  \<open>Params_ok\<close> are the parameters that come back as they were: a fee that is empty and not nil, as in
  \<open>DefaultParams\<close>, has the encoding of a nil one and comes back as nil. \<open>wire_Params\<close> is what comes back of
  any parameters.
\<close>

definition Params_ok :: "(Coin \<Rightarrow> bytes) \<Rightarrow> (Coin \<Rightarrow> bool) \<Rightarrow> Params \<Rightarrow> bool" where
  "Params_ok e k m \<longleftrightarrow> DenomCreationFee m \<noteq> Some [] \<and> list_all k (slice (DenomCreationFee m)) \<and>
     length (Params_enc e m) < 2 ^ 63"

lemma Params_reads:
  assumes "codec_laws C e k" "Params_ok e k m"
  shows "reads name (Params_fields C) (Params_enc e m) (Params_zero C) m"
proof -
  let ?z0 = "Params_zero C"
  let ?z1 = "?z0\<lparr>DenomCreationFee := DenomCreationFee m\<rparr>"
  let ?z2 = "?z1\<lparr>DenomCreationGasConsume := DenomCreationGasConsume m\<rparr>"
  note laws = codec_law(4) [OF assms(1)]
  note okm = assms(2) [unfolded Params_ok_def]
  have r1: "reads name (Params_fields C) (concat (map (\<lambda>x. pbm 0x0a (e x)) (slice
    (DenomCreationFee m)))) ?z0 ?z1"
    using reads_repeated [where put = "\<lambda>xs. ?z0\<lparr>DenomCreationFee := unslice xs\<rparr>"
        and fs = "Params_fields C" and t = "0x0a" and e = "e" and xs = "slice (DenomCreationFee
          m)" and name = name]
      okm
    by (force simp: Params_fields_def Params_zero_def laws list_all_iff intro!: reads_msgI)
  have r2: "reads name (Params_fields C) (pbu 0x10 (DenomCreationGasConsume m)) ?z1 ?z2"
    by (rule reads_uint64I)
      (simp_all add: Params_fields_def Params_zero_def)
  show ?thesis
    using reads_append [OF r1 r2]
    by (cases m) (simp add: Params_enc_def Params_zero_def)
qed

definition wire_Params :: "Params \<Rightarrow> Params" where
  "wire_Params m = m\<lparr>DenomCreationFee := unslice (slice (DenomCreationFee m))\<rparr>"

lemma wire_Params_enc [simp]: "Params_enc e (wire_Params m) = Params_enc e m"
  by (simp add: Params_enc_def wire_Params_def)

lemma wire_Params_Size [simp]: "Params_Size C (wire_Params m) = Params_Size C m"
  by (simp add: Params_Size_def wire_Params_def)

lemma wire_Params_MarshalToSizedBuffer [simp]:
  "Params_MarshalToSizedBuffer C (wire_Params m) = Params_MarshalToSizedBuffer C m"
  by (simp add: Params_MarshalToSizedBuffer_def wire_Params_def)

lemma wire_Params_ok: "Params_ok e k m \<Longrightarrow> wire_Params m = m"
  by (cases m) (simp add: Params_ok_def wire_Params_def)

definition Params_codec :: "Coin Codec \<Rightarrow> Params Codec" where
  "Params_codec C = \<lparr>cSize = Params_Size C, cToSized = Params_MarshalToSizedBuffer C,
     cUnmarshal = Params_Unmarshal C, cZero = Params_zero C\<rparr>"

lemma Params_codec_laws:
  assumes "codec_laws C e k"
  shows "codec_laws (Params_codec C) (Params_enc e) (Params_ok e k)"
  unfolding codec_laws_def Params_codec_def Codec.simps
    Params_MarshalToSizedBuffer_def [abs_def] Params_Unmarshal_def
  by (rule pb_messageI [where outs = "\<lambda>m.
      [pbu 0x10 (DenomCreationGasConsume m), concat (map (\<lambda>x. pbm 0x0a (e x)) (slice
        (DenomCreationFee m)))]"])
    (auto simp: Params_Size_def Params_ok_def Params_enc_def codec_law(1) [OF assms] codec_law(2)
      [OF assms] list_all_iff length_repeated
      intro!: Params_reads [OF assms, unfolded Params_ok_def Params_enc_def] writes_intros cong:
        map_cong)

section \<open>GenesisDenom\<close>

definition GenesisDenom_Size :: "GenesisDenom \<Rightarrow> nat" where
  "GenesisDenom_Size m = size_string (gd_Denom m) + size_msg (cSize DenomAuthorityMetadata_codec
    (gd_AuthorityMetadata m))"

definition GenesisDenom_MarshalToSizedBuffer :: "GenesisDenom \<Rightarrow> bytes \<Rightarrow> (bytes \<times> nat) res" where
  "GenesisDenom_MarshalToSizedBuffer m = to_sized_buffer
    [b_msg 0x12 (cToSized DenomAuthorityMetadata_codec (gd_AuthorityMetadata m)),
     b_string 0x0a (gd_Denom m)]"

definition GenesisDenom_Marshal :: "GenesisDenom \<Rightarrow> bytes res" where
  "GenesisDenom_Marshal = marshal GenesisDenom_Size GenesisDenom_MarshalToSizedBuffer"

definition GenesisDenom_fields :: "(int \<times> GenesisDenom field) list" where
  "GenesisDenom_fields =
    [(1, FString ''Denom'' (\<lambda>v m. m\<lparr>gd_Denom := v\<rparr>)),
     (2, FMsg ''AuthorityMetadata'' (\<lambda>bs m.
       bindR (cUnmarshal DenomAuthorityMetadata_codec bs (gd_AuthorityMetadata m)) (\<lambda>v. Ok
         (m\<lparr>gd_AuthorityMetadata := v\<rparr>))))]"

definition GenesisDenom_Unmarshal :: "bytes \<Rightarrow> GenesisDenom \<Rightarrow> GenesisDenom res" where
  "GenesisDenom_Unmarshal = unmarshal ''GenesisDenom'' GenesisDenom_fields"

definition GenesisDenom_zero :: "GenesisDenom" where
  "GenesisDenom_zero = \<lparr>gd_Denom = [], gd_AuthorityMetadata = cZero DenomAuthorityMetadata_codec\<rparr>"

definition GenesisDenom_enc :: "GenesisDenom \<Rightarrow> bytes" where
  "GenesisDenom_enc m =
     pbs 0x0a (gd_Denom m) @
     pbm 0x12 (DenomAuthorityMetadata_enc (gd_AuthorityMetadata m))"

definition GenesisDenom_ok :: "GenesisDenom \<Rightarrow> bool" where
  "GenesisDenom_ok m \<longleftrightarrow> DenomAuthorityMetadata_ok (gd_AuthorityMetadata m) \<and>
     length (GenesisDenom_enc m) < 2 ^ 63"

lemma GenesisDenom_reads:
  assumes "GenesisDenom_ok m"
  shows "reads name GenesisDenom_fields (GenesisDenom_enc m) GenesisDenom_zero m"
proof -
  let ?z0 = "GenesisDenom_zero"
  let ?z1 = "?z0\<lparr>gd_Denom := gd_Denom m\<rparr>"
  let ?z2 = "?z1\<lparr>gd_AuthorityMetadata := gd_AuthorityMetadata m\<rparr>"
  note laws = codec_law(4) [OF authmeta_DenomAuthorityMetadata]
  note okm = assms(1) [unfolded GenesisDenom_ok_def]
  have r1: "reads name GenesisDenom_fields (pbs 0x0a (gd_Denom m)) ?z0 ?z1"
    by (rule reads_stringI)
      (simp_all add: GenesisDenom_fields_def GenesisDenom_zero_def)
  have r2: "reads name GenesisDenom_fields (pbm 0x12 (DenomAuthorityMetadata_enc
    (gd_AuthorityMetadata m))) ?z1 ?z2"
    using okm by (intro reads_msgI)
      (simp_all add: GenesisDenom_fields_def GenesisDenom_zero_def laws)
  show ?thesis
    using reads_append [OF r1 r2]
    by (cases m) (simp add: GenesisDenom_enc_def GenesisDenom_zero_def)
qed

definition GenesisDenom_codec :: "GenesisDenom Codec" where
  "GenesisDenom_codec = \<lparr>cSize = GenesisDenom_Size, cToSized = GenesisDenom_MarshalToSizedBuffer,
     cUnmarshal = GenesisDenom_Unmarshal, cZero = GenesisDenom_zero\<rparr>"

interpretation gdenom: pb_message GenesisDenom_Size GenesisDenom_MarshalToSizedBuffer
  GenesisDenom_Unmarshal GenesisDenom_zero GenesisDenom_enc GenesisDenom_ok
  unfolding GenesisDenom_MarshalToSizedBuffer_def [abs_def] GenesisDenom_Unmarshal_def
  by (rule pb_messageI [where outs = "\<lambda>m.
      [pbm 0x12 (DenomAuthorityMetadata_enc (gd_AuthorityMetadata m)), pbs 0x0a (gd_Denom m)]"])
    (auto simp: GenesisDenom_Size_def GenesisDenom_ok_def GenesisDenom_enc_def codec_law(1) [OF
      authmeta_DenomAuthorityMetadata] codec_law(2) [OF authmeta_DenomAuthorityMetadata]
      intro!: GenesisDenom_reads [unfolded GenesisDenom_ok_def GenesisDenom_enc_def]
        writes_intros )

lemma GenesisDenom_codec_laws: "codec_laws GenesisDenom_codec GenesisDenom_enc GenesisDenom_ok"
  unfolding codec_laws_def GenesisDenom_codec_def Codec.simps by (rule gdenom.pb_message_axioms)

section \<open>GenesisState\<close>

definition GenesisState_Size :: "Coin Codec \<Rightarrow> GenesisState \<Rightarrow> nat" where
  "GenesisState_Size C m = size_msg (cSize (Params_codec C) (gs_Params m)) + sum_list (map (\<lambda>x.
    size_msg (cSize GenesisDenom_codec x)) (gs_FactoryDenoms m))"

definition GenesisState_MarshalToSizedBuffer :: "Coin Codec \<Rightarrow> GenesisState \<Rightarrow> bytes \<Rightarrow> (bytes \<times>
  nat) res" where
  "GenesisState_MarshalToSizedBuffer C m = to_sized_buffer
    [b_repeated (\<lambda>x. b_msg 0x12 (cToSized GenesisDenom_codec x)) (gs_FactoryDenoms m),
     b_msg 0x0a (cToSized (Params_codec C) (gs_Params m))]"

definition GenesisState_Marshal :: "Coin Codec \<Rightarrow> GenesisState \<Rightarrow> bytes res" where
  "GenesisState_Marshal C = marshal (GenesisState_Size C) (GenesisState_MarshalToSizedBuffer C)"

definition GenesisState_fields :: "Coin Codec \<Rightarrow> (int \<times> GenesisState field) list" where
  "GenesisState_fields C =
    [(1, FMsg ''Params'' (\<lambda>bs m.
       bindR (cUnmarshal (Params_codec C) bs (gs_Params m)) (\<lambda>v. Ok (m\<lparr>gs_Params := v\<rparr>)))),
     (2, FMsg ''FactoryDenoms'' (\<lambda>bs m.
       bindR (cUnmarshal GenesisDenom_codec bs (cZero GenesisDenom_codec)) (\<lambda>v. Ok
         (m\<lparr>gs_FactoryDenoms := gs_FactoryDenoms m @ [v]\<rparr>))))]"

definition GenesisState_Unmarshal :: "Coin Codec \<Rightarrow> bytes \<Rightarrow> GenesisState \<Rightarrow> GenesisState res" where
  "GenesisState_Unmarshal C = unmarshal ''GenesisState'' (GenesisState_fields C)"

definition GenesisState_zero :: "Coin Codec \<Rightarrow> GenesisState" where
  "GenesisState_zero C = \<lparr>gs_Params = cZero (Params_codec C), gs_FactoryDenoms = []\<rparr>"

definition GenesisState_enc :: "(Coin \<Rightarrow> bytes) \<Rightarrow> GenesisState \<Rightarrow> bytes" where
  "GenesisState_enc e m =
     pbm 0x0a (Params_enc e (gs_Params m)) @
     concat (map (\<lambda>x. pbm 0x12 (GenesisDenom_enc x)) (gs_FactoryDenoms m))"

definition GenesisState_ok :: "(Coin \<Rightarrow> bytes) \<Rightarrow> (Coin \<Rightarrow> bool) \<Rightarrow> GenesisState \<Rightarrow> bool" where
  "GenesisState_ok e k m \<longleftrightarrow> Params_ok e k (gs_Params m) \<and>
     list_all GenesisDenom_ok (gs_FactoryDenoms m) \<and>
     length (GenesisState_enc e m) < 2 ^ 63"

lemma GenesisState_reads:
  assumes "codec_laws C e k" "GenesisState_ok e k m"
  shows "reads name (GenesisState_fields C) (GenesisState_enc e m) (GenesisState_zero C) m"
proof -
  let ?z0 = "GenesisState_zero C"
  let ?z1 = "?z0\<lparr>gs_Params := gs_Params m\<rparr>"
  let ?z2 = "?z1\<lparr>gs_FactoryDenoms := gs_FactoryDenoms m\<rparr>"
  note laws = codec_law(4) [OF Params_codec_laws [OF assms(1)]] codec_law(4) [OF
    GenesisDenom_codec_laws]
  note okm = assms(2) [unfolded GenesisState_ok_def]
  have r1: "reads name (GenesisState_fields C) (pbm 0x0a (Params_enc e (gs_Params m))) ?z0 ?z1"
    using okm by (intro reads_msgI)
      (simp_all add: GenesisState_fields_def GenesisState_zero_def laws)
  have r2: "reads name (GenesisState_fields C) (concat (map (\<lambda>x. pbm 0x12 (GenesisDenom_enc x))
    (gs_FactoryDenoms m))) ?z1 ?z2"
    using reads_repeated [where put = "\<lambda>xs. ?z1\<lparr>gs_FactoryDenoms := xs\<rparr>"
        and fs = "GenesisState_fields C" and t = "0x12" and e = "GenesisDenom_enc" and xs =
          "gs_FactoryDenoms m" and name = name]
      okm
    by (force simp: GenesisState_fields_def GenesisState_zero_def laws list_all_iff intro!:
      reads_msgI)
  show ?thesis
    using reads_append [OF r1 r2]
    by (cases m) (simp add: GenesisState_enc_def GenesisState_zero_def)
qed

definition GenesisState_codec :: "Coin Codec \<Rightarrow> GenesisState Codec" where
  "GenesisState_codec C = \<lparr>cSize = GenesisState_Size C, cToSized =
    GenesisState_MarshalToSizedBuffer C,
     cUnmarshal = GenesisState_Unmarshal C, cZero = GenesisState_zero C\<rparr>"

lemma GenesisState_codec_laws:
  assumes "codec_laws C e k"
  shows "codec_laws (GenesisState_codec C) (GenesisState_enc e) (GenesisState_ok e k)"
  unfolding codec_laws_def GenesisState_codec_def Codec.simps
    GenesisState_MarshalToSizedBuffer_def [abs_def] GenesisState_Unmarshal_def
  by (rule pb_messageI [where outs = "\<lambda>m.
      [concat (map (\<lambda>x. pbm 0x12 (GenesisDenom_enc x)) (gs_FactoryDenoms m)), pbm 0x0a
        (Params_enc e (gs_Params m))]"])
    (auto simp: GenesisState_Size_def GenesisState_ok_def GenesisState_enc_def codec_law(1) [OF
      Params_codec_laws [OF assms]] codec_law(1) [OF GenesisDenom_codec_laws] codec_law(2) [OF
      Params_codec_laws [OF assms]] codec_law(2) [OF GenesisDenom_codec_laws] list_all_iff
      length_repeated
      intro!: GenesisState_reads [OF assms, unfolded GenesisState_ok_def GenesisState_enc_def]
        writes_intros cong: map_cong)

end
