(* ===== verification/QueryCodec.thy ===== *)
theory QueryCodec
  imports GenesisCodec
begin

text \<open>
  The query messages of the token factory and their generated codecs
  (x/tokenfactory/types/query.pb.go).
\<close>

section \<open>The messages\<close>

text \<open>The requests without fields are \<open>unit\<close>.\<close>

record QueryParamsResponse =
  qp_Params :: "Params"

record QueryDenomAuthorityMetadataRequest =
  qd_Denom :: "string"

record QueryDenomAuthorityMetadataResponse =
  qd_AuthorityMetadata :: "DenomAuthorityMetadata"

record QueryDenomsFromCreatorRequest =
  qc_Creator :: "string"

record QueryDenomsFromCreatorResponse =
  qc_Denoms :: "string list"

record QueryBeforeSendHookAddressRequest =
  qh_Denom :: "string"

record QueryBeforeSendHookAddressResponse =
  qh_CosmwasmAddress :: "string"

record QueryAllBeforeSendHooksAddressesResponse =
  qa_Denoms :: "string list"
  qa_BeforeSendHookAddresses :: "string list"

section \<open>QueryParamsRequest\<close>

definition QueryParamsRequest_Size :: "unit \<Rightarrow> nat" where
  "QueryParamsRequest_Size m = 0"

definition QueryParamsRequest_MarshalToSizedBuffer :: "unit \<Rightarrow> bytes \<Rightarrow> (bytes \<times> nat) res" where
  "QueryParamsRequest_MarshalToSizedBuffer m = to_sized_buffer
    []"

definition QueryParamsRequest_Marshal :: "unit \<Rightarrow> bytes res" where
  "QueryParamsRequest_Marshal = marshal QueryParamsRequest_Size
    QueryParamsRequest_MarshalToSizedBuffer"

definition QueryParamsRequest_fields :: "(int \<times> unit field) list" where
  "QueryParamsRequest_fields =
    []"

definition QueryParamsRequest_Unmarshal :: "bytes \<Rightarrow> unit \<Rightarrow> unit res" where
  "QueryParamsRequest_Unmarshal = unmarshal ''QueryParamsRequest'' QueryParamsRequest_fields"

definition QueryParamsRequest_zero :: "unit" where
  "QueryParamsRequest_zero = ()"

definition QueryParamsRequest_enc :: "unit \<Rightarrow> bytes" where
  "QueryParamsRequest_enc m =
     []"

definition QueryParamsRequest_ok :: "unit \<Rightarrow> bool" where
  "QueryParamsRequest_ok m \<longleftrightarrow> True"

interpretation qparamsreq: pb_message QueryParamsRequest_Size
  QueryParamsRequest_MarshalToSizedBuffer
  QueryParamsRequest_Unmarshal QueryParamsRequest_zero QueryParamsRequest_enc
    QueryParamsRequest_ok
  unfolding QueryParamsRequest_MarshalToSizedBuffer_def [abs_def] QueryParamsRequest_Unmarshal_def
  by (rule pb_messageI [where outs = "\<lambda>m. []"])
    (simp_all add: QueryParamsRequest_Size_def QueryParamsRequest_enc_def
      QueryParamsRequest_fields_def QueryParamsRequest_zero_def reads_Nil)

section \<open>QueryParamsResponse\<close>

definition QueryParamsResponse_Size :: "Coin Codec \<Rightarrow> QueryParamsResponse \<Rightarrow> nat" where
  "QueryParamsResponse_Size C m = size_msg (cSize (Params_codec C) (qp_Params m))"

definition QueryParamsResponse_MarshalToSizedBuffer :: "Coin Codec \<Rightarrow> QueryParamsResponse \<Rightarrow> bytes
  \<Rightarrow> (bytes \<times> nat) res" where
  "QueryParamsResponse_MarshalToSizedBuffer C m = to_sized_buffer
    [b_msg 0x0a (cToSized (Params_codec C) (qp_Params m))]"

definition QueryParamsResponse_Marshal :: "Coin Codec \<Rightarrow> QueryParamsResponse \<Rightarrow> bytes res" where
  "QueryParamsResponse_Marshal C = marshal (QueryParamsResponse_Size C)
    (QueryParamsResponse_MarshalToSizedBuffer C)"

definition QueryParamsResponse_fields :: "Coin Codec \<Rightarrow> (int \<times> QueryParamsResponse field) list"
  where
  "QueryParamsResponse_fields C =
    [(1, FMsg ''Params'' (\<lambda>bs m.
       bindR (cUnmarshal (Params_codec C) bs (qp_Params m)) (\<lambda>v. Ok (m\<lparr>qp_Params := v\<rparr>))))]"

definition QueryParamsResponse_Unmarshal :: "Coin Codec \<Rightarrow> bytes \<Rightarrow> QueryParamsResponse \<Rightarrow>
  QueryParamsResponse res" where
  "QueryParamsResponse_Unmarshal C = unmarshal ''QueryParamsResponse''
    (QueryParamsResponse_fields C)"

definition QueryParamsResponse_zero :: "Coin Codec \<Rightarrow> QueryParamsResponse" where
  "QueryParamsResponse_zero C = \<lparr>qp_Params = cZero (Params_codec C)\<rparr>"

definition QueryParamsResponse_enc :: "(Coin \<Rightarrow> bytes) \<Rightarrow> QueryParamsResponse \<Rightarrow> bytes" where
  "QueryParamsResponse_enc e m =
     pbm 0x0a (Params_enc e (qp_Params m))"

definition QueryParamsResponse_ok :: "(Coin \<Rightarrow> bytes) \<Rightarrow> (Coin \<Rightarrow> bool) \<Rightarrow> QueryParamsResponse \<Rightarrow>
  bool" where
  "QueryParamsResponse_ok e k m \<longleftrightarrow> Params_ok e k (qp_Params m) \<and>
     length (QueryParamsResponse_enc e m) < 2 ^ 63"

lemma QueryParamsResponse_reads:
  assumes "codec_laws C e k" "QueryParamsResponse_ok e k m"
  shows "reads name (QueryParamsResponse_fields C) (QueryParamsResponse_enc e m)
    (QueryParamsResponse_zero C) m"
proof -
  let ?z0 = "QueryParamsResponse_zero C"
  let ?z1 = "?z0\<lparr>qp_Params := qp_Params m\<rparr>"
  note laws = codec_law(4) [OF Params_codec_laws [OF assms(1)]]
  note okm = assms(2) [unfolded QueryParamsResponse_ok_def]
  have r1: "reads name (QueryParamsResponse_fields C) (pbm 0x0a (Params_enc e (qp_Params m))) ?z0
    ?z1"
    using okm by (intro reads_msgI)
      (simp_all add: QueryParamsResponse_fields_def QueryParamsResponse_zero_def laws)
  show ?thesis
    using r1
    by (cases m) (simp add: QueryParamsResponse_enc_def QueryParamsResponse_zero_def)
qed

definition QueryParamsResponse_codec :: "Coin Codec \<Rightarrow> QueryParamsResponse Codec" where
  "QueryParamsResponse_codec C = \<lparr>cSize = QueryParamsResponse_Size C, cToSized =
    QueryParamsResponse_MarshalToSizedBuffer C,
     cUnmarshal = QueryParamsResponse_Unmarshal C, cZero = QueryParamsResponse_zero C\<rparr>"

lemma QueryParamsResponse_codec_laws:
  assumes "codec_laws C e k"
  shows "codec_laws (QueryParamsResponse_codec C) (QueryParamsResponse_enc e)
    (QueryParamsResponse_ok e k)"
  unfolding codec_laws_def QueryParamsResponse_codec_def Codec.simps
    QueryParamsResponse_MarshalToSizedBuffer_def [abs_def] QueryParamsResponse_Unmarshal_def
  by (rule pb_messageI [where outs = "\<lambda>m.
      [pbm 0x0a (Params_enc e (qp_Params m))]"])
    (auto simp: QueryParamsResponse_Size_def QueryParamsResponse_ok_def
      QueryParamsResponse_enc_def codec_law(1) [OF Params_codec_laws [OF assms]] codec_law(2) [OF
      Params_codec_laws [OF assms]]
      intro!: QueryParamsResponse_reads [OF assms, unfolded QueryParamsResponse_ok_def
        QueryParamsResponse_enc_def] writes_intros )

text \<open>The answer with any parameters is marshalled as the answer with what comes back of them.\<close>

definition wire_QueryParamsResponse :: "QueryParamsResponse \<Rightarrow> QueryParamsResponse" where
  "wire_QueryParamsResponse m = m\<lparr>qp_Params := wire_Params (qp_Params m)\<rparr>"

lemma wire_QueryParamsResponse_Marshal:
  "QueryParamsResponse_Marshal C (wire_QueryParamsResponse m) = QueryParamsResponse_Marshal C m"
  by (simp add: QueryParamsResponse_Marshal_def QueryParamsResponse_Size_def
      QueryParamsResponse_MarshalToSizedBuffer_def Params_codec_def marshal_def wire_QueryParamsResponse_def)

lemma wire_QueryParamsResponse_ok:
  "QueryParamsResponse_ok e k m \<Longrightarrow> wire_QueryParamsResponse m = m"
  by (cases m) (auto simp: QueryParamsResponse_ok_def wire_QueryParamsResponse_def wire_Params_ok)

section \<open>QueryDenomAuthorityMetadataRequest\<close>

definition QueryDenomAuthorityMetadataRequest_Size :: "QueryDenomAuthorityMetadataRequest \<Rightarrow> nat"
  where
  "QueryDenomAuthorityMetadataRequest_Size m = size_string (qd_Denom m)"

definition QueryDenomAuthorityMetadataRequest_MarshalToSizedBuffer ::
  "QueryDenomAuthorityMetadataRequest \<Rightarrow> bytes \<Rightarrow> (bytes \<times> nat) res" where
  "QueryDenomAuthorityMetadataRequest_MarshalToSizedBuffer m = to_sized_buffer
    [b_string 0x0a (qd_Denom m)]"

definition QueryDenomAuthorityMetadataRequest_Marshal :: "QueryDenomAuthorityMetadataRequest \<Rightarrow>
  bytes res" where
  "QueryDenomAuthorityMetadataRequest_Marshal = marshal QueryDenomAuthorityMetadataRequest_Size
    QueryDenomAuthorityMetadataRequest_MarshalToSizedBuffer"

definition QueryDenomAuthorityMetadataRequest_fields :: "(int \<times>
  QueryDenomAuthorityMetadataRequest field) list" where
  "QueryDenomAuthorityMetadataRequest_fields =
    [(1, FString ''Denom'' (\<lambda>v m. m\<lparr>qd_Denom := v\<rparr>))]"

definition QueryDenomAuthorityMetadataRequest_Unmarshal :: "bytes \<Rightarrow>
  QueryDenomAuthorityMetadataRequest \<Rightarrow> QueryDenomAuthorityMetadataRequest res" where
  "QueryDenomAuthorityMetadataRequest_Unmarshal = unmarshal
    ''QueryDenomAuthorityMetadataRequest'' QueryDenomAuthorityMetadataRequest_fields"

definition QueryDenomAuthorityMetadataRequest_zero :: "QueryDenomAuthorityMetadataRequest" where
  "QueryDenomAuthorityMetadataRequest_zero = \<lparr>qd_Denom = []\<rparr>"

definition QueryDenomAuthorityMetadataRequest_enc :: "QueryDenomAuthorityMetadataRequest \<Rightarrow> bytes"
  where
  "QueryDenomAuthorityMetadataRequest_enc m =
     pbs 0x0a (qd_Denom m)"

definition QueryDenomAuthorityMetadataRequest_ok :: "QueryDenomAuthorityMetadataRequest \<Rightarrow> bool"
  where
  "QueryDenomAuthorityMetadataRequest_ok m \<longleftrightarrow> length (QueryDenomAuthorityMetadataRequest_enc m) <
    2 ^ 63"

lemma QueryDenomAuthorityMetadataRequest_reads:
  "reads name QueryDenomAuthorityMetadataRequest_fields (QueryDenomAuthorityMetadataRequest_enc
    m) QueryDenomAuthorityMetadataRequest_zero m"
proof -
  let ?z0 = "QueryDenomAuthorityMetadataRequest_zero"
  let ?z1 = "?z0\<lparr>qd_Denom := qd_Denom m\<rparr>"
  have r1: "reads name QueryDenomAuthorityMetadataRequest_fields (pbs 0x0a (qd_Denom m)) ?z0 ?z1"
    by (rule reads_stringI)
      (simp_all add: QueryDenomAuthorityMetadataRequest_fields_def
        QueryDenomAuthorityMetadataRequest_zero_def)
  show ?thesis
    using r1
    by (cases m) (simp add: QueryDenomAuthorityMetadataRequest_enc_def
      QueryDenomAuthorityMetadataRequest_zero_def)
qed

interpretation qmetareq: pb_message QueryDenomAuthorityMetadataRequest_Size
  QueryDenomAuthorityMetadataRequest_MarshalToSizedBuffer
  QueryDenomAuthorityMetadataRequest_Unmarshal QueryDenomAuthorityMetadataRequest_zero
    QueryDenomAuthorityMetadataRequest_enc QueryDenomAuthorityMetadataRequest_ok
  unfolding QueryDenomAuthorityMetadataRequest_MarshalToSizedBuffer_def [abs_def]
    QueryDenomAuthorityMetadataRequest_Unmarshal_def
  by (rule pb_messageI [where outs = "\<lambda>m.
      [pbs 0x0a (qd_Denom m)]"])
    (auto simp: QueryDenomAuthorityMetadataRequest_Size_def
      QueryDenomAuthorityMetadataRequest_ok_def QueryDenomAuthorityMetadataRequest_enc_def
      intro!: QueryDenomAuthorityMetadataRequest_reads [unfolded
        QueryDenomAuthorityMetadataRequest_ok_def QueryDenomAuthorityMetadataRequest_enc_def]
        writes_intros )

section \<open>QueryDenomAuthorityMetadataResponse\<close>

definition QueryDenomAuthorityMetadataResponse_Size :: "QueryDenomAuthorityMetadataResponse \<Rightarrow>
  nat" where
  "QueryDenomAuthorityMetadataResponse_Size m = size_msg (cSize DenomAuthorityMetadata_codec
    (qd_AuthorityMetadata m))"

definition QueryDenomAuthorityMetadataResponse_MarshalToSizedBuffer ::
  "QueryDenomAuthorityMetadataResponse \<Rightarrow> bytes \<Rightarrow> (bytes \<times> nat) res" where
  "QueryDenomAuthorityMetadataResponse_MarshalToSizedBuffer m = to_sized_buffer
    [b_msg 0x0a (cToSized DenomAuthorityMetadata_codec (qd_AuthorityMetadata m))]"

definition QueryDenomAuthorityMetadataResponse_Marshal :: "QueryDenomAuthorityMetadataResponse \<Rightarrow>
  bytes res" where
  "QueryDenomAuthorityMetadataResponse_Marshal = marshal QueryDenomAuthorityMetadataResponse_Size
    QueryDenomAuthorityMetadataResponse_MarshalToSizedBuffer"

definition QueryDenomAuthorityMetadataResponse_fields :: "(int \<times>
  QueryDenomAuthorityMetadataResponse field) list" where
  "QueryDenomAuthorityMetadataResponse_fields =
    [(1, FMsg ''AuthorityMetadata'' (\<lambda>bs m.
       bindR (cUnmarshal DenomAuthorityMetadata_codec bs (qd_AuthorityMetadata m)) (\<lambda>v. Ok
         (m\<lparr>qd_AuthorityMetadata := v\<rparr>))))]"

definition QueryDenomAuthorityMetadataResponse_Unmarshal :: "bytes \<Rightarrow>
  QueryDenomAuthorityMetadataResponse \<Rightarrow> QueryDenomAuthorityMetadataResponse res" where
  "QueryDenomAuthorityMetadataResponse_Unmarshal = unmarshal
    ''QueryDenomAuthorityMetadataResponse'' QueryDenomAuthorityMetadataResponse_fields"

definition QueryDenomAuthorityMetadataResponse_zero :: "QueryDenomAuthorityMetadataResponse" where
  "QueryDenomAuthorityMetadataResponse_zero = \<lparr>qd_AuthorityMetadata = cZero
    DenomAuthorityMetadata_codec\<rparr>"

definition QueryDenomAuthorityMetadataResponse_enc :: "QueryDenomAuthorityMetadataResponse \<Rightarrow>
  bytes" where
  "QueryDenomAuthorityMetadataResponse_enc m =
     pbm 0x0a (DenomAuthorityMetadata_enc (qd_AuthorityMetadata m))"

definition QueryDenomAuthorityMetadataResponse_ok :: "QueryDenomAuthorityMetadataResponse \<Rightarrow> bool"
  where
  "QueryDenomAuthorityMetadataResponse_ok m \<longleftrightarrow> DenomAuthorityMetadata_ok (qd_AuthorityMetadata m) \<and>
     length (QueryDenomAuthorityMetadataResponse_enc m) < 2 ^ 63"

lemma QueryDenomAuthorityMetadataResponse_reads:
  assumes "QueryDenomAuthorityMetadataResponse_ok m"
  shows "reads name QueryDenomAuthorityMetadataResponse_fields
    (QueryDenomAuthorityMetadataResponse_enc m) QueryDenomAuthorityMetadataResponse_zero m"
proof -
  let ?z0 = "QueryDenomAuthorityMetadataResponse_zero"
  let ?z1 = "?z0\<lparr>qd_AuthorityMetadata := qd_AuthorityMetadata m\<rparr>"
  note laws = codec_law(4) [OF authmeta_DenomAuthorityMetadata]
  note okm = assms(1) [unfolded QueryDenomAuthorityMetadataResponse_ok_def]
  have r1: "reads name QueryDenomAuthorityMetadataResponse_fields (pbm 0x0a
    (DenomAuthorityMetadata_enc (qd_AuthorityMetadata m))) ?z0 ?z1"
    using okm by (intro reads_msgI)
      (simp_all add: QueryDenomAuthorityMetadataResponse_fields_def
        QueryDenomAuthorityMetadataResponse_zero_def laws)
  show ?thesis
    using r1
    by (cases m) (simp add: QueryDenomAuthorityMetadataResponse_enc_def
      QueryDenomAuthorityMetadataResponse_zero_def)
qed

interpretation qmetaresp: pb_message QueryDenomAuthorityMetadataResponse_Size
  QueryDenomAuthorityMetadataResponse_MarshalToSizedBuffer
  QueryDenomAuthorityMetadataResponse_Unmarshal QueryDenomAuthorityMetadataResponse_zero
    QueryDenomAuthorityMetadataResponse_enc QueryDenomAuthorityMetadataResponse_ok
  unfolding QueryDenomAuthorityMetadataResponse_MarshalToSizedBuffer_def [abs_def]
    QueryDenomAuthorityMetadataResponse_Unmarshal_def
  by (rule pb_messageI [where outs = "\<lambda>m.
      [pbm 0x0a (DenomAuthorityMetadata_enc (qd_AuthorityMetadata m))]"])
    (auto simp: QueryDenomAuthorityMetadataResponse_Size_def
      QueryDenomAuthorityMetadataResponse_ok_def QueryDenomAuthorityMetadataResponse_enc_def
      codec_law(1) [OF authmeta_DenomAuthorityMetadata] codec_law(2) [OF
      authmeta_DenomAuthorityMetadata]
      intro!: QueryDenomAuthorityMetadataResponse_reads [unfolded
        QueryDenomAuthorityMetadataResponse_ok_def QueryDenomAuthorityMetadataResponse_enc_def]
        writes_intros )

section \<open>QueryDenomsFromCreatorRequest\<close>

definition QueryDenomsFromCreatorRequest_Size :: "QueryDenomsFromCreatorRequest \<Rightarrow> nat" where
  "QueryDenomsFromCreatorRequest_Size m = size_string (qc_Creator m)"

definition QueryDenomsFromCreatorRequest_MarshalToSizedBuffer :: "QueryDenomsFromCreatorRequest \<Rightarrow>
  bytes \<Rightarrow> (bytes \<times> nat) res" where
  "QueryDenomsFromCreatorRequest_MarshalToSizedBuffer m = to_sized_buffer
    [b_string 0x0a (qc_Creator m)]"

definition QueryDenomsFromCreatorRequest_Marshal :: "QueryDenomsFromCreatorRequest \<Rightarrow> bytes res"
  where
  "QueryDenomsFromCreatorRequest_Marshal = marshal QueryDenomsFromCreatorRequest_Size
    QueryDenomsFromCreatorRequest_MarshalToSizedBuffer"

definition QueryDenomsFromCreatorRequest_fields :: "(int \<times> QueryDenomsFromCreatorRequest field)
  list" where
  "QueryDenomsFromCreatorRequest_fields =
    [(1, FString ''Creator'' (\<lambda>v m. m\<lparr>qc_Creator := v\<rparr>))]"

definition QueryDenomsFromCreatorRequest_Unmarshal :: "bytes \<Rightarrow> QueryDenomsFromCreatorRequest \<Rightarrow>
  QueryDenomsFromCreatorRequest res" where
  "QueryDenomsFromCreatorRequest_Unmarshal = unmarshal ''QueryDenomsFromCreatorRequest''
    QueryDenomsFromCreatorRequest_fields"

definition QueryDenomsFromCreatorRequest_zero :: "QueryDenomsFromCreatorRequest" where
  "QueryDenomsFromCreatorRequest_zero = \<lparr>qc_Creator = []\<rparr>"

definition QueryDenomsFromCreatorRequest_enc :: "QueryDenomsFromCreatorRequest \<Rightarrow> bytes" where
  "QueryDenomsFromCreatorRequest_enc m =
     pbs 0x0a (qc_Creator m)"

definition QueryDenomsFromCreatorRequest_ok :: "QueryDenomsFromCreatorRequest \<Rightarrow> bool" where
  "QueryDenomsFromCreatorRequest_ok m \<longleftrightarrow> length (QueryDenomsFromCreatorRequest_enc m) < 2 ^ 63"

lemma QueryDenomsFromCreatorRequest_reads:
  "reads name QueryDenomsFromCreatorRequest_fields (QueryDenomsFromCreatorRequest_enc m)
    QueryDenomsFromCreatorRequest_zero m"
proof -
  let ?z0 = "QueryDenomsFromCreatorRequest_zero"
  let ?z1 = "?z0\<lparr>qc_Creator := qc_Creator m\<rparr>"
  have r1: "reads name QueryDenomsFromCreatorRequest_fields (pbs 0x0a (qc_Creator m)) ?z0 ?z1"
    by (rule reads_stringI)
      (simp_all add: QueryDenomsFromCreatorRequest_fields_def
        QueryDenomsFromCreatorRequest_zero_def)
  show ?thesis
    using r1
    by (cases m) (simp add: QueryDenomsFromCreatorRequest_enc_def
      QueryDenomsFromCreatorRequest_zero_def)
qed

interpretation qdenomsreq: pb_message QueryDenomsFromCreatorRequest_Size
  QueryDenomsFromCreatorRequest_MarshalToSizedBuffer
  QueryDenomsFromCreatorRequest_Unmarshal QueryDenomsFromCreatorRequest_zero
    QueryDenomsFromCreatorRequest_enc QueryDenomsFromCreatorRequest_ok
  unfolding QueryDenomsFromCreatorRequest_MarshalToSizedBuffer_def [abs_def]
    QueryDenomsFromCreatorRequest_Unmarshal_def
  by (rule pb_messageI [where outs = "\<lambda>m.
      [pbs 0x0a (qc_Creator m)]"])
    (auto simp: QueryDenomsFromCreatorRequest_Size_def QueryDenomsFromCreatorRequest_ok_def
      QueryDenomsFromCreatorRequest_enc_def
      intro!: QueryDenomsFromCreatorRequest_reads [unfolded QueryDenomsFromCreatorRequest_ok_def
        QueryDenomsFromCreatorRequest_enc_def] writes_intros )

section \<open>QueryDenomsFromCreatorResponse\<close>

definition QueryDenomsFromCreatorResponse_Size :: "QueryDenomsFromCreatorResponse \<Rightarrow> nat" where
  "QueryDenomsFromCreatorResponse_Size m = sum_list (map (\<lambda>s. size_msg (length s)) (qc_Denoms m))"

definition QueryDenomsFromCreatorResponse_MarshalToSizedBuffer :: "QueryDenomsFromCreatorResponse
  \<Rightarrow> bytes \<Rightarrow> (bytes \<times> nat) res" where
  "QueryDenomsFromCreatorResponse_MarshalToSizedBuffer m = to_sized_buffer
    [b_repeated (b_bytes 0x0a) (qc_Denoms m)]"

definition QueryDenomsFromCreatorResponse_Marshal :: "QueryDenomsFromCreatorResponse \<Rightarrow> bytes res"
  where
  "QueryDenomsFromCreatorResponse_Marshal = marshal QueryDenomsFromCreatorResponse_Size
    QueryDenomsFromCreatorResponse_MarshalToSizedBuffer"

definition QueryDenomsFromCreatorResponse_fields :: "(int \<times> QueryDenomsFromCreatorResponse field)
  list" where
  "QueryDenomsFromCreatorResponse_fields =
    [(1, FString ''Denoms'' (\<lambda>v m. m\<lparr>qc_Denoms := qc_Denoms m @ [v]\<rparr>))]"

definition QueryDenomsFromCreatorResponse_Unmarshal :: "bytes \<Rightarrow> QueryDenomsFromCreatorResponse \<Rightarrow>
  QueryDenomsFromCreatorResponse res" where
  "QueryDenomsFromCreatorResponse_Unmarshal = unmarshal ''QueryDenomsFromCreatorResponse''
    QueryDenomsFromCreatorResponse_fields"

definition QueryDenomsFromCreatorResponse_zero :: "QueryDenomsFromCreatorResponse" where
  "QueryDenomsFromCreatorResponse_zero = \<lparr>qc_Denoms = []\<rparr>"

definition QueryDenomsFromCreatorResponse_enc :: "QueryDenomsFromCreatorResponse \<Rightarrow> bytes" where
  "QueryDenomsFromCreatorResponse_enc m =
     concat (map (pbm 0x0a) (qc_Denoms m))"

definition QueryDenomsFromCreatorResponse_ok :: "QueryDenomsFromCreatorResponse \<Rightarrow> bool" where
  "QueryDenomsFromCreatorResponse_ok m \<longleftrightarrow> length (QueryDenomsFromCreatorResponse_enc m) < 2 ^ 63"

lemma QueryDenomsFromCreatorResponse_reads:
  "reads name QueryDenomsFromCreatorResponse_fields (QueryDenomsFromCreatorResponse_enc m)
    QueryDenomsFromCreatorResponse_zero m"
proof -
  let ?z0 = "QueryDenomsFromCreatorResponse_zero"
  let ?z1 = "?z0\<lparr>qc_Denoms := qc_Denoms m\<rparr>"
  have r1: "reads name QueryDenomsFromCreatorResponse_fields (concat (map (pbm 0x0a) (qc_Denoms
    m))) ?z0 ?z1"
    using reads_repeated [where put = "\<lambda>xs. ?z0\<lparr>qc_Denoms := xs\<rparr>"
        and fs = "QueryDenomsFromCreatorResponse_fields" and t = "0x0a" and e = "\<lambda>x. x" and xs =
          "qc_Denoms m" and name = name]
    by (force simp: QueryDenomsFromCreatorResponse_fields_def
      QueryDenomsFromCreatorResponse_zero_def intro!: reads_string_any)
  show ?thesis
    using r1
    by (cases m) (simp add: QueryDenomsFromCreatorResponse_enc_def
      QueryDenomsFromCreatorResponse_zero_def)
qed

interpretation qdenomsresp: pb_message QueryDenomsFromCreatorResponse_Size
  QueryDenomsFromCreatorResponse_MarshalToSizedBuffer
  QueryDenomsFromCreatorResponse_Unmarshal QueryDenomsFromCreatorResponse_zero
    QueryDenomsFromCreatorResponse_enc QueryDenomsFromCreatorResponse_ok
  unfolding QueryDenomsFromCreatorResponse_MarshalToSizedBuffer_def [abs_def]
    QueryDenomsFromCreatorResponse_Unmarshal_def
  by (rule pb_messageI [where outs = "\<lambda>m.
      [concat (map (pbm 0x0a) (qc_Denoms m))]"])
    (auto simp: QueryDenomsFromCreatorResponse_Size_def QueryDenomsFromCreatorResponse_ok_def
      QueryDenomsFromCreatorResponse_enc_def   list_all_iff length_repeated
      intro!: QueryDenomsFromCreatorResponse_reads [unfolded
        QueryDenomsFromCreatorResponse_ok_def QueryDenomsFromCreatorResponse_enc_def]
        writes_intros cong: map_cong)

section \<open>QueryBeforeSendHookAddressRequest\<close>

definition QueryBeforeSendHookAddressRequest_Size :: "QueryBeforeSendHookAddressRequest \<Rightarrow> nat"
  where
  "QueryBeforeSendHookAddressRequest_Size m = size_string (qh_Denom m)"

definition QueryBeforeSendHookAddressRequest_MarshalToSizedBuffer ::
  "QueryBeforeSendHookAddressRequest \<Rightarrow> bytes \<Rightarrow> (bytes \<times> nat) res" where
  "QueryBeforeSendHookAddressRequest_MarshalToSizedBuffer m = to_sized_buffer
    [b_string 0x0a (qh_Denom m)]"

definition QueryBeforeSendHookAddressRequest_Marshal :: "QueryBeforeSendHookAddressRequest \<Rightarrow>
  bytes res" where
  "QueryBeforeSendHookAddressRequest_Marshal = marshal QueryBeforeSendHookAddressRequest_Size
    QueryBeforeSendHookAddressRequest_MarshalToSizedBuffer"

definition QueryBeforeSendHookAddressRequest_fields :: "(int \<times> QueryBeforeSendHookAddressRequest
  field) list" where
  "QueryBeforeSendHookAddressRequest_fields =
    [(1, FString ''Denom'' (\<lambda>v m. m\<lparr>qh_Denom := v\<rparr>))]"

definition QueryBeforeSendHookAddressRequest_Unmarshal :: "bytes \<Rightarrow>
  QueryBeforeSendHookAddressRequest \<Rightarrow> QueryBeforeSendHookAddressRequest res" where
  "QueryBeforeSendHookAddressRequest_Unmarshal = unmarshal ''QueryBeforeSendHookAddressRequest''
    QueryBeforeSendHookAddressRequest_fields"

definition QueryBeforeSendHookAddressRequest_zero :: "QueryBeforeSendHookAddressRequest" where
  "QueryBeforeSendHookAddressRequest_zero = \<lparr>qh_Denom = []\<rparr>"

definition QueryBeforeSendHookAddressRequest_enc :: "QueryBeforeSendHookAddressRequest \<Rightarrow> bytes"
  where
  "QueryBeforeSendHookAddressRequest_enc m =
     pbs 0x0a (qh_Denom m)"

definition QueryBeforeSendHookAddressRequest_ok :: "QueryBeforeSendHookAddressRequest \<Rightarrow> bool"
  where
  "QueryBeforeSendHookAddressRequest_ok m \<longleftrightarrow> length (QueryBeforeSendHookAddressRequest_enc m) < 2
    ^ 63"

lemma QueryBeforeSendHookAddressRequest_reads:
  "reads name QueryBeforeSendHookAddressRequest_fields (QueryBeforeSendHookAddressRequest_enc m)
    QueryBeforeSendHookAddressRequest_zero m"
proof -
  let ?z0 = "QueryBeforeSendHookAddressRequest_zero"
  let ?z1 = "?z0\<lparr>qh_Denom := qh_Denom m\<rparr>"
  have r1: "reads name QueryBeforeSendHookAddressRequest_fields (pbs 0x0a (qh_Denom m)) ?z0 ?z1"
    by (rule reads_stringI)
      (simp_all add: QueryBeforeSendHookAddressRequest_fields_def
        QueryBeforeSendHookAddressRequest_zero_def)
  show ?thesis
    using r1
    by (cases m) (simp add: QueryBeforeSendHookAddressRequest_enc_def
      QueryBeforeSendHookAddressRequest_zero_def)
qed

interpretation qhookreq: pb_message QueryBeforeSendHookAddressRequest_Size
  QueryBeforeSendHookAddressRequest_MarshalToSizedBuffer
  QueryBeforeSendHookAddressRequest_Unmarshal QueryBeforeSendHookAddressRequest_zero
    QueryBeforeSendHookAddressRequest_enc QueryBeforeSendHookAddressRequest_ok
  unfolding QueryBeforeSendHookAddressRequest_MarshalToSizedBuffer_def [abs_def]
    QueryBeforeSendHookAddressRequest_Unmarshal_def
  by (rule pb_messageI [where outs = "\<lambda>m.
      [pbs 0x0a (qh_Denom m)]"])
    (auto simp: QueryBeforeSendHookAddressRequest_Size_def
      QueryBeforeSendHookAddressRequest_ok_def QueryBeforeSendHookAddressRequest_enc_def
      intro!: QueryBeforeSendHookAddressRequest_reads [unfolded
        QueryBeforeSendHookAddressRequest_ok_def QueryBeforeSendHookAddressRequest_enc_def]
        writes_intros )

section \<open>QueryBeforeSendHookAddressResponse\<close>

definition QueryBeforeSendHookAddressResponse_Size :: "QueryBeforeSendHookAddressResponse \<Rightarrow> nat"
  where
  "QueryBeforeSendHookAddressResponse_Size m = size_string (qh_CosmwasmAddress m)"

definition QueryBeforeSendHookAddressResponse_MarshalToSizedBuffer ::
  "QueryBeforeSendHookAddressResponse \<Rightarrow> bytes \<Rightarrow> (bytes \<times> nat) res" where
  "QueryBeforeSendHookAddressResponse_MarshalToSizedBuffer m = to_sized_buffer
    [b_string 0x0a (qh_CosmwasmAddress m)]"

definition QueryBeforeSendHookAddressResponse_Marshal :: "QueryBeforeSendHookAddressResponse \<Rightarrow>
  bytes res" where
  "QueryBeforeSendHookAddressResponse_Marshal = marshal QueryBeforeSendHookAddressResponse_Size
    QueryBeforeSendHookAddressResponse_MarshalToSizedBuffer"

definition QueryBeforeSendHookAddressResponse_fields :: "(int \<times>
  QueryBeforeSendHookAddressResponse field) list" where
  "QueryBeforeSendHookAddressResponse_fields =
    [(1, FString ''CosmwasmAddress'' (\<lambda>v m. m\<lparr>qh_CosmwasmAddress := v\<rparr>))]"

definition QueryBeforeSendHookAddressResponse_Unmarshal :: "bytes \<Rightarrow>
  QueryBeforeSendHookAddressResponse \<Rightarrow> QueryBeforeSendHookAddressResponse res" where
  "QueryBeforeSendHookAddressResponse_Unmarshal = unmarshal
    ''QueryBeforeSendHookAddressResponse'' QueryBeforeSendHookAddressResponse_fields"

definition QueryBeforeSendHookAddressResponse_zero :: "QueryBeforeSendHookAddressResponse" where
  "QueryBeforeSendHookAddressResponse_zero = \<lparr>qh_CosmwasmAddress = []\<rparr>"

definition QueryBeforeSendHookAddressResponse_enc :: "QueryBeforeSendHookAddressResponse \<Rightarrow> bytes"
  where
  "QueryBeforeSendHookAddressResponse_enc m =
     pbs 0x0a (qh_CosmwasmAddress m)"

definition QueryBeforeSendHookAddressResponse_ok :: "QueryBeforeSendHookAddressResponse \<Rightarrow> bool"
  where
  "QueryBeforeSendHookAddressResponse_ok m \<longleftrightarrow> length (QueryBeforeSendHookAddressResponse_enc m) <
    2 ^ 63"

lemma QueryBeforeSendHookAddressResponse_reads:
  "reads name QueryBeforeSendHookAddressResponse_fields (QueryBeforeSendHookAddressResponse_enc
    m) QueryBeforeSendHookAddressResponse_zero m"
proof -
  let ?z0 = "QueryBeforeSendHookAddressResponse_zero"
  let ?z1 = "?z0\<lparr>qh_CosmwasmAddress := qh_CosmwasmAddress m\<rparr>"
  have r1: "reads name QueryBeforeSendHookAddressResponse_fields (pbs 0x0a (qh_CosmwasmAddress
    m)) ?z0 ?z1"
    by (rule reads_stringI)
      (simp_all add: QueryBeforeSendHookAddressResponse_fields_def
        QueryBeforeSendHookAddressResponse_zero_def)
  show ?thesis
    using r1
    by (cases m) (simp add: QueryBeforeSendHookAddressResponse_enc_def
      QueryBeforeSendHookAddressResponse_zero_def)
qed

interpretation qhookresp: pb_message QueryBeforeSendHookAddressResponse_Size
  QueryBeforeSendHookAddressResponse_MarshalToSizedBuffer
  QueryBeforeSendHookAddressResponse_Unmarshal QueryBeforeSendHookAddressResponse_zero
    QueryBeforeSendHookAddressResponse_enc QueryBeforeSendHookAddressResponse_ok
  unfolding QueryBeforeSendHookAddressResponse_MarshalToSizedBuffer_def [abs_def]
    QueryBeforeSendHookAddressResponse_Unmarshal_def
  by (rule pb_messageI [where outs = "\<lambda>m.
      [pbs 0x0a (qh_CosmwasmAddress m)]"])
    (auto simp: QueryBeforeSendHookAddressResponse_Size_def
      QueryBeforeSendHookAddressResponse_ok_def QueryBeforeSendHookAddressResponse_enc_def
      intro!: QueryBeforeSendHookAddressResponse_reads [unfolded
        QueryBeforeSendHookAddressResponse_ok_def QueryBeforeSendHookAddressResponse_enc_def]
        writes_intros )

section \<open>QueryAllBeforeSendHooksAddressesRequest\<close>

definition QueryAllBeforeSendHooksAddressesRequest_Size :: "unit \<Rightarrow> nat" where
  "QueryAllBeforeSendHooksAddressesRequest_Size m = 0"

definition QueryAllBeforeSendHooksAddressesRequest_MarshalToSizedBuffer :: "unit \<Rightarrow> bytes \<Rightarrow> (bytes
  \<times> nat) res" where
  "QueryAllBeforeSendHooksAddressesRequest_MarshalToSizedBuffer m = to_sized_buffer
    []"

definition QueryAllBeforeSendHooksAddressesRequest_Marshal :: "unit \<Rightarrow> bytes res" where
  "QueryAllBeforeSendHooksAddressesRequest_Marshal = marshal
    QueryAllBeforeSendHooksAddressesRequest_Size
    QueryAllBeforeSendHooksAddressesRequest_MarshalToSizedBuffer"

definition QueryAllBeforeSendHooksAddressesRequest_fields :: "(int \<times> unit field) list" where
  "QueryAllBeforeSendHooksAddressesRequest_fields =
    []"

definition QueryAllBeforeSendHooksAddressesRequest_Unmarshal :: "bytes \<Rightarrow> unit \<Rightarrow> unit res" where
  "QueryAllBeforeSendHooksAddressesRequest_Unmarshal = unmarshal
    ''QueryAllBeforeSendHooksAddressesRequest'' QueryAllBeforeSendHooksAddressesRequest_fields"

definition QueryAllBeforeSendHooksAddressesRequest_zero :: "unit" where
  "QueryAllBeforeSendHooksAddressesRequest_zero = ()"

definition QueryAllBeforeSendHooksAddressesRequest_enc :: "unit \<Rightarrow> bytes" where
  "QueryAllBeforeSendHooksAddressesRequest_enc m =
     []"

definition QueryAllBeforeSendHooksAddressesRequest_ok :: "unit \<Rightarrow> bool" where
  "QueryAllBeforeSendHooksAddressesRequest_ok m \<longleftrightarrow> True"

interpretation qallreq: pb_message QueryAllBeforeSendHooksAddressesRequest_Size
  QueryAllBeforeSendHooksAddressesRequest_MarshalToSizedBuffer
  QueryAllBeforeSendHooksAddressesRequest_Unmarshal QueryAllBeforeSendHooksAddressesRequest_zero
    QueryAllBeforeSendHooksAddressesRequest_enc QueryAllBeforeSendHooksAddressesRequest_ok
  unfolding QueryAllBeforeSendHooksAddressesRequest_MarshalToSizedBuffer_def [abs_def]
    QueryAllBeforeSendHooksAddressesRequest_Unmarshal_def
  by (rule pb_messageI [where outs = "\<lambda>m. []"])
    (simp_all add: QueryAllBeforeSendHooksAddressesRequest_Size_def
      QueryAllBeforeSendHooksAddressesRequest_enc_def
      QueryAllBeforeSendHooksAddressesRequest_fields_def
      QueryAllBeforeSendHooksAddressesRequest_zero_def reads_Nil)

section \<open>QueryAllBeforeSendHooksAddressesResponse\<close>

definition QueryAllBeforeSendHooksAddressesResponse_Size ::
  "QueryAllBeforeSendHooksAddressesResponse \<Rightarrow> nat" where
  "QueryAllBeforeSendHooksAddressesResponse_Size m = sum_list (map (\<lambda>s. size_msg (length s))
    (qa_Denoms m)) + sum_list (map (\<lambda>s. size_msg (length s)) (qa_BeforeSendHookAddresses m))"

definition QueryAllBeforeSendHooksAddressesResponse_MarshalToSizedBuffer ::
  "QueryAllBeforeSendHooksAddressesResponse \<Rightarrow> bytes \<Rightarrow> (bytes \<times> nat) res" where
  "QueryAllBeforeSendHooksAddressesResponse_MarshalToSizedBuffer m = to_sized_buffer
    [b_repeated (b_bytes 0x12) (qa_BeforeSendHookAddresses m),
     b_repeated (b_bytes 0x0a) (qa_Denoms m)]"

definition QueryAllBeforeSendHooksAddressesResponse_Marshal ::
  "QueryAllBeforeSendHooksAddressesResponse \<Rightarrow> bytes res" where
  "QueryAllBeforeSendHooksAddressesResponse_Marshal = marshal
    QueryAllBeforeSendHooksAddressesResponse_Size
    QueryAllBeforeSendHooksAddressesResponse_MarshalToSizedBuffer"

definition QueryAllBeforeSendHooksAddressesResponse_fields :: "(int \<times>
  QueryAllBeforeSendHooksAddressesResponse field) list" where
  "QueryAllBeforeSendHooksAddressesResponse_fields =
    [(1, FString ''Denoms'' (\<lambda>v m. m\<lparr>qa_Denoms := qa_Denoms m @ [v]\<rparr>)),
     (2, FString ''BeforeSendHookAddresses'' (\<lambda>v m. m\<lparr>qa_BeforeSendHookAddresses :=
       qa_BeforeSendHookAddresses m @ [v]\<rparr>))]"

definition QueryAllBeforeSendHooksAddressesResponse_Unmarshal :: "bytes \<Rightarrow>
  QueryAllBeforeSendHooksAddressesResponse \<Rightarrow> QueryAllBeforeSendHooksAddressesResponse res" where
  "QueryAllBeforeSendHooksAddressesResponse_Unmarshal = unmarshal
    ''QueryAllBeforeSendHooksAddressesResponse'' QueryAllBeforeSendHooksAddressesResponse_fields"

definition QueryAllBeforeSendHooksAddressesResponse_zero ::
  "QueryAllBeforeSendHooksAddressesResponse" where
  "QueryAllBeforeSendHooksAddressesResponse_zero = \<lparr>qa_Denoms = [], qa_BeforeSendHookAddresses =
    []\<rparr>"

definition QueryAllBeforeSendHooksAddressesResponse_enc ::
  "QueryAllBeforeSendHooksAddressesResponse \<Rightarrow> bytes" where
  "QueryAllBeforeSendHooksAddressesResponse_enc m =
     concat (map (pbm 0x0a) (qa_Denoms m)) @
     concat (map (pbm 0x12) (qa_BeforeSendHookAddresses m))"

definition QueryAllBeforeSendHooksAddressesResponse_ok ::
  "QueryAllBeforeSendHooksAddressesResponse \<Rightarrow> bool" where
  "QueryAllBeforeSendHooksAddressesResponse_ok m \<longleftrightarrow> length
    (QueryAllBeforeSendHooksAddressesResponse_enc m) < 2 ^ 63"

lemma QueryAllBeforeSendHooksAddressesResponse_reads:
  "reads name QueryAllBeforeSendHooksAddressesResponse_fields
    (QueryAllBeforeSendHooksAddressesResponse_enc m)
    QueryAllBeforeSendHooksAddressesResponse_zero m"
proof -
  let ?z0 = "QueryAllBeforeSendHooksAddressesResponse_zero"
  let ?z1 = "?z0\<lparr>qa_Denoms := qa_Denoms m\<rparr>"
  let ?z2 = "?z1\<lparr>qa_BeforeSendHookAddresses := qa_BeforeSendHookAddresses m\<rparr>"
  have r1: "reads name QueryAllBeforeSendHooksAddressesResponse_fields (concat (map (pbm 0x0a)
    (qa_Denoms m))) ?z0 ?z1"
    using reads_repeated [where put = "\<lambda>xs. ?z0\<lparr>qa_Denoms := xs\<rparr>"
        and fs = "QueryAllBeforeSendHooksAddressesResponse_fields" and t = "0x0a" and e = "\<lambda>x. x"
          and xs = "qa_Denoms m" and name = name]
    by (force simp: QueryAllBeforeSendHooksAddressesResponse_fields_def
      QueryAllBeforeSendHooksAddressesResponse_zero_def intro!: reads_string_any)
  have r2: "reads name QueryAllBeforeSendHooksAddressesResponse_fields (concat (map (pbm 0x12)
    (qa_BeforeSendHookAddresses m))) ?z1 ?z2"
    using reads_repeated [where put = "\<lambda>xs. ?z1\<lparr>qa_BeforeSendHookAddresses := xs\<rparr>"
        and fs = "QueryAllBeforeSendHooksAddressesResponse_fields" and t = "0x12" and e = "\<lambda>x. x"
          and xs = "qa_BeforeSendHookAddresses m" and name = name]
    by (force simp: QueryAllBeforeSendHooksAddressesResponse_fields_def
      QueryAllBeforeSendHooksAddressesResponse_zero_def intro!: reads_string_any)
  show ?thesis
    using reads_append [OF r1 r2]
    by (cases m) (simp add: QueryAllBeforeSendHooksAddressesResponse_enc_def
      QueryAllBeforeSendHooksAddressesResponse_zero_def)
qed

interpretation qallresp: pb_message QueryAllBeforeSendHooksAddressesResponse_Size
  QueryAllBeforeSendHooksAddressesResponse_MarshalToSizedBuffer
  QueryAllBeforeSendHooksAddressesResponse_Unmarshal
    QueryAllBeforeSendHooksAddressesResponse_zero QueryAllBeforeSendHooksAddressesResponse_enc
    QueryAllBeforeSendHooksAddressesResponse_ok
  unfolding QueryAllBeforeSendHooksAddressesResponse_MarshalToSizedBuffer_def [abs_def]
    QueryAllBeforeSendHooksAddressesResponse_Unmarshal_def
  by (rule pb_messageI [where outs = "\<lambda>m.
      [concat (map (pbm 0x12) (qa_BeforeSendHookAddresses m)), concat (map (pbm 0x0a) (qa_Denoms
        m))]"])
    (auto simp: QueryAllBeforeSendHooksAddressesResponse_Size_def
      QueryAllBeforeSendHooksAddressesResponse_ok_def
      QueryAllBeforeSendHooksAddressesResponse_enc_def   list_all_iff length_repeated
      intro!: QueryAllBeforeSendHooksAddressesResponse_reads [unfolded
        QueryAllBeforeSendHooksAddressesResponse_ok_def
        QueryAllBeforeSendHooksAddressesResponse_enc_def] writes_intros cong: map_cong)

end
