(* ===== verification/TokenQuery.thy ===== *)
theory TokenQuery
  imports GenesisRegistry QueryCodec
begin

text \<open>
  The query server of x/tokenfactory (keeper/grpc_query.go): five reads of the keeper. A denomination
  in a request may be percent-encoded, as it is in a URL; one that cannot be decoded is taken as it is.

  A valid denomination is never changed by the decoding, so that the answer is the keeper's; the list
  of all hooks is complete and exact in every state that messages lead to.
\<close>

definition decode_denom :: "string \<Rightarrow> string" where
  "decode_denom d = (case QueryUnescape d of Some decodedDenom \<Rightarrow> decodedDenom | None \<Rightarrow> d)"

definition query_Params :: "'w Keeper \<Rightarrow> 'w \<Rightarrow> QueryParamsResponse res" where
  "query_Params k w = bindR (GetParams k w) (\<lambda>params. Ok \<lparr>qp_Params = params\<rparr>)"

definition query_DenomAuthorityMetadata ::
    "'w Keeper \<Rightarrow> QueryDenomAuthorityMetadataRequest \<Rightarrow> 'w \<Rightarrow> QueryDenomAuthorityMetadataResponse res" where
  "query_DenomAuthorityMetadata k req w =
     bindR (GetAuthorityMetadata k (decode_denom (qd_Denom req)) w) (\<lambda>authorityMetadata.
     Ok \<lparr>qd_AuthorityMetadata = authorityMetadata\<rparr>)"

definition query_DenomsFromCreator ::
    "'w Keeper \<Rightarrow> QueryDenomsFromCreatorRequest \<Rightarrow> 'w \<Rightarrow> QueryDenomsFromCreatorResponse res" where
  "query_DenomsFromCreator k req w = Ok \<lparr>qc_Denoms = getDenomsFromCreator k (qc_Creator req) w\<rparr>"

definition query_BeforeSendHookAddress ::
    "'w Keeper \<Rightarrow> QueryBeforeSendHookAddressRequest \<Rightarrow> 'w \<Rightarrow> QueryBeforeSendHookAddressResponse res" where
  "query_BeforeSendHookAddress k req w =
     Ok \<lparr>qh_CosmwasmAddress = GetBeforeSendHook k (decode_denom (qh_Denom req)) w\<rparr>"

definition query_AllBeforeSendHooksAddresses ::
    "'w Keeper \<Rightarrow> 'w \<Rightarrow> QueryAllBeforeSendHooksAddressesResponse res" where
  "query_AllBeforeSendHooksAddresses k w =
     (let (denoms, beforesendHookAddresses) = GetAllBeforeSendHooks k w
      in Ok \<lparr>qa_Denoms = denoms, qa_BeforeSendHookAddresses = beforesendHookAddresses\<rparr>)"

section \<open>Properties\<close>

lemma decode_valid_denom:
  assumes "sdk_laws S" "ValidateDenom S d = None"
  shows "decode_denom d = d"
proof -
  have "list_all denom_char d" using assms by (simp add: sdk_laws_def)
  then have "CHR ''%'' \<notin> set d" "CHR ''+'' \<notin> set d" by (auto simp: list_all_iff denom_char_def)
  then show ?thesis by (simp add: decode_denom_def QueryUnescape_plain)
qed

text \<open>A query for a valid denomination answers what the keeper has for exactly that denomination:
  the percent-decoding of the request never turns it into another one.\<close>

theorem query_valid_denom:
  assumes "env_ok k" "ValidateDenom (sdk k) d = None"
  shows "query_DenomAuthorityMetadata k \<lparr>qd_Denom = d\<rparr> w
      = bindR (GetAuthorityMetadata k d w) (\<lambda>m. Ok \<lparr>qd_AuthorityMetadata = m\<rparr>)
    \<and> query_BeforeSendHookAddress k \<lparr>qh_Denom = d\<rparr> w = Ok \<lparr>qh_CosmwasmAddress = GetBeforeSendHook k d w\<rparr>"
  using decode_valid_denom [OF env_okD(1) [OF assms(1)] assms(2)]
  by (simp add: query_DenomAuthorityMetadata_def query_BeforeSendHookAddress_def)

lemma zip_filter_pairs: "zip (map fst xs) (map snd xs) = xs"
  by (induction xs) auto

text \<open>The denominations that the iterator visits, with their hooks, those without one left out.\<close>

definition hook_pairs :: "'w Keeper \<Rightarrow> 'w \<Rightarrow> (string \<times> string) list" where
  "hook_pairs k w = filter (\<lambda>(denom, hook). hook \<noteq> '''')
     (map (\<lambda>(_, denom). (denom, GetBeforeSendHook k denom w)) (GetAllDenomsIterator k w))"

lemma hook_pairs_iff:
  "(d, h) \<in> set (hook_pairs k w) \<longleftrightarrow>
     d \<in> set (map snd (GetAllDenomsIterator k w)) \<and> h = GetBeforeSendHook k d w \<and> h \<noteq> ''''"
  unfolding hook_pairs_def by force

lemma distinct_hook_pairs:
  assumes "env_ok k" "genesis_inv k w"
  shows "distinct (map fst (hook_pairs k w))"
proof -
  let ?it = "GetAllDenomsIterator k w"
  have "map fst (map (\<lambda>(_, denom). (denom, GetBeforeSendHook k denom w)) ?it) = map snd ?it"
    by (simp add: comp_def case_prod_unfold)
  with listed_denoms(1) [OF assms] show ?thesis
    unfolding hook_pairs_def by (intro distinct_map_filter) (simp only:)
qed

lemma hooked_denom_listed:
  assumes "env_ok k" "genesis_inv k w" "reg_inv (sdk k) (registry k w)" "reg_hook (registry k w) d \<noteq> ''''"
  shows "d \<in> set (map snd (GetAllDenomsIterator k w))"
proof -
  from assms(4) have d: "bar_free d" by (auto simp: registry_def split: if_splits)
  have "reg_admin (registry k w) d \<noteq> None" using assms(3,4) by (auto simp: reg_inv_def)
  with fresh_meta [OF assms(1,2) d] listed_denoms(3) [OF assms(1,2) d] show ?thesis by simp
qed

lemma hook_pairs_exact:
  assumes "env_ok k" "genesis_inv k w" "reg_inv (sdk k) (registry k w)"
  shows "(d, h) \<in> set (hook_pairs k w) \<longleftrightarrow> h \<noteq> '''' \<and> reg_hook (registry k w) d = h"
proof -
  have "reg_hook (registry k w) d = GetBeforeSendHook k d w"
    if "d \<in> set (map snd (GetAllDenomsIterator k w))"
    using listed_denoms(2) [OF assms(1,2) that] by (simp add: registry_def)
  then show ?thesis using hooked_denom_listed [OF assms] hook_pairs_iff by metis
qed

text \<open>C20. In every state that messages lead to from an empty chain the query for all hooks answers
  exactly the hooks of the registry: every denomination that has one, once, with its contract.\<close>

theorem query_all_hooks_exact:
  assumes "env_ok k" "delivered k w0 w" "kv (ctx k) w0 = Map.empty"
    and "query_AllBeforeSendHooksAddresses k w = Ok r"
  shows "length (qa_Denoms r) = length (qa_BeforeSendHookAddresses r)
    \<and> distinct (qa_Denoms r)
    \<and> set (zip (qa_Denoms r) (qa_BeforeSendHookAddresses r))
        = {(d, h). h \<noteq> '''' \<and> reg_hook (registry k w) d = h}"
proof -
  note env = assms(1)
  have empty: "registry k w0 = reg_empty" "bank_knows k w0"
    using env_okD(2) [OF env] by (simp_all add: bank_knows_def registry_def assms(3) reg_empty_def
        GetBeforeSendHook_kv cong: if_cong)
  have inv: "genesis_inv k w"
    using genesis_inv_delivered [OF assms(2) env empty(2)] genesis_inv_empty [OF assms(3)] by blast
  have reg: "reg_inv (sdk k) (registry k w)"
    using delivered_reachable [OF assms(2) env empty(2)] reg_inv_reachable reg_inv_empty empty(1) by metis
  have r: "qa_Denoms r = map fst (hook_pairs k w)" "qa_BeforeSendHookAddresses r = map snd (hook_pairs k w)"
    using assms(4) by (auto simp: query_AllBeforeSendHooksAddresses_def GetAllBeforeSendHooks_def hook_pairs_def Let_def)
  have "set (hook_pairs k w) = {(d, h). h \<noteq> '''' \<and> reg_hook (registry k w) d = h}"
    using hook_pairs_exact [OF env inv reg] by auto
  then show ?thesis using r zip_filter_pairs [of "hook_pairs k w"] distinct_hook_pairs [OF env inv] by simp
qed

text \<open>The query for the denominations of a creator answers exactly the ones the registry lists under
  it, each once, in ascending order.\<close>

theorem query_denoms_exact:
  assumes "env_ok k" "bar_free c" "query_DenomsFromCreator k \<lparr>qc_Creator = c\<rparr> w = Ok r"
  shows "set (qc_Denoms r) = {d. reg_index (registry k w) c d} \<and> sorted (qc_Denoms r) \<and> distinct (qc_Denoms r)"
proof -
  note kvl = env_okD(2) [OF assms(1)]
  let ?it = "StoreIterator (ctx k) w (GetCreatorPrefix c)"
  have r: "qc_Denoms r = map fst ?it"
    using assms(3) by (auto simp: query_DenomsFromCreator_def getDenomsFromCreator_def)
  have "(d, v) \<in> set ?it \<longleftrightarrow> kv (ctx k) w (index_key c d) = Some v" for d v
    using kv_iterator(3) [OF kvl] by (simp add: index_key_def)
  then have "set (map fst ?it) = {d. reg_index (registry k w) c d}"
    using assms(2) by (force simp: registry_def)
  then show ?thesis using r kv_iterator(1,2) [OF kvl] by simp
qed

section \<open>Concrete instances\<close>

theorem query_valid_denom_witness:
  "query_DenomAuthorityMetadata memKeeper \<lparr>qd_Denom = ''factory/lumi1abc/gold''\<rparr> mem1
     = Ok \<lparr>qd_AuthorityMetadata = \<lparr>Admin = ''lumi1abc''\<rparr>\<rparr>"
proof -
  have "ValidateDenom (sdk memKeeper) ''factory/lumi1abc/gold'' = None" unfolding memKeeper_simps by code_simp
  from query_valid_denom [OF mem_env_ok this, of mem1] show ?thesis by (simp add: mem_admin(1))
qed

theorem query_all_hooks_exact_witness:
  "\<exists>r. query_AllBeforeSendHooksAddresses memKeeper mem4 = Ok r \<and>
    (''factory/lumi1abc/gold'', ''lumi1accept'') \<in> set (zip (qa_Denoms r) (qa_BeforeSendHookAddresses r))"
proof -
  have d: "delivered memKeeper mem0 mem4"
    by (rule delivered_msg [OF delivered_msg [OF delivered_start mem2_delivered] mem4_delivered])
  obtain r where r: "query_AllBeforeSendHooksAddresses memKeeper mem4 = Ok r"
    by (cases "GetAllBeforeSendHooks memKeeper mem4") (simp add: query_AllBeforeSendHooksAddresses_def)
  have "reg_hook (registry memKeeper mem4) ''factory/lumi1abc/gold'' = ''lumi1accept''" by (rule mem4_hook)
  with query_all_hooks_exact [OF mem_env_ok d mem0_empty r] r show ?thesis by auto
qed

theorem query_denoms_exact_witness:
  "\<exists>r. query_DenomsFromCreator memKeeper \<lparr>qc_Creator = ''lumi1abc''\<rparr> mem1 = Ok r
    \<and> ''factory/lumi1abc/gold'' \<in> set (qc_Denoms r)"
proof -
  have c: "bar_free ''lumi1abc''" by (simp add: bar_free_def)
  obtain r where r: "query_DenomsFromCreator memKeeper \<lparr>qc_Creator = ''lumi1abc''\<rparr> mem1 = Ok r"
    by (simp add: query_DenomsFromCreator_def)
  have "reg_index (registry memKeeper mem1) ''lumi1abc'' ''factory/lumi1abc/gold''"
    using CreateDenom_kv [OF mem_env_ok mem1_created] c by (simp add: registry_def)
  with query_denoms_exact [OF mem_env_ok c r] r show ?thesis by auto
qed

end
