(* ===== verification/Ledger.thy ===== *)
theory Ledger
  imports Registry
begin

text \<open>
  Runs of messages. \<open>run_msgs\<close> is a chain of transactions with one message each: what a message that
  fails has written is dropped. The supply of a denomination is accounted for by the mint and burn
  messages that went through, and whatever others send, nothing happens to a denomination while its admin
  sends nothing.
\<close>

section \<open>Runs\<close>

fun run_msgs :: "'w Keeper \<Rightarrow> Msg list \<Rightarrow> 'w \<Rightarrow> 'w" where
  "run_msgs k [] w = w"
| "run_msgs k (m # ms) w =
     (case deliver k m w of (Ok _, w') \<Rightarrow> run_msgs k ms w' | _ \<Rightarrow> run_msgs k ms w)"

text \<open>The messages of a run that went through.\<close>

fun delivered_msgs :: "'w Keeper \<Rightarrow> Msg list \<Rightarrow> 'w \<Rightarrow> Msg list" where
  "delivered_msgs k [] w = []"
| "delivered_msgs k (m # ms) w =
     (case deliver k m w of (Ok _, w') \<Rightarrow> m # delivered_msgs k ms w' | _ \<Rightarrow> delivered_msgs k ms w)"

text \<open>What a message adds to the supply of a denomination.\<close>

fun minted :: "string \<Rightarrow> Msg \<Rightarrow> int" where
  "minted d (MMint m) = (if coin_denom (mt_Amount m) = d then coin_amount (mt_Amount m) else 0)"
| "minted d (MBurn m) = (if coin_denom (bn_Amount m) = d then - coin_amount (bn_Amount m) else 0)"
| "minted d _ = 0"

lemma run_msgs_cases:
  obtains (ok) w' where "deliver k m w = (Ok (), w')" "run_msgs k (m # ms) w = run_msgs k ms w'"
    "delivered_msgs k (m # ms) w = m # delivered_msgs k ms w'"
  | (failed) "run_msgs k (m # ms) w = run_msgs k ms w" "delivered_msgs k (m # ms) w = delivered_msgs k ms w"
proof (cases "deliver k m w")
  case (Pair r w')
  with that show ?thesis by (cases r) auto
qed

lemma deliver_minted:
  assumes "supply_ok k supply" "deliver k m w = (Ok u, w')"
  shows "supply w' d = supply w d + minted d m"
  using deliver_supply [OF assms] by (cases m) simp_all

text \<open>Every state of a run is one that messages lead to.\<close>

lemma run_delivered: "delivered k w0 w \<Longrightarrow> delivered k w0 (run_msgs k ms w)"
proof (induction ms arbitrary: w)
  case (Cons m ms)
  then show ?case by (cases rule: run_msgs_cases [of k m w ms]) (auto intro: delivered_msg)
qed simp

text \<open>Nobody has the empty address, so that a delivered message has a sender.\<close>

lemma delivered_sender:
  assumes "env_ok k" "deliver k m w = (Ok u, w')"
  shows "msg_sender m \<noteq> ''''"
proof -
  obtain a where "AccAddressFromBech32 (sdk k) (msg_sender m) = Ok a"
    using assms(2) sender_checked by (auto elim!: deliver_OkE)
  then show ?thesis using env_okD(1) [OF assms(1)] unfolding sdk_laws_def by blast
qed

text \<open>One message of somebody else.\<close>

lemma others_step:
  assumes "env_ok k" "supply_ok k supply" "bank_knows k w" "deliver k m w = (Ok u, w')"
    and "reg_admin (registry k w) d = Some a" "msg_sender m \<noteq> a"
  shows "bank_knows k w'" "reg_admin (registry k w') d = Some a"
    and "reg_hook (registry k w') d = reg_hook (registry k w) d" "supply w' d = supply w d"
proof -
  show "bank_knows k w'" by (rule deliver_known [OF assms(1,3,4)])
  show "reg_admin (registry k w') d = Some a" "reg_hook (registry k w') d = reg_hook (registry k w) d"
    using deliver_step [OF assms(1,3,4)] assms(5,6) by (auto elim!: reg_stepE)
  have kvl: "kv_laws (ctx k)" using env_okD(2) [OF assms(1)] .
  have admin: "GetAuthorityMetadata k d w = Ok \<lparr>Admin = a\<rparr>"
    using assms(5)
    by (auto simp: GetAuthorityMetadata_kv [OF kvl] registry_def admin_cell_def
        split: if_splits option.splits res.splits)
  have h: "handle k m w = (Ok (), w')" using assms(4) by (auto elim: deliver_OkE)
  show "supply w' d = supply w d"
    using deliver_supply [OF assms(2,4)] h admin assms(6)
    by (cases m) (auto dest: mint_gate.gate burn_gate.gate)
qed

section \<open>Properties\<close>

text \<open>C6. The books balance: after any run of messages the supply of a denomination is what it was
  before, and what the mint messages that went through have minted, less what the burn messages that
  went through have burned.\<close>

theorem supply_ledger:
  assumes "supply_ok k supply"
  shows "supply (run_msgs k ms w) d = supply w d + sum_list (map (minted d) (delivered_msgs k ms w))"
proof (induction ms arbitrary: w)
  case (Cons m ms)
  then show ?case by (cases rule: run_msgs_cases [of k m w ms]) (simp_all add: deliver_minted [OF assms])
qed simp

text \<open>C7. A denomination is safe from everybody but its admin: whatever messages others send, in any
  order and number, as long as its admin sends none, the admin, the hook and the supply of the denomination
  stay what they are. A denomination whose admin is empty is fixed for good.\<close>

theorem denom_safe_from_others:
  assumes "env_ok k" "supply_ok k supply" "bank_knows k w" "reg_admin (registry k w) d = Some a"
    and "a \<noteq> '''' \<longrightarrow> (\<forall>m\<in>set ms. msg_sender m \<noteq> a)"
  shows "reg_admin (registry k (run_msgs k ms w)) d = Some a
    \<and> reg_hook (registry k (run_msgs k ms w)) d = reg_hook (registry k w) d
    \<and> supply (run_msgs k ms w) d = supply w d"
  using assms(3-)
proof (induction ms arbitrary: w)
  case (Cons m ms)
  show ?case
  proof (cases rule: run_msgs_cases [of k m w ms])
    case (ok w')
    then have "msg_sender m \<noteq> a"
      using Cons.prems(3) delivered_sender [OF assms(1) ok(1)] by (cases "a = ''''") auto
    note s = others_step [OF assms(1,2) Cons.prems(1) ok(1) Cons.prems(2) this]
    show ?thesis using Cons.IH [OF s(1,2)] Cons.prems(3) s(3,4) ok(2) by simp
  next
    case failed
    then show ?thesis using Cons by simp
  qed
qed simp

section \<open>Concrete instances\<close>

lemma mem2_admin_gold: "reg_admin (registry memKeeper mem2) ''factory/lumi1abc/gold'' = Some ''lumi1abc''"
  by (intro registry_admin mem_admin(2)) (simp_all add: mem_kv_laws bar_free_def)

theorem supply_ledger_witness:
  "mem_supply (run_msgs memKeeper [create_gold, mint_gold ''lumi1abc''] mem0) ''factory/lumi1abc/gold'' = 7"
proof -
  have "delivered_msgs memKeeper [create_gold, mint_gold ''lumi1abc''] mem0 = [create_gold, mint_gold ''lumi1abc'']"
    by (simp add: mem2_delivered mem3_delivered)
  then show ?thesis
    unfolding supply_ledger [OF mem_supply_ok]
    by (simp add: mem0_def create_gold_def mint_gold_def NewMsgMint_def gold_def)
qed

theorem denom_safe_from_others_witness:
  "let w = run_msgs memKeeper [mint_gold ''lumi1xyz'', MCreateDenom (NewMsgCreateDenom ''lumi1xyz'' ''gold''),
     mint_gold ''lumi1xyz''] mem2 in
   reg_admin (registry memKeeper w) ''factory/lumi1abc/gold'' = Some ''lumi1abc'' \<and>
   mem_supply w ''factory/lumi1abc/gold'' = mem_supply mem2 ''factory/lumi1abc/gold''"
  using denom_safe_from_others [OF mem_env_ok mem_supply_ok mem2_known mem2_admin_gold,
      where ms = "[mint_gold ''lumi1xyz'', MCreateDenom (NewMsgCreateDenom ''lumi1xyz'' ''gold''), mint_gold ''lumi1xyz'']"]
  by (simp add: mint_gold_def NewMsgMint_def NewMsgCreateDenom_def del: run_msgs.simps)

end
