(* ===== verification/Rpc.thy ===== *)
theory Rpc
  imports MetaCodec
begin

text \<open>
  What the generated gRPC code of every service shares (the service part of the \<open>.pb.go\<close> files): the
  shape of a method handler, the descriptors that a server registers and the call of a client. The
  transport is a parameter: the connection of a client (\<open>grpc1.ClientConn\<close>), the function \<open>dec\<close> that
  reads the request into a new message and the interceptor.

  A value of type \<open>interface{}\<close> that holds a request or an answer of a service is a value of a datatype
  with one constructor per message type; a type assertion of it is a partial projection.
\<close>

section \<open>Servers\<close>

record 'srv UnaryServerInfo =
  Server :: 'srv
  FullMethod :: string

type_synonym ('srv, 'w, 'req, 'resp) Interceptor =
  "'req \<Rightarrow> 'srv UnaryServerInfo \<Rightarrow> ('req \<Rightarrow> ('w, 'resp) act) \<Rightarrow> ('w, 'resp) act"

definition fmapA :: "('a \<Rightarrow> 'b) \<Rightarrow> ('w, 'a) act \<Rightarrow> ('w, 'b) act" where
  "fmapA f m = bindA m (\<lambda>v. ret (f v))"

text \<open>
  The body of a handler: \<open>decoded\<close> is what \<open>dec\<close> makes of the new request. Without an interceptor the
  method is called, with one the interceptor is, on a handler that asserts the type of its request.
\<close>

definition unary_handler :: "string \<Rightarrow> ('in \<Rightarrow> 'req) \<Rightarrow> ('req \<Rightarrow> 'in option) \<Rightarrow> ('out \<Rightarrow> 'resp) \<Rightarrow>
    ('in \<Rightarrow> ('w, 'out) act) \<Rightarrow> 'in res \<Rightarrow> 'srv \<Rightarrow> ('srv, 'w, 'req, 'resp) Interceptor option \<Rightarrow>
    ('w, 'resp) act" where
  "unary_handler method wrap assert out call decoded srv interceptor =
     bindA (lift decoded) (\<lambda>m.
       (case interceptor of
          None \<Rightarrow> fmapA out (call m)
        | Some ic \<Rightarrow> ic (wrap m) \<lparr>Server = srv, FullMethod = method\<rparr>
            (\<lambda>req. case assert req of
                Some m \<Rightarrow> fmapA out (call m)
              | None \<Rightarrow> panic ''interface conversion'')))"

record ('srv, 'dec, 'w, 'req, 'resp) MethodDesc =
  MethodName :: string
  Handler :: "'srv \<Rightarrow> 'dec \<Rightarrow> ('srv, 'w, 'req, 'resp) Interceptor option \<Rightarrow> ('w, 'resp) act"

record ('srv, 'dec, 'w, 'req, 'resp) ServiceDesc =
  ServiceName :: string
  Methods :: "('srv, 'dec, 'w, 'req, 'resp) MethodDesc list"
  FileName :: string

text \<open>\<open>status.Errorf(codes.Unimplemented, "method %s not implemented")\<close>\<close>

definition unimplemented :: "string \<Rightarrow> ('w, 'a) act" where
  "unimplemented method = throw (Errorf
     (''rpc error: code = Unimplemented desc = method '' @ method @ '' not implemented''))"

section \<open>Clients\<close>

text \<open>
  \<open>Invoke\<close> gets what \<open>Marshal\<close> of the request returns and gives the bytes of the answer; \<open>'c\<close> is the
  context of the call, \<open>'x\<close> what the call leaves next to its answer (a state or the metadata).
\<close>

record ('c, 'x) ClientConn =
  Invoke :: "string \<Rightarrow> bytes res \<Rightarrow> 'c \<Rightarrow> bytes res \<times> 'x"

definition call_method :: "('c, 'x) ClientConn \<Rightarrow> string \<Rightarrow> bytes res \<Rightarrow> (bytes \<Rightarrow> 'out res) \<Rightarrow>
    'c \<Rightarrow> 'out res \<times> 'x" where
  "call_method cc method inp out c = (let (r, x) = Invoke cc method inp c in (bindR r out, x))"

section \<open>The transport\<close>

text \<open>
  What gRPC documents of a connection to a server that has registered \<open>srv\<close> for the service \<open>sd\<close>: a call
  of \<open>/service/method\<close> runs the handler of this method on the request it decodes (\<open>dec\<close>), a successful
  answer comes back as its bytes (\<open>enc\<close>), and an error comes back as an error (a status, with a text and
  a code that gRPC chooses).
\<close>

definition full_method :: "('srv, 'dec, 'w, 'req, 'resp) ServiceDesc \<Rightarrow> string \<Rightarrow> string" where
  "full_method sd name = CHR ''/'' # ServiceName sd @ CHR ''/'' # name"

lemma full_method_eq [simp]: "full_method sd a = full_method sd b \<longleftrightarrow> a = b"
  by (simp add: full_method_def)

definition serves :: "('w, 'x) ClientConn \<Rightarrow> ('srv, 'dec, 'w, 'req, 'resp) ServiceDesc \<Rightarrow> 'srv \<Rightarrow>
    (bytes \<Rightarrow> 'dec) \<Rightarrow> ('resp \<Rightarrow> bytes res) \<Rightarrow> ('w \<Rightarrow> 'x) \<Rightarrow> bool" where
  "serves cc sd srv dec enc leave \<longleftrightarrow>
     (\<forall>d \<in> set (Methods sd). \<forall>bz w w'.
        (\<forall>r b. Handler d srv (dec bz) None w = (Ok r, w') \<and> enc r = Ok b \<longrightarrow>
           Invoke cc (full_method sd (MethodName d)) (Ok bz) w = (Ok b, leave w')) \<and>
        (\<forall>e. Handler d srv (dec bz) None w = (Err e, w') \<longrightarrow>
           (\<exists>e'. Invoke cc (full_method sd (MethodName d)) (Ok bz) w = (Err e', leave w'))))"

lemma served_call:
  assumes "serves cc sd srv dec enc leave" "d \<in> set (Methods sd)"
    and "Handler d srv (dec bz) None w = (Ok r, w')" "enc r = Ok b" "inp = Ok bz"
  shows "call_method cc (full_method sd (MethodName d)) inp out w = (out b, leave w')"
  using assms by (auto simp: serves_def call_method_def)

lemma served_error:
  assumes "serves cc sd srv dec enc leave" "d \<in> set (Methods sd)"
    and "Handler d srv (dec bz) None w = (Err e, w')" "inp = Ok bz"
  shows "\<exists>e'. call_method cc (full_method sd (MethodName d)) inp out w = (Err e', leave w')"
  using assms by (fastforce simp: serves_def call_method_def)

lemma unary_handler_direct:
  "call m w = (Ok v, w') \<Longrightarrow> unary_handler method wrap assert out call (Ok m) srv None w = (Ok (out v), w')"
  by (simp add: unary_handler_def fmapA_def bindA_run)

text \<open>An interceptor that calls the handler it is given on a request of its own, as the message router of
  the SDK does.\<close>

lemma unary_handler_routed:
  "assert req = Some m \<Longrightarrow>
   unary_handler method wrap assert out call (Ok m0) srv (Some (\<lambda>_ _ h. h req)) = fmapA out (call m)"
  by (rule ext) (simp add: unary_handler_def)

lemma unary_handler_request:
  "unary_handler method wrap assert out call (Err e) srv interceptor w = (Err e, w)"
  by (simp add: unary_handler_def)

text \<open>A call of a method through both ends of the generated code and the codecs of its two messages.\<close>

lemma client_call:
  assumes "serves cc sd srv dec enc leave" "\<lparr>MethodName = name, Handler = H\<rparr> \<in> set (Methods sd)"
    and "H srv (dec bz) None w = (Ok r, w')" "enc r = Ok b" "un b = Ok v"
    and "inp = Ok bz" "method = full_method sd name"
  shows "call_method cc method inp un w = (Ok v, leave w')"
  using served_call [OF assms(1,2), of bz w r w' b inp un] assms(3-) by simp

lemma client_error:
  assumes "serves cc sd srv dec enc leave" "\<lparr>MethodName = name, Handler = H\<rparr> \<in> set (Methods sd)"
    and "H srv (dec bz) None w = (Err e, w')" "inp = Ok bz" "method = full_method sd name"
  shows "\<exists>e'. call_method cc method inp un w = (Err e', leave w')"
  using served_error [OF assms(1,2), of bz w e w' inp un] assms(3-) by simp

end
