(* ===== verification/TxCodec.thy ===== *)
theory TxCodec
  imports MetaCodec
begin

text \<open>
  The generated codecs of the transaction messages and their responses
  (x/tokenfactory/types/tx.pb.go). Amounts are encoded by the SDK's \<open>Coin\<close> and denom metadata by
    the
  bank's \<open>Metadata\<close>: codecs \<open>C\<close> that are parameters, with encoding \<open>e\<close> on the values \<open>k\<close>.
\<close>

section \<open>MsgCreateDenom\<close>

definition MsgCreateDenom_Size :: "MsgCreateDenom \<Rightarrow> nat" where
  "MsgCreateDenom_Size m = size_string (cd_Sender m) + size_string (cd_Subdenom m)"

definition MsgCreateDenom_MarshalToSizedBuffer :: "MsgCreateDenom \<Rightarrow> bytes \<Rightarrow> (bytes \<times> nat) res"
  where
  "MsgCreateDenom_MarshalToSizedBuffer m = to_sized_buffer
    [b_string 0x12 (cd_Subdenom m),
     b_string 0x0a (cd_Sender m)]"

definition MsgCreateDenom_Marshal :: "MsgCreateDenom \<Rightarrow> bytes res" where
  "MsgCreateDenom_Marshal = marshal MsgCreateDenom_Size MsgCreateDenom_MarshalToSizedBuffer"

definition MsgCreateDenom_fields :: "(int \<times> MsgCreateDenom field) list" where
  "MsgCreateDenom_fields =
    [(1, FString ''Sender'' (\<lambda>v m. m\<lparr>cd_Sender := v\<rparr>)),
     (2, FString ''Subdenom'' (\<lambda>v m. m\<lparr>cd_Subdenom := v\<rparr>))]"

definition MsgCreateDenom_Unmarshal :: "bytes \<Rightarrow> MsgCreateDenom \<Rightarrow> MsgCreateDenom res" where
  "MsgCreateDenom_Unmarshal = unmarshal ''MsgCreateDenom'' MsgCreateDenom_fields"

definition MsgCreateDenom_zero :: "MsgCreateDenom" where
  "MsgCreateDenom_zero = \<lparr>cd_Sender = [], cd_Subdenom = []\<rparr>"

definition MsgCreateDenom_enc :: "MsgCreateDenom \<Rightarrow> bytes" where
  "MsgCreateDenom_enc m =
     pbs 0x0a (cd_Sender m) @
     pbs 0x12 (cd_Subdenom m)"

definition MsgCreateDenom_ok :: "MsgCreateDenom \<Rightarrow> bool" where
  "MsgCreateDenom_ok m \<longleftrightarrow> length (MsgCreateDenom_enc m) < 2 ^ 63"

lemma MsgCreateDenom_reads:
  "reads name MsgCreateDenom_fields (MsgCreateDenom_enc m) MsgCreateDenom_zero m"
proof -
  let ?z0 = "MsgCreateDenom_zero"
  let ?z1 = "?z0\<lparr>cd_Sender := cd_Sender m\<rparr>"
  let ?z2 = "?z1\<lparr>cd_Subdenom := cd_Subdenom m\<rparr>"
  have r1: "reads name MsgCreateDenom_fields (pbs 0x0a (cd_Sender m)) ?z0 ?z1"
    by (rule reads_stringI)
      (simp_all add: MsgCreateDenom_fields_def MsgCreateDenom_zero_def)
  have r2: "reads name MsgCreateDenom_fields (pbs 0x12 (cd_Subdenom m)) ?z1 ?z2"
    by (rule reads_stringI)
      (simp_all add: MsgCreateDenom_fields_def MsgCreateDenom_zero_def)
  show ?thesis
    using reads_append [OF r1 r2]
    by (cases m) (simp add: MsgCreateDenom_enc_def MsgCreateDenom_zero_def)
qed

interpretation createdenom: pb_message MsgCreateDenom_Size MsgCreateDenom_MarshalToSizedBuffer
  MsgCreateDenom_Unmarshal MsgCreateDenom_zero MsgCreateDenom_enc MsgCreateDenom_ok
  unfolding MsgCreateDenom_MarshalToSizedBuffer_def [abs_def] MsgCreateDenom_Unmarshal_def
  by (rule pb_messageI [where outs = "\<lambda>m.
      [pbs 0x12 (cd_Subdenom m), pbs 0x0a (cd_Sender m)]"])
    (auto simp: MsgCreateDenom_Size_def MsgCreateDenom_ok_def MsgCreateDenom_enc_def
      intro!: MsgCreateDenom_reads [unfolded MsgCreateDenom_ok_def MsgCreateDenom_enc_def]
        writes_intros )

section \<open>MsgCreateDenomResponse\<close>

definition MsgCreateDenomResponse_Size :: "MsgCreateDenomResponse \<Rightarrow> nat" where
  "MsgCreateDenomResponse_Size m = size_string (cd_NewTokenDenom m)"

definition MsgCreateDenomResponse_MarshalToSizedBuffer :: "MsgCreateDenomResponse \<Rightarrow> bytes \<Rightarrow>
  (bytes \<times> nat) res" where
  "MsgCreateDenomResponse_MarshalToSizedBuffer m = to_sized_buffer
    [b_string 0x0a (cd_NewTokenDenom m)]"

definition MsgCreateDenomResponse_Marshal :: "MsgCreateDenomResponse \<Rightarrow> bytes res" where
  "MsgCreateDenomResponse_Marshal = marshal MsgCreateDenomResponse_Size
    MsgCreateDenomResponse_MarshalToSizedBuffer"

definition MsgCreateDenomResponse_fields :: "(int \<times> MsgCreateDenomResponse field) list" where
  "MsgCreateDenomResponse_fields =
    [(1, FString ''NewTokenDenom'' (\<lambda>v m. m\<lparr>cd_NewTokenDenom := v\<rparr>))]"

definition MsgCreateDenomResponse_Unmarshal :: "bytes \<Rightarrow> MsgCreateDenomResponse \<Rightarrow>
  MsgCreateDenomResponse res" where
  "MsgCreateDenomResponse_Unmarshal = unmarshal ''MsgCreateDenomResponse''
    MsgCreateDenomResponse_fields"

definition MsgCreateDenomResponse_zero :: "MsgCreateDenomResponse" where
  "MsgCreateDenomResponse_zero = \<lparr>cd_NewTokenDenom = []\<rparr>"

definition MsgCreateDenomResponse_enc :: "MsgCreateDenomResponse \<Rightarrow> bytes" where
  "MsgCreateDenomResponse_enc m =
     pbs 0x0a (cd_NewTokenDenom m)"

definition MsgCreateDenomResponse_ok :: "MsgCreateDenomResponse \<Rightarrow> bool" where
  "MsgCreateDenomResponse_ok m \<longleftrightarrow> length (MsgCreateDenomResponse_enc m) < 2 ^ 63"

lemma MsgCreateDenomResponse_reads:
  "reads name MsgCreateDenomResponse_fields (MsgCreateDenomResponse_enc m)
    MsgCreateDenomResponse_zero m"
proof -
  let ?z0 = "MsgCreateDenomResponse_zero"
  let ?z1 = "?z0\<lparr>cd_NewTokenDenom := cd_NewTokenDenom m\<rparr>"
  have r1: "reads name MsgCreateDenomResponse_fields (pbs 0x0a (cd_NewTokenDenom m)) ?z0 ?z1"
    by (rule reads_stringI)
      (simp_all add: MsgCreateDenomResponse_fields_def MsgCreateDenomResponse_zero_def)
  show ?thesis
    using r1
    by (cases m) (simp add: MsgCreateDenomResponse_enc_def MsgCreateDenomResponse_zero_def)
qed

interpretation createdenomresp: pb_message MsgCreateDenomResponse_Size
  MsgCreateDenomResponse_MarshalToSizedBuffer
  MsgCreateDenomResponse_Unmarshal MsgCreateDenomResponse_zero MsgCreateDenomResponse_enc
    MsgCreateDenomResponse_ok
  unfolding MsgCreateDenomResponse_MarshalToSizedBuffer_def [abs_def]
    MsgCreateDenomResponse_Unmarshal_def
  by (rule pb_messageI [where outs = "\<lambda>m.
      [pbs 0x0a (cd_NewTokenDenom m)]"])
    (auto simp: MsgCreateDenomResponse_Size_def MsgCreateDenomResponse_ok_def
      MsgCreateDenomResponse_enc_def
      intro!: MsgCreateDenomResponse_reads [unfolded MsgCreateDenomResponse_ok_def
        MsgCreateDenomResponse_enc_def] writes_intros )

section \<open>MsgMint\<close>

definition MsgMint_Size :: "Coin Codec \<Rightarrow> MsgMint \<Rightarrow> nat" where
  "MsgMint_Size C m = size_string (mt_Sender m) + size_msg (cSize C (mt_Amount m)) + size_string
    (mt_MintToAddress m)"

definition MsgMint_MarshalToSizedBuffer :: "Coin Codec \<Rightarrow> MsgMint \<Rightarrow> bytes \<Rightarrow> (bytes \<times> nat) res"
  where
  "MsgMint_MarshalToSizedBuffer C m = to_sized_buffer
    [b_string 0x1a (mt_MintToAddress m),
     b_msg 0x12 (cToSized C (mt_Amount m)),
     b_string 0x0a (mt_Sender m)]"

definition MsgMint_Marshal :: "Coin Codec \<Rightarrow> MsgMint \<Rightarrow> bytes res" where
  "MsgMint_Marshal C = marshal (MsgMint_Size C) (MsgMint_MarshalToSizedBuffer C)"

definition MsgMint_fields :: "Coin Codec \<Rightarrow> (int \<times> MsgMint field) list" where
  "MsgMint_fields C =
    [(1, FString ''Sender'' (\<lambda>v m. m\<lparr>mt_Sender := v\<rparr>)),
     (2, FMsg ''Amount'' (\<lambda>bs m.
       bindR (cUnmarshal C bs (mt_Amount m)) (\<lambda>v. Ok (m\<lparr>mt_Amount := v\<rparr>)))),
     (3, FString ''MintToAddress'' (\<lambda>v m. m\<lparr>mt_MintToAddress := v\<rparr>))]"

definition MsgMint_Unmarshal :: "Coin Codec \<Rightarrow> bytes \<Rightarrow> MsgMint \<Rightarrow> MsgMint res" where
  "MsgMint_Unmarshal C = unmarshal ''MsgMint'' (MsgMint_fields C)"

definition MsgMint_zero :: "Coin Codec \<Rightarrow> MsgMint" where
  "MsgMint_zero C = \<lparr>mt_Sender = [], mt_Amount = cZero C, mt_MintToAddress = []\<rparr>"

definition MsgMint_enc :: "(Coin \<Rightarrow> bytes) \<Rightarrow> MsgMint \<Rightarrow> bytes" where
  "MsgMint_enc e m =
     pbs 0x0a (mt_Sender m) @
     pbm 0x12 (e (mt_Amount m)) @
     pbs 0x1a (mt_MintToAddress m)"

definition MsgMint_ok :: "(Coin \<Rightarrow> bytes) \<Rightarrow> (Coin \<Rightarrow> bool) \<Rightarrow> MsgMint \<Rightarrow> bool" where
  "MsgMint_ok e k m \<longleftrightarrow> k (mt_Amount m) \<and>
     length (MsgMint_enc e m) < 2 ^ 63"

lemma MsgMint_reads:
  assumes "codec_laws C e k" "MsgMint_ok e k m"
  shows "reads name (MsgMint_fields C) (MsgMint_enc e m) (MsgMint_zero C) m"
proof -
  let ?z0 = "MsgMint_zero C"
  let ?z1 = "?z0\<lparr>mt_Sender := mt_Sender m\<rparr>"
  let ?z2 = "?z1\<lparr>mt_Amount := mt_Amount m\<rparr>"
  let ?z3 = "?z2\<lparr>mt_MintToAddress := mt_MintToAddress m\<rparr>"
  note laws = codec_law(4) [OF assms(1)]
  note okm = assms(2) [unfolded MsgMint_ok_def]
  have r1: "reads name (MsgMint_fields C) (pbs 0x0a (mt_Sender m)) ?z0 ?z1"
    by (rule reads_stringI)
      (simp_all add: MsgMint_fields_def MsgMint_zero_def)
  have r2: "reads name (MsgMint_fields C) (pbm 0x12 (e (mt_Amount m))) ?z1 ?z2"
    using okm by (intro reads_msgI)
      (simp_all add: MsgMint_fields_def MsgMint_zero_def laws)
  have r3: "reads name (MsgMint_fields C) (pbs 0x1a (mt_MintToAddress m)) ?z2 ?z3"
    by (rule reads_stringI)
      (simp_all add: MsgMint_fields_def MsgMint_zero_def)
  show ?thesis
    using reads_append [OF r1 reads_append [OF r2 r3]]
    by (cases m) (simp add: MsgMint_enc_def MsgMint_zero_def)
qed

definition MsgMint_codec :: "Coin Codec \<Rightarrow> MsgMint Codec" where
  "MsgMint_codec C = \<lparr>cSize = MsgMint_Size C, cToSized = MsgMint_MarshalToSizedBuffer C,
     cUnmarshal = MsgMint_Unmarshal C, cZero = MsgMint_zero C\<rparr>"

lemma MsgMint_codec_laws:
  assumes "codec_laws C e k"
  shows "codec_laws (MsgMint_codec C) (MsgMint_enc e) (MsgMint_ok e k)"
  unfolding codec_laws_def MsgMint_codec_def Codec.simps
    MsgMint_MarshalToSizedBuffer_def [abs_def] MsgMint_Unmarshal_def
  by (rule pb_messageI [where outs = "\<lambda>m.
      [pbs 0x1a (mt_MintToAddress m), pbm 0x12 (e (mt_Amount m)), pbs 0x0a (mt_Sender m)]"])
    (auto simp: MsgMint_Size_def MsgMint_ok_def MsgMint_enc_def codec_law(1) [OF assms]
      codec_law(2) [OF assms]
      intro!: MsgMint_reads [OF assms, unfolded MsgMint_ok_def MsgMint_enc_def] writes_intros )

section \<open>MsgMintResponse\<close>

definition MsgMintResponse_Size :: "unit \<Rightarrow> nat" where
  "MsgMintResponse_Size m = 0"

definition MsgMintResponse_MarshalToSizedBuffer :: "unit \<Rightarrow> bytes \<Rightarrow> (bytes \<times> nat) res" where
  "MsgMintResponse_MarshalToSizedBuffer m = to_sized_buffer
    []"

definition MsgMintResponse_Marshal :: "unit \<Rightarrow> bytes res" where
  "MsgMintResponse_Marshal = marshal MsgMintResponse_Size MsgMintResponse_MarshalToSizedBuffer"

definition MsgMintResponse_fields :: "(int \<times> unit field) list" where
  "MsgMintResponse_fields =
    []"

definition MsgMintResponse_Unmarshal :: "bytes \<Rightarrow> unit \<Rightarrow> unit res" where
  "MsgMintResponse_Unmarshal = unmarshal ''MsgMintResponse'' MsgMintResponse_fields"

definition MsgMintResponse_zero :: "unit" where
  "MsgMintResponse_zero = ()"

definition MsgMintResponse_enc :: "unit \<Rightarrow> bytes" where
  "MsgMintResponse_enc m =
     []"

definition MsgMintResponse_ok :: "unit \<Rightarrow> bool" where
  "MsgMintResponse_ok m \<longleftrightarrow> True"

interpretation mintresp: pb_message MsgMintResponse_Size MsgMintResponse_MarshalToSizedBuffer
  MsgMintResponse_Unmarshal MsgMintResponse_zero MsgMintResponse_enc MsgMintResponse_ok
  unfolding MsgMintResponse_MarshalToSizedBuffer_def [abs_def] MsgMintResponse_Unmarshal_def
  by (rule pb_messageI [where outs = "\<lambda>m. []"])
    (simp_all add: MsgMintResponse_Size_def MsgMintResponse_enc_def MsgMintResponse_fields_def
      MsgMintResponse_zero_def reads_Nil)

section \<open>MsgBurn\<close>

definition MsgBurn_Size :: "Coin Codec \<Rightarrow> MsgBurn \<Rightarrow> nat" where
  "MsgBurn_Size C m = size_string (bn_Sender m) + size_msg (cSize C (bn_Amount m)) + size_string
    (bn_BurnFromAddress m)"

definition MsgBurn_MarshalToSizedBuffer :: "Coin Codec \<Rightarrow> MsgBurn \<Rightarrow> bytes \<Rightarrow> (bytes \<times> nat) res"
  where
  "MsgBurn_MarshalToSizedBuffer C m = to_sized_buffer
    [b_string 0x1a (bn_BurnFromAddress m),
     b_msg 0x12 (cToSized C (bn_Amount m)),
     b_string 0x0a (bn_Sender m)]"

definition MsgBurn_Marshal :: "Coin Codec \<Rightarrow> MsgBurn \<Rightarrow> bytes res" where
  "MsgBurn_Marshal C = marshal (MsgBurn_Size C) (MsgBurn_MarshalToSizedBuffer C)"

definition MsgBurn_fields :: "Coin Codec \<Rightarrow> (int \<times> MsgBurn field) list" where
  "MsgBurn_fields C =
    [(1, FString ''Sender'' (\<lambda>v m. m\<lparr>bn_Sender := v\<rparr>)),
     (2, FMsg ''Amount'' (\<lambda>bs m.
       bindR (cUnmarshal C bs (bn_Amount m)) (\<lambda>v. Ok (m\<lparr>bn_Amount := v\<rparr>)))),
     (3, FString ''BurnFromAddress'' (\<lambda>v m. m\<lparr>bn_BurnFromAddress := v\<rparr>))]"

definition MsgBurn_Unmarshal :: "Coin Codec \<Rightarrow> bytes \<Rightarrow> MsgBurn \<Rightarrow> MsgBurn res" where
  "MsgBurn_Unmarshal C = unmarshal ''MsgBurn'' (MsgBurn_fields C)"

definition MsgBurn_zero :: "Coin Codec \<Rightarrow> MsgBurn" where
  "MsgBurn_zero C = \<lparr>bn_Sender = [], bn_Amount = cZero C, bn_BurnFromAddress = []\<rparr>"

definition MsgBurn_enc :: "(Coin \<Rightarrow> bytes) \<Rightarrow> MsgBurn \<Rightarrow> bytes" where
  "MsgBurn_enc e m =
     pbs 0x0a (bn_Sender m) @
     pbm 0x12 (e (bn_Amount m)) @
     pbs 0x1a (bn_BurnFromAddress m)"

definition MsgBurn_ok :: "(Coin \<Rightarrow> bytes) \<Rightarrow> (Coin \<Rightarrow> bool) \<Rightarrow> MsgBurn \<Rightarrow> bool" where
  "MsgBurn_ok e k m \<longleftrightarrow> k (bn_Amount m) \<and>
     length (MsgBurn_enc e m) < 2 ^ 63"

lemma MsgBurn_reads:
  assumes "codec_laws C e k" "MsgBurn_ok e k m"
  shows "reads name (MsgBurn_fields C) (MsgBurn_enc e m) (MsgBurn_zero C) m"
proof -
  let ?z0 = "MsgBurn_zero C"
  let ?z1 = "?z0\<lparr>bn_Sender := bn_Sender m\<rparr>"
  let ?z2 = "?z1\<lparr>bn_Amount := bn_Amount m\<rparr>"
  let ?z3 = "?z2\<lparr>bn_BurnFromAddress := bn_BurnFromAddress m\<rparr>"
  note laws = codec_law(4) [OF assms(1)]
  note okm = assms(2) [unfolded MsgBurn_ok_def]
  have r1: "reads name (MsgBurn_fields C) (pbs 0x0a (bn_Sender m)) ?z0 ?z1"
    by (rule reads_stringI)
      (simp_all add: MsgBurn_fields_def MsgBurn_zero_def)
  have r2: "reads name (MsgBurn_fields C) (pbm 0x12 (e (bn_Amount m))) ?z1 ?z2"
    using okm by (intro reads_msgI)
      (simp_all add: MsgBurn_fields_def MsgBurn_zero_def laws)
  have r3: "reads name (MsgBurn_fields C) (pbs 0x1a (bn_BurnFromAddress m)) ?z2 ?z3"
    by (rule reads_stringI)
      (simp_all add: MsgBurn_fields_def MsgBurn_zero_def)
  show ?thesis
    using reads_append [OF r1 reads_append [OF r2 r3]]
    by (cases m) (simp add: MsgBurn_enc_def MsgBurn_zero_def)
qed

definition MsgBurn_codec :: "Coin Codec \<Rightarrow> MsgBurn Codec" where
  "MsgBurn_codec C = \<lparr>cSize = MsgBurn_Size C, cToSized = MsgBurn_MarshalToSizedBuffer C,
     cUnmarshal = MsgBurn_Unmarshal C, cZero = MsgBurn_zero C\<rparr>"

lemma MsgBurn_codec_laws:
  assumes "codec_laws C e k"
  shows "codec_laws (MsgBurn_codec C) (MsgBurn_enc e) (MsgBurn_ok e k)"
  unfolding codec_laws_def MsgBurn_codec_def Codec.simps
    MsgBurn_MarshalToSizedBuffer_def [abs_def] MsgBurn_Unmarshal_def
  by (rule pb_messageI [where outs = "\<lambda>m.
      [pbs 0x1a (bn_BurnFromAddress m), pbm 0x12 (e (bn_Amount m)), pbs 0x0a (bn_Sender m)]"])
    (auto simp: MsgBurn_Size_def MsgBurn_ok_def MsgBurn_enc_def codec_law(1) [OF assms]
      codec_law(2) [OF assms]
      intro!: MsgBurn_reads [OF assms, unfolded MsgBurn_ok_def MsgBurn_enc_def] writes_intros )

section \<open>MsgBurnResponse\<close>

definition MsgBurnResponse_Size :: "unit \<Rightarrow> nat" where
  "MsgBurnResponse_Size m = 0"

definition MsgBurnResponse_MarshalToSizedBuffer :: "unit \<Rightarrow> bytes \<Rightarrow> (bytes \<times> nat) res" where
  "MsgBurnResponse_MarshalToSizedBuffer m = to_sized_buffer
    []"

definition MsgBurnResponse_Marshal :: "unit \<Rightarrow> bytes res" where
  "MsgBurnResponse_Marshal = marshal MsgBurnResponse_Size MsgBurnResponse_MarshalToSizedBuffer"

definition MsgBurnResponse_fields :: "(int \<times> unit field) list" where
  "MsgBurnResponse_fields =
    []"

definition MsgBurnResponse_Unmarshal :: "bytes \<Rightarrow> unit \<Rightarrow> unit res" where
  "MsgBurnResponse_Unmarshal = unmarshal ''MsgBurnResponse'' MsgBurnResponse_fields"

definition MsgBurnResponse_zero :: "unit" where
  "MsgBurnResponse_zero = ()"

definition MsgBurnResponse_enc :: "unit \<Rightarrow> bytes" where
  "MsgBurnResponse_enc m =
     []"

definition MsgBurnResponse_ok :: "unit \<Rightarrow> bool" where
  "MsgBurnResponse_ok m \<longleftrightarrow> True"

interpretation burnresp: pb_message MsgBurnResponse_Size MsgBurnResponse_MarshalToSizedBuffer
  MsgBurnResponse_Unmarshal MsgBurnResponse_zero MsgBurnResponse_enc MsgBurnResponse_ok
  unfolding MsgBurnResponse_MarshalToSizedBuffer_def [abs_def] MsgBurnResponse_Unmarshal_def
  by (rule pb_messageI [where outs = "\<lambda>m. []"])
    (simp_all add: MsgBurnResponse_Size_def MsgBurnResponse_enc_def MsgBurnResponse_fields_def
      MsgBurnResponse_zero_def reads_Nil)

section \<open>MsgChangeAdmin\<close>

definition MsgChangeAdmin_Size :: "MsgChangeAdmin \<Rightarrow> nat" where
  "MsgChangeAdmin_Size m = size_string (ca_Sender m) + size_string (ca_Denom m) + size_string
    (ca_NewAdmin m)"

definition MsgChangeAdmin_MarshalToSizedBuffer :: "MsgChangeAdmin \<Rightarrow> bytes \<Rightarrow> (bytes \<times> nat) res"
  where
  "MsgChangeAdmin_MarshalToSizedBuffer m = to_sized_buffer
    [b_string 0x1a (ca_NewAdmin m),
     b_string 0x12 (ca_Denom m),
     b_string 0x0a (ca_Sender m)]"

definition MsgChangeAdmin_Marshal :: "MsgChangeAdmin \<Rightarrow> bytes res" where
  "MsgChangeAdmin_Marshal = marshal MsgChangeAdmin_Size MsgChangeAdmin_MarshalToSizedBuffer"

definition MsgChangeAdmin_fields :: "(int \<times> MsgChangeAdmin field) list" where
  "MsgChangeAdmin_fields =
    [(1, FString ''Sender'' (\<lambda>v m. m\<lparr>ca_Sender := v\<rparr>)),
     (2, FString ''Denom'' (\<lambda>v m. m\<lparr>ca_Denom := v\<rparr>)),
     (3, FString ''NewAdmin'' (\<lambda>v m. m\<lparr>ca_NewAdmin := v\<rparr>))]"

definition MsgChangeAdmin_Unmarshal :: "bytes \<Rightarrow> MsgChangeAdmin \<Rightarrow> MsgChangeAdmin res" where
  "MsgChangeAdmin_Unmarshal = unmarshal ''MsgChangeAdmin'' MsgChangeAdmin_fields"

definition MsgChangeAdmin_zero :: "MsgChangeAdmin" where
  "MsgChangeAdmin_zero = \<lparr>ca_Sender = [], ca_Denom = [], ca_NewAdmin = []\<rparr>"

definition MsgChangeAdmin_enc :: "MsgChangeAdmin \<Rightarrow> bytes" where
  "MsgChangeAdmin_enc m =
     pbs 0x0a (ca_Sender m) @
     pbs 0x12 (ca_Denom m) @
     pbs 0x1a (ca_NewAdmin m)"

definition MsgChangeAdmin_ok :: "MsgChangeAdmin \<Rightarrow> bool" where
  "MsgChangeAdmin_ok m \<longleftrightarrow> length (MsgChangeAdmin_enc m) < 2 ^ 63"

lemma MsgChangeAdmin_reads:
  "reads name MsgChangeAdmin_fields (MsgChangeAdmin_enc m) MsgChangeAdmin_zero m"
proof -
  let ?z0 = "MsgChangeAdmin_zero"
  let ?z1 = "?z0\<lparr>ca_Sender := ca_Sender m\<rparr>"
  let ?z2 = "?z1\<lparr>ca_Denom := ca_Denom m\<rparr>"
  let ?z3 = "?z2\<lparr>ca_NewAdmin := ca_NewAdmin m\<rparr>"
  have r1: "reads name MsgChangeAdmin_fields (pbs 0x0a (ca_Sender m)) ?z0 ?z1"
    by (rule reads_stringI)
      (simp_all add: MsgChangeAdmin_fields_def MsgChangeAdmin_zero_def)
  have r2: "reads name MsgChangeAdmin_fields (pbs 0x12 (ca_Denom m)) ?z1 ?z2"
    by (rule reads_stringI)
      (simp_all add: MsgChangeAdmin_fields_def MsgChangeAdmin_zero_def)
  have r3: "reads name MsgChangeAdmin_fields (pbs 0x1a (ca_NewAdmin m)) ?z2 ?z3"
    by (rule reads_stringI)
      (simp_all add: MsgChangeAdmin_fields_def MsgChangeAdmin_zero_def)
  show ?thesis
    using reads_append [OF r1 reads_append [OF r2 r3]]
    by (cases m) (simp add: MsgChangeAdmin_enc_def MsgChangeAdmin_zero_def)
qed

interpretation changeadmin: pb_message MsgChangeAdmin_Size MsgChangeAdmin_MarshalToSizedBuffer
  MsgChangeAdmin_Unmarshal MsgChangeAdmin_zero MsgChangeAdmin_enc MsgChangeAdmin_ok
  unfolding MsgChangeAdmin_MarshalToSizedBuffer_def [abs_def] MsgChangeAdmin_Unmarshal_def
  by (rule pb_messageI [where outs = "\<lambda>m.
      [pbs 0x1a (ca_NewAdmin m), pbs 0x12 (ca_Denom m), pbs 0x0a (ca_Sender m)]"])
    (auto simp: MsgChangeAdmin_Size_def MsgChangeAdmin_ok_def MsgChangeAdmin_enc_def
      intro!: MsgChangeAdmin_reads [unfolded MsgChangeAdmin_ok_def MsgChangeAdmin_enc_def]
        writes_intros )

section \<open>MsgChangeAdminResponse\<close>

definition MsgChangeAdminResponse_Size :: "unit \<Rightarrow> nat" where
  "MsgChangeAdminResponse_Size m = 0"

definition MsgChangeAdminResponse_MarshalToSizedBuffer :: "unit \<Rightarrow> bytes \<Rightarrow> (bytes \<times> nat) res" where
  "MsgChangeAdminResponse_MarshalToSizedBuffer m = to_sized_buffer
    []"

definition MsgChangeAdminResponse_Marshal :: "unit \<Rightarrow> bytes res" where
  "MsgChangeAdminResponse_Marshal = marshal MsgChangeAdminResponse_Size
    MsgChangeAdminResponse_MarshalToSizedBuffer"

definition MsgChangeAdminResponse_fields :: "(int \<times> unit field) list" where
  "MsgChangeAdminResponse_fields =
    []"

definition MsgChangeAdminResponse_Unmarshal :: "bytes \<Rightarrow> unit \<Rightarrow> unit res" where
  "MsgChangeAdminResponse_Unmarshal = unmarshal ''MsgChangeAdminResponse''
    MsgChangeAdminResponse_fields"

definition MsgChangeAdminResponse_zero :: "unit" where
  "MsgChangeAdminResponse_zero = ()"

definition MsgChangeAdminResponse_enc :: "unit \<Rightarrow> bytes" where
  "MsgChangeAdminResponse_enc m =
     []"

definition MsgChangeAdminResponse_ok :: "unit \<Rightarrow> bool" where
  "MsgChangeAdminResponse_ok m \<longleftrightarrow> True"

interpretation changeadminresp: pb_message MsgChangeAdminResponse_Size
  MsgChangeAdminResponse_MarshalToSizedBuffer
  MsgChangeAdminResponse_Unmarshal MsgChangeAdminResponse_zero MsgChangeAdminResponse_enc
    MsgChangeAdminResponse_ok
  unfolding MsgChangeAdminResponse_MarshalToSizedBuffer_def [abs_def]
    MsgChangeAdminResponse_Unmarshal_def
  by (rule pb_messageI [where outs = "\<lambda>m. []"])
    (simp_all add: MsgChangeAdminResponse_Size_def MsgChangeAdminResponse_enc_def
      MsgChangeAdminResponse_fields_def MsgChangeAdminResponse_zero_def reads_Nil)

section \<open>MsgSetBeforeSendHook\<close>

definition MsgSetBeforeSendHook_Size :: "MsgSetBeforeSendHook \<Rightarrow> nat" where
  "MsgSetBeforeSendHook_Size m = size_string (sh_Sender m) + size_string (sh_Denom m) +
    size_string (sh_CosmwasmAddress m)"

definition MsgSetBeforeSendHook_MarshalToSizedBuffer :: "MsgSetBeforeSendHook \<Rightarrow> bytes \<Rightarrow> (bytes \<times>
  nat) res" where
  "MsgSetBeforeSendHook_MarshalToSizedBuffer m = to_sized_buffer
    [b_string 0x1a (sh_CosmwasmAddress m),
     b_string 0x12 (sh_Denom m),
     b_string 0x0a (sh_Sender m)]"

definition MsgSetBeforeSendHook_Marshal :: "MsgSetBeforeSendHook \<Rightarrow> bytes res" where
  "MsgSetBeforeSendHook_Marshal = marshal MsgSetBeforeSendHook_Size
    MsgSetBeforeSendHook_MarshalToSizedBuffer"

definition MsgSetBeforeSendHook_fields :: "(int \<times> MsgSetBeforeSendHook field) list" where
  "MsgSetBeforeSendHook_fields =
    [(1, FString ''Sender'' (\<lambda>v m. m\<lparr>sh_Sender := v\<rparr>)),
     (2, FString ''Denom'' (\<lambda>v m. m\<lparr>sh_Denom := v\<rparr>)),
     (3, FString ''CosmwasmAddress'' (\<lambda>v m. m\<lparr>sh_CosmwasmAddress := v\<rparr>))]"

definition MsgSetBeforeSendHook_Unmarshal :: "bytes \<Rightarrow> MsgSetBeforeSendHook \<Rightarrow> MsgSetBeforeSendHook
  res" where
  "MsgSetBeforeSendHook_Unmarshal = unmarshal ''MsgSetBeforeSendHook''
    MsgSetBeforeSendHook_fields"

definition MsgSetBeforeSendHook_zero :: "MsgSetBeforeSendHook" where
  "MsgSetBeforeSendHook_zero = \<lparr>sh_Sender = [], sh_Denom = [], sh_CosmwasmAddress = []\<rparr>"

definition MsgSetBeforeSendHook_enc :: "MsgSetBeforeSendHook \<Rightarrow> bytes" where
  "MsgSetBeforeSendHook_enc m =
     pbs 0x0a (sh_Sender m) @
     pbs 0x12 (sh_Denom m) @
     pbs 0x1a (sh_CosmwasmAddress m)"

definition MsgSetBeforeSendHook_ok :: "MsgSetBeforeSendHook \<Rightarrow> bool" where
  "MsgSetBeforeSendHook_ok m \<longleftrightarrow> length (MsgSetBeforeSendHook_enc m) < 2 ^ 63"

lemma MsgSetBeforeSendHook_reads:
  "reads name MsgSetBeforeSendHook_fields (MsgSetBeforeSendHook_enc m) MsgSetBeforeSendHook_zero
    m"
proof -
  let ?z0 = "MsgSetBeforeSendHook_zero"
  let ?z1 = "?z0\<lparr>sh_Sender := sh_Sender m\<rparr>"
  let ?z2 = "?z1\<lparr>sh_Denom := sh_Denom m\<rparr>"
  let ?z3 = "?z2\<lparr>sh_CosmwasmAddress := sh_CosmwasmAddress m\<rparr>"
  have r1: "reads name MsgSetBeforeSendHook_fields (pbs 0x0a (sh_Sender m)) ?z0 ?z1"
    by (rule reads_stringI)
      (simp_all add: MsgSetBeforeSendHook_fields_def MsgSetBeforeSendHook_zero_def)
  have r2: "reads name MsgSetBeforeSendHook_fields (pbs 0x12 (sh_Denom m)) ?z1 ?z2"
    by (rule reads_stringI)
      (simp_all add: MsgSetBeforeSendHook_fields_def MsgSetBeforeSendHook_zero_def)
  have r3: "reads name MsgSetBeforeSendHook_fields (pbs 0x1a (sh_CosmwasmAddress m)) ?z2 ?z3"
    by (rule reads_stringI)
      (simp_all add: MsgSetBeforeSendHook_fields_def MsgSetBeforeSendHook_zero_def)
  show ?thesis
    using reads_append [OF r1 reads_append [OF r2 r3]]
    by (cases m) (simp add: MsgSetBeforeSendHook_enc_def MsgSetBeforeSendHook_zero_def)
qed

interpretation setbeforesendhook: pb_message MsgSetBeforeSendHook_Size
  MsgSetBeforeSendHook_MarshalToSizedBuffer
  MsgSetBeforeSendHook_Unmarshal MsgSetBeforeSendHook_zero MsgSetBeforeSendHook_enc
    MsgSetBeforeSendHook_ok
  unfolding MsgSetBeforeSendHook_MarshalToSizedBuffer_def [abs_def]
    MsgSetBeforeSendHook_Unmarshal_def
  by (rule pb_messageI [where outs = "\<lambda>m.
      [pbs 0x1a (sh_CosmwasmAddress m), pbs 0x12 (sh_Denom m), pbs 0x0a (sh_Sender m)]"])
    (auto simp: MsgSetBeforeSendHook_Size_def MsgSetBeforeSendHook_ok_def
      MsgSetBeforeSendHook_enc_def
      intro!: MsgSetBeforeSendHook_reads [unfolded MsgSetBeforeSendHook_ok_def
        MsgSetBeforeSendHook_enc_def] writes_intros )

section \<open>MsgSetBeforeSendHookResponse\<close>

definition MsgSetBeforeSendHookResponse_Size :: "unit \<Rightarrow> nat" where
  "MsgSetBeforeSendHookResponse_Size m = 0"

definition MsgSetBeforeSendHookResponse_MarshalToSizedBuffer :: "unit \<Rightarrow> bytes \<Rightarrow> (bytes \<times> nat)
  res" where
  "MsgSetBeforeSendHookResponse_MarshalToSizedBuffer m = to_sized_buffer
    []"

definition MsgSetBeforeSendHookResponse_Marshal :: "unit \<Rightarrow> bytes res" where
  "MsgSetBeforeSendHookResponse_Marshal = marshal MsgSetBeforeSendHookResponse_Size
    MsgSetBeforeSendHookResponse_MarshalToSizedBuffer"

definition MsgSetBeforeSendHookResponse_fields :: "(int \<times> unit field) list" where
  "MsgSetBeforeSendHookResponse_fields =
    []"

definition MsgSetBeforeSendHookResponse_Unmarshal :: "bytes \<Rightarrow> unit \<Rightarrow> unit res" where
  "MsgSetBeforeSendHookResponse_Unmarshal = unmarshal ''MsgSetBeforeSendHookResponse''
    MsgSetBeforeSendHookResponse_fields"

definition MsgSetBeforeSendHookResponse_zero :: "unit" where
  "MsgSetBeforeSendHookResponse_zero = ()"

definition MsgSetBeforeSendHookResponse_enc :: "unit \<Rightarrow> bytes" where
  "MsgSetBeforeSendHookResponse_enc m =
     []"

definition MsgSetBeforeSendHookResponse_ok :: "unit \<Rightarrow> bool" where
  "MsgSetBeforeSendHookResponse_ok m \<longleftrightarrow> True"

interpretation setbeforesendhookresp: pb_message MsgSetBeforeSendHookResponse_Size
  MsgSetBeforeSendHookResponse_MarshalToSizedBuffer
  MsgSetBeforeSendHookResponse_Unmarshal MsgSetBeforeSendHookResponse_zero
    MsgSetBeforeSendHookResponse_enc MsgSetBeforeSendHookResponse_ok
  unfolding MsgSetBeforeSendHookResponse_MarshalToSizedBuffer_def [abs_def]
    MsgSetBeforeSendHookResponse_Unmarshal_def
  by (rule pb_messageI [where outs = "\<lambda>m. []"])
    (simp_all add: MsgSetBeforeSendHookResponse_Size_def MsgSetBeforeSendHookResponse_enc_def
      MsgSetBeforeSendHookResponse_fields_def MsgSetBeforeSendHookResponse_zero_def reads_Nil)

section \<open>MsgSetDenomMetadata\<close>

definition MsgSetDenomMetadata_Size :: "Metadata Codec \<Rightarrow> MsgSetDenomMetadata \<Rightarrow> nat" where
  "MsgSetDenomMetadata_Size C m = size_string (sm_Sender m) + size_msg (cSize C (sm_Metadata m))"

definition MsgSetDenomMetadata_MarshalToSizedBuffer :: "Metadata Codec \<Rightarrow> MsgSetDenomMetadata \<Rightarrow>
  bytes \<Rightarrow> (bytes \<times> nat) res" where
  "MsgSetDenomMetadata_MarshalToSizedBuffer C m = to_sized_buffer
    [b_msg 0x12 (cToSized C (sm_Metadata m)),
     b_string 0x0a (sm_Sender m)]"

definition MsgSetDenomMetadata_Marshal :: "Metadata Codec \<Rightarrow> MsgSetDenomMetadata \<Rightarrow> bytes res" where
  "MsgSetDenomMetadata_Marshal C = marshal (MsgSetDenomMetadata_Size C)
    (MsgSetDenomMetadata_MarshalToSizedBuffer C)"

definition MsgSetDenomMetadata_fields :: "Metadata Codec \<Rightarrow> (int \<times> MsgSetDenomMetadata field)
  list" where
  "MsgSetDenomMetadata_fields C =
    [(1, FString ''Sender'' (\<lambda>v m. m\<lparr>sm_Sender := v\<rparr>)),
     (2, FMsg ''Metadata'' (\<lambda>bs m.
       bindR (cUnmarshal C bs (sm_Metadata m)) (\<lambda>v. Ok (m\<lparr>sm_Metadata := v\<rparr>))))]"

definition MsgSetDenomMetadata_Unmarshal :: "Metadata Codec \<Rightarrow> bytes \<Rightarrow> MsgSetDenomMetadata \<Rightarrow>
  MsgSetDenomMetadata res" where
  "MsgSetDenomMetadata_Unmarshal C = unmarshal ''MsgSetDenomMetadata''
    (MsgSetDenomMetadata_fields C)"

definition MsgSetDenomMetadata_zero :: "Metadata Codec \<Rightarrow> MsgSetDenomMetadata" where
  "MsgSetDenomMetadata_zero C = \<lparr>sm_Sender = [], sm_Metadata = cZero C\<rparr>"

definition MsgSetDenomMetadata_enc :: "(Metadata \<Rightarrow> bytes) \<Rightarrow> MsgSetDenomMetadata \<Rightarrow> bytes" where
  "MsgSetDenomMetadata_enc e m =
     pbs 0x0a (sm_Sender m) @
     pbm 0x12 (e (sm_Metadata m))"

definition MsgSetDenomMetadata_ok :: "(Metadata \<Rightarrow> bytes) \<Rightarrow> (Metadata \<Rightarrow> bool) \<Rightarrow>
  MsgSetDenomMetadata \<Rightarrow> bool" where
  "MsgSetDenomMetadata_ok e k m \<longleftrightarrow> k (sm_Metadata m) \<and>
     length (MsgSetDenomMetadata_enc e m) < 2 ^ 63"

lemma MsgSetDenomMetadata_reads:
  assumes "codec_laws C e k" "MsgSetDenomMetadata_ok e k m"
  shows "reads name (MsgSetDenomMetadata_fields C) (MsgSetDenomMetadata_enc e m)
    (MsgSetDenomMetadata_zero C) m"
proof -
  let ?z0 = "MsgSetDenomMetadata_zero C"
  let ?z1 = "?z0\<lparr>sm_Sender := sm_Sender m\<rparr>"
  let ?z2 = "?z1\<lparr>sm_Metadata := sm_Metadata m\<rparr>"
  note laws = codec_law(4) [OF assms(1)]
  note okm = assms(2) [unfolded MsgSetDenomMetadata_ok_def]
  have r1: "reads name (MsgSetDenomMetadata_fields C) (pbs 0x0a (sm_Sender m)) ?z0 ?z1"
    by (rule reads_stringI)
      (simp_all add: MsgSetDenomMetadata_fields_def MsgSetDenomMetadata_zero_def)
  have r2: "reads name (MsgSetDenomMetadata_fields C) (pbm 0x12 (e (sm_Metadata m))) ?z1 ?z2"
    using okm by (intro reads_msgI)
      (simp_all add: MsgSetDenomMetadata_fields_def MsgSetDenomMetadata_zero_def laws)
  show ?thesis
    using reads_append [OF r1 r2]
    by (cases m) (simp add: MsgSetDenomMetadata_enc_def MsgSetDenomMetadata_zero_def)
qed

definition MsgSetDenomMetadata_codec :: "Metadata Codec \<Rightarrow> MsgSetDenomMetadata Codec" where
  "MsgSetDenomMetadata_codec C = \<lparr>cSize = MsgSetDenomMetadata_Size C, cToSized =
    MsgSetDenomMetadata_MarshalToSizedBuffer C,
     cUnmarshal = MsgSetDenomMetadata_Unmarshal C, cZero = MsgSetDenomMetadata_zero C\<rparr>"

lemma MsgSetDenomMetadata_codec_laws:
  assumes "codec_laws C e k"
  shows "codec_laws (MsgSetDenomMetadata_codec C) (MsgSetDenomMetadata_enc e)
    (MsgSetDenomMetadata_ok e k)"
  unfolding codec_laws_def MsgSetDenomMetadata_codec_def Codec.simps
    MsgSetDenomMetadata_MarshalToSizedBuffer_def [abs_def] MsgSetDenomMetadata_Unmarshal_def
  by (rule pb_messageI [where outs = "\<lambda>m.
      [pbm 0x12 (e (sm_Metadata m)), pbs 0x0a (sm_Sender m)]"])
    (auto simp: MsgSetDenomMetadata_Size_def MsgSetDenomMetadata_ok_def
      MsgSetDenomMetadata_enc_def codec_law(1) [OF assms] codec_law(2) [OF assms]
      intro!: MsgSetDenomMetadata_reads [OF assms, unfolded MsgSetDenomMetadata_ok_def
        MsgSetDenomMetadata_enc_def] writes_intros )

section \<open>MsgSetDenomMetadataResponse\<close>

definition MsgSetDenomMetadataResponse_Size :: "unit \<Rightarrow> nat" where
  "MsgSetDenomMetadataResponse_Size m = 0"

definition MsgSetDenomMetadataResponse_MarshalToSizedBuffer :: "unit \<Rightarrow> bytes \<Rightarrow> (bytes \<times> nat) res"
  where
  "MsgSetDenomMetadataResponse_MarshalToSizedBuffer m = to_sized_buffer
    []"

definition MsgSetDenomMetadataResponse_Marshal :: "unit \<Rightarrow> bytes res" where
  "MsgSetDenomMetadataResponse_Marshal = marshal MsgSetDenomMetadataResponse_Size
    MsgSetDenomMetadataResponse_MarshalToSizedBuffer"

definition MsgSetDenomMetadataResponse_fields :: "(int \<times> unit field) list" where
  "MsgSetDenomMetadataResponse_fields =
    []"

definition MsgSetDenomMetadataResponse_Unmarshal :: "bytes \<Rightarrow> unit \<Rightarrow> unit res" where
  "MsgSetDenomMetadataResponse_Unmarshal = unmarshal ''MsgSetDenomMetadataResponse''
    MsgSetDenomMetadataResponse_fields"

definition MsgSetDenomMetadataResponse_zero :: "unit" where
  "MsgSetDenomMetadataResponse_zero = ()"

definition MsgSetDenomMetadataResponse_enc :: "unit \<Rightarrow> bytes" where
  "MsgSetDenomMetadataResponse_enc m =
     []"

definition MsgSetDenomMetadataResponse_ok :: "unit \<Rightarrow> bool" where
  "MsgSetDenomMetadataResponse_ok m \<longleftrightarrow> True"

interpretation setdenommetadataresp: pb_message MsgSetDenomMetadataResponse_Size
  MsgSetDenomMetadataResponse_MarshalToSizedBuffer
  MsgSetDenomMetadataResponse_Unmarshal MsgSetDenomMetadataResponse_zero
    MsgSetDenomMetadataResponse_enc MsgSetDenomMetadataResponse_ok
  unfolding MsgSetDenomMetadataResponse_MarshalToSizedBuffer_def [abs_def]
    MsgSetDenomMetadataResponse_Unmarshal_def
  by (rule pb_messageI [where outs = "\<lambda>m. []"])
    (simp_all add: MsgSetDenomMetadataResponse_Size_def MsgSetDenomMetadataResponse_enc_def
      MsgSetDenomMetadataResponse_fields_def MsgSetDenomMetadataResponse_zero_def reads_Nil)

section \<open>MsgForceTransfer\<close>

definition MsgForceTransfer_Size :: "Coin Codec \<Rightarrow> MsgForceTransfer \<Rightarrow> nat" where
  "MsgForceTransfer_Size C m = size_string (ft_Sender m) + size_msg (cSize C (ft_Amount m)) +
    size_string (ft_TransferFromAddress m) + size_string (ft_TransferToAddress m)"

definition MsgForceTransfer_MarshalToSizedBuffer :: "Coin Codec \<Rightarrow> MsgForceTransfer \<Rightarrow> bytes \<Rightarrow>
  (bytes \<times> nat) res" where
  "MsgForceTransfer_MarshalToSizedBuffer C m = to_sized_buffer
    [b_string 0x22 (ft_TransferToAddress m),
     b_string 0x1a (ft_TransferFromAddress m),
     b_msg 0x12 (cToSized C (ft_Amount m)),
     b_string 0x0a (ft_Sender m)]"

definition MsgForceTransfer_Marshal :: "Coin Codec \<Rightarrow> MsgForceTransfer \<Rightarrow> bytes res" where
  "MsgForceTransfer_Marshal C = marshal (MsgForceTransfer_Size C)
    (MsgForceTransfer_MarshalToSizedBuffer C)"

definition MsgForceTransfer_fields :: "Coin Codec \<Rightarrow> (int \<times> MsgForceTransfer field) list" where
  "MsgForceTransfer_fields C =
    [(1, FString ''Sender'' (\<lambda>v m. m\<lparr>ft_Sender := v\<rparr>)),
     (2, FMsg ''Amount'' (\<lambda>bs m.
       bindR (cUnmarshal C bs (ft_Amount m)) (\<lambda>v. Ok (m\<lparr>ft_Amount := v\<rparr>)))),
     (3, FString ''TransferFromAddress'' (\<lambda>v m. m\<lparr>ft_TransferFromAddress := v\<rparr>)),
     (4, FString ''TransferToAddress'' (\<lambda>v m. m\<lparr>ft_TransferToAddress := v\<rparr>))]"

definition MsgForceTransfer_Unmarshal :: "Coin Codec \<Rightarrow> bytes \<Rightarrow> MsgForceTransfer \<Rightarrow>
  MsgForceTransfer res" where
  "MsgForceTransfer_Unmarshal C = unmarshal ''MsgForceTransfer'' (MsgForceTransfer_fields C)"

definition MsgForceTransfer_zero :: "Coin Codec \<Rightarrow> MsgForceTransfer" where
  "MsgForceTransfer_zero C = \<lparr>ft_Sender = [], ft_Amount = cZero C, ft_TransferFromAddress = [],
    ft_TransferToAddress = []\<rparr>"

definition MsgForceTransfer_enc :: "(Coin \<Rightarrow> bytes) \<Rightarrow> MsgForceTransfer \<Rightarrow> bytes" where
  "MsgForceTransfer_enc e m =
     pbs 0x0a (ft_Sender m) @
     pbm 0x12 (e (ft_Amount m)) @
     pbs 0x1a (ft_TransferFromAddress m) @
     pbs 0x22 (ft_TransferToAddress m)"

definition MsgForceTransfer_ok :: "(Coin \<Rightarrow> bytes) \<Rightarrow> (Coin \<Rightarrow> bool) \<Rightarrow> MsgForceTransfer \<Rightarrow> bool" where
  "MsgForceTransfer_ok e k m \<longleftrightarrow> k (ft_Amount m) \<and>
     length (MsgForceTransfer_enc e m) < 2 ^ 63"

lemma MsgForceTransfer_reads:
  assumes "codec_laws C e k" "MsgForceTransfer_ok e k m"
  shows "reads name (MsgForceTransfer_fields C) (MsgForceTransfer_enc e m) (MsgForceTransfer_zero
    C) m"
proof -
  let ?z0 = "MsgForceTransfer_zero C"
  let ?z1 = "?z0\<lparr>ft_Sender := ft_Sender m\<rparr>"
  let ?z2 = "?z1\<lparr>ft_Amount := ft_Amount m\<rparr>"
  let ?z3 = "?z2\<lparr>ft_TransferFromAddress := ft_TransferFromAddress m\<rparr>"
  let ?z4 = "?z3\<lparr>ft_TransferToAddress := ft_TransferToAddress m\<rparr>"
  note laws = codec_law(4) [OF assms(1)]
  note okm = assms(2) [unfolded MsgForceTransfer_ok_def]
  have r1: "reads name (MsgForceTransfer_fields C) (pbs 0x0a (ft_Sender m)) ?z0 ?z1"
    by (rule reads_stringI)
      (simp_all add: MsgForceTransfer_fields_def MsgForceTransfer_zero_def)
  have r2: "reads name (MsgForceTransfer_fields C) (pbm 0x12 (e (ft_Amount m))) ?z1 ?z2"
    using okm by (intro reads_msgI)
      (simp_all add: MsgForceTransfer_fields_def MsgForceTransfer_zero_def laws)
  have r3: "reads name (MsgForceTransfer_fields C) (pbs 0x1a (ft_TransferFromAddress m)) ?z2 ?z3"
    by (rule reads_stringI)
      (simp_all add: MsgForceTransfer_fields_def MsgForceTransfer_zero_def)
  have r4: "reads name (MsgForceTransfer_fields C) (pbs 0x22 (ft_TransferToAddress m)) ?z3 ?z4"
    by (rule reads_stringI)
      (simp_all add: MsgForceTransfer_fields_def MsgForceTransfer_zero_def)
  show ?thesis
    using reads_append [OF r1 reads_append [OF r2 reads_append [OF r3 r4]]]
    by (cases m) (simp add: MsgForceTransfer_enc_def MsgForceTransfer_zero_def)
qed

definition MsgForceTransfer_codec :: "Coin Codec \<Rightarrow> MsgForceTransfer Codec" where
  "MsgForceTransfer_codec C = \<lparr>cSize = MsgForceTransfer_Size C, cToSized =
    MsgForceTransfer_MarshalToSizedBuffer C,
     cUnmarshal = MsgForceTransfer_Unmarshal C, cZero = MsgForceTransfer_zero C\<rparr>"

lemma MsgForceTransfer_codec_laws:
  assumes "codec_laws C e k"
  shows "codec_laws (MsgForceTransfer_codec C) (MsgForceTransfer_enc e) (MsgForceTransfer_ok e k)"
  unfolding codec_laws_def MsgForceTransfer_codec_def Codec.simps
    MsgForceTransfer_MarshalToSizedBuffer_def [abs_def] MsgForceTransfer_Unmarshal_def
  by (rule pb_messageI [where outs = "\<lambda>m.
      [pbs 0x22 (ft_TransferToAddress m), pbs 0x1a (ft_TransferFromAddress m), pbm 0x12 (e
        (ft_Amount m)), pbs 0x0a (ft_Sender m)]"])
    (auto simp: MsgForceTransfer_Size_def MsgForceTransfer_ok_def MsgForceTransfer_enc_def
      codec_law(1) [OF assms] codec_law(2) [OF assms]
      intro!: MsgForceTransfer_reads [OF assms, unfolded MsgForceTransfer_ok_def
        MsgForceTransfer_enc_def] writes_intros )

section \<open>MsgForceTransferResponse\<close>

definition MsgForceTransferResponse_Size :: "unit \<Rightarrow> nat" where
  "MsgForceTransferResponse_Size m = 0"

definition MsgForceTransferResponse_MarshalToSizedBuffer :: "unit \<Rightarrow> bytes \<Rightarrow> (bytes \<times> nat) res"
  where
  "MsgForceTransferResponse_MarshalToSizedBuffer m = to_sized_buffer
    []"

definition MsgForceTransferResponse_Marshal :: "unit \<Rightarrow> bytes res" where
  "MsgForceTransferResponse_Marshal = marshal MsgForceTransferResponse_Size
    MsgForceTransferResponse_MarshalToSizedBuffer"

definition MsgForceTransferResponse_fields :: "(int \<times> unit field) list" where
  "MsgForceTransferResponse_fields =
    []"

definition MsgForceTransferResponse_Unmarshal :: "bytes \<Rightarrow> unit \<Rightarrow> unit res" where
  "MsgForceTransferResponse_Unmarshal = unmarshal ''MsgForceTransferResponse''
    MsgForceTransferResponse_fields"

definition MsgForceTransferResponse_zero :: "unit" where
  "MsgForceTransferResponse_zero = ()"

definition MsgForceTransferResponse_enc :: "unit \<Rightarrow> bytes" where
  "MsgForceTransferResponse_enc m =
     []"

definition MsgForceTransferResponse_ok :: "unit \<Rightarrow> bool" where
  "MsgForceTransferResponse_ok m \<longleftrightarrow> True"

interpretation forcetransferresp: pb_message MsgForceTransferResponse_Size
  MsgForceTransferResponse_MarshalToSizedBuffer
  MsgForceTransferResponse_Unmarshal MsgForceTransferResponse_zero MsgForceTransferResponse_enc
    MsgForceTransferResponse_ok
  unfolding MsgForceTransferResponse_MarshalToSizedBuffer_def [abs_def]
    MsgForceTransferResponse_Unmarshal_def
  by (rule pb_messageI [where outs = "\<lambda>m. []"])
    (simp_all add: MsgForceTransferResponse_Size_def MsgForceTransferResponse_enc_def
      MsgForceTransferResponse_fields_def MsgForceTransferResponse_zero_def reads_Nil)

end
