(* ===== verification/WireEnds.thy ===== *)
theory WireEnds
  imports Proto
begin

text \<open>
  The loop of the generated \<open>skip\<close> functions ends. \<open>skip_steps\<close> is that loop with a bound on its
  iterations and \<open>None\<close> when the bound is reached; the bytes of the input are enough of a bound, because
  every iteration reads a tag and moves the index forward.
\<close>

fun skip_steps :: "nat \<Rightarrow> bytes \<Rightarrow> int \<Rightarrow> nat \<Rightarrow> int res option" where
  "skip_steps 0 d iNdEx depth = None"
| "skip_steps (Suc n) d iNdEx depth =
     (if iNdEx < int (length d) then
        (case decodeVarint d (nat iNdEx) 0 0 of
           Err e \<Rightarrow> Some (Err e)
         | Panic p \<Rightarrow> Some (Panic p)
         | Ok (wire, j) \<Rightarrow>
             (case skip_field d (unat (wire AND 7)) j depth of
                Err e \<Rightarrow> Some (Err e)
              | Panic p \<Rightarrow> Some (Panic p)
              | Ok (k, depth') \<Rightarrow>
                  if k < 0 then Some (Err ErrInvalidLength)
                  else if depth' = 0 then Some (Ok k)
                  else skip_steps n d k depth'))
      else Some (Err ErrUnexpectedEOF))"

lemma skip_steps_enough:
  assumes "length d < 2 ^ 63" "0 \<le> i" "nat (int (length d) - i) < n"
  shows "skip_steps n d i dep = Some (skip_loop d i dep)"
  using assms(2,3)
proof (induction n arbitrary: i dep)
  case (Suc n)
  show ?case
  proof (cases "i < int (length d)")
    case False
    then show ?thesis by (simp add: skip_loop.simps [of d i])
  next
    case lt: True
    show ?thesis
    proof (cases "decodeVarint d (nat i) 0 0")
      case v: (Ok x)
      obtain wire j where x: "x = (wire, j)" by (cases x)
      have j: "nat i < j" "j \<le> length d" using v x decodeVarint_progress by blast+
      show ?thesis
      proof (cases "skip_field d (unat (wire AND 7)) j dep")
        case f: (Ok y)
        obtain k dep' where y: "y = (k, dep')" by (cases y)
        show ?thesis
        proof (cases "k < 0 \<or> dep' = 0")
          case False
          then have "int j \<le> k" using skip_field_progress [of d _ j dep k dep'] f y j assms(1) by auto
          then have "nat (int (length d) - k) < n" "0 \<le> k" using Suc.prems j lt by linarith+
          then show ?thesis
            using Suc.IH [of k dep'] False lt v x f y Suc.prems(1) assms(1) by (simp add: skip_loop.simps [of d i])
        qed (use lt v x f y Suc.prems(1) assms(1) in \<open>auto simp: skip_loop.simps [of d i]\<close>)
      qed (use lt v x Suc.prems(1) assms(1) in \<open>simp_all add: skip_loop.simps [of d i]\<close>)
    qed (use lt Suc.prems(1) assms(1) in \<open>simp_all add: skip_loop.simps [of d i]\<close>)
  qed
qed simp

lemma skip_field_not_Panic: "skip_field d wt i dep \<noteq> Panic p"
  by (auto simp: skip_field_def bindR_def decodeVarint_not_Panic split: res.splits if_splits)

lemma skip_loop_not_Panic: "skip_loop d i dep \<noteq> Panic p"
proof (induction d i dep rule: skip_loop.induct)
  case (1 d i dep)
  then show ?case
    by (subst skip_loop.simps) (auto simp: decodeVarint_not_Panic skip_field_not_Panic split: res.splits)
qed

text \<open>C28. Skipping an unknown field ends on every input, after at most one iteration more than the input has
  bytes; it never panics, and what it skips is at least one byte and fits into an int.\<close>

theorem skip_ends:
  assumes "length d < 2 ^ 63" "length d < n"
  shows "\<exists>r. skip_steps n d 0 0 = Some r \<and> skip d = r \<and> \<not> is_panic r
    \<and> (\<forall>k. r = Ok k \<longrightarrow> 0 < k \<and> k < 2 ^ 63)"
proof -
  have "skip_steps n d 0 0 = Some (skip d)" using skip_steps_enough [OF assms(1), of 0 n 0] assms(2) by (simp add: skip_def)
  moreover have "\<not> is_panic (skip d)" by (cases "skip d") (use skip_loop_not_Panic in \<open>auto simp: skip_def\<close>)
  ultimately show ?thesis using skip_progress skip_bound [OF _ assms(1)] by blast
qed

theorem skip_ends_witness:
  "\<exists>r. skip_steps 4 [CHR 0x0A, CHR 0x01, CHR 0x41] 0 0 = Some r \<and> skip [CHR 0x0A, CHR 0x01, CHR 0x41] = r \<and> \<not> is_panic r"
  using skip_ends [of "[CHR 0x0A, CHR 0x01, CHR 0x41]" 4] by auto

end
