(* ===== verification/TxWire.thy ===== *)
theory TxWire
  imports Registry TxCodec GenesisCodec WireEnds
begin

text \<open>
  Transactions on the wire. The generated decoders as a whole: on any bytes whatever they return a message or
  an error. A node runs them on what anyone sends, so that a panic there would be a way to stop it.
  A transaction carries the type URL of a message and its bytes; a node resolves the one to a new message,
  into which it reads the other. What it reads is the message that the client has written.
\<close>

section \<open>Decoders never panic\<close>

fun total_field :: "'m field \<Rightarrow> bool" where
  "total_field (FMsg name upd) = (\<forall>bs m. \<not> is_panic (upd bs m))"
| "total_field _ = True"

lemma is_panic_bindR: "is_panic (bindR r f) \<longleftrightarrow> is_panic r \<or> (\<exists>v. r = Ok v \<and> is_panic (f v))"
  by (cases r) simp_all

lemma is_panic_mapErr [simp]: "is_panic (mapErr f r) \<longleftrightarrow> is_panic r"
  by (cases r) simp_all

lemma not_is_panic: "\<not> is_panic r \<longleftrightarrow> (\<forall>p. r \<noteq> Panic p)"
  by (cases r) simp_all

lemma decodeVarint_total: "\<not> is_panic (decodeVarint d i s a)"
  by (simp add: not_is_panic decodeVarint_not_Panic)

lemma read_len_total: "\<not> is_panic (read_len d i)"
  by (auto simp: read_len_def is_panic_bindR decodeVarint_total Let_def)

lemma read_field_total:
  assumes "total_field f" "length d < 2 ^ 63"
  shows "\<not> is_panic (read_field f wt d i m)"
  using assms(1)
  by (cases f) (auto simp: is_panic_bindR wrong_wireType_def read_len_total decodeVarint_total
      sub_slice_read_len [OF _ assms(2)])

lemma skip_total: "\<not> is_panic (skip d)"
  by (simp add: not_is_panic skip_def skip_loop_not_Panic)

lemma unmarshal_loop_total:
  assumes "\<And>n f. map_of fs n = Some f \<Longrightarrow> total_field f"
  shows "\<not> is_panic (unmarshal_loop name fs d i m)"
  using assms
proof (induction name fs d i m rule: unmarshal_loop.induct)
  case (1 name fs d i m)
  show ?case
  proof (cases "i < length d \<and> length d < 2 ^ 63")
    case lt: True
    have IH: "\<not> is_panic (unmarshal_loop name fs d i' m')"
      if "decodeVarint d i 0 0 = Ok (wire, j)" "unat (wire AND 7) \<noteq> 4" "\<not> field_num wire \<le> 0"
        "map_of fs (field_num wire) = Some f" "read_field f (unat (wire AND 7)) d j m = Ok (m', i')"
      for wire j f m' i'
      by (rule "1.IH"(2) [OF lt that(1) refl refl refl that(2,3,4,5) refl]) (rule "1.prems")
    have IH2: "\<not> is_panic (unmarshal_loop name fs d (nat (wrap64 (int i + skippy))) m)"
      if "decodeVarint d i 0 0 = Ok (wire, j)" "unat (wire AND 7) \<noteq> 4" "\<not> field_num wire \<le> 0"
        "map_of fs (field_num wire) = None" "skip (drop i d) = Ok skippy"
        "\<not> (skippy < 0 \<or> wrap64 (int i + skippy) < 0)" "\<not> int (length d) < wrap64 (int i + skippy)"
      for wire j skippy
      by (rule "1.IH"(1) [OF lt that(1) refl refl refl that(2-7)]) (rule "1.prems")
    have field: "read_field f wt d j m \<noteq> Panic p" if "map_of fs n = Some f" for n f wt j p
      using read_field_total [of f d wt j m] "1.prems" [OF that] lt by (auto simp: not_is_panic)
    show ?thesis
    proof (cases "decodeVarint d i 0 0")
      case (Ok v)
      obtain wire j where v: "v = (wire, j)" by (cases v)
      note step = unmarshal_loop.simps [of name fs d i m] and now = Ok [unfolded v]
      show ?thesis
      proof (cases "map_of fs (field_num wire)")
        case None
        with lt now IH2 [OF now] show ?thesis
          by (simp add: step Let_def skip_total skip_loop_not_Panic skip_def not_is_panic split: res.split)
      next
        case (Some f)
        with lt now IH [OF now] field [OF Some] show ?thesis
          by (simp add: step Let_def not_is_panic split: res.split prod.split)
      qed
    qed (use lt decodeVarint_not_Panic in \<open>simp_all add: unmarshal_loop.simps [of name fs d i m]\<close>)
  next
    case False
    then show ?thesis by (simp only: unmarshal_loop.simps [of name fs d i m] if_False) simp
  qed
qed

lemma unmarshal_total:
  assumes "list_all (\<lambda>(n, f). total_field f) fs"
  shows "\<not> is_panic (unmarshal name fs d m)"
  unfolding unmarshal_def
  using assms by (intro unmarshal_loop_total) (auto simp: list_all_iff dest!: map_of_SomeD)

definition codec_total :: "'m Codec \<Rightarrow> bool" where
  "codec_total C \<longleftrightarrow> (\<forall>bs m. \<not> is_panic (cUnmarshal C bs m))"

lemma codec_totalD: "codec_total C \<Longrightarrow> \<not> is_panic (cUnmarshal C bs m)"
  by (simp add: codec_total_def)

lemmas decoder_defs = MsgCreateDenom_Unmarshal_def MsgCreateDenom_fields_def
  MsgMint_Unmarshal_def MsgMint_fields_def MsgBurn_Unmarshal_def MsgBurn_fields_def
  MsgForceTransfer_Unmarshal_def MsgForceTransfer_fields_def
  MsgChangeAdmin_Unmarshal_def MsgChangeAdmin_fields_def
  MsgSetDenomMetadata_Unmarshal_def MsgSetDenomMetadata_fields_def
  MsgSetBeforeSendHook_Unmarshal_def MsgSetBeforeSendHook_fields_def
  DenomAuthorityMetadata_Unmarshal_def DenomAuthorityMetadata_fields_def
  Params_Unmarshal_def Params_fields_def GenesisDenom_Unmarshal_def GenesisDenom_fields_def
  GenesisState_Unmarshal_def GenesisState_fields_def

section \<open>Messages as they travel\<close>

text \<open>The type names that the messages are registered under, and their type URLs.\<close>

fun msg_name :: "Msg \<Rightarrow> string" where
  "msg_name (MCreateDenom _) = ''osmosis.tokenfactory.v1beta1.MsgCreateDenom''"
| "msg_name (MMint _) = ''osmosis.tokenfactory.v1beta1.MsgMint''"
| "msg_name (MBurn _) = ''osmosis.tokenfactory.v1beta1.MsgBurn''"
| "msg_name (MChangeAdmin _) = ''osmosis.tokenfactory.v1beta1.MsgChangeAdmin''"
| "msg_name (MSetBeforeSendHook _) = ''osmosis.tokenfactory.v1beta1.MsgSetBeforeSendHook''"
| "msg_name (MSetDenomMetadata _) = ''osmosis.tokenfactory.v1beta1.MsgSetDenomMetadata''"
| "msg_name (MForceTransfer _) = ''osmosis.tokenfactory.v1beta1.MsgForceTransfer''"

text \<open>\<open>Marshal\<close> and \<open>Unmarshal\<close> of a message, by its dynamic type.\<close>

fun msg_Marshal :: "Coin Codec \<Rightarrow> Metadata Codec \<Rightarrow> Msg \<Rightarrow> bytes res" where
  "msg_Marshal C M (MCreateDenom m) = MsgCreateDenom_Marshal m"
| "msg_Marshal C M (MMint m) = MsgMint_Marshal C m"
| "msg_Marshal C M (MBurn m) = MsgBurn_Marshal C m"
| "msg_Marshal C M (MForceTransfer m) = MsgForceTransfer_Marshal C m"
| "msg_Marshal C M (MChangeAdmin m) = MsgChangeAdmin_Marshal m"
| "msg_Marshal C M (MSetDenomMetadata m) = MsgSetDenomMetadata_Marshal M m"
| "msg_Marshal C M (MSetBeforeSendHook m) = MsgSetBeforeSendHook_Marshal m"

fun msg_Unmarshal :: "Coin Codec \<Rightarrow> Metadata Codec \<Rightarrow> bytes \<Rightarrow> Msg \<Rightarrow> Msg res" where
  "msg_Unmarshal C M bz (MCreateDenom m) = bindR (MsgCreateDenom_Unmarshal bz m) (\<lambda>v. Ok (MCreateDenom v))"
| "msg_Unmarshal C M bz (MMint m) = bindR (MsgMint_Unmarshal C bz m) (\<lambda>v. Ok (MMint v))"
| "msg_Unmarshal C M bz (MBurn m) = bindR (MsgBurn_Unmarshal C bz m) (\<lambda>v. Ok (MBurn v))"
| "msg_Unmarshal C M bz (MForceTransfer m) = bindR (MsgForceTransfer_Unmarshal C bz m) (\<lambda>v. Ok (MForceTransfer v))"
| "msg_Unmarshal C M bz (MChangeAdmin m) = bindR (MsgChangeAdmin_Unmarshal bz m) (\<lambda>v. Ok (MChangeAdmin v))"
| "msg_Unmarshal C M bz (MSetDenomMetadata m) = bindR (MsgSetDenomMetadata_Unmarshal M bz m) (\<lambda>v. Ok (MSetDenomMetadata v))"
| "msg_Unmarshal C M bz (MSetBeforeSendHook m) = bindR (MsgSetBeforeSendHook_Unmarshal bz m) (\<lambda>v. Ok (MSetBeforeSendHook v))"

text \<open>\<open>new(T)\<close> for the types of \<open>RegisterImplementations\<close>.\<close>

definition new_msgs :: "Coin Codec \<Rightarrow> Metadata Codec \<Rightarrow> Msg list" where
  "new_msgs C M = [MCreateDenom MsgCreateDenom_zero, MMint (MsgMint_zero C), MBurn (MsgBurn_zero C),
     MChangeAdmin MsgChangeAdmin_zero, MSetDenomMetadata (MsgSetDenomMetadata_zero M),
     MSetBeforeSendHook MsgSetBeforeSendHook_zero, MForceTransfer (MsgForceTransfer_zero C)]"

text \<open>
  The interface registry of the SDK, a parameter: it answers with a new message of the type that is
  registered for a type URL, which is a slash and the name of the type.
\<close>

definition resolves :: "(string \<Rightarrow> Msg option) \<Rightarrow> Coin Codec \<Rightarrow> Metadata Codec \<Rightarrow> bool" where
  "resolves reg C M \<longleftrightarrow> (\<forall>m \<in> set (new_msgs C M). reg (CHR ''/'' # msg_name m) = Some m)"

text \<open>A message can be encoded when its amount or metadata can and no Go slice is too short for it.\<close>

fun msg_ok :: "(Coin \<Rightarrow> bytes) \<Rightarrow> (Coin \<Rightarrow> bool) \<Rightarrow> (Metadata \<Rightarrow> bytes) \<Rightarrow> (Metadata \<Rightarrow> bool) \<Rightarrow> Msg \<Rightarrow> bool" where
  "msg_ok e c em cm (MCreateDenom m) = MsgCreateDenom_ok m"
| "msg_ok e c em cm (MMint m) = MsgMint_ok e c m"
| "msg_ok e c em cm (MBurn m) = MsgBurn_ok e c m"
| "msg_ok e c em cm (MForceTransfer m) = MsgForceTransfer_ok e c m"
| "msg_ok e c em cm (MChangeAdmin m) = MsgChangeAdmin_ok m"
| "msg_ok e c em cm (MSetDenomMetadata m) = MsgSetDenomMetadata_ok em cm m"
| "msg_ok e c em cm (MSetBeforeSendHook m) = MsgSetBeforeSendHook_ok m"

section \<open>A codec for coins and for denom metadata\<close>

text \<open>
  The documented encoding of a \<open>Coin\<close>, restricted to amounts of a \<open>uint64\<close> kept as a number, and of the
  \<open>Metadata\<close> that has a base denomination only: instances of the two parameters.
\<close>

definition coin_fields :: "(int \<times> Coin field) list" where
  "coin_fields = [(1, FString ''Denom'' (\<lambda>v m. m\<lparr>coin_denom := v\<rparr>)),
     (2, FUint64 ''Amount'' (\<lambda>v m. m\<lparr>coin_amount := uint v\<rparr>))]"

definition coin_writers :: "Coin \<Rightarrow> (buf \<Rightarrow> buf res) list" where
  "coin_writers m = [b_uint64 0x10 (word_of_int (coin_amount m)), b_string 0x0a (coin_denom m)]"

definition coin_zero :: Coin where "coin_zero = \<lparr>coin_denom = [], coin_amount = 0\<rparr>"

definition coin_enc :: "Coin \<Rightarrow> bytes" where
  "coin_enc m = pbs 0x0a (coin_denom m) @ pbu 0x10 (word_of_int (coin_amount m))"

definition coin_ok :: "Coin \<Rightarrow> bool" where
  "coin_ok m \<longleftrightarrow> 0 \<le> coin_amount m \<and> coin_amount m < 2 ^ 64 \<and> length (coin_denom m) < 2 ^ 62"

definition memCoinCodec :: "Coin Codec" where
  "memCoinCodec = \<lparr>cSize = \<lambda>m. length (coin_enc m), cToSized = \<lambda>m. to_sized_buffer (coin_writers m),
     cUnmarshal = unmarshal ''Coin'' coin_fields, cZero = coin_zero\<rparr>"

lemma coin_reads:
  assumes "coin_ok m"
  shows "reads name coin_fields (coin_enc m) coin_zero m"
proof -
  let ?z1 = "coin_zero\<lparr>coin_denom := coin_denom m\<rparr>"
  have r1: "reads name coin_fields (pbs 0x0a (coin_denom m)) coin_zero ?z1"
    by (rule reads_stringI) (simp_all add: coin_fields_def coin_zero_def)
  have r2: "reads name coin_fields (pbu 0x10 (word_of_int (coin_amount m))) ?z1
      (?z1\<lparr>coin_amount := coin_amount m\<rparr>)"
    using assms by (intro reads_uint64I)
      (auto simp: coin_fields_def coin_zero_def coin_ok_def uint_word_of_int word_of_int_eq_0_iff
        take_bit_int_eq_self dest!: zdvd_not_zless [rotated -1])
  show ?thesis using reads_append [OF r1 r2] by (cases m) (simp add: coin_enc_def coin_zero_def)
qed

lemma memCoinCodec_laws: "codec_laws memCoinCodec coin_enc coin_ok"
  unfolding codec_laws_def memCoinCodec_def Codec.simps
proof (rule pb_messageI [where outs = "\<lambda>m. [pbu 0x10 (word_of_int (coin_amount m)), pbs 0x0a (coin_denom m)]"])
  fix m :: Coin
  assume ok: "coin_ok m"
  show "length (coin_enc m) < 2 ^ 63"
    using ok size_string_le [of "coin_denom m"] sov_le_10 [of "word_of_int (coin_amount m)"]
    by (simp add: coin_enc_def coin_ok_def size_uint64_def)
  show "reads ''Coin'' coin_fields (coin_enc m) coin_zero m" by (rule coin_reads [OF ok])
qed (simp_all add: coin_enc_def coin_writers_def writes_intros)

definition meta_zero :: Metadata where
  "meta_zero = \<lparr>md_description = [], md_denom_units = [], md_base = [], md_display = [], md_name = [],
     md_symbol = [], md_uri = [], md_uri_hash = []\<rparr>"

definition meta_fields :: "(int \<times> Metadata field) list" where
  "meta_fields = [(3, FString ''Base'' (\<lambda>v m. m\<lparr>md_base := v\<rparr>))]"

definition meta_ok :: "Metadata \<Rightarrow> bool" where
  "meta_ok m \<longleftrightarrow> m = meta_zero\<lparr>md_base := md_base m\<rparr> \<and> length (md_base m) < 2 ^ 62"

definition memMetaCodec :: "Metadata Codec" where
  "memMetaCodec = \<lparr>cSize = \<lambda>m. length (pbs 0x1a (md_base m)), cToSized = \<lambda>m. to_sized_buffer [b_string 0x1a (md_base m)],
     cUnmarshal = unmarshal ''Metadata'' meta_fields, cZero = meta_zero\<rparr>"

lemma memMetaCodec_laws: "codec_laws memMetaCodec (\<lambda>m. pbs 0x1a (md_base m)) meta_ok"
  unfolding codec_laws_def memMetaCodec_def Codec.simps
proof (rule pb_messageI [where outs = "\<lambda>m. [pbs 0x1a (md_base m)]"])
  fix m :: Metadata
  assume ok: "meta_ok m"
  show "length (pbs 0x1a (md_base m)) < 2 ^ 63"
    using ok size_string_le [of "md_base m"] by (simp add: meta_ok_def)
  show "reads ''Metadata'' meta_fields (pbs 0x1a (md_base m)) meta_zero m"
    using ok by (intro reads_stringI) (auto simp: meta_fields_def meta_ok_def meta_zero_def)
qed (simp_all add: writes_intros)

lemma mem_codecs_total: "codec_total memCoinCodec" "codec_total memMetaCodec"
  unfolding codec_total_def memCoinCodec_def memMetaCodec_def Codec.simps
  by (intro allI unmarshal_total; simp add: coin_fields_def meta_fields_def)+

lemma codec_trip:
  assumes "codec_laws K enc ok" "ok m"
  shows "marshal (cSize K) (cToSized K) m = Ok (enc m)" "cUnmarshal K (enc m) (cZero K) = Ok m"
proof -
  have pm: "pb_message (cSize K) (cToSized K) (cUnmarshal K) (cZero K) enc ok"
    using assms(1) by (simp add: codec_laws_def)
  show "marshal (cSize K) (cToSized K) m = Ok (enc m)" "cUnmarshal K (enc m) (cZero K) = Ok m"
    by (rule pb_message.marshal_enc [OF pm assms(2)] pb_message.unmarshal_enc [OF pm assms(2)])+
qed

lemmas coded_trips = codec_trip [OF MsgMint_codec_laws, unfolded MsgMint_codec_def Codec.simps, folded MsgMint_Marshal_def]
  codec_trip [OF MsgBurn_codec_laws, unfolded MsgBurn_codec_def Codec.simps, folded MsgBurn_Marshal_def]
  codec_trip [OF MsgForceTransfer_codec_laws, unfolded MsgForceTransfer_codec_def Codec.simps,
    folded MsgForceTransfer_Marshal_def]

lemmas metadata_trips = codec_trip [OF MsgSetDenomMetadata_codec_laws, unfolded MsgSetDenomMetadata_codec_def Codec.simps,
    folded MsgSetDenomMetadata_Marshal_def]

lemmas plain_trips = createdenom.marshal_enc [folded MsgCreateDenom_Marshal_def] createdenom.unmarshal_enc
  changeadmin.marshal_enc [folded MsgChangeAdmin_Marshal_def] changeadmin.unmarshal_enc
  setbeforesendhook.marshal_enc [folded MsgSetBeforeSendHook_Marshal_def] setbeforesendhook.unmarshal_enc

fun zero_of :: "Coin Codec \<Rightarrow> Metadata Codec \<Rightarrow> Msg \<Rightarrow> Msg" where
  "zero_of C M (MCreateDenom _) = MCreateDenom MsgCreateDenom_zero"
| "zero_of C M (MMint _) = MMint (MsgMint_zero C)"
| "zero_of C M (MBurn _) = MBurn (MsgBurn_zero C)"
| "zero_of C M (MForceTransfer _) = MForceTransfer (MsgForceTransfer_zero C)"
| "zero_of C M (MChangeAdmin _) = MChangeAdmin MsgChangeAdmin_zero"
| "zero_of C M (MSetDenomMetadata _) = MSetDenomMetadata (MsgSetDenomMetadata_zero M)"
| "zero_of C M (MSetBeforeSendHook _) = MSetBeforeSendHook MsgSetBeforeSendHook_zero"

lemma resolves_zero: "resolves reg C M \<Longrightarrow> reg (CHR ''/'' # msg_name msg) = Some (zero_of C M msg)"
  by (cases msg) (simp_all add: resolves_def new_msgs_def)

section \<open>Properties\<close>

text \<open>C8. No bytes make a decoder panic: whatever a peer or a client sends, the decoders of the seven
  messages of transactions return a message or an error, provided that the decoders of the SDK that
  they call do.\<close>

theorem tx_decoders_never_panic:
  assumes "codec_total C" "codec_total M"
  shows "\<not> is_panic (msg_Unmarshal C M bz msg)"
  using assms
  by (cases msg) (auto simp: decoder_defs is_panic_bindR codec_totalD dest: unmarshal_total [THEN notE, rotated])

text \<open>C37. A message that a client packs reaches a node as it was: it has a type URL that the registry
  resolves, and its bytes, read into the new message of that type, give the message back.\<close>

theorem tx_messages_roundtrip:
  assumes "codec_laws C e c" "codec_laws M em cm" "msg_ok e c em cm msg" "resolves reg C M"
  shows "\<exists>bz m0. msg_Marshal C M msg = Ok bz \<and> reg (CHR ''/'' # msg_name msg) = Some m0
    \<and> msg_Unmarshal C M bz m0 = Ok msg"
proof -
  obtain bz where "msg_Marshal C M msg = Ok bz" "msg_Unmarshal C M bz (zero_of C M msg) = Ok msg"
    using assms(3) by (cases msg) (auto simp: coded_trips [OF assms(1)] metadata_trips [OF assms(2)] plain_trips)
  then show ?thesis using resolves_zero [OF assms(4)] by blast
qed

section \<open>Concrete instances\<close>

theorem tx_decoders_never_panic_witness:
  "\<not> is_panic (msg_Unmarshal memCoinCodec memMetaCodec (replicate 9 (CHR 0xFF)) (MMint (MsgMint_zero memCoinCodec)))"
  by (rule tx_decoders_never_panic [OF mem_codecs_total])

definition mem_reg :: "string \<Rightarrow> Msg option" where
  "mem_reg url = find (\<lambda>m. CHR ''/'' # msg_name m = url) (new_msgs memCoinCodec memMetaCodec)"

lemma mem_reg_resolves: "resolves mem_reg memCoinCodec memMetaCodec"
  by (simp add: resolves_def mem_reg_def new_msgs_def)

theorem tx_messages_roundtrip_witness:
  "let msg = MMint (NewMsgMint ''lumi1abc'' \<lparr>coin_denom = ''factory/lumi1abc/gold'', coin_amount = 7\<rparr>) in
   \<exists>bz m0. msg_Marshal memCoinCodec memMetaCodec msg = Ok bz \<and>
     mem_reg ''/osmosis.tokenfactory.v1beta1.MsgMint'' = Some m0 \<and>
     msg_Unmarshal memCoinCodec memMetaCodec bz m0 = Ok msg"
proof -
  let ?c = "\<lparr>coin_denom = ''factory/lumi1abc/gold'', coin_amount = 7\<rparr>"
  let ?msg = "MMint (NewMsgMint ''lumi1abc'' ?c)"
  have "coin_ok ?c" by (simp add: coin_ok_def)
  then have "msg_ok coin_enc coin_ok (\<lambda>m. pbs 0x1a (md_base m)) meta_ok ?msg"
    using sov_le_10 [of 7]
    by (simp add: NewMsgMint_def MsgMint_ok_def MsgMint_enc_def coin_enc_def size_string_def size_msg_def
      size_uint64_def sov_small word_less_nat_alt)
  from tx_messages_roundtrip [OF memCoinCodec_laws memMetaCodec_laws this mem_reg_resolves]
  show ?thesis by simp
qed

end
