(* ===== verification/MsgRpc.thy ===== *)
theory MsgRpc
  imports Rpc TxWire MsgServer
begin

text \<open>
  The generated service code of the messages of the token factory (x/tokenfactory/types/tx.pb.go): the
  client \<open>msgClient\<close>, the interface \<open>MsgServer\<close>, the handlers and the descriptor that
  \<open>RegisterMsgServer\<close> registers, with the message server of the keeper behind it. The message router of
  the SDK learns from every handler which type of message it takes, and later calls it with an
  interceptor that hands over the message of the transaction. What is shown: every message has exactly
  one handler that takes it, and that handler ends in the method of the message server.
\<close>

section \<open>The client\<close>

definition msgClient_CreateDenom :: "('w, 'x) ClientConn \<Rightarrow> MsgCreateDenom \<Rightarrow>
    'w \<Rightarrow> MsgCreateDenomResponse res \<times> 'x" where
  "msgClient_CreateDenom cc m = call_method cc ''/osmosis.tokenfactory.v1beta1.Msg/CreateDenom''
     (MsgCreateDenom_Marshal m)
     (\<lambda>bz. MsgCreateDenomResponse_Unmarshal bz MsgCreateDenomResponse_zero)"

definition msgClient_Mint :: "Coin Codec \<Rightarrow> ('w, 'x) ClientConn \<Rightarrow> MsgMint \<Rightarrow>
    'w \<Rightarrow> MsgMintResponse res \<times> 'x" where
  "msgClient_Mint C cc m = call_method cc ''/osmosis.tokenfactory.v1beta1.Msg/Mint''
     (MsgMint_Marshal C m)
     (\<lambda>bz. MsgMintResponse_Unmarshal bz MsgMintResponse_zero)"

definition msgClient_Burn :: "Coin Codec \<Rightarrow> ('w, 'x) ClientConn \<Rightarrow> MsgBurn \<Rightarrow>
    'w \<Rightarrow> MsgBurnResponse res \<times> 'x" where
  "msgClient_Burn C cc m = call_method cc ''/osmosis.tokenfactory.v1beta1.Msg/Burn''
     (MsgBurn_Marshal C m)
     (\<lambda>bz. MsgBurnResponse_Unmarshal bz MsgBurnResponse_zero)"

definition msgClient_ChangeAdmin :: "('w, 'x) ClientConn \<Rightarrow> MsgChangeAdmin \<Rightarrow>
    'w \<Rightarrow> MsgChangeAdminResponse res \<times> 'x" where
  "msgClient_ChangeAdmin cc m = call_method cc ''/osmosis.tokenfactory.v1beta1.Msg/ChangeAdmin''
     (MsgChangeAdmin_Marshal m)
     (\<lambda>bz. MsgChangeAdminResponse_Unmarshal bz MsgChangeAdminResponse_zero)"

definition msgClient_SetDenomMetadata :: "Metadata Codec \<Rightarrow> ('w, 'x) ClientConn \<Rightarrow> MsgSetDenomMetadata \<Rightarrow>
    'w \<Rightarrow> MsgSetDenomMetadataResponse res \<times> 'x" where
  "msgClient_SetDenomMetadata M cc m = call_method cc ''/osmosis.tokenfactory.v1beta1.Msg/SetDenomMetadata''
     (MsgSetDenomMetadata_Marshal M m)
     (\<lambda>bz. MsgSetDenomMetadataResponse_Unmarshal bz MsgSetDenomMetadataResponse_zero)"

definition msgClient_SetBeforeSendHook :: "('w, 'x) ClientConn \<Rightarrow> MsgSetBeforeSendHook \<Rightarrow>
    'w \<Rightarrow> MsgSetBeforeSendHookResponse res \<times> 'x" where
  "msgClient_SetBeforeSendHook cc m = call_method cc ''/osmosis.tokenfactory.v1beta1.Msg/SetBeforeSendHook''
     (MsgSetBeforeSendHook_Marshal m)
     (\<lambda>bz. MsgSetBeforeSendHookResponse_Unmarshal bz MsgSetBeforeSendHookResponse_zero)"

definition msgClient_ForceTransfer :: "Coin Codec \<Rightarrow> ('w, 'x) ClientConn \<Rightarrow> MsgForceTransfer \<Rightarrow>
    'w \<Rightarrow> MsgForceTransferResponse res \<times> 'x" where
  "msgClient_ForceTransfer C cc m = call_method cc ''/osmosis.tokenfactory.v1beta1.Msg/ForceTransfer''
     (MsgForceTransfer_Marshal C m)
     (\<lambda>bz. MsgForceTransferResponse_Unmarshal bz MsgForceTransferResponse_zero)"

section \<open>The server\<close>

record 'w MsgServer =
  ms_CreateDenom :: "MsgCreateDenom \<Rightarrow> ('w, MsgCreateDenomResponse) act"
  ms_Mint :: "MsgMint \<Rightarrow> ('w, MsgMintResponse) act"
  ms_Burn :: "MsgBurn \<Rightarrow> ('w, MsgBurnResponse) act"
  ms_ChangeAdmin :: "MsgChangeAdmin \<Rightarrow> ('w, MsgChangeAdminResponse) act"
  ms_SetDenomMetadata :: "MsgSetDenomMetadata \<Rightarrow> ('w, MsgSetDenomMetadataResponse) act"
  ms_SetBeforeSendHook :: "MsgSetBeforeSendHook \<Rightarrow> ('w, MsgSetBeforeSendHookResponse) act"
  ms_ForceTransfer :: "MsgForceTransfer \<Rightarrow> ('w, MsgForceTransferResponse) act"

definition UnimplementedMsgServer :: "'w MsgServer" where
  "UnimplementedMsgServer = \<lparr>ms_CreateDenom = (\<lambda>_. unimplemented ''CreateDenom''),
     ms_Mint = (\<lambda>_. unimplemented ''Mint''),
     ms_Burn = (\<lambda>_. unimplemented ''Burn''),
     ms_ChangeAdmin = (\<lambda>_. unimplemented ''ChangeAdmin''),
     ms_SetDenomMetadata = (\<lambda>_. unimplemented ''SetDenomMetadata''),
     ms_SetBeforeSendHook = (\<lambda>_. unimplemented ''SetBeforeSendHook''),
     ms_ForceTransfer = (\<lambda>_. unimplemented ''ForceTransfer'')\<rparr>"

definition NewMsgServerImpl :: "'w Keeper \<Rightarrow> 'w MsgServer" where
  "NewMsgServerImpl k = \<lparr>ms_CreateDenom = server_CreateDenom k, ms_Mint = server_Mint k, ms_Burn = server_Burn k,
     ms_ChangeAdmin = server_ChangeAdmin k, ms_SetDenomMetadata = server_SetDenomMetadata k,
     ms_SetBeforeSendHook = server_SetBeforeSendHook k, ms_ForceTransfer = server_ForceTransfer k\<rparr>"

text \<open>The instances of \<open>dec\<close>, by the type of the request that it reads into.\<close>

record MsgDec =
  dec_CreateDenom :: "MsgCreateDenom \<Rightarrow> MsgCreateDenom res"
  dec_Mint :: "MsgMint \<Rightarrow> MsgMint res"
  dec_Burn :: "MsgBurn \<Rightarrow> MsgBurn res"
  dec_ChangeAdmin :: "MsgChangeAdmin \<Rightarrow> MsgChangeAdmin res"
  dec_SetDenomMetadata :: "MsgSetDenomMetadata \<Rightarrow> MsgSetDenomMetadata res"
  dec_SetBeforeSendHook :: "MsgSetBeforeSendHook \<Rightarrow> MsgSetBeforeSendHook res"
  dec_ForceTransfer :: "MsgForceTransfer \<Rightarrow> MsgForceTransfer res"

text \<open>The answers of the service.\<close>

datatype MsgResponse =
    RCreateDenom MsgCreateDenomResponse
  | RMint MsgMintResponse
  | RBurn MsgBurnResponse
  | RChangeAdmin MsgChangeAdminResponse
  | RSetDenomMetadata MsgSetDenomMetadataResponse
  | RSetBeforeSendHook MsgSetBeforeSendHookResponse
  | RForceTransfer MsgForceTransferResponse

type_synonym 'w MsgHandler =
  "'w MsgServer \<Rightarrow> MsgDec \<Rightarrow> ('w MsgServer, 'w, Msg, MsgResponse) Interceptor option \<Rightarrow>
    ('w, MsgResponse) act"

definition Msg_CreateDenom_Handler :: "'w MsgHandler" where
  "Msg_CreateDenom_Handler srv dec interceptor =
     unary_handler ''/osmosis.tokenfactory.v1beta1.Msg/CreateDenom'' MCreateDenom
       (\<lambda>req. case req of MCreateDenom m \<Rightarrow> Some m | _ \<Rightarrow> None) RCreateDenom
       (ms_CreateDenom srv) (dec_CreateDenom dec MsgCreateDenom_zero) srv interceptor"

definition Msg_Mint_Handler :: "Coin Codec \<Rightarrow> 'w MsgHandler" where
  "Msg_Mint_Handler C srv dec interceptor =
     unary_handler ''/osmosis.tokenfactory.v1beta1.Msg/Mint'' MMint
       (\<lambda>req. case req of MMint m \<Rightarrow> Some m | _ \<Rightarrow> None) RMint
       (ms_Mint srv) (dec_Mint dec (MsgMint_zero C)) srv interceptor"

definition Msg_Burn_Handler :: "Coin Codec \<Rightarrow> 'w MsgHandler" where
  "Msg_Burn_Handler C srv dec interceptor =
     unary_handler ''/osmosis.tokenfactory.v1beta1.Msg/Burn'' MBurn
       (\<lambda>req. case req of MBurn m \<Rightarrow> Some m | _ \<Rightarrow> None) RBurn
       (ms_Burn srv) (dec_Burn dec (MsgBurn_zero C)) srv interceptor"

definition Msg_ChangeAdmin_Handler :: "'w MsgHandler" where
  "Msg_ChangeAdmin_Handler srv dec interceptor =
     unary_handler ''/osmosis.tokenfactory.v1beta1.Msg/ChangeAdmin'' MChangeAdmin
       (\<lambda>req. case req of MChangeAdmin m \<Rightarrow> Some m | _ \<Rightarrow> None) RChangeAdmin
       (ms_ChangeAdmin srv) (dec_ChangeAdmin dec MsgChangeAdmin_zero) srv interceptor"

definition Msg_SetDenomMetadata_Handler :: "Metadata Codec \<Rightarrow> 'w MsgHandler" where
  "Msg_SetDenomMetadata_Handler M srv dec interceptor =
     unary_handler ''/osmosis.tokenfactory.v1beta1.Msg/SetDenomMetadata'' MSetDenomMetadata
       (\<lambda>req. case req of MSetDenomMetadata m \<Rightarrow> Some m | _ \<Rightarrow> None) RSetDenomMetadata
       (ms_SetDenomMetadata srv) (dec_SetDenomMetadata dec (MsgSetDenomMetadata_zero M)) srv interceptor"

definition Msg_SetBeforeSendHook_Handler :: "'w MsgHandler" where
  "Msg_SetBeforeSendHook_Handler srv dec interceptor =
     unary_handler ''/osmosis.tokenfactory.v1beta1.Msg/SetBeforeSendHook'' MSetBeforeSendHook
       (\<lambda>req. case req of MSetBeforeSendHook m \<Rightarrow> Some m | _ \<Rightarrow> None) RSetBeforeSendHook
       (ms_SetBeforeSendHook srv) (dec_SetBeforeSendHook dec MsgSetBeforeSendHook_zero) srv interceptor"

definition Msg_ForceTransfer_Handler :: "Coin Codec \<Rightarrow> 'w MsgHandler" where
  "Msg_ForceTransfer_Handler C srv dec interceptor =
     unary_handler ''/osmosis.tokenfactory.v1beta1.Msg/ForceTransfer'' MForceTransfer
       (\<lambda>req. case req of MForceTransfer m \<Rightarrow> Some m | _ \<Rightarrow> None) RForceTransfer
       (ms_ForceTransfer srv) (dec_ForceTransfer dec (MsgForceTransfer_zero C)) srv interceptor"

definition Msg_serviceDesc :: "Coin Codec \<Rightarrow> Metadata Codec \<Rightarrow>
    ('w MsgServer, MsgDec, 'w, Msg, MsgResponse) ServiceDesc" where
  "Msg_serviceDesc C M = \<lparr>ServiceName = ''osmosis.tokenfactory.v1beta1.Msg'',
     Methods =
       [\<lparr>MethodName = ''CreateDenom'', Handler = Msg_CreateDenom_Handler\<rparr>,
        \<lparr>MethodName = ''Mint'', Handler = Msg_Mint_Handler C\<rparr>,
        \<lparr>MethodName = ''Burn'', Handler = Msg_Burn_Handler C\<rparr>,
        \<lparr>MethodName = ''ChangeAdmin'', Handler = Msg_ChangeAdmin_Handler\<rparr>,
        \<lparr>MethodName = ''SetDenomMetadata'', Handler = Msg_SetDenomMetadata_Handler M\<rparr>,
        \<lparr>MethodName = ''SetBeforeSendHook'', Handler = Msg_SetBeforeSendHook_Handler\<rparr>,
        \<lparr>MethodName = ''ForceTransfer'', Handler = Msg_ForceTransfer_Handler C\<rparr>],
     FileName = ''osmosis/tokenfactory/v1beta1/tx.proto''\<rparr>"


definition MsgService_RegisterMsgServer :: "(('w MsgServer, MsgDec, 'w, Msg, MsgResponse) ServiceDesc \<Rightarrow>
    'w MsgServer \<Rightarrow> ('s, unit) act) \<Rightarrow> Coin Codec \<Rightarrow> Metadata Codec \<Rightarrow> 'w MsgServer \<Rightarrow> ('s, unit) act" where
  "MsgService_RegisterMsgServer RegisterService C M srv = RegisterService (Msg_serviceDesc C M) srv"

section \<open>Routing\<close>

text \<open>
  The SDK asks a handler for its type of request with a \<open>dec\<close> that only looks at what it is given: here it
  fails with the name of the type.
\<close>

definition name_dec :: MsgDec where
  "name_dec = \<lparr>dec_CreateDenom = (\<lambda>m. Err (Errorf (msg_name (MCreateDenom m)))),
     dec_Mint = (\<lambda>m. Err (Errorf (msg_name (MMint m)))),
     dec_Burn = (\<lambda>m. Err (Errorf (msg_name (MBurn m)))),
     dec_ChangeAdmin = (\<lambda>m. Err (Errorf (msg_name (MChangeAdmin m)))),
     dec_SetDenomMetadata = (\<lambda>m. Err (Errorf (msg_name (MSetDenomMetadata m)))),
     dec_SetBeforeSendHook = (\<lambda>m. Err (Errorf (msg_name (MSetBeforeSendHook m)))),
     dec_ForceTransfer = (\<lambda>m. Err (Errorf (msg_name (MForceTransfer m))))\<rparr>"

definition requested :: "'w MsgServer \<Rightarrow> 'w \<Rightarrow> ('w MsgServer, MsgDec, 'w, Msg, MsgResponse) MethodDesc \<Rightarrow> string" where
  "requested srv w d = (case fst (Handler d srv name_dec None w) of Err (Errorf n) \<Rightarrow> n | _ \<Rightarrow> '''')"

text \<open>A \<open>dec\<close> that leaves the new request as it is.\<close>

definition noop_dec :: MsgDec where
  "noop_dec = \<lparr>dec_CreateDenom = Ok, dec_Mint = Ok, dec_Burn = Ok, dec_ChangeAdmin = Ok,
     dec_SetDenomMetadata = Ok, dec_SetBeforeSendHook = Ok, dec_ForceTransfer = Ok\<rparr>"

lemmas msg_handler_defs = Msg_CreateDenom_Handler_def Msg_Mint_Handler_def Msg_Burn_Handler_def
  Msg_ChangeAdmin_Handler_def Msg_SetDenomMetadata_Handler_def Msg_SetBeforeSendHook_Handler_def
  Msg_ForceTransfer_Handler_def

lemma requested_methods:
  "map (requested srv w) (Methods (Msg_serviceDesc C M)) = map msg_name (new_msgs C M)"
  by (simp add: Msg_serviceDesc_def new_msgs_def requested_def msg_handler_defs unary_handler_request name_dec_def)

lemma msg_names_distinct: "distinct (map msg_name (new_msgs C M))"
  by (simp add: new_msgs_def)

fun msg_respond :: "'w Keeper \<Rightarrow> Msg \<Rightarrow> ('w, MsgResponse) act" where
  "msg_respond k (MCreateDenom m) = fmapA RCreateDenom (server_CreateDenom k m)"
| "msg_respond k (MMint m) = fmapA RMint (server_Mint k m)"
| "msg_respond k (MBurn m) = fmapA RBurn (server_Burn k m)"
| "msg_respond k (MChangeAdmin m) = fmapA RChangeAdmin (server_ChangeAdmin k m)"
| "msg_respond k (MSetDenomMetadata m) = fmapA RSetDenomMetadata (server_SetDenomMetadata k m)"
| "msg_respond k (MSetBeforeSendHook m) = fmapA RSetBeforeSendHook (server_SetBeforeSendHook k m)"
| "msg_respond k (MForceTransfer m) = fmapA RForceTransfer (server_ForceTransfer k m)"

lemma ret_bindA: "bindA (ret v) f = f v" "bindA m ret = m"
  by (rule ext; auto simp: bindA_def ret_def split: prod.split res.split)+

lemma bindA_fmapA: "bindA (fmapA f m) (\<lambda>_. n) = bindA m (\<lambda>_. n)"
  by (simp add: fmapA_def bindA_assoc ret_bindA)

section \<open>Properties\<close>

text \<open>C38. Every message has exactly one handler of the service that takes it, and a message that the
  router hands to that handler is handled by the message server: whichever type a message has, its
  method of the keeper runs, and runs on that message.\<close>

theorem msg_service_routes:
  "\<exists>d. filter (\<lambda>d. requested srv w d = msg_name msg) (Methods (Msg_serviceDesc C M)) = [d]
    \<and> bindA (Handler d (NewMsgServerImpl k) noop_dec (Some (\<lambda>_ _ h. h msg))) (\<lambda>_. ret ()) = handle k msg"
  by (cases msg)
    (simp_all add: Msg_serviceDesc_def requested_def msg_handler_defs unary_handler_request name_dec_def
      noop_dec_def unary_handler_routed bindA_fmapA ret_bindA NewMsgServerImpl_def)

section \<open>Calls over a connection\<close>

text \<open>The bytes of an answer.\<close>

fun msg_response_Marshal :: "MsgResponse \<Rightarrow> bytes res" where
  "msg_response_Marshal (RCreateDenom m) = MsgCreateDenomResponse_Marshal m"
| "msg_response_Marshal (RMint m) = MsgMintResponse_Marshal m"
| "msg_response_Marshal (RBurn m) = MsgBurnResponse_Marshal m"
| "msg_response_Marshal (RChangeAdmin m) = MsgChangeAdminResponse_Marshal m"
| "msg_response_Marshal (RSetDenomMetadata m) = MsgSetDenomMetadataResponse_Marshal m"
| "msg_response_Marshal (RSetBeforeSendHook m) = MsgSetBeforeSendHookResponse_Marshal m"
| "msg_response_Marshal (RForceTransfer m) = MsgForceTransferResponse_Marshal m"

definition msg_dec :: "Coin Codec \<Rightarrow> Metadata Codec \<Rightarrow> bytes \<Rightarrow> MsgDec" where
  "msg_dec C M bz = \<lparr>dec_CreateDenom = MsgCreateDenom_Unmarshal bz, dec_Mint = MsgMint_Unmarshal C bz,
     dec_Burn = MsgBurn_Unmarshal C bz, dec_ChangeAdmin = MsgChangeAdmin_Unmarshal bz,
     dec_SetDenomMetadata = MsgSetDenomMetadata_Unmarshal M bz,
     dec_SetBeforeSendHook = MsgSetBeforeSendHook_Unmarshal bz, dec_ForceTransfer = MsgForceTransfer_Unmarshal C bz\<rparr>"

text \<open>A method of the client.\<close>

fun msg_call :: "Coin Codec \<Rightarrow> Metadata Codec \<Rightarrow> ('w, 'w) ClientConn \<Rightarrow> Msg \<Rightarrow> ('w, MsgResponse) act" where
  "msg_call C M cc (MCreateDenom m) = fmapA RCreateDenom (msgClient_CreateDenom cc m)"
| "msg_call C M cc (MMint m) = fmapA RMint (msgClient_Mint C cc m)"
| "msg_call C M cc (MBurn m) = fmapA RBurn (msgClient_Burn C cc m)"
| "msg_call C M cc (MChangeAdmin m) = fmapA RChangeAdmin (msgClient_ChangeAdmin cc m)"
| "msg_call C M cc (MSetDenomMetadata m) = fmapA RSetDenomMetadata (msgClient_SetDenomMetadata M cc m)"
| "msg_call C M cc (MSetBeforeSendHook m) = fmapA RSetBeforeSendHook (msgClient_SetBeforeSendHook cc m)"
| "msg_call C M cc (MForceTransfer m) = fmapA RForceTransfer (msgClient_ForceTransfer C cc m)"

fun answer_ok :: "MsgResponse \<Rightarrow> bool" where
  "answer_ok (RCreateDenom m) = MsgCreateDenomResponse_ok m"
| "answer_ok _ = True"

lemmas response_trips =
  createdenomresp.marshal_enc [folded MsgCreateDenomResponse_Marshal_def] createdenomresp.unmarshal_enc
  mintresp.marshal_enc [folded MsgMintResponse_Marshal_def] mintresp.unmarshal_enc
  burnresp.marshal_enc [folded MsgBurnResponse_Marshal_def] burnresp.unmarshal_enc
  changeadminresp.marshal_enc [folded MsgChangeAdminResponse_Marshal_def] changeadminresp.unmarshal_enc
  setdenommetadataresp.marshal_enc [folded MsgSetDenomMetadataResponse_Marshal_def] setdenommetadataresp.unmarshal_enc
  setbeforesendhookresp.marshal_enc [folded MsgSetBeforeSendHookResponse_Marshal_def] setbeforesendhookresp.unmarshal_enc
  forcetransferresp.marshal_enc [folded MsgForceTransferResponse_Marshal_def] forcetransferresp.unmarshal_enc


lemma unit_trips:
  "MsgMintResponse_Marshal () = Ok []" "MsgMintResponse_Unmarshal [] () = Ok ()"
  "MsgBurnResponse_Marshal () = Ok []" "MsgBurnResponse_Unmarshal [] () = Ok ()"
  "MsgChangeAdminResponse_Marshal () = Ok []" "MsgChangeAdminResponse_Unmarshal [] () = Ok ()"
  "MsgSetDenomMetadataResponse_Marshal () = Ok []" "MsgSetDenomMetadataResponse_Unmarshal [] () = Ok ()"
  "MsgSetBeforeSendHookResponse_Marshal () = Ok []" "MsgSetBeforeSendHookResponse_Unmarshal [] () = Ok ()"
  "MsgForceTransferResponse_Marshal () = Ok []" "MsgForceTransferResponse_Unmarshal [] () = Ok ()"
  using response_trips(3-) [of "()"]
  by (simp_all add: MsgMintResponse_ok_def MsgMintResponse_enc_def MsgBurnResponse_ok_def MsgBurnResponse_enc_def MsgChangeAdminResponse_ok_def MsgChangeAdminResponse_enc_def MsgSetDenomMetadataResponse_ok_def MsgSetDenomMetadataResponse_enc_def MsgSetBeforeSendHookResponse_ok_def MsgSetBeforeSendHookResponse_enc_def MsgForceTransferResponse_ok_def MsgForceTransferResponse_enc_def)

lemmas rpc_simps = Msg_serviceDesc_def msg_handler_defs NewMsgServerImpl_def msg_dec_def full_method_def
  unary_handler_def fmapA_def bindA_run

lemma msg_call_is_server:
  assumes C: "codec_laws C e c" and M: "codec_laws M em cm" and ok: "msg_ok e c em cm msg"
    and conn: "serves cc (Msg_serviceDesc C M) (NewMsgServerImpl k) (msg_dec C M) msg_response_Marshal (\<lambda>w. w)"
    and run: "msg_respond k msg w = (Ok r, w')" and r: "answer_ok r"
  shows "msg_call C M cc msg w = (Ok r, w')"
proof (cases msg)
  case (MCreateDenom m)
  then obtain v where v: "server_CreateDenom k m w = (Ok v, w')" "r = RCreateDenom v"
    using run by (auto simp: fmapA_def bindA_Ok_iff)
  have "msgClient_CreateDenom cc m w = (Ok v, w')"
    unfolding msgClient_CreateDenom_def
    by (rule client_call [OF conn, where name = "''CreateDenom''" and H = Msg_CreateDenom_Handler and r = r and b = "MsgCreateDenomResponse_enc v"])
      (use v ok r MCreateDenom in \<open>simp_all add: rpc_simps plain_trips response_trips(1,2)\<close>)
  then show ?thesis using v(2) by (simp add: MCreateDenom fmapA_def bindA_run)
next
  case (MMint m)
  then obtain v where v: "server_Mint k m w = (Ok v, w')" "r = RMint v"
    using run by (auto simp: fmapA_def bindA_Ok_iff)
  have "msgClient_Mint C cc m w = (Ok v, w')"
    unfolding msgClient_Mint_def
    by (rule client_call [OF conn, where name = "''Mint''" and H = "Msg_Mint_Handler C" and r = r and b = "[]"])
      (use v ok r MMint in \<open>simp_all add: rpc_simps coded_trips [OF C] unit_trips\<close>)
  then show ?thesis using v(2) by (simp add: MMint fmapA_def bindA_run)
next
  case (MBurn m)
  then obtain v where v: "server_Burn k m w = (Ok v, w')" "r = RBurn v"
    using run by (auto simp: fmapA_def bindA_Ok_iff)
  have "msgClient_Burn C cc m w = (Ok v, w')"
    unfolding msgClient_Burn_def
    by (rule client_call [OF conn, where name = "''Burn''" and H = "Msg_Burn_Handler C" and r = r and b = "[]"])
      (use v ok r MBurn in \<open>simp_all add: rpc_simps coded_trips [OF C] unit_trips\<close>)
  then show ?thesis using v(2) by (simp add: MBurn fmapA_def bindA_run)
next
  case (MChangeAdmin m)
  then obtain v where v: "server_ChangeAdmin k m w = (Ok v, w')" "r = RChangeAdmin v"
    using run by (auto simp: fmapA_def bindA_Ok_iff)
  have "msgClient_ChangeAdmin cc m w = (Ok v, w')"
    unfolding msgClient_ChangeAdmin_def
    by (rule client_call [OF conn, where name = "''ChangeAdmin''" and H = Msg_ChangeAdmin_Handler and r = r and b = "[]"])
      (use v ok r MChangeAdmin in \<open>simp_all add: rpc_simps plain_trips unit_trips\<close>)
  then show ?thesis using v(2) by (simp add: MChangeAdmin fmapA_def bindA_run)
next
  case (MSetDenomMetadata m)
  then obtain v where v: "server_SetDenomMetadata k m w = (Ok v, w')" "r = RSetDenomMetadata v"
    using run by (auto simp: fmapA_def bindA_Ok_iff)
  have "msgClient_SetDenomMetadata M cc m w = (Ok v, w')"
    unfolding msgClient_SetDenomMetadata_def
    by (rule client_call [OF conn, where name = "''SetDenomMetadata''" and H = "Msg_SetDenomMetadata_Handler M" and r = r and b = "[]"])
      (use v ok r MSetDenomMetadata in \<open>simp_all add: rpc_simps metadata_trips [OF M] unit_trips\<close>)
  then show ?thesis using v(2) by (simp add: MSetDenomMetadata fmapA_def bindA_run)
next
  case (MSetBeforeSendHook m)
  then obtain v where v: "server_SetBeforeSendHook k m w = (Ok v, w')" "r = RSetBeforeSendHook v"
    using run by (auto simp: fmapA_def bindA_Ok_iff)
  have "msgClient_SetBeforeSendHook cc m w = (Ok v, w')"
    unfolding msgClient_SetBeforeSendHook_def
    by (rule client_call [OF conn, where name = "''SetBeforeSendHook''" and H = Msg_SetBeforeSendHook_Handler and r = r and b = "[]"])
      (use v ok r MSetBeforeSendHook in \<open>simp_all add: rpc_simps plain_trips unit_trips\<close>)
  then show ?thesis using v(2) by (simp add: MSetBeforeSendHook fmapA_def bindA_run)
next
  case (MForceTransfer m)
  then obtain v where v: "server_ForceTransfer k m w = (Ok v, w')" "r = RForceTransfer v"
    using run by (auto simp: fmapA_def bindA_Ok_iff)
  have "msgClient_ForceTransfer C cc m w = (Ok v, w')"
    unfolding msgClient_ForceTransfer_def
    by (rule client_call [OF conn, where name = "''ForceTransfer''" and H = "Msg_ForceTransfer_Handler C" and r = r and b = "[]"])
      (use v ok r MForceTransfer in \<open>simp_all add: rpc_simps coded_trips [OF C] unit_trips\<close>)
  then show ?thesis using v(2) by (simp add: MForceTransfer fmapA_def bindA_run)
qed

end
