(* ===== verification/Gateway.thy ===== *)
theory Gateway
  imports TokenQuery
begin

text \<open>
  The HTTP gateway of the query service of x/tokenfactory (types/query.pb.gw.go): per query the
  function that makes the request message out of the path parameters and calls the service, remote
  (\<open>request_\<close>) or in the same process (\<open>local_request_\<close>), the HTTP handler around each, the routes and
  the registration of the handlers.

  grpc-gateway, grpc and net/http are not part of the repository: \<open>Runtime\<close> holds what the handlers
  call of them, and \<open>runtime_laws\<close> says how a pattern matches a path (a literal is one segment, a
  variable takes one segment, as the path templates of google.api.http are documented). A handler ends
  in one call of \<open>runtime.HTTPError\<close> or of the forward function; \<open>Reply\<close> is which one, with the server
  metadata of its context (none before \<open>NewServerMetadataContext\<close>).

  A route for a denomination takes one path segment and a denomination of the token factory has two
  slashes: written plainly in the path, or percent-encoded once, it reaches no route, because the path is
  decoded before it is split; percent-encoded twice it reaches the keeper, because the query server decodes
  it again.
\<close>

section \<open>What the handlers call\<close>

type_synonym MD = "string \<rightharpoonup> string list"

record ServerMetadata =
  HeaderMD :: MD
  TrailerMD :: MD

definition no_metadata :: ServerMetadata where
  "no_metadata = \<lparr>HeaderMD = Map.empty, TrailerMD = Map.empty\<rparr>"

record Pattern =
  pat_ops :: "int list"
  pat_pool :: "string list"

record ('req, 'ctx) Runtime =
  AnnotateContext :: "'req \<Rightarrow> 'ctx res"
  AnnotateIncomingContext :: "'req \<Rightarrow> 'ctx res"
  RuntimeString :: "string \<Rightarrow> string res"
  JoinMD :: "MD \<Rightarrow> MD \<Rightarrow> MD"
  MatchPattern :: "Pattern \<Rightarrow> string list \<Rightarrow> (string \<rightharpoonup> string) option"

text \<open>
  \<open>QueryClient\<close> and \<open>QueryServer\<close> have the same methods. Next to its answer a client method gives the
  header and trailer it received, a server method those it left in the transport stream of its context.
\<close>

record 'ctx QueryService =
  svc_Params :: "'ctx \<Rightarrow> unit \<Rightarrow> QueryParamsResponse res \<times> ServerMetadata"
  svc_DenomAuthorityMetadata :: "'ctx \<Rightarrow> QueryDenomAuthorityMetadataRequest \<Rightarrow>
    QueryDenomAuthorityMetadataResponse res \<times> ServerMetadata"
  svc_DenomsFromCreator :: "'ctx \<Rightarrow> QueryDenomsFromCreatorRequest \<Rightarrow>
    QueryDenomsFromCreatorResponse res \<times> ServerMetadata"
  svc_BeforeSendHookAddress :: "'ctx \<Rightarrow> QueryBeforeSendHookAddressRequest \<Rightarrow>
    QueryBeforeSendHookAddressResponse res \<times> ServerMetadata"
  svc_AllBeforeSendHooksAddresses :: "'ctx \<Rightarrow> unit \<Rightarrow>
    QueryAllBeforeSendHooksAddressesResponse res \<times> ServerMetadata"

datatype proto_Message =
    MParams QueryParamsResponse
  | MDenomAuthorityMetadata QueryDenomAuthorityMetadataResponse
  | MDenomsFromCreator QueryDenomsFromCreatorResponse
  | MBeforeSendHookAddress QueryBeforeSendHookAddressResponse
  | MAllBeforeSendHooksAddresses QueryAllBeforeSendHooksAddressesResponse

datatype 'm Reply =
    HTTPError "ServerMetadata option" error
  | ForwardResponseMessage ServerMetadata 'm

definition missing_parameter :: "string \<Rightarrow> error" where
  "missing_parameter p = Errorf (''rpc error: code = InvalidArgument desc = missing parameter '' @ p)"

definition type_mismatch :: "string \<Rightarrow> error \<Rightarrow> error" where
  "type_mismatch p e = Errorf (''rpc error: code = InvalidArgument desc = type mismatch, parameter: ''
     @ p @ '', error: '' @ ErrorText e)"

section \<open>Requests\<close>

text \<open>
  A request function gives the message, the error or the panic, and the metadata it returns; in front
  of the local ones is the metadata of the stream (\<open>no_metadata\<close> when the server was not called).
\<close>

definition request_Query_Params_0 :: "'ctx QueryService \<Rightarrow> 'ctx \<Rightarrow> (string \<rightharpoonup> string) \<Rightarrow>
    proto_Message res \<times> ServerMetadata" where
  "request_Query_Params_0 client c pathParams =
     (let (msg, metadata) = svc_Params client c () in (bindR msg (\<lambda>m. Ok (MParams m)), metadata))"

definition local_request_Query_Params_0 :: "'ctx QueryService \<Rightarrow> 'ctx \<Rightarrow> (string \<rightharpoonup> string) \<Rightarrow>
    ServerMetadata \<times> proto_Message res \<times> ServerMetadata" where
  "local_request_Query_Params_0 server c pathParams =
     (let (msg, stream) = svc_Params server c ()
      in (stream, bindR msg (\<lambda>m. Ok (MParams m)), no_metadata))"

definition request_Query_DenomAuthorityMetadata_0 :: "('req, 'ctx) Runtime \<Rightarrow> 'ctx QueryService \<Rightarrow>
    'ctx \<Rightarrow> (string \<rightharpoonup> string) \<Rightarrow> proto_Message res \<times> ServerMetadata" where
  "request_Query_DenomAuthorityMetadata_0 rt client c pathParams =
     (case pathParams ''denom'' of
        None \<Rightarrow> (Err (missing_parameter ''denom''), no_metadata)
      | Some val \<Rightarrow>
          (case RuntimeString rt val of
             Err e \<Rightarrow> (Err (type_mismatch ''denom'' e), no_metadata)
           | Panic p \<Rightarrow> (Panic p, no_metadata)
           | Ok denom \<Rightarrow>
               (let (msg, metadata) = svc_DenomAuthorityMetadata client c \<lparr>qd_Denom = denom\<rparr>
                in (bindR msg (\<lambda>m. Ok (MDenomAuthorityMetadata m)), metadata))))"

definition local_request_Query_DenomAuthorityMetadata_0 :: "('req, 'ctx) Runtime \<Rightarrow>
    'ctx QueryService \<Rightarrow> 'ctx \<Rightarrow> (string \<rightharpoonup> string) \<Rightarrow>
    ServerMetadata \<times> proto_Message res \<times> ServerMetadata" where
  "local_request_Query_DenomAuthorityMetadata_0 rt server c pathParams =
     (case pathParams ''denom'' of
        None \<Rightarrow> (no_metadata, Err (missing_parameter ''denom''), no_metadata)
      | Some val \<Rightarrow>
          (case RuntimeString rt val of
             Err e \<Rightarrow> (no_metadata, Err (type_mismatch ''denom'' e), no_metadata)
           | Panic p \<Rightarrow> (no_metadata, Panic p, no_metadata)
           | Ok denom \<Rightarrow>
               (let (msg, stream) = svc_DenomAuthorityMetadata server c \<lparr>qd_Denom = denom\<rparr>
                in (stream, bindR msg (\<lambda>m. Ok (MDenomAuthorityMetadata m)), no_metadata))))"

definition request_Query_DenomsFromCreator_0 :: "('req, 'ctx) Runtime \<Rightarrow> 'ctx QueryService \<Rightarrow>
    'ctx \<Rightarrow> (string \<rightharpoonup> string) \<Rightarrow> proto_Message res \<times> ServerMetadata" where
  "request_Query_DenomsFromCreator_0 rt client c pathParams =
     (case pathParams ''creator'' of
        None \<Rightarrow> (Err (missing_parameter ''creator''), no_metadata)
      | Some val \<Rightarrow>
          (case RuntimeString rt val of
             Err e \<Rightarrow> (Err (type_mismatch ''creator'' e), no_metadata)
           | Panic p \<Rightarrow> (Panic p, no_metadata)
           | Ok creator \<Rightarrow>
               (let (msg, metadata) = svc_DenomsFromCreator client c \<lparr>qc_Creator = creator\<rparr>
                in (bindR msg (\<lambda>m. Ok (MDenomsFromCreator m)), metadata))))"

definition local_request_Query_DenomsFromCreator_0 :: "('req, 'ctx) Runtime \<Rightarrow>
    'ctx QueryService \<Rightarrow> 'ctx \<Rightarrow> (string \<rightharpoonup> string) \<Rightarrow>
    ServerMetadata \<times> proto_Message res \<times> ServerMetadata" where
  "local_request_Query_DenomsFromCreator_0 rt server c pathParams =
     (case pathParams ''creator'' of
        None \<Rightarrow> (no_metadata, Err (missing_parameter ''creator''), no_metadata)
      | Some val \<Rightarrow>
          (case RuntimeString rt val of
             Err e \<Rightarrow> (no_metadata, Err (type_mismatch ''creator'' e), no_metadata)
           | Panic p \<Rightarrow> (no_metadata, Panic p, no_metadata)
           | Ok creator \<Rightarrow>
               (let (msg, stream) = svc_DenomsFromCreator server c \<lparr>qc_Creator = creator\<rparr>
                in (stream, bindR msg (\<lambda>m. Ok (MDenomsFromCreator m)), no_metadata))))"

definition request_Query_BeforeSendHookAddress_0 :: "('req, 'ctx) Runtime \<Rightarrow> 'ctx QueryService \<Rightarrow>
    'ctx \<Rightarrow> (string \<rightharpoonup> string) \<Rightarrow> proto_Message res \<times> ServerMetadata" where
  "request_Query_BeforeSendHookAddress_0 rt client c pathParams =
     (case pathParams ''denom'' of
        None \<Rightarrow> (Err (missing_parameter ''denom''), no_metadata)
      | Some val \<Rightarrow>
          (case RuntimeString rt val of
             Err e \<Rightarrow> (Err (type_mismatch ''denom'' e), no_metadata)
           | Panic p \<Rightarrow> (Panic p, no_metadata)
           | Ok denom \<Rightarrow>
               (let (msg, metadata) = svc_BeforeSendHookAddress client c \<lparr>qh_Denom = denom\<rparr>
                in (bindR msg (\<lambda>m. Ok (MBeforeSendHookAddress m)), metadata))))"

definition local_request_Query_BeforeSendHookAddress_0 :: "('req, 'ctx) Runtime \<Rightarrow>
    'ctx QueryService \<Rightarrow> 'ctx \<Rightarrow> (string \<rightharpoonup> string) \<Rightarrow>
    ServerMetadata \<times> proto_Message res \<times> ServerMetadata" where
  "local_request_Query_BeforeSendHookAddress_0 rt server c pathParams =
     (case pathParams ''denom'' of
        None \<Rightarrow> (no_metadata, Err (missing_parameter ''denom''), no_metadata)
      | Some val \<Rightarrow>
          (case RuntimeString rt val of
             Err e \<Rightarrow> (no_metadata, Err (type_mismatch ''denom'' e), no_metadata)
           | Panic p \<Rightarrow> (no_metadata, Panic p, no_metadata)
           | Ok denom \<Rightarrow>
               (let (msg, stream) = svc_BeforeSendHookAddress server c \<lparr>qh_Denom = denom\<rparr>
                in (stream, bindR msg (\<lambda>m. Ok (MBeforeSendHookAddress m)), no_metadata))))"

definition request_Query_AllBeforeSendHooksAddresses_0 :: "'ctx QueryService \<Rightarrow> 'ctx \<Rightarrow>
    (string \<rightharpoonup> string) \<Rightarrow> proto_Message res \<times> ServerMetadata" where
  "request_Query_AllBeforeSendHooksAddresses_0 client c pathParams =
     (let (msg, metadata) = svc_AllBeforeSendHooksAddresses client c ()
      in (bindR msg (\<lambda>m. Ok (MAllBeforeSendHooksAddresses m)), metadata))"

definition local_request_Query_AllBeforeSendHooksAddresses_0 :: "'ctx QueryService \<Rightarrow> 'ctx \<Rightarrow>
    (string \<rightharpoonup> string) \<Rightarrow> ServerMetadata \<times> proto_Message res \<times> ServerMetadata" where
  "local_request_Query_AllBeforeSendHooksAddresses_0 server c pathParams =
     (let (msg, stream) = svc_AllBeforeSendHooksAddresses server c ()
      in (stream, bindR msg (\<lambda>m. Ok (MAllBeforeSendHooksAddresses m)), no_metadata))"

section \<open>Handlers\<close>

text \<open>The body of an HTTP handler of \<open>RegisterQueryHandlerServer\<close>, and of \<open>RegisterQueryHandlerClient\<close>.\<close>

definition serve_local :: "('req, 'ctx) Runtime \<Rightarrow> 'req \<Rightarrow>
    ('ctx \<Rightarrow> ServerMetadata \<times> 'm res \<times> ServerMetadata) \<Rightarrow> 'm Reply res" where
  "serve_local rt req local_request =
     (case AnnotateIncomingContext rt req of
        Err e \<Rightarrow> Ok (HTTPError None e)
      | Panic p \<Rightarrow> Panic p
      | Ok rctx \<Rightarrow>
          (let (stream, resp, md) = local_request rctx;
               md = \<lparr>HeaderMD = JoinMD rt (HeaderMD md) (HeaderMD stream),
                     TrailerMD = JoinMD rt (TrailerMD md) (TrailerMD stream)\<rparr>
           in case resp of
                Err e \<Rightarrow> Ok (HTTPError (Some md) e)
              | Panic p \<Rightarrow> Panic p
              | Ok msg \<Rightarrow> Ok (ForwardResponseMessage md msg)))"

definition serve_remote :: "('req, 'ctx) Runtime \<Rightarrow> 'req \<Rightarrow>
    ('ctx \<Rightarrow> 'm res \<times> ServerMetadata) \<Rightarrow> 'm Reply res" where
  "serve_remote rt req request =
     (case AnnotateContext rt req of
        Err e \<Rightarrow> Ok (HTTPError None e)
      | Panic p \<Rightarrow> Panic p
      | Ok rctx \<Rightarrow>
          (let (resp, md) = request rctx
           in case resp of
                Err e \<Rightarrow> Ok (HTTPError (Some md) e)
              | Panic p \<Rightarrow> Panic p
              | Ok msg \<Rightarrow> Ok (ForwardResponseMessage md msg)))"

definition pattern_Query_Params_0 :: Pattern where
  "pattern_Query_Params_0 = \<lparr>pat_ops = [2, 0, 2, 1, 2, 2, 2, 3],
     pat_pool = [''osmosis'', ''tokenfactory'', ''v1beta1'', ''params'']\<rparr>"

definition pattern_Query_DenomAuthorityMetadata_0 :: Pattern where
  "pattern_Query_DenomAuthorityMetadata_0 = \<lparr>pat_ops = [2, 0, 2, 1, 2, 2, 2, 3, 1, 0, 4, 1, 5, 4, 2, 5],
     pat_pool = [''osmosis'', ''tokenfactory'', ''v1beta1'', ''denoms'', ''denom'', ''authority_metadata'']\<rparr>"

definition pattern_Query_DenomsFromCreator_0 :: Pattern where
  "pattern_Query_DenomsFromCreator_0 = \<lparr>pat_ops = [2, 0, 2, 1, 2, 2, 2, 3, 1, 0, 4, 1, 5, 4],
     pat_pool = [''osmosis'', ''tokenfactory'', ''v1beta1'', ''denoms_from_creator'', ''creator'']\<rparr>"

definition pattern_Query_BeforeSendHookAddress_0 :: Pattern where
  "pattern_Query_BeforeSendHookAddress_0 = \<lparr>pat_ops = [2, 0, 2, 1, 2, 2, 2, 3, 1, 0, 4, 1, 5, 4, 2, 5],
     pat_pool = [''osmosis'', ''tokenfactory'', ''v1beta1'', ''denoms'', ''denom'', ''before_send_hook'']\<rparr>"

definition pattern_Query_AllBeforeSendHooksAddresses_0 :: Pattern where
  "pattern_Query_AllBeforeSendHooksAddresses_0 = \<lparr>pat_ops = [2, 0, 2, 1, 2, 2, 2, 3],
     pat_pool = [''osmosis'', ''tokenfactory'', ''v1beta1'', ''all_before_send_hooks'']\<rparr>"

text \<open>A call of \<open>mux.Handle\<close>: the method, the pattern and the handler.\<close>

type_synonym ('req, 'm) Route =
  "string \<times> Pattern \<times> ('req \<Rightarrow> (string \<rightharpoonup> string) \<Rightarrow> 'm Reply res)"

definition RegisterQueryHandlerServer :: "('req, 'ctx) Runtime \<Rightarrow> 'ctx QueryService \<Rightarrow>
    ('req, proto_Message) Route list res" where
  "RegisterQueryHandlerServer rt server = Ok
     [(''GET'', pattern_Query_Params_0, \<lambda>req pathParams.
         serve_local rt req (\<lambda>rctx. local_request_Query_Params_0 server rctx pathParams)),
      (''GET'', pattern_Query_DenomAuthorityMetadata_0, \<lambda>req pathParams.
         serve_local rt req (\<lambda>rctx. local_request_Query_DenomAuthorityMetadata_0 rt server rctx pathParams)),
      (''GET'', pattern_Query_DenomsFromCreator_0, \<lambda>req pathParams.
         serve_local rt req (\<lambda>rctx. local_request_Query_DenomsFromCreator_0 rt server rctx pathParams)),
      (''GET'', pattern_Query_BeforeSendHookAddress_0, \<lambda>req pathParams.
         serve_local rt req (\<lambda>rctx. local_request_Query_BeforeSendHookAddress_0 rt server rctx pathParams)),
      (''GET'', pattern_Query_AllBeforeSendHooksAddresses_0, \<lambda>req pathParams.
         serve_local rt req (\<lambda>rctx. local_request_Query_AllBeforeSendHooksAddresses_0 server rctx pathParams))]"

definition RegisterQueryHandlerClient :: "('req, 'ctx) Runtime \<Rightarrow> 'ctx QueryService \<Rightarrow>
    ('req, proto_Message) Route list res" where
  "RegisterQueryHandlerClient rt client = Ok
     [(''GET'', pattern_Query_Params_0, \<lambda>req pathParams.
         serve_remote rt req (\<lambda>rctx. request_Query_Params_0 client rctx pathParams)),
      (''GET'', pattern_Query_DenomAuthorityMetadata_0, \<lambda>req pathParams.
         serve_remote rt req (\<lambda>rctx. request_Query_DenomAuthorityMetadata_0 rt client rctx pathParams)),
      (''GET'', pattern_Query_DenomsFromCreator_0, \<lambda>req pathParams.
         serve_remote rt req (\<lambda>rctx. request_Query_DenomsFromCreator_0 rt client rctx pathParams)),
      (''GET'', pattern_Query_BeforeSendHookAddress_0, \<lambda>req pathParams.
         serve_remote rt req (\<lambda>rctx. request_Query_BeforeSendHookAddress_0 rt client rctx pathParams)),
      (''GET'', pattern_Query_AllBeforeSendHooksAddresses_0, \<lambda>req pathParams.
         serve_remote rt req (\<lambda>rctx. request_Query_AllBeforeSendHooksAddresses_0 client rctx pathParams))]"

text \<open>
  \<open>NewQueryClient\<close> makes the client of a connection. The deferred function closes the connection at
  once when the registration failed, and when the context is done otherwise; \<open>Closing\<close> is which.
\<close>

definition RegisterQueryHandler :: "('req, 'ctx) Runtime \<Rightarrow> ('conn \<Rightarrow> 'ctx QueryService) \<Rightarrow> 'conn \<Rightarrow>
    ('req, proto_Message) Route list res" where
  "RegisterQueryHandler rt newQueryClient conn = RegisterQueryHandlerClient rt (newQueryClient conn)"

datatype 'conn Closing = CloseNow 'conn | CloseWhenDone 'conn

definition RegisterQueryHandlerFromEndpoint :: "('req, 'ctx) Runtime \<Rightarrow> ('conn \<Rightarrow> 'ctx QueryService) \<Rightarrow>
    (string \<Rightarrow> 'conn res) \<Rightarrow> string \<Rightarrow> ('req, proto_Message) Route list res \<times> 'conn Closing list" where
  "RegisterQueryHandlerFromEndpoint rt newQueryClient dial endpoint =
     (case dial endpoint of
        Err e \<Rightarrow> (Err e, [])
      | Panic p \<Rightarrow> (Panic p, [])
      | Ok conn \<Rightarrow>
          (case RegisterQueryHandler rt newQueryClient conn of
             Ok routes \<Rightarrow> (Ok routes, [CloseWhenDone conn])
           | Err e \<Rightarrow> (Err e, [CloseNow conn])
           | Panic p \<Rightarrow> (Panic p, [CloseWhenDone conn])))"

section \<open>Routing\<close>

text \<open>
  A pattern is a template, written with the operations of package utilities: \<open>2 i\<close> pushes the segment
  when it is the literal \<open>i\<close>, \<open>1 0 4 1 5 i\<close> pushes any one segment and captures it as the variable \<open>i\<close>.
\<close>

datatype segment = Lit string | Var string

fun template :: "string list \<Rightarrow> int list \<Rightarrow> segment list option" where
  "template pool [] = Some []"
| "template pool [x] = None"
| "template pool (op # i # ops) =
     (if op = 2 then map_option (Cons (Lit (pool ! nat i))) (template pool ops)
      else case ops of
          a # b # c # j # r \<Rightarrow>
            if [op, i, a, b, c] = [1, 0, 4, 1, 5] then map_option (Cons (Var (pool ! nat j))) (template pool r)
            else None
        | _ \<Rightarrow> None)"

fun template_match :: "segment list \<Rightarrow> string list \<Rightarrow> (string \<rightharpoonup> string) option" where
  "template_match [] [] = Some Map.empty"
| "template_match (Lit l # ss) (c # cs) = (if c = l then template_match ss cs else None)"
| "template_match (Var x # ss) (c # cs) = map_option (\<lambda>m. m(x \<mapsto> c)) (template_match ss cs)"
| "template_match _ _ = None"

definition runtime_laws :: "('req, 'ctx) Runtime \<Rightarrow> bool" where
  "runtime_laws rt \<longleftrightarrow>
     (\<forall>p ss cs. template (pat_pool p) (pat_ops p) = Some ss \<longrightarrow> MatchPattern rt p cs = template_match ss cs)
     \<and> (\<forall>s. RuntimeString rt s = Ok s)"

text \<open>
  The handlers whose method and pattern match a request: \<open>ServeMux\<close> calls one of them, and answers
  404 when there is none. The path is the decoded one of the request, split at its slashes.
\<close>

definition matching :: "('req, 'ctx) Runtime \<Rightarrow> ('req, 'm) Route list \<Rightarrow> string \<Rightarrow> string \<Rightarrow>
    ('req \<Rightarrow> 'm Reply res) list" where
  "matching rt routes meth path =
     concat (map (\<lambda>(m, p, h). if m = meth then
         (case MatchPattern rt p (Split (tl path) CHR ''/'') of Some pp \<Rightarrow> [\<lambda>req. h req pp] | None \<Rightarrow> [])
       else []) routes)"

lemma pattern_match:
  assumes "runtime_laws rt"
  shows "MatchPattern rt pattern_Query_Params_0 cs = template_match
      [Lit ''osmosis'', Lit ''tokenfactory'', Lit ''v1beta1'', Lit ''params''] cs"
    and "MatchPattern rt pattern_Query_DenomAuthorityMetadata_0 cs = template_match
      [Lit ''osmosis'', Lit ''tokenfactory'', Lit ''v1beta1'', Lit ''denoms'', Var ''denom'', Lit ''authority_metadata''] cs"
    and "MatchPattern rt pattern_Query_DenomsFromCreator_0 cs = template_match
      [Lit ''osmosis'', Lit ''tokenfactory'', Lit ''v1beta1'', Lit ''denoms_from_creator'', Var ''creator''] cs"
    and "MatchPattern rt pattern_Query_BeforeSendHookAddress_0 cs = template_match
      [Lit ''osmosis'', Lit ''tokenfactory'', Lit ''v1beta1'', Lit ''denoms'', Var ''denom'', Lit ''before_send_hook''] cs"
    and "MatchPattern rt pattern_Query_AllBeforeSendHooksAddresses_0 cs = template_match
      [Lit ''osmosis'', Lit ''tokenfactory'', Lit ''v1beta1'', Lit ''all_before_send_hooks''] cs"
proof -
  have law: "template (pat_pool p) (pat_ops p) = Some ss \<Longrightarrow> MatchPattern rt p cs = template_match ss cs" for p ss
    using assms by (simp add: runtime_laws_def)
  show "MatchPattern rt pattern_Query_Params_0 cs = template_match
      [Lit ''osmosis'', Lit ''tokenfactory'', Lit ''v1beta1'', Lit ''params''] cs"
    by (rule law) (simp add: pattern_Query_Params_0_def)
  show "MatchPattern rt pattern_Query_DenomAuthorityMetadata_0 cs = template_match
      [Lit ''osmosis'', Lit ''tokenfactory'', Lit ''v1beta1'', Lit ''denoms'', Var ''denom'', Lit ''authority_metadata''] cs"
    by (rule law) (simp add: pattern_Query_DenomAuthorityMetadata_0_def)
  show "MatchPattern rt pattern_Query_DenomsFromCreator_0 cs = template_match
      [Lit ''osmosis'', Lit ''tokenfactory'', Lit ''v1beta1'', Lit ''denoms_from_creator'', Var ''creator''] cs"
    by (rule law) (simp add: pattern_Query_DenomsFromCreator_0_def)
  show "MatchPattern rt pattern_Query_BeforeSendHookAddress_0 cs = template_match
      [Lit ''osmosis'', Lit ''tokenfactory'', Lit ''v1beta1'', Lit ''denoms'', Var ''denom'', Lit ''before_send_hook''] cs"
    by (rule law) (simp add: pattern_Query_BeforeSendHookAddress_0_def)
  show "MatchPattern rt pattern_Query_AllBeforeSendHooksAddresses_0 cs = template_match
      [Lit ''osmosis'', Lit ''tokenfactory'', Lit ''v1beta1'', Lit ''all_before_send_hooks''] cs"
    by (rule law) (simp add: pattern_Query_AllBeforeSendHooksAddresses_0_def)
qed

lemma template_match_length: "template_match ss cs = Some m \<Longrightarrow> length cs = length ss"
  by (induction ss cs arbitrary: m rule: template_match.induct) (auto split: if_splits)

lemma length_Split: "length (Split s c) = Suc (count_list s c)"
  by (induction s) (auto split: list.splits)

section \<open>The gateway in front of the keeper\<close>

text \<open>The query server of the keeper as the gateway sees it; it sends no metadata.\<close>

definition keeper_service :: "'w Keeper \<Rightarrow> 'w QueryService" where
  "keeper_service k = \<lparr>
     svc_Params = (\<lambda>w _. (query_Params k w, no_metadata)),
     svc_DenomAuthorityMetadata = (\<lambda>w q. (query_DenomAuthorityMetadata k q w, no_metadata)),
     svc_DenomsFromCreator = (\<lambda>w q. (query_DenomsFromCreator k q w, no_metadata)),
     svc_BeforeSendHookAddress = (\<lambda>w q. (query_BeforeSendHookAddress k q w, no_metadata)),
     svc_AllBeforeSendHooksAddresses = (\<lambda>w _. (query_AllBeforeSendHooksAddresses k w, no_metadata))\<rparr>"

section \<open>The path of a request\<close>

text \<open>
  \<open>url.PathEscape\<close> escapes all but the letters, the digits and some marks. net/http decodes the path of a
  request once, with the rules of \<open>url.PathUnescape\<close>, before \<open>ServeMux\<close> splits it: \<open>served\<close> are the handlers that
  match a request target as it is sent.
\<close>

definition path_plain :: "char \<Rightarrow> bool" where
  "path_plain c \<longleftrightarrow> alnum c \<or> c \<in> set ''-_.~$&+=:@''"

definition upperhex :: "nat \<Rightarrow> char" where
  "upperhex n = ''0123456789ABCDEF'' ! n"

definition escape_char :: "char \<Rightarrow> string" where
  "escape_char c = (let n = (of_char c :: nat) in
     if path_plain c then [c] else [CHR ''%'', upperhex (n div 16), upperhex (n mod 16)])"

definition PathEscape :: "string \<Rightarrow> string" where
  "PathEscape s = concat (map escape_char s)"

fun PathUnescape :: "string \<Rightarrow> string option" where
  "PathUnescape [] = Some []"
| "PathUnescape (c # s) =
     (if c = CHR ''%'' then
        (case s of
           a # b # r \<Rightarrow>
             (case (unhex a, unhex b) of
                (Some h, Some l) \<Rightarrow> map_option (Cons (char_of (16 * h + l))) (PathUnescape r)
              | _ \<Rightarrow> None)
         | _ \<Rightarrow> None)
      else map_option (Cons c) (PathUnescape s))"

definition served :: "('req, 'ctx) Runtime \<Rightarrow> ('req, 'm) Route list \<Rightarrow> string \<Rightarrow> string \<Rightarrow>
    ('req \<Rightarrow> 'm Reply res) list" where
  "served rt routes meth target =
     (case PathUnescape target of Some path \<Rightarrow> matching rt routes meth path | None \<Rightarrow> [])"

lemma unhex_upperhex: "n < 16 \<Longrightarrow> unhex (upperhex n) = Some n"
proof -
  assume "n < 16"
  then have "n \<in> set [0..<16]" by simp
  moreover have "list_all (\<lambda>n. unhex (upperhex n) = Some n) [0..<16]" by code_simp
  ultimately show ?thesis by (simp only: list_all_iff)
qed

lemma upperhex_not_slash: "n < 16 \<Longrightarrow> upperhex n \<noteq> CHR ''/''"
proof -
  assume "n < 16"
  then have "n \<in> set [0..<16]" by simp
  moreover have "list_all (\<lambda>n. upperhex n \<noteq> CHR ''/'') [0..<16]" by code_simp
  ultimately show ?thesis unfolding list_all_iff by blast
qed

lemma of_char_digits: "(of_char c :: nat) div 16 < 16" "16 * ((of_char c :: nat) div 16) + (of_char c :: nat) mod 16 = of_char c"
proof -
  have "(of_char c :: nat) < 256" by (rule nat_of_char_less_256)
  then show "(of_char c :: nat) div 16 < 16" by (simp add: less_mult_imp_div_less)
qed simp

lemma path_plain_percent: "\<not> path_plain CHR ''%''" "\<not> path_plain CHR ''/''"
  by code_simp+

lemma escape_char_cases:
  obtains "escape_char c = [c]" "c \<noteq> CHR ''%''" "c \<noteq> CHR ''/''"
  | a b where "escape_char c = [CHR ''%'', upperhex a, upperhex b]" "a < 16" "b < 16" "char_of (16 * a + b) = c"
proof (cases "path_plain c")
  case True
  then show ?thesis using that(1) path_plain_percent by (auto simp: escape_char_def)
next
  case False
  then show ?thesis
    using that(2) [of "of_char c div 16" "of_char c mod 16"] of_char_digits [of c]
    by (simp add: escape_char_def Let_def)
qed

lemma PathUnescape_plain: "CHR ''%'' \<notin> set s \<Longrightarrow> PathUnescape (s @ t) = map_option ((@) s) (PathUnescape t)"
  by (induction s) (cases "PathUnescape t"; auto)+

lemma PathUnescape_escape: "PathUnescape (PathEscape s @ t) = map_option ((@) s) (PathUnescape t)"
proof (induction s)
  case (Cons c s)
  have "PathUnescape (escape_char c @ u) = map_option (Cons c) (PathUnescape u)" for u
    by (cases c rule: escape_char_cases) (simp_all add: unhex_upperhex)
  with Cons show ?case by (cases "PathUnescape t") (simp_all add: PathEscape_def)
qed (cases "PathUnescape t"; simp add: PathEscape_def)

lemma QueryUnescape_escape:
  assumes "CHR ''+'' \<notin> set s"
  shows "QueryUnescape (PathEscape s) = Some s"
  using assms
proof (induction s)
  case (Cons c s)
  have "QueryUnescape (escape_char c @ u) = map_option (Cons c) (QueryUnescape u)" for u
    using Cons.prems by (cases c rule: escape_char_cases) (auto simp: unhex_upperhex)
  with Cons show ?case by (simp add: PathEscape_def)
qed (simp add: PathEscape_def)

lemma escape_no_slash: "CHR ''/'' \<notin> set (PathEscape s)"
proof -
  have "CHR ''/'' \<notin> set (escape_char c)" for c
    using upperhex_not_slash by (cases c rule: escape_char_cases) fastforce+
  then show ?thesis by (auto simp: PathEscape_def)
qed

section \<open>Properties\<close>

lemma serve_local_ok:
  assumes "AnnotateIncomingContext rt req = Ok c" "local_request c = (no_metadata, r, no_metadata)"
  shows "\<exists>md. serve_local rt req local_request = (case r of
      Ok msg \<Rightarrow> Ok (ForwardResponseMessage md msg) | Err e \<Rightarrow> Ok (HTTPError (Some md) e) | Panic p \<Rightarrow> Panic p)"
  unfolding serve_local_def assms(1) res.case assms(2) Let_def by (cases r; simp; blast)

lemma long_path_no_route:
  assumes "runtime_laws rt" "8 \<le> length (Split (tl path) CHR ''/'')"
    and "RegisterQueryHandlerServer rt server = Ok routes"
  shows "matching rt routes meth path = []"
proof -
  define cs where "cs = Split (tl path) CHR ''/''"
  have no: "template_match ss cs = None" if "length ss < 8" for ss
    using that assms(2) template_match_length [of ss cs] by (cases "template_match ss cs") (auto simp: cs_def)
  show ?thesis
    using assms(3) unfolding RegisterQueryHandlerServer_def res.inject
    by (elim subst) (simp add: matching_def pattern_match [OF assms(1)] cs_def [symmetric] no)
qed

text \<open>C22. A denomination made by \<open>GetTokenDenom\<close> that is written as it is in the path of a query reaches
  no route of the gateway: its slashes make the path too long for the routes that take a denomination.\<close>

theorem gateway_plain_denom_not_found:
  assumes "runtime_laws rt" "GetTokenDenom S creator subdenom = Ok d"
    and "RegisterQueryHandlerServer rt server = Ok routes"
    and "tail \<in> {''authority_metadata'', ''before_send_hook''}"
  shows "matching rt routes meth (''/osmosis/tokenfactory/v1beta1/denoms/'' @ d @ ''/'' @ tail) = []"
proof -
  have d: "d = ''factory/'' @ creator @ ''/'' @ subdenom"
    using assms(2) by (simp add: GetTokenDenom_Ok denom_of_def)
  show ?thesis
    by (rule long_path_no_route [OF assms(1) _ assms(3)]) (simp add: d length_Split)
qed

lemma encoded_path:
  "Split (tl (''/osmosis/tokenfactory/v1beta1/denoms/'' @ PathEscape d @ ''/'' @ tail)) CHR ''/''
     = [''osmosis'', ''tokenfactory'', ''v1beta1'', ''denoms'', PathEscape d] @ Split tail CHR ''/''"
  by (simp add: Split_sep escape_no_slash)

lemma decode_escaped:
  assumes "sdk_laws S" "ValidateDenom S d = None"
  shows "decode_denom (PathEscape d) = d"
proof -
  have "list_all denom_char d" using assms by (simp add: sdk_laws_def)
  then have "CHR ''+'' \<notin> set d" by (auto simp: list_all_iff denom_char_def)
  then show ?thesis by (simp add: decode_denom_def QueryUnescape_escape)
qed

lemma served_escaped:
  assumes "CHR ''%'' \<notin> set tail"
  shows "served rt routes meth (''/osmosis/tokenfactory/v1beta1/denoms/'' @ PathEscape x @ ''/'' @ tail)
    = matching rt routes meth (''/osmosis/tokenfactory/v1beta1/denoms/'' @ x @ ''/'' @ tail)"
proof -
  have tail: "PathUnescape (''/'' @ tail) = Some (''/'' @ tail)"
    using PathUnescape_plain [of "''/'' @ tail" "[]"] assms by simp
  show ?thesis
    unfolding served_def PathUnescape_plain [of "''/osmosis/tokenfactory/v1beta1/denoms/''", simplified]
    by (subst PathUnescape_plain) (simp_all add: PathUnescape_escape tail del: append.simps)
qed

text \<open>What the handler of one of the two routes answers when the query of the service answers \<open>r\<close>.\<close>

definition forwards :: "('req \<Rightarrow> 'm Reply res) \<Rightarrow> 'req \<Rightarrow> 'm res \<Rightarrow> bool" where
  "forwards h req r \<longleftrightarrow> (\<exists>md. h req = (case r of
     Ok msg \<Rightarrow> Ok (ForwardResponseMessage md msg) | Err e \<Rightarrow> Ok (HTTPError (Some md) e) | Panic p \<Rightarrow> Panic p))"

lemma denom_routes:
  assumes "runtime_laws rt" "env_ok k" "ValidateDenom (sdk k) d = None"
    and "RegisterQueryHandlerServer rt (keeper_service k) = Ok routes" "AnnotateIncomingContext rt req = Ok w"
  shows "\<exists>h. matching rt routes ''GET''
        (''/osmosis/tokenfactory/v1beta1/denoms/'' @ PathEscape d @ ''/'' @ ''authority_metadata'') = [h]
      \<and> forwards h req (map_res (\<lambda>m. MDenomAuthorityMetadata \<lparr>qd_AuthorityMetadata = m\<rparr>) (GetAuthorityMetadata k d w))"
    and "\<exists>h. matching rt routes ''GET''
        (''/osmosis/tokenfactory/v1beta1/denoms/'' @ PathEscape d @ ''/'' @ ''before_send_hook'') = [h]
      \<and> forwards h req (Ok (MBeforeSendHookAddress \<lparr>qh_CosmwasmAddress = GetBeforeSendHook k d w\<rparr>))"
proof -
  note dec = decode_escaped [OF env_okD(1) [OF assms(2)] assms(3)]
  let ?cs = "\<lambda>tail. [''osmosis'', ''tokenfactory'', ''v1beta1'', ''denoms'', PathEscape d, tail]"
  have cs: "Split (tl (''/osmosis/tokenfactory/v1beta1/denoms/'' @ PathEscape d @ ''/'' @ ''authority_metadata'')) CHR ''/''
      = ?cs ''authority_metadata''"
    "Split (tl (''/osmosis/tokenfactory/v1beta1/denoms/'' @ PathEscape d @ ''/'' @ ''before_send_hook'')) CHR ''/''
      = ?cs ''before_send_hook''"
    unfolding encoded_path by simp_all
  let ?meta = "\<lambda>rctx. local_request_Query_DenomAuthorityMetadata_0 rt (keeper_service k) rctx [''denom'' \<mapsto> PathEscape d]"
  let ?hook = "\<lambda>rctx. local_request_Query_BeforeSendHookAddress_0 rt (keeper_service k) rctx [''denom'' \<mapsto> PathEscape d]"
  have "matching rt routes ''GET'' (''/osmosis/tokenfactory/v1beta1/denoms/'' @ PathEscape d @ ''/'' @ ''authority_metadata'')
      = [\<lambda>req. serve_local rt req ?meta]"
    using assms(4) unfolding RegisterQueryHandlerServer_def res.inject matching_def cs(1)
    by (elim subst) (simp add: pattern_match [OF assms(1)] fun_upd_def)
  moreover have "?meta w = (no_metadata, map_res (\<lambda>m. MDenomAuthorityMetadata \<lparr>qd_AuthorityMetadata = m\<rparr>)
      (GetAuthorityMetadata k d w), no_metadata)"
    using assms(1) dec
    by (cases "GetAuthorityMetadata k d w") (simp_all add: local_request_Query_DenomAuthorityMetadata_0_def
        runtime_laws_def keeper_service_def query_DenomAuthorityMetadata_def)
  ultimately show "\<exists>h. matching rt routes ''GET''
        (''/osmosis/tokenfactory/v1beta1/denoms/'' @ PathEscape d @ ''/'' @ ''authority_metadata'') = [h]
      \<and> forwards h req (map_res (\<lambda>m. MDenomAuthorityMetadata \<lparr>qd_AuthorityMetadata = m\<rparr>) (GetAuthorityMetadata k d w))"
    using serve_local_ok [where rt = rt, OF assms(5), of ?meta] by (simp add: forwards_def)
  have "matching rt routes ''GET'' (''/osmosis/tokenfactory/v1beta1/denoms/'' @ PathEscape d @ ''/'' @ ''before_send_hook'')
      = [\<lambda>req. serve_local rt req ?hook]"
    using assms(4) unfolding RegisterQueryHandlerServer_def res.inject matching_def cs(2)
    by (elim subst) (simp add: pattern_match [OF assms(1)] fun_upd_def)
  moreover have "?hook w = (no_metadata, Ok (MBeforeSendHookAddress \<lparr>qh_CosmwasmAddress = GetBeforeSendHook k d w\<rparr>), no_metadata)"
    using assms(1) dec by (simp add: local_request_Query_BeforeSendHookAddress_0_def
        runtime_laws_def keeper_service_def query_BeforeSendHookAddress_def)
  ultimately show "\<exists>h. matching rt routes ''GET''
        (''/osmosis/tokenfactory/v1beta1/denoms/'' @ PathEscape d @ ''/'' @ ''before_send_hook'') = [h]
      \<and> forwards h req (Ok (MBeforeSendHookAddress \<lparr>qh_CosmwasmAddress = GetBeforeSendHook k d w\<rparr>))"
    using serve_local_ok [where rt = rt, OF assms(5), of ?hook] by (simp add: forwards_def)
qed

lemma encoded_once_no_route:
  assumes "runtime_laws rt" "GetTokenDenom S creator subdenom = Ok d"
    and "RegisterQueryHandlerServer rt server = Ok routes" "CHR ''%'' \<notin> set tail"
  shows "served rt routes meth (''/osmosis/tokenfactory/v1beta1/denoms/'' @ PathEscape d @ ''/'' @ tail) = []"
proof -
  have "d = ''factory/'' @ creator @ ''/'' @ subdenom" using assms(2) by (simp add: GetTokenDenom_Ok denom_of_def)
  then show ?thesis
    unfolding served_escaped [OF assms(4)]
    by (intro long_path_no_route [OF assms(1) _ assms(3)]) (simp add: length_Split)
qed

text \<open>C21. A denomination has to be percent-encoded twice in the URL of a query. A client that escapes it twice
  reaches, on both routes that take a denomination, exactly one handler, and what that forwards is the keeper's answer for
  exactly this denomination: its authority metadata (an error of the keeper is an HTTP error) or its hook. A
  client that escapes it once, as it should for a path, reaches no route: the server decodes the path before it
  is split.\<close>

theorem gateway_encoded_denom:
  assumes "runtime_laws rt" "env_ok k" "GetTokenDenom (sdk k) creator subdenom = Ok d"
    and "RegisterQueryHandlerServer rt (keeper_service k) = Ok routes" "AnnotateIncomingContext rt req = Ok w"
  shows "(\<exists>h. served rt routes ''GET''
        (''/osmosis/tokenfactory/v1beta1/denoms/'' @ PathEscape (PathEscape d) @ ''/authority_metadata'') = [h]
      \<and> forwards h req (map_res (\<lambda>m. MDenomAuthorityMetadata \<lparr>qd_AuthorityMetadata = m\<rparr>) (GetAuthorityMetadata k d w)))
    \<and> (\<exists>h. served rt routes ''GET''
        (''/osmosis/tokenfactory/v1beta1/denoms/'' @ PathEscape (PathEscape d) @ ''/before_send_hook'') = [h]
      \<and> forwards h req (Ok (MBeforeSendHookAddress \<lparr>qh_CosmwasmAddress = GetBeforeSendHook k d w\<rparr>)))
    \<and> served rt routes ''GET'' (''/osmosis/tokenfactory/v1beta1/denoms/'' @ PathEscape d @ ''/authority_metadata'') = []
    \<and> served rt routes ''GET'' (''/osmosis/tokenfactory/v1beta1/denoms/'' @ PathEscape d @ ''/before_send_hook'') = []"
proof -
  have d: "ValidateDenom (sdk k) d = None" using assms(3) by (auto simp: GetTokenDenom_Ok)
  have tails: "CHR ''%'' \<notin> set ''authority_metadata''" "CHR ''%'' \<notin> set ''before_send_hook''" by simp_all
  note routes = denom_routes [OF assms(1,2) d assms(4,5)]
  note once = encoded_once_no_route [OF assms(1,3,4)]
  show ?thesis
    using routes once [OF tails(1), of "''GET''"] once [OF tails(2), of "''GET''"]
      served_escaped [OF tails(1), of rt routes "''GET''" "PathEscape d"]
      served_escaped [OF tails(2), of rt routes "''GET''" "PathEscape d"]
    by simp
qed

text \<open>What a reply is, but for the metadata.\<close>

fun answer :: "'m Reply \<Rightarrow> error + 'm" where
  "answer (HTTPError md e) = Inl e"
| "answer (ForwardResponseMessage md m) = Inr m"

lemma serve_agree:
  assumes "AnnotateContext rt req = AnnotateIncomingContext rt req"
    and "\<And>c. fst (snd (local_request c)) = fst (request c)"
  shows "map_res answer (serve_local rt req local_request) = map_res answer (serve_remote rt req request)"
  using assms(2)
  by (auto simp: serve_local_def serve_remote_def assms(1) Let_def split: res.splits prod.splits) (metis fst_conv snd_conv res.distinct res.inject)+

lemma requests_agree:
  "fst (snd (local_request_Query_Params_0 svc c pp)) = fst (request_Query_Params_0 svc c pp)"
  "fst (snd (local_request_Query_DenomAuthorityMetadata_0 rt svc c pp)) = fst (request_Query_DenomAuthorityMetadata_0 rt svc c pp)"
  "fst (snd (local_request_Query_DenomsFromCreator_0 rt svc c pp)) = fst (request_Query_DenomsFromCreator_0 rt svc c pp)"
  "fst (snd (local_request_Query_BeforeSendHookAddress_0 rt svc c pp)) = fst (request_Query_BeforeSendHookAddress_0 rt svc c pp)"
  "fst (snd (local_request_Query_AllBeforeSendHooksAddresses_0 svc c pp)) = fst (request_Query_AllBeforeSendHooksAddresses_0 svc c pp)"
  by (simp_all add: local_request_Query_Params_0_def request_Query_Params_0_def
      local_request_Query_DenomAuthorityMetadata_0_def request_Query_DenomAuthorityMetadata_0_def
      local_request_Query_DenomsFromCreator_0_def request_Query_DenomsFromCreator_0_def
      local_request_Query_BeforeSendHookAddress_0_def request_Query_BeforeSendHookAddress_0_def
      local_request_Query_AllBeforeSendHooksAddresses_0_def request_Query_AllBeforeSendHooksAddresses_0_def
      split: option.split res.split prod.split)

text \<open>The gateway in the process of the server and the gateway in front of a connection register the
  same routes in the same order, and when the connection hands every call to the server unchanged, the two
  handlers of a route answer the same, but for the metadata of the transport.\<close>

theorem gateway_local_remote:
  assumes "RegisterQueryHandlerServer rt server = Ok lr" "RegisterQueryHandler rt newQueryClient conn = Ok rr"
    and "newQueryClient conn = server" "AnnotateContext rt req = AnnotateIncomingContext rt req"
  shows "list_all2 (\<lambda>(m, p, h) (m', p', h'). m = m' \<and> p = p'
      \<and> (\<forall>pathParams. map_res answer (h req pathParams) = map_res answer (h' req pathParams))) lr rr"
  using assms(1,2) unfolding RegisterQueryHandlerServer_def RegisterQueryHandler_def
    RegisterQueryHandlerClient_def res.inject assms(3)
  by (elim subst) (simp add: serve_agree [OF assms(4)] requests_agree)

text \<open>A connection that was opened is closed exactly once, whatever the registration gives.\<close>

lemma connection_closed_once:
  assumes "RegisterQueryHandlerFromEndpoint rt newQueryClient dial endpoint = (r, closings)"
  shows "closings = (case dial endpoint of Ok conn \<Rightarrow> [CloseWhenDone conn] | _ \<Rightarrow> [])"
  using assms by (auto simp: RegisterQueryHandlerFromEndpoint_def RegisterQueryHandler_def
      RegisterQueryHandlerClient_def split: res.splits)

section \<open>Concrete instances\<close>

text \<open>A runtime that matches by the templates and lets every request through to the state \<open>mem1\<close>.\<close>

definition memRuntime :: "(unit, Mem) Runtime" where
  "memRuntime = \<lparr>AnnotateContext = (\<lambda>_. Ok mem1), AnnotateIncomingContext = (\<lambda>_. Ok mem1),
     RuntimeString = Ok, JoinMD = (\<lambda>a b. a ++ b),
     MatchPattern = (\<lambda>p cs. case template (pat_pool p) (pat_ops p) of
       Some ss \<Rightarrow> template_match ss cs | None \<Rightarrow> None)\<rparr>"

lemma memRuntime_laws: "runtime_laws memRuntime"
  by (simp add: runtime_laws_def memRuntime_def)

theorem gateway_plain_denom_not_found_witness:
  "matching memRuntime (case RegisterQueryHandlerServer memRuntime (keeper_service memKeeper) of Ok r \<Rightarrow> r) ''GET''
     ''/osmosis/tokenfactory/v1beta1/denoms/factory/lumi1abc/gold/authority_metadata'' = []"
proof -
  have d: "GetTokenDenom memSdk ''lumi1abc'' ''gold'' = Ok ''factory/lumi1abc/gold''" by code_simp
  have r: "RegisterQueryHandlerServer memRuntime (keeper_service memKeeper)
      = Ok (case RegisterQueryHandlerServer memRuntime (keeper_service memKeeper) of Ok r \<Rightarrow> r)"
    by (simp add: RegisterQueryHandlerServer_def)
  from gateway_plain_denom_not_found [OF memRuntime_laws d r, of "''authority_metadata''" "''GET''"]
  show ?thesis by simp
qed

theorem gateway_encoded_denom_witness:
  "\<exists>h md. served memRuntime (case RegisterQueryHandlerServer memRuntime (keeper_service memKeeper) of Ok r \<Rightarrow> r)
      ''GET'' ''/osmosis/tokenfactory/v1beta1/denoms/factory%252Flumi1abc%252Fgold/authority_metadata'' = [h]
    \<and> h () = Ok (ForwardResponseMessage md (MDenomAuthorityMetadata \<lparr>qd_AuthorityMetadata = \<lparr>Admin = ''lumi1abc''\<rparr>\<rparr>))"
proof -
  have d: "GetTokenDenom (sdk memKeeper) ''lumi1abc'' ''gold'' = Ok ''factory/lumi1abc/gold''"
    unfolding memKeeper_simps by code_simp
  have r: "RegisterQueryHandlerServer memRuntime (keeper_service memKeeper)
      = Ok (case RegisterQueryHandlerServer memRuntime (keeper_service memKeeper) of Ok r \<Rightarrow> r)"
    by (simp add: RegisterQueryHandlerServer_def)
  have w: "AnnotateIncomingContext memRuntime () = Ok mem1" by (simp add: memRuntime_def)
  have twice: "PathEscape (PathEscape ''factory/lumi1abc/gold'') = ''factory%252Flumi1abc%252Fgold''" by code_simp
  from gateway_encoded_denom [OF memRuntime_laws mem_env_ok d r w]
  show ?thesis by (simp add: mem_admin(1) forwards_def twice)
qed

theorem gateway_local_remote_witness:
  "\<exists>lr rr. RegisterQueryHandlerServer memRuntime (keeper_service memKeeper) = Ok lr
    \<and> RegisterQueryHandler memRuntime keeper_service memKeeper = Ok rr
    \<and> map (\<lambda>(m, p, h). map_res answer (h () Map.empty)) lr = map (\<lambda>(m, p, h). map_res answer (h () Map.empty)) rr"
proof -
  obtain lr where lr: "RegisterQueryHandlerServer memRuntime (keeper_service memKeeper) = Ok lr"
    by (simp add: RegisterQueryHandlerServer_def)
  obtain rr where rr: "RegisterQueryHandler memRuntime keeper_service memKeeper = Ok rr"
    by (simp add: RegisterQueryHandler_def RegisterQueryHandlerClient_def)
  have ctx: "AnnotateContext memRuntime () = AnnotateIncomingContext memRuntime ()" by (simp add: memRuntime_def)
  from gateway_local_remote [OF lr rr refl ctx]
  have "map (\<lambda>(m, p, h). map_res answer (h () Map.empty)) lr = map (\<lambda>(m, p, h). map_res answer (h () Map.empty)) rr"
    by (induction lr rr rule: list_all2_induct) auto
  with lr rr show ?thesis by blast
qed

end
