(* ===== verification/QueryRpc.thy ===== *)
theory QueryRpc
  imports Rpc Gateway TxWire
begin

text \<open>
  The generated service code of the queries of the token factory (x/tokenfactory/types/query.pb.go): the
  client \<open>queryClient\<close>, the interface \<open>QueryServer\<close>, the handlers and the descriptor that
  \<open>RegisterQueryServer\<close> registers, with the keeper behind it. What is shown: a query through all of it
  and the codecs of its two messages is answered as the keeper answers it, so that what is shown of
  \<open>keeper_service\<close>, as the gateway uses it, holds of a client on another machine too.
\<close>

section \<open>The client\<close>

definition queryClient_Params :: "Coin Codec \<Rightarrow> ('c, 'x) ClientConn \<Rightarrow> 'c \<Rightarrow> unit \<Rightarrow>
    QueryParamsResponse res \<times> 'x" where
  "queryClient_Params C cc c m = call_method cc ''/osmosis.tokenfactory.v1beta1.Query/Params''
     (QueryParamsRequest_Marshal m) (\<lambda>bz. QueryParamsResponse_Unmarshal C bz (QueryParamsResponse_zero C)) c"

definition queryClient_DenomAuthorityMetadata :: "('c, 'x) ClientConn \<Rightarrow> 'c \<Rightarrow> QueryDenomAuthorityMetadataRequest \<Rightarrow>
    QueryDenomAuthorityMetadataResponse res \<times> 'x" where
  "queryClient_DenomAuthorityMetadata cc c m = call_method cc ''/osmosis.tokenfactory.v1beta1.Query/DenomAuthorityMetadata''
     (QueryDenomAuthorityMetadataRequest_Marshal m) (\<lambda>bz. QueryDenomAuthorityMetadataResponse_Unmarshal bz QueryDenomAuthorityMetadataResponse_zero) c"

definition queryClient_DenomsFromCreator :: "('c, 'x) ClientConn \<Rightarrow> 'c \<Rightarrow> QueryDenomsFromCreatorRequest \<Rightarrow>
    QueryDenomsFromCreatorResponse res \<times> 'x" where
  "queryClient_DenomsFromCreator cc c m = call_method cc ''/osmosis.tokenfactory.v1beta1.Query/DenomsFromCreator''
     (QueryDenomsFromCreatorRequest_Marshal m) (\<lambda>bz. QueryDenomsFromCreatorResponse_Unmarshal bz QueryDenomsFromCreatorResponse_zero) c"

definition queryClient_BeforeSendHookAddress :: "('c, 'x) ClientConn \<Rightarrow> 'c \<Rightarrow> QueryBeforeSendHookAddressRequest \<Rightarrow>
    QueryBeforeSendHookAddressResponse res \<times> 'x" where
  "queryClient_BeforeSendHookAddress cc c m = call_method cc ''/osmosis.tokenfactory.v1beta1.Query/BeforeSendHookAddress''
     (QueryBeforeSendHookAddressRequest_Marshal m) (\<lambda>bz. QueryBeforeSendHookAddressResponse_Unmarshal bz QueryBeforeSendHookAddressResponse_zero) c"

definition queryClient_AllBeforeSendHooksAddresses :: "('c, 'x) ClientConn \<Rightarrow> 'c \<Rightarrow> unit \<Rightarrow>
    QueryAllBeforeSendHooksAddressesResponse res \<times> 'x" where
  "queryClient_AllBeforeSendHooksAddresses cc c m = call_method cc ''/osmosis.tokenfactory.v1beta1.Query/AllBeforeSendHooksAddresses''
     (QueryAllBeforeSendHooksAddressesRequest_Marshal m) (\<lambda>bz. QueryAllBeforeSendHooksAddressesResponse_Unmarshal bz QueryAllBeforeSendHooksAddressesResponse_zero) c"

definition Query_NewQueryClient :: "Coin Codec \<Rightarrow> ('c, ServerMetadata) ClientConn \<Rightarrow> 'c QueryService" where
  "Query_NewQueryClient C cc = \<lparr>svc_Params = queryClient_Params C cc,
     svc_DenomAuthorityMetadata = queryClient_DenomAuthorityMetadata cc,
     svc_DenomsFromCreator = queryClient_DenomsFromCreator cc,
     svc_BeforeSendHookAddress = queryClient_BeforeSendHookAddress cc,
     svc_AllBeforeSendHooksAddresses = queryClient_AllBeforeSendHooksAddresses cc\<rparr>"

section \<open>The server\<close>

record 'w QueryServer =
  qs_Params :: "unit \<Rightarrow> ('w, QueryParamsResponse) act"
  qs_DenomAuthorityMetadata :: "QueryDenomAuthorityMetadataRequest \<Rightarrow> ('w, QueryDenomAuthorityMetadataResponse) act"
  qs_DenomsFromCreator :: "QueryDenomsFromCreatorRequest \<Rightarrow> ('w, QueryDenomsFromCreatorResponse) act"
  qs_BeforeSendHookAddress :: "QueryBeforeSendHookAddressRequest \<Rightarrow> ('w, QueryBeforeSendHookAddressResponse) act"
  qs_AllBeforeSendHooksAddresses :: "unit \<Rightarrow> ('w, QueryAllBeforeSendHooksAddressesResponse) act"

definition UnimplementedQueryServer :: "'w QueryServer" where
  "UnimplementedQueryServer = \<lparr>qs_Params = (\<lambda>_. unimplemented ''Params''),
     qs_DenomAuthorityMetadata = (\<lambda>_. unimplemented ''DenomAuthorityMetadata''),
     qs_DenomsFromCreator = (\<lambda>_. unimplemented ''DenomsFromCreator''),
     qs_BeforeSendHookAddress = (\<lambda>_. unimplemented ''BeforeSendHookAddress''),
     qs_AllBeforeSendHooksAddresses = (\<lambda>_. unimplemented ''AllBeforeSendHooksAddresses'')\<rparr>"

text \<open>The keeper as a query server.\<close>

definition keeper_query_server :: "'w Keeper \<Rightarrow> 'w QueryServer" where
  "keeper_query_server k = \<lparr>qs_Params = (\<lambda>_. query (query_Params k)),
     qs_DenomAuthorityMetadata = (\<lambda>m. query (query_DenomAuthorityMetadata k m)),
     qs_DenomsFromCreator = (\<lambda>m. query (query_DenomsFromCreator k m)),
     qs_BeforeSendHookAddress = (\<lambda>m. query (query_BeforeSendHookAddress k m)),
     qs_AllBeforeSendHooksAddresses = (\<lambda>_. query (query_AllBeforeSendHooksAddresses k))\<rparr>"

text \<open>The instances of \<open>dec\<close>, by the type of the request that it reads into.\<close>

record QueryDec =
  qdec_Params :: "unit \<Rightarrow> unit res"
  qdec_DenomAuthorityMetadata :: "QueryDenomAuthorityMetadataRequest \<Rightarrow> QueryDenomAuthorityMetadataRequest res"
  qdec_DenomsFromCreator :: "QueryDenomsFromCreatorRequest \<Rightarrow> QueryDenomsFromCreatorRequest res"
  qdec_BeforeSendHookAddress :: "QueryBeforeSendHookAddressRequest \<Rightarrow> QueryBeforeSendHookAddressRequest res"
  qdec_AllBeforeSendHooksAddresses :: "unit \<Rightarrow> unit res"

datatype QueryRequest =
    QParams unit
  | QDenomAuthorityMetadata QueryDenomAuthorityMetadataRequest
  | QDenomsFromCreator QueryDenomsFromCreatorRequest
  | QBeforeSendHookAddress QueryBeforeSendHookAddressRequest
  | QAllBeforeSendHooksAddresses unit

type_synonym 'w QueryHandler =
  "'w QueryServer \<Rightarrow> QueryDec \<Rightarrow> ('w QueryServer, 'w, QueryRequest, proto_Message) Interceptor option \<Rightarrow>
    ('w, proto_Message) act"

definition Query_Params_Handler :: "'w QueryHandler" where
  "Query_Params_Handler srv dec interceptor =
     unary_handler ''/osmosis.tokenfactory.v1beta1.Query/Params'' QParams
       (\<lambda>req. case req of QParams m \<Rightarrow> Some m | _ \<Rightarrow> None) MParams
       (qs_Params srv) (qdec_Params dec QueryParamsRequest_zero) srv interceptor"

definition Query_DenomAuthorityMetadata_Handler :: "'w QueryHandler" where
  "Query_DenomAuthorityMetadata_Handler srv dec interceptor =
     unary_handler ''/osmosis.tokenfactory.v1beta1.Query/DenomAuthorityMetadata'' QDenomAuthorityMetadata
       (\<lambda>req. case req of QDenomAuthorityMetadata m \<Rightarrow> Some m | _ \<Rightarrow> None) MDenomAuthorityMetadata
       (qs_DenomAuthorityMetadata srv) (qdec_DenomAuthorityMetadata dec QueryDenomAuthorityMetadataRequest_zero) srv interceptor"

definition Query_DenomsFromCreator_Handler :: "'w QueryHandler" where
  "Query_DenomsFromCreator_Handler srv dec interceptor =
     unary_handler ''/osmosis.tokenfactory.v1beta1.Query/DenomsFromCreator'' QDenomsFromCreator
       (\<lambda>req. case req of QDenomsFromCreator m \<Rightarrow> Some m | _ \<Rightarrow> None) MDenomsFromCreator
       (qs_DenomsFromCreator srv) (qdec_DenomsFromCreator dec QueryDenomsFromCreatorRequest_zero) srv interceptor"

definition Query_BeforeSendHookAddress_Handler :: "'w QueryHandler" where
  "Query_BeforeSendHookAddress_Handler srv dec interceptor =
     unary_handler ''/osmosis.tokenfactory.v1beta1.Query/BeforeSendHookAddress'' QBeforeSendHookAddress
       (\<lambda>req. case req of QBeforeSendHookAddress m \<Rightarrow> Some m | _ \<Rightarrow> None) MBeforeSendHookAddress
       (qs_BeforeSendHookAddress srv) (qdec_BeforeSendHookAddress dec QueryBeforeSendHookAddressRequest_zero) srv interceptor"

definition Query_AllBeforeSendHooksAddresses_Handler :: "'w QueryHandler" where
  "Query_AllBeforeSendHooksAddresses_Handler srv dec interceptor =
     unary_handler ''/osmosis.tokenfactory.v1beta1.Query/AllBeforeSendHooksAddresses'' QAllBeforeSendHooksAddresses
       (\<lambda>req. case req of QAllBeforeSendHooksAddresses m \<Rightarrow> Some m | _ \<Rightarrow> None) MAllBeforeSendHooksAddresses
       (qs_AllBeforeSendHooksAddresses srv) (qdec_AllBeforeSendHooksAddresses dec QueryAllBeforeSendHooksAddressesRequest_zero) srv interceptor"

definition Query_serviceDesc ::
    "('w QueryServer, QueryDec, 'w, QueryRequest, proto_Message) ServiceDesc" where
  "Query_serviceDesc = \<lparr>ServiceName = ''osmosis.tokenfactory.v1beta1.Query'',
     Methods =
       [\<lparr>MethodName = ''Params'', Handler = Query_Params_Handler\<rparr>,
        \<lparr>MethodName = ''DenomAuthorityMetadata'', Handler = Query_DenomAuthorityMetadata_Handler\<rparr>,
        \<lparr>MethodName = ''DenomsFromCreator'', Handler = Query_DenomsFromCreator_Handler\<rparr>,
        \<lparr>MethodName = ''BeforeSendHookAddress'', Handler = Query_BeforeSendHookAddress_Handler\<rparr>,
        \<lparr>MethodName = ''AllBeforeSendHooksAddresses'', Handler = Query_AllBeforeSendHooksAddresses_Handler\<rparr>],
     FileName = ''osmosis/tokenfactory/v1beta1/query.proto''\<rparr>"


definition QueryService_RegisterQueryServer :: "(('w QueryServer, QueryDec, 'w, QueryRequest, proto_Message) ServiceDesc \<Rightarrow>
    'w QueryServer \<Rightarrow> ('s, unit) act) \<Rightarrow> 'w QueryServer \<Rightarrow> ('s, unit) act" where
  "QueryService_RegisterQueryServer RegisterService srv = RegisterService Query_serviceDesc srv"

section \<open>Calls over a connection\<close>

definition query_dec :: "bytes \<Rightarrow> QueryDec" where
  "query_dec bz = \<lparr>qdec_Params = QueryParamsRequest_Unmarshal bz,
     qdec_DenomAuthorityMetadata = QueryDenomAuthorityMetadataRequest_Unmarshal bz,
     qdec_DenomsFromCreator = QueryDenomsFromCreatorRequest_Unmarshal bz,
     qdec_BeforeSendHookAddress = QueryBeforeSendHookAddressRequest_Unmarshal bz,
     qdec_AllBeforeSendHooksAddresses = QueryAllBeforeSendHooksAddressesRequest_Unmarshal bz\<rparr>"

fun answer_Marshal :: "Coin Codec \<Rightarrow> proto_Message \<Rightarrow> bytes res" where
  "answer_Marshal C (MParams m) = QueryParamsResponse_Marshal C m"
| "answer_Marshal C (MDenomAuthorityMetadata m) = QueryDenomAuthorityMetadataResponse_Marshal m"
| "answer_Marshal C (MDenomsFromCreator m) = QueryDenomsFromCreatorResponse_Marshal m"
| "answer_Marshal C (MBeforeSendHookAddress m) = QueryBeforeSendHookAddressResponse_Marshal m"
| "answer_Marshal C (MAllBeforeSendHooksAddresses m) = QueryAllBeforeSendHooksAddressesResponse_Marshal m"

text \<open>A query of a service, whichever method it is.\<close>

fun ask :: "'c QueryService \<Rightarrow> QueryRequest \<Rightarrow> 'c \<Rightarrow> proto_Message res \<times> ServerMetadata" where
  "ask s (QParams m) c = apfst (\<lambda>r. bindR r (\<lambda>v. Ok (MParams v))) (svc_Params s c m)"
| "ask s (QDenomAuthorityMetadata m) c =
     apfst (\<lambda>r. bindR r (\<lambda>v. Ok (MDenomAuthorityMetadata v))) (svc_DenomAuthorityMetadata s c m)"
| "ask s (QDenomsFromCreator m) c = apfst (\<lambda>r. bindR r (\<lambda>v. Ok (MDenomsFromCreator v))) (svc_DenomsFromCreator s c m)"
| "ask s (QBeforeSendHookAddress m) c =
     apfst (\<lambda>r. bindR r (\<lambda>v. Ok (MBeforeSendHookAddress v))) (svc_BeforeSendHookAddress s c m)"
| "ask s (QAllBeforeSendHooksAddresses m) c =
     apfst (\<lambda>r. bindR r (\<lambda>v. Ok (MAllBeforeSendHooksAddresses v))) (svc_AllBeforeSendHooksAddresses s c m)"

text \<open>
  Requests whose bytes a Go slice can hold, and answers that also come back as they are. An answer is on the
  wire what \<open>on_wire\<close> says: the parameters lose the difference of an empty fee and a nil one, the other
  answers lose nothing.
\<close>

fun request_ok :: "QueryRequest \<Rightarrow> bool" where
  "request_ok (QDenomAuthorityMetadata m) = QueryDenomAuthorityMetadataRequest_ok m"
| "request_ok (QDenomsFromCreator m) = QueryDenomsFromCreatorRequest_ok m"
| "request_ok (QBeforeSendHookAddress m) = QueryBeforeSendHookAddressRequest_ok m"
| "request_ok _ = True"

fun reply_ok :: "(Coin \<Rightarrow> bytes) \<Rightarrow> (Coin \<Rightarrow> bool) \<Rightarrow> proto_Message \<Rightarrow> bool" where
  "reply_ok e c (MParams m) = QueryParamsResponse_ok e c m"
| "reply_ok e c (MDenomAuthorityMetadata m) = QueryDenomAuthorityMetadataResponse_ok m"
| "reply_ok e c (MDenomsFromCreator m) = QueryDenomsFromCreatorResponse_ok m"
| "reply_ok e c (MBeforeSendHookAddress m) = QueryBeforeSendHookAddressResponse_ok m"
| "reply_ok e c (MAllBeforeSendHooksAddresses m) = QueryAllBeforeSendHooksAddressesResponse_ok m"

fun on_wire :: "proto_Message \<Rightarrow> proto_Message" where
  "on_wire (MParams m) = MParams (wire_QueryParamsResponse m)"
| "on_wire r = r"

lemma reply_ok_on_wire: "reply_ok e c r \<Longrightarrow> on_wire r = r"
  by (cases r) (simp_all add: wire_QueryParamsResponse_ok)

lemma on_wire_default_params:
  "on_wire (MParams \<lparr>qp_Params = \<lparr>DenomCreationFee = Some [], DenomCreationGasConsume = g\<rparr>\<rparr>) =
     MParams \<lparr>qp_Params = \<lparr>DenomCreationFee = None, DenomCreationGasConsume = g\<rparr>\<rparr>"
  by (simp add: wire_QueryParamsResponse_def wire_Params_def unslice_def)

lemmas query_trips =
  qparamsreq.marshal_enc [folded QueryParamsRequest_Marshal_def] qparamsreq.unmarshal_enc
  qmetareq.marshal_enc [folded QueryDenomAuthorityMetadataRequest_Marshal_def] qmetareq.unmarshal_enc
  qmetaresp.marshal_enc [folded QueryDenomAuthorityMetadataResponse_Marshal_def] qmetaresp.unmarshal_enc
  qdenomsreq.marshal_enc [folded QueryDenomsFromCreatorRequest_Marshal_def] qdenomsreq.unmarshal_enc
  qdenomsresp.marshal_enc [folded QueryDenomsFromCreatorResponse_Marshal_def] qdenomsresp.unmarshal_enc
  qhookreq.marshal_enc [folded QueryBeforeSendHookAddressRequest_Marshal_def] qhookreq.unmarshal_enc
  qhookresp.marshal_enc [folded QueryBeforeSendHookAddressResponse_Marshal_def] qhookresp.unmarshal_enc
  qallreq.marshal_enc [folded QueryAllBeforeSendHooksAddressesRequest_Marshal_def] qallreq.unmarshal_enc
  qallresp.marshal_enc [folded QueryAllBeforeSendHooksAddressesResponse_Marshal_def] qallresp.unmarshal_enc

lemmas params_trip = codec_trip [OF QueryParamsResponse_codec_laws, unfolded QueryParamsResponse_codec_def Codec.simps,
    folded QueryParamsResponse_Marshal_def]

lemmas query_handler_defs = Query_Params_Handler_def Query_DenomAuthorityMetadata_Handler_def
  Query_DenomsFromCreator_Handler_def Query_BeforeSendHookAddress_Handler_def
  Query_AllBeforeSendHooksAddresses_Handler_def

lemma nullary_ok [simp]: "QueryParamsRequest_ok m" "QueryAllBeforeSendHooksAddressesRequest_ok m"
  by (simp_all add: QueryParamsRequest_ok_def QueryAllBeforeSendHooksAddressesRequest_ok_def)

lemma nullary_trips: "QueryParamsRequest_Unmarshal (QueryParamsRequest_enc ()) () = Ok ()"
  "QueryAllBeforeSendHooksAddressesRequest_Unmarshal (QueryAllBeforeSendHooksAddressesRequest_enc ()) () = Ok ()"
  using qparamsreq.unmarshal_enc [of "()"] qallreq.unmarshal_enc [of "()"] by simp_all

lemmas rpc_simps = Query_serviceDesc_def query_handler_defs keeper_query_server_def query_dec_def
  query_trips nullary_trips full_method_def unary_handler_def fmapA_def bindA_run

section \<open>One call\<close>

text \<open>The client of each method, on a connection to the server.\<close>

lemma call_Params:
  assumes C: "codec_laws C e c"
    and conn: "serves cc Query_serviceDesc (keeper_query_server k) query_dec (answer_Marshal C) (\<lambda>_. no_metadata)"
    and run: "query_Params k w = Ok v" "reply_ok e c (on_wire (MParams v))"
  shows "queryClient_Params C cc w m = (Ok (wire_QueryParamsResponse v), no_metadata)"
  unfolding queryClient_Params_def
  by (rule client_call [OF conn, where name = "''Params''" and H = Query_Params_Handler and r = "MParams v"
      and b = "QueryParamsResponse_enc e (wire_QueryParamsResponse v)"])
    (use run in \<open>simp_all add: rpc_simps params_trip [OF C] wire_QueryParamsResponse_Marshal [symmetric, of C v]\<close>)

lemma call_DenomAuthorityMetadata:
  assumes conn: "serves cc Query_serviceDesc (keeper_query_server k) query_dec (answer_Marshal C) (\<lambda>_. no_metadata)"
    and run: "query_DenomAuthorityMetadata k m w = Ok v" "request_ok (QDenomAuthorityMetadata m)" "reply_ok e c (MDenomAuthorityMetadata v)"
  shows "queryClient_DenomAuthorityMetadata cc w m = (Ok v, no_metadata)"
  unfolding queryClient_DenomAuthorityMetadata_def
  by (rule client_call [OF conn, where name = "''DenomAuthorityMetadata''" and H = Query_DenomAuthorityMetadata_Handler and r = "MDenomAuthorityMetadata v"
      and b = "QueryDenomAuthorityMetadataResponse_enc v"]) (use run in \<open>simp_all add: rpc_simps\<close>)

lemma call_DenomsFromCreator:
  assumes conn: "serves cc Query_serviceDesc (keeper_query_server k) query_dec (answer_Marshal C) (\<lambda>_. no_metadata)"
    and run: "query_DenomsFromCreator k m w = Ok v" "request_ok (QDenomsFromCreator m)" "reply_ok e c (MDenomsFromCreator v)"
  shows "queryClient_DenomsFromCreator cc w m = (Ok v, no_metadata)"
  unfolding queryClient_DenomsFromCreator_def
  by (rule client_call [OF conn, where name = "''DenomsFromCreator''" and H = Query_DenomsFromCreator_Handler and r = "MDenomsFromCreator v"
      and b = "QueryDenomsFromCreatorResponse_enc v"]) (use run in \<open>simp_all add: rpc_simps\<close>)

lemma call_BeforeSendHookAddress:
  assumes conn: "serves cc Query_serviceDesc (keeper_query_server k) query_dec (answer_Marshal C) (\<lambda>_. no_metadata)"
    and run: "query_BeforeSendHookAddress k m w = Ok v" "request_ok (QBeforeSendHookAddress m)" "reply_ok e c (MBeforeSendHookAddress v)"
  shows "queryClient_BeforeSendHookAddress cc w m = (Ok v, no_metadata)"
  unfolding queryClient_BeforeSendHookAddress_def
  by (rule client_call [OF conn, where name = "''BeforeSendHookAddress''" and H = Query_BeforeSendHookAddress_Handler and r = "MBeforeSendHookAddress v"
      and b = "QueryBeforeSendHookAddressResponse_enc v"]) (use run in \<open>simp_all add: rpc_simps\<close>)

lemma call_AllBeforeSendHooksAddresses:
  assumes conn: "serves cc Query_serviceDesc (keeper_query_server k) query_dec (answer_Marshal C) (\<lambda>_. no_metadata)"
    and run: "query_AllBeforeSendHooksAddresses k w = Ok v" "reply_ok e c (MAllBeforeSendHooksAddresses v)"
  shows "queryClient_AllBeforeSendHooksAddresses cc w m = (Ok v, no_metadata)"
  unfolding queryClient_AllBeforeSendHooksAddresses_def
  by (rule client_call [OF conn, where name = "''AllBeforeSendHooksAddresses''" and H = Query_AllBeforeSendHooksAddresses_Handler and r = "MAllBeforeSendHooksAddresses v"
      and b = "QueryAllBeforeSendHooksAddressesResponse_enc v"]) (use run in \<open>simp_all add: rpc_simps\<close>)

text \<open>An error of the keeper, in each method.\<close>

lemma fail_Params:
  assumes conn: "serves cc Query_serviceDesc (keeper_query_server k) query_dec (answer_Marshal C) (\<lambda>_. no_metadata)"
    and run: "query_Params k w = Err er"
  shows "\<exists>er'. queryClient_Params C cc w m = (Err er', no_metadata)"
  unfolding queryClient_Params_def
  by (rule client_error [OF conn, where name = "''Params''" and H = Query_Params_Handler])
    (use run in \<open>simp_all add: rpc_simps\<close>)

lemma fail_DenomAuthorityMetadata:
  assumes conn: "serves cc Query_serviceDesc (keeper_query_server k) query_dec (answer_Marshal C) (\<lambda>_. no_metadata)"
    and run: "query_DenomAuthorityMetadata k m w = Err er" "request_ok (QDenomAuthorityMetadata m)"
  shows "\<exists>er'. queryClient_DenomAuthorityMetadata cc w m = (Err er', no_metadata)"
  unfolding queryClient_DenomAuthorityMetadata_def
  by (rule client_error [OF conn, where name = "''DenomAuthorityMetadata''" and H = Query_DenomAuthorityMetadata_Handler])
    (use run in \<open>simp_all add: rpc_simps\<close>)

lemma fail_DenomsFromCreator:
  assumes conn: "serves cc Query_serviceDesc (keeper_query_server k) query_dec (answer_Marshal C) (\<lambda>_. no_metadata)"
    and run: "query_DenomsFromCreator k m w = Err er" "request_ok (QDenomsFromCreator m)"
  shows "\<exists>er'. queryClient_DenomsFromCreator cc w m = (Err er', no_metadata)"
  unfolding queryClient_DenomsFromCreator_def
  by (rule client_error [OF conn, where name = "''DenomsFromCreator''" and H = Query_DenomsFromCreator_Handler])
    (use run in \<open>simp_all add: rpc_simps\<close>)

lemma fail_BeforeSendHookAddress:
  assumes conn: "serves cc Query_serviceDesc (keeper_query_server k) query_dec (answer_Marshal C) (\<lambda>_. no_metadata)"
    and run: "query_BeforeSendHookAddress k m w = Err er" "request_ok (QBeforeSendHookAddress m)"
  shows "\<exists>er'. queryClient_BeforeSendHookAddress cc w m = (Err er', no_metadata)"
  unfolding queryClient_BeforeSendHookAddress_def
  by (rule client_error [OF conn, where name = "''BeforeSendHookAddress''" and H = Query_BeforeSendHookAddress_Handler])
    (use run in \<open>simp_all add: rpc_simps\<close>)

lemma fail_AllBeforeSendHooksAddresses:
  assumes conn: "serves cc Query_serviceDesc (keeper_query_server k) query_dec (answer_Marshal C) (\<lambda>_. no_metadata)"
    and run: "query_AllBeforeSendHooksAddresses k w = Err er"
  shows "\<exists>er'. queryClient_AllBeforeSendHooksAddresses cc w m = (Err er', no_metadata)"
  unfolding queryClient_AllBeforeSendHooksAddresses_def
  by (rule client_error [OF conn, where name = "''AllBeforeSendHooksAddresses''" and H = Query_AllBeforeSendHooksAddresses_Handler])
    (use run in \<open>simp_all add: rpc_simps\<close>)

section \<open>Properties\<close>

text \<open>C39. A query over the network is a query of the keeper: when the keeper answers, a client on a
  connection to the server gets this answer, and when the keeper refuses, it gets an error. The generated
  client, the handlers and the codecs of both messages of the method change nothing in the answers but one
  thing: parameters with a fee that is empty and not nil, as the default ones, arrive with a nil fee, since
  both have the same encoding.\<close>

theorem network_query_is_keeper_query:
  assumes C: "codec_laws C e c"
    and conn: "serves cc Query_serviceDesc (keeper_query_server k) query_dec (answer_Marshal C) (\<lambda>_. no_metadata)"
    and req: "request_ok req"
  shows "(\<forall>r md. ask (keeper_service k) req w = (Ok r, md) \<and> reply_ok e c (on_wire r) \<longrightarrow>
        ask (Query_NewQueryClient C cc) req w = (Ok (on_wire r), no_metadata)) \<and>
     (\<forall>er md. ask (keeper_service k) req w = (Err er, md) \<longrightarrow>
        (\<exists>er'. ask (Query_NewQueryClient C cc) req w = (Err er', no_metadata)))"
proof (intro conjI allI impI)
  fix r md assume "ask (keeper_service k) req w = (Ok r, md) \<and> reply_ok e c (on_wire r)"
  then show "ask (Query_NewQueryClient C cc) req w = (Ok (on_wire r), no_metadata)"
    using req call_Params [OF C conn] call_DenomAuthorityMetadata [OF conn] call_DenomsFromCreator [OF conn]
      call_BeforeSendHookAddress [OF conn] call_AllBeforeSendHooksAddresses [OF conn]
    by (cases req) (auto simp: keeper_service_def Query_NewQueryClient_def)
next
  fix er md assume "ask (keeper_service k) req w = (Err er, md)"
  then show "\<exists>er'. ask (Query_NewQueryClient C cc) req w = (Err er', no_metadata)"
    using req by (cases req) (auto simp: keeper_service_def Query_NewQueryClient_def bindR_eq_Err
      dest!: fail_Params [OF conn, where m = "()"] fail_DenomAuthorityMetadata [OF conn] fail_DenomsFromCreator [OF conn]
        fail_BeforeSendHookAddress [OF conn] fail_AllBeforeSendHooksAddresses [OF conn, where m = "()"])
qed

section \<open>Concrete instances\<close>

text \<open>A connection in memory.\<close>

type_synonym 'w QueryDesc = "('w QueryServer, QueryDec, 'w, QueryRequest, proto_Message) ServiceDesc"

definition mem_query_conn :: "(Mem, ServerMetadata) ClientConn" where
  "mem_query_conn = \<lparr>Invoke = (\<lambda>method inp w.
     (bindR inp (\<lambda>bz. case find (\<lambda>d. full_method (Query_serviceDesc :: Mem QueryDesc) (MethodName d) = method) (Methods Query_serviceDesc) of
        Some d \<Rightarrow> bindR (fst (Handler d (keeper_query_server memKeeper) (query_dec bz) None w)) (answer_Marshal memCoinCodec)
      | None \<Rightarrow> Err (Errorf ''unknown method'')), no_metadata))\<rparr>"

lemma mem_query_conn_serves:
  "serves mem_query_conn Query_serviceDesc (keeper_query_server memKeeper) query_dec (answer_Marshal memCoinCodec)
     (\<lambda>_. no_metadata)"
proof -
  have "find (\<lambda>d'. full_method (Query_serviceDesc :: Mem QueryDesc) (MethodName d')
        = full_method (Query_serviceDesc :: Mem QueryDesc) (MethodName d)) (Methods Query_serviceDesc) = Some d"
    if "d \<in> set (Methods Query_serviceDesc)" for d :: "(Mem QueryServer, QueryDec, Mem, QueryRequest, proto_Message) MethodDesc"
    using that by (simp add: Query_serviceDesc_def) (elim disjE; simp)
  then show ?thesis by (simp add: serves_def mem_query_conn_def)
qed

lemma mem0_query_params:
  "query_Params memKeeper mem0 = Ok \<lparr>qp_Params = \<lparr>DenomCreationFee = Some [], DenomCreationGasConsume = 1000000\<rparr>\<rparr>"
  by code_simp

theorem network_query_is_keeper_query_witness:
  "ask (Query_NewQueryClient memCoinCodec mem_query_conn)
     (QDenomAuthorityMetadata \<lparr>qd_Denom = ''factory/lumi1abc/gold''\<rparr>) mem2
   = (Ok (MDenomAuthorityMetadata \<lparr>qd_AuthorityMetadata = \<lparr>Admin = ''lumi1abc''\<rparr>\<rparr>), no_metadata) \<and>
   ask (Query_NewQueryClient memCoinCodec mem_query_conn) (QParams ()) mem0
   = (Ok (MParams \<lparr>qp_Params = \<lparr>DenomCreationFee = None, DenomCreationGasConsume = 1000000\<rparr>\<rparr>), no_metadata)"
proof
  let ?d = "\<lparr>qd_Denom = ''factory/lumi1abc/gold''\<rparr>"
  have "decode_denom ''factory/lumi1abc/gold'' = ''factory/lumi1abc/gold''"
    by (simp add: decode_denom_def QueryUnescape_plain)
  then have meta: "ask (keeper_service memKeeper) (QDenomAuthorityMetadata ?d) mem2
      = (Ok (MDenomAuthorityMetadata \<lparr>qd_AuthorityMetadata = \<lparr>Admin = ''lumi1abc''\<rparr>\<rparr>), no_metadata)"
    by (simp add: keeper_service_def query_DenomAuthorityMetadata_def mem_admin(2))
  note asked = network_query_is_keeper_query [OF memCoinCodec_laws mem_query_conn_serves, THEN conjunct1, rule_format]
  show "ask (Query_NewQueryClient memCoinCodec mem_query_conn) (QDenomAuthorityMetadata ?d) mem2
      = (Ok (MDenomAuthorityMetadata \<lparr>qd_AuthorityMetadata = \<lparr>Admin = ''lumi1abc''\<rparr>\<rparr>), no_metadata)"
    using asked [of "QDenomAuthorityMetadata ?d" mem2, OF _ conjI, OF _ meta]
    by (simp add: QueryDenomAuthorityMetadataRequest_ok_def QueryDenomAuthorityMetadataRequest_enc_def
        QueryDenomAuthorityMetadataResponse_ok_def QueryDenomAuthorityMetadataResponse_enc_def
        DenomAuthorityMetadata_enc_def DenomAuthorityMetadata_ok_def size_string_def size_msg_def sov_small
        word_less_nat_alt)
  let ?p = "MParams \<lparr>qp_Params = \<lparr>DenomCreationFee = None, DenomCreationGasConsume = 1000000\<rparr>\<rparr>"
  have params: "ask (keeper_service memKeeper) (QParams ()) mem0
      = (Ok (MParams \<lparr>qp_Params = \<lparr>DenomCreationFee = Some [], DenomCreationGasConsume = 1000000\<rparr>\<rparr>), no_metadata)"
    by (simp add: keeper_service_def mem0_query_params)
  have "reply_ok coin_enc coin_ok ?p"
    by (simp add: QueryParamsResponse_ok_def QueryParamsResponse_enc_def Params_ok_def Params_enc_def size_msg_def
        size_uint64_def)
      (use sov_le_10 [of 1000000] sov_le_10 [of "1 + word_of_nat (sov 1000000)"] in linarith)
  then show "ask (Query_NewQueryClient memCoinCodec mem_query_conn) (QParams ()) mem0 = (Ok ?p, no_metadata)"
    using asked [of "QParams ()" mem0, OF _ conjI, OF _ params] unfolding on_wire_default_params by simp
qed

end
