(* ===== verification/LumiCodec.thy ===== *)
theory LumiCodec
  imports MetaCodec
begin

text \<open>
  The types of x/lumiwaveprotocol and their generated codecs (x/lumiwaveprotocol/types:
  params.pb.go, genesis.pb.go, module.pb.go, query.pb.go, tx.pb.go). The module has the names of
    the
  token factory's types for its own (\<open>Params\<close>, \<open>GenesisState\<close>, \<open>QueryParamsRequest\<close>), so they
    carry the
  prefix Lumi here.
\<close>

section \<open>The types\<close>

text \<open>The parameters of the module have no field.\<close>

datatype LumiParams = LumiParams

lemma LumiParams_reads: "reads name fs [] LumiParams m"
  by (cases m) (simp add: reads_Nil)

record LumiGenesisState =
  lg_Params :: "LumiParams"

record LumiModule =
  lm_Authority :: "string"

record LumiQueryParamsResponse =
  lq_Params :: "LumiParams"

record MsgUpdateParams =
  up_Authority :: "string"
  up_Params :: "LumiParams"

section \<open>LumiParams\<close>

definition LumiParams_Size :: "LumiParams \<Rightarrow> nat" where
  "LumiParams_Size m = 0"

definition LumiParams_MarshalToSizedBuffer :: "LumiParams \<Rightarrow> bytes \<Rightarrow> (bytes \<times> nat) res" where
  "LumiParams_MarshalToSizedBuffer m = to_sized_buffer
    []"

definition LumiParams_Marshal :: "LumiParams \<Rightarrow> bytes res" where
  "LumiParams_Marshal = marshal LumiParams_Size LumiParams_MarshalToSizedBuffer"

definition LumiParams_fields :: "(int \<times> LumiParams field) list" where
  "LumiParams_fields =
    []"

definition LumiParams_Unmarshal :: "bytes \<Rightarrow> LumiParams \<Rightarrow> LumiParams res" where
  "LumiParams_Unmarshal = unmarshal ''Params'' LumiParams_fields"

definition LumiParams_zero :: "LumiParams" where
  "LumiParams_zero = LumiParams"

definition LumiParams_enc :: "LumiParams \<Rightarrow> bytes" where
  "LumiParams_enc m =
     []"

definition LumiParams_ok :: "LumiParams \<Rightarrow> bool" where
  "LumiParams_ok m \<longleftrightarrow> True"

definition LumiParams_codec :: "LumiParams Codec" where
  "LumiParams_codec = \<lparr>cSize = LumiParams_Size, cToSized = LumiParams_MarshalToSizedBuffer,
     cUnmarshal = LumiParams_Unmarshal, cZero = LumiParams_zero\<rparr>"

interpretation lparams: pb_message LumiParams_Size LumiParams_MarshalToSizedBuffer
  LumiParams_Unmarshal LumiParams_zero LumiParams_enc LumiParams_ok
  unfolding LumiParams_MarshalToSizedBuffer_def [abs_def] LumiParams_Unmarshal_def
  by (rule pb_messageI [where outs = "\<lambda>m. []"])
    (simp_all add: LumiParams_Size_def LumiParams_enc_def LumiParams_fields_def
      LumiParams_zero_def reads_Nil LumiParams_reads)

lemma LumiParams_codec_laws: "codec_laws LumiParams_codec LumiParams_enc LumiParams_ok"
  unfolding codec_laws_def LumiParams_codec_def Codec.simps by (rule lparams.pb_message_axioms)

section \<open>LumiGenesisState\<close>

definition LumiGenesisState_Size :: "LumiGenesisState \<Rightarrow> nat" where
  "LumiGenesisState_Size m = size_msg (cSize LumiParams_codec (lg_Params m))"

definition LumiGenesisState_MarshalToSizedBuffer :: "LumiGenesisState \<Rightarrow> bytes \<Rightarrow> (bytes \<times> nat)
  res" where
  "LumiGenesisState_MarshalToSizedBuffer m = to_sized_buffer
    [b_msg 0x0a (cToSized LumiParams_codec (lg_Params m))]"

definition LumiGenesisState_Marshal :: "LumiGenesisState \<Rightarrow> bytes res" where
  "LumiGenesisState_Marshal = marshal LumiGenesisState_Size LumiGenesisState_MarshalToSizedBuffer"

definition LumiGenesisState_fields :: "(int \<times> LumiGenesisState field) list" where
  "LumiGenesisState_fields =
    [(1, FMsg ''Params'' (\<lambda>bs m.
       bindR (cUnmarshal LumiParams_codec bs (lg_Params m)) (\<lambda>v. Ok (m\<lparr>lg_Params := v\<rparr>))))]"

definition LumiGenesisState_Unmarshal :: "bytes \<Rightarrow> LumiGenesisState \<Rightarrow> LumiGenesisState res" where
  "LumiGenesisState_Unmarshal = unmarshal ''GenesisState'' LumiGenesisState_fields"

definition LumiGenesisState_zero :: "LumiGenesisState" where
  "LumiGenesisState_zero = \<lparr>lg_Params = cZero LumiParams_codec\<rparr>"

definition LumiGenesisState_enc :: "LumiGenesisState \<Rightarrow> bytes" where
  "LumiGenesisState_enc m =
     pbm 0x0a (LumiParams_enc (lg_Params m))"

definition LumiGenesisState_ok :: "LumiGenesisState \<Rightarrow> bool" where
  "LumiGenesisState_ok m \<longleftrightarrow> LumiParams_ok (lg_Params m) \<and>
     length (LumiGenesisState_enc m) < 2 ^ 63"

lemma LumiGenesisState_reads:
  assumes "LumiGenesisState_ok m"
  shows "reads name LumiGenesisState_fields (LumiGenesisState_enc m) LumiGenesisState_zero m"
proof -
  let ?z0 = "LumiGenesisState_zero"
  let ?z1 = "?z0\<lparr>lg_Params := lg_Params m\<rparr>"
  note laws = codec_law(4) [OF LumiParams_codec_laws]
  note okm = assms(1) [unfolded LumiGenesisState_ok_def]
  have r1: "reads name LumiGenesisState_fields (pbm 0x0a (LumiParams_enc (lg_Params m))) ?z0 ?z1"
    using okm by (intro reads_msgI)
      (simp_all add: LumiGenesisState_fields_def LumiGenesisState_zero_def laws)
  show ?thesis
    using r1
    by (cases m) (simp add: LumiGenesisState_enc_def LumiGenesisState_zero_def)
qed

interpretation lgenesis: pb_message LumiGenesisState_Size LumiGenesisState_MarshalToSizedBuffer
  LumiGenesisState_Unmarshal LumiGenesisState_zero LumiGenesisState_enc LumiGenesisState_ok
  unfolding LumiGenesisState_MarshalToSizedBuffer_def [abs_def] LumiGenesisState_Unmarshal_def
  by (rule pb_messageI [where outs = "\<lambda>m.
      [pbm 0x0a (LumiParams_enc (lg_Params m))]"])
    (auto simp: LumiGenesisState_Size_def LumiGenesisState_ok_def LumiGenesisState_enc_def
      codec_law(1) [OF LumiParams_codec_laws] codec_law(2) [OF LumiParams_codec_laws]
      intro!: LumiGenesisState_reads [unfolded LumiGenesisState_ok_def LumiGenesisState_enc_def]
        writes_intros )

section \<open>LumiModule\<close>

definition LumiModule_Size :: "LumiModule \<Rightarrow> nat" where
  "LumiModule_Size m = size_string (lm_Authority m)"

definition LumiModule_MarshalToSizedBuffer :: "LumiModule \<Rightarrow> bytes \<Rightarrow> (bytes \<times> nat) res" where
  "LumiModule_MarshalToSizedBuffer m = to_sized_buffer
    [b_string 0x0a (lm_Authority m)]"

definition LumiModule_Marshal :: "LumiModule \<Rightarrow> bytes res" where
  "LumiModule_Marshal = marshal LumiModule_Size LumiModule_MarshalToSizedBuffer"

definition LumiModule_fields :: "(int \<times> LumiModule field) list" where
  "LumiModule_fields =
    [(1, FString ''Authority'' (\<lambda>v m. m\<lparr>lm_Authority := v\<rparr>))]"

definition LumiModule_Unmarshal :: "bytes \<Rightarrow> LumiModule \<Rightarrow> LumiModule res" where
  "LumiModule_Unmarshal = unmarshal ''Module'' LumiModule_fields"

definition LumiModule_zero :: "LumiModule" where
  "LumiModule_zero = \<lparr>lm_Authority = []\<rparr>"

definition LumiModule_enc :: "LumiModule \<Rightarrow> bytes" where
  "LumiModule_enc m =
     pbs 0x0a (lm_Authority m)"

definition LumiModule_ok :: "LumiModule \<Rightarrow> bool" where
  "LumiModule_ok m \<longleftrightarrow> length (LumiModule_enc m) < 2 ^ 63"

lemma LumiModule_reads:
  "reads name LumiModule_fields (LumiModule_enc m) LumiModule_zero m"
proof -
  let ?z0 = "LumiModule_zero"
  let ?z1 = "?z0\<lparr>lm_Authority := lm_Authority m\<rparr>"
  have r1: "reads name LumiModule_fields (pbs 0x0a (lm_Authority m)) ?z0 ?z1"
    by (rule reads_stringI)
      (simp_all add: LumiModule_fields_def LumiModule_zero_def)
  show ?thesis
    using r1
    by (cases m) (simp add: LumiModule_enc_def LumiModule_zero_def)
qed

interpretation lmodule: pb_message LumiModule_Size LumiModule_MarshalToSizedBuffer
  LumiModule_Unmarshal LumiModule_zero LumiModule_enc LumiModule_ok
  unfolding LumiModule_MarshalToSizedBuffer_def [abs_def] LumiModule_Unmarshal_def
  by (rule pb_messageI [where outs = "\<lambda>m.
      [pbs 0x0a (lm_Authority m)]"])
    (auto simp: LumiModule_Size_def LumiModule_ok_def LumiModule_enc_def
      intro!: LumiModule_reads [unfolded LumiModule_ok_def LumiModule_enc_def] writes_intros )

section \<open>LumiQueryParamsRequest\<close>

definition LumiQueryParamsRequest_Size :: "unit \<Rightarrow> nat" where
  "LumiQueryParamsRequest_Size m = 0"

definition LumiQueryParamsRequest_MarshalToSizedBuffer :: "unit \<Rightarrow> bytes \<Rightarrow> (bytes \<times> nat) res" where
  "LumiQueryParamsRequest_MarshalToSizedBuffer m = to_sized_buffer
    []"

definition LumiQueryParamsRequest_Marshal :: "unit \<Rightarrow> bytes res" where
  "LumiQueryParamsRequest_Marshal = marshal LumiQueryParamsRequest_Size
    LumiQueryParamsRequest_MarshalToSizedBuffer"

definition LumiQueryParamsRequest_fields :: "(int \<times> unit field) list" where
  "LumiQueryParamsRequest_fields =
    []"

definition LumiQueryParamsRequest_Unmarshal :: "bytes \<Rightarrow> unit \<Rightarrow> unit res" where
  "LumiQueryParamsRequest_Unmarshal = unmarshal ''QueryParamsRequest''
    LumiQueryParamsRequest_fields"

definition LumiQueryParamsRequest_zero :: "unit" where
  "LumiQueryParamsRequest_zero = ()"

definition LumiQueryParamsRequest_enc :: "unit \<Rightarrow> bytes" where
  "LumiQueryParamsRequest_enc m =
     []"

definition LumiQueryParamsRequest_ok :: "unit \<Rightarrow> bool" where
  "LumiQueryParamsRequest_ok m \<longleftrightarrow> True"

interpretation lqreq: pb_message LumiQueryParamsRequest_Size
  LumiQueryParamsRequest_MarshalToSizedBuffer
  LumiQueryParamsRequest_Unmarshal LumiQueryParamsRequest_zero LumiQueryParamsRequest_enc
    LumiQueryParamsRequest_ok
  unfolding LumiQueryParamsRequest_MarshalToSizedBuffer_def [abs_def]
    LumiQueryParamsRequest_Unmarshal_def
  by (rule pb_messageI [where outs = "\<lambda>m. []"])
    (simp_all add: LumiQueryParamsRequest_Size_def LumiQueryParamsRequest_enc_def
      LumiQueryParamsRequest_fields_def LumiQueryParamsRequest_zero_def reads_Nil)

section \<open>LumiQueryParamsResponse\<close>

definition LumiQueryParamsResponse_Size :: "LumiQueryParamsResponse \<Rightarrow> nat" where
  "LumiQueryParamsResponse_Size m = size_msg (cSize LumiParams_codec (lq_Params m))"

definition LumiQueryParamsResponse_MarshalToSizedBuffer :: "LumiQueryParamsResponse \<Rightarrow> bytes \<Rightarrow>
  (bytes \<times> nat) res" where
  "LumiQueryParamsResponse_MarshalToSizedBuffer m = to_sized_buffer
    [b_msg 0x0a (cToSized LumiParams_codec (lq_Params m))]"

definition LumiQueryParamsResponse_Marshal :: "LumiQueryParamsResponse \<Rightarrow> bytes res" where
  "LumiQueryParamsResponse_Marshal = marshal LumiQueryParamsResponse_Size
    LumiQueryParamsResponse_MarshalToSizedBuffer"

definition LumiQueryParamsResponse_fields :: "(int \<times> LumiQueryParamsResponse field) list" where
  "LumiQueryParamsResponse_fields =
    [(1, FMsg ''Params'' (\<lambda>bs m.
       bindR (cUnmarshal LumiParams_codec bs (lq_Params m)) (\<lambda>v. Ok (m\<lparr>lq_Params := v\<rparr>))))]"

definition LumiQueryParamsResponse_Unmarshal :: "bytes \<Rightarrow> LumiQueryParamsResponse \<Rightarrow>
  LumiQueryParamsResponse res" where
  "LumiQueryParamsResponse_Unmarshal = unmarshal ''QueryParamsResponse''
    LumiQueryParamsResponse_fields"

definition LumiQueryParamsResponse_zero :: "LumiQueryParamsResponse" where
  "LumiQueryParamsResponse_zero = \<lparr>lq_Params = cZero LumiParams_codec\<rparr>"

definition LumiQueryParamsResponse_enc :: "LumiQueryParamsResponse \<Rightarrow> bytes" where
  "LumiQueryParamsResponse_enc m =
     pbm 0x0a (LumiParams_enc (lq_Params m))"

definition LumiQueryParamsResponse_ok :: "LumiQueryParamsResponse \<Rightarrow> bool" where
  "LumiQueryParamsResponse_ok m \<longleftrightarrow> LumiParams_ok (lq_Params m) \<and>
     length (LumiQueryParamsResponse_enc m) < 2 ^ 63"

lemma LumiQueryParamsResponse_reads:
  assumes "LumiQueryParamsResponse_ok m"
  shows "reads name LumiQueryParamsResponse_fields (LumiQueryParamsResponse_enc m)
    LumiQueryParamsResponse_zero m"
proof -
  let ?z0 = "LumiQueryParamsResponse_zero"
  let ?z1 = "?z0\<lparr>lq_Params := lq_Params m\<rparr>"
  note laws = codec_law(4) [OF LumiParams_codec_laws]
  note okm = assms(1) [unfolded LumiQueryParamsResponse_ok_def]
  have r1: "reads name LumiQueryParamsResponse_fields (pbm 0x0a (LumiParams_enc (lq_Params m)))
    ?z0 ?z1"
    using okm by (intro reads_msgI)
      (simp_all add: LumiQueryParamsResponse_fields_def LumiQueryParamsResponse_zero_def laws)
  show ?thesis
    using r1
    by (cases m) (simp add: LumiQueryParamsResponse_enc_def LumiQueryParamsResponse_zero_def)
qed

interpretation lqresp: pb_message LumiQueryParamsResponse_Size
  LumiQueryParamsResponse_MarshalToSizedBuffer
  LumiQueryParamsResponse_Unmarshal LumiQueryParamsResponse_zero LumiQueryParamsResponse_enc
    LumiQueryParamsResponse_ok
  unfolding LumiQueryParamsResponse_MarshalToSizedBuffer_def [abs_def]
    LumiQueryParamsResponse_Unmarshal_def
  by (rule pb_messageI [where outs = "\<lambda>m.
      [pbm 0x0a (LumiParams_enc (lq_Params m))]"])
    (auto simp: LumiQueryParamsResponse_Size_def LumiQueryParamsResponse_ok_def
      LumiQueryParamsResponse_enc_def codec_law(1) [OF LumiParams_codec_laws] codec_law(2) [OF
      LumiParams_codec_laws]
      intro!: LumiQueryParamsResponse_reads [unfolded LumiQueryParamsResponse_ok_def
        LumiQueryParamsResponse_enc_def] writes_intros )

section \<open>MsgUpdateParams\<close>

definition MsgUpdateParams_Size :: "MsgUpdateParams \<Rightarrow> nat" where
  "MsgUpdateParams_Size m = size_string (up_Authority m) + size_msg (cSize LumiParams_codec
    (up_Params m))"

definition MsgUpdateParams_MarshalToSizedBuffer :: "MsgUpdateParams \<Rightarrow> bytes \<Rightarrow> (bytes \<times> nat) res"
  where
  "MsgUpdateParams_MarshalToSizedBuffer m = to_sized_buffer
    [b_msg 0x12 (cToSized LumiParams_codec (up_Params m)),
     b_string 0x0a (up_Authority m)]"

definition MsgUpdateParams_Marshal :: "MsgUpdateParams \<Rightarrow> bytes res" where
  "MsgUpdateParams_Marshal = marshal MsgUpdateParams_Size MsgUpdateParams_MarshalToSizedBuffer"

definition MsgUpdateParams_fields :: "(int \<times> MsgUpdateParams field) list" where
  "MsgUpdateParams_fields =
    [(1, FString ''Authority'' (\<lambda>v m. m\<lparr>up_Authority := v\<rparr>)),
     (2, FMsg ''Params'' (\<lambda>bs m.
       bindR (cUnmarshal LumiParams_codec bs (up_Params m)) (\<lambda>v. Ok (m\<lparr>up_Params := v\<rparr>))))]"

definition MsgUpdateParams_Unmarshal :: "bytes \<Rightarrow> MsgUpdateParams \<Rightarrow> MsgUpdateParams res" where
  "MsgUpdateParams_Unmarshal = unmarshal ''MsgUpdateParams'' MsgUpdateParams_fields"

definition MsgUpdateParams_zero :: "MsgUpdateParams" where
  "MsgUpdateParams_zero = \<lparr>up_Authority = [], up_Params = cZero LumiParams_codec\<rparr>"

definition MsgUpdateParams_enc :: "MsgUpdateParams \<Rightarrow> bytes" where
  "MsgUpdateParams_enc m =
     pbs 0x0a (up_Authority m) @
     pbm 0x12 (LumiParams_enc (up_Params m))"

definition MsgUpdateParams_ok :: "MsgUpdateParams \<Rightarrow> bool" where
  "MsgUpdateParams_ok m \<longleftrightarrow> LumiParams_ok (up_Params m) \<and>
     length (MsgUpdateParams_enc m) < 2 ^ 63"

lemma MsgUpdateParams_reads:
  assumes "MsgUpdateParams_ok m"
  shows "reads name MsgUpdateParams_fields (MsgUpdateParams_enc m) MsgUpdateParams_zero m"
proof -
  let ?z0 = "MsgUpdateParams_zero"
  let ?z1 = "?z0\<lparr>up_Authority := up_Authority m\<rparr>"
  let ?z2 = "?z1\<lparr>up_Params := up_Params m\<rparr>"
  note laws = codec_law(4) [OF LumiParams_codec_laws]
  note okm = assms(1) [unfolded MsgUpdateParams_ok_def]
  have r1: "reads name MsgUpdateParams_fields (pbs 0x0a (up_Authority m)) ?z0 ?z1"
    by (rule reads_stringI)
      (simp_all add: MsgUpdateParams_fields_def MsgUpdateParams_zero_def)
  have r2: "reads name MsgUpdateParams_fields (pbm 0x12 (LumiParams_enc (up_Params m))) ?z1 ?z2"
    using okm by (intro reads_msgI)
      (simp_all add: MsgUpdateParams_fields_def MsgUpdateParams_zero_def laws)
  show ?thesis
    using reads_append [OF r1 r2]
    by (cases m) (simp add: MsgUpdateParams_enc_def MsgUpdateParams_zero_def)
qed

interpretation lupdate: pb_message MsgUpdateParams_Size MsgUpdateParams_MarshalToSizedBuffer
  MsgUpdateParams_Unmarshal MsgUpdateParams_zero MsgUpdateParams_enc MsgUpdateParams_ok
  unfolding MsgUpdateParams_MarshalToSizedBuffer_def [abs_def] MsgUpdateParams_Unmarshal_def
  by (rule pb_messageI [where outs = "\<lambda>m.
      [pbm 0x12 (LumiParams_enc (up_Params m)), pbs 0x0a (up_Authority m)]"])
    (auto simp: MsgUpdateParams_Size_def MsgUpdateParams_ok_def MsgUpdateParams_enc_def
      codec_law(1) [OF LumiParams_codec_laws] codec_law(2) [OF LumiParams_codec_laws]
      intro!: MsgUpdateParams_reads [unfolded MsgUpdateParams_ok_def MsgUpdateParams_enc_def]
        writes_intros )

section \<open>MsgUpdateParamsResponse\<close>

definition MsgUpdateParamsResponse_Size :: "unit \<Rightarrow> nat" where
  "MsgUpdateParamsResponse_Size m = 0"

definition MsgUpdateParamsResponse_MarshalToSizedBuffer :: "unit \<Rightarrow> bytes \<Rightarrow> (bytes \<times> nat) res"
  where
  "MsgUpdateParamsResponse_MarshalToSizedBuffer m = to_sized_buffer
    []"

definition MsgUpdateParamsResponse_Marshal :: "unit \<Rightarrow> bytes res" where
  "MsgUpdateParamsResponse_Marshal = marshal MsgUpdateParamsResponse_Size
    MsgUpdateParamsResponse_MarshalToSizedBuffer"

definition MsgUpdateParamsResponse_fields :: "(int \<times> unit field) list" where
  "MsgUpdateParamsResponse_fields =
    []"

definition MsgUpdateParamsResponse_Unmarshal :: "bytes \<Rightarrow> unit \<Rightarrow> unit res" where
  "MsgUpdateParamsResponse_Unmarshal = unmarshal ''MsgUpdateParamsResponse''
    MsgUpdateParamsResponse_fields"

definition MsgUpdateParamsResponse_zero :: "unit" where
  "MsgUpdateParamsResponse_zero = ()"

definition MsgUpdateParamsResponse_enc :: "unit \<Rightarrow> bytes" where
  "MsgUpdateParamsResponse_enc m =
     []"

definition MsgUpdateParamsResponse_ok :: "unit \<Rightarrow> bool" where
  "MsgUpdateParamsResponse_ok m \<longleftrightarrow> True"

interpretation lupdateresp: pb_message MsgUpdateParamsResponse_Size
  MsgUpdateParamsResponse_MarshalToSizedBuffer
  MsgUpdateParamsResponse_Unmarshal MsgUpdateParamsResponse_zero MsgUpdateParamsResponse_enc
    MsgUpdateParamsResponse_ok
  unfolding MsgUpdateParamsResponse_MarshalToSizedBuffer_def [abs_def]
    MsgUpdateParamsResponse_Unmarshal_def
  by (rule pb_messageI [where outs = "\<lambda>m. []"])
    (simp_all add: MsgUpdateParamsResponse_Size_def MsgUpdateParamsResponse_enc_def
      MsgUpdateParamsResponse_fields_def MsgUpdateParamsResponse_zero_def reads_Nil)

end
