(* ===== verification/LumiKeeper.thy ===== *)
theory LumiKeeper
  imports LumiCodec MemChain
begin

text \<open>
  The chain's own module x/lumiwaveprotocol but for its inflation controller: the keeper of its
  parameters (keeper/), their types (types/params.go, genesis.go) and the genesis handling and
  wiring of the module (module/module.go, depinject.go).

  The parameters have no field yet, so that what the keeper adds is who may set them, that a failure
  leaves the item as it was, and what is read when it was never set.
\<close>

section \<open>Types\<close>

definition LumiNewParams :: LumiParams where
  "LumiNewParams = LumiParams"

definition LumiDefaultParams :: LumiParams where
  "LumiDefaultParams = LumiNewParams"

definition LumiParams_Validate :: "LumiParams \<Rightarrow> unit res" where
  "LumiParams_Validate p = Ok ()"

definition LumiDefaultGenesis :: LumiGenesisState where
  "LumiDefaultGenesis = \<lparr>lg_Params = LumiDefaultParams\<rparr>"

definition LumiGenesisState_Validate :: "LumiGenesisState \<Rightarrow> unit res" where
  "LumiGenesisState_Validate gs = LumiParams_Validate (lg_Params gs)"

definition LumiModuleName :: string where "LumiModuleName = ''lumiwaveprotocol''"
definition GovModuleName :: string where "GovModuleName = ''gov''"

section \<open>Keeper\<close>

record 'w LumiKeeper =
  lk_addressCodec :: AddressCodec
  lk_authority :: bytes
  lk_Params :: "('w, LumiParams) Item"

text \<open>
  \<open>item\<close> is the item that \<open>collections.NewItem\<close> makes on the store service, \<open>schema\<close> the error of
  \<open>SchemaBuilder.Build\<close>.
\<close>

definition Lumi_NewKeeper :: "('w, LumiParams) Item \<Rightarrow> error option \<Rightarrow> AddressCodec \<Rightarrow> bytes \<Rightarrow>
    'w LumiKeeper res" where
  "Lumi_NewKeeper item schema addressCodec authority =
     (case BytesToString addressCodec authority of
        Err e \<Rightarrow> Panic (''invalid authority address '' @ authority @ '': '' @ ErrorText e)
      | Panic p \<Rightarrow> Panic p
      | Ok _ \<Rightarrow>
          (case schema of Some e \<Rightarrow> Panic (ErrorText e)
           | None \<Rightarrow> Ok \<lparr>lk_addressCodec = addressCodec, lk_authority = authority, lk_Params = item\<rparr>))"

definition GetAuthority :: "'w LumiKeeper \<Rightarrow> bytes" where
  "GetAuthority k = lk_authority k"

definition Lumi_InitGenesis :: "'w LumiKeeper \<Rightarrow> LumiGenesisState \<Rightarrow> ('w, unit) act" where
  "Lumi_InitGenesis k genState = ItemSet (lk_Params k) (lg_Params genState)"

definition Lumi_ExportGenesis :: "'w LumiKeeper \<Rightarrow> 'w \<Rightarrow> LumiGenesisState res" where
  "Lumi_ExportGenesis k w =
     (let genesis = LumiDefaultGenesis in
      bindR (ItemGet (lk_Params k) w) (\<lambda>params. Ok (genesis\<lparr>lg_Params := params\<rparr>)))"

definition UpdateParams :: "'w LumiKeeper \<Rightarrow> MsgUpdateParams \<Rightarrow> ('w, unit) act" where
  "UpdateParams k req =
     bindA (lift (mapErr (\<lambda>e. Wrap e ''invalid authority address'')
              (StringToBytes (lk_addressCodec k) (up_Authority req)))) (\<lambda>authority.
     if GetAuthority k \<noteq> authority then
       bindA (lift (case BytesToString (lk_addressCodec k) (GetAuthority k) of
                Ok s \<Rightarrow> Ok s | Err e \<Rightarrow> Ok '''' | Panic p \<Rightarrow> Panic p)) (\<lambda>expectedAuthorityStr.
       throw (Wrap ErrInvalidSigner (''invalid authority; expected '' @ expectedAuthorityStr
         @ '', got '' @ up_Authority req)))
     else
       bindA (lift (LumiParams_Validate (up_Params req))) (\<lambda>_.
       ItemSet (lk_Params k) (up_Params req)))"

text \<open>\<open>errors.Is\<close>: the error itself or one it wraps.\<close>

fun error_is :: "error \<Rightarrow> error \<Rightarrow> bool" where
  "error_is (Wrap e d) target = (Wrap e d = target \<or> error_is e target)"
| "error_is e target = (e = target)"

text \<open>The query server: a nil request is \<open>None\<close>; parameters that were never set are the zero value.\<close>

definition Lumi_QueryParams :: "'w LumiKeeper \<Rightarrow> unit option \<Rightarrow> 'w \<Rightarrow> LumiQueryParamsResponse res" where
  "Lumi_QueryParams k req w =
     (if req = None then Err (Errorf ''rpc error: code = InvalidArgument desc = invalid request'')
      else case ItemGet (lk_Params k) w of
        Ok params \<Rightarrow> Ok \<lparr>lq_Params = params\<rparr>
      | Err e \<Rightarrow> if error_is e ErrNotFound then Ok \<lparr>lq_Params = LumiParams\<rparr>
                else Err (Errorf ''rpc error: code = Internal desc = internal error'')
      | Panic p \<Rightarrow> Panic p)"

section \<open>Module\<close>

definition Lumi_ValidateGenesis :: "LumiGenesisState JSONCodec \<Rightarrow> string \<Rightarrow> unit res" where
  "Lumi_ValidateGenesis cdc bz =
     bindR (mapErr (\<lambda>e. Wrap e (''failed to unmarshal '' @ LumiModuleName @ '' genesis state''))
              (UnmarshalJSON cdc bz)) LumiGenesisState_Validate"

definition Lumi_AppInitGenesis :: "LumiGenesisState JSONCodec \<Rightarrow> 'w LumiKeeper \<Rightarrow> string \<Rightarrow>
    ('w, unit) act" where
  "Lumi_AppInitGenesis cdc k gs =
     bindA (must (''failed to unmarshal '' @ LumiModuleName @ '' genesis state: '')
              (lift (UnmarshalJSON cdc gs))) (\<lambda>genState.
     must (''failed to initialize '' @ LumiModuleName @ '' genesis state: '') (Lumi_InitGenesis k genState))"

definition Lumi_AppExportGenesis :: "LumiGenesisState JSONCodec \<Rightarrow> 'w LumiKeeper \<Rightarrow> 'w \<Rightarrow> string res" where
  "Lumi_AppExportGenesis cdc k w =
     bindR (or_panic (''failed to export '' @ LumiModuleName @ '' genesis state: '')
              (Lumi_ExportGenesis k w)) (\<lambda>genState.
     or_panic (''failed to marshal '' @ LumiModuleName @ '' genesis state: '') (MarshalJSON cdc genState))"

text \<open>
  The authority is the gov module's address unless the configuration names another;
  \<open>moduleOrBech32\<close> is \<open>authtypes.NewModuleAddressOrBech32Address\<close>.
\<close>

definition ProvideModule :: "Sdk \<Rightarrow> (string \<Rightarrow> addr) \<Rightarrow> LumiModule \<Rightarrow> ('w, LumiParams) Item \<Rightarrow>
    error option \<Rightarrow> AddressCodec \<Rightarrow> 'w LumiKeeper res" where
  "ProvideModule S moduleOrBech32 cfg item schema addressCodec =
     (let authority = (if lm_Authority cfg \<noteq> '''' then moduleOrBech32 (lm_Authority cfg)
                       else NewModuleAddress S GovModuleName)
      in Lumi_NewKeeper item schema addressCodec authority)"

section \<open>Properties\<close>

text \<open>Only the authority the module was wired with sets the parameters: an update that succeeds
  names it and its parameters are the ones read from then on; an update that fails leaves what is read.\<close>

theorem UpdateParams_by_authority:
  assumes "ProvideModule S mob cfg item schema ac = Ok k" "item_laws item"
    and "UpdateParams k req w = (r, w')"
  shows "if is_ok r then
      StringToBytes ac (up_Authority req) = Ok (if lm_Authority cfg = '''' then NewModuleAddress S ''gov''
        else mob (lm_Authority cfg))
      \<and> ItemGet item w' = Ok (up_Params req)
    else ItemGet item w' = ItemGet item w"
proof -
  from assms(1) have k: "lk_addressCodec k = ac" "lk_Params k = item"
    "lk_authority k = (if lm_Authority cfg = '''' then NewModuleAddress S ''gov'' else mob (lm_Authority cfg))"
    by (auto simp: ProvideModule_def Lumi_NewKeeper_def GovModuleName_def Let_def split: res.splits option.splits)
  have fail: "unless_ok (ItemGet item) (UpdateParams k req)"
    unfolding UpdateParams_def k using assms(2) by (intro unless_ok_bindA unless_ok_if preserves_basic
        unless_ok_basic) (simp add: item_laws_def)
  show ?thesis
  proof (cases r)
    case (Ok u)
    with assms(3) show ?thesis
      using assms(2) by (auto simp: UpdateParams_def bindA_Ok_iff GetAuthority_def k item_laws_def
          split: if_splits res.splits)
  qed (use unless_okD [OF fail assms(3)] in simp_all)
qed

text \<open>Genesis handling: what is exported after an import reads as what was imported, an import that
  cannot be read panics before it writes, and no error is lost: both panic or succeed.\<close>

theorem lumi_genesis_roundtrip:
  assumes "item_laws (lk_Params k)" "json_laws cdc" "Lumi_AppInitGenesis cdc k t w = (r, w')"
  shows "(\<forall>e. r \<noteq> Err e) \<and> (\<not> is_ok (UnmarshalJSON cdc t) \<longrightarrow> \<not> is_ok r \<and> w' = w)
    \<and> (\<forall>t'. is_ok r \<longrightarrow> Lumi_AppExportGenesis cdc k w' = Ok t' \<longrightarrow>
         UnmarshalJSON cdc t' = UnmarshalJSON cdc t)"
proof -
  have "UnmarshalJSON cdc t' = UnmarshalJSON cdc t"
    if "Lumi_AppInitGenesis cdc k t w = (Ok u, w')" "Lumi_AppExportGenesis cdc k w' = Ok t'" for u t'
  proof -
    from that(1) obtain g where g: "UnmarshalJSON cdc t = Ok g" "ItemSet (lk_Params k) (lg_Params g) w = (Ok (), w')"
      by (auto simp: Lumi_AppInitGenesis_def Lumi_InitGenesis_def bindA_Ok_iff)
    then have "ItemGet (lk_Params k) w' = Ok (lg_Params g)" using assms(1) by (simp add: item_laws_def)
    then have "MarshalJSON cdc g = Ok t'"
      using that(2) by (cases g) (simp add: Lumi_AppExportGenesis_def Lumi_ExportGenesis_def LumiDefaultGenesis_def)
    with g(1) assms(2) show ?thesis by (simp add: json_laws_def)
  qed
  moreover have "r \<noteq> Err e" for e
    using assms(3) by (auto simp: Lumi_AppInitGenesis_def bindA_def split: prod.splits res.splits)
  moreover have "\<not> is_ok r \<and> w' = w" if "\<not> is_ok (UnmarshalJSON cdc t)"
    using assms(3) that by (cases "UnmarshalJSON cdc t") (auto simp: Lumi_AppInitGenesis_def must_def bindA_def)
  ultimately show ?thesis using assms(3) by (auto elim: is_ok.elims)
qed

text \<open>A query for the parameters never fails because they were never set: it then answers the
  default ones; with a store that has them it answers the ones stored.\<close>

theorem Lumi_QueryParams_default:
  assumes "\<And>e. ItemGet (lk_Params k) w = Err e \<Longrightarrow> error_is e ErrNotFound"
  shows "Lumi_QueryParams k (Some ()) w = (case ItemGet (lk_Params k) w of
      Ok p \<Rightarrow> Ok \<lparr>lq_Params = p\<rparr> | Err e \<Rightarrow> Ok \<lparr>lq_Params = LumiDefaultParams\<rparr> | Panic x \<Rightarrow> Panic x)
    \<and> \<not> is_ok (Lumi_QueryParams k None w)"
  using assms by (auto simp: Lumi_QueryParams_def LumiDefaultParams_def LumiNewParams_def split: res.splits)

section \<open>Concrete instances\<close>

definition memItem :: "('v option, 'v) Item" where
  "memItem = \<lparr>ItemGet = (\<lambda>w. case w of None \<Rightarrow> Err (Wrap ErrNotFound ''params'') | Some v \<Rightarrow> Ok v),
     ItemSet = (\<lambda>v. modify (\<lambda>_. Some v))\<rparr>"

definition memAddressCodec :: AddressCodec where
  "memAddressCodec = \<lparr>StringToBytes = AccAddressFromBech32 memSdk,
     BytesToString = (\<lambda>a. Ok (AccAddressString memSdk a))\<rparr>"

definition memJson :: "LumiGenesisState JSONCodec" where
  "memJson = \<lparr>MarshalJSON = (\<lambda>g. Ok ''{params:{}}''),
     UnmarshalJSON = (\<lambda>t. if t = ''{params:{}}'' then Ok LumiDefaultGenesis else Err (Errorf ''invalid json''))\<rparr>"

definition memLumiKeeper :: "LumiParams option LumiKeeper" where
  "memLumiKeeper = \<lparr>lk_addressCodec = memAddressCodec, lk_authority = ''modgov'', lk_Params = memItem\<rparr>"

lemma memItem_laws: "item_laws memItem"
  by (auto simp: item_laws_def memItem_def)

lemma memJson_laws: "json_laws memJson"
proof -
  have "LumiDefaultGenesis = g" for g
    by (cases g; cases "lg_Params g")
      (simp add: LumiDefaultGenesis_def LumiDefaultParams_def LumiNewParams_def)
  then show ?thesis by (simp add: json_laws_def memJson_def)
qed

lemma memLumiKeeper_provided:
  "ProvideModule memSdk id \<lparr>lm_Authority = ''''\<rparr> memItem None memAddressCodec = Ok memLumiKeeper"
  by (simp add: ProvideModule_def Lumi_NewKeeper_def memAddressCodec_def memLumiKeeper_def memSdk_def
      GovModuleName_def)

theorem UpdateParams_by_authority_witness:
  "ItemGet memItem (snd (UpdateParams memLumiKeeper \<lparr>up_Authority = ''lumi1modgov'', up_Params = LumiParams\<rparr> None))
     = Ok LumiParams
   \<and> ItemGet memItem (snd (UpdateParams memLumiKeeper \<lparr>up_Authority = ''lumi1abc'', up_Params = LumiParams\<rparr> None))
     = ItemGet memItem None"
proof -
  have "is_ok (fst (UpdateParams memLumiKeeper \<lparr>up_Authority = ''lumi1modgov'', up_Params = LumiParams\<rparr> None))"
    "\<not> is_ok (fst (UpdateParams memLumiKeeper \<lparr>up_Authority = ''lumi1abc'', up_Params = LumiParams\<rparr> None))"
    by code_simp+
  then show ?thesis
    using UpdateParams_by_authority [OF memLumiKeeper_provided memItem_laws surjective_pairing,
        of "\<lparr>up_Authority = ''lumi1modgov'', up_Params = LumiParams\<rparr>" None]
      UpdateParams_by_authority [OF memLumiKeeper_provided memItem_laws surjective_pairing,
        of "\<lparr>up_Authority = ''lumi1abc'', up_Params = LumiParams\<rparr>" None] by simp
qed

theorem lumi_genesis_roundtrip_witness:
  "snd (Lumi_AppInitGenesis memJson memLumiKeeper ''{}'' None) = None"
proof -
  have "item_laws (lk_Params memLumiKeeper)" by (simp add: memLumiKeeper_def memItem_laws)
  from lumi_genesis_roundtrip [OF this memJson_laws surjective_pairing, of "''{}''" None]
  show ?thesis by (simp add: memJson_def)
qed

theorem Lumi_QueryParams_default_witness:
  "Lumi_QueryParams memLumiKeeper (Some ()) None = Ok \<lparr>lq_Params = LumiDefaultParams\<rparr>"
  using Lumi_QueryParams_default [of memLumiKeeper None] by (simp add: memLumiKeeper_def memItem_def)

end
