(* ===== verification/LumiGateway.thy ===== *)
theory LumiGateway
  imports Gateway LumiKeeper
begin

text \<open>
  The HTTP gateway of the query service of x/lumiwaveprotocol (types/query.pb.gw.go): one route, for
  the parameters. It is written over the same \<open>Runtime\<close> and handlers as the gateway of the token
  factory; both gateways are served by one mux, and no path reaches both.
\<close>

record 'ctx LumiQueryService =
  lsvc_Params :: "'ctx \<Rightarrow> unit \<Rightarrow> LumiQueryParamsResponse res \<times> ServerMetadata"

definition Lumi_request_Query_Params_0 :: "'ctx LumiQueryService \<Rightarrow> 'ctx \<Rightarrow> (string \<rightharpoonup> string) \<Rightarrow>
    LumiQueryParamsResponse res \<times> ServerMetadata" where
  "Lumi_request_Query_Params_0 client c pathParams =
     (let (msg, metadata) = lsvc_Params client c () in (msg, metadata))"

definition Lumi_local_request_Query_Params_0 :: "'ctx LumiQueryService \<Rightarrow> 'ctx \<Rightarrow> (string \<rightharpoonup> string) \<Rightarrow>
    ServerMetadata \<times> LumiQueryParamsResponse res \<times> ServerMetadata" where
  "Lumi_local_request_Query_Params_0 server c pathParams =
     (let (msg, stream) = lsvc_Params server c () in (stream, msg, no_metadata))"

definition Lumi_pattern_Query_Params_0 :: Pattern where
  "Lumi_pattern_Query_Params_0 = \<lparr>pat_ops = [2, 0, 2, 1, 2, 2, 2, 3, 2, 4],
     pat_pool = [''LumiWave'', ''lumiwave-protocol'', ''lumiwaveprotocol'', ''v1'', ''params'']\<rparr>"

definition Lumi_RegisterQueryHandlerServer :: "('req, 'ctx) Runtime \<Rightarrow> 'ctx LumiQueryService \<Rightarrow>
    ('req, LumiQueryParamsResponse) Route list res" where
  "Lumi_RegisterQueryHandlerServer rt server = Ok
     [(''GET'', Lumi_pattern_Query_Params_0, \<lambda>req pathParams.
         serve_local rt req (\<lambda>rctx. Lumi_local_request_Query_Params_0 server rctx pathParams))]"

definition Lumi_RegisterQueryHandlerClient :: "('req, 'ctx) Runtime \<Rightarrow> 'ctx LumiQueryService \<Rightarrow>
    ('req, LumiQueryParamsResponse) Route list res" where
  "Lumi_RegisterQueryHandlerClient rt client = Ok
     [(''GET'', Lumi_pattern_Query_Params_0, \<lambda>req pathParams.
         serve_remote rt req (\<lambda>rctx. Lumi_request_Query_Params_0 client rctx pathParams))]"

definition Lumi_RegisterQueryHandler :: "('req, 'ctx) Runtime \<Rightarrow> ('conn \<Rightarrow> 'ctx LumiQueryService) \<Rightarrow>
    'conn \<Rightarrow> ('req, LumiQueryParamsResponse) Route list res" where
  "Lumi_RegisterQueryHandler rt newQueryClient conn =
     Lumi_RegisterQueryHandlerClient rt (newQueryClient conn)"

definition Lumi_RegisterQueryHandlerFromEndpoint :: "('req, 'ctx) Runtime \<Rightarrow>
    ('conn \<Rightarrow> 'ctx LumiQueryService) \<Rightarrow> (string \<Rightarrow> 'conn res) \<Rightarrow> string \<Rightarrow>
    ('req, LumiQueryParamsResponse) Route list res \<times> 'conn Closing list" where
  "Lumi_RegisterQueryHandlerFromEndpoint rt newQueryClient dial endpoint =
     (case dial endpoint of
        Err e \<Rightarrow> (Err e, [])
      | Panic p \<Rightarrow> (Panic p, [])
      | Ok conn \<Rightarrow>
          (case Lumi_RegisterQueryHandler rt newQueryClient conn of
             Ok routes \<Rightarrow> (Ok routes, [CloseWhenDone conn])
           | Err e \<Rightarrow> (Err e, [CloseNow conn])
           | Panic p \<Rightarrow> (Panic p, [CloseWhenDone conn])))"

section \<open>The gateway in front of the keeper\<close>

text \<open>The query server of the keeper as the gateway sees it: the request is never nil.\<close>

definition lumi_keeper_service :: "'w LumiKeeper \<Rightarrow> 'w LumiQueryService" where
  "lumi_keeper_service k = \<lparr>lsvc_Params = (\<lambda>w _. (Lumi_QueryParams k (Some ()) w, no_metadata))\<rparr>"

lemma Lumi_pattern_match:
  assumes "runtime_laws rt"
  shows "MatchPattern rt Lumi_pattern_Query_Params_0 cs = template_match
    [Lit ''LumiWave'', Lit ''lumiwave-protocol'', Lit ''lumiwaveprotocol'', Lit ''v1'', Lit ''params''] cs"
  using assms by (simp add: runtime_laws_def Lumi_pattern_Query_Params_0_def)

lemma template_match_first:
  "template_match (Lit l # ss) cs = Some m \<Longrightarrow> \<exists>cs'. cs = l # cs'"
  by (cases cs) (auto split: if_splits)

text \<open>No request reaches a route of both modules, so that the order in which the mux tries the routes of
  the two gateways does not matter.\<close>

theorem gateways_disjoint:
  assumes "runtime_laws rt" "RegisterQueryHandlerServer rt server = Ok routes"
    and "Lumi_RegisterQueryHandlerServer rt lserver = Ok lroutes"
    and "matching rt lroutes meth path \<noteq> []"
  shows "matching rt routes meth path = []"
proof -
  define cs where "cs = Split (tl path) CHR ''/''"
  have lr: "lroutes = [(''GET'', Lumi_pattern_Query_Params_0, \<lambda>req pathParams.
      serve_local rt req (\<lambda>rctx. Lumi_local_request_Query_Params_0 lserver rctx pathParams))]"
    using assms(3) by (simp add: Lumi_RegisterQueryHandlerServer_def)
  have "template_match [Lit ''LumiWave'', Lit ''lumiwave-protocol'', Lit ''lumiwaveprotocol'', Lit ''v1'',
      Lit ''params''] cs \<noteq> None"
    using assms(4) unfolding lr matching_def cs_def [symmetric]
    by (auto simp: Lumi_pattern_match [OF assms(1)] split: if_splits option.splits)
  then obtain cs' where cs: "cs = ''LumiWave'' # cs'"
    using template_match_first by blast
  show ?thesis
    using assms(2) unfolding RegisterQueryHandlerServer_def res.inject matching_def cs_def [symmetric] cs
    by (elim subst) (simp add: pattern_match [OF assms(1)])
qed

section \<open>Concrete instances\<close>

theorem gateways_disjoint_witness:
  "matching memRuntime (case RegisterQueryHandlerServer memRuntime (keeper_service memKeeper) of Ok r \<Rightarrow> r)
     ''GET'' ''/LumiWave/lumiwave-protocol/lumiwaveprotocol/v1/params'' = []"
proof -
  have r: "RegisterQueryHandlerServer memRuntime (keeper_service memKeeper)
      = Ok (case RegisterQueryHandlerServer memRuntime (keeper_service memKeeper) of Ok r \<Rightarrow> r)"
    by (simp add: RegisterQueryHandlerServer_def)
  obtain lr where lr: "Lumi_RegisterQueryHandlerServer memRuntime
      \<lparr>lsvc_Params = \<lambda>_ _. (Ok \<lparr>lq_Params = LumiParams\<rparr>, no_metadata)\<rparr> = Ok lr"
    by (simp add: Lumi_RegisterQueryHandlerServer_def)
  have "matching memRuntime lr ''GET'' ''/LumiWave/lumiwave-protocol/lumiwaveprotocol/v1/params'' \<noteq> []"
    using lr by (auto simp: Lumi_RegisterQueryHandlerServer_def matching_def
        Lumi_pattern_match [OF memRuntime_laws])
  from gateways_disjoint [OF memRuntime_laws r lr this] show ?thesis .
qed

end
