(* ===== verification/LumiService.thy ===== *)
theory LumiService
  imports Rpc LumiGateway
begin

text \<open>
  The generated services of x/lumiwaveprotocol (types/query.pb.go, types/tx.pb.go), the registration of
  its message (types/codec.go) and the part of its module that registers them (module/module.go; the
  genesis functions are in \<open>LumiKeeper\<close>, the inflation controller in \<open>Inflation\<close>). Both services have one
  method, so that the type of their requests and answers is that of the method. What is shown: the module
  registers servers over which a call from the network is the call of the keeper.
\<close>

section \<open>The query service\<close>

definition Lumi_queryClient_Params :: "('c, 'x) ClientConn \<Rightarrow> 'c \<Rightarrow> unit \<Rightarrow> LumiQueryParamsResponse res \<times> 'x" where
  "Lumi_queryClient_Params cc c m = call_method cc ''/lumiwaveprotocol.lumiwaveprotocol.v1.Query/Params''
     (LumiQueryParamsRequest_Marshal m)
     (\<lambda>bz. LumiQueryParamsResponse_Unmarshal bz LumiQueryParamsResponse_zero) c"

definition Lumi_NewQueryClient :: "('c, ServerMetadata) ClientConn \<Rightarrow> 'c LumiQueryService" where
  "Lumi_NewQueryClient cc = \<lparr>lsvc_Params = Lumi_queryClient_Params cc\<rparr>"

record 'w LumiQueryServer =
  lqs_Params :: "unit \<Rightarrow> ('w, LumiQueryParamsResponse) act"

definition Lumi_UnimplementedQueryServer :: "'w LumiQueryServer" where
  "Lumi_UnimplementedQueryServer = \<lparr>lqs_Params = (\<lambda>_. unimplemented ''Params'')\<rparr>"

text \<open>A handler never passes a nil request.\<close>

definition Lumi_NewQueryServerImpl :: "'w LumiKeeper \<Rightarrow> 'w LumiQueryServer" where
  "Lumi_NewQueryServerImpl k = \<lparr>lqs_Params = (\<lambda>m. query (Lumi_QueryParams k (Some m)))\<rparr>"

type_synonym 'w LumiQueryDesc =
  "('w LumiQueryServer, unit \<Rightarrow> unit res, 'w, unit, LumiQueryParamsResponse) ServiceDesc"

definition Lumi_Query_Params_Handler :: "'w LumiQueryServer \<Rightarrow> (unit \<Rightarrow> unit res) \<Rightarrow>
    ('w LumiQueryServer, 'w, unit, LumiQueryParamsResponse) Interceptor option \<Rightarrow>
    ('w, LumiQueryParamsResponse) act" where
  "Lumi_Query_Params_Handler srv dec interceptor =
     unary_handler ''/lumiwaveprotocol.lumiwaveprotocol.v1.Query/Params'' (\<lambda>m. m) Some (\<lambda>r. r)
       (lqs_Params srv) (dec LumiQueryParamsRequest_zero) srv interceptor"

definition Lumi_Query_serviceDesc :: "'w LumiQueryDesc" where
  "Lumi_Query_serviceDesc = \<lparr>ServiceName = ''lumiwaveprotocol.lumiwaveprotocol.v1.Query'',
     Methods = [\<lparr>MethodName = ''Params'', Handler = Lumi_Query_Params_Handler\<rparr>],
     FileName = ''lumiwaveprotocol/lumiwaveprotocol/v1/query.proto''\<rparr>"

definition Lumi_RegisterQueryServer :: "('w LumiQueryDesc \<Rightarrow> 'w LumiQueryServer \<Rightarrow> ('s, unit) act) \<Rightarrow>
    'w LumiQueryServer \<Rightarrow> ('s, unit) act" where
  "Lumi_RegisterQueryServer RegisterService srv = RegisterService Lumi_Query_serviceDesc srv"

section \<open>The message service\<close>

definition Lumi_msgClient_UpdateParams :: "('w, 'x) ClientConn \<Rightarrow> MsgUpdateParams \<Rightarrow> 'w \<Rightarrow> unit res \<times> 'x" where
  "Lumi_msgClient_UpdateParams cc m = call_method cc ''/lumiwaveprotocol.lumiwaveprotocol.v1.Msg/UpdateParams''
     (MsgUpdateParams_Marshal m) (\<lambda>bz. MsgUpdateParamsResponse_Unmarshal bz MsgUpdateParamsResponse_zero)"

record 'w LumiMsgServer =
  lms_UpdateParams :: "MsgUpdateParams \<Rightarrow> ('w, unit) act"

definition Lumi_UnimplementedMsgServer :: "'w LumiMsgServer" where
  "Lumi_UnimplementedMsgServer = \<lparr>lms_UpdateParams = (\<lambda>_. unimplemented ''UpdateParams'')\<rparr>"

definition Lumi_NewMsgServerImpl :: "'w LumiKeeper \<Rightarrow> 'w LumiMsgServer" where
  "Lumi_NewMsgServerImpl k = \<lparr>lms_UpdateParams = UpdateParams k\<rparr>"

type_synonym 'w LumiMsgDesc =
  "('w LumiMsgServer, MsgUpdateParams \<Rightarrow> MsgUpdateParams res, 'w, MsgUpdateParams, unit) ServiceDesc"

definition Lumi_Msg_UpdateParams_Handler :: "'w LumiMsgServer \<Rightarrow> (MsgUpdateParams \<Rightarrow> MsgUpdateParams res) \<Rightarrow>
    ('w LumiMsgServer, 'w, MsgUpdateParams, unit) Interceptor option \<Rightarrow> ('w, unit) act" where
  "Lumi_Msg_UpdateParams_Handler srv dec interceptor =
     unary_handler ''/lumiwaveprotocol.lumiwaveprotocol.v1.Msg/UpdateParams'' (\<lambda>m. m) Some (\<lambda>r. r)
       (lms_UpdateParams srv) (dec MsgUpdateParams_zero) srv interceptor"

definition Lumi_Msg_serviceDesc :: "'w LumiMsgDesc" where
  "Lumi_Msg_serviceDesc = \<lparr>ServiceName = ''lumiwaveprotocol.lumiwaveprotocol.v1.Msg'',
     Methods = [\<lparr>MethodName = ''UpdateParams'', Handler = Lumi_Msg_UpdateParams_Handler\<rparr>],
     FileName = ''lumiwaveprotocol/lumiwaveprotocol/v1/tx.proto''\<rparr>"

definition Lumi_RegisterMsgServer :: "('w LumiMsgDesc \<Rightarrow> 'w LumiMsgServer \<Rightarrow> ('s, unit) act) \<Rightarrow>
    'w LumiMsgServer \<Rightarrow> ('s, unit) act" where
  "Lumi_RegisterMsgServer RegisterService srv = RegisterService Lumi_Msg_serviceDesc srv"

section \<open>The module\<close>

text \<open>\<open>implementations\<close> and \<open>services\<close> are the two calls of the interface registry.\<close>

definition Lumi_RegisterInterfaces :: "(string list \<Rightarrow> ('i, unit) act) \<Rightarrow> ('w LumiMsgDesc \<Rightarrow> ('i, unit) act) \<Rightarrow>
    ('i, unit) act" where
  "Lumi_RegisterInterfaces implementations services =
     bindA (implementations [''MsgUpdateParams'']) (\<lambda>_. services Lumi_Msg_serviceDesc)"

record ('w, 'auth, 'bank, 'mint) LumiAppModule =
  la_cdc :: "LumiGenesisState JSONCodec"
  la_keeper :: "'w LumiKeeper"
  la_authKeeper :: 'auth
  la_bankKeeper :: 'bank
  la_mintKeeper :: 'mint

definition Lumi_NewAppModule :: "LumiGenesisState JSONCodec \<Rightarrow> 'w LumiKeeper \<Rightarrow> 'auth \<Rightarrow> 'bank \<Rightarrow>
    'mint \<Rightarrow> ('w, 'auth, 'bank, 'mint) LumiAppModule" where
  "Lumi_NewAppModule cdc k ak bk mk = \<lparr>la_cdc = cdc, la_keeper = k, la_authKeeper = ak, la_bankKeeper = bk,
     la_mintKeeper = mk\<rparr>"

definition Lumi_AppModule_Name :: string where "Lumi_AppModule_Name = LumiModuleName"
definition Lumi_ConsensusVersion :: u64 where "Lumi_ConsensusVersion = 1"

text \<open>An error of the registration of the routes stops the node.\<close>

definition Lumi_RegisterGRPCGatewayRoutes :: "('req, 'ctx) Runtime \<Rightarrow> ('conn \<Rightarrow> 'ctx LumiQueryService) \<Rightarrow> 'conn \<Rightarrow>
    ('req, LumiQueryParamsResponse) Route list \<Rightarrow> ('req, LumiQueryParamsResponse) Route list res" where
  "Lumi_RegisterGRPCGatewayRoutes R newClient clientCtx mux =
     bindR (or_panic '''' (Lumi_RegisterQueryHandlerClient R (newClient clientCtx))) (\<lambda>routes. Ok (mux @ routes))"

definition Lumi_RegisterServices :: "('w LumiMsgDesc \<Rightarrow> 'w LumiMsgServer \<Rightarrow> ('s, unit) act) \<Rightarrow>
    ('w LumiQueryDesc \<Rightarrow> 'w LumiQueryServer \<Rightarrow> ('s, unit) act) \<Rightarrow> ('w, 'auth, 'bank, 'mint) LumiAppModule \<Rightarrow> ('s, unit) act" where
  "Lumi_RegisterServices registerMsg registerQuery am =
     bindA (Lumi_RegisterMsgServer registerMsg (Lumi_NewMsgServerImpl (la_keeper am))) (\<lambda>_.
     bindA (Lumi_RegisterQueryServer registerQuery (Lumi_NewQueryServerImpl (la_keeper am))) (\<lambda>_.
     ret ()))"

definition Lumi_AppDefaultGenesis :: "('w, 'auth, 'bank, 'mint) LumiAppModule \<Rightarrow> string res" where
  "Lumi_AppDefaultGenesis am = or_panic '''' (MarshalJSON (la_cdc am) LumiDefaultGenesis)"

definition Lumi_EndBlock :: "('w, 'auth, 'bank, 'mint) LumiAppModule \<Rightarrow> ('w, unit) act" where
  "Lumi_EndBlock am = ret ()"

section \<open>Calls over the network\<close>

lemmas lumi_trips =
  lqresp.marshal_enc [folded LumiQueryParamsResponse_Marshal_def] lqresp.unmarshal_enc
  lupdate.marshal_enc [folded MsgUpdateParams_Marshal_def] lupdate.unmarshal_enc

lemma lumi_nullary:
  "LumiQueryParamsRequest_Marshal () = Ok []" "LumiQueryParamsRequest_Unmarshal [] () = Ok ()"
  "MsgUpdateParamsResponse_Marshal () = Ok []" "MsgUpdateParamsResponse_Unmarshal [] () = Ok ()"
  using lqreq.marshal_enc [folded LumiQueryParamsRequest_Marshal_def, of "()"] lqreq.unmarshal_enc [of "()"]
    lupdateresp.marshal_enc [folded MsgUpdateParamsResponse_Marshal_def, of "()"] lupdateresp.unmarshal_enc [of "()"]
  by (simp_all add: LumiQueryParamsRequest_ok_def LumiQueryParamsRequest_enc_def
      MsgUpdateParamsResponse_ok_def MsgUpdateParamsResponse_enc_def)

lemmas rpc_simps = Lumi_Query_serviceDesc_def Lumi_Query_Params_Handler_def Lumi_NewQueryServerImpl_def
  Lumi_Msg_serviceDesc_def Lumi_Msg_UpdateParams_Handler_def Lumi_NewMsgServerImpl_def
  full_method_def unary_handler_def fmapA_def bindA_run

lemma network_lumi_query:
  assumes conn: "serves cc Lumi_Query_serviceDesc (Lumi_NewQueryServerImpl k) LumiQueryParamsRequest_Unmarshal
      LumiQueryParamsResponse_Marshal (\<lambda>_. no_metadata)"
    and run: "Lumi_QueryParams k (Some ()) w = Ok r" and ok: "LumiQueryParamsResponse_ok r"
  shows "lsvc_Params (Lumi_NewQueryClient cc) w () = lsvc_Params (lumi_keeper_service k) w ()"
proof -
  have "Lumi_queryClient_Params cc w () = (Ok r, no_metadata)"
    unfolding Lumi_queryClient_Params_def
    by (rule client_call [OF conn, where name = "''Params''" and H = Lumi_Query_Params_Handler and r = r
        and b = "LumiQueryParamsResponse_enc r"])
      (use run ok in \<open>simp_all add: rpc_simps lumi_trips lumi_nullary\<close>)
  then show ?thesis using run by (simp add: Lumi_NewQueryClient_def lumi_keeper_service_def)
qed

lemma network_update_params:
  assumes conn: "serves cc Lumi_Msg_serviceDesc (Lumi_NewMsgServerImpl k) MsgUpdateParams_Unmarshal
      MsgUpdateParamsResponse_Marshal (\<lambda>w. w)"
    and run: "UpdateParams k m w = (Ok (), w')" and ok: "MsgUpdateParams_ok m"
  shows "Lumi_msgClient_UpdateParams cc m w = (Ok (), w')"
  unfolding Lumi_msgClient_UpdateParams_def
  by (rule client_call [OF conn, where name = "''UpdateParams''" and H = Lumi_Msg_UpdateParams_Handler and r = "()"
      and b = "[]"])
    (use run ok in \<open>simp_all add: rpc_simps lumi_trips lumi_nullary\<close>)

text \<open>The routes of the module are always registered: the node does not stop there.\<close>

lemma lumi_routes_registered:
  "\<exists>routes. Lumi_RegisterGRPCGatewayRoutes R newClient clientCtx mux = Ok (mux @ routes) \<and> length routes = 1"
  by (simp add: Lumi_RegisterGRPCGatewayRoutes_def Lumi_RegisterQueryHandlerClient_def)

end
