(* ===== verification/Upgrades.thy ===== *)
theory Upgrades
  imports TokenGenesis
begin

text \<open>
  The chain upgrades of app/upgrades: the definitions of the three named upgrades, \<open>Setup\<close>, which
  registers a handler for each with the upgrade keeper and sets the store loader of the pending one,
  and its call in app/app.go.

  The upgrade keeper, the module manager and the base app are not part of the repository: they are
  the fields of \<open>Dependencies\<close>, over the state \<open>'a\<close> of the app that is being built and the chain
  context \<open>'w\<close> in which a handler runs later. A field that may be nil is an option. Of
  \<open>StoreUpgrades\<close> the code sets only \<open>Added\<close>; \<open>UpgradeStoreLoader\<close> is the call of that function.
\<close>

section \<open>Interfaces\<close>

type_synonym VersionMap = "string \<rightharpoonup> u64"

record Plan =
  plan_Name :: string
  plan_Height :: int

record StoreUpgrades =
  Added :: "string list"

datatype StoreLoader = UpgradeStoreLoader int StoreUpgrades

type_synonym 'w UpgradeHandler = "Plan \<Rightarrow> VersionMap \<Rightarrow> ('w, VersionMap) act"

record ('a, 'w) UpgradeKeeper =
  SetUpgradeHandler :: "string \<Rightarrow> 'w UpgradeHandler \<Rightarrow> 'a \<Rightarrow> 'a"
  ReadUpgradeInfoFromDisk :: "'a \<Rightarrow> Plan res"
  IsSkipHeight :: "'a \<Rightarrow> int \<Rightarrow> bool"

record ('cfg, 'w) ModuleManager =
  RunMigrations :: "'cfg \<Rightarrow> VersionMap \<Rightarrow> ('w, VersionMap) act"

record 'w TokenFactoryKeeper =
  tfk_CreateModuleAccount :: "('w, unit) act"
  tfk_SetParams :: "Params \<Rightarrow> ('w, unit) act"

type_synonym 'w HasKey = "'w \<Rightarrow> bytes \<Rightarrow> bool"

record ('a, 'cfg, 'w) Dependencies =
  dep_UpgradeKeeper :: "('a, 'w) UpgradeKeeper option"
  dep_ModuleManager :: "('cfg, 'w) ModuleManager option"
  dep_Configurator :: "'cfg option"
  dep_TokenFactoryKeeper :: "'w TokenFactoryKeeper option"
  dep_GetSubspace :: "(string \<Rightarrow> 'w HasKey) option"
  dep_SetStoreLoader :: "(StoreLoader \<Rightarrow> 'a \<Rightarrow> 'a) option"

section \<open>The upgrades\<close>

text \<open>\<open>definition\<close> of setup.go; \<open>None\<close> is a nil function or pointer.\<close>

record 'w upgrade_definition =
  def_name :: string
  def_postMigrate :: "('w, unit) act option"
  def_storeUpgrades :: "StoreUpgrades option"

definition StoreKey :: string where "StoreKey = ModuleName"

definition nameV1UpgradeLumiwaveProtocol :: string where
  "nameV1UpgradeLumiwaveProtocol = ''v1-upgrade-lumiwaveprotocol''"
definition nameV009 :: string where "nameV009 = ''v0.0.9''"
definition nameV0010 :: string where "nameV0010 = ''v0.0.10''"

definition v1UpgradeLumiwaveProtocol :: "'w upgrade_definition" where
  "v1UpgradeLumiwaveProtocol = \<lparr>def_name = nameV1UpgradeLumiwaveProtocol, def_postMigrate = None,
     def_storeUpgrades = None\<rparr>"

definition v009 :: "'w upgrade_definition" where
  "v009 = \<lparr>def_name = nameV009, def_postMigrate = None, def_storeUpgrades = None\<rparr>"

definition v0010 :: "Sdk \<Rightarrow> ('a, 'cfg, 'w) Dependencies \<Rightarrow> 'w upgrade_definition" where
  "v0010 S deps = \<lparr>def_name = nameV0010,
     def_postMigrate = Some (
       bindA (tfk_CreateModuleAccount (the (dep_TokenFactoryKeeper deps))) (\<lambda>_.
       let subspace = the (dep_GetSubspace deps) ModuleName in
       bindA (gets (\<lambda>w. \<not> subspace w KeyDenomCreationFee \<or> \<not> subspace w KeyDenomCreationGasConsume)) (\<lambda>missing.
       if missing then
         bindA (lift (DefaultParams S)) (tfk_SetParams (the (dep_TokenFactoryKeeper deps)))
       else ret ()))),
     def_storeUpgrades = Some \<lparr>Added = [StoreKey]\<rparr>\<rparr>"

section \<open>Setup\<close>

definition Dependencies_validate :: "('a, 'cfg, 'w) Dependencies \<Rightarrow> error option" where
  "Dependencies_validate deps =
     (if dep_UpgradeKeeper deps = None then Some (Errorf ''upgrades: UpgradeKeeper is nil'')
      else if dep_ModuleManager deps = None then Some (Errorf ''upgrades: ModuleManager is nil'')
      else if dep_Configurator deps = None then Some (Errorf ''upgrades: Configurator is nil'')
      else if dep_TokenFactoryKeeper deps = None then Some (Errorf ''upgrades: TokenFactoryKeeper is nil'')
      else if dep_GetSubspace deps = None then Some (Errorf ''upgrades: GetSubspace is nil'')
      else if dep_SetStoreLoader deps = None then Some (Errorf ''upgrades: SetStoreLoader is nil'')
      else None)"

definition upgrade_handler :: "('a, 'cfg, 'w) Dependencies \<Rightarrow> 'w upgrade_definition \<Rightarrow>
    'w UpgradeHandler" where
  "upgrade_handler deps def = (\<lambda>_ fromVM.
     bindA (RunMigrations (the (dep_ModuleManager deps)) (the (dep_Configurator deps)) fromVM) (\<lambda>newVM.
     case def_postMigrate def of
       None \<Rightarrow> ret newVM
     | Some postMigrate \<Rightarrow> bindA postMigrate (\<lambda>_. ret newVM)))"

fun register_handlers :: "('a, 'cfg, 'w) Dependencies \<Rightarrow> 'w upgrade_definition list \<Rightarrow> 'a \<Rightarrow> 'a" where
  "register_handlers deps [] a = a"
| "register_handlers deps (def # defs) a = register_handlers deps defs
     (SetUpgradeHandler (the (dep_UpgradeKeeper deps)) (def_name def) (upgrade_handler deps def) a)"

fun set_store_loader :: "('a, 'cfg, 'w) Dependencies \<Rightarrow> Plan \<Rightarrow> 'w upgrade_definition list \<Rightarrow> 'a \<Rightarrow> 'a" where
  "set_store_loader deps upgradeInfo [] a = a"
| "set_store_loader deps upgradeInfo (def # defs) a =
     (if plan_Name upgradeInfo \<noteq> def_name def then set_store_loader deps upgradeInfo defs a
      else if IsSkipHeight (the (dep_UpgradeKeeper deps)) a (plan_Height upgradeInfo) then a
      else the (dep_SetStoreLoader deps) (UpgradeStoreLoader (plan_Height upgradeInfo)
             (case def_storeUpgrades def of None \<Rightarrow> \<lparr>Added = []\<rparr> | Some u \<Rightarrow> u)) a)"

definition Setup :: "Sdk \<Rightarrow> ('a, 'cfg, 'w) Dependencies \<Rightarrow> ('a, unit) act" where
  "Setup S deps a =
     (case Dependencies_validate deps of
        Some e \<Rightarrow> (Err e, a)
      | None \<Rightarrow>
          (let definitions = [v1UpgradeLumiwaveProtocol, v009, v0010 S deps];
               a = register_handlers deps definitions a
           in case ReadUpgradeInfoFromDisk (the (dep_UpgradeKeeper deps)) a of
                Err e \<Rightarrow> (Err e, a)
              | Panic p \<Rightarrow> (Panic p, a)
              | Ok upgradeInfo \<Rightarrow> (Ok (), set_store_loader deps upgradeInfo definitions a)))"

text \<open>
  The call in app.go: the keepers of the app are never nil interfaces there; an error of \<open>Setup\<close>
  is a panic of the app's constructor.
\<close>

definition setupUpgradeHandlers :: "'w Keeper \<Rightarrow> ('a, 'w) UpgradeKeeper \<Rightarrow> ('cfg, 'w) ModuleManager \<Rightarrow>
    'cfg \<Rightarrow> (string \<Rightarrow> 'w ParamSubspace) \<Rightarrow> (StoreLoader \<Rightarrow> 'a \<Rightarrow> 'a) \<Rightarrow> ('a, unit) act" where
  "setupUpgradeHandlers tokenFactoryKeeper uk mm cfg getSubspace setStoreLoader =
     must '''' (Setup (sdk tokenFactoryKeeper)
       \<lparr>dep_UpgradeKeeper = Some uk, dep_ModuleManager = Some mm, dep_Configurator = Some cfg,
        dep_TokenFactoryKeeper = Some \<lparr>tfk_CreateModuleAccount = CreateModuleAccount tokenFactoryKeeper,
          tfk_SetParams = SetParams tokenFactoryKeeper\<rparr>,
        dep_GetSubspace = Some (\<lambda>moduleName. SubspaceHas (getSubspace moduleName)),
        dep_SetStoreLoader = Some setStoreLoader\<rparr>)"

section \<open>Documented behaviour\<close>

text \<open>
  The upgrade keeper keeps the handlers by name, the base app the store loader that was set last;
  neither has an effect on the plan on disk or on the heights to skip. A key is in a subspace when
  it has a value; the account keeper does not touch the parameters.
\<close>

definition upgrade_laws :: "('a, 'w) UpgradeKeeper \<Rightarrow> (StoreLoader \<Rightarrow> 'a \<Rightarrow> 'a) \<Rightarrow>
    ('a \<Rightarrow> string \<rightharpoonup> 'w UpgradeHandler) \<Rightarrow> ('a \<Rightarrow> StoreLoader option) \<Rightarrow> bool" where
  "upgrade_laws uk setLoader handlers loader \<longleftrightarrow>
     (\<forall>n h a. handlers (SetUpgradeHandler uk n h a) = (handlers a)(n \<mapsto> h)
        \<and> loader (SetUpgradeHandler uk n h a) = loader a
        \<and> ReadUpgradeInfoFromDisk uk (SetUpgradeHandler uk n h a) = ReadUpgradeInfoFromDisk uk a
        \<and> IsSkipHeight uk (SetUpgradeHandler uk n h a) = IsSkipHeight uk a)
     \<and> (\<forall>l a. handlers (setLoader l a) = handlers a \<and> loader (setLoader l a) = Some l)"

definition subspace_laws :: "'w Keeper \<Rightarrow> bool" where
  "subspace_laws k \<longleftrightarrow>
     (\<forall>w key. SubspaceHas (paramSpace k) w key \<longleftrightarrow> SubspaceGetIfExists (paramSpace k) w key \<noteq> None)
     \<and> (\<forall>n. preserves (SubspaceGetIfExists (paramSpace k)) (GetModuleAccount (accountKeeper k) n))"

section \<open>Properties\<close>

text \<open>C35. \<open>Setup\<close> with all dependencies leaves the handlers of exactly the three upgrades, next to the ones
  there were, and a store loader exactly when the plan on disk is one of the three and its height is not
  skipped: at that height, and adding the store of the token factory for v0.0.10 only.\<close>

theorem Setup_effect:
  assumes "upgrade_laws uk setLoader handlers loader" "Dependencies_validate deps = None"
    and "dep_UpgradeKeeper deps = Some uk" "dep_SetStoreLoader deps = Some setLoader"
    and "ReadUpgradeInfoFromDisk uk a = Ok info"
  shows "\<exists>a'. Setup S deps a = (Ok (), a')
    \<and> handlers a' = (handlers a)(''v1-upgrade-lumiwaveprotocol'' \<mapsto> upgrade_handler deps v1UpgradeLumiwaveProtocol,
        ''v0.0.9'' \<mapsto> upgrade_handler deps v009, ''v0.0.10'' \<mapsto> upgrade_handler deps (v0010 S deps))
    \<and> loader a' = (if plan_Name info \<in> {''v1-upgrade-lumiwaveprotocol'', ''v0.0.9'', ''v0.0.10''}
          \<and> \<not> IsSkipHeight uk a (plan_Height info)
        then Some (UpgradeStoreLoader (plan_Height info)
          \<lparr>Added = (if plan_Name info = ''v0.0.10'' then [''tokenfactory''] else [])\<rparr>)
        else loader a)"
proof -
  have reg: "handlers (SetUpgradeHandler uk n h a) = (handlers a)(n \<mapsto> h)"
    "loader (SetUpgradeHandler uk n h a) = loader a"
    "ReadUpgradeInfoFromDisk uk (SetUpgradeHandler uk n h a) = ReadUpgradeInfoFromDisk uk a"
    "IsSkipHeight uk (SetUpgradeHandler uk n h a) = IsSkipHeight uk a"
    "handlers (setLoader l a) = handlers a" "loader (setLoader l a) = Some l" for n h l a
    using assms(1) by (simp_all add: upgrade_laws_def)
  have names: "def_name v1UpgradeLumiwaveProtocol = ''v1-upgrade-lumiwaveprotocol''" "def_name v009 = ''v0.0.9''"
    "def_name (v0010 S deps) = ''v0.0.10''" "def_storeUpgrades v1UpgradeLumiwaveProtocol = None"
    "def_storeUpgrades v009 = None" "def_storeUpgrades (v0010 S deps) = Some \<lparr>Added = [''tokenfactory'']\<rparr>"
    by (simp_all add: v1UpgradeLumiwaveProtocol_def v009_def v0010_def nameV1UpgradeLumiwaveProtocol_def
        nameV009_def nameV0010_def StoreKey_def ModuleName_def)
  show ?thesis
    using assms(2-5) by (simp add: Setup_def Let_def reg names)
qed

text \<open>A successful v0.0.10 upgrade of the app leaves the stores as the migrations did, and the parameters
  of the token factory can be read after it: the ones there were when both keys were set, and the default ones
  when one was missing. Both keys are set after it, so that running it again changes no parameter.\<close>

theorem v0010_upgrade_params:
  assumes "env_ok k" "subspace_laws k"
    and "dep_ModuleManager deps = Some mm" "dep_Configurator deps = Some cfg"
    and "dep_TokenFactoryKeeper deps = Some \<lparr>tfk_CreateModuleAccount = CreateModuleAccount k, tfk_SetParams = SetParams k\<rparr>"
    and "dep_GetSubspace deps = Some (\<lambda>_. SubspaceHas (paramSpace k))"
    and "RunMigrations mm cfg fromVM w = (Ok vm, w1)" "CreateModuleAccount k w1 = (Ok (), w2)"
  shows "\<exists>w'. upgrade_handler deps (v0010 (sdk k) deps) plan fromVM w = (Ok vm, w')
    \<and> kv (ctx k) w' = kv (ctx k) w1
    \<and> GetParams k w' = (if SubspaceHas (paramSpace k) w1 KeyDenomCreationFee
          \<and> SubspaceHas (paramSpace k) w1 KeyDenomCreationGasConsume
        then GetParams k w1 else DefaultParams (sdk k))
    \<and> SubspaceHas (paramSpace k) w' KeyDenomCreationFee
    \<and> SubspaceHas (paramSpace k) w' KeyDenomCreationGasConsume"
proof -
  note laws = env_okD [OF assms(1)]
  have has: "SubspaceHas (paramSpace k) w key \<longleftrightarrow> SubspaceGetIfExists (paramSpace k) w key \<noteq> None" for w key
    using assms(2) by (simp add: subspace_laws_def)
  have "preserves (SubspaceGetIfExists (paramSpace k)) (CreateModuleAccount k)"
    "preserves (kv (ctx k)) (CreateModuleAccount k)"
    using assms(2) env_preserves(3) [OF assms(1)]
    by (auto simp: CreateModuleAccount_def subspace_laws_def intro!: preserves_bindA)
  from this [THEN preservesD, OF assms(8)]
  have w2: "SubspaceGetIfExists (paramSpace k) w2 = SubspaceGetIfExists (paramSpace k) w1"
    "kv (ctx k) w2 = kv (ctx k) w1" by simp_all
  note run = upgrade_handler_def v0010_def assms(3-8) Let_def bindA_def has w2(1)
  show ?thesis
  proof (cases "SubspaceHas (paramSpace k) w1 KeyDenomCreationFee \<and> SubspaceHas (paramSpace k) w1 KeyDenomCreationGasConsume")
    case True
    then have "upgrade_handler deps (v0010 (sdk k) deps) plan fromVM w = (Ok vm, w2)"
      by (auto simp add: run)
    with True w2 GetParams_cong [OF w2(1)] show ?thesis by (simp add: has)
  next
    case False
    obtain d where d: "DefaultParams (sdk k) = Ok d" "Params_Validate (sdk k) d = None" "DenomCreationFee d = Some []"
      using sdk_empty_coins [OF laws(1)] by (simp add: DefaultParams_def Params_Validate_def)
    obtain w' where w': "SetParams k d w2 = (Ok (), w')" "kv (ctx k) w' = kv (ctx k) w2"
      "SubspaceGetIfExists (paramSpace k) w' KeyDenomCreationFee = Some (PVCoins (Some (slice (DenomCreationFee d))))"
      "SubspaceGetIfExists (paramSpace k) w' KeyDenomCreationGasConsume = Some (PVUint64 (DenomCreationGasConsume d))"
      by (rule SetParams_run [OF assms(1) d(2)])
    have "upgrade_handler deps (v0010 (sdk k) deps) plan fromVM w = (Ok vm, w')"
      using False w'(1) d(1) by (auto simp add: run)
    moreover have "GetParams k w' = DefaultParams (sdk k)"
      using d by (cases d) (simp add: GetParams_def w'(3,4))
    ultimately show ?thesis using False w'(2-4) w2(2) by (auto simp: has)
  qed
qed

text \<open>A missing dependency is reported, the first in the order of the checks, before anything is registered.\<close>

lemma Setup_missing_dependency:
  "Dependencies_validate deps = Some e \<Longrightarrow> Setup S deps a = (Err e, a)"
  by (simp add: Setup_def)

section \<open>Concrete instances\<close>

text \<open>An app under construction: its handlers, its store loader and the plan on its disk.\<close>

record MemApp =
  app_handlers :: "string \<rightharpoonup> Mem UpgradeHandler"
  app_loader :: "StoreLoader option"
  app_plan :: Plan

definition memUpgradeKeeper :: "(MemApp, Mem) UpgradeKeeper" where
  "memUpgradeKeeper = \<lparr>SetUpgradeHandler = (\<lambda>n h a. a\<lparr>app_handlers := (app_handlers a)(n \<mapsto> h)\<rparr>),
     ReadUpgradeInfoFromDisk = (\<lambda>a. Ok (app_plan a)), IsSkipHeight = (\<lambda>a h. h = 7)\<rparr>"

definition memDeps :: "(MemApp, unit, Mem) Dependencies" where
  "memDeps = \<lparr>dep_UpgradeKeeper = Some memUpgradeKeeper,
     dep_ModuleManager = Some \<lparr>RunMigrations = \<lambda>_ vm. ret vm\<rparr>, dep_Configurator = Some (),
     dep_TokenFactoryKeeper = Some \<lparr>tfk_CreateModuleAccount = CreateModuleAccount memKeeper, tfk_SetParams = SetParams memKeeper\<rparr>,
     dep_GetSubspace = Some (\<lambda>_. SubspaceHas (paramSpace memKeeper)),
     dep_SetStoreLoader = Some (\<lambda>l a. a\<lparr>app_loader := Some l\<rparr>)\<rparr>"

theorem Setup_effect_witness:
  "\<exists>a'. Setup memSdk memDeps \<lparr>app_handlers = Map.empty, app_loader = None,
      app_plan = \<lparr>plan_Name = ''v0.0.10'', plan_Height = 100\<rparr>\<rparr> = (Ok (), a')
    \<and> dom (app_handlers a') = {''v1-upgrade-lumiwaveprotocol'', ''v0.0.9'', ''v0.0.10''}
    \<and> app_loader a' = Some (UpgradeStoreLoader 100 \<lparr>Added = [''tokenfactory'']\<rparr>)"
proof -
  let ?a = "\<lparr>app_handlers = Map.empty, app_loader = None, app_plan = \<lparr>plan_Name = ''v0.0.10'', plan_Height = 100\<rparr>\<rparr>"
  have laws: "upgrade_laws memUpgradeKeeper (\<lambda>l a. a\<lparr>app_loader := Some l\<rparr>) app_handlers app_loader"
    by (simp add: upgrade_laws_def memUpgradeKeeper_def)
  have deps: "Dependencies_validate memDeps = None" "dep_UpgradeKeeper memDeps = Some memUpgradeKeeper"
    "dep_SetStoreLoader memDeps = Some (\<lambda>l a. a\<lparr>app_loader := Some l\<rparr>)"
    by (simp_all add: Dependencies_validate_def memDeps_def)
  have info: "ReadUpgradeInfoFromDisk memUpgradeKeeper ?a = Ok \<lparr>plan_Name = ''v0.0.10'', plan_Height = 100\<rparr>"
    "\<not> IsSkipHeight memUpgradeKeeper ?a 100"
    by (simp_all add: memUpgradeKeeper_def)
  from Setup_effect [OF laws deps info(1), of memSdk] info(2) show ?thesis by (auto simp: dom_def)
qed

theorem v0010_upgrade_params_witness:
  "\<exists>w'. upgrade_handler memDeps (v0010 (sdk memKeeper) memDeps) \<lparr>plan_Name = ''v0.0.10'', plan_Height = 100\<rparr>
      Map.empty mem0 = (Ok Map.empty, w')
    \<and> kv (ctx memKeeper) w' = Map.empty \<and> SubspaceHas (paramSpace memKeeper) w' KeyDenomCreationFee"
proof -
  have sub: "subspace_laws memKeeper"
    by (simp add: subspace_laws_def memParams_def memAccounts_def preserves_def bindA_def)
  have deps: "dep_ModuleManager memDeps = Some \<lparr>RunMigrations = \<lambda>_ vm. ret vm\<rparr>" "dep_Configurator memDeps = Some ()"
    "dep_TokenFactoryKeeper memDeps = Some \<lparr>tfk_CreateModuleAccount = CreateModuleAccount memKeeper, tfk_SetParams = SetParams memKeeper\<rparr>"
    "dep_GetSubspace memDeps = Some (\<lambda>_. SubspaceHas (paramSpace memKeeper))"
    by (simp_all add: memDeps_def)
  have mig: "RunMigrations \<lparr>RunMigrations = \<lambda>_ vm. ret vm\<rparr> () Map.empty mem0 = (Ok Map.empty, mem0)" by simp
  from v0010_upgrade_params [OF mem_env_ok sub deps mig mem0_module_account] mem0_empty
  show ?thesis by (metis (no_types, lifting))
qed

end
