(* ===== verification/Inflation.thy ===== *)
theory Inflation
  imports GoLib
begin

text \<open>
  The inflation controller of x/lumiwaveprotocol (module/module.go): the yearly schedule, the year of
  a block height, and the \<open>BeginBlock\<close> that writes the year's maximum into the mint module's
  parameters before the mint module runs.

  A \<open>math.LegacyDec\<close> is its mantissa, the number of \<open>10\<^sup>-\<^sup>1\<^sup>8\<close> it is; its operations are those of
  \<open>cosmossdk.io/math\<close>, given as \<open>DecLib\<close>. The mint module's two items are given as \<open>MintKeeper\<close>.
  The lemmas show which heights belong to a year, that the maximum never rises, that the controller
  leaves the minter's inflation below the maximum, and up to which year it works: the 64-bit
  denominator of the halving is zero from year 133 on, and the division panics.
\<close>

section \<open>Decimals\<close>

type_synonym dec = int

record DecLib =
  LegacyMustNewDecFromStr :: "string \<Rightarrow> dec res"
  LegacyNewDec :: "int \<Rightarrow> dec"
  DecQuo :: "dec \<Rightarrow> dec \<Rightarrow> dec res"
  DecString :: "dec \<Rightarrow> string"

text \<open>
  The documented behaviour: a text is read exactly, a whole number has 18 zeros, and the quotient is
  the nearest decimal, up to the 18 further digits that are computed before it is rounded. Dividing by
  zero panics.
\<close>

definition one_dec :: int where "one_dec = 10 ^ 18"

definition dec_laws :: "DecLib \<Rightarrow> bool" where
  "dec_laws D \<longleftrightarrow>
     LegacyMustNewDecFromStr D ''0.3441'' = Ok 344100000000000000 \<and>
     LegacyMustNewDecFromStr D ''0.2560'' = Ok 256000000000000000 \<and>
     LegacyMustNewDecFromStr D ''0.1038'' = Ok 103800000000000000 \<and>
     LegacyMustNewDecFromStr D ''0.0940'' = Ok 94000000000000000 \<and>
     LegacyMustNewDecFromStr D ''0.0461'' = Ok 46100000000000000 \<and>
     LegacyMustNewDecFromStr D ''0.0441'' = Ok 44100000000000000 \<and>
     (\<forall>n. LegacyNewDec D n = n * one_dec) \<and>
     (\<forall>a. is_panic (DecQuo D a 0)) \<and>
     (\<forall>a b. b \<noteq> 0 \<and> \<bar>a\<bar> < 2 ^ 127 \<longrightarrow> (\<exists>q. DecQuo D a b = Ok q \<and>
        2 * one_dec * \<bar>q * b - a * one_dec\<bar> \<le> \<bar>b\<bar> * (one_dec + 2)))"

section \<open>The schedule\<close>

definition InflationSchedule :: "int \<Rightarrow> string option" where
  "InflationSchedule = [1 \<mapsto> ''0.3441'', 2 \<mapsto> ''0.2560'', 3 \<mapsto> ''0.1038'', 4 \<mapsto> ''0.0940'',
     5 \<mapsto> ''0.0461'', 6 \<mapsto> ''0.0441'']"

definition calculateYearFromHeight :: "int \<Rightarrow> int \<Rightarrow> int" where
  "calculateYearFromHeight currentHeight blocksPerYear =
     (if currentHeight \<le> 0 \<or> blocksPerYear \<le> 0 then 1
      else (currentHeight - 1) div blocksPerYear + 1)"

text \<open>The loop \<open>denominator *= 2\<close>, on \<open>int64\<close>.\<close>

fun double_loop :: "nat \<Rightarrow> int \<Rightarrow> int" where
  "double_loop 0 denominator = denominator"
| "double_loop (Suc n) denominator = double_loop n (wrap64 (denominator * 2))"

definition inflationMaxForYear :: "DecLib \<Rightarrow> int \<Rightarrow> dec res" where
  "inflationMaxForYear D year =
     (case InflationSchedule year of
        Some maxRateStr \<Rightarrow> LegacyMustNewDecFromStr D maxRateStr
      | None \<Rightarrow>
          if 6 < year then
            bindR (LegacyMustNewDecFromStr D (case InflationSchedule 6 of Some s \<Rightarrow> s | None \<Rightarrow> ''''))
              (\<lambda>baseRate.
                let halfLifeCycles = (year - 5) div 2;
                    denominator = double_loop (nat halfLifeCycles) 1
                in DecQuo D baseRate (LegacyNewDec D denominator))
          else Ok 0)"

definition calculateYearAndTargetInflation :: "DecLib \<Rightarrow> int \<Rightarrow> u64 \<Rightarrow> (int \<times> dec) res" where
  "calculateYearAndTargetInflation D currentHeight blocksPerYear =
     (if blocksPerYear = 0 then Err (Errorf ''blocks_per_year is zero'')
      else let year = calculateYearFromHeight currentHeight (sint blocksPerYear) in
        bindR (inflationMaxForYear D year) (\<lambda>target. Ok (year, target)))"

section \<open>The controller\<close>

record MintParams =
  mp_MintDenom :: string
  mp_InflationRateChange :: dec
  mp_InflationMax :: dec
  mp_InflationMin :: dec
  mp_GoalBonded :: dec
  mp_BlocksPerYear :: u64

record Minter =
  mi_Inflation :: dec
  mi_AnnualProvisions :: dec

record 'w MintKeeper =
  MintParamsGet :: "'w \<Rightarrow> MintParams res"
  MintParamsSet :: "MintParams \<Rightarrow> ('w, unit) act"
  MinterGet :: "'w \<Rightarrow> Minter res"
  MinterSet :: "Minter \<Rightarrow> ('w, unit) act"

definition BeginBlock :: "DecLib \<Rightarrow> 'w MintKeeper \<Rightarrow> int \<Rightarrow> ('w, unit) act" where
  "BeginBlock D mk currentHeight =
     bindA (wrap_err (\<lambda>e. Wrap e (''failed to get mint params (height='' @ itoa currentHeight @ '')''))
              (query (MintParamsGet mk))) (\<lambda>params.
     bindA (wrap_err (\<lambda>e. Errorf (''invalid mint params: '' @ ErrorText e
                @ '' (height='' @ itoa currentHeight @ '')''))
              (lift (calculateYearAndTargetInflation D currentHeight (mp_BlocksPerYear params))))
       (\<lambda>(year, targetMax).
     let place = (\<lambda>what t. what @ '' (height='' @ itoa currentHeight @ '', year='' @ itoa year @ t @ '')'');
         target = '', target_max='' @ DecString D targetMax
     in if mp_InflationMax params \<noteq> targetMax then
       bindA (wrap_err (\<lambda>e. Wrap e (place ''failed to set mint params'' target))
                (MintParamsSet mk (params\<lparr>mp_InflationMax := targetMax, mp_InflationMin := 0\<rparr>))) (\<lambda>_.
       bindA (wrap_err (\<lambda>e. Wrap e (place ''failed to get mint minter'' ''''))
                (query (MinterGet mk))) (\<lambda>minter.
       if targetMax < mi_Inflation minter then
         wrap_err (\<lambda>e. Wrap e (place ''failed to set mint minter'' target))
           (MinterSet mk (minter\<lparr>mi_Inflation := targetMax\<rparr>))
       else ret ()))
     else ret ()))"

definition EndBlock :: "('w, unit) act" where
  "EndBlock = ret ()"

text \<open>The items of the mint module: what is set is what is read, and the other item stays.\<close>

definition mint_laws :: "'w MintKeeper \<Rightarrow> bool" where
  "mint_laws mk \<longleftrightarrow>
     (\<forall>p w w'. MintParamsSet mk p w = (Ok (), w') \<longrightarrow>
        MintParamsGet mk w' = Ok p \<and> MinterGet mk w' = MinterGet mk w) \<and>
     (\<forall>m w w'. MinterSet mk m w = (Ok (), w') \<longrightarrow>
        MinterGet mk w' = Ok m \<and> MintParamsGet mk w' = MintParamsGet mk w)"

text \<open>The items can be read and written: the store has both and the encoding does not fail.\<close>

definition mint_live :: "'w MintKeeper \<Rightarrow> 'w \<Rightarrow> bool" where
  "mint_live mk w \<longleftrightarrow> is_ok (MintParamsGet mk w) \<and> is_ok (MinterGet mk w) \<and>
     (\<forall>p w. is_ok (fst (MintParamsSet mk p w))) \<and> (\<forall>m w. is_ok (fst (MinterSet mk m w)))"

section \<open>Years\<close>

lemma div_eq_iff_bounds: "0 < b \<Longrightarrow> x div b = k \<longleftrightarrow> k * b \<le> x \<and> x < k * b + (b::int)"
proof
  assume b: "0 < b" and k: "x div b = k"
  have "x = k * b + x mod b" using k div_mult_mod_eq [of x b] by simp
  then show "k * b \<le> x \<and> x < k * b + b"
    using pos_mod_sign [OF b, of x] pos_mod_bound [OF b, of x] by linarith
next
  assume "0 < b" "k * b \<le> x \<and> x < k * b + b"
  then show "x div b = k"
    by (intro int_div_pos_eq [where r = "x - k * b"]) (simp_all add: mult.commute)
qed

lemma year_iff:
  assumes "0 < h" "0 < b"
  shows "calculateYearFromHeight h b = y \<longleftrightarrow> (y - 1) * b < h \<and> h \<le> y * b"
  using assms div_eq_iff_bounds [OF assms(2), of "h - 1" "y - 1"]
  by (auto simp: calculateYearFromHeight_def left_diff_distrib)

lemma year_pos: "1 \<le> calculateYearFromHeight h b"
  by (simp add: calculateYearFromHeight_def pos_imp_zdiv_nonneg_iff)

section \<open>The maximum of a year\<close>

lemma wrap64_cong: "x mod 2 ^ 64 = y mod 2 ^ 64 \<Longrightarrow> wrap64 x = wrap64 y"
  unfolding wrap64_def by (metis mod_add_left_eq)

lemma wrap64_mod: "wrap64 x mod 2 ^ 64 = x mod 2 ^ 64"
  unfolding wrap64_def by (metis add_diff_cancel_right' mod_diff_left_eq)

lemma double_loop_wrap: "double_loop n (wrap64 d) = wrap64 (d * 2 ^ n)"
proof (induction n arbitrary: d)
  case (Suc n)
  have "wrap64 (wrap64 d * 2) = wrap64 (d * 2)"
    by (intro wrap64_cong) (metis mod_mult_left_eq wrap64_mod)
  then show ?case by (simp add: Suc mult.assoc)
qed simp

lemma double_loop_one: "double_loop n 1 = wrap64 (2 ^ n)"
  using double_loop_wrap [of n 1] by simp

lemma double_loop_values:
  "n \<le> 62 \<Longrightarrow> double_loop n 1 = 2 ^ n"
  "double_loop 63 1 = - (2 ^ 63)"
  "64 \<le> n \<Longrightarrow> double_loop n 1 = 0"
proof -
  show "double_loop n 1 = 2 ^ n" if "n \<le> 62"
  proof -
    have "(2::int) ^ n \<le> 2 ^ 62" using that by (rule power_increasing) simp
    moreover have "- (2 ^ 63) \<le> (2::int) ^ n" by (rule order_trans [of _ 0]) simp_all
    ultimately show ?thesis unfolding double_loop_one by (intro wrap64_id) simp_all
  qed
  show "double_loop 63 1 = - (2 ^ 63)"
    unfolding double_loop_one by (simp add: wrap64_overflow)
  show "double_loop n 1 = 0" if "64 \<le> n"
  proof -
    have "(2::int) ^ n = 2 ^ (n - 64) * 2 ^ 64" 
      using that by (simp only: power_add [symmetric] le_add_diff_inverse2)
    then have "wrap64 (2 ^ n) = wrap64 0" by (intro wrap64_cong) (simp del: power_numeral)
    then show ?thesis by (simp add: double_loop_one)
  qed
qed


definition base_rate :: dec where "base_rate = 44100000000000000"

lemma decD:
  assumes "dec_laws D"
  shows "LegacyNewDec D n = n * one_dec" "is_panic (DecQuo D a 0)"
    "b \<noteq> 0 \<Longrightarrow> \<bar>a\<bar> < 2 ^ 127 \<Longrightarrow> \<exists>q. DecQuo D a b = Ok q \<and>
        2 * one_dec * \<bar>q * b - a * one_dec\<bar> \<le> \<bar>b\<bar> * (one_dec + 2)"
    "LegacyMustNewDecFromStr D ''0.0441'' = Ok base_rate"
  using assms by (simp_all add: dec_laws_def base_rate_def)

lemma late_year:
  assumes "dec_laws D" "6 < y"
  shows "inflationMaxForYear D y
    = DecQuo D base_rate (double_loop (nat ((y - 5) div 2)) 1 * one_dec)"
  using assms(2) decD [OF assms(1)] by (simp add: inflationMaxForYear_def InflationSchedule_def Let_def)

lemma early_years:
  assumes "dec_laws D"
  shows "inflationMaxForYear D 1 = Ok 344100000000000000"
    "inflationMaxForYear D 2 = Ok 256000000000000000"
    "inflationMaxForYear D 3 = Ok 103800000000000000"
    "inflationMaxForYear D 4 = Ok 94000000000000000"
    "inflationMaxForYear D 5 = Ok 46100000000000000"
    "inflationMaxForYear D 6 = Ok base_rate"
  using assms by (simp_all add: inflationMaxForYear_def InflationSchedule_def dec_laws_def base_rate_def)

text \<open>Dividing the base rate by a power of two, in units of the divisor.\<close>

lemma halved:
  assumes "dec_laws D" "d \<noteq> 0"
  obtains q where "DecQuo D base_rate (d * one_dec) = Ok q"
    "2 * one_dec * \<bar>q * d - base_rate\<bar> \<le> \<bar>d\<bar> * (one_dec + 2)"
proof -
  have o: "0 < one_dec" by (simp add: one_dec_def)
  obtain q where q: "DecQuo D base_rate (d * one_dec) = Ok q"
    "2 * one_dec * \<bar>q * (d * one_dec) - base_rate * one_dec\<bar> \<le> \<bar>d * one_dec\<bar> * (one_dec + 2)"
    using decD(3) [OF assms(1), of "d * one_dec" base_rate] assms(2) o by (auto simp: base_rate_def)
  have "\<bar>q * (d * one_dec) - base_rate * one_dec\<bar> = \<bar>q * d - base_rate\<bar> * one_dec"
    using o abs_mult [of "q * d - base_rate" one_dec] by (simp add: left_diff_distrib mult.assoc)
  with q(2) o have "one_dec * (2 * one_dec * \<bar>q * d - base_rate\<bar>) \<le> one_dec * (\<bar>d\<bar> * (one_dec + 2))"
    by (simp add: abs_mult mult.commute mult.left_commute)
  with o q(1) show thesis by (intro that) (simp_all add: mult.assoc)
qed

lemma halved_nonneg:
  assumes "2 * one_dec * \<bar>q * d - base_rate\<bar> \<le> \<bar>d\<bar> * (one_dec + 2)" "0 < d"
  shows "0 \<le> q"
proof (rule ccontr)
  assume "\<not> 0 \<le> q"
  then have "q * d \<le> - d" using mult_right_mono [of q "-1" d] assms(2) by simp
  with assms show False by (simp add: one_dec_def base_rate_def)
qed

lemma halved_gap:
  fixes X Y d :: int
  assumes "X + d \<le> Y" "0 < d" "d \<le> 2 ^ 61"
    and "2 * one_dec * \<bar>X - base_rate\<bar> \<le> d * (one_dec + 2)"
    and "2 * one_dec * \<bar>2 * Y - base_rate\<bar> \<le> 2 * d * (one_dec + 2)"
  shows False
proof -
  have "2 * one_dec * (base_rate - X) \<le> d * (one_dec + 2)"
    "2 * one_dec * (2 * Y - base_rate) \<le> 2 * d * (one_dec + 2)"
    using assms(4,5) by (auto simp: one_dec_def abs_if split: if_splits)
  with assms(1-3) show False by (simp add: one_dec_def base_rate_def)
qed

lemma halved_antimono:
  assumes q: "2 * one_dec * \<bar>q * d - base_rate\<bar> \<le> d * (one_dec + 2)"
    and q': "2 * one_dec * \<bar>q' * (2 * d) - base_rate\<bar> \<le> 2 * d * (one_dec + 2)"
    and d: "0 < d" "d \<le> 2 ^ 61"
  shows "q' \<le> q"
proof (rule ccontr)
  assume "\<not> q' \<le> q"
  then have "(q + 1) * d \<le> q' * d" using d(1) by (intro mult_right_mono) simp_all
  then have "q * d + d \<le> q' * d" by (simp add: distrib_right)
  from halved_gap [OF this d q] q' show False by (simp add: mult.left_commute)
qed

definition rate :: "DecLib \<Rightarrow> int \<Rightarrow> dec" where
  "rate D y = (case inflationMaxForYear D y of Ok v \<Rightarrow> v | _ \<Rightarrow> 0)"

lemma rate_late:
  assumes "dec_laws D" "6 \<le> y" "y \<le> 130"
  shows "inflationMaxForYear D y = Ok (rate D y) \<and>
    (6 < y \<longrightarrow> 2 * one_dec * \<bar>rate D y * 2 ^ nat ((y - 5) div 2) - base_rate\<bar>
       \<le> 2 ^ nat ((y - 5) div 2) * (one_dec + 2))"
proof (cases "y = 6")
  case False
  then have y: "6 < y" using assms(2) by simp
  let ?k = "nat ((y - 5) div 2)"
  have "?k \<le> 62" using assms(3) by simp
  then have loop: "double_loop ?k 1 = 2 ^ ?k" by (rule double_loop_values(1))
  obtain q where "DecQuo D base_rate (2 ^ ?k * one_dec) = Ok q"
    "2 * one_dec * \<bar>q * 2 ^ ?k - base_rate\<bar> \<le> \<bar>2 ^ ?k\<bar> * (one_dec + 2)"
    by (rule halved [OF assms(1), of "2 ^ ?k"]) simp_all
  then show ?thesis
    using late_year [OF assms(1) y] loop by (simp add: rate_def)
qed (simp add: rate_def early_years [OF assms(1)])


lemma rate_step:
  assumes D: "dec_laws D" and y: "1 \<le> y" "y < 130"
  shows "rate D (y + 1) \<le> rate D y"
proof (cases "y < 6")
  case True
  with y consider "y = 1" | "y = 2" | "y = 3" | "y = 4" | "y = 5" by linarith
  then show ?thesis
    by cases (simp_all add: rate_def early_years [OF D] base_rate_def)
next
  case False
  let ?k = "\<lambda>y. nat ((y - 5) div 2)"
  note late = rate_late [OF D, of "y + 1"] rate_late [OF D, of y]
  consider "?k (y + 1) = ?k y" "6 < y" | "?k (y + 1) = Suc (?k y)" "6 < y" | "y = 6"
    using False by linarith
  then show ?thesis
  proof cases
    case 1
    then have "inflationMaxForYear D (y + 1) = inflationMaxForYear D y" by (simp add: late_year [OF D])
    then show ?thesis by (simp add: rate_def)
  next
    case 2
    have "?k y \<le> 61" using y 2(1) by linarith
    then have "(2::int) ^ ?k y \<le> 2 ^ 61" by (rule power_increasing) simp
    moreover have "2 * one_dec * \<bar>rate D y * 2 ^ ?k y - base_rate\<bar> \<le> 2 ^ ?k y * (one_dec + 2)"
      using late(2) y 2(2) by simp
    moreover have "2 * one_dec * \<bar>rate D (y + 1) * (2 * 2 ^ ?k y) - base_rate\<bar> \<le> 2 * 2 ^ ?k y * (one_dec + 2)"
      using late(1) y 2 by (simp only: power_Suc)
    ultimately show ?thesis by (intro halved_antimono [of "rate D y" "2 ^ ?k y"]) (assumption | simp only: zero_less_power zero_less_numeral)+
  next
    case 3
    then have "2 * one_dec * \<bar>rate D 7 * 2 - base_rate\<bar> \<le> 2 * (one_dec + 2)"
      using late(1) by simp
    then show ?thesis
      using 3 by (simp add: rate_def early_years [OF D] one_dec_def base_rate_def abs_if split: if_splits)
  qed
qed

lemma rate_nonneg:
  assumes D: "dec_laws D" and y: "1 \<le> y" "y \<le> 130"
  shows "0 \<le> rate D y"
proof (cases "6 < y")
  case True
  then show ?thesis
    using rate_late [OF D, of y] y(2) halved_nonneg [of "rate D y" "2 ^ nat ((y - 5) div 2)"] by simp
next
  case False
  with y consider "y = 1" | "y = 2" | "y = 3" | "y = 4" | "y = 5" | "y = 6" by linarith
  then show ?thesis
    by cases (simp_all add: rate_def early_years [OF D] base_rate_def)
qed

lemma rate_antimono:
  assumes D: "dec_laws D" and "1 \<le> y" "y \<le> y'" "y' \<le> 130"
  shows "rate D y' \<le> rate D y"
  using assms(3,4)
proof (induction y' rule: int_ge_induct)
  case (step i)
  with rate_step [OF D, of i] assms(2) show ?case by simp
qed simp

lemma year_131_132:
  assumes "dec_laws D" "y = 131 \<or> y = 132"
  shows "inflationMaxForYear D y = Ok 0"
proof -
  have k: "nat ((y - 5) div 2) = 63" "6 < y" using assms(2) by auto
  obtain q where q: "DecQuo D base_rate (- (2 ^ 63) * one_dec) = Ok q"
    "2 * one_dec * \<bar>q * - (2 ^ 63) - base_rate\<bar> \<le> \<bar>- (2 ^ 63)\<bar> * (one_dec + 2)"
    by (rule halved [OF assms(1), of "- (2 ^ 63)"]) simp_all
  then have "q = 0" by (simp add: one_dec_def base_rate_def abs_if split: if_splits)
  with q(1) show ?thesis
    using late_year [OF assms(1) k(2)] by (simp add: k(1) double_loop_values(2))
qed

lemma year_133:
  assumes "dec_laws D" "133 \<le> y"
  shows "is_panic (inflationMaxForYear D y)"
proof -
  have "64 \<le> nat ((y - 5) div 2)" using assms(2) by linarith
  then show ?thesis
    using late_year [OF assms(1), of y] decD(2) [OF assms(1)] assms(2)
    by (simp add: double_loop_values(3))
qed

lemma inflationMax_ok_iff:
  assumes "dec_laws D" "1 \<le> y"
  shows "is_ok (inflationMaxForYear D y) \<longleftrightarrow> y \<le> 132"
proof -
  consider "y < 6" | "6 \<le> y" "y \<le> 130" | "y = 131 \<or> y = 132" | "133 \<le> y" by linarith
  then show ?thesis
  proof cases
    case 1
    with assms(2) consider "y = 1" | "y = 2" | "y = 3" | "y = 4" | "y = 5" by linarith
    then show ?thesis by cases (simp_all add: early_years [OF assms(1)])
  next
    case 2
    with rate_late [OF assms(1), of y] show ?thesis by simp
  next
    case 3
    with year_131_132 [OF assms(1), of y] show ?thesis by auto
  next
    case 4
    with year_133 [OF assms(1), of y] show ?thesis by (cases "inflationMaxForYear D y") auto
  qed
qed


section \<open>The controller in a block\<close>

text \<open>The target of a block, from the parameters the mint module has.\<close>

definition block_target :: "DecLib \<Rightarrow> 'w MintKeeper \<Rightarrow> int \<Rightarrow> 'w \<Rightarrow> dec res" where
  "block_target D mk h w = bindR (MintParamsGet mk w) (\<lambda>p.
     bindR (calculateYearAndTargetInflation D h (mp_BlocksPerYear p)) (\<lambda>(_, t). Ok t))"

lemma block_target_Ok:
  "block_target D mk h w = Ok t \<longleftrightarrow> (\<exists>p. MintParamsGet mk w = Ok p \<and> mp_BlocksPerYear p \<noteq> 0 \<and>
     inflationMaxForYear D (calculateYearFromHeight h (sint (mp_BlocksPerYear p))) = Ok t)"
  by (auto simp: block_target_def calculateYearAndTargetInflation_def Let_def split: if_splits)

text \<open>A block that the controller ends without an error.\<close>

lemma BeginBlock_OkE:
  assumes "mint_laws mk" "BeginBlock D mk h w = (Ok u, w')"
  obtains p t where "MintParamsGet mk w = Ok p" "block_target D mk h w = Ok t"
    "mp_InflationMax p = t" "w' = w"
  | p t m where "MintParamsGet mk w = Ok p" "block_target D mk h w = Ok t" "mp_InflationMax p \<noteq> t"
    "MinterGet mk w = Ok m"
    "MintParamsGet mk w' = Ok (p\<lparr>mp_InflationMax := t, mp_InflationMin := 0\<rparr>)"
    "MinterGet mk w' = Ok (m\<lparr>mi_Inflation := min (mi_Inflation m) t\<rparr>)"
proof -
  from assms(2) obtain p y t where p: "MintParamsGet mk w = Ok p"
    and yt: "calculateYearAndTargetInflation D h (mp_BlocksPerYear p) = Ok (y, t)"
    by (auto simp: BeginBlock_def bindA_lift_Ok_iff)
  then have t: "block_target D mk h w = Ok t" by (simp add: block_target_def)
  show thesis
  proof (cases "mp_InflationMax p = t")
    case True
    with assms(2) p yt have "w' = w" by (simp add: BeginBlock_def Let_def)
    with that(1) p t True show thesis by blast
  next
    case False
    let ?p = "p\<lparr>mp_InflationMax := t, mp_InflationMin := 0\<rparr>"
    from assms(2) p yt False obtain w1 m where s: "MintParamsSet mk ?p w = (Ok (), w1)"
      and m: "MinterGet mk w1 = Ok m"
      and r: "if t < mi_Inflation m then MinterSet mk (m\<lparr>mi_Inflation := t\<rparr>) w1 = (Ok (), w') else w' = w1"
      by (auto simp: BeginBlock_def Let_def bindA_Ok_iff split: if_splits)
    have m0: "MinterGet mk w = Ok m" "MintParamsGet mk w1 = Ok ?p"
      using assms(1) s m by (auto simp: mint_laws_def)
    have "m\<lparr>mi_Inflation := mi_Inflation m\<rparr> = m" by simp
    with r assms(1) m m0(2) have "MintParamsGet mk w' = Ok ?p"
      "MinterGet mk w' = Ok (m\<lparr>mi_Inflation := min (mi_Inflation m) t\<rparr>)"
      by (auto simp: mint_laws_def min_def split: if_splits)
    with that(2) p t False m0(1) show thesis by blast
  qed
qed

definition capped :: "'w MintKeeper \<Rightarrow> 'w \<Rightarrow> bool" where
  "capped mk w \<longleftrightarrow> (case (MintParamsGet mk w, MinterGet mk w) of
     (Ok p, Ok m) \<Rightarrow> mi_Inflation m \<le> mp_InflationMax p | _ \<Rightarrow> True)"

section \<open>Properties\<close>

text \<open>C26. A year has exactly the configured number of blocks: year \<open>y\<close> is the heights after
  \<open>(y - 1) * b\<close> up to \<open>y * b\<close>, and \<open>b\<close> blocks later is a year later.\<close>

theorem year_of_height:
  assumes "0 < h" "0 < b"
  shows "(calculateYearFromHeight h b = y \<longleftrightarrow> (y - 1) * b < h \<and> h \<le> y * b)
    \<and> calculateYearFromHeight (h + b) b = calculateYearFromHeight h b + 1"
proof -
  have "(h - 1 + b) div b = (h - 1) div b + 1" by (rule div_add_self2) (use assms(2) in simp)
  then show ?thesis
    using year_iff [OF assms] assms by (simp add: calculateYearFromHeight_def diff_add_eq)
qed

text \<open>The maximum of a year is never above that of a year before it, never negative and at most
  34.41%; from year 131 on it is zero.\<close>

theorem inflation_never_rises:
  assumes "dec_laws D" "1 \<le> y" "y \<le> y'" "y' \<le> 132"
  shows "\<exists>a b. inflationMaxForYear D y = Ok a \<and> inflationMaxForYear D y' = Ok b
    \<and> 0 \<le> b \<and> b \<le> a \<and> a \<le> 344100000000000000 \<and> (131 \<le> y' \<longrightarrow> b = 0)"
proof -
  have r: "inflationMaxForYear D z = Ok (rate D z)" if "1 \<le> z" "z \<le> 132" for z
    using inflationMax_ok_iff [OF assms(1) that(1)] that(2)
    by (cases "inflationMaxForYear D z") (simp_all add: rate_def)
  have zero: "rate D z = 0" if "131 \<le> z" "z \<le> 132" for z
  proof -
    have "z = 131 \<or> z = 132" using that by linarith
    then show ?thesis using year_131_132 [OF assms(1), of z] by (simp add: rate_def)
  qed
  have "0 \<le> rate D y \<and> rate D y \<le> rate D 1" if "y \<le> 130"
    using rate_antimono [OF assms(1), of 1 y] rate_nonneg [OF assms(1), of y] assms(2) that by simp
  moreover have "rate D 1 = 344100000000000000" by (simp add: rate_def early_years [OF assms(1)])
  moreover have "0 \<le> rate D y' \<and> rate D y' \<le> rate D y" if "y' \<le> 130"
    using rate_antimono [OF assms(1,2,3) that] rate_nonneg [OF assms(1) _ that] assms(2,3) by simp
  ultimately show ?thesis
    using r [of y] r [of y'] zero [of y] zero [of y'] assms(2-4)
    by (cases "y' \<le> 130"; cases "y \<le> 130") auto
qed

text \<open>C9. When the controller ends a block without an error, the mint module's maximum is the
  maximum of the block's year. Either it was that already and nothing has changed, or the minimum is
  now zero, the minter's inflation is cut to the maximum, and every other field is what it was.\<close>

theorem BeginBlock_effect:
  assumes "mint_laws mk" "BeginBlock D mk h w = (Ok u, w')" "MintParamsGet mk w = Ok p"
  shows "\<exists>t. inflationMaxForYear D (calculateYearFromHeight h (sint (mp_BlocksPerYear p))) = Ok t
    \<and> (if mp_InflationMax p = t then w' = w
       else MintParamsGet mk w' = Ok (p\<lparr>mp_InflationMax := t, mp_InflationMin := 0\<rparr>)
         \<and> (\<exists>m. MinterGet mk w = Ok m
              \<and> MinterGet mk w' = Ok (m\<lparr>mi_Inflation := min (mi_Inflation m) t\<rparr>)))"
  using assms(1,2)
proof (cases rule: BeginBlock_OkE)
  case (1 p' t)
  then show ?thesis using assms(3) by (auto simp: block_target_Ok)
next
  case (2 p' t m)
  then show ?thesis using assms(3) by (auto simp: block_target_Ok)
qed

text \<open>C10. The cap is an invariant: if the minter's inflation is at most the maximum before the block,
  it is so after it, also when the maximum has just fallen.\<close>

theorem BeginBlock_keeps_cap:
  assumes "mint_laws mk" "capped mk w" "BeginBlock D mk h w = (Ok u, w')"
  shows "capped mk w'"
  using assms(1,3)
proof (cases rule: BeginBlock_OkE)
  case (1 p t)
  then show ?thesis using assms(2) by simp
qed (simp add: capped_def)

text \<open>The controller acts once a year: run again at a height of the same year, it finds nothing to
  do.\<close>

theorem BeginBlock_settled:
  assumes "mint_laws mk" "BeginBlock D mk h w = (Ok u, w')" "MintParamsGet mk w = Ok p"
    and "calculateYearFromHeight h' (sint (mp_BlocksPerYear p))
      = calculateYearFromHeight h (sint (mp_BlocksPerYear p))"
  shows "BeginBlock D mk h' w' = (Ok (), w')"
proof -
  have settled: "BeginBlock D mk h' v = (Ok (), v)"
    if q: "MintParamsGet mk v = Ok q" and t: "block_target D mk h w = Ok (mp_InflationMax q)"
      and b: "mp_BlocksPerYear q = mp_BlocksPerYear p" for v q
  proof -
    have "mp_BlocksPerYear p \<noteq> 0"
      "inflationMaxForYear D (calculateYearFromHeight h' (sint (mp_BlocksPerYear p))) = Ok (mp_InflationMax q)"
      using t assms(3,4) by (auto simp: block_target_Ok)
    with q b show ?thesis
      by (simp add: BeginBlock_def calculateYearAndTargetInflation_def Let_def)
  qed
  from assms(1,2) show ?thesis
  proof (cases rule: BeginBlock_OkE)
    case (1 p' t)
    then show ?thesis using assms(3) by (intro settled [of w' p']) simp_all
  next
    case (2 p' t m)
    then show ?thesis
      using assms(3) by (intro settled [of w' "p'\<lparr>mp_InflationMax := t, mp_InflationMin := 0\<rparr>"]) simp_all
  qed
qed

text \<open>C11. As long as the mint module's items can be read and written, the controller lets the chain go
  on exactly up to year 132: in year 133 the 64-bit denominator of the halving has become zero and every
  block panics.\<close>

theorem BeginBlock_runs_until_year_132:
  assumes "dec_laws D" "mint_laws mk" "mint_live mk w" "MintParamsGet mk w = Ok p" "mp_BlocksPerYear p \<noteq> 0"
  shows "if calculateYearFromHeight h (sint (mp_BlocksPerYear p)) \<le> 132
    then is_ok (fst (BeginBlock D mk h w)) else is_panic (fst (BeginBlock D mk h w))"
proof -
  let ?y = "calculateYearFromHeight h (sint (mp_BlocksPerYear p))"
  have run: "BeginBlock D mk h w = (case inflationMaxForYear D ?y of
      Ok t \<Rightarrow> if mp_InflationMax p = t then (Ok (), w) else BeginBlock D mk h w
    | Err e \<Rightarrow> BeginBlock D mk h w | Panic x \<Rightarrow> (Panic x, w))"
    using assms(4,5)
    by (auto simp: BeginBlock_def calculateYearAndTargetInflation_def Let_def split: res.split)
  have ok: "is_ok (fst (BeginBlock D mk h w))" if t: "inflationMaxForYear D ?y = Ok t" for t
  proof (cases "mp_InflationMax p = t")
    case True
    then show ?thesis using run t by simp
  next
    case False
    let ?p = "p\<lparr>mp_InflationMax := t, mp_InflationMin := 0\<rparr>"
    obtain w1 where s: "MintParamsSet mk ?p w = (Ok (), w1)"
      using assms(3) unfolding mint_live_def by (metis is_ok.elims(2) prod.collapse old.unit.exhaust)
    obtain m where m: "MinterGet mk w1 = Ok m"
      using assms(2,3) s unfolding mint_live_def mint_laws_def by (metis is_ok.elims(2))
    have s': "bindA (wrap_err f (MintParamsSet mk ?p)) g w = g () w1"
      for f and g :: "unit \<Rightarrow> ('a, unit) act" by (rule bindA_run(1)) (simp add: s)
    have "is_ok (fst (MinterSet mk x w1))" for x using assms(3) by (simp add: mint_live_def)
    then show ?thesis
      using t False by (simp add: BeginBlock_def calculateYearAndTargetInflation_def Let_def
          assms(4,5) m s')
  qed
  show ?thesis
  proof (cases "?y \<le> 132")
    case True
    then have "is_ok (inflationMaxForYear D ?y)" using inflationMax_ok_iff [OF assms(1) year_pos] by blast
    then show ?thesis using ok True by (cases "inflationMaxForYear D ?y") simp_all
  next
    case False
    then have "is_panic (inflationMaxForYear D ?y)" using year_133 [OF assms(1)] by simp
    then show ?thesis using run False by (cases "inflationMaxForYear D ?y") simp_all
  qed
qed

section \<open>A concrete mint module\<close>

text \<open>Decimals on integers, rounded to the nearest, and a mint module in memory.\<close>

fun dec_digits :: "nat \<Rightarrow> string \<Rightarrow> int" where
  "dec_digits 0 s = 0"
| "dec_digits (Suc n) [] = 0"
| "dec_digits (Suc n) (c # s) = (of_char c - 48) * 10 ^ n + dec_digits n s"

definition memDec :: DecLib where
  "memDec = \<lparr>
     LegacyMustNewDecFromStr = (\<lambda>s. if HasPrefix s ''0.'' then Ok (dec_digits 18 (drop 2 s))
       else Panic ''failed to set decimal string''),
     LegacyNewDec = (\<lambda>n. n * one_dec),
     DecQuo = (\<lambda>a b. if b = 0 then Panic ''division by zero''
       else Ok ((2 * (a * one_dec * sgn b) + \<bar>b\<bar>) div (2 * \<bar>b\<bar>))),
     DecString = itoa\<rparr>"

lemma nearest:
  assumes "0 < (b::int)" shows "2 * \<bar>(2 * a + b) div (2 * b) * b - a\<bar> \<le> b"
proof -
  let ?q = "(2 * a + b) div (2 * b)"
  have "?q * (2 * b) \<le> 2 * a + b \<and> 2 * a + b < ?q * (2 * b) + 2 * b"
    using div_eq_iff_bounds [of "2 * b" "2 * a + b" ?q] assms by simp
  then show ?thesis by (simp add: abs_if)
qed

lemma memDec_laws: "dec_laws memDec"
proof -
  have quo: "2 * one_dec * \<bar>q * b - a * one_dec\<bar> \<le> \<bar>b\<bar> * (one_dec + 2)"
    if b: "b \<noteq> 0" and q: "q = (2 * (a * one_dec * sgn b) + \<bar>b\<bar>) div (2 * \<bar>b\<bar>)" for a b q :: int
  proof -
    have "2 * \<bar>q * \<bar>b\<bar> - a * one_dec * sgn b\<bar> \<le> \<bar>b\<bar>"
      unfolding q using b by (intro nearest) simp
    moreover have "\<bar>q * \<bar>b\<bar> - a * one_dec * sgn b\<bar> = \<bar>q * b - a * one_dec\<bar>"
      using b by (cases "0 < b") (simp_all add: abs_minus_commute)
    ultimately have "one_dec * (2 * \<bar>q * b - a * one_dec\<bar>) \<le> one_dec * \<bar>b\<bar>"
      by (intro mult_left_mono) (simp_all add: one_dec_def)
    also have "\<dots> \<le> \<bar>b\<bar> * (one_dec + 2)" by (simp add: algebra_simps)
    finally show ?thesis by (simp add: mult.assoc mult.left_commute)
  qed
  show ?thesis
    unfolding dec_laws_def using quo by (auto simp: memDec_def HasPrefix_def numeral_eq_Suc) 
qed

record MemMint =
  mm_params :: MintParams
  mm_minter :: Minter

definition memMint :: "MemMint MintKeeper" where
  "memMint = \<lparr>MintParamsGet = (\<lambda>w. Ok (mm_params w)),
     MintParamsSet = (\<lambda>p. modify (\<lambda>w. w\<lparr>mm_params := p\<rparr>)),
     MinterGet = (\<lambda>w. Ok (mm_minter w)),
     MinterSet = (\<lambda>m. modify (\<lambda>w. w\<lparr>mm_minter := m\<rparr>))\<rparr>"

lemma memMint_laws: "mint_laws memMint" "mint_live memMint w"
  by (simp_all add: mint_laws_def mint_live_def memMint_def)

text \<open>A chain of 100 blocks a year that starts with 20% inflation and a cap of 34.41%.\<close>

definition mint0 :: MemMint where
  "mint0 = \<lparr>mm_params = \<lparr>mp_MintDenom = ''ulumi'', mp_InflationRateChange = 0,
       mp_InflationMax = 344100000000000000, mp_InflationMin = 0, mp_GoalBonded = 0, mp_BlocksPerYear = 100\<rparr>,
     mm_minter = \<lparr>mi_Inflation = 200000000000000000, mi_AnnualProvisions = 0\<rparr>\<rparr>"


lemma mint0_simps [simp]:
  "MintParamsGet memMint w = Ok (mm_params w)" "MinterGet memMint w = Ok (mm_minter w)"
  "sint (mp_BlocksPerYear (mm_params mint0)) = 100"
  by (simp_all add: memMint_def mint0_def)

lemma mint0_year_2:
  "calculateYearFromHeight 101 100 = 2" "calculateYearFromHeight 150 100 = 2"
  "inflationMaxForYear memDec 2 = Ok 256000000000000000"
  by (simp_all add: calculateYearFromHeight_def early_years memDec_laws)

lemma mint0_block_101:
  "BeginBlock memDec memMint 101 mint0 = (Ok (), mint0\<lparr>mm_params := (mm_params mint0)\<lparr>
     mp_InflationMax := 256000000000000000, mp_InflationMin := 0\<rparr>\<rparr>)"
proof -
  have "mp_BlocksPerYear (mm_params mint0) \<noteq> 0" by (simp add: mint0_def)
  then show ?thesis
    by (simp add: BeginBlock_def calculateYearAndTargetInflation_def Let_def mint0_year_2)
      (simp add: memMint_def mint0_def bindA_def wrap_err_def)
qed

theorem year_of_height_witness:
  "calculateYearFromHeight 100 100 = 1 \<and> calculateYearFromHeight 200 100 = 2"
  using year_of_height [of 100 100 1] by simp

theorem inflation_never_rises_witness:
  "\<exists>a b. inflationMaxForYear memDec 6 = Ok a \<and> inflationMaxForYear memDec 9 = Ok b \<and> 0 \<le> b \<and> b \<le> a"
  using inflation_never_rises [OF memDec_laws, of 6 9] by auto

theorem BeginBlock_effect_witness:
  "\<exists>w'. BeginBlock memDec memMint 101 mint0 = (Ok (), w')
   \<and> mp_InflationMax (mm_params w') = 256000000000000000
   \<and> mi_Inflation (mm_minter w') = 200000000000000000"
  using BeginBlock_effect [OF memMint_laws(1) mint0_block_101, of "mm_params mint0"]
  by (simp add: mint0_block_101 mint0_year_2) (simp add: mint0_def)

theorem BeginBlock_keeps_cap_witness:
  "capped memMint (snd (BeginBlock memDec memMint 101 mint0))"
proof -
  have "capped memMint mint0" by (simp add: capped_def) (simp add: mint0_def)
  from BeginBlock_keeps_cap [OF memMint_laws(1) this mint0_block_101] show ?thesis
    by (simp add: mint0_block_101)
qed

theorem BeginBlock_settled_witness:
  "let w' = snd (BeginBlock memDec memMint 101 mint0) in BeginBlock memDec memMint 150 w' = (Ok (), w')"
  using BeginBlock_settled [OF memMint_laws(1) mint0_block_101, of "mm_params mint0" 150]
  by (simp add: mint0_year_2 mint0_block_101)

theorem BeginBlock_runs_until_year_132_witness:
  "is_ok (fst (BeginBlock memDec memMint 13200 mint0)) \<and> is_panic (fst (BeginBlock memDec memMint 13201 mint0))"
proof -
  have b: "mp_BlocksPerYear (mm_params mint0) \<noteq> 0" by (simp add: mint0_def)
  show ?thesis
    using BeginBlock_runs_until_year_132 [OF memDec_laws memMint_laws mint0_simps(1) b, of 13200]
      BeginBlock_runs_until_year_132 [OF memDec_laws memMint_laws mint0_simps(1) b, of 13201]
    by (simp add: calculateYearFromHeight_def)
qed

end
