(* ===== verification/AppConfig.thy ===== *)
theory AppConfig
  imports Upgrades Inflation
begin

text \<open>
  How the app is put together where the repository decides it: the configuration of the modules
  (app/app_config.go) and the functions of app/app.go that read it, the ante handler (app/ante.go,
  \<open>setAnteHandler\<close> of app/wasm.go) and the genesis accounts of simulations (app/genesis_account.go).

  The names of the SDK's modules and accounts are constants of the SDK: they are the constructors of
  \<open>ModName\<close>, and \<open>mod_text\<close>, a parameter, is their text. An object that the code only hands on, such
  as a keeper, is a \<open>ref\<close>; one that may be nil is an option.
\<close>

section \<open>Module accounts\<close>

datatype ModName =
    M_fee_collector | M_distr | M_mint | M_bonded_pool | M_not_bonded_pool | M_gov | M_nft
  | M_ibc_transfer | M_ica | M_tokenfactory | M_wasm | M_lumiwaveprotocol
  | M_upgrade | M_auth | M_slashing | M_evidence | M_staking | M_authz | M_epochs | M_ibc
  | M_feegrant | M_group | M_consensus | M_bank | M_genutil | M_vesting | M_circuit

datatype Permission = Minter | Burner | Staking

definition moduleAccPerms :: "(ModName \<times> Permission list) list" where
  "moduleAccPerms =
     [(M_fee_collector, []),
      (M_distr, []),
      (M_mint, [Minter]),
      (M_bonded_pool, [Burner, Staking]),
      (M_not_bonded_pool, [Burner, Staking]),
      (M_gov, [Burner]),
      (M_nft, []),
      (M_ibc_transfer, [Minter, Burner]),
      (M_ica, []),
      (M_tokenfactory, [Minter, Burner]),
      (M_wasm, [Burner]),
      (M_lumiwaveprotocol, [Minter])]"

definition blockAccAddrs :: "ModName list" where
  "blockAccAddrs =
     [M_fee_collector, M_distr, M_mint, M_bonded_pool, M_not_bonded_pool, M_nft, M_tokenfactory,
      M_lumiwaveprotocol]"

text \<open>A Go map that is filled by a loop over a list.\<close>

fun make_map :: "('a \<Rightarrow> string) \<Rightarrow> ('a \<times> 'b) list \<Rightarrow> (string \<rightharpoonup> 'b) \<Rightarrow> (string \<rightharpoonup> 'b)" where
  "make_map nm [] m = m"
| "make_map nm ((x, v) # xs) m = make_map nm xs (m(nm x \<mapsto> v))"

definition GetMaccPerms :: "(ModName \<Rightarrow> string) \<Rightarrow> string \<rightharpoonup> Permission list" where
  "GetMaccPerms mod_text = make_map mod_text moduleAccPerms Map.empty"

definition BlockedAddresses :: "(ModName \<Rightarrow> string) \<Rightarrow> string \<rightharpoonup> bool" where
  "BlockedAddresses mod_text =
     (if length blockAccAddrs > 0
      then make_map mod_text (map (\<lambda>a. (a, True)) blockAccAddrs) Map.empty
      else map_option (\<lambda>_. True) \<circ> GetMaccPerms mod_text)"

section \<open>The order of the modules\<close>

definition PreBlockers :: "ModName list" where
  "PreBlockers = [M_upgrade, M_auth]"

definition BeginBlockers :: "ModName list" where
  "BeginBlockers =
     [M_lumiwaveprotocol, M_mint, M_distr, M_slashing, M_evidence, M_staking, M_authz, M_epochs,
      M_ibc, M_wasm]"

definition EndBlockers :: "ModName list" where
  "EndBlockers = [M_gov, M_staking, M_feegrant, M_group, M_lumiwaveprotocol, M_wasm]"

definition InitGenesisOrder :: "ModName list" where
  "InitGenesisOrder =
     [M_consensus, M_auth, M_bank, M_distr, M_staking, M_slashing, M_gov, M_mint, M_genutil,
      M_evidence, M_authz, M_feegrant, M_vesting, M_nft, M_group, M_upgrade, M_circuit, M_epochs,
      M_tokenfactory, M_ibc, M_ibc_transfer, M_ica, M_lumiwaveprotocol, M_wasm]"

text \<open>The module manager runs the begin blockers in this order and stops at the first error.\<close>

fun run_blockers :: "(ModName \<Rightarrow> ('w, unit) act) \<Rightarrow> ModName list \<Rightarrow> ('w, unit) act" where
  "run_blockers blocker [] = ret ()"
| "run_blockers blocker (m # ms) = bindA (blocker m) (\<lambda>_. run_blockers blocker ms)"

section \<open>The ante handler\<close>

type_synonym ref = string

datatype AnteDecorator =
    SetUpContextDecorator
  | LimitSimulationGasDecorator "u64 option"
  | CountTXDecorator ref
  | GasRegisterDecorator ref
  | TxContractsDecorator
  | CircuitBreakerDecorator ref
  | ExtensionOptionsDecorator "ref option"
  | ValidateBasicDecorator
  | TxTimeoutHeightDecorator
  | ValidateMemoDecorator ref
  | ConsumeGasForTxSizeDecorator ref
  | DeductFeeDecorator ref ref "ref option" "ref option"
  | SetPubKeyDecorator ref
  | ValidateSigCountDecorator ref
  | SigGasConsumeDecorator ref "ref option"
  | SigVerificationDecorator ref ref
  | IncrementSequenceDecorator ref
  | RedundantRelayDecorator "ref option"

text \<open>Of \<open>NodeConfig\<close> and \<open>WasmKeeper\<close> the code reads the simulation gas limit and the gas register.\<close>

record HandlerOptions =
  AccountKeeper :: "ref option"
  BankKeeper :: "ref option"
  ExtensionOptionChecker :: "ref option"
  FeegrantKeeper :: "ref option"
  SignModeHandler :: "ref option"
  SigGasConsumer :: "ref option"
  TxFeeChecker :: "ref option"
  IBCKeeper :: "ref option"
  NodeConfig :: "u64 option option"
  WasmKeeper :: "ref option"
  TXCounterStoreService :: "ref option"
  CircuitKeeper :: "ref option"

definition NewAnteHandler :: "HandlerOptions \<Rightarrow> AnteDecorator list res" where
  "NewAnteHandler options =
     (case AccountKeeper options of
        None \<Rightarrow> Err (Errorf ''account keeper is required for ante builder'')
      | Some ak \<Rightarrow>
     (case BankKeeper options of
        None \<Rightarrow> Err (Errorf ''bank keeper is required for ante builder'')
      | Some bk \<Rightarrow>
     (case SignModeHandler options of
        None \<Rightarrow> Err (Errorf ''sign mode handler is required for ante builder'')
      | Some smh \<Rightarrow>
     (case NodeConfig options of
        None \<Rightarrow> Err (Errorf ''wasm config is required for ante builder'')
      | Some simulationGasLimit \<Rightarrow>
     (case TXCounterStoreService options of
        None \<Rightarrow> Err (Errorf ''wasm store service is required for ante builder'')
      | Some txCounter \<Rightarrow>
     (case CircuitKeeper options of
        None \<Rightarrow> Err (Errorf ''circuit keeper is required for ante builder'')
      | Some circuit \<Rightarrow>
     (case WasmKeeper options of
        None \<Rightarrow> Panic ''runtime error: invalid memory address or nil pointer dereference''
      | Some gasRegister \<Rightarrow> Ok
         [SetUpContextDecorator,
          LimitSimulationGasDecorator simulationGasLimit,
          CountTXDecorator txCounter,
          GasRegisterDecorator gasRegister,
          TxContractsDecorator,
          CircuitBreakerDecorator circuit,
          ExtensionOptionsDecorator (ExtensionOptionChecker options),
          ValidateBasicDecorator,
          TxTimeoutHeightDecorator,
          ValidateMemoDecorator ak,
          ConsumeGasForTxSizeDecorator ak,
          DeductFeeDecorator ak bk (FeegrantKeeper options) (TxFeeChecker options),
          SetPubKeyDecorator ak,
          ValidateSigCountDecorator ak,
          SigGasConsumeDecorator ak (SigGasConsumer options),
          SigVerificationDecorator ak smh,
          IncrementSequenceDecorator ak,
          RedundantRelayDecorator (IBCKeeper options)])))))))"

text \<open>
  \<open>setAnteHandler\<close> of the app, which takes the addresses of the wasm config, the wasm keeper and the
  circuit keeper and makes a store service, so that these are never nil.
\<close>

definition setAnteHandler :: "ref option \<Rightarrow> ref option \<Rightarrow> ref option \<Rightarrow> ref option \<Rightarrow> ref option \<Rightarrow>
    u64 option \<Rightarrow> ref \<Rightarrow> ref \<Rightarrow> ref \<Rightarrow> AnteDecorator list res" where
  "setAnteHandler auth bank signModeHandler feeGrant ibc simulationGasLimit wasm txCounterStore circuit =
     mapErr (\<lambda>e. Errorf (''failed to create AnteHandler: '' @ ErrorText e))
       (NewAnteHandler
         \<lparr>AccountKeeper = auth, BankKeeper = bank, ExtensionOptionChecker = None,
          FeegrantKeeper = feeGrant, SignModeHandler = signModeHandler,
          SigGasConsumer = Some ''DefaultSigVerificationGasConsumer'', TxFeeChecker = None,
          IBCKeeper = ibc, NodeConfig = Some simulationGasLimit, WasmKeeper = Some wasm,
          TXCounterStoreService = Some txCounterStore, CircuitKeeper = Some circuit\<rparr>)"

section \<open>Genesis accounts\<close>

text \<open>
  \<open>BaseAccount\<close> and \<open>ModuleAccount\<close> are types of the auth module; \<open>AuthTypes\<close> are their \<open>Validate\<close>
  methods. \<open>Coins.IsZero\<close> says that every amount is zero.
\<close>

record 'b GenesisAccount =
  ga_BaseAccount :: 'b
  OriginalVesting :: "Coin list"
  DelegatedFree :: "Coin list"
  DelegatedVesting :: "Coin list"
  StartTime :: int
  EndTime :: int
  ga_ModuleName :: string
  ModulePermissions :: "string list"

record 'b AuthTypes =
  BaseAccount_Validate :: "'b \<Rightarrow> unit res"
  ModuleAccount_Validate :: "'b \<Rightarrow> string \<Rightarrow> string list \<Rightarrow> unit res"

definition Coins_IsZero :: "Coin list \<Rightarrow> bool" where
  "Coins_IsZero cs = list_all (\<lambda>c. coin_amount c = 0) cs"

definition GenesisAccount_Validate :: "'b AuthTypes \<Rightarrow> 'b GenesisAccount \<Rightarrow> unit res" where
  "GenesisAccount_Validate T sga =
     bindR (if \<not> Coins_IsZero (OriginalVesting sga)
            then (if StartTime sga \<ge> EndTime sga
                  then Err (Errorf ''vesting start-time cannot be before end-time'') else Ok ())
            else Ok ()) (\<lambda>_.
     bindR (if ga_ModuleName sga \<noteq> ''''
            then ModuleAccount_Validate T (ga_BaseAccount sga) (ga_ModuleName sga) (ModulePermissions sga)
            else Ok ()) (\<lambda>_.
     BaseAccount_Validate T (ga_BaseAccount sga)))"

section \<open>Properties\<close>

lemma make_map_eq:
  assumes "inj nm" "distinct (map fst xs)"
  shows "make_map nm xs m (nm x) = (case map_of xs x of Some v \<Rightarrow> Some v | None \<Rightarrow> m (nm x))"
  using assms(2)
proof (induction xs arbitrary: m)
  case (Cons p xs)
  obtain y v where p: "p = (y, v)" by (cases p)
  with Cons show ?case
    by (auto simp: inj_eq [OF assms(1)] map_of_eq_None_iff [symmetric] split: option.splits)
qed simp

lemma make_map_other: "t \<notin> nm ` fst ` set xs \<Longrightarrow> make_map nm xs m t = m t"
  by (induction nm xs m rule: make_map.induct) auto

lemma GetMaccPerms_eq: "inj mod_text \<Longrightarrow> GetMaccPerms mod_text (mod_text m) = map_of moduleAccPerms m"
  unfolding GetMaccPerms_def
  by (subst make_map_eq) (auto simp: moduleAccPerms_def split: option.split)

lemma GetMaccPerms_dom:
  assumes "inj mod_text"
  shows "dom (GetMaccPerms mod_text) = mod_text ` fst ` set moduleAccPerms"
proof (intro set_eqI iffI)
  fix t assume "t \<in> dom (GetMaccPerms mod_text)"
  then have "make_map mod_text moduleAccPerms Map.empty t \<noteq> None" by (simp add: GetMaccPerms_def domIff)
  then show "t \<in> mod_text ` fst ` set moduleAccPerms"
    using make_map_other [of t mod_text moduleAccPerms Map.empty] by metis
next
  fix t assume "t \<in> mod_text ` fst ` set moduleAccPerms"
  then obtain m where "t = mod_text m" "m \<in> fst ` set moduleAccPerms" by blast
  then show "t \<in> dom (GetMaccPerms mod_text)"
    by (simp add: GetMaccPerms_eq [OF assms] domIff map_of_eq_None_iff)
qed

lemma BlockedAddresses_eq:
  assumes "inj mod_text"
  shows "BlockedAddresses mod_text (mod_text m) = (if m \<in> set blockAccAddrs then Some True else None)"
proof -
  have "distinct (map fst (map (\<lambda>a. (a, True)) blockAccAddrs))" by (simp add: blockAccAddrs_def)
  moreover have map: "map_of (map (\<lambda>a. (a, True)) blockAccAddrs) m = (if m \<in> set blockAccAddrs then Some True else None)"
    by (simp add: map_of_map_restrict restrict_map_def map_of_eq_None_iff)
  moreover have "BlockedAddresses mod_text = make_map mod_text (map (\<lambda>a. (a, True)) blockAccAddrs) Map.empty"
    unfolding BlockedAddresses_def by (rule if_P) (simp add: blockAccAddrs_def)
  ultimately show ?thesis
    using make_map_eq [OF assms, of "map (\<lambda>a. (a, True)) blockAccAddrs" Map.empty m]
    by (cases "m \<in> set blockAccAddrs") (simp_all only: map option.case if_True if_False simp_thms)
qed

text \<open>The module accounts that may mint are those of mint, IBC transfer, the token factory and
  lumiwaveprotocol; and a module account may be sent coins exactly when it is that of gov, IBC transfer,
  interchain accounts or wasm (the comment in the code names gov only).\<close>

theorem app_module_accounts:
  assumes "inj mod_text"
  shows "((\<exists>perms. GetMaccPerms mod_text (mod_text m) = Some perms \<and> Minter \<in> set perms)
      \<longleftrightarrow> m \<in> {M_mint, M_ibc_transfer, M_tokenfactory, M_lumiwaveprotocol})
    \<and> (mod_text m \<in> dom (GetMaccPerms mod_text) \<and> BlockedAddresses mod_text (mod_text m) \<noteq> Some True
      \<longleftrightarrow> m \<in> {M_gov, M_ibc_transfer, M_ica, M_wasm})"
proof (rule conjI)
  show "(\<exists>perms. GetMaccPerms mod_text (mod_text m) = Some perms \<and> Minter \<in> set perms)
      \<longleftrightarrow> m \<in> {M_mint, M_ibc_transfer, M_tokenfactory, M_lumiwaveprotocol}"
    by (cases m) (simp_all add: GetMaccPerms_eq [OF assms] moduleAccPerms_def)
  show "mod_text m \<in> dom (GetMaccPerms mod_text) \<and> BlockedAddresses mod_text (mod_text m) \<noteq> Some True
      \<longleftrightarrow> m \<in> {M_gov, M_ibc_transfer, M_ica, M_wasm}"
    by (cases m) (simp_all add: domIff GetMaccPerms_eq [OF assms] BlockedAddresses_eq [OF assms]
      moduleAccPerms_def blockAccAddrs_def)
qed

text \<open>The keeper of the token factory that the app makes takes an address for a module account exactly
  when its text is that of one of the twelve module accounts of the configuration, in whatever order the
  map of the permissions is visited.\<close>

theorem app_keeper_module_accounts:
  assumes "inj mod_text" "map_of maccPerms = map_option (map perm_text) \<circ> GetMaccPerms mod_text"
  shows "IsModuleAcc (NewKeeper S c hasKeyTable space withKeyTable maccPerms ak bk cpk) a
    \<longleftrightarrow> (\<exists>m \<in> fst ` set moduleAccPerms. AccAddressString S a = AccAddressString S (NewModuleAddress S (mod_text m)))"
proof -
  have "fst ` set maccPerms = dom (map_of maccPerms)" by (simp add: dom_map_of_conv_image_fst)
  also have "\<dots> = mod_text ` fst ` set moduleAccPerms"
    unfolding assms(2) using GetMaccPerms_dom [OF assms(1)] by (auto simp: dom_def)
  finally have names: "fst ` set maccPerms = mod_text ` fst ` set moduleAccPerms" .
  have "IsModuleAcc (NewKeeper S c hasKeyTable space withKeyTable maccPerms ak bk cpk) a
      \<longleftrightarrow> (\<exists>n \<in> fst ` set maccPerms. AccAddressString S a = AccAddressString S (NewModuleAddress S n))"
    by (simp add: IsModuleAcc_def NewKeeper_def image_iff case_prod_unfold)
  then show ?thesis unfolding names by blast
qed

text \<open>C23. The begin blockers that run before mint are the inflation controller alone, so that when mint
  begins its block the maximum of its parameters is the target of the block's year.\<close>

theorem mint_begins_with_target:
  assumes "mint_laws mk" "blocker M_lumiwaveprotocol = BeginBlock D mk h"
    and "BeginBlockers = before @ M_mint # after" "MintParamsGet mk w = Ok p"
    and "run_blockers blocker before w = (Ok (), w1)"
  shows "M_mint \<notin> set after \<and> (\<exists>p1 t. inflationMaxForYear D (calculateYearFromHeight h (sint (mp_BlocksPerYear p))) = Ok t
    \<and> MintParamsGet mk w1 = Ok p1 \<and> mp_InflationMax p1 = t)"
proof -
  have "before = [M_lumiwaveprotocol] \<and> M_mint \<notin> set after"
    using assms(3) unfolding BeginBlockers_def by (auto simp: Cons_eq_append_conv)
  then have "BeginBlock D mk h w = (Ok (), w1)" "M_mint \<notin> set after"
    using assms(2,5) by (auto elim!: bindA_OkE)
  moreover obtain t where t: "inflationMaxForYear D (calculateYearFromHeight h (sint (mp_BlocksPerYear p))) = Ok t"
    "if mp_InflationMax p = t then w1 = w
     else MintParamsGet mk w1 = Ok (p\<lparr>mp_InflationMax := t, mp_InflationMin := 0\<rparr>)"
    using BeginBlock_effect [OF assms(1) calculation(1) assms(4)] by (metis (no_types, lifting))
  ultimately show ?thesis using assms(4) by (cases "mp_InflationMax p = t") auto
qed

text \<open>The first element comes before the second.\<close>

definition precedes :: "'a list \<Rightarrow> 'a \<Rightarrow> 'a \<Rightarrow> bool" where
  "precedes xs a b \<longleftrightarrow> b \<in> set (tl (dropWhile (\<lambda>x. x \<noteq> a) xs))"

lemma precedes_in: "precedes xs a b \<Longrightarrow> b \<in> set xs"
  unfolding precedes_def by (metis list.set_sel(2) set_dropWhileD tl_Nil)

fun checks_signature :: "AnteDecorator \<Rightarrow> bool" where
  "checks_signature (ValidateSigCountDecorator _) = True"
| "checks_signature (SigGasConsumeDecorator _ _) = True"
| "checks_signature (SigVerificationDecorator _ _) = True"
| "checks_signature _ = False"

text \<open>The ante handler of the app is made whenever the account and bank keepers and the sign mode handler
  are there. The context is set up first, the public key is set before every decorator that looks at
  signatures, and the fee is deducted before and the sequence incremented after the signatures are verified.\<close>

theorem app_ante_order:
  "\<exists>ds. setAnteHandler (Some ak) (Some bk) (Some smh) feeGrant ibc gasLimit wasm txCounter circuit = Ok ds
    \<and> hd ds = SetUpContextDecorator \<and> distinct ds
    \<and> (\<forall>d \<in> set ds. checks_signature d \<longrightarrow> precedes ds (SetPubKeyDecorator ak) d)
    \<and> precedes ds (DeductFeeDecorator ak bk feeGrant None) (SigVerificationDecorator ak smh)
    \<and> precedes ds (SigVerificationDecorator ak smh) (IncrementSequenceDecorator ak)"
  by (auto simp: setAnteHandler_def NewAnteHandler_def precedes_def)

section \<open>Concrete instances\<close>

text \<open>Some texts of the names, all different: what matters is the token factory's.\<close>

definition mem_mod_text :: "ModName \<Rightarrow> string" where
  "mem_mod_text m = (case m of
     M_fee_collector \<Rightarrow> ''fee_collector'' | M_distr \<Rightarrow> ''distribution'' | M_mint \<Rightarrow> ''mint''
   | M_bonded_pool \<Rightarrow> ''bonded_tokens_pool'' | M_not_bonded_pool \<Rightarrow> ''not_bonded_tokens_pool'' | M_gov \<Rightarrow> ''gov''
   | M_nft \<Rightarrow> ''nft'' | M_ibc_transfer \<Rightarrow> ''transfer'' | M_ica \<Rightarrow> ''interchainaccounts''
   | M_tokenfactory \<Rightarrow> ''tokenfactory'' | M_wasm \<Rightarrow> ''wasm'' | M_lumiwaveprotocol \<Rightarrow> ''lumiwaveprotocol''
   | M_upgrade \<Rightarrow> ''upgrade'' | M_auth \<Rightarrow> ''auth'' | M_slashing \<Rightarrow> ''slashing'' | M_evidence \<Rightarrow> ''evidence''
   | M_staking \<Rightarrow> ''staking'' | M_authz \<Rightarrow> ''authz'' | M_epochs \<Rightarrow> ''epochs'' | M_ibc \<Rightarrow> ''ibc''
   | M_feegrant \<Rightarrow> ''feegrant'' | M_group \<Rightarrow> ''group'' | M_consensus \<Rightarrow> ''consensus'' | M_bank \<Rightarrow> ''bank''
   | M_genutil \<Rightarrow> ''genutil'' | M_vesting \<Rightarrow> ''vesting'' | M_circuit \<Rightarrow> ''circuit'')"

definition all_modules :: "ModName list" where
  "all_modules = [M_fee_collector, M_distr, M_mint, M_bonded_pool, M_not_bonded_pool, M_gov, M_nft,
     M_ibc_transfer, M_ica, M_tokenfactory, M_wasm, M_lumiwaveprotocol, M_upgrade, M_auth, M_slashing,
     M_evidence, M_staking, M_authz, M_epochs, M_ibc, M_feegrant, M_group, M_consensus, M_bank,
     M_genutil, M_vesting, M_circuit]"

lemma mem_mod_text_inj: "inj mem_mod_text"
proof -
  have all: "m \<in> set all_modules" for m by (cases m) (simp_all add: all_modules_def)
  have "distinct (map mem_mod_text all_modules)" by code_simp
  then have "inj_on mem_mod_text (set all_modules)" by (simp add: distinct_map)
  then show ?thesis using all by (metis inj_onD injI)
qed

theorem app_module_accounts_witness:
  "BlockedAddresses mem_mod_text ''wasm'' \<noteq> Some True \<and> ''wasm'' \<in> dom (GetMaccPerms mem_mod_text)"
  using app_module_accounts [OF mem_mod_text_inj, of M_wasm] by (simp add: mem_mod_text_def)

fun mem_perm_text :: "Permission \<Rightarrow> string" where
  "mem_perm_text Minter = ''minter''"
| "mem_perm_text Burner = ''burner''"
| "mem_perm_text Staking = ''staking''"

theorem app_keeper_module_accounts_witness:
  "IsModuleAcc (NewKeeper memSdk memCtx True memParams memParams
      (map (\<lambda>(m, ps). (mem_mod_text m, map mem_perm_text ps)) moduleAccPerms) memAccounts memBank memPool)
    (NewModuleAddress memSdk ''tokenfactory'')"
proof -
  have perms: "map_of (map (\<lambda>(m, ps). (mem_mod_text m, map mem_perm_text ps)) moduleAccPerms)
      = map_option (map mem_perm_text) \<circ> GetMaccPerms mem_mod_text"
    by (rule ext) (simp add: GetMaccPerms_def moduleAccPerms_def mem_mod_text_def)
  have "M_tokenfactory \<in> fst ` set moduleAccPerms" by (simp add: moduleAccPerms_def)
  moreover have "mem_mod_text M_tokenfactory = ''tokenfactory''" by (simp add: mem_mod_text_def)
  ultimately show ?thesis
    unfolding app_keeper_module_accounts [OF mem_mod_text_inj perms] by metis
qed

theorem app_ante_order_witness:
  "\<exists>ds. setAnteHandler (Some ''auth'') (Some ''bank'') (Some ''sign'') None None None ''wasm'' ''counter'' ''circuit'' = Ok ds
    \<and> precedes ds (SetPubKeyDecorator ''auth'') (SigVerificationDecorator ''auth'' ''sign'')"
  using app_ante_order [of "''auth''" "''bank''" "''sign''" None None None "''wasm''" "''counter''" "''circuit''"]
  by (metis checks_signature.simps(3) precedes_in)

theorem mint_begins_with_target_witness:
  "M_mint \<notin> set (drop 2 BeginBlockers)
    \<and> mp_InflationMax (mm_params (snd (run_blockers (\<lambda>_. BeginBlock memDec memMint 101) [M_lumiwaveprotocol] mint0)))
      = 256000000000000000"
proof -
  have split: "BeginBlockers = [M_lumiwaveprotocol] @ M_mint # drop 2 BeginBlockers" by (simp add: BeginBlockers_def)
  have p: "MintParamsGet memMint mint0 = Ok (mm_params mint0)" by (simp add: memMint_def)
  have run: "run_blockers (\<lambda>_. BeginBlock memDec memMint 101) [M_lumiwaveprotocol] mint0
      = (Ok (), mint0\<lparr>mm_params := (mm_params mint0)\<lparr>mp_InflationMax := 256000000000000000, mp_InflationMin := 0\<rparr>\<rparr>)"
    by (simp add: bindA_def mint0_block_101)
  from mint_begins_with_target [OF memMint_laws(1) refl split p run] run show ?thesis by simp
qed

end
