(* ===== verification/AppWiring.thy ===== *)
theory AppWiring
  imports AppConfig Registry
begin

text \<open>
  The construction of the app: \<open>New\<close> and \<open>GetKey\<close>, \<open>GetSubspace\<close> of app/app.go, \<open>registerIBCModules\<close> of
  app/ibc.go, \<open>registerWasmModules\<close> and \<open>setPostHandler\<close> of app/wasm.go.

  The app is the record \<open>App\<close>, whose fields the steps assign in the order of the code; the keepers are
  values, as in Go, where an assignment or an argument copies them. The runtime app that it embeds, with
  its stores, routers and module manager, is the state \<open>'r\<close>. The constructors of the SDK, ibc-go and
  wasmd are the fields of \<open>Libs\<close>; an object that is only handed on is a \<open>ref\<close>.

  What is shown: the keepers get the store of their own module; the keeper of the token factory is given
  the wasm keeper before that is made, a zero value, so that with the app as it is put together no
  message sets a before-send hook.
\<close>

section \<open>Interfaces\<close>

datatype LibModule = L_ibc | L_transfer | L_icahost | L_icacontroller | L_ica | L_wasm | L_tendermint | L_solomachine
  | L_tokenfactory | L_gov

datatype StoreKeyObj = KVStoreKey string | OtherStoreKey string

text \<open>Of the configuration of wasm the repository reads the gas limit of simulations only.\<close>

record WasmNodeConfig =
  wc_rest :: ref
  wc_SimulationGasLimit :: "u64 option"

record ('w, 'r) Injected =
  a_appBuilder :: ref
  a_appCodec :: ref
  a_legacyAmino :: ref
  a_txConfig :: ref
  a_interfaceRegistry :: ref
  a_AuthKeeper :: "'w AccountKeeper"
  a_BankKeeper :: "'w BankKeeper"
  a_StakingKeeper :: ref
  a_DistrKeeper :: "'w CommunityPoolKeeper"
  a_UpgradeKeeper :: "('r, 'w) UpgradeKeeper"
  a_CircuitBreakerKeeper :: ref
  a_FeeGrantKeeper :: ref

text \<open>\<open>a_TokenFactoryKeeper\<close> and \<open>a_WasmKeeper\<close> are structs: before they are assigned they are zero values.\<close>

record ('w, 'r) App = "('w, 'r) Injected" +
  a_IBCKeeper :: ref
  a_TransferKeeper :: ref
  a_ICAHostKeeper :: ref
  a_ICAControllerKeeper :: ref
  a_TokenFactoryKeeper :: "'w Keeper"
  a_WasmKeeper :: ref
  a_sm :: ref

record ('w, 'r, 'cfg, 'opts) Libs =
  l_Sdk :: Sdk
  l_Name :: "LibModule \<Rightarrow> string"
  l_StoreKey :: "LibModule \<Rightarrow> string"
  l_PortID :: string
  l_DefaultNodeHome :: string
  RangeMap :: "(string \<rightharpoonup> string list) \<Rightarrow> (string \<times> string list) list"
  RegisterStores :: "StoreKeyObj list \<Rightarrow> ('r, unit) act"
  UnsafeFindStoreKey :: "'r \<Rightarrow> string \<Rightarrow> StoreKeyObj option"
  RegisterModules :: "ref list \<Rightarrow> ('r, unit) act"
  MsgServiceRouter :: "'r \<Rightarrow> ref"
  GRPCQueryRouter :: "'r \<Rightarrow> ref"
  SetAnteHandler :: "AnteDecorator list \<Rightarrow> 'r \<Rightarrow> 'r"
  SetPostHandler :: "ref \<Rightarrow> 'r \<Rightarrow> 'r"
  HasSnapshotManager :: "'r \<Rightarrow> bool"
  RegisterSnapshotter :: "ref \<Rightarrow> ('r, unit) act"
  DeclareSubspace :: "string \<Rightarrow> ref \<Rightarrow> ('r, unit) act"
  ParamsGetSubspace :: "'r \<Rightarrow> string \<Rightarrow> 'w ParamSubspace option"
  ZeroSubspace :: "'w ParamSubspace"
  SubspaceHasKeyTable :: "'w ParamSubspace \<Rightarrow> bool"
  SubspaceWithKeyTable :: "'w ParamSubspace \<Rightarrow> 'w ParamSubspace"
  ParamKeyTable :: "LibModule \<Rightarrow> ref"
  CtxOf :: "string option \<Rightarrow> 'w Ctx"
  NewKVStoreService :: "string option \<Rightarrow> ref"
  AuthRef :: "'w AccountKeeper \<Rightarrow> ref"
  BankRef :: "'w BankKeeper \<Rightarrow> ref"
  AuthAddressCodec :: "'w AccountKeeper \<Rightarrow> AddressCodec"
  TxSignModeHandler :: "ref \<Rightarrow> ref"
  NewDistrQuerier :: "'w CommunityPoolKeeper \<Rightarrow> ref"
  UpgradeRef :: "('r, 'w) UpgradeKeeper \<Rightarrow> ref"
  NewIBCKeeper :: "ref \<Rightarrow> ref \<Rightarrow> 'w ParamSubspace \<Rightarrow> ref \<Rightarrow> string \<Rightarrow> ref"
  ChannelKeeper :: "ref \<Rightarrow> ref"
  NewTransferKeeper :: "ref \<Rightarrow> ref \<Rightarrow> 'w ParamSubspace \<Rightarrow> ref \<Rightarrow> ref \<Rightarrow> ref \<Rightarrow> ref \<Rightarrow> ref \<Rightarrow> string \<Rightarrow> ref"
  NewICAHostKeeper :: "ref \<Rightarrow> ref \<Rightarrow> 'w ParamSubspace \<Rightarrow> ref \<Rightarrow> ref \<Rightarrow> ref \<Rightarrow> ref \<Rightarrow> ref \<Rightarrow> string \<Rightarrow> ref"
  NewICAControllerKeeper :: "ref \<Rightarrow> ref \<Rightarrow> 'w ParamSubspace \<Rightarrow> ref \<Rightarrow> ref \<Rightarrow> ref \<Rightarrow> string \<Rightarrow> ref"
  ReadNodeConfig :: "'opts \<Rightarrow> WasmNodeConfig res"
  NewWasmKeeper :: "ref list \<Rightarrow> string \<Rightarrow> WasmNodeConfig \<Rightarrow> string \<Rightarrow> ref list \<Rightarrow> ref"
  ZeroWasmKeeper :: ref
  AsContractKeeper :: "ref \<Rightarrow> 'w ContractKeeper"
  NewWasmSnapshotter :: ref
  NewPostHandler :: "ref res"
  MergedRegistry :: "ref res"
  ValidateProtoAnnotations :: "ref \<Rightarrow> unit res"
  NewIBCHandler :: "ref \<Rightarrow> ref \<Rightarrow> ref"
  NewIBCModule :: "LibModule \<Rightarrow> ref \<Rightarrow> ref"
  NewTransferModuleV2 :: "ref \<Rightarrow> ref"
  NewRouter :: ref
  NewRouterV2 :: ref
  AddRoute :: "string \<Rightarrow> ref \<Rightarrow> ref \<Rightarrow> ref res"
  SetRouter :: "ref \<Rightarrow> ref \<Rightarrow> ('r, unit) act"
  SetRouterV2 :: "ref \<Rightarrow> ref \<Rightarrow> ('r, unit) act"
  NewLightClientModule :: "LibModule \<Rightarrow> ref \<Rightarrow> ref \<Rightarrow> ref"
  AddClientRoute :: "ref \<Rightarrow> string \<Rightarrow> ref \<Rightarrow> ('r, unit) act"
  NewAppModule :: "LibModule \<Rightarrow> ref list \<Rightarrow> ref"
  NewTokenFactoryModule :: "'w Keeper \<Rightarrow> 'w AccountKeeper \<Rightarrow> 'w BankKeeper \<Rightarrow> ref"
  NewWasmModule :: "ref \<Rightarrow> ref \<Rightarrow> ref \<Rightarrow> ref \<Rightarrow> ref \<Rightarrow> 'w ParamSubspace \<Rightarrow> ref"
  DepinjectInject :: "'opts \<Rightarrow> ('w, 'r) Injected res"
  BuildApp :: "ref \<Rightarrow> ('r, unit) act"
  ZeroKeeper :: "'w Keeper"
  SetMaxWasmSizes :: "int \<Rightarrow> int \<Rightarrow> 'r \<Rightarrow> 'r"
  NewSimulationManager :: "'r \<Rightarrow> ref \<Rightarrow> ref"
  NewAuthModule :: "ref \<Rightarrow> 'w AccountKeeper \<Rightarrow> ref"
  RegisterStoreDecoders :: "ref \<Rightarrow> ('r, unit) act"
  RtModuleManager :: "'r \<Rightarrow> ('cfg, 'w) ModuleManager"
  RtConfigurator :: "'r \<Rightarrow> 'cfg"
  GetVersionMap :: "('cfg, 'w) ModuleManager \<Rightarrow> VersionMap"
  SetModuleVersionMap :: "VersionMap \<Rightarrow> ('w, unit) act"
  RtInitChainer :: "ref \<Rightarrow> ('w, ref) act"
  SetInitChainer :: "(ref \<Rightarrow> ('w, ref) act) \<Rightarrow> 'r \<Rightarrow> 'r"
  SetStoreLoader :: "StoreLoader \<Rightarrow> 'r \<Rightarrow> 'r"
  AppLoad :: "bool \<Rightarrow> ('r, unit) act"
  InitializePinnedCodes :: "ref \<Rightarrow> ('r, unit) act"

section \<open>Stores and subspaces\<close>

definition GetKey :: "('w, 'r, 'cfg, 'opts) Libs \<Rightarrow> 'r \<Rightarrow> string \<Rightarrow> string option" where
  "GetKey L r storeKey = (case UnsafeFindStoreKey L r storeKey of Some (KVStoreKey k) \<Rightarrow> Some k | _ \<Rightarrow> None)"

definition GetSubspace :: "('w, 'r, 'cfg, 'opts) Libs \<Rightarrow> 'r \<Rightarrow> string \<Rightarrow> 'w ParamSubspace" where
  "GetSubspace L r moduleName = (case ParamsGetSubspace L r moduleName of Some s \<Rightarrow> s | None \<Rightarrow> ZeroSubspace L)"

definition service_of :: "('w, 'r, 'cfg, 'opts) Libs \<Rightarrow> LibModule \<Rightarrow> 'r \<Rightarrow> ref" where
  "service_of L x r = NewKVStoreService L (GetKey L r (l_StoreKey L x))"

definition subspace_of :: "('w, 'r, 'cfg, 'opts) Libs \<Rightarrow> LibModule \<Rightarrow> 'r \<Rightarrow> 'w ParamSubspace" where
  "subspace_of L x r = GetSubspace L r (l_Name L x)"

section \<open>Wasm\<close>

definition setPostHandler :: "('w, 'r, 'cfg, 'opts) Libs \<Rightarrow> ('r, unit) act" where
  "setPostHandler L = bindA (lift (NewPostHandler L)) (\<lambda>postHandler. modify (SetPostHandler L postHandler))"

text \<open>The addresses of fields of the app.\<close>

definition addr_WasmKeeper :: ref where "addr_WasmKeeper = ''&app.WasmKeeper''"
definition addr_CircuitBreakerKeeper :: ref where "addr_CircuitBreakerKeeper = ''&app.CircuitBreakerKeeper''"

definition registerWasmModules :: "('w, 'r, 'cfg, 'opts) Libs \<Rightarrow> 'opts \<Rightarrow> ref list \<Rightarrow> ('w, 'r) App \<Rightarrow>
    ('r, ref \<times> ('w, 'r) App) act" where
  "registerWasmModules L appOpts wasmOpts app =
     bindA (must '''' (RegisterStores L [KVStoreKey (l_StoreKey L L_wasm)])) (\<lambda>_.
     bindA (lift (mapErr (\<lambda>e. Errorf (''error while reading wasm config: '' @ ErrorText e)) (ReadNodeConfig L appOpts))) (\<lambda>wasmConfig.
     bindA (gets (\<lambda>r. (service_of L L_wasm r, MsgServiceRouter L r, GRPCQueryRouter L r))) (\<lambda>(service, msgRouter, queryRouter).
     let channel = ChannelKeeper L (a_IBCKeeper app);
         app = app\<lparr>a_WasmKeeper := NewWasmKeeper L [a_appCodec app, service, AuthRef L (a_AuthKeeper app),
             BankRef L (a_BankKeeper app), a_StakingKeeper app, NewDistrQuerier L (a_DistrKeeper app), channel, channel,
             a_TransferKeeper app, msgRouter, queryRouter] (l_DefaultNodeHome L) wasmConfig
           (AccAddressString (l_Sdk L) (NewModuleAddress (l_Sdk L) (l_Name L L_gov))) wasmOpts\<rparr> in
     bindA (gets (\<lambda>r. subspace_of L L_wasm r)) (\<lambda>subspace.
     bindA (RegisterModules L [NewWasmModule L (a_appCodec app) addr_WasmKeeper (a_StakingKeeper app)
              (AuthRef L (a_AuthKeeper app)) (BankRef L (a_BankKeeper app)) subspace]) (\<lambda>_.
     bindA (gets (\<lambda>r. service_of L L_wasm r)) (\<lambda>counterService.
     bindA (lift (setAnteHandler (Some (AuthRef L (a_AuthKeeper app))) (Some (BankRef L (a_BankKeeper app)))
              (Some (TxSignModeHandler L (a_txConfig app))) (Some (a_FeeGrantKeeper app)) (Some (a_IBCKeeper app))
              (wc_SimulationGasLimit wasmConfig) addr_WasmKeeper counterService addr_CircuitBreakerKeeper)) (\<lambda>anteHandler.
     bindA (modify (SetAnteHandler L anteHandler)) (\<lambda>_.
     bindA (gets (HasSnapshotManager L)) (\<lambda>snapshots.
     bindA (if snapshots
            then wrap_err (\<lambda>e. Errorf (''failed to register snapshot extension: '' @ ErrorText e)) (RegisterSnapshotter L (NewWasmSnapshotter L))
            else ret ()) (\<lambda>_.
     bindA (setPostHandler L) (\<lambda>_.
     bindA (lift (MergedRegistry L)) (\<lambda>protoFiles.
     bindA (lift (ValidateProtoAnnotations L protoFiles)) (\<lambda>_.
     ret (NewIBCHandler L (a_WasmKeeper app) channel, app))))))))))))))"

section \<open>IBC\<close>

text \<open>\<open>map[string][]string\<close> of \<open>GetMaccPerms\<close>: \<open>perm_text\<close> gives the texts of the permissions.\<close>

definition macc_perms :: "('w, 'r, 'cfg, 'opts) Libs \<Rightarrow> (ModName \<Rightarrow> string) \<Rightarrow> (Permission \<Rightarrow> string) \<Rightarrow>
    (string \<times> string list) list" where
  "macc_perms L mod_text perm_text = RangeMap L (map_option (map perm_text) \<circ> GetMaccPerms mod_text)"

text \<open>The token factory's keeper: the wasm keeper that it is given is the value of the field at this point.\<close>

definition wire_token_factory :: "('w, 'r, 'cfg, 'opts) Libs \<Rightarrow> (ModName \<Rightarrow> string) \<Rightarrow> (Permission \<Rightarrow> string) \<Rightarrow>
    'r \<Rightarrow> ('w, 'r) App \<Rightarrow> ('w, 'r) App" where
  "wire_token_factory L mod_text perm_text r app =
     (let app = app\<lparr>a_TokenFactoryKeeper := NewKeeper (l_Sdk L) (CtxOf L (GetKey L r StoreKey))
            (SubspaceHasKeyTable L (GetSubspace L r ModuleName)) (GetSubspace L r ModuleName)
            (SubspaceWithKeyTable L (GetSubspace L r ModuleName)) (macc_perms L mod_text perm_text)
            (a_AuthKeeper app) (a_BankKeeper app) (a_DistrKeeper app)\<rparr>
      in app\<lparr>a_TokenFactoryKeeper := SetContractKeeper (AsContractKeeper L (a_WasmKeeper app)) (a_TokenFactoryKeeper app)\<rparr>)"

text \<open>The keepers of ibc-go.\<close>

definition wire_ibc_keepers :: "('w, 'r, 'cfg, 'opts) Libs \<Rightarrow> string \<Rightarrow> 'r \<Rightarrow> ('w, 'r) App \<Rightarrow> ('w, 'r) App" where
  "wire_ibc_keepers L govModuleAddr r app =
     (let app = app\<lparr>a_IBCKeeper := NewIBCKeeper L (a_appCodec app) (service_of L L_ibc r) (subspace_of L L_ibc r)
            (UpgradeRef L (a_UpgradeKeeper app)) govModuleAddr\<rparr>;
          channel = ChannelKeeper L (a_IBCKeeper app);
          app = app\<lparr>a_TransferKeeper := NewTransferKeeper L (a_appCodec app) (service_of L L_transfer r) (subspace_of L L_transfer r)
            channel channel (MsgServiceRouter L r) (AuthRef L (a_AuthKeeper app)) (BankRef L (a_BankKeeper app)) govModuleAddr\<rparr>;
          app = app\<lparr>a_ICAHostKeeper := NewICAHostKeeper L (a_appCodec app) (service_of L L_icahost r) (subspace_of L L_icahost r)
            channel channel (AuthRef L (a_AuthKeeper app)) (MsgServiceRouter L r) (GRPCQueryRouter L r) govModuleAddr\<rparr>
      in app\<lparr>a_ICAControllerKeeper := NewICAControllerKeeper L (a_appCodec app) (service_of L L_icacontroller r)
            (subspace_of L L_icacontroller r) channel channel (MsgServiceRouter L r) govModuleAddr\<rparr>)"

text \<open>The store keys and the key tables of the legacy subspaces.\<close>

definition register_ibc_stores :: "('w, 'r, 'cfg, 'opts) Libs \<Rightarrow> ('r, unit) act" where
  "register_ibc_stores L =
     bindA (RegisterStores L (map (\<lambda>x. KVStoreKey (l_StoreKey L x)) [L_ibc, L_transfer, L_icahost, L_icacontroller]
              @ [KVStoreKey StoreKey])) (\<lambda>_.
     bindA (DeclareSubspace L (l_Name L L_ibc) (ParamKeyTable L L_ibc)) (\<lambda>_.
     bindA (DeclareSubspace L (l_Name L L_transfer) (ParamKeyTable L L_transfer)) (\<lambda>_.
     bindA (DeclareSubspace L (l_Name L L_icacontroller) (ParamKeyTable L L_icacontroller)) (\<lambda>_.
     bindA (DeclareSubspace L (l_Name L L_icahost) (ParamKeyTable L L_icahost)) (\<lambda>_.
     DeclareSubspace L ModuleName (ParamKeyTable L L_tokenfactory))))))"

definition registerIBCModules :: "('w, 'r, 'cfg, 'opts) Libs \<Rightarrow> (ModName \<Rightarrow> string) \<Rightarrow> (Permission \<Rightarrow> string) \<Rightarrow>
    'opts \<Rightarrow> ('w, 'r) App \<Rightarrow> ('r, ('w, 'r) App) act" where
  "registerIBCModules L mod_text perm_text appOpts app =
     bindA (register_ibc_stores L) (\<lambda>_.
     let govModuleAddr = (case BytesToString (AuthAddressCodec L (a_AuthKeeper app)) (NewModuleAddress (l_Sdk L) (l_Name L L_gov)) of
           Ok s \<Rightarrow> s | _ \<Rightarrow> '''') in
     bindA (gets (\<lambda>r. wire_token_factory L mod_text perm_text r (wire_ibc_keepers L govModuleAddr r app))) (\<lambda>app.
     let transferStack = NewIBCModule L L_transfer (a_TransferKeeper app);
         transferStackV2 = NewTransferModuleV2 L (a_TransferKeeper app);
         icaControllerStack = NewIBCModule L L_icacontroller (a_ICAControllerKeeper app);
         icaHostStack = NewIBCModule L L_icahost (a_ICAHostKeeper app) in
     bindA (lift (AddRoute L (l_Name L L_transfer) transferStack (NewRouter L))) (\<lambda>ibcRouter.
     bindA (lift (AddRoute L (l_Name L L_icacontroller) icaControllerStack ibcRouter)) (\<lambda>ibcRouter.
     bindA (lift (AddRoute L (l_Name L L_icahost) icaHostStack ibcRouter)) (\<lambda>ibcRouter.
     bindA (lift (AddRoute L (l_PortID L) transferStackV2 (NewRouterV2 L))) (\<lambda>ibcv2Router.
     bindA (registerWasmModules L appOpts [] app) (\<lambda>(wasmStack, app).
     bindA (lift (AddRoute L (l_Name L L_wasm) wasmStack ibcRouter)) (\<lambda>ibcRouter.
     bindA (SetRouter L (a_IBCKeeper app) ibcRouter) (\<lambda>_.
     bindA (SetRouterV2 L (a_IBCKeeper app) ibcv2Router) (\<lambda>_.
     let tm = NewLightClientModule L L_tendermint (a_appCodec app) (a_IBCKeeper app) in
     bindA (AddClientRoute L (a_IBCKeeper app) (l_Name L L_tendermint) tm) (\<lambda>_.
     let solo = NewLightClientModule L L_solomachine (a_appCodec app) (a_IBCKeeper app) in
     bindA (AddClientRoute L (a_IBCKeeper app) (l_Name L L_solomachine) solo) (\<lambda>_.
     bindA (RegisterModules L [NewAppModule L L_ibc [a_IBCKeeper app], NewAppModule L L_transfer [a_TransferKeeper app],
              NewAppModule L L_ica [a_ICAControllerKeeper app, a_ICAHostKeeper app],
              NewTokenFactoryModule L (a_TokenFactoryKeeper app) (a_AuthKeeper app) (a_BankKeeper app),
              NewAppModule L L_tendermint [tm], NewAppModule L L_solomachine [solo]]) (\<lambda>_.
     ret app)))))))))))))"

section \<open>The app\<close>

definition init_chainer :: "('w, 'r, 'cfg, 'opts) Libs \<Rightarrow> ('cfg, 'w) ModuleManager \<Rightarrow> ref \<Rightarrow> ('w, ref) act" where
  "init_chainer L mm req = bindA (SetModuleVersionMap L (GetVersionMap L mm)) (\<lambda>_. RtInitChainer L req)"

definition zero_app :: "('w, 'r, 'cfg, 'opts) Libs \<Rightarrow> ('w, 'r) Injected \<Rightarrow> ('w, 'r) App" where
  "zero_app L injected = Injected.extend injected
     (App.fields [] [] [] [] (ZeroKeeper L) (ZeroWasmKeeper L) [])"

definition New :: "('w, 'r, 'cfg, 'opts) Libs \<Rightarrow> (ModName \<Rightarrow> string) \<Rightarrow> (Permission \<Rightarrow> string) \<Rightarrow> bool \<Rightarrow> 'opts \<Rightarrow>
    ('r, ('w, 'r) App) act" where
  "New L mod_text perm_text loadLatest appOpts =
     bindA (lift (or_panic '''' (DepinjectInject L appOpts))) (\<lambda>injected.
     bindA (BuildApp L (a_appBuilder injected)) (\<lambda>_.
     bindA (must '''' (registerIBCModules L mod_text perm_text appOpts (zero_app L injected))) (\<lambda>app.
     bindA (modify (SetMaxWasmSizes L (2 * 1024 * 1024) (4 * 1024 * 1024))) (\<lambda>_.
     bindA (gets (\<lambda>r. NewSimulationManager L r (NewAuthModule L (a_appCodec app) (a_AuthKeeper app)))) (\<lambda>sm.
     let app = app\<lparr>a_sm := sm\<rparr> in
     bindA (RegisterStoreDecoders L (a_sm app)) (\<lambda>_.
     bindA (modify (\<lambda>r. SetInitChainer L (init_chainer L (RtModuleManager L r)) r)) (\<lambda>_.
     bindA (\<lambda>r. setupUpgradeHandlers (a_TokenFactoryKeeper app) (a_UpgradeKeeper app) (RtModuleManager L r) (RtConfigurator L r)
              (GetSubspace L r) (SetStoreLoader L) r) (\<lambda>_.
     bindA (must '''' (AppLoad L loadLatest)) (\<lambda>_.
     bindA (must '''' (InitializePinnedCodes L (a_WasmKeeper app))) (\<lambda>_.
     ret app))))))))))"

section \<open>Properties\<close>

text \<open>
  Go: calling a method of a zero wasm keeper, whose store service is a nil interface, panics.
\<close>

definition zero_keeper_panics :: "('w, 'r, 'cfg, 'opts) Libs \<Rightarrow> bool" where
  "zero_keeper_panics L \<longleftrightarrow> (\<forall>a m w. is_panic (fst (Sudo (AsContractKeeper L (ZeroWasmKeeper L)) a m w)))"

lemma registerWasm_keeper:
  assumes "registerWasmModules L appOpts wasmOpts app r = (Ok (stack, app'), r')"
  shows "a_TokenFactoryKeeper app' = a_TokenFactoryKeeper app \<and> a_UpgradeKeeper app' = a_UpgradeKeeper app"
  using assms unfolding registerWasmModules_def Let_def
  by (elim bindA_OkE; simp only: split_paired_all prod.case; (elim bindA_OkE)?) auto

lemma registerIBC_keeper:
  assumes "registerIBCModules L mod_text perm_text appOpts app r = (Ok app', r')"
  shows "contractKeeper (a_TokenFactoryKeeper app') = Some (AsContractKeeper L (a_WasmKeeper app))
    \<and> a_UpgradeKeeper app' = a_UpgradeKeeper app"
proof -
  have wired: "contractKeeper (a_TokenFactoryKeeper (wire_token_factory L mod_text perm_text r1 (wire_ibc_keepers L g r1 app)))
      = Some (AsContractKeeper L (a_WasmKeeper app))"
    "a_UpgradeKeeper (wire_token_factory L mod_text perm_text r1 (wire_ibc_keepers L g r1 app)) = a_UpgradeKeeper app" for r1 g
    by (simp_all add: wire_token_factory_def wire_ibc_keepers_def SetContractKeeper_def NewKeeper_def Let_def)
  from assms obtain app1 stack r1 g r2 r3 where
    "registerWasmModules L appOpts [] (wire_token_factory L mod_text perm_text r1 (wire_ibc_keepers L g r1 app)) r2 = (Ok (stack, app1), r3)"
    "app' = app1"
    unfolding registerIBCModules_def Let_def
    by (elim bindA_OkE; simp only: split_paired_all prod.case; elim bindA_OkE) auto
  with registerWasm_keeper wired show ?thesis by metis
qed

lemma New_registered:
  assumes "New L mod_text perm_text loadLatest appOpts r = (Ok app, r')"
  obtains injected r1 app1 r2 where
    "registerIBCModules L mod_text perm_text appOpts (zero_app L injected) r1 = (Ok app1, r2)"
    "a_TokenFactoryKeeper app = a_TokenFactoryKeeper app1"
  using assms unfolding New_def Let_def
  by (elim bindA_OkE) (auto simp: must_def split: prod.splits)

text \<open>C32. With the app as it is put together nobody sets a before-send hook: the keeper of the token factory was
  given the wasm keeper before it was made, and the first call of a contract by this zero value panics.\<close>

theorem app_sets_no_hook:
  assumes "New L mod_text perm_text loadLatest appOpts r = (Ok app, r')" "zero_keeper_panics L"
    "sh_CosmwasmAddress msg \<noteq> ''''"
  shows "\<not> is_ok (fst (deliver (a_TokenFactoryKeeper app) (MSetBeforeSendHook msg) w))"
proof
  let ?k = "a_TokenFactoryKeeper app"
  assume "is_ok (fst (deliver ?k (MSetBeforeSendHook msg) w))"
  then obtain w' where "deliver ?k (MSetBeforeSendHook msg) w = (Ok (), w')"
    by (cases "deliver ?k (MSetBeforeSendHook msg) w"; cases "fst (deliver ?k (MSetBeforeSendHook msg) w)") auto
  then obtain w1 w2 where set: "setBeforeSendHook ?k (sh_Denom msg) (sh_CosmwasmAddress msg) w1 = (Ok (), w2)"
    by (auto simp: deliver_def server_SetBeforeSendHook_def bindA_Ok_iff split: if_splits)
  obtain injected r1 app1 r2 where "registerIBCModules L mod_text perm_text appOpts (zero_app L injected) r1 = (Ok app1, r2)"
    "?k = a_TokenFactoryKeeper app1"
    using assms(1) by (rule New_registered)
  then have ck: "contractKeeper ?k = Some (AsContractKeeper L (ZeroWasmKeeper L))"
    using registerIBC_keeper by (fastforce simp: zero_app_def Injected.defs App.defs)
  have "\<not> is_ok (fst (try_contract ?k (AsContractKeeper L (ZeroWasmKeeper L)) a m w3))" for a m w3
    using assms(2) by (auto simp: try_contract_def zero_keeper_panics_def split: prod.split res.split) (metis fst_conv is_panic.simps)+
  then have "try_contract ?k (AsContractKeeper L (ZeroWasmKeeper L)) a m w3 \<noteq> (Ok e, w4)" for a m w3 e w4
    by (metis fst_conv is_ok.simps(1))
  with set ck assms(3) show False by (auto simp: setBeforeSendHook_def bindA_Ok_iff)
qed

text \<open>
  A registered store key is found, and declaring a subspace takes none away.
\<close>

definition runtime_laws :: "('w, 'r, 'cfg, 'opts) Libs \<Rightarrow> bool" where
  "runtime_laws L \<longleftrightarrow>
     (\<forall>ks r r' n. RegisterStores L ks r = (Ok (), r') \<longrightarrow> KVStoreKey n \<in> set ks \<longrightarrow>
        UnsafeFindStoreKey L r' n = Some (KVStoreKey n))
     \<and> (\<forall>n t. when_ok (UnsafeFindStoreKey L) (DeclareSubspace L n t))"

lemma registerIBC_wired:
  assumes "registerIBCModules L mod_text perm_text appOpts app r = (Ok app', r')" "runtime_laws L"
  obtains r1 g where "GetKey L r1 StoreKey = Some StoreKey"
    "a_TokenFactoryKeeper app' = a_TokenFactoryKeeper (wire_token_factory L mod_text perm_text r1 (wire_ibc_keepers L g r1 app))"
proof -
  from assms(1) obtain r1 g stack app1 r2 r3 where stores: "register_ibc_stores L r = (Ok (), r1)"
    and wasm: "registerWasmModules L appOpts [] (wire_token_factory L mod_text perm_text r1 (wire_ibc_keepers L g r1 app)) r2 = (Ok (stack, app1), r3)"
      "app' = app1"
    unfolding registerIBCModules_def Let_def
    by (elim bindA_OkE; simp only: split_paired_all prod.case; elim bindA_OkE) auto
  let ?ks = "map (\<lambda>x. KVStoreKey (l_StoreKey L x)) [L_ibc, L_transfer, L_icahost, L_icacontroller]"
  from stores obtain u ra where ks: "RegisterStores L (?ks @ [KVStoreKey StoreKey]) r = (Ok u, ra)"
    and rest: "bindA (DeclareSubspace L (l_Name L L_ibc) (ParamKeyTable L L_ibc)) (\<lambda>_.
     bindA (DeclareSubspace L (l_Name L L_transfer) (ParamKeyTable L L_transfer)) (\<lambda>_.
     bindA (DeclareSubspace L (l_Name L L_icacontroller) (ParamKeyTable L L_icacontroller)) (\<lambda>_.
     bindA (DeclareSubspace L (l_Name L L_icahost) (ParamKeyTable L L_icahost)) (\<lambda>_.
     DeclareSubspace L ModuleName (ParamKeyTable L L_tokenfactory))))) ra = (Ok (), r1)"
    unfolding register_ibc_stores_def by (rule bindA_OkE)
  have "UnsafeFindStoreKey L ra StoreKey = Some (KVStoreKey StoreKey)"
    using assms(2) ks unfolding runtime_laws_def by fastforce
  moreover have sub: "when_ok (UnsafeFindStoreKey L) (DeclareSubspace L n t)" for n t
    using assms(2) by (simp add: runtime_laws_def)
  have "UnsafeFindStoreKey L r1 = UnsafeFindStoreKey L ra"
    using rest by (elim bindA_OkE) (metis when_okD [OF sub])
  ultimately have "UnsafeFindStoreKey L r1 StoreKey = Some (KVStoreKey StoreKey)" by simp
  then show ?thesis using that [of r1 g] registerWasm_keeper [OF wasm(1)] wasm(2) by (simp add: GetKey_def)
qed

text \<open>The keeper of the token factory in the built app works on the store of its own module, and takes for
  module accounts exactly the twelve of the configuration, in whatever order the map of the permissions is
  visited.\<close>

theorem app_token_factory_wired:
  assumes "New L mod_text perm_text loadLatest appOpts r = (Ok app, r')" "runtime_laws L" "inj mod_text"
    and perms: "map_of (macc_perms L mod_text perm_text) = map_option (map perm_text) \<circ> GetMaccPerms mod_text"
  shows "ctx (a_TokenFactoryKeeper app) = CtxOf L (Some StoreKey)
    \<and> (IsModuleAcc (a_TokenFactoryKeeper app) a \<longleftrightarrow> (\<exists>m \<in> fst ` set moduleAccPerms.
        AccAddressString (l_Sdk L) a = AccAddressString (l_Sdk L) (NewModuleAddress (l_Sdk L) (mod_text m))))"
proof -
  obtain injected r1 app1 r2 where reg: "registerIBCModules L mod_text perm_text appOpts (zero_app L injected) r1 = (Ok app1, r2)"
    "a_TokenFactoryKeeper app = a_TokenFactoryKeeper app1"
    using assms(1) by (rule New_registered)
  obtain r3 g where key: "GetKey L r3 StoreKey = Some StoreKey"
    and k: "a_TokenFactoryKeeper app1 = a_TokenFactoryKeeper (wire_token_factory L mod_text perm_text r3
      (wire_ibc_keepers L g r3 (zero_app L injected)))"
    using reg(1) assms(2) by (rule registerIBC_wired)
  obtain hasTable space table ak bk cpk ck where wired: "a_TokenFactoryKeeper app = SetContractKeeper ck (NewKeeper (l_Sdk L) (CtxOf L (Some StoreKey)) hasTable space table
      (macc_perms L mod_text perm_text) ak bk cpk)"
    unfolding reg(2) k wire_token_factory_def Let_def key by simp
  have acc: "IsModuleAcc (SetContractKeeper ck k') a = IsModuleAcc k' a" for k'
    by (simp add: IsModuleAcc_def SetContractKeeper_def)
  show ?thesis
    unfolding wired acc app_keeper_module_accounts [OF assms(3) perms]
    by (simp add: SetContractKeeper_def NewKeeper_def)
qed

section \<open>Concrete instances\<close>

text \<open>A runtime app that keeps its store keys; every constructor returns a text, the zero wasm keeper panics.\<close>

definition memRtUpgrade :: "(string list, Mem) UpgradeKeeper" where
  "memRtUpgrade = \<lparr>SetUpgradeHandler = (\<lambda>n h a. a), ReadUpgradeInfoFromDisk = (\<lambda>a. Ok \<lparr>plan_Name = '''', plan_Height = 0\<rparr>),
     IsSkipHeight = (\<lambda>a h. False)\<rparr>"

definition memInjected :: "(Mem, string list) Injected" where
  "memInjected = \<lparr>a_appBuilder = ''builder'', a_appCodec = ''codec'', a_legacyAmino = ''amino'', a_txConfig = ''tx'',
     a_interfaceRegistry = ''registry'', a_AuthKeeper = memAccounts, a_BankKeeper = memBank, a_StakingKeeper = ''staking'',
     a_DistrKeeper = memPool, a_UpgradeKeeper = memRtUpgrade, a_CircuitBreakerKeeper = ''circuit'',
     a_FeeGrantKeeper = ''feegrant''\<rparr>"

definition mem_lib_name :: "LibModule \<Rightarrow> string" where
  "mem_lib_name x = (case x of L_ibc \<Rightarrow> ''ibc'' | L_transfer \<Rightarrow> ''transfer'' | L_icahost \<Rightarrow> ''icahost''
     | L_icacontroller \<Rightarrow> ''icacontroller'' | L_ica \<Rightarrow> ''interchainaccounts'' | L_wasm \<Rightarrow> ''wasm''
     | L_tendermint \<Rightarrow> ''07-tendermint'' | L_solomachine \<Rightarrow> ''06-solomachine'' | L_tokenfactory \<Rightarrow> ''tokenfactory''
     | L_gov \<Rightarrow> ''gov'')"

definition memLibs :: "(Mem, string list, unit, unit) Libs" where
  "memLibs = \<lparr>l_Sdk = memSdk, l_Name = mem_lib_name, l_StoreKey = mem_lib_name, l_PortID = ''transfer'', l_DefaultNodeHome = ''home'',
     RangeMap = (\<lambda>_. map (\<lambda>(m, ps). (mem_mod_text m, map mem_perm_text ps)) moduleAccPerms),
     RegisterStores = (\<lambda>ks. modify (\<lambda>r. List.map_filter (\<lambda>k. case k of KVStoreKey n \<Rightarrow> Some n | _ \<Rightarrow> None) ks @ r)),
     UnsafeFindStoreKey = (\<lambda>r n. if n \<in> set r then Some (KVStoreKey n) else None),
     RegisterModules = (\<lambda>_. ret ()), MsgServiceRouter = (\<lambda>_. ''msgs''), GRPCQueryRouter = (\<lambda>_. ''queries''),
     SetAnteHandler = (\<lambda>_ r. r), SetPostHandler = (\<lambda>_ r. r), HasSnapshotManager = (\<lambda>_. True),
     RegisterSnapshotter = (\<lambda>_. ret ()), DeclareSubspace = (\<lambda>_ _. ret ()),
     ParamsGetSubspace = (\<lambda>_ n. if n = ''tokenfactory'' then Some memParams else None), ZeroSubspace = memParams,
     SubspaceHasKeyTable = (\<lambda>_. True), SubspaceWithKeyTable = (\<lambda>s. s), ParamKeyTable = mem_lib_name,
     CtxOf = (\<lambda>_. memCtx), NewKVStoreService = (\<lambda>k. case k of None \<Rightarrow> ''nil'' | Some n \<Rightarrow> n), AuthRef = (\<lambda>_. ''auth''),
     BankRef = (\<lambda>_. ''bank''), AuthAddressCodec = (\<lambda>_. \<lparr>StringToBytes = Ok, BytesToString = Ok\<rparr>),
     TxSignModeHandler = (\<lambda>t. t), NewDistrQuerier = (\<lambda>_. ''distr''), UpgradeRef = (\<lambda>_. ''upgrade''),
     NewIBCKeeper = (\<lambda>_ s _ _ _. s), ChannelKeeper = (\<lambda>k. k @ ''.channel''), NewTransferKeeper = (\<lambda>_ s _ _ _ _ _ _ _. s),
     NewICAHostKeeper = (\<lambda>_ s _ _ _ _ _ _ _. s), NewICAControllerKeeper = (\<lambda>_ s _ _ _ _ _. s),
     ReadNodeConfig = (\<lambda>_. Ok \<lparr>wc_rest = ''wasmconfig'', wc_SimulationGasLimit = None\<rparr>),
     NewWasmKeeper = (\<lambda>_ _ _ _ _. ''wasm''), ZeroWasmKeeper = '''',
     AsContractKeeper = (\<lambda>k. if k = '''' then \<lparr>Sudo = (\<lambda>_ _. panic ''runtime error: invalid memory address or nil pointer dereference'')\<rparr>
        else memContracts),
     NewWasmSnapshotter = ''snapshotter'', NewPostHandler = Ok ''post'', MergedRegistry = Ok ''files'',
     ValidateProtoAnnotations = (\<lambda>_. Ok ()), NewIBCHandler = (\<lambda>w c. w @ c), NewIBCModule = (\<lambda>_ k. k), NewTransferModuleV2 = (\<lambda>k. k),
     NewRouter = [], NewRouterV2 = [], AddRoute = (\<lambda>n m r. Ok (r @ n)), SetRouter = (\<lambda>_ _. ret ()), SetRouterV2 = (\<lambda>_ _. ret ()),
     NewLightClientModule = (\<lambda>x _ _. mem_lib_name x), AddClientRoute = (\<lambda>_ _ _. ret ()), NewAppModule = (\<lambda>x _. mem_lib_name x),
     NewTokenFactoryModule = (\<lambda>_ _ _. ''tokenfactory''), NewWasmModule = (\<lambda>_ _ _ _ _ _. ''wasm''),
     DepinjectInject = (\<lambda>_. Ok memInjected), BuildApp = (\<lambda>_. ret ()), ZeroKeeper = memKeeper\<lparr>contractKeeper := None\<rparr>,
     SetMaxWasmSizes = (\<lambda>_ _ r. r), NewSimulationManager = (\<lambda>_ m. m), NewAuthModule = (\<lambda>_ _. ''auth''),
     RegisterStoreDecoders = (\<lambda>_. ret ()), RtModuleManager = (\<lambda>_. \<lparr>RunMigrations = \<lambda>_ vm. ret vm\<rparr>), RtConfigurator = (\<lambda>_. ()),
     GetVersionMap = (\<lambda>_. Map.empty), SetModuleVersionMap = (\<lambda>_. ret ()), RtInitChainer = ret, SetInitChainer = (\<lambda>_ r. r),
     SetStoreLoader = (\<lambda>_ r. r), AppLoad = (\<lambda>_. ret ()), InitializePinnedCodes = (\<lambda>_. ret ())\<rparr>"

lemma memLibs_laws: "runtime_laws memLibs" "zero_keeper_panics memLibs"
proof -
  have "n \<in> set (List.map_filter (\<lambda>k. case k of KVStoreKey n \<Rightarrow> Some n | _ \<Rightarrow> None) ks)" if "KVStoreKey n \<in> set ks" for n ks
    using that by (force simp: List.map_filter_def)
  then show "runtime_laws memLibs" by (auto simp: runtime_laws_def memLibs_def)
  show "zero_keeper_panics memLibs" by (simp add: zero_keeper_panics_def memLibs_def)
qed

lemma always_ok_more:
  "always_ok (lift (Ok v))" "always_ok m \<Longrightarrow> always_ok (must s m)" "always_ok m \<Longrightarrow> always_ok (wrap_err e m)"
  "always_ok (Pair (Ok v))"
proof -
  show "always_ok (must s m)" if "always_ok m"
    using that by (auto simp: always_ok_def must_def or_panic_def split: prod.split res.split) (metis fst_conv is_ok.simps)+
qed (simp_all add: always_ok_def)

lemma memLibs_simps:
  "AddRoute memLibs n m r = Ok (r @ n)" "SetRouter memLibs k r = ret ()" "SetRouterV2 memLibs k r = ret ()"
  "AddClientRoute memLibs k n m = ret ()" "RegisterModules memLibs ms = ret ()" "RegisterStores memLibs ks = modify
    (\<lambda>r. List.map_filter (\<lambda>k. case k of KVStoreKey n \<Rightarrow> Some n | _ \<Rightarrow> None) ks @ r)" "DeclareSubspace memLibs n k = ret ()"
  "DepinjectInject memLibs u = Ok memInjected" "BuildApp memLibs b = ret ()" "RegisterStoreDecoders memLibs sm = ret ()"
  "AppLoad memLibs l = ret ()" "InitializePinnedCodes memLibs k = ret ()"
  by (simp_all add: memLibs_def)

lemma memLibs_wasm: "always_ok (registerWasmModules memLibs () ws app)"
  unfolding registerWasmModules_def Let_def setPostHandler_def setAnteHandler_def NewAnteHandler_def
  by (auto simp: memLibs_def HandlerOptions.defs intro!: always_ok_bindA always_ok_more split: prod.split)

lemma memLibs_ibc: "always_ok (registerIBCModules memLibs mem_mod_text mem_perm_text () app)"
  unfolding registerIBCModules_def register_ibc_stores_def Let_def
  by (auto simp: memLibs_wasm memLibs_simps intro!: always_ok_bindA always_ok_more split: prod.split)

lemma setup_upgrade_ok: "is_ok (fst (setupUpgradeHandlers k memRtUpgrade mm cfg s l r))"
  by (auto simp: setupUpgradeHandlers_def Setup_def Dependencies_validate_def must_def memRtUpgrade_def Let_def)

lemma memLibs_New:
  obtains app r' where "New memLibs mem_mod_text mem_perm_text True () [] = (Ok app, r')"
proof -
  let ?reg = "registerIBCModules memLibs mem_mod_text mem_perm_text () (zero_app memLibs memInjected)"
  have "is_ok (fst (?reg []))" using memLibs_ibc by (simp add: always_ok_def)
  then obtain app1 r1 where reg: "?reg [] = (Ok app1, r1)"
    by (cases "?reg []"; cases "fst (?reg [])") auto
  then have reg_run: "bindA (must [] ?reg) f [] = f app1 r1" for f :: "_ \<Rightarrow> (string list, 'z) act"
    by (intro bindA_run) simp
  from registerIBC_keeper [OF reg] have uk: "a_UpgradeKeeper app1 = memRtUpgrade"
    by (simp add: zero_app_def Injected.defs App.defs memInjected_def)
  have upg: "always_ok (\<lambda>r. setupUpgradeHandlers (a_TokenFactoryKeeper app1) (a_UpgradeKeeper app1) (mm r) (cfg r) (s r) l r)"
    for mm cfg s l
    by (simp add: always_ok_def uk setup_upgrade_ok)
  have "is_ok (fst (New memLibs mem_mod_text mem_perm_text True () []))"
    unfolding New_def by (simp add: memLibs_simps reg_run Let_def, rule always_ok_def [THEN iffD1, rule_format])
      (auto simp: upg memLibs_simps intro!: always_ok_bindA always_ok_more)
  then show ?thesis
    using that by (cases "New memLibs mem_mod_text mem_perm_text True () []";
      cases "fst (New memLibs mem_mod_text mem_perm_text True () [])") auto
qed

theorem app_sets_no_hook_witness:
  "\<exists>app r'. New memLibs mem_mod_text mem_perm_text True () [] = (Ok app, r')
    \<and> \<not> is_ok (fst (deliver (a_TokenFactoryKeeper app) (MSetBeforeSendHook
        \<lparr>sh_Sender = ''lumi1abc'', sh_Denom = ''factory/lumi1abc/gold'', sh_CosmwasmAddress = ''lumi1accept''\<rparr>) mem1))"
proof -
  obtain app r' where new: "New memLibs mem_mod_text mem_perm_text True () [] = (Ok app, r')" by (rule memLibs_New)
  from app_sets_no_hook [OF new memLibs_laws(2)] new show ?thesis by fastforce
qed

theorem app_token_factory_wired_witness:
  "\<exists>app r'. New memLibs mem_mod_text mem_perm_text True () [] = (Ok app, r')
    \<and> ctx (a_TokenFactoryKeeper app) = memCtx
    \<and> IsModuleAcc (a_TokenFactoryKeeper app) (NewModuleAddress memSdk ''tokenfactory'')"
proof -
  obtain app r' where new: "New memLibs mem_mod_text mem_perm_text True () [] = (Ok app, r')" by (rule memLibs_New)
  have perms: "map_of (macc_perms memLibs mem_mod_text mem_perm_text)
      = map_option (map mem_perm_text) \<circ> GetMaccPerms mem_mod_text"
    by (rule ext) (simp add: macc_perms_def memLibs_def GetMaccPerms_def moduleAccPerms_def mem_mod_text_def)
  have tf: "M_tokenfactory \<in> fst ` set moduleAccPerms" "mem_mod_text M_tokenfactory = ''tokenfactory''"
    by (simp_all add: moduleAccPerms_def mem_mod_text_def)
  have libs: "CtxOf memLibs k = memCtx" "l_Sdk memLibs = memSdk" for k by (simp_all add: memLibs_def)
  from app_token_factory_wired [OF new memLibs_laws(1) mem_mod_text_inj perms, unfolded libs] new tf show ?thesis
    by metis
qed

end
