(* ===== verification/TokenCli.thy ===== *)
theory TokenCli
  imports Gateway
begin

text \<open>
  The commands of the token factory in the daemon's command line (x/tokenfactory/client/cli: tx.go and
  query.go). A command is data of cobra, with the function \<open>RunE\<close> that is called with the arguments
  that the check \<open>Args\<close> has let through; cobra, the reading of flags and files and the transaction
  and query clients of the SDK are the fields of \<open>Client\<close>.

  What is shown: the arguments that a command looks at are there; what is submitted is a message
  whose only signer is the account of the command, so that running a command changes the registry of
  denominations as one step of that account does; a query prints what the keeper has for exactly
  the denomination that is named.
\<close>

section \<open>Interfaces\<close>

text \<open>\<open>'c\<close> is the client context, \<open>'x\<close> the context of a request and \<open>'w\<close> the state of the world.\<close>

record ('w, 'c, 'x) Client =
  GetClientTxContext :: "('w, 'c) act"
  GetClientQueryContext :: "('w, 'c) act"
  GetFromAddress :: "'c \<Rightarrow> addr"
  AddressString :: "addr \<Rightarrow> string"
  ParseCoinNormalized :: "string \<Rightarrow> Coin res"
  GetString :: "string \<Rightarrow> string res"
  ReadFile :: "string \<Rightarrow> ('w, bytes) act"
  UnmarshalMetadata :: "bytes \<Rightarrow> Metadata res"
  GenerateOrBroadcastTxCLI :: "'c \<Rightarrow> Msg \<Rightarrow> ('w, unit) act"
  NewQueryClient :: "'c \<Rightarrow> 'x QueryService"
  CmdContext :: "'w \<Rightarrow> 'x"
  PrintProto :: "'c \<Rightarrow> proto_Message \<Rightarrow> ('w, unit) act"
  ValidateCmd :: "string list \<Rightarrow> ('w, unit) act"
  ExactArgs :: "nat \<Rightarrow> string list \<Rightarrow> error option"
  NoArgs :: "string list \<Rightarrow> error option"

datatype FlagDef = StringFlag string string string | RequiredFlag string | TxFlags | QueryFlags

record 'w Command =
  cmd_Use :: string
  cmd_Short :: string
  cmd_Args :: "string list \<Rightarrow> error option"
  cmd_RunE :: "string list \<Rightarrow> ('w, unit) act"
  cmd_Flags :: "FlagDef list"

record 'w ParentCommand =
  par_Use :: string
  par_Short :: string
  par_DisableFlagParsing :: bool
  par_SuggestionsMinimumDistance :: int
  par_RunE :: "string list \<Rightarrow> ('w, unit) act"
  par_Commands :: "'w Command list"

text \<open>\<open>args[i]\<close>\<close>

definition arg :: "string list \<Rightarrow> nat \<Rightarrow> ('w, string) act" where
  "arg args i = (if i < length args then ret (args ! i) else panic ''index out of range'')"

definition from_address :: "('w, 'c, 'x) Client \<Rightarrow> 'c \<Rightarrow> string" where
  "from_address C clientCtx = AddressString C (GetFromAddress C clientCtx)"

section \<open>Transactions\<close>

definition FlagMintToAddress :: string where "FlagMintToAddress = ''mint-to-address''"
definition FlagBurnFromAddr :: string where "FlagBurnFromAddr = ''burn-from-address''"
definition FlagMetadataFile :: string where "FlagMetadataFile = ''metadata-file''"

definition run_create_denom :: "('w, 'c, 'x) Client \<Rightarrow> string list \<Rightarrow> ('w, unit) act" where
  "run_create_denom C args =
     bindA (GetClientTxContext C) (\<lambda>clientCtx.
     bindA (arg args 0) (\<lambda>subdenom.
     GenerateOrBroadcastTxCLI C clientCtx (MCreateDenom (NewMsgCreateDenom (from_address C clientCtx) subdenom))))"

definition NewCreateDenomCmd :: "('w, 'c, 'x) Client \<Rightarrow> 'w Command" where
  "NewCreateDenomCmd C = \<lparr>
     cmd_Use = ''create-denom [subdenom]'',
     cmd_Short = ''Create a new factory denom'',
     cmd_Args = ExactArgs C 1,
     cmd_RunE = run_create_denom C,
     cmd_Flags = [TxFlags]\<rparr>"

definition run_mint :: "('w, 'c, 'x) Client \<Rightarrow> string list \<Rightarrow> ('w, unit) act" where
  "run_mint C args =
     bindA (GetClientTxContext C) (\<lambda>clientCtx.
     bindA (arg args 0) (\<lambda>s.
     bindA (lift (ParseCoinNormalized C s)) (\<lambda>amount.
     let msg = NewMsgMint (from_address C clientCtx) amount in
     bindA (lift (GetString C FlagMintToAddress)) (\<lambda>mintToAddress.
     let msg = (if mintToAddress \<noteq> '''' then msg\<lparr>mt_MintToAddress := mintToAddress\<rparr> else msg) in
     GenerateOrBroadcastTxCLI C clientCtx (MMint msg)))))"

definition NewMintCmd :: "('w, 'c, 'x) Client \<Rightarrow> 'w Command" where
  "NewMintCmd C = \<lparr>
     cmd_Use = ''mint [amount]'',
     cmd_Short = ''Mint tokens for a factory denom'',
     cmd_Args = ExactArgs C 1,
     cmd_RunE = run_mint C,
     cmd_Flags = [StringFlag FlagMintToAddress ''''
       ''optional bech32 address to receive minted tokens (defaults to sender)'', TxFlags]\<rparr>"

definition run_burn :: "('w, 'c, 'x) Client \<Rightarrow> string list \<Rightarrow> ('w, unit) act" where
  "run_burn C args =
     bindA (GetClientTxContext C) (\<lambda>clientCtx.
     bindA (arg args 0) (\<lambda>s.
     bindA (lift (ParseCoinNormalized C s)) (\<lambda>amount.
     let msg = NewMsgBurn (from_address C clientCtx) amount in
     bindA (lift (GetString C FlagBurnFromAddr)) (\<lambda>burnFromAddress.
     let msg = (if burnFromAddress \<noteq> '''' then msg\<lparr>bn_BurnFromAddress := burnFromAddress\<rparr> else msg) in
     GenerateOrBroadcastTxCLI C clientCtx (MBurn msg)))))"

definition NewBurnCmd :: "('w, 'c, 'x) Client \<Rightarrow> 'w Command" where
  "NewBurnCmd C = \<lparr>
     cmd_Use = ''burn [amount]'',
     cmd_Short = ''Burn tokens for a factory denom'',
     cmd_Args = ExactArgs C 1,
     cmd_RunE = run_burn C,
     cmd_Flags = [StringFlag FlagBurnFromAddr '''' ''optional bech32 address to burn from (defaults to sender)'', TxFlags]\<rparr>"

definition run_change_admin :: "('w, 'c, 'x) Client \<Rightarrow> string list \<Rightarrow> ('w, unit) act" where
  "run_change_admin C args =
     bindA (GetClientTxContext C) (\<lambda>clientCtx.
     bindA (arg args 0) (\<lambda>denom.
     bindA (arg args 1) (\<lambda>newAdmin.
     GenerateOrBroadcastTxCLI C clientCtx (MChangeAdmin (NewMsgChangeAdmin (from_address C clientCtx) denom newAdmin)))))"

definition NewChangeAdminCmd :: "('w, 'c, 'x) Client \<Rightarrow> 'w Command" where
  "NewChangeAdminCmd C = \<lparr>
     cmd_Use = ''change-admin [denom] [new-admin]'',
     cmd_Short = ''Change admin for a factory denom'',
     cmd_Args = ExactArgs C 2,
     cmd_RunE = run_change_admin C,
     cmd_Flags = [TxFlags]\<rparr>"

definition run_set_hook :: "('w, 'c, 'x) Client \<Rightarrow> string list \<Rightarrow> ('w, unit) act" where
  "run_set_hook C args =
     bindA (GetClientTxContext C) (\<lambda>clientCtx.
     bindA (arg args 0) (\<lambda>denom.
     bindA (arg args 1) (\<lambda>cosmwasmAddress.
     GenerateOrBroadcastTxCLI C clientCtx
       (MSetBeforeSendHook (NewMsgSetBeforeSendHook (from_address C clientCtx) denom cosmwasmAddress)))))"

definition NewSetBeforeSendHookCmd :: "('w, 'c, 'x) Client \<Rightarrow> 'w Command" where
  "NewSetBeforeSendHookCmd C = \<lparr>
     cmd_Use = ''set-beforesend-hook [denom] [cosmwasm-address]'',
     cmd_Short = ''Set a CosmWasm before-send hook address for a factory denom'',
     cmd_Args = ExactArgs C 2,
     cmd_RunE = run_set_hook C,
     cmd_Flags = [TxFlags]\<rparr>"

definition run_set_metadata :: "('w, 'c, 'x) Client \<Rightarrow> string list \<Rightarrow> ('w, unit) act" where
  "run_set_metadata C args =
     bindA (GetClientTxContext C) (\<lambda>clientCtx.
     bindA (lift (GetString C FlagMetadataFile)) (\<lambda>metadataFile.
     bindA (lift (if metadataFile = '''' then Err (Errorf (''--'' @ FlagMetadataFile @ '' is required'')) else Ok ())) (\<lambda>_.
     bindA (ReadFile C metadataFile) (\<lambda>bz.
     bindA (lift (UnmarshalMetadata C bz)) (\<lambda>metadata.
     GenerateOrBroadcastTxCLI C clientCtx
       (MSetDenomMetadata (NewMsgSetDenomMetadata (from_address C clientCtx) metadata)))))))"

definition NewSetDenomMetadataCmd :: "('w, 'c, 'x) Client \<Rightarrow> 'w Command" where
  "NewSetDenomMetadataCmd C = \<lparr>
     cmd_Use = ''set-denom-metadata'',
     cmd_Short = ''Set metadata for a factory denom'',
     cmd_Args = NoArgs C,
     cmd_RunE = run_set_metadata C,
     cmd_Flags = [StringFlag FlagMetadataFile '''' ''path to denom metadata JSON file'', RequiredFlag FlagMetadataFile, TxFlags]\<rparr>"

definition GetTxCmd :: "('w, 'c, 'x) Client \<Rightarrow> 'w ParentCommand" where
  "GetTxCmd C = \<lparr>
     par_Use = ModuleName,
     par_Short = ''Tokenfactory transaction subcommands'',
     par_DisableFlagParsing = False,
     par_SuggestionsMinimumDistance = 2,
     par_RunE = ValidateCmd C,
     par_Commands = [NewCreateDenomCmd C, NewMintCmd C, NewBurnCmd C, NewChangeAdminCmd C,
       NewSetBeforeSendHookCmd C, NewSetDenomMetadataCmd C]\<rparr>"

section \<open>Queries\<close>

text \<open>The part that the five query commands share: the client, the call and the printing of its answer.\<close>

definition run_query :: "('w, 'c, 'x) Client \<Rightarrow>
    (string list \<Rightarrow> ('w, 'x QueryService \<Rightarrow> 'x \<Rightarrow> proto_Message res) act) \<Rightarrow> string list \<Rightarrow> ('w, unit) act" where
  "run_query C call args =
     bindA (GetClientQueryContext C) (\<lambda>clientCtx.
     let queryClient = NewQueryClient C clientCtx in
     bindA (call args) (\<lambda>method.
     bindA (query (\<lambda>w. method queryClient (CmdContext C w))) (\<lambda>res.
     PrintProto C clientCtx res)))"

definition mapR :: "('a \<Rightarrow> 'b) \<Rightarrow> 'a res \<Rightarrow> 'b res" where
  "mapR f r = bindR r (\<lambda>v. Ok (f v))"

definition GetCmdParams :: "('w, 'c, 'x) Client \<Rightarrow> 'w Command" where
  "GetCmdParams C = \<lparr>
     cmd_Use = ''params'',
     cmd_Short = ''Query the tokenfactory parameters'',
     cmd_Args = NoArgs C,
     cmd_RunE = run_query C (\<lambda>_. ret (\<lambda>q x. mapR MParams (fst (svc_Params q x ())))),
     cmd_Flags = [QueryFlags]\<rparr>"

definition GetCmdDenomAuthorityMetadata :: "('w, 'c, 'x) Client \<Rightarrow> 'w Command" where
  "GetCmdDenomAuthorityMetadata C = \<lparr>
     cmd_Use = ''denom-authority-metadata [denom]'',
     cmd_Short = ''Get authority metadata for a denom'',
     cmd_Args = ExactArgs C 1,
     cmd_RunE = run_query C (\<lambda>args. bindA (arg args 0) (\<lambda>denom.
       ret (\<lambda>q x. mapR MDenomAuthorityMetadata (fst (svc_DenomAuthorityMetadata q x \<lparr>qd_Denom = denom\<rparr>))))),
     cmd_Flags = [QueryFlags]\<rparr>"

definition GetCmdDenomsFromCreator :: "('w, 'c, 'x) Client \<Rightarrow> 'w Command" where
  "GetCmdDenomsFromCreator C = \<lparr>
     cmd_Use = ''denoms-from-creator [creator]'',
     cmd_Short = ''Get all denoms created by an address'',
     cmd_Args = ExactArgs C 1,
     cmd_RunE = run_query C (\<lambda>args. bindA (arg args 0) (\<lambda>creator.
       ret (\<lambda>q x. mapR MDenomsFromCreator (fst (svc_DenomsFromCreator q x \<lparr>qc_Creator = creator\<rparr>))))),
     cmd_Flags = [QueryFlags]\<rparr>"

definition GetCmdAllBeforeSendHooks :: "('w, 'c, 'x) Client \<Rightarrow> 'w Command" where
  "GetCmdAllBeforeSendHooks C = \<lparr>
     cmd_Use = ''all-before-send-hooks'',
     cmd_Short = ''List all registered before-send hooks'',
     cmd_Args = NoArgs C,
     cmd_RunE = run_query C (\<lambda>_. ret (\<lambda>q x. mapR MAllBeforeSendHooksAddresses (fst (svc_AllBeforeSendHooksAddresses q x ())))),
     cmd_Flags = [QueryFlags]\<rparr>"

definition GetCmdDenomBeforeSendHook :: "('w, 'c, 'x) Client \<Rightarrow> 'w Command" where
  "GetCmdDenomBeforeSendHook C = \<lparr>
     cmd_Use = ''denom-before-send-hook [denom]'',
     cmd_Short = ''Get the before-send hook for a denom'',
     cmd_Args = ExactArgs C 1,
     cmd_RunE = run_query C (\<lambda>args. bindA (arg args 0) (\<lambda>denom.
       ret (\<lambda>q x. mapR MBeforeSendHookAddress (fst (svc_BeforeSendHookAddress q x \<lparr>qh_Denom = denom\<rparr>))))),
     cmd_Flags = [QueryFlags]\<rparr>"

definition GetQueryCmd :: "('w, 'c, 'x) Client \<Rightarrow> 'w ParentCommand" where
  "GetQueryCmd C = \<lparr>
     par_Use = ModuleName,
     par_Short = ''Tokenfactory query subcommands'',
     par_DisableFlagParsing = False,
     par_SuggestionsMinimumDistance = 2,
     par_RunE = ValidateCmd C,
     par_Commands = [GetCmdParams C, GetCmdDenomAuthorityMetadata C, GetCmdDenomsFromCreator C,
       GetCmdAllBeforeSendHooks C, GetCmdDenomBeforeSendHook C]\<rparr>"

section \<open>Commands that submit a message\<close>

definition never_panics :: "('w, 'a) act \<Rightarrow> bool" where
  "never_panics m \<longleftrightarrow> (\<forall>w. \<not> is_panic (fst (m w)))"

lemma never_panics_intros [intro!, simp]:
  "never_panics (ret v)" "never_panics (lift (Ok v))" "never_panics (lift (Err e))"
  "i < length args \<Longrightarrow> never_panics (arg args i)"
  by (simp_all add: never_panics_def arg_def)

lemma never_panics_lift: "never_panics (lift r) \<longleftrightarrow> \<not> is_panic r"
  by (simp add: never_panics_def)

lemma never_panics_bindA [intro]:
  assumes "never_panics m" "\<And>v. never_panics (f v)"
  shows "never_panics (bindA m f)"
  using assms unfolding never_panics_def bindA_def
  by (auto split: prod.splits res.splits) (metis fst_conv is_panic.simps)

lemma arg_preserves [intro!, simp]: "preserves obs (arg args i)"
  by (simp add: arg_def)

lemma arg_Ok: "arg args i w = (Ok s, w') \<Longrightarrow> w' = w"
  by (simp add: arg_def split: if_splits)

text \<open>The libraries report errors and do not panic.\<close>

definition client_no_panic :: "('w, 'c, 'x) Client \<Rightarrow> bool" where
  "client_no_panic C \<longleftrightarrow>
     never_panics (GetClientTxContext C) \<and> never_panics (GetClientQueryContext C) \<and>
     (\<forall>s. \<not> is_panic (ParseCoinNormalized C s)) \<and> (\<forall>s. \<not> is_panic (GetString C s)) \<and>
     (\<forall>f. never_panics (ReadFile C f)) \<and> (\<forall>bz. \<not> is_panic (UnmarshalMetadata C bz)) \<and>
     (\<forall>c m. never_panics (GenerateOrBroadcastTxCLI C c m)) \<and> (\<forall>c m. never_panics (PrintProto C c m)) \<and>
     (\<forall>args n. ExactArgs C n args = None \<longrightarrow> length args = n)"

lemma client_no_panicD:
  assumes "client_no_panic C"
  shows "never_panics (GetClientTxContext C)" "never_panics (GetClientQueryContext C)"
    "never_panics (lift (ParseCoinNormalized C s))" "never_panics (lift (GetString C s))"
    "never_panics (ReadFile C f)" "never_panics (lift (UnmarshalMetadata C bz))"
    "never_panics (GenerateOrBroadcastTxCLI C c m)" "never_panics (PrintProto C c p)"
    "ExactArgs C n args = None \<Longrightarrow> length args = n"
  using assms unfolding client_no_panic_def never_panics_lift by blast+

text \<open>
  A command that makes one message out of its \<open>n\<close> arguments and submits it: the message is in the
  name of the account of the command, and making it changes nothing but by reading a file.
\<close>

locale tx_command =
  fixes run :: "('w, 'c, 'x) Client \<Rightarrow> string list \<Rightarrow> ('w, unit) act"
    and message :: "('w, 'c, 'x) Client \<Rightarrow> 'c \<Rightarrow> string list \<Rightarrow> ('w, Msg) act"
    and n :: nat
  assumes run_submits: "run C args = bindA (GetClientTxContext C) (\<lambda>c.
      bindA (message C c args) (GenerateOrBroadcastTxCLI C c))"
    and in_own_name: "message C c args w = (Ok m, w1) \<Longrightarrow> msg_sender m = from_address C c"
    and only_reads: "(\<And>f. preserves (P :: 'w \<Rightarrow> bool) (ReadFile C f)) \<Longrightarrow> preserves P (message C c args)"
    and enough_args: "client_no_panic C \<Longrightarrow> length args = n \<Longrightarrow> never_panics (message C c args)"
begin

lemma run_never_panics:
  assumes "client_no_panic C" "length args = n"
  shows "never_panics (run C args)"
  unfolding run_submits
  by (intro never_panics_bindA client_no_panicD [OF assms(1)] enough_args [OF assms])

lemma run_cases:
  assumes run: "run C args w = (r, w')"
    and pres: "preserves st (GetClientTxContext C)" "\<And>f. preserves st (ReadFile C f)"
  shows "st w' = st w \<or> (\<exists>c w1 m w2. GetClientTxContext C w = (Ok c, w1) \<and> st w2 = st w \<and>
    msg_sender m = from_address C c \<and> GenerateOrBroadcastTxCLI C c m w2 = (r, w'))"
proof -
  obtain x w1 where ctx: "GetClientTxContext C w = (x, w1)" by (cases "GetClientTxContext C w")
  have st1: "st w1 = st w" using preservesD [OF pres(1) ctx] .
  show ?thesis
  proof (cases x)
    case (Ok c)
    obtain y w2 where mk: "message C c args w1 = (y, w2)" by (cases "message C c args w1")
    have "preserves (\<lambda>w. st w = st w1) (message C c args)"
      by (rule only_reads) (use pres(2) in \<open>simp add: preserves_def\<close>)
    then have "(st w2 = st w1) = (st w1 = st w1)" using mk by (rule preservesD)
    then have st2: "st w2 = st w" using st1 by simp
    show ?thesis
    proof (cases y)
      case (Ok m)
      then show ?thesis
        using run ctx \<open>x = Ok c\<close> mk st2 in_own_name [of C c args w1 m w2]
        by (auto simp: run_submits bindA_run)
    qed (use run ctx Ok mk st2 in \<open>simp_all add: run_submits bindA_run\<close>)
  qed (use run ctx st1 in \<open>simp_all add: run_submits bindA_run\<close>)
qed

end

lemma bindA_ret: "bindA (ret v) f = f v"
  by (rule ext) simp

lemmas command_simps = bindA_assoc bindA_ret Let_def

lemma new_sender:
  "cd_Sender (NewMsgCreateDenom a s) = a" "mt_Sender (NewMsgMint a x) = a" "bn_Sender (NewMsgBurn a x) = a"
  "ca_Sender (NewMsgChangeAdmin a d b) = a" "sh_Sender (NewMsgSetBeforeSendHook a d h) = a"
  "sm_Sender (NewMsgSetDenomMetadata a md) = a"
  by (simp_all add: NewMsgCreateDenom_def NewMsgMint_def NewMsgBurn_def NewMsgChangeAdmin_def
      NewMsgSetBeforeSendHook_def NewMsgSetDenomMetadata_def)

lemmas command_sender = bindA_Ok_iff bindA_lift_Ok_iff new_sender

lemmas command_intros = preserves_bindA never_panics_bindA client_no_panicD

definition mint_message :: "('w, 'c, 'x) Client \<Rightarrow> 'c \<Rightarrow> string list \<Rightarrow> ('w, Msg) act" where
  "mint_message C c args = bindA (arg args 0) (\<lambda>s. bindA (lift (ParseCoinNormalized C s)) (\<lambda>amount.
     bindA (lift (GetString C FlagMintToAddress)) (\<lambda>a.
     ret (MMint (if a \<noteq> '''' then (NewMsgMint (from_address C c) amount)\<lparr>mt_MintToAddress := a\<rparr>
       else NewMsgMint (from_address C c) amount)))))"

definition burn_message :: "('w, 'c, 'x) Client \<Rightarrow> 'c \<Rightarrow> string list \<Rightarrow> ('w, Msg) act" where
  "burn_message C c args = bindA (arg args 0) (\<lambda>s. bindA (lift (ParseCoinNormalized C s)) (\<lambda>amount.
     bindA (lift (GetString C FlagBurnFromAddr)) (\<lambda>a.
     ret (MBurn (if a \<noteq> '''' then (NewMsgBurn (from_address C c) amount)\<lparr>bn_BurnFromAddress := a\<rparr>
       else NewMsgBurn (from_address C c) amount)))))"

definition metadata_message :: "('w, 'c, 'x) Client \<Rightarrow> 'c \<Rightarrow> string list \<Rightarrow> ('w, Msg) act" where
  "metadata_message C c args = bindA (lift (GetString C FlagMetadataFile)) (\<lambda>f.
     bindA (lift (if f = '''' then Err (Errorf (''--'' @ FlagMetadataFile @ '' is required'')) else Ok ())) (\<lambda>_.
     bindA (ReadFile C f) (\<lambda>bz. bindA (lift (UnmarshalMetadata C bz)) (\<lambda>metadata.
     ret (MSetDenomMetadata (NewMsgSetDenomMetadata (from_address C c) metadata))))))"

interpretation create_cmd: tx_command run_create_denom
  "\<lambda>C c args. bindA (arg args 0) (\<lambda>s. ret (MCreateDenom (NewMsgCreateDenom (from_address C c) s)))" 1
  by unfold_locales (auto simp: run_create_denom_def command_simps command_sender intro!: command_intros)

interpretation mint_cmd: tx_command run_mint mint_message 1
  by unfold_locales (auto simp: run_mint_def mint_message_def command_simps command_sender intro!: command_intros)

interpretation burn_cmd: tx_command run_burn burn_message 1
  by unfold_locales (auto simp: run_burn_def burn_message_def command_simps command_sender intro!: command_intros)

interpretation admin_cmd: tx_command run_change_admin
  "\<lambda>C c args. bindA (arg args 0) (\<lambda>d. bindA (arg args 1) (\<lambda>b.
     ret (MChangeAdmin (NewMsgChangeAdmin (from_address C c) d b))))" 2
  by unfold_locales (auto simp: run_change_admin_def command_simps command_sender intro!: command_intros)

interpretation hook_cmd: tx_command run_set_hook
  "\<lambda>C c args. bindA (arg args 0) (\<lambda>d. bindA (arg args 1) (\<lambda>h.
     ret (MSetBeforeSendHook (NewMsgSetBeforeSendHook (from_address C c) d h))))" 2
  by unfold_locales (auto simp: run_set_hook_def command_simps command_sender intro!: command_intros)

interpretation metadata_cmd: tx_command run_set_metadata metadata_message 0
  by unfold_locales (auto simp: run_set_metadata_def metadata_message_def command_simps command_sender intro!: command_intros)

section \<open>Properties\<close>

text \<open>
  What the SDK documents of a submission: it broadcasts the message or only prints it. When the
  transaction is executed, fees and the sequence number change first, which touches neither the store
  of the token factory nor the denom metadata of the bank; then the message is delivered, and a
  message that fails changes no more.
\<close>

definition fees_only :: "'v Keeper \<Rightarrow> 'v \<Rightarrow> 'v \<Rightarrow> bool" where
  "fees_only k v v1 \<longleftrightarrow> kv (ctx k) v1 = kv (ctx k) v \<and>
     GetDenomMetaData (bankKeeper k) v1 = GetDenomMetaData (bankKeeper k) v"

definition submission_laws :: "'v Keeper \<Rightarrow> ('w \<Rightarrow> 'v) \<Rightarrow> ('w, 'c, 'x) Client \<Rightarrow> bool" where
  "submission_laws k chain C \<longleftrightarrow>
     preserves chain (GetClientTxContext C) \<and> (\<forall>f. preserves chain (ReadFile C f)) \<and>
     (\<forall>c m w r w'. GenerateOrBroadcastTxCLI C c m w = (r, w') \<longrightarrow>
        (\<exists>v. fees_only k (chain w) v \<and> (chain w' = v \<or> deliver k m v = (Ok (), chain w'))))"

lemma submission_lawsD:
  assumes "submission_laws k chain C"
  shows "preserves chain (GetClientTxContext C)" "preserves chain (ReadFile C f)"
    "GenerateOrBroadcastTxCLI C c m w = (r, w') \<Longrightarrow>
      \<exists>v. fees_only k (chain w) v \<and> (chain w' = v \<or> deliver k m v = (Ok (), chain w'))"
  using assms unfolding submission_laws_def by blast+

lemma fees_only_registry:
  assumes "env_ok k" "fees_only k v v1"
  shows "registry k v1 = registry k v" "bank_knows k v1 \<longleftrightarrow> bank_knows k v"
proof -
  show "registry k v1 = registry k v"
    using assms(2) unfolding fees_only_def by (blast intro: registry_cong [OF env_okD(2) [OF assms(1)]])
  then show "bank_knows k v1 \<longleftrightarrow> bank_knows k v" using assms(2) by (simp add: bank_knows_def fees_only_def)
qed

lemmas tx_command_cases = create_cmd.run_cases mint_cmd.run_cases burn_cmd.run_cases admin_cmd.run_cases
  hook_cmd.run_cases metadata_cmd.run_cases

lemmas tx_command_defs = GetTxCmd_def NewCreateDenomCmd_def NewMintCmd_def NewBurnCmd_def NewChangeAdminCmd_def
  NewSetBeforeSendHookCmd_def NewSetDenomMetadataCmd_def

lemma tx_commands_run:
  assumes "cmd \<in> set (par_Commands (GetTxCmd C))"
  shows "cmd_RunE cmd \<in> {run_create_denom C, run_mint C, run_burn C, run_change_admin C, run_set_hook C, run_set_metadata C}"
  using assms by (auto simp: tx_command_defs)

lemma tx_commands_cases:
  assumes "cmd \<in> set (par_Commands (GetTxCmd C))" "submission_laws k chain C" "cmd_RunE cmd args w = (r, w')"
  shows "chain w' = chain w \<or> (\<exists>c w1 m w2. GetClientTxContext C w = (Ok c, w1) \<and> chain w2 = chain w \<and>
    msg_sender m = from_address C c \<and> GenerateOrBroadcastTxCLI C c m w2 = (r, w'))"
  using tx_commands_run [OF assms(1)] assms(3)
    tx_command_cases [where C = C and args = args and w = w and r = r and w' = w' and st = chain,
      OF _ submission_lawsD(1,2) [OF assms(2)]]
  by auto

text \<open>C36. Running a transaction command of the token factory, whatever its arguments and however it
  ends, changes the registry of denominations at most as the account that the command is run for may:
  by one step of the abstract registry in the name of that account.\<close>

theorem tx_commands_act_for_sender:
  assumes "env_ok k" "submission_laws k chain C"
    and "cmd \<in> set (par_Commands (GetTxCmd C))" "bank_knows k (chain w)"
    and "cmd_RunE cmd args w = (r, w')"
  shows "registry k (chain w') = registry k (chain w) \<or> (\<exists>c w1. GetClientTxContext C w = (Ok c, w1) \<and>
    reg_step (sdk k) (from_address C c) (registry k (chain w)) (registry k (chain w')))"
  using tx_commands_cases [OF assms(3,2,5)]
proof (elim disjE exE conjE)
  fix c w1 m w2
  assume "GetClientTxContext C w = (Ok c, w1)" "chain w2 = chain w" "msg_sender m = from_address C c"
    and sub: "GenerateOrBroadcastTxCLI C c m w2 = (r, w')"
  moreover obtain v where "fees_only k (chain w2) v" "chain w' = v \<or> deliver k m v = (Ok (), chain w')"
    using submission_lawsD(3) [OF assms(2) sub] by blast
  ultimately show ?thesis
    using fees_only_registry [OF assms(1)] deliver_step [OF assms(1), of v m "()" "chain w'"] assms(4) by metis
qed simp

text \<open>A transaction command of the token factory that is called with arguments that its own check
  accepts does not panic: it looks at no argument that is not there.\<close>

theorem tx_commands_never_panic:
  assumes "client_no_panic C" "\<And>args. NoArgs C args = None \<Longrightarrow> args = []"
    and "cmd \<in> set (par_Commands (GetTxCmd C))" "cmd_Args cmd args = None"
  shows "\<not> is_panic (fst (cmd_RunE cmd args w))"
proof -
  have "never_panics (cmd_RunE cmd args)"
    using assms(3,4)
    by (auto simp: tx_command_defs dest!: client_no_panicD(9) [OF assms(1)] assms(2)
        intro!: create_cmd.run_never_panics [OF assms(1)]
        mint_cmd.run_never_panics [OF assms(1)] burn_cmd.run_never_panics [OF assms(1)]
        admin_cmd.run_never_panics [OF assms(1)] hook_cmd.run_never_panics [OF assms(1)]
        metadata_cmd.run_never_panics [OF assms(1)])
  then show ?thesis by (simp add: never_panics_def)
qed

text \<open>Unlike the HTTP gateway, the query commands reach a denomination as it is written: they print what
  the keeper has for exactly this denomination.\<close>

theorem query_commands_denom:
  assumes "env_ok k" "ValidateDenom (sdk k) d = None"
    and "\<And>c. NewQueryClient C c = keeper_service k" "CmdContext C = chain"
  shows "cmd_RunE (GetCmdDenomAuthorityMetadata C) [d] =
      bindA (GetClientQueryContext C) (\<lambda>c. bindA (query (\<lambda>w. GetAuthorityMetadata k d (chain w)))
        (\<lambda>m. PrintProto C c (MDenomAuthorityMetadata \<lparr>qd_AuthorityMetadata = m\<rparr>))) \<and>
    cmd_RunE (GetCmdDenomBeforeSendHook C) [d] =
      bindA (GetClientQueryContext C) (\<lambda>c. bindA (gets (\<lambda>w. GetBeforeSendHook k d (chain w)))
        (\<lambda>h. PrintProto C c (MBeforeSendHookAddress \<lparr>qh_CosmwasmAddress = h\<rparr>)))"
  using decode_valid_denom [OF env_okD(1) [OF assms(1)] assms(2)]
  by (auto simp: GetCmdDenomAuthorityMetadata_def GetCmdDenomBeforeSendHook_def run_query_def arg_def bindA_ret
      assms(3,4) keeper_service_def query_DenomAuthorityMetadata_def query_BeforeSendHookAddress_def mapR_def
      bindA_def query_def gets_def bindR_def fun_eq_iff Let_def split: prod.splits res.splits)

section \<open>Concrete instances\<close>

text \<open>The account lumi1abc in front of the chain in memory.\<close>

definition memClient :: "(Mem, unit, Mem) Client" where
  "memClient = \<lparr>
     GetClientTxContext = ret (),
     GetClientQueryContext = ret (),
     GetFromAddress = (\<lambda>_. ''abc''),
     AddressString = AccAddressString memSdk,
     ParseCoinNormalized = (\<lambda>s. Err (Errorf ''invalid coin'')),
     GetString = (\<lambda>_. Ok ''''),
     ReadFile = (\<lambda>f. throw (Errorf ''no such file'')),
     UnmarshalMetadata = (\<lambda>bz. Err (Errorf ''invalid character'')),
     GenerateOrBroadcastTxCLI = (\<lambda>_ m w. if is_ok (fst (deliver memKeeper m w)) then deliver memKeeper m w
       else (Err ErrInvalidRequest, w)),
     NewQueryClient = (\<lambda>_. keeper_service memKeeper),
     CmdContext = (\<lambda>w. w),
     PrintProto = (\<lambda>_ _. ret ()),
     ValidateCmd = (\<lambda>_. ret ()),
     ExactArgs = (\<lambda>n args. if length args = n then None else Some (Errorf ''wrong number of arguments'')),
     NoArgs = (\<lambda>args. if args = [] then None else Some (Errorf ''unknown command''))\<rparr>"

lemma memClient_simps [simp]:
  "GetClientTxContext memClient = ret ()" "GetFromAddress memClient c = ''abc''"
  "AddressString memClient = AccAddressString memSdk" "GetString memClient s = Ok ''''"
  "ParseCoinNormalized memClient s = Err (Errorf ''invalid coin'')"
  "ReadFile memClient f = throw (Errorf ''no such file'')"
  "NewQueryClient memClient c = keeper_service memKeeper" "CmdContext memClient = (\<lambda>w. w)"
  "GetClientQueryContext memClient = ret ()" "PrintProto memClient c m = ret ()"
  "ExactArgs memClient n args = None \<longleftrightarrow> length args = n" "NoArgs memClient args = None \<longleftrightarrow> args = []"
  "UnmarshalMetadata memClient bz = Err (Errorf ''invalid character'')"
  by (simp_all add: memClient_def)

lemma memClient_submit:
  "GenerateOrBroadcastTxCLI memClient c m w =
     (if is_ok (fst (deliver memKeeper m w)) then deliver memKeeper m w else (Err ErrInvalidRequest, w))"
  by (simp add: memClient_def)

lemma memClient_laws: "submission_laws memKeeper (\<lambda>w. w) memClient"
proof -
  have "chain = w' \<or> deliver memKeeper m chain = (Ok (), w')"
    if "GenerateOrBroadcastTxCLI memClient c m chain = (r, w')" for c m chain r w'
    using that by (cases "deliver memKeeper m chain"; cases "fst (deliver memKeeper m chain)")
      (auto simp: memClient_submit split: if_splits)
  then show ?thesis unfolding submission_laws_def fees_only_def by (auto simp: throw_def ret_def preserves_def) metis
qed

lemma memClient_no_panic: "client_no_panic memClient"
proof -
  have "\<not> is_panic (fst (GenerateOrBroadcastTxCLI memClient c m w))" for c m w
    by (cases "fst (deliver memKeeper m w)") (simp_all add: memClient_submit)
  then show ?thesis
    unfolding client_no_panic_def never_panics_def by (simp add: throw_def ret_def)
qed

lemma memClient_create: "cmd_RunE (NewCreateDenomCmd memClient) [''gold''] mem0 = (Ok (), mem2)"
  using mem2_delivered
  by (simp add: NewCreateDenomCmd_def run_create_denom_def arg_def memClient_submit from_address_def
      create_gold_def memSdk_def)

theorem tx_commands_act_for_sender_witness:
  "reg_step memSdk ''lumi1abc'' (registry memKeeper mem0) (registry memKeeper mem2)"
proof -
  have "NewCreateDenomCmd memClient \<in> set (par_Commands (GetTxCmd memClient))" by (simp add: GetTxCmd_def)
  moreover have "bank_knows memKeeper mem0" by (simp add: bank_knows_def mem0_registry reg_empty_def)
  ultimately show ?thesis
    using tx_commands_act_for_sender [OF mem_env_ok memClient_laws _ _ memClient_create]
    by (auto simp: from_address_def memSdk_def reg_idle)
qed

theorem tx_commands_never_panic_witness:
  "\<not> is_panic (fst (cmd_RunE (NewChangeAdminCmd memClient) [''factory/lumi1abc/gold'', ''lumi1xyz''] mem2))"
proof -
  have "NewChangeAdminCmd memClient \<in> set (par_Commands (GetTxCmd memClient))" by (simp add: GetTxCmd_def)
  moreover have "cmd_Args (NewChangeAdminCmd memClient) [''factory/lumi1abc/gold'', ''lumi1xyz''] = None"
    by (simp add: NewChangeAdminCmd_def)
  ultimately show ?thesis using tx_commands_never_panic [OF memClient_no_panic] by simp
qed

theorem query_commands_denom_witness:
  "fst (cmd_RunE (GetCmdDenomAuthorityMetadata memClient) [''factory/lumi1abc/gold''] mem2) = Ok ()"
proof -
  have "ValidateDenom (sdk memKeeper) ''factory/lumi1abc/gold'' = None" by code_simp
  from query_commands_denom [OF mem_env_ok this, of memClient "\<lambda>w. w"] show ?thesis
    by (simp add: mem_admin bindA_query)
qed

end
