(* ===== verification/TokenModule.thy ===== *)
theory TokenModule
  imports TokenCli TokenGenesis
begin

text \<open>
  The module of the token factory as the SDK sees it (x/tokenfactory/module.go) and the registration of
  its messages with the codecs (x/tokenfactory/types/codec.go). Its genesis functions are in
  \<open>TokenGenesis\<close>. What is shown: every message has an amino name of its own, short enough to be signed
  with a hardware wallet, and is registered as a message.
\<close>

section \<open>Codecs\<close>

datatype MsgType = T_MsgCreateDenom | T_MsgMint | T_MsgBurn | T_MsgChangeAdmin | T_MsgSetDenomMetadata
  | T_MsgSetBeforeSendHook | T_MsgForceTransfer

text \<open>\<open>register\<close> is \<open>legacy.RegisterAminoMsg\<close> on a codec, which may panic.\<close>

definition RegisterLegacyAminoCodec :: "(MsgType \<Rightarrow> string \<Rightarrow> ('c, unit) act) \<Rightarrow> ('c, unit) act" where
  "RegisterLegacyAminoCodec register =
     bindA (register T_MsgCreateDenom ''osmosis/tokenfactory/create-denom'') (\<lambda>_.
     bindA (register T_MsgMint ''osmosis/tokenfactory/mint'') (\<lambda>_.
     bindA (register T_MsgBurn ''osmosis/tokenfactory/burn'') (\<lambda>_.
     bindA (register T_MsgChangeAdmin ''osmosis/tokenfactory/change-admin'') (\<lambda>_.
     bindA (register T_MsgSetDenomMetadata ''osmosis/tokenfactory/set-denom-metadata'') (\<lambda>_.
     bindA (register T_MsgSetBeforeSendHook ''osmosis/tokenfactory/set-bef-send-hook'') (\<lambda>_.
     register T_MsgForceTransfer ''osmosis/tokenfactory/force-transfer''))))))"

record 'i InterfaceRegistry =
  RegisterImplementations :: "MsgType list \<Rightarrow> ('i, unit) act"
  RegisterMsgServiceDesc :: "('i, unit) act"

definition RegisterInterfaces :: "'i InterfaceRegistry \<Rightarrow> ('i, unit) act" where
  "RegisterInterfaces reg =
     bindA (RegisterImplementations reg [T_MsgCreateDenom, T_MsgMint, T_MsgBurn, T_MsgChangeAdmin,
       T_MsgSetDenomMetadata, T_MsgSetBeforeSendHook, T_MsgForceTransfer]) (\<lambda>_.
     RegisterMsgServiceDesc reg)"

section \<open>The module\<close>

record 'w AppModule =
  am_keeper :: "'w Keeper"
  am_accountKeeper :: "'w AccountKeeper"
  am_bankKeeper :: "'w BankKeeper"

definition Token_NewAppModule :: "'w Keeper \<Rightarrow> 'w AccountKeeper \<Rightarrow> 'w BankKeeper \<Rightarrow> 'w AppModule" where
  "Token_NewAppModule k ak bk = \<lparr>am_keeper = k, am_accountKeeper = ak, am_bankKeeper = bk\<rparr>"

definition AppModule_Name :: string where "AppModule_Name = ModuleName"
definition QuerierRoute :: string where "QuerierRoute = ModuleName"
definition ConsensusVersion :: u64 where "ConsensusVersion = 1"

text \<open>The error of the registration of the routes is dropped.\<close>

definition RegisterGRPCGatewayRoutes :: "('req, 'ctx) Runtime \<Rightarrow> ('conn \<Rightarrow> 'ctx QueryService) \<Rightarrow> 'conn \<Rightarrow>
    ('req, proto_Message) Route list \<Rightarrow> ('req, proto_Message) Route list" where
  "RegisterGRPCGatewayRoutes R newClient clientCtx mux =
     (case RegisterQueryHandlerClient R (newClient clientCtx) of Ok routes \<Rightarrow> mux @ routes | _ \<Rightarrow> mux)"

record ('w, 's) Configurator =
  RegisterMsgServer :: "(Msg \<Rightarrow> ('w, unit) act) \<Rightarrow> ('s, unit) act"
  RegisterQueryServer :: "'w QueryService \<Rightarrow> ('s, unit) act"

definition RegisterServices :: "'w AppModule \<Rightarrow> ('w, 's) Configurator \<Rightarrow> ('s, unit) act" where
  "RegisterServices am cfg =
     bindA (RegisterMsgServer cfg (handle (am_keeper am))) (\<lambda>_.
     RegisterQueryServer cfg (keeper_service (am_keeper am)))"

section \<open>Properties\<close>

text \<open>
  What the SDK documents of \<open>RegisterAminoMsg\<close>: a name of less than 40 bytes, the limit of the Ledger
  devices, is registered unless the type or the name is already.
\<close>

definition amino_laws :: "('c \<Rightarrow> (MsgType \<times> string) list) \<Rightarrow> (MsgType \<Rightarrow> string \<Rightarrow> ('c, unit) act) \<Rightarrow> bool" where
  "amino_laws names register \<longleftrightarrow>
     (\<forall>t n c. length n < 40 \<and> t \<notin> fst ` set (names c) \<and> n \<notin> snd ` set (names c) \<longrightarrow>
        (\<exists>c'. register t n c = (Ok (), c') \<and> names c' = names c @ [(t, n)]))"

lemma amino_step:
  assumes "amino_laws names register" "length n < 40" "t \<notin> fst ` set (names c)" "n \<notin> snd ` set (names c)"
    and "\<And>c'. names c' = names c @ [(t, n)] \<Longrightarrow> \<exists>c2. k c' = (Ok (), c2) \<and> P c2"
  shows "\<exists>c2. bindA (register t n) (\<lambda>_. k) c = (Ok (), c2) \<and> P c2"
proof -
  obtain c' where "register t n c = (Ok (), c')" "names c' = names c @ [(t, n)]"
    using assms(1-4) unfolding amino_laws_def by blast
  then show ?thesis using assms(5) by (auto simp: bindA_run)
qed

lemma MsgType_all: "(UNIV :: MsgType set) = {T_MsgCreateDenom, T_MsgMint, T_MsgBurn, T_MsgChangeAdmin,
    T_MsgSetDenomMetadata, T_MsgSetBeforeSendHook, T_MsgForceTransfer}"
  using MsgType.exhaust by blast

text \<open>The registration of the messages for signing goes through: it gives every message of the
  module a name of its own, and no name is too long for the hardware wallets (the longest has exactly
  the 39 bytes that are allowed).\<close>

theorem amino_registration_ok:
  assumes "amino_laws names register" "names c = []"
  shows "\<exists>c'. RegisterLegacyAminoCodec register c = (Ok (), c') \<and>
    fst ` set (names c') = UNIV \<and> distinct (map snd (names c'))"
proof -
  have last: "register t n = bindA (register t n) (\<lambda>_. ret ())" for t n
    by (rule ext) (auto simp: bindA_def ret_def split: prod.split res.split)
  show ?thesis
    unfolding RegisterLegacyAminoCodec_def
    by (subst last) (intro amino_step [OF assms(1)]; simp add: assms(2) MsgType_all ret_def)
qed

text \<open>A codec that is the list of its names.\<close>

definition mem_register :: "MsgType \<Rightarrow> string \<Rightarrow> ((MsgType \<times> string) list, unit) act" where
  "mem_register t n c = (if 40 \<le> length n \<or> t \<in> fst ` set c \<or> n \<in> snd ` set c
     then (Panic ''cannot register'', c) else (Ok (), c @ [(t, n)]))"

theorem amino_registration_ok_witness:
  "\<exists>c. RegisterLegacyAminoCodec mem_register [] = (Ok (), c) \<and> fst ` set c = UNIV \<and> distinct (map snd c)"
proof -
  have "amino_laws (\<lambda>c. c) mem_register" by (auto simp: amino_laws_def mem_register_def)
  from amino_registration_ok [OF this] show ?thesis by simp
qed

end
