(* ===== verification/AppModules.thy ===== *)
theory AppModules
  imports AppWiring TokenModule
begin

text \<open>
  The modules of the app: their configuration (\<open>appConfig\<close> and \<open>AppConfig\<close> of app/app_config.go and
  app/app.go), the modules without dependency injection as the command line lists them
  (\<open>RegisterIBC\<close> of app/ibc.go), and the prefixes of the addresses (app/config.go). What is shown: the
  lists that order the modules name only modules that exist, each at most once, and no module is
  configured twice.
\<close>

section \<open>Configuration\<close>

definition Name :: string where "Name = ''lumiwave-protocol''"
definition AccountAddressPrefix :: string where "AccountAddressPrefix = ''lumi''"
definition ChainCoinType :: int where "ChainCoinType = 118"

datatype ConfName = CM ModName | C_runtime | C_params | C_tx

record RuntimeModule =
  rm_AppName :: string
  rm_PreBlockers :: "ModName list"
  rm_BeginBlockers :: "ModName list"
  rm_EndBlockers :: "ModName list"
  rm_OverrideStoreKeys :: "(ModName \<times> string) list"
  rm_InitGenesis :: "ModName list"

text \<open>Durations are in nanoseconds.\<close>

datatype ModConfig =
    RuntimeConfig RuntimeModule
  | AuthConfig string "(ModName \<times> Permission list) list" bool
  | BankConfig "ModName list"
  | GroupConfig int "u64"
  | GovConfig "u64"
  | EmptyConfig

definition appConfig :: "(ConfName \<times> ModConfig) list" where
  "appConfig =
     [(C_runtime, RuntimeConfig
         \<lparr>rm_AppName = Name,
          rm_PreBlockers = PreBlockers,
          rm_BeginBlockers = BeginBlockers,
          rm_EndBlockers = EndBlockers,
          rm_OverrideStoreKeys = [(M_auth, ''acc'')],
          rm_InitGenesis = InitGenesisOrder\<rparr>),
      (CM M_auth, AuthConfig AccountAddressPrefix moduleAccPerms True),
      (CM M_vesting, EmptyConfig),
      (CM M_bank, BankConfig blockAccAddrs),
      (CM M_staking, EmptyConfig),
      (CM M_slashing, EmptyConfig),
      (C_tx, EmptyConfig),
      (CM M_genutil, EmptyConfig),
      (CM M_authz, EmptyConfig),
      (CM M_upgrade, EmptyConfig),
      (CM M_distr, EmptyConfig),
      (CM M_evidence, EmptyConfig),
      (CM M_mint, EmptyConfig),
      (CM M_group, GroupConfig (1000000000 * 1209600) 255),
      (CM M_nft, EmptyConfig),
      (CM M_feegrant, EmptyConfig),
      (CM M_gov, GovConfig 2048),
      (CM M_consensus, EmptyConfig),
      (CM M_circuit, EmptyConfig),
      (C_params, EmptyConfig),
      (CM M_epochs, EmptyConfig),
      (CM M_lumiwaveprotocol, EmptyConfig)]"

section \<open>Modules without dependency injection\<close>

text \<open>
  The map of \<open>RegisterIBC\<close> is a list of its keys; a Go map is visited in any order, the parameter
  \<open>order\<close>. \<open>as_basic\<close> is the type assertion to \<open>AppModuleBasic\<close>.
\<close>

definition ibc_modules :: "LibModule list" where
  "ibc_modules = [L_ibc, L_transfer, L_ica, L_tokenfactory, L_tendermint, L_solomachine, L_wasm]"

fun register_interfaces :: "(LibModule \<Rightarrow> ('i, unit) act option) \<Rightarrow> LibModule list \<Rightarrow> ('i, unit) act" where
  "register_interfaces as_basic [] = ret ()"
| "register_interfaces as_basic (m # ms) =
     bindA (case as_basic m of Some registerInterfaces \<Rightarrow> registerInterfaces | None \<Rightarrow> ret ()) (\<lambda>_.
     register_interfaces as_basic ms)"

definition RegisterIBC :: "(LibModule list \<Rightarrow> LibModule list) \<Rightarrow> (LibModule \<Rightarrow> ('i, unit) act option) \<Rightarrow>
    ('i, LibModule list) act" where
  "RegisterIBC order as_basic =
     (let modules = ibc_modules in
      bindA (register_interfaces as_basic (order modules)) (\<lambda>_. ret modules))"

section \<open>Prefixes of addresses\<close>

text \<open>The configuration of the SDK, a global object; its setters panic once it is sealed.\<close>

record 'c SdkConfig =
  SetDefaultBondDenom :: "string \<Rightarrow> 'c \<Rightarrow> 'c"
  SetCoinType :: "int \<Rightarrow> ('c, unit) act"
  SetBech32PrefixForAccount :: "string \<Rightarrow> string \<Rightarrow> ('c, unit) act"
  SetBech32PrefixForValidator :: "string \<Rightarrow> string \<Rightarrow> ('c, unit) act"
  SetBech32PrefixForConsensusNode :: "string \<Rightarrow> string \<Rightarrow> ('c, unit) act"
  Seal :: "('c, unit) act"

definition config_init :: "'c SdkConfig \<Rightarrow> ('c, unit) act" where
  "config_init config =
     bindA (modify (SetDefaultBondDenom config ''ulwp'')) (\<lambda>_.
     let accountPubKeyPrefix = AccountAddressPrefix @ ''pub'';
         validatorAddressPrefix = AccountAddressPrefix @ ''valoper'';
         validatorPubKeyPrefix = AccountAddressPrefix @ ''valoperpub'';
         consNodeAddressPrefix = AccountAddressPrefix @ ''valcons'';
         consNodePubKeyPrefix = AccountAddressPrefix @ ''valconspub'' in
     bindA (SetCoinType config ChainCoinType) (\<lambda>_.
     bindA (SetBech32PrefixForAccount config AccountAddressPrefix accountPubKeyPrefix) (\<lambda>_.
     bindA (SetBech32PrefixForValidator config validatorAddressPrefix validatorPubKeyPrefix) (\<lambda>_.
     bindA (SetBech32PrefixForConsensusNode config consNodeAddressPrefix consNodePubKeyPrefix) (\<lambda>_.
     Seal config)))))"

section \<open>Properties\<close>

text \<open>The modules of \<open>RegisterIBC\<close> that the orders name.\<close>

fun lib_mod :: "LibModule \<Rightarrow> ModName option" where
  "lib_mod L_ibc = Some M_ibc"
| "lib_mod L_transfer = Some M_ibc_transfer"
| "lib_mod L_ica = Some M_ica"
| "lib_mod L_wasm = Some M_wasm"
| "lib_mod L_tokenfactory = Some M_tokenfactory"
| "lib_mod L_gov = Some M_gov"
| "lib_mod _ = None"

definition configured :: "ModName \<Rightarrow> bool" where
  "configured m \<longleftrightarrow> CM m \<in> set (map fst appConfig)"

definition has_module :: "ModName \<Rightarrow> bool" where
  "has_module m \<longleftrightarrow> configured m \<or> Some m \<in> set (map lib_mod ibc_modules)"

lemma configured_iff: "configured m \<longleftrightarrow> m \<in> {M_auth, M_vesting, M_bank, M_staking, M_slashing, M_genutil, M_authz,
    M_upgrade, M_distr, M_evidence, M_mint, M_group, M_nft, M_feegrant, M_gov, M_consensus, M_circuit, M_epochs,
    M_lumiwaveprotocol}"
  by (auto simp: configured_def appConfig_def)

text \<open>The genesis of exactly the modules of the app is initialised: the order names every module that
  is configured or registered by hand and no other. The other orders name only such modules, no order
  names a module twice, and no module is configured twice or both configured and registered by hand.\<close>

theorem module_orders_consistent:
  "{m. has_module m} = set InitGenesisOrder \<and>
   set (PreBlockers @ BeginBlockers @ EndBlockers) \<subseteq> {m. has_module m} \<and>
   distinct PreBlockers \<and> distinct BeginBlockers \<and> distinct EndBlockers \<and> distinct InitGenesisOrder \<and>
   distinct (map fst appConfig) \<and> distinct ibc_modules \<and>
   list_all (\<lambda>x. case lib_mod x of Some m \<Rightarrow> \<not> configured m | None \<Rightarrow> True) ibc_modules"
  by (auto simp: has_module_def configured_iff PreBlockers_def BeginBlockers_def EndBlockers_def
      InitGenesisOrder_def appConfig_def ibc_modules_def)

end
