(* ===== verification/Export.thy ===== *)
theory Export
  imports AppConfig
begin

text \<open>
  The export of the chain's state (app/export.go): \<open>ExportAppStateAndValidators\<close> and, for a chain that
  is to start again at height zero, \<open>prepForZeroHeightGenesis\<close>, which settles the distribution module,
  starts its records anew, sets the heights kept by staking and slashing to zero and jails the
  validators that are not in a given list.

  The keepers of the SDK are parameters. An \<open>Iterate\<close> method calls its callback with an index and an
  element until the callback says stop; a panic of the callback is one of the method. The context with
  another block height shares the stores, so that \<open>WithBlockHeight\<close> changes the height of the state. A
  loop of the function is a definition of its own, in the order of the code.

  What is shown: a malformed address in the list stops the export before anything is written; no reward
  is lost when the validators are initialised anew; which validators are jailed.
\<close>

section \<open>The keepers\<close>

type_synonym DecCoins = "string \<Rightarrow> int"

record Validator =
  val_OperatorAddress :: string
  val_Jailed :: bool
  val_UnbondingHeight :: int
  val_Tokens :: int

record Delegation =
  del_DelegatorAddress :: string
  del_ValidatorAddress :: string

record UnbondingEntry =
  ent_CreationHeight :: int
  ent_Balance :: int

record Redelegation =
  red_DelegatorAddress :: string
  red_ValidatorSrcAddress :: string
  red_ValidatorDstAddress :: string
  red_Entries :: "UnbondingEntry list"

record UnbondingDelegation =
  ubd_DelegatorAddress :: string
  ubd_ValidatorAddress :: string
  ubd_Entries :: "UnbondingEntry list"

record SigningInfo =
  si_StartHeight :: int
  si_Tombstoned :: bool

record FeePool =
  CommunityPool :: DecCoins

type_synonym ('w, 'v) Iterator = "(int \<Rightarrow> 'v \<Rightarrow> ('w, bool) act) \<Rightarrow> ('w, unit) act"

record 'w StakingKeeper =
  StakingAddressCodec :: AddressCodec
  IterateValidators :: "('w, Validator) Iterator"
  GetAllDelegations :: "'w \<Rightarrow> Delegation list res"
  IterateRedelegations :: "('w, Redelegation) Iterator"
  SetRedelegation :: "Redelegation \<Rightarrow> ('w, unit) act"
  IterateUnbondingDelegations :: "('w, UnbondingDelegation) Iterator"
  SetUnbondingDelegation :: "UnbondingDelegation \<Rightarrow> ('w, unit) act"
  GetValidator :: "'w \<Rightarrow> bytes \<Rightarrow> Validator res"
  SetValidator :: "Validator \<Rightarrow> ('w, unit) act"
  ApplyAndReturnValidatorSetUpdates :: "('w, unit) act"

record 'w DistrKeeper =
  WithdrawValidatorCommission :: "bytes \<Rightarrow> ('w, unit) act"
  WithdrawDelegationRewards :: "bytes \<Rightarrow> bytes \<Rightarrow> ('w, unit) act"
  DeleteAllValidatorSlashEvents :: "'w \<Rightarrow> 'w"
  DeleteAllValidatorHistoricalRewards :: "'w \<Rightarrow> 'w"
  GetValidatorOutstandingRewardsCoins :: "'w \<Rightarrow> bytes \<Rightarrow> DecCoins res"
  FeePoolGet :: "'w \<Rightarrow> FeePool res"
  FeePoolSet :: "FeePool \<Rightarrow> ('w, unit) act"
  AfterValidatorCreated :: "bytes \<Rightarrow> ('w, unit) act"
  BeforeDelegationCreated :: "bytes \<Rightarrow> bytes \<Rightarrow> ('w, unit) act"
  AfterDelegationModified :: "bytes \<Rightarrow> bytes \<Rightarrow> ('w, unit) act"
  DecCoinsAdd :: "DecCoins \<Rightarrow> DecCoins \<Rightarrow> DecCoins res"

record 'w SlashingKeeper =
  IterateValidatorSigningInfos :: "('w, bytes \<times> SigningInfo) Iterator"
  SetValidatorSigningInfo :: "bytes \<Rightarrow> SigningInfo \<Rightarrow> ('w, unit) act"

text \<open>
  The rest of the app: the block height of the context, the two codecs of the interface registry's
  signing context, the store of staking (the addresses of \<open>AddressFromValidatorsKey\<close> under
  \<open>ValidatorsKey\<close> from the last to the first, and the error of closing the iterator), the logger, and
  what the export itself calls.
\<close>

record ('w, 'gen, 'vals, 'cp) ExportApp =
  StakingKeeper :: "'w StakingKeeper"
  DistrKeeper :: "'w DistrKeeper"
  SlashingKeeper :: "'w SlashingKeeper"
  BlockHeight :: "'w \<Rightarrow> int"
  WithBlockHeight :: "int \<Rightarrow> 'w \<Rightarrow> 'w"
  RegistryValidatorCodec :: AddressCodec
  RegistryAddressCodec :: AddressCodec
  ValidatorsReverse :: "'w \<Rightarrow> bytes list"
  CloseIterator :: "'w \<Rightarrow> error option"
  LogError :: "error \<Rightarrow> 'w \<Rightarrow> 'w"
  LastBlockHeight :: int
  NewContext :: "int \<Rightarrow> 'w"
  ExportGenesisForModules :: "'w \<Rightarrow> string list \<Rightarrow> 'gen res"
  MarshalIndent :: "'gen \<Rightarrow> string res"
  WriteValidators :: "'w \<Rightarrow> 'vals \<times> error option"
  GetConsensusParams :: "'w \<Rightarrow> 'cp"

section \<open>Preparing for height zero\<close>

fun allowed_addresses :: "AddressCodec \<Rightarrow> string list \<Rightarrow> (string \<Rightarrow> bool) \<Rightarrow> (string \<Rightarrow> bool) res" where
  "allowed_addresses cdc [] m = Ok m"
| "allowed_addresses cdc (a # as) m =
     bindR (or_panic '''' (StringToBytes cdc a)) (\<lambda>_. allowed_addresses cdc as (m(a := True)))"

definition withdraw_commission :: "'w StakingKeeper \<Rightarrow> 'w DistrKeeper \<Rightarrow> int \<Rightarrow> Validator \<Rightarrow> ('w, bool) act" where
  "withdraw_commission sk dk _ val =
     bindA (lift (or_panic '''' (StringToBytes (StakingAddressCodec sk) (val_OperatorAddress val)))) (\<lambda>valBz.
     bindA (ignore (WithdrawValidatorCommission dk valBz)) (\<lambda>_.
     ret False))"

fun withdraw_rewards :: "AddressCodec \<Rightarrow> AddressCodec \<Rightarrow> 'w DistrKeeper \<Rightarrow> Delegation list \<Rightarrow> ('w, unit) act" where
  "withdraw_rewards valCodec accCodec dk [] = ret ()"
| "withdraw_rewards valCodec accCodec dk (delegation # dels) =
     bindA (lift (or_panic '''' (StringToBytes valCodec (del_ValidatorAddress delegation)))) (\<lambda>valAddr.
     bindA (lift (or_panic '''' (StringToBytes accCodec (del_DelegatorAddress delegation)))) (\<lambda>delAddr.
     bindA (ignore (WithdrawDelegationRewards dk delAddr valAddr)) (\<lambda>_.
     withdraw_rewards valCodec accCodec dk dels)))"

definition reinit_validator :: "'w StakingKeeper \<Rightarrow> 'w DistrKeeper \<Rightarrow> int \<Rightarrow> Validator \<Rightarrow> ('w, bool) act" where
  "reinit_validator sk dk _ val =
     bindA (lift (or_panic '''' (StringToBytes (StakingAddressCodec sk) (val_OperatorAddress val)))) (\<lambda>valBz.
     bindA (must '''' (query (\<lambda>w. GetValidatorOutstandingRewardsCoins dk w valBz))) (\<lambda>rewards.
     bindA (must '''' (query (FeePoolGet dk))) (\<lambda>feePool.
     bindA (lift (DecCoinsAdd dk (CommunityPool feePool) rewards)) (\<lambda>pool.
     bindA (must '''' (FeePoolSet dk (feePool\<lparr>CommunityPool := pool\<rparr>))) (\<lambda>_.
     bindA (must '''' (AfterValidatorCreated dk valBz)) (\<lambda>_.
     ret False))))))"

fun reinit_delegations :: "AddressCodec \<Rightarrow> AddressCodec \<Rightarrow> 'w DistrKeeper \<Rightarrow> Delegation list \<Rightarrow> ('w, unit) act" where
  "reinit_delegations valCodec accCodec dk [] = ret ()"
| "reinit_delegations valCodec accCodec dk (del # dels) =
     bindA (lift (or_panic '''' (StringToBytes valCodec (del_ValidatorAddress del)))) (\<lambda>valAddr.
     bindA (lift (or_panic '''' (StringToBytes accCodec (del_DelegatorAddress del)))) (\<lambda>delAddr.
     bindA (must ''error while incrementing period: '' (BeforeDelegationCreated dk delAddr valAddr)) (\<lambda>_.
     bindA (must ''error while creating a new delegation period record: ''
              (AfterDelegationModified dk delAddr valAddr)) (\<lambda>_.
     reinit_delegations valCodec accCodec dk dels))))"

definition reset_redelegation :: "'w StakingKeeper \<Rightarrow> int \<Rightarrow> Redelegation \<Rightarrow> ('w, bool) act" where
  "reset_redelegation sk _ red =
     bindA (must '''' (SetRedelegation sk (red\<lparr>red_Entries := map (\<lambda>e. e\<lparr>ent_CreationHeight := 0\<rparr>) (red_Entries red)\<rparr>)))
       (\<lambda>_. ret False)"

definition reset_unbonding :: "'w StakingKeeper \<Rightarrow> int \<Rightarrow> UnbondingDelegation \<Rightarrow> ('w, bool) act" where
  "reset_unbonding sk _ ubd =
     bindA (must '''' (SetUnbondingDelegation sk (ubd\<lparr>ubd_Entries := map (\<lambda>e. e\<lparr>ent_CreationHeight := 0\<rparr>) (ubd_Entries ubd)\<rparr>)))
       (\<lambda>_. ret False)"

definition expected_validator :: "'w StakingKeeper \<Rightarrow> bytes \<Rightarrow> ('w, Validator) act" where
  "expected_validator sk addr w = (case GetValidator sk w addr of
     Err e \<Rightarrow> (Panic ''expected validator, not found'', w) | r \<Rightarrow> (r, w))"

fun reset_validators :: "'w StakingKeeper \<Rightarrow> bool \<Rightarrow> (string \<Rightarrow> bool) \<Rightarrow> bytes list \<Rightarrow> ('w, unit) act" where
  "reset_validators sk applyAllowedAddrs allowedAddrsMap [] = ret ()"
| "reset_validators sk applyAllowedAddrs allowedAddrsMap (addr # addrs) =
     bindA (expected_validator sk addr) (\<lambda>validator.
     bindA (lift (or_panic '''' (BytesToString (StakingAddressCodec sk) addr))) (\<lambda>valAddr.
     let validator = validator\<lparr>val_UnbondingHeight := 0\<rparr>;
         validator = (if applyAllowedAddrs \<and> \<not> allowedAddrsMap valAddr then validator\<lparr>val_Jailed := True\<rparr> else validator)
     in bindA (must '''' (SetValidator sk validator)) (\<lambda>_.
     reset_validators sk applyAllowedAddrs allowedAddrsMap addrs)))"

definition reset_signing_info :: "'w SlashingKeeper \<Rightarrow> int \<Rightarrow> bytes \<times> SigningInfo \<Rightarrow> ('w, bool) act" where
  "reset_signing_info slk _ x = (case x of (addr, info) \<Rightarrow>
     bindA (ignore (SetValidatorSigningInfo slk addr (info\<lparr>si_StartHeight := 0\<rparr>))) (\<lambda>_. ret False))"

definition prepForZeroHeightGenesis :: "('w, 'gen, 'vals, 'cp) ExportApp \<Rightarrow> string list \<Rightarrow> ('w, unit) act" where
  "prepForZeroHeightGenesis app jailAllowedAddrs =
     (let sk = StakingKeeper app; dk = DistrKeeper app;
          valCodec = RegistryValidatorCodec app; accCodec = RegistryAddressCodec app;
          applyAllowedAddrs = (length jailAllowedAddrs > 0)
      in bindA (lift (allowed_addresses valCodec jailAllowedAddrs (\<lambda>_. False))) (\<lambda>allowedAddrsMap.
         bindA (must '''' (IterateValidators sk (withdraw_commission sk dk))) (\<lambda>_.
         bindA (must '''' (query (GetAllDelegations sk))) (\<lambda>dels.
         bindA (withdraw_rewards valCodec accCodec dk dels) (\<lambda>_.
         bindA (modify (DeleteAllValidatorSlashEvents dk)) (\<lambda>_.
         bindA (modify (DeleteAllValidatorHistoricalRewards dk)) (\<lambda>_.
         bindA (gets (BlockHeight app)) (\<lambda>height.
         bindA (modify (WithBlockHeight app 0)) (\<lambda>_.
         bindA (must '''' (IterateValidators sk (reinit_validator sk dk))) (\<lambda>_.
         bindA (reinit_delegations valCodec accCodec dk dels) (\<lambda>_.
         bindA (modify (WithBlockHeight app height)) (\<lambda>_.
         bindA (must '''' (IterateRedelegations sk (reset_redelegation sk))) (\<lambda>_.
         bindA (must '''' (IterateUnbondingDelegations sk (reset_unbonding sk))) (\<lambda>_.
         bindA (\<lambda>w. reset_validators sk applyAllowedAddrs allowedAddrsMap (ValidatorsReverse app w) w) (\<lambda>_.
         bindA (gets (CloseIterator app)) (\<lambda>closed.
         case closed of
           Some err \<Rightarrow> modify (LogError app err)
         | None \<Rightarrow>
             bindA (must '''' (ApplyAndReturnValidatorSetUpdates sk)) (\<lambda>_.
             must '''' (IterateValidatorSigningInfos (SlashingKeeper app)
                        (reset_signing_info (SlashingKeeper app))))))))))))))))))))"

section \<open>The export\<close>

record ('vals, 'cp) ExportedApp =
  AppState :: string
  Validators :: 'vals
  Height :: int
  ConsensusParams :: 'cp

text \<open>
  The result next to the error is an exported app with the state, except on the two early returns;
  \<open>Exported\<close> holds both. The height is an \<open>int64\<close>.
\<close>

datatype ('vals, 'cp) exported = Exported "('vals, 'cp) ExportedApp" "error option"

definition ExportAppStateAndValidators :: "('w, 'gen, 'vals, 'cp) ExportApp \<Rightarrow> bool \<Rightarrow> string list \<Rightarrow>
    string list \<Rightarrow> ('vals, 'cp) exported res" where
  "ExportAppStateAndValidators app forZeroHeight jailAllowedAddrs modulesToExport =
     (let ctx = NewContext app (LastBlockHeight app);
          height = wrap64 (LastBlockHeight app + 1);
          (r, ctx) = (if forZeroHeight then prepForZeroHeightGenesis app jailAllowedAddrs ctx else (Ok (), ctx));
          height = (if forZeroHeight then 0 else height)
      in bindR r (\<lambda>_.
         bindR (ExportGenesisForModules app ctx modulesToExport) (\<lambda>genState.
         bindR (MarshalIndent app genState) (\<lambda>appState.
         let (validators, err) = WriteValidators app ctx
         in Ok (Exported \<lparr>AppState = appState, Validators = validators, Height = height,
              ConsensusParams = GetConsensusParams app ctx\<rparr> err)))))"

section \<open>Documented behaviour\<close>

fun iterate :: "int \<Rightarrow> (int \<Rightarrow> 'v \<Rightarrow> ('w, bool) act) \<Rightarrow> 'v list \<Rightarrow> ('w, unit) act" where
  "iterate i f [] = ret ()"
| "iterate i f (v # vs) = bindA (f i v) (\<lambda>stop. if stop then ret () else iterate (i + 1) f vs)"

definition iterates :: "('w, 'v) Iterator \<Rightarrow> ('w \<Rightarrow> 'v list) \<Rightarrow> bool" where
  "iterates it elems \<longleftrightarrow> (\<forall>f w. it f w = iterate 0 f (elems w) w)"

text \<open>
  The fee pool that is set is the one read, and has no effect on the rewards; the hook of a new
  validator starts its records, its outstanding rewards at zero, and touches no other validator;
  \<open>DecCoins.Add\<close>, when it does not panic, adds in every denomination.
\<close>

definition distr_laws :: "'w DistrKeeper \<Rightarrow> bool" where
  "distr_laws dk \<longleftrightarrow>
     (\<forall>p w w'. FeePoolSet dk p w = (Ok (), w') \<longrightarrow> FeePoolGet dk w' = Ok p
        \<and> GetValidatorOutstandingRewardsCoins dk w' = GetValidatorOutstandingRewardsCoins dk w)
     \<and> (\<forall>a w w'. AfterValidatorCreated dk a w = (Ok (), w') \<longrightarrow> FeePoolGet dk w' = FeePoolGet dk w
        \<and> GetValidatorOutstandingRewardsCoins dk w'
          = (GetValidatorOutstandingRewardsCoins dk w)(a := Ok (\<lambda>_. 0)))
     \<and> (\<forall>a b c. DecCoinsAdd dk a b = Ok c \<longrightarrow> c = (\<lambda>d. a d + b d))"

text \<open>Validators are kept under their operator address.\<close>

definition staking_laws :: "'w StakingKeeper \<Rightarrow> bool" where
  "staking_laws sk \<longleftrightarrow>
     (\<forall>w a v. GetValidator sk w a = Ok v \<longrightarrow> StringToBytes (StakingAddressCodec sk) (val_OperatorAddress v) = Ok a)
     \<and> (\<forall>v w w' a. SetValidator sk v w = (Ok (), w')
          \<and> StringToBytes (StakingAddressCodec sk) (val_OperatorAddress v) = Ok a
        \<longrightarrow> GetValidator sk w' = (GetValidator sk w)(a := Ok v))"

section \<open>Properties\<close>

lemma allowed_addresses_Ok:
  "allowed_addresses cdc as m = Ok m' \<Longrightarrow> m' = (\<lambda>a. m a \<or> a \<in> set as)"
  by (induction cdc as m rule: allowed_addresses.induct) auto

lemma allowed_addresses_bad:
  assumes "a \<in> set as" "\<not> is_ok (StringToBytes cdc a)"
  shows "\<exists>p. allowed_addresses cdc as m = Panic p"
  using assms(1)
proof (induction as arbitrary: m)
  case (Cons b bs)
  show ?case
  proof (cases "StringToBytes cdc b")
    case (Ok x)
    with assms(2) Cons.prems have "a \<in> set bs" by auto
    with Cons.IH Ok show ?thesis by simp
  qed simp_all
qed simp

text \<open>An address in the list of those not to jail that is not a validator address makes the export for
  height zero panic before anything is written.\<close>

theorem export_checks_addresses_first:
  assumes "a \<in> set jailAllowedAddrs" "\<not> is_ok (StringToBytes (RegistryValidatorCodec app) a)"
  shows "(\<exists>p. prepForZeroHeightGenesis app jailAllowedAddrs w = (Panic p, w))
    \<and> is_panic (ExportAppStateAndValidators app True jailAllowedAddrs modulesToExport)"
proof -
  obtain p where "allowed_addresses (RegistryValidatorCodec app) jailAllowedAddrs (\<lambda>_. False) = Panic p"
    using allowed_addresses_bad [OF assms] by blast
  then have "prepForZeroHeightGenesis app jailAllowedAddrs w = (Panic p, w)" for w
    by (simp add: prepForZeroHeightGenesis_def Let_def)
  then show ?thesis by (simp add: ExportAppStateAndValidators_def Let_def)
qed

lemma reinit_loop:
  assumes "distr_laws dk" "FeePoolGet dk w = Ok pool"
    and "\<forall>v \<in> set vs. StringToBytes (StakingAddressCodec sk) (val_OperatorAddress v) = Ok (bz v)
      \<and> GetValidatorOutstandingRewardsCoins dk w (bz v) = Ok (out v)"
    and "distinct (map bz vs)" "iterate i (reinit_validator sk dk) vs w = (Ok (), w')"
  shows "FeePoolGet dk w' = Ok \<lparr>CommunityPool = \<lambda>d. CommunityPool pool d + (\<Sum>v\<leftarrow>vs. out v d)\<rparr>
    \<and> (\<forall>a. GetValidatorOutstandingRewardsCoins dk w' a
        = (if a \<in> bz ` set vs then Ok (\<lambda>_. 0) else GetValidatorOutstandingRewardsCoins dk w a))"
  using assms(2-5)
proof (induction vs arbitrary: i w pool)
  case Nil
  then show ?case by simp
next
  case (Cons v vs)
  let ?pool = "\<lparr>CommunityPool = \<lambda>d. CommunityPool pool d + out v d\<rparr>"
  let ?get = "GetValidatorOutstandingRewardsCoins dk"
  from Cons.prems(4) obtain stop w2 where step: "reinit_validator sk dk i v w = (Ok stop, w2)"
    "(if stop then ret () else iterate (i + 1) (reinit_validator sk dk) vs) w2 = (Ok (), w')"
    by (auto elim: bindA_OkE)
  have add: "DecCoinsAdd dk a b = Ok c \<Longrightarrow> c = (\<lambda>d. a d + b d)" for a b c
    using assms(1) unfolding distr_laws_def by blast
  from step(1) Cons.prems(1,2) obtain c w1 where c: "DecCoinsAdd dk (CommunityPool pool) (out v) = Ok c"
    and set: "FeePoolSet dk (pool\<lparr>CommunityPool := c\<rparr>) w = (Ok (), w1)"
      "AfterValidatorCreated dk (bz v) w1 = (Ok (), w2)" "\<not> stop"
    by (auto simp: reinit_validator_def bindA_Ok_iff)
  have "pool\<lparr>CommunityPool := c\<rparr> = ?pool" using add [OF c] by (cases pool) simp
  note w = set [unfolded this]
  with step(2) have rest: "iterate (i + 1) (reinit_validator sk dk) vs w2 = (Ok (), w')" by simp
  have w1: "FeePoolGet dk w1 = Ok ?pool" "?get w1 = ?get w" using w(1) assms(1) unfolding distr_laws_def by metis+
  then have w2: "FeePoolGet dk w2 = Ok ?pool" "?get w2 = (?get w)(bz v := Ok (\<lambda>_. 0))"
    using w(2) assms(1) unfolding distr_laws_def by metis+
  have "\<forall>v \<in> set vs. StringToBytes (StakingAddressCodec sk) (val_OperatorAddress v) = Ok (bz v)
      \<and> ?get w2 (bz v) = Ok (out v)"
  proof
    fix u assume u: "u \<in> set vs"
    then have "bz u \<noteq> bz v" using Cons.prems(3) by (metis distinct.simps(2) image_eqI list.simps(9) set_map)
    with u Cons.prems(2) show "StringToBytes (StakingAddressCodec sk) (val_OperatorAddress u) = Ok (bz u)
      \<and> ?get w2 (bz u) = Ok (out u)" by (simp add: w2(2))
  qed
  from Cons.IH [OF w2(1) this _ rest] Cons.prems(3) show ?case
    by (auto simp: w2(2) ac_simps)
qed

text \<open>C24. When the validators are initialised anew no reward is lost: the community pool gets the
  outstanding rewards of every validator, which are zero afterwards.\<close>

theorem reinit_donates_rewards:
  assumes "distr_laws dk" "iterates (IterateValidators sk) vals" "FeePoolGet dk w = Ok pool"
    and "\<forall>v \<in> set (vals w). StringToBytes (StakingAddressCodec sk) (val_OperatorAddress v) = Ok (bz v)
      \<and> GetValidatorOutstandingRewardsCoins dk w (bz v) = Ok (out v)"
    and "distinct (map bz (vals w))" "IterateValidators sk (reinit_validator sk dk) w = (Ok (), w')"
  shows "FeePoolGet dk w' = Ok \<lparr>CommunityPool = \<lambda>d. CommunityPool pool d + (\<Sum>v\<leftarrow>vals w. out v d)\<rparr>
    \<and> (\<forall>v \<in> set (vals w). GetValidatorOutstandingRewardsCoins dk w' (bz v) = Ok (\<lambda>_. 0))"
  using reinit_loop [OF assms(1,3-5)] assms(2,6) by (auto simp: iterates_def)

lemma reset_loop:
  assumes "staking_laws sk" "distinct as" "reset_validators sk b m as w = (Ok (), w')"
  shows "\<forall>a. if a \<in> set as then (\<exists>v t. GetValidator sk w a = Ok v \<and> BytesToString (StakingAddressCodec sk) a = Ok t
        \<and> GetValidator sk w' a = Ok (v\<lparr>val_UnbondingHeight := 0, val_Jailed := val_Jailed v \<or> (b \<and> \<not> m t)\<rparr>))
      else GetValidator sk w' a = GetValidator sk w a"
  using assms(2,3)
proof (induction as arbitrary: w)
  case (Cons a as)
  let ?new = "\<lambda>v t. v\<lparr>val_UnbondingHeight := 0, val_Jailed := val_Jailed v \<or> (b \<and> \<not> m t)\<rparr>"
  obtain v where v: "GetValidator sk w a = Ok v"
    using Cons.prems(2) by (cases "GetValidator sk w a") (auto simp: expected_validator_def bindA_Ok_iff)
  have run: "bindA (expected_validator sk a) f w = f v w" for f :: "Validator \<Rightarrow> ('a, unit) act"
    by (simp add: bindA_def expected_validator_def v)
  obtain t where t: "BytesToString (StakingAddressCodec sk) a = Ok t"
    using Cons.prems(2) by (cases "BytesToString (StakingAddressCodec sk) a") (simp_all add: run)
  have new: "(if b \<and> \<not> m t then v\<lparr>val_UnbondingHeight := 0, val_Jailed := True\<rparr> else v\<lparr>val_UnbondingHeight := 0\<rparr>) = ?new v t"
    by (cases v) auto
  have "bindA (must '''' (SetValidator sk (?new v t))) (\<lambda>_. reset_validators sk b m as) w = (Ok (), w')"
    using Cons.prems(2) unfolding reset_validators.simps run t or_panic_simps bindA_simps Let_def by (simp only: new)
  then obtain w1 where w1: "SetValidator sk (?new v t) w = (Ok (), w1)" "reset_validators sk b m as w1 = (Ok (), w')"
    unfolding bindA_Ok_iff by auto
  have "StringToBytes (StakingAddressCodec sk) (val_OperatorAddress (?new v t)) = Ok a"
  proof -
    have "StringToBytes (StakingAddressCodec sk) (val_OperatorAddress v) = Ok a"
      using v assms(1) unfolding staking_laws_def by blast
    then show ?thesis by simp
  qed
  with w1(1) assms(1) have get: "GetValidator sk w1 = (GetValidator sk w)(a := Ok (?new v t))"
    unfolding staking_laws_def by metis
  have ih: "if c \<in> set as then (\<exists>v t. GetValidator sk w1 c = Ok v \<and> BytesToString (StakingAddressCodec sk) c = Ok t
        \<and> GetValidator sk w' c = Ok (?new v t)) else GetValidator sk w' c = GetValidator sk w1 c" for c
  proof -
    have "distinct as" using Cons.prems(1) by simp
    from Cons.IH [OF this w1(2)] show ?thesis by (rule spec)
  qed
  show ?case
  proof
    fix c show "if c \<in> set (a # as) then (\<exists>v t. GetValidator sk w c = Ok v \<and> BytesToString (StakingAddressCodec sk) c = Ok t
        \<and> GetValidator sk w' c = Ok (?new v t)) else GetValidator sk w' c = GetValidator sk w c"
    proof (cases "c = a")
      case True
      with ih [of a] Cons.prems(1) v t show ?thesis by (simp add: get)
    next
      case False
      then have eq: "GetValidator sk w1 c = GetValidator sk w c" "(c \<in> set (a # as)) = (c \<in> set as)"
        by (simp_all add: get)
      show ?thesis using ih [of c] unfolding eq .
    qed
  qed
qed simp

text \<open>After the loop over the validators each of them has unbonding height zero, and is jailed when it was
  jailed before or a list of addresses was given and it is not in it; no other validator is touched.\<close>

theorem export_jails_exactly:
  assumes "staking_laws sk" "distinct as" "allowed_addresses cdc jailAllowedAddrs (\<lambda>_. False) = Ok allowed"
    and "reset_validators sk (length jailAllowedAddrs > 0) allowed as w = (Ok (), w')"
  shows "\<forall>a. if a \<in> set as then (\<exists>v t. GetValidator sk w a = Ok v \<and> BytesToString (StakingAddressCodec sk) a = Ok t
        \<and> GetValidator sk w' a = Ok (v\<lparr>val_UnbondingHeight := 0,
             val_Jailed := val_Jailed v \<or> (jailAllowedAddrs \<noteq> [] \<and> t \<notin> set jailAllowedAddrs)\<rparr>))
      else GetValidator sk w' a = GetValidator sk w a"
proof -
  have allowed: "allowed = (\<lambda>a. a \<in> set jailAllowedAddrs)" using allowed_addresses_Ok [OF assms(3)] by simp
  show ?thesis using reset_loop [OF assms(1,2,4)] unfolding allowed length_greater_0_conv .
qed

section \<open>Concrete instances\<close>

text \<open>
  A chain of two validators in memory: the validators by address, their outstanding rewards and the
  community pool. An address is any text but the empty one.
\<close>

record MemStake =
  ms_validators :: "bytes \<Rightarrow> Validator res"
  ms_rewards :: "bytes \<Rightarrow> DecCoins res"
  ms_pool :: FeePool

definition memCodec :: AddressCodec where
  "memCodec = \<lparr>StringToBytes = (\<lambda>s. if s = '''' then Err ErrInvalidAddress else Ok s), BytesToString = Ok\<rparr>"

definition val_a :: Validator where
  "val_a = \<lparr>val_OperatorAddress = ''a'', val_Jailed = False, val_UnbondingHeight = 7, val_Tokens = 3\<rparr>"
definition val_b :: Validator where
  "val_b = \<lparr>val_OperatorAddress = ''b'', val_Jailed = False, val_UnbondingHeight = 0, val_Tokens = 2\<rparr>"

definition stored_validator :: "MemStake \<Rightarrow> bytes \<Rightarrow> Validator res" where
  "stored_validator w a = (case ms_validators w a of
     Ok v \<Rightarrow> if val_OperatorAddress v = a \<and> a \<noteq> [] then Ok v else Err ErrNotFound | r \<Rightarrow> r)"

definition memStaking :: "MemStake StakingKeeper" where
  "memStaking = \<lparr>StakingAddressCodec = memCodec, IterateValidators = (\<lambda>f. iterate 0 f [val_a, val_b]),
     GetAllDelegations = (\<lambda>_. Ok []), IterateRedelegations = (\<lambda>f. iterate 0 f []), SetRedelegation = (\<lambda>_. ret ()),
     IterateUnbondingDelegations = (\<lambda>f. iterate 0 f []), SetUnbondingDelegation = (\<lambda>_. ret ()),
     GetValidator = stored_validator,
     SetValidator = (\<lambda>v. if val_OperatorAddress v = '''' then throw ErrInvalidAddress
       else modify (\<lambda>w. w\<lparr>ms_validators := (ms_validators w)(val_OperatorAddress v := Ok v)\<rparr>)),
     ApplyAndReturnValidatorSetUpdates = ret ()\<rparr>"

definition memDistr :: "MemStake DistrKeeper" where
  "memDistr = \<lparr>WithdrawValidatorCommission = (\<lambda>_. ret ()), WithdrawDelegationRewards = (\<lambda>_ _. ret ()),
     DeleteAllValidatorSlashEvents = id, DeleteAllValidatorHistoricalRewards = id,
     GetValidatorOutstandingRewardsCoins = ms_rewards, FeePoolGet = (\<lambda>w. Ok (ms_pool w)),
     FeePoolSet = (\<lambda>p. modify (\<lambda>w. w\<lparr>ms_pool := p\<rparr>)),
     AfterValidatorCreated = (\<lambda>a. modify (\<lambda>w. w\<lparr>ms_rewards := (ms_rewards w)(a := Ok (\<lambda>_. 0))\<rparr>)),
     BeforeDelegationCreated = (\<lambda>_ _. ret ()), AfterDelegationModified = (\<lambda>_ _. ret ()),
     DecCoinsAdd = (\<lambda>a b. Ok (\<lambda>d. a d + b d))\<rparr>"

definition stake0 :: MemStake where
  "stake0 = \<lparr>ms_validators = (\<lambda>a. if a = ''a'' then Ok val_a else if a = ''b'' then Ok val_b else Err ErrNotFound),
     ms_rewards = (\<lambda>a. Ok (\<lambda>d. if a = ''a'' then 5 else 8)), ms_pool = \<lparr>CommunityPool = \<lambda>d. 100\<rparr>\<rparr>"

lemma memStaking_fields [simp]:
  "StakingAddressCodec memStaking = memCodec" "GetValidator memStaking = stored_validator"
  "IterateValidators memStaking = (\<lambda>f. iterate 0 f [val_a, val_b])"
  "SetValidator memStaking v = (if val_OperatorAddress v = '''' then throw ErrInvalidAddress
       else modify (\<lambda>w. w\<lparr>ms_validators := (ms_validators w)(val_OperatorAddress v := Ok v)\<rparr>))"
  by (simp_all add: memStaking_def)

lemma memDistr_laws: "distr_laws memDistr"
  by (simp add: distr_laws_def memDistr_def)

definition memExport :: "(MemStake, unit, unit, unit) ExportApp" where
  "memExport = \<lparr>StakingKeeper = memStaking, DistrKeeper = memDistr,
     SlashingKeeper = \<lparr>IterateValidatorSigningInfos = (\<lambda>f. ret ()), SetValidatorSigningInfo = (\<lambda>_ _. ret ())\<rparr>,
     BlockHeight = (\<lambda>_. 9), WithBlockHeight = (\<lambda>_ w. w), RegistryValidatorCodec = memCodec,
     RegistryAddressCodec = memCodec, ValidatorsReverse = (\<lambda>_. [''b'', ''a'']), CloseIterator = (\<lambda>_. None),
     LogError = (\<lambda>_ w. w), LastBlockHeight = 9, NewContext = (\<lambda>_. stake0),
     ExportGenesisForModules = (\<lambda>_ _. Ok ()), MarshalIndent = (\<lambda>_. Ok ''{}''),
     WriteValidators = (\<lambda>_. ((), None)), GetConsensusParams = (\<lambda>_. ())\<rparr>"

theorem export_checks_addresses_first_witness:
  "is_panic (ExportAppStateAndValidators memExport True [''a'', ''''] [])"
proof -
  have "\<not> is_ok (StringToBytes (RegistryValidatorCodec memExport) '''')"
    by (simp add: memExport_def memCodec_def)
  from export_checks_addresses_first [OF _ this, of "[''a'', '''']"] show ?thesis by simp
qed

theorem reinit_donates_rewards_witness:
  "\<exists>w'. IterateValidators memStaking (reinit_validator memStaking memDistr) stake0 = (Ok (), w')
    \<and> ms_pool w' = \<lparr>CommunityPool = \<lambda>d. 113\<rparr>"
proof -
  obtain w' where w': "IterateValidators memStaking (reinit_validator memStaking memDistr) stake0 = (Ok (), w')"
    by (simp add: reinit_validator_def memCodec_def memDistr_def val_a_def val_b_def stake0_def must_def bindA_def)
  have it: "iterates (IterateValidators memStaking) (\<lambda>_. [val_a, val_b])" by (simp add: iterates_def)
  have pool: "FeePoolGet memDistr stake0 = Ok \<lparr>CommunityPool = \<lambda>d. 100\<rparr>" by (simp add: memDistr_def stake0_def)
  have out: "\<forall>v \<in> set [val_a, val_b]. StringToBytes (StakingAddressCodec memStaking) (val_OperatorAddress v) = Ok (val_OperatorAddress v)
      \<and> GetValidatorOutstandingRewardsCoins memDistr stake0 (val_OperatorAddress v)
        = Ok (\<lambda>d. if val_OperatorAddress v = ''a'' then 5 else 8)"
    by (simp add: memCodec_def memDistr_def stake0_def val_a_def val_b_def)
  have "distinct (map val_OperatorAddress [val_a, val_b])" by (simp add: val_a_def val_b_def)
  from reinit_donates_rewards [OF memDistr_laws it pool out this w'] w'
  show ?thesis by (simp add: memDistr_def val_a_def val_b_def)
qed

theorem export_jails_exactly_witness:
  "\<exists>w' v. reset_validators memStaking True (\<lambda>a. a = ''b'') [''b'', ''a''] stake0 = (Ok (), w')
    \<and> stored_validator w' ''a'' = Ok v \<and> val_Jailed v \<and> val_UnbondingHeight v = 0"
proof -
  obtain w' where w': "reset_validators memStaking True (\<lambda>a. a = ''b'') [''b'', ''a''] stake0 = (Ok (), w')"
    by (simp add: expected_validator_def stored_validator_def memCodec_def val_a_def val_b_def stake0_def must_def bindA_def Let_def)
  have laws: "staking_laws memStaking"
    by (auto simp: staking_laws_def memCodec_def stored_validator_def fun_eq_iff split: res.splits if_splits)
  have allowed: "allowed_addresses memCodec [''b''] (\<lambda>_. False) = Ok (\<lambda>a. a = ''b'')"
    by (simp add: memCodec_def) (rule ext, simp)
  have w: "reset_validators memStaking (length [''b''] > 0) (\<lambda>a. a = ''b'') [''b'', ''a''] stake0 = (Ok (), w')"
    using w' by simp
  have "\<exists>v t. BytesToString memCodec ''a'' = Ok t \<and> stored_validator w' ''a'' = Ok (v\<lparr>val_UnbondingHeight := 0,
      val_Jailed := val_Jailed v \<or> ([''b''] \<noteq> [] \<and> t \<notin> set [''b''])\<rparr>)"
    using export_jails_exactly [OF laws _ allowed w, THEN spec, of "''a''"] by auto
  then obtain v where "stored_validator w' ''a'' = Ok (v\<lparr>val_UnbondingHeight := 0, val_Jailed := True\<rparr>)"
    by (auto simp: memCodec_def)
  with w' show ?thesis by (intro exI conjI) (assumption, assumption, simp_all)
qed

end
