(* ===== verification/InPlaceTestnet.thy ===== *)
theory InPlaceTestnet
  imports AppConfig
begin

text \<open>
  The in-place testnet of the daemon (cmd/lumiwave-protocold/cmd/testnet.go): \<open>getCommandArgs\<close> reads the
  options of the command and \<open>initAppForTestnet\<close> takes the state of a running chain and replaces its
  validators by one that the operator has the key of.

  The keepers of the SDK are the fields of \<open>TestnetApp\<close>; the keys of the options are constructors of
  \<open>OptKey\<close>. An iterator of the staking store gives the keys it visits. \<open>handleErr\<close> ends the process:
  that is a \<open>Panic\<close> with the error's text.

  What is shown: the four groups of keys of the old validators are gone when the new one is written; an
  account to fund gets its coins; and without the flag for these accounts the process always ends with
  an error, because splitting the empty text gives one empty address.
\<close>

section \<open>The options\<close>

datatype OptKey = KeyNewValAddr | KeyUserPubKey | KeyNewOpAddr | KeyTriggerTestnetUpgrade
  | FlagAccountsToFund | FlagHome

datatype AppOpt = OptNil | OptHexBytes bytes | OptPubKey bytes | OptString string

record valArgs =
  newValAddr :: bytes
  newOperatorAddress :: string
  newValPubKey :: bytes
  accountsToFund :: "string list"
  upgradeToTrigger :: string
  homeDir :: string

definition valArgs_zero :: valArgs where
  "valArgs_zero = \<lparr>newValAddr = [], newOperatorAddress = '''', newValPubKey = [], accountsToFund = [],
     upgradeToTrigger = '''', homeDir = ''''\<rparr>"

text \<open>
  The type assertions are the cases of \<open>AppOpt\<close>. \<open>castToString\<close> is \<open>cast.ToString\<close>: a text is itself and
  nil is the empty text.
\<close>

definition cast_laws :: "(AppOpt \<Rightarrow> string) \<Rightarrow> bool" where
  "cast_laws castToString \<longleftrightarrow> castToString OptNil = '''' \<and> (\<forall>s. castToString (OptString s) = s)"

definition getCommandArgs :: "(AppOpt \<Rightarrow> string) \<Rightarrow> (OptKey \<Rightarrow> AppOpt) \<Rightarrow> valArgs res" where
  "getCommandArgs castToString appOpts =
     (let args = valArgs_zero in
      case appOpts KeyNewValAddr of OptHexBytes addr \<Rightarrow>
        (let args = args\<lparr>newValAddr := addr\<rparr> in
         case appOpts KeyUserPubKey of OptPubKey pk \<Rightarrow>
           (let args = args\<lparr>newValPubKey := pk\<rparr> in
            case appOpts KeyNewOpAddr of OptString op \<Rightarrow>
              (let args = args\<lparr>newOperatorAddress := op\<rparr> in
               case appOpts KeyTriggerTestnetUpgrade of OptString up \<Rightarrow>
                 (let args = args\<lparr>upgradeToTrigger := up\<rparr>;
                      accountsString = castToString (appOpts FlagAccountsToFund);
                      args = args\<lparr>accountsToFund := accountsToFund args @ Split accountsString CHR '',''\<rparr>;
                      home = castToString (appOpts FlagHome)
                  in if home = '''' then Err (Errorf ''invalid home dir'')
                     else Ok (args\<lparr>homeDir := home\<rparr>))
               | _ \<Rightarrow> Err (Errorf ''upgradeToTrigger is not of type string''))
            | _ \<Rightarrow> Err (Errorf ''newOperatorAddress is not of type string''))
         | _ \<Rightarrow> Err (Errorf ''newValPubKey is not of type crypto.PubKey''))
      | _ \<Rightarrow> Err (Errorf ''newValAddr is not of type bytes.HexBytes''))"

section \<open>The app\<close>

definition valVotingPower :: int where "valVotingPower = 900000000000000"

text \<open>The fields of the validator that are set; the decimals are in units of \<open>10 ^ -18\<close>.\<close>

record NewValidator =
  nv_OperatorAddress :: string
  nv_ConsensusPubkey :: bytes
  nv_Jailed :: bool
  nv_Bonded :: bool
  nv_Tokens :: int
  nv_DelegatorShares :: dec
  nv_Moniker :: string
  nv_Rate :: dec
  nv_MaxRate :: dec
  nv_MaxChangeRate :: dec
  nv_MinSelfDelegation :: int

record NewSigningInfo =
  nsi_Address :: string
  nsi_StartHeight :: int
  nsi_Tombstoned :: bool

record 'w TestnetApp =
  NewAny :: "bytes \<Rightarrow> bytes res"
  ta_DecLib :: DecLib
  ta_ValidatorCodec :: AddressCodec
  ta_AccountCodec :: AddressCodec
  PowerStoreKeys :: "'w \<Rightarrow> bytes list res"
  LastValidatorsKeys :: "'w \<Rightarrow> bytes list res"
  PrefixKeys :: "'w \<Rightarrow> bytes \<Rightarrow> bytes list"
  ValidatorsKey :: bytes
  ValidatorQueueKey :: bytes
  StakingDelete :: "bytes \<Rightarrow> 'w \<Rightarrow> 'w"
  ta_SetValidator :: "NewValidator \<Rightarrow> ('w, unit) act"
  SetValidatorByConsAddr :: "NewValidator \<Rightarrow> ('w, unit) act"
  SetValidatorByPowerIndex :: "NewValidator \<Rightarrow> ('w, unit) act"
  SetLastValidatorPower :: "bytes \<Rightarrow> int \<Rightarrow> ('w, unit) act"
  ta_AfterValidatorCreated :: "bytes \<Rightarrow> ('w, unit) act"
  SetValidatorHistoricalRewards :: "bytes \<Rightarrow> int \<Rightarrow> int \<Rightarrow> ('w, unit) act"
  SetValidatorCurrentRewards :: "bytes \<Rightarrow> int \<Rightarrow> ('w, unit) act"
  SetValidatorAccumulatedCommission :: "bytes \<Rightarrow> ('w, unit) act"
  SetValidatorOutstandingRewards :: "bytes \<Rightarrow> ('w, unit) act"
  ta_LastBlockHeight :: "'w \<Rightarrow> int"
  ConsAddressString :: "bytes \<Rightarrow> string res"
  ta_SetSigningInfo :: "bytes \<Rightarrow> NewSigningInfo \<Rightarrow> ('w, unit) act"
  BondDenom :: "'w \<Rightarrow> string res"
  ta_NewCoins :: "Coin list \<Rightarrow> Coin list res"
  ta_MintCoins :: "Coin list \<Rightarrow> ('w, unit) act"
  ta_SendFromMint :: "bytes \<Rightarrow> Coin list \<Rightarrow> ('w, unit) act"

definition handleErr :: "('w, 'a) act \<Rightarrow> ('w, 'a) act" where
  "handleErr m = must ''exit status 1: '' m"

text \<open>A loop over an iterator that deletes the keys it visits.\<close>

fun delete_keys :: "'w TestnetApp \<Rightarrow> bytes list \<Rightarrow> ('w, unit) act" where
  "delete_keys app [] = ret ()"
| "delete_keys app (key # keys) = bindA (modify (StakingDelete app key)) (\<lambda>_. delete_keys app keys)"

fun fund_accounts :: "'w TestnetApp \<Rightarrow> Coin list \<Rightarrow> string list \<Rightarrow> ('w, unit) act" where
  "fund_accounts app defaultCoins [] = ret ()"
| "fund_accounts app defaultCoins (accountStr # accounts) =
     bindA (handleErr (ta_MintCoins app defaultCoins)) (\<lambda>_.
     bindA (handleErr (lift (StringToBytes (ta_AccountCodec app) accountStr))) (\<lambda>account.
     bindA (handleErr (ta_SendFromMint app account defaultCoins)) (\<lambda>_.
     fund_accounts app defaultCoins accounts)))"

definition remove_validators :: "'w TestnetApp \<Rightarrow> ('w, unit) act" where
  "remove_validators app =
     bindA (handleErr (query (PowerStoreKeys app))) (\<lambda>keys.
     bindA (delete_keys app keys) (\<lambda>_.
     bindA (handleErr (query (LastValidatorsKeys app))) (\<lambda>keys.
     bindA (delete_keys app keys) (\<lambda>_.
     bindA (gets (\<lambda>w. PrefixKeys app w (ValidatorsKey app))) (\<lambda>keys.
     bindA (delete_keys app keys) (\<lambda>_.
     bindA (gets (\<lambda>w. PrefixKeys app w (ValidatorQueueKey app))) (\<lambda>keys.
     delete_keys app keys)))))))"

definition add_validator :: "'w TestnetApp \<Rightarrow> valArgs \<Rightarrow> NewValidator \<Rightarrow> bytes \<Rightarrow> ('w, unit) act" where
  "add_validator app args newVal validator =
     bindA (handleErr (ta_SetValidator app newVal)) (\<lambda>_.
     bindA (handleErr (SetValidatorByConsAddr app newVal)) (\<lambda>_.
     bindA (handleErr (SetValidatorByPowerIndex app newVal)) (\<lambda>_.
     bindA (handleErr (SetLastValidatorPower app validator 0)) (\<lambda>_.
     bindA (handleErr (ta_AfterValidatorCreated app validator)) (\<lambda>_.
     bindA (handleErr (SetValidatorHistoricalRewards app validator 0 1)) (\<lambda>_.
     bindA (handleErr (SetValidatorCurrentRewards app validator 1)) (\<lambda>_.
     bindA (handleErr (SetValidatorAccumulatedCommission app validator)) (\<lambda>_.
     bindA (handleErr (SetValidatorOutstandingRewards app validator)) (\<lambda>_.
     let newConsAddr = newValAddr args in
     bindA (lift (ConsAddressString app newConsAddr)) (\<lambda>newConsAddrStr.
     bindA (gets (ta_LastBlockHeight app)) (\<lambda>height.
     ignore (ta_SetSigningInfo app newConsAddr
       \<lparr>nsi_Address = newConsAddrStr, nsi_StartHeight = wrap64 (height - 1), nsi_Tombstoned = False\<rparr>))))))))))))"

definition initAppForTestnet :: "'w TestnetApp \<Rightarrow> valArgs \<Rightarrow> ('w, unit) act" where
  "initAppForTestnet app args =
     bindA (handleErr (lift (NewAny app (newValPubKey args)))) (\<lambda>pubkeyAny.
     bindA (lift (LegacyMustNewDecFromStr (ta_DecLib app) ''10000000'')) (\<lambda>shares.
     bindA (lift (LegacyMustNewDecFromStr (ta_DecLib app) ''0.05'')) (\<lambda>rate.
     bindA (lift (LegacyMustNewDecFromStr (ta_DecLib app) ''0.1'')) (\<lambda>maxRate.
     bindA (lift (LegacyMustNewDecFromStr (ta_DecLib app) ''0.05'')) (\<lambda>maxChangeRate.
     let newVal = \<lparr>nv_OperatorAddress = newOperatorAddress args, nv_ConsensusPubkey = pubkeyAny,
           nv_Jailed = False, nv_Bonded = True, nv_Tokens = valVotingPower, nv_DelegatorShares = shares,
           nv_Moniker = ''Testnet Validator'', nv_Rate = rate, nv_MaxRate = maxRate,
           nv_MaxChangeRate = maxChangeRate, nv_MinSelfDelegation = 1\<rparr> in
     bindA (handleErr (lift (StringToBytes (ta_ValidatorCodec app) (nv_OperatorAddress newVal)))) (\<lambda>validator.
     bindA (remove_validators app) (\<lambda>_.
     bindA (add_validator app args newVal validator) (\<lambda>_.
     bindA (handleErr (query (BondDenom app))) (\<lambda>bondDenom.
     bindA (lift (ta_NewCoins app [\<lparr>coin_denom = bondDenom, coin_amount = 1000000000\<rparr>])) (\<lambda>defaultCoins.
     fund_accounts app defaultCoins (accountsToFund args)))))))))))"

definition newTestnetApp :: "(AppOpt \<Rightarrow> string) \<Rightarrow> (OptKey \<Rightarrow> AppOpt) \<Rightarrow> 'w TestnetApp \<Rightarrow> ('w, unit) act" where
  "newTestnetApp castToString appOpts app =
     bindA (must '''' (lift (getCommandArgs castToString appOpts))) (initAppForTestnet app)"

section \<open>Properties\<close>

text \<open>
  The keys of the staking store; an iterator visits the keys under its prefix, deleting takes one away.
\<close>

definition staking_store_laws :: "'w TestnetApp \<Rightarrow> ('w \<Rightarrow> bytes set) \<Rightarrow> bytes \<Rightarrow> bytes \<Rightarrow> bool" where
  "staking_store_laws app keys powerPrefix lastPrefix \<longleftrightarrow>
     (\<forall>k w. keys (StakingDelete app k w) = keys w - {k})
     \<and> (\<forall>w ks. PowerStoreKeys app w = Ok ks \<longrightarrow> set ks = {k \<in> keys w. HasPrefix k powerPrefix})
     \<and> (\<forall>w ks. LastValidatorsKeys app w = Ok ks \<longrightarrow> set ks = {k \<in> keys w. HasPrefix k lastPrefix})
     \<and> (\<forall>w p. set (PrefixKeys app w p) = {k \<in> keys w. HasPrefix k p})"

lemma delete_keys_run:
  assumes "staking_store_laws app keys pp lp"
  shows "\<exists>w'. delete_keys app ks w = (Ok (), w') \<and> keys w' = keys w - set ks"
proof (induction ks arbitrary: w)
  case (Cons k ks)
  have "keys (StakingDelete app k w) = keys w - {k}" using assms by (simp add: staking_store_laws_def)
  with Cons.IH [of "StakingDelete app k w"] show ?case by auto
qed simp

text \<open>The old validators are gone before the new one is written: of the staking store, exactly the keys
  of the power index, the last validators, the validators and the unbonding queue are deleted.\<close>

theorem old_validators_removed:
  assumes "staking_store_laws app keys powerPrefix lastPrefix" "remove_validators app w = (Ok (), w')"
  shows "keys w' = {k \<in> keys w. \<not> HasPrefix k powerPrefix \<and> \<not> HasPrefix k lastPrefix
    \<and> \<not> HasPrefix k (ValidatorsKey app) \<and> \<not> HasPrefix k (ValidatorQueueKey app)}"
proof -
  note del = delete_keys_run [OF assms(1)]
  from assms(2) obtain ks1 w1 where 1: "PowerStoreKeys app w = Ok ks1" "delete_keys app ks1 w = (Ok (), w1)"
    and r1: "bindA (handleErr (query (LastValidatorsKeys app))) (\<lambda>keys.
     bindA (delete_keys app keys) (\<lambda>_.
     bindA (gets (\<lambda>w. PrefixKeys app w (ValidatorsKey app))) (\<lambda>keys.
     bindA (delete_keys app keys) (\<lambda>_.
     bindA (gets (\<lambda>w. PrefixKeys app w (ValidatorQueueKey app))) (\<lambda>keys.
     delete_keys app keys))))) w1 = (Ok (), w')"
    by (auto simp: remove_validators_def handleErr_def bindA_Ok_iff)
  from r1 obtain ks2 w2 where 2: "LastValidatorsKeys app w1 = Ok ks2" "delete_keys app ks2 w1 = (Ok (), w2)"
    and r2: "bindA (gets (\<lambda>w. PrefixKeys app w (ValidatorsKey app))) (\<lambda>keys.
     bindA (delete_keys app keys) (\<lambda>_.
     bindA (gets (\<lambda>w. PrefixKeys app w (ValidatorQueueKey app))) (\<lambda>keys.
     delete_keys app keys))) w2 = (Ok (), w')"
    by (auto simp: handleErr_def bindA_Ok_iff)
  from r2 obtain w3 where 3: "delete_keys app (PrefixKeys app w2 (ValidatorsKey app)) w2 = (Ok (), w3)"
    "delete_keys app (PrefixKeys app w3 (ValidatorQueueKey app)) w3 = (Ok (), w')"
    by (auto simp: bindA_Ok_iff)
  have "keys w1 = keys w - set ks1" "keys w2 = keys w1 - set ks2"
    "keys w3 = keys w2 - set (PrefixKeys app w2 (ValidatorsKey app))"
    "keys w' = keys w3 - set (PrefixKeys app w3 (ValidatorQueueKey app))"
    using del 1(2) 2(2) 3 by (metis prod.inject)+
  moreover have "set ks1 = {k \<in> keys w. HasPrefix k powerPrefix}" "set ks2 = {k \<in> keys w1. HasPrefix k lastPrefix}"
    "set (PrefixKeys app w2 p) = {k \<in> keys w2. HasPrefix k p}" "set (PrefixKeys app w3 p) = {k \<in> keys w3. HasPrefix k p}" for p
    using assms(1) 1(1) 2(1) by (simp_all add: staking_store_laws_def)
  ultimately show ?thesis by auto
qed

lemma fund_accounts_bad:
  assumes "a \<in> set accounts" "\<not> is_ok (StringToBytes (ta_AccountCodec app) a)"
  shows "fund_accounts app coins accounts w \<noteq> (Ok (), w')"
  using assms(1)
proof (induction accounts arbitrary: w)
  case (Cons b bs)
  then show ?case using assms(2)
    by (cases "StringToBytes (ta_AccountCodec app) b") (auto simp: handleErr_def bindA_Ok_iff)
qed simp

lemma getCommandArgs_accounts:
  "getCommandArgs castToString appOpts = Ok args \<Longrightarrow>
     accountsToFund args = Split (castToString (appOpts FlagAccountsToFund)) CHR '',''"
  by (auto simp: getCommandArgs_def Let_def valArgs_zero_def split: AppOpt.splits if_splits)

text \<open>C29. Without the flag for the accounts to fund (or with an empty one) the in-place testnet never comes up:
  splitting the empty text gives one account, the empty address, which no codec decodes.\<close>

theorem testnet_without_accounts_fails:
  assumes "cast_laws castToString" "appOpts FlagAccountsToFund = OptNil \<or> appOpts FlagAccountsToFund = OptString ''''"
    and "\<not> is_ok (StringToBytes (ta_AccountCodec app) '''')"
  shows "\<not> is_ok (fst (newTestnetApp castToString appOpts app w))"
proof
  assume "is_ok (fst (newTestnetApp castToString appOpts app w))"
  then obtain w' where "newTestnetApp castToString appOpts app w = (Ok (), w')"
    by (cases "newTestnetApp castToString appOpts app w"; cases "fst (newTestnetApp castToString appOpts app w)") auto
  then obtain args where args: "getCommandArgs castToString appOpts = Ok args" "initAppForTestnet app args w = (Ok (), w')"
    by (auto simp: newTestnetApp_def bindA_Ok_iff)
  have "accountsToFund args = ['''']"
    using getCommandArgs_accounts [OF args(1)] assms(1,2) by (auto simp: cast_laws_def)
  moreover obtain coins w1 where "fund_accounts app coins (accountsToFund args) w1 = (Ok (), w')"
    using args(2) by (auto simp: initAppForTestnet_def Let_def bindA_Ok_iff)
  ultimately show False using fund_accounts_bad [OF _ assms(3), of "accountsToFund args"] by simp
qed

section \<open>Concrete instances\<close>

text \<open>An app whose state is the list of the keys of the staking store.\<close>

definition memTestnet :: "bytes list TestnetApp" where
  "memTestnet = \<lparr>NewAny = Ok, ta_DecLib = memDec,
     ta_ValidatorCodec = \<lparr>StringToBytes = Ok, BytesToString = Ok\<rparr>,
     ta_AccountCodec = \<lparr>StringToBytes = (\<lambda>s. if s = '''' then Err ErrInvalidAddress else Ok s), BytesToString = Ok\<rparr>,
     PowerStoreKeys = (\<lambda>w. Ok (filter (\<lambda>k. HasPrefix k ''p'') w)),
     LastValidatorsKeys = (\<lambda>w. Ok (filter (\<lambda>k. HasPrefix k ''l'') w)),
     PrefixKeys = (\<lambda>w p. filter (\<lambda>k. HasPrefix k p) w), ValidatorsKey = ''v'', ValidatorQueueKey = ''q'',
     StakingDelete = (\<lambda>k w. filter (\<lambda>k'. k' \<noteq> k) w),
     ta_SetValidator = (\<lambda>v. modify (\<lambda>w. (''v'' @ nv_OperatorAddress v) # w)),
     SetValidatorByConsAddr = (\<lambda>_. ret ()), SetValidatorByPowerIndex = (\<lambda>_. ret ()),
     SetLastValidatorPower = (\<lambda>_ _. ret ()), ta_AfterValidatorCreated = (\<lambda>_. ret ()),
     SetValidatorHistoricalRewards = (\<lambda>_ _ _. ret ()), SetValidatorCurrentRewards = (\<lambda>_ _. ret ()),
     SetValidatorAccumulatedCommission = (\<lambda>_. ret ()), SetValidatorOutstandingRewards = (\<lambda>_. ret ()),
     ta_LastBlockHeight = (\<lambda>_. 5), ConsAddressString = (\<lambda>a. Ok (''lumivalcons1'' @ a)), ta_SetSigningInfo = (\<lambda>_ _. ret ()), BondDenom = (\<lambda>_. Ok ''ulumi''),
     ta_NewCoins = Ok, ta_MintCoins = (\<lambda>_. ret ()), ta_SendFromMint = (\<lambda>_ _. ret ())\<rparr>"

theorem old_validators_removed_witness:
  "\<exists>w'. remove_validators memTestnet [''pa'', ''la'', ''va'', ''d'', ''vb''] = (Ok (), w') \<and> set w' = {''d''}"
proof -
  have laws: "staking_store_laws memTestnet set ''p'' ''l''"
    by (auto simp: staking_store_laws_def memTestnet_def)
  obtain w' where w': "remove_validators memTestnet [''pa'', ''la'', ''va'', ''d'', ''vb''] = (Ok (), w')"
  proof
    show "remove_validators memTestnet [''pa'', ''la'', ''va'', ''d'', ''vb''] = (Ok (), [''d''])"
      by code_simp
  qed
  have keys: "ValidatorsKey memTestnet = ''v''" "ValidatorQueueKey memTestnet = ''q''" by (simp_all add: memTestnet_def)
  have "set w' = {''d''}"
    unfolding old_validators_removed [OF laws w'] keys by (auto simp: HasPrefix_def)
  with w' show ?thesis by blast
qed

definition no_accounts :: "OptKey \<Rightarrow> AppOpt" where
  "no_accounts key = (case key of KeyNewValAddr \<Rightarrow> OptHexBytes ''addr'' | KeyUserPubKey \<Rightarrow> OptPubKey ''key''
     | KeyNewOpAddr \<Rightarrow> OptString ''lumivaloper1'' | KeyTriggerTestnetUpgrade \<Rightarrow> OptString ''''
     | FlagAccountsToFund \<Rightarrow> OptString '''' | FlagHome \<Rightarrow> OptString ''/home'')"

theorem testnet_without_accounts_fails_witness:
  "\<not> is_ok (fst (newTestnetApp (\<lambda>v. case v of OptString s \<Rightarrow> s | _ \<Rightarrow> '''') no_accounts memTestnet []))"
  by (rule testnet_without_accounts_fails) (simp_all add: cast_laws_def no_accounts_def memTestnet_def)

end
