(* ===== verification/Daemon.thy ===== *)
theory Daemon
  imports AppModules Export InPlaceTestnet LumiKeeper
begin

text \<open>
  The daemon (cmd/lumiwave-protocold: main.go, cmd/root.go, cmd/commands.go, cmd/config.go): the root
  command and its subcommands, the preparation of a command's context, \<open>newApp\<close> and \<open>appExport\<close>, which
  build the app of \<open>AppWiring\<close>; and the descriptions that x/lumiwaveprotocol gives of itself to the
  command line (module/autocli.go) and to simulations (module/simulation.go).

  The commands of the SDK are the fields of \<open>CmdLib\<close>, over an arbitrary type \<open>'cmd\<close> of commands. What is
  shown: an export at a height is the genesis of the next height, without a home directory no app is
  built, and the order in which Go visits the map of modules does not matter.
\<close>

section \<open>Configuration\<close>

definition nl :: string where "nl = [CHR 0x0A]"

definition wasm_template :: string where
  "wasm_template =
     nl @ ''[wasm]'' @
     nl @ ''# Smart query gas limit is the max gas to be used in a smart query contract call'' @
     nl @ ''query_gas_limit = 3000000'' @ nl @
     nl @ ''# in-memory cache for Wasm contracts. Set to 0 to disable.'' @
     nl @ ''# The value is in MiB not bytes'' @
     nl @ ''memory_cache_size = 100'' @ nl @
     nl @ ''# Simulation gas limit is the max gas to be used in a tx simulation call.'' @
     nl @ ''# When not set the consensus max block gas is used instead'' @
     nl @ ''# simulation_gas_limit =''"

text \<open>\<open>CustomAppConfig\<close> embeds the configuration of the server and adds nothing.\<close>

definition initAppConfig :: "string \<Rightarrow> 'scfg \<Rightarrow> string \<times> 'scfg" where
  "initAppConfig DefaultConfigTemplate DefaultConfig =
     (let customAppConfig = DefaultConfig;
          customAppTemplate = DefaultConfigTemplate @ wasm_template
      in (customAppTemplate, customAppConfig))"

definition initCometBFTConfig :: "'ccfg \<Rightarrow> 'ccfg" where
  "initCometBFTConfig DefaultConfig = DefaultConfig"

section \<open>The app of a command\<close>

text \<open>
  \<open>libs\<close> are the libraries of \<open>New\<close> for a database, a trace store and the options of the base app;
  \<open>'r\<close> is the state of the runtime app that is built.
\<close>

record ('w, 'r, 'opts, 'x, 'gen, 'vals, 'cp) ExportLib =
  OptsGet :: "'opts \<Rightarrow> OptKey \<Rightarrow> AppOpt"
  AsViper :: "'opts \<Rightarrow> 'opts option"
  LoadHeight :: "int \<Rightarrow> ('r, unit) act"
  ExportView :: "('w, 'r) App \<Rightarrow> 'r \<Rightarrow> ('x, 'gen, 'vals, 'cp) ExportApp"

definition newApp :: "('db \<Rightarrow> 'ts \<Rightarrow> 'bo list \<Rightarrow> ('w, 'r, 'cfg, 'opts) Libs) \<Rightarrow> (ModName \<Rightarrow> string) \<Rightarrow>
    (Permission \<Rightarrow> string) \<Rightarrow> ('opts \<Rightarrow> 'bo list) \<Rightarrow> 'db \<Rightarrow> 'ts \<Rightarrow> 'opts \<Rightarrow> ('r, ('w, 'r) App) act" where
  "newApp libs mod_text perm_text DefaultBaseappOptions db traceStore appOpts =
     (let baseappOptions = DefaultBaseappOptions appOpts
      in New (libs db traceStore baseappOptions) mod_text perm_text True appOpts)"

definition appExport :: "('w, 'r, 'opts, 'x, 'gen, 'vals, 'cp) ExportLib \<Rightarrow>
    ('db \<Rightarrow> 'ts \<Rightarrow> 'bo list \<Rightarrow> ('w, 'r, 'cfg, 'opts) Libs) \<Rightarrow> (ModName \<Rightarrow> string) \<Rightarrow> (Permission \<Rightarrow> string) \<Rightarrow>
    'db \<Rightarrow> 'ts \<Rightarrow> int \<Rightarrow> bool \<Rightarrow> string list \<Rightarrow> 'opts \<Rightarrow> string list \<Rightarrow> ('r, ('vals, 'cp) exported) act" where
  "appExport E libs mod_text perm_text db traceStore height forZeroHeight jailAllowedAddrs appOpts modulesToExport =
     (case OptsGet E appOpts FlagHome of
        OptString homePath \<Rightarrow>
          if homePath = '''' then throw (Errorf ''application home not set'')
          else (case AsViper E appOpts of
             None \<Rightarrow> throw (Errorf ''appOpts is not viper.Viper'')
           | Some viperAppOpts \<Rightarrow>
             bindA
               (if height \<noteq> -1
                then bindA (New (libs db traceStore []) mod_text perm_text False viperAppOpts) (\<lambda>bApp.
                     bindA (LoadHeight E height) (\<lambda>_. ret bApp))
                else New (libs db traceStore []) mod_text perm_text True viperAppOpts) (\<lambda>bApp.
             query (\<lambda>r. ExportAppStateAndValidators (ExportView E bApp r) forZeroHeight jailAllowedAddrs modulesToExport)))
      | _ \<Rightarrow> throw (Errorf ''application home not set''))"

section \<open>Commands\<close>

record CobraCommand =
  cb_Use :: string
  cb_Aliases :: "string list"
  cb_Short :: string
  cb_DisableFlagParsing :: bool
  cb_SuggestionsMinimumDistance :: int
  cb_RunE :: ref

text \<open>\<open>'bm\<close> is the manager of the modules, \<open>'tc\<close> the configuration of transactions, \<open>'na\<close> and \<open>'ae\<close> are the
  types of \<open>newApp\<close> and \<open>appExport\<close>.\<close>

datatype LibCmd = rpc_WaitTxCmd | rpc_ValidatorCommand | server_QueryBlockCmd | authcmd_QueryTxsByEventsCmd
  | server_QueryBlocksCmd | authcmd_QueryTxCmd | server_QueryBlockResultsCmd | authcmd_GetSignCommand
  | authcmd_GetSignBatchCommand | authcmd_GetMultiSignCommand | authcmd_GetMultiSignBatchCmd
  | authcmd_GetValidateSignaturesCommand | flags_LineBreak | authcmd_GetBroadcastCommand
  | authcmd_GetEncodeCommand | authcmd_GetDecodeCommand | authcmd_GetSimulateCmd | debug_Cmd
  | confixcmd_ConfigCommand | server_StatusCommand | keys_Commands

record ('cmd, 'bm, 'tc, 'na, 'ae) CmdLib =
  Lib :: "LibCmd \<Rightarrow> 'cmd"
  MkCommand :: "CobraCommand \<Rightarrow> 'cmd"
  AddCommand :: "'cmd \<Rightarrow> 'cmd list \<Rightarrow> 'cmd"
  genutilcli_InitCmd :: "'bm \<Rightarrow> string \<Rightarrow> 'cmd"
  NewInPlaceTestnetCmd :: 'cmd
  NewTestnetMultiNodeCmd :: "'bm \<Rightarrow> 'cmd"
  pruning_Cmd :: "'na \<Rightarrow> string \<Rightarrow> 'cmd"
  snapshot_Cmd :: "'na \<Rightarrow> 'cmd"
  AddCommandsWithStartCmdOptions :: "'cmd \<Rightarrow> string \<Rightarrow> 'na \<Rightarrow> 'ae \<Rightarrow> ('cmd \<Rightarrow> 'cmd) \<Rightarrow> 'cmd"
  wasm_AddModuleInitFlags :: "'cmd \<Rightarrow> 'cmd"
  genutilcli_Commands :: "'tc \<Rightarrow> 'bm \<Rightarrow> string \<Rightarrow> 'cmd"
  wasmcli_ExtendUnsafeResetAllCmd :: "'cmd \<Rightarrow> 'cmd"

definition addModuleInitFlags :: "('cmd, 'bm, 'tc, 'na, 'ae) CmdLib \<Rightarrow> 'cmd \<Rightarrow> 'cmd" where
  "addModuleInitFlags K startCmd = wasm_AddModuleInitFlags K startCmd"

definition queryCommand :: "('cmd, 'bm, 'tc, 'na, 'ae) CmdLib \<Rightarrow> 'cmd" where
  "queryCommand K = AddCommand K
     (MkCommand K \<lparr>cb_Use = ''query'', cb_Aliases = [''q''], cb_Short = ''Querying subcommands'',
        cb_DisableFlagParsing = False, cb_SuggestionsMinimumDistance = 2, cb_RunE = ''client.ValidateCmd''\<rparr>)
     (map (Lib K) [rpc_WaitTxCmd, rpc_ValidatorCommand, server_QueryBlockCmd, authcmd_QueryTxsByEventsCmd,
        server_QueryBlocksCmd, authcmd_QueryTxCmd, server_QueryBlockResultsCmd])"

definition txCommand :: "('cmd, 'bm, 'tc, 'na, 'ae) CmdLib \<Rightarrow> 'cmd" where
  "txCommand K = AddCommand K
     (MkCommand K \<lparr>cb_Use = ''tx'', cb_Aliases = [], cb_Short = ''Transactions subcommands'',
        cb_DisableFlagParsing = False, cb_SuggestionsMinimumDistance = 2, cb_RunE = ''client.ValidateCmd''\<rparr>)
     (map (Lib K) [authcmd_GetSignCommand, authcmd_GetSignBatchCommand, authcmd_GetMultiSignCommand,
        authcmd_GetMultiSignBatchCmd, authcmd_GetValidateSignaturesCommand, flags_LineBreak,
        authcmd_GetBroadcastCommand, authcmd_GetEncodeCommand, authcmd_GetDecodeCommand, authcmd_GetSimulateCmd])"

definition initRootCmd :: "('cmd, 'bm, 'tc, 'na, 'ae) CmdLib \<Rightarrow> string \<Rightarrow> 'na \<Rightarrow> 'ae \<Rightarrow> 'tc \<Rightarrow> 'bm \<Rightarrow> 'cmd \<Rightarrow> 'cmd" where
  "initRootCmd K DefaultNodeHome new_app app_export txConfig basicManager rootCmd =
     (let rootCmd = AddCommand K rootCmd
            [genutilcli_InitCmd K basicManager DefaultNodeHome,
             NewInPlaceTestnetCmd K,
             NewTestnetMultiNodeCmd K basicManager,
             Lib K debug_Cmd,
             Lib K confixcmd_ConfigCommand,
             pruning_Cmd K new_app DefaultNodeHome,
             snapshot_Cmd K new_app];
          rootCmd = AddCommandsWithStartCmdOptions K rootCmd DefaultNodeHome new_app app_export (addModuleInitFlags K);
          rootCmd = AddCommand K rootCmd
            [Lib K server_StatusCommand,
             genutilcli_Commands K txConfig basicManager DefaultNodeHome,
             queryCommand K,
             txCommand K,
             Lib K keys_Commands]
      in wasmcli_ExtendUnsafeResetAllCmd K rootCmd)"

section \<open>The root command\<close>

text \<open>
  \<open>'cc\<close> is the client context, a value; the root command is given the function that runs before every
  command. \<open>ReadFromClientConfig\<close> gives a context next to an error, which \<open>ProvideClientContext\<close> drops.
\<close>

record ('w, 'cc, 'cmd, 'scfg, 'ccfg) RootLib =
  EmptyContext :: 'cc
  WithCodec :: "ref \<Rightarrow> 'cc \<Rightarrow> 'cc"
  WithInterfaceRegistry :: "ref \<Rightarrow> 'cc \<Rightarrow> 'cc"
  WithLegacyAmino :: "ref \<Rightarrow> 'cc \<Rightarrow> 'cc"
  WithStdin :: "'cc \<Rightarrow> 'cc"
  WithAccountRetriever :: "'cc \<Rightarrow> 'cc"
  WithHomeDir :: "string \<Rightarrow> 'cc \<Rightarrow> 'cc"
  WithViper :: "string \<Rightarrow> 'cc \<Rightarrow> 'cc"
  WithTxConfig :: "ref \<Rightarrow> 'cc \<Rightarrow> 'cc"
  WithCmdContext :: "'cmd \<Rightarrow> 'cc \<Rightarrow> 'cc"
  CcTxConfig :: "'cc \<Rightarrow> ref"
  CcCodec :: "'cc \<Rightarrow> ref"
  NewGRPCCoinMetadataQueryFn :: "'cc \<Rightarrow> ref"
  NewTxConfigWithOptions :: "ref \<Rightarrow> ref \<Rightarrow> ref res"
  SetOutErr :: "'cmd \<Rightarrow> ('w, unit) act"
  ReadFromClientConfig :: "'cc \<Rightarrow> 'w \<Rightarrow> ('cc \<times> error option) \<times> 'w"
  ReadPersistentCommandFlags :: "'cc \<Rightarrow> 'cmd \<Rightarrow> ('w, 'cc) act"
  SetCmdClientContextHandler :: "'cc \<Rightarrow> 'cmd \<Rightarrow> ('w, unit) act"
  InterceptConfigsPreRunHandler :: "'cmd \<Rightarrow> string \<Rightarrow> 'scfg \<Rightarrow> 'ccfg \<Rightarrow> ('w, unit) act"
  DefaultConfigTemplate :: string
  DefaultServerConfig :: 'scfg
  DefaultCometConfig :: 'ccfg

text \<open>\<open>TextualCoinMetadataQueryFn\<close> is the only option that is set: \<open>txConfigOpts\<close> is a function of it.\<close>

definition ProvideClientContext :: "('w, 'cc, 'cmd, 'scfg, 'ccfg) RootLib \<Rightarrow> string \<Rightarrow> ref \<Rightarrow> ref \<Rightarrow> (ref \<Rightarrow> ref) \<Rightarrow>
    ref \<Rightarrow> ('w, 'cc) act" where
  "ProvideClientContext R DefaultNodeHome appCodec interfaceRegistry txConfigOpts legacyAmino =
     (let clientCtx = EmptyContext R;
          clientCtx = WithCodec R appCodec clientCtx;
          clientCtx = WithInterfaceRegistry R interfaceRegistry clientCtx;
          clientCtx = WithLegacyAmino R legacyAmino clientCtx;
          clientCtx = WithStdin R clientCtx;
          clientCtx = WithAccountRetriever R clientCtx;
          clientCtx = WithHomeDir R DefaultNodeHome clientCtx;
          clientCtx = WithViper R Name clientCtx in
      bindA (\<lambda>w. let ((clientCtx, _), w) = ReadFromClientConfig R clientCtx w in (Ok clientCtx, w)) (\<lambda>clientCtx.
      let opts = txConfigOpts (NewGRPCCoinMetadataQueryFn R clientCtx) in
      bindA (lift (or_panic '''' (NewTxConfigWithOptions R (CcCodec R clientCtx) opts))) (\<lambda>txConfig.
      ret (WithTxConfig R txConfig clientCtx))))"

text \<open>The closure assigns the context it captured; the one that it goes on with is a new variable.\<close>

definition pre_run_captured :: "('w, 'cc, 'cmd, 'scfg, 'ccfg) RootLib \<Rightarrow> 'cmd \<Rightarrow> 'cc \<Rightarrow> 'cc" where
  "pre_run_captured R cmd clientCtx = WithViper R Name (WithCmdContext R cmd clientCtx)"

definition persistent_pre_run :: "('w, 'cc, 'cmd, 'scfg, 'ccfg) RootLib \<Rightarrow> 'cc \<Rightarrow> 'cmd \<Rightarrow> ('w, unit) act" where
  "persistent_pre_run R clientCtx cmd =
     bindA (SetOutErr R cmd) (\<lambda>_.
     bindA (ReadPersistentCommandFlags R (pre_run_captured R cmd clientCtx) cmd) (\<lambda>clientCtx.
     bindA (\<lambda>w. let ((clientCtx, err), w) = ReadFromClientConfig R clientCtx w
                in (case err of Some e \<Rightarrow> Err e | None \<Rightarrow> Ok clientCtx, w)) (\<lambda>clientCtx.
     bindA (SetCmdClientContextHandler R clientCtx cmd) (\<lambda>_.
     let (customAppTemplate, customAppConfig) = initAppConfig (DefaultConfigTemplate R) (DefaultServerConfig R);
         customCMTConfig = initCometBFTConfig (DefaultCometConfig R)
     in InterceptConfigsPreRunHandler R cmd customAppTemplate customAppConfig customCMTConfig))))"

text \<open>
  The loop over the map of modules enters each of them into the manager of the modules, through an
  adaptor, and into the options of autocli. \<open>order\<close> and \<open>order2\<close> are the orders in which Go visits the map.
\<close>

record 'm AutoCliOpts =
  aco_Modules :: "string \<rightharpoonup> LibModule"
  aco_rest :: 'm

fun add_client_modules :: "(LibModule \<Rightarrow> string) \<Rightarrow> (string \<Rightarrow> LibModule \<Rightarrow> 'b) \<Rightarrow> LibModule list \<Rightarrow>
    (string \<rightharpoonup> 'b) \<times> 'm AutoCliOpts \<Rightarrow> (string \<rightharpoonup> 'b) \<times> 'm AutoCliOpts" where
  "add_client_modules nm adaptor [] s = s"
| "add_client_modules nm adaptor (x # xs) (moduleBasicManager, autoCliOpts) =
     add_client_modules nm adaptor xs
       (moduleBasicManager(nm x \<mapsto> adaptor (nm x) x),
        autoCliOpts\<lparr>aco_Modules := (aco_Modules autoCliOpts)(nm x \<mapsto> x)\<rparr>)"

definition NewRootCmd :: "('w, 'cc, 'cmd, 'scfg, 'ccfg) RootLib \<Rightarrow> ('cmd, string \<rightharpoonup> 'b, ref, 'na, 'ae) CmdLib \<Rightarrow>
    string \<Rightarrow> 'na \<Rightarrow> 'ae \<Rightarrow> ('w, 'm AutoCliOpts \<times> (string \<rightharpoonup> 'b) \<times> 'cc) act \<Rightarrow>
    (string \<Rightarrow> ('cc \<Rightarrow> 'cmd \<Rightarrow> ('w, unit) act) \<Rightarrow> 'cc \<Rightarrow> 'cmd) \<Rightarrow> (LibModule \<Rightarrow> string) \<Rightarrow>
    (string \<Rightarrow> LibModule \<Rightarrow> 'b) \<Rightarrow> (LibModule list \<Rightarrow> LibModule list) \<Rightarrow> (LibModule list \<Rightarrow> LibModule list) \<Rightarrow>
    (LibModule \<Rightarrow> ('w, unit) act option) \<Rightarrow> ('m AutoCliOpts \<Rightarrow> 'cmd \<Rightarrow> 'cmd res) \<Rightarrow> ('w, 'cmd) act" where
  "NewRootCmd R K DefaultNodeHome new_app app_export inject rootCommand nm adaptor order order2 as_basic EnhanceRootCommand =
     bindA (must '''' inject) (\<lambda>(autoCliOpts, moduleBasicManager, clientCtx).
     let rootCmd = rootCommand (Name @ ''d'') (persistent_pre_run R) clientCtx in
     bindA (RegisterIBC order as_basic) (\<lambda>ibcModules.
     let (moduleBasicManager, autoCliOpts) = add_client_modules nm adaptor (order2 ibcModules) (moduleBasicManager, autoCliOpts);
         rootCmd = initRootCmd K DefaultNodeHome new_app app_export (CcTxConfig R clientCtx) moduleBasicManager rootCmd in
     lift (or_panic '''' (EnhanceRootCommand autoCliOpts rootCmd))))"

text \<open>\<open>main\<close>: the exit code, after an error has been printed.\<close>

definition daemon_main :: "('w, 'cmd) act \<Rightarrow> ('cmd \<Rightarrow> ('w, unit) act) \<Rightarrow> (error \<Rightarrow> 'w \<Rightarrow> 'w) \<Rightarrow> ('w, nat) act" where
  "daemon_main newRootCmd Execute Fprintln =
     bindA newRootCmd (\<lambda>rootCmd. \<lambda>w.
       (case Execute rootCmd w of
          (Ok _, w) \<Rightarrow> (Ok 0, w)
        | (Err e, w) \<Rightarrow> (Ok 1, Fprintln e w)
        | (Panic p, w) \<Rightarrow> (Panic p, w)))"

section \<open>What x/lumiwaveprotocol tells the command line and simulations\<close>

record RpcCommandOptions =
  rpc_RpcMethod :: string
  rpc_Use :: string
  rpc_Short :: string
  rpc_Skip :: bool

record ServiceCommandDescriptor =
  scd_Service :: string
  scd_EnhanceCustomCommand :: bool
  scd_RpcCommandOptions :: "RpcCommandOptions list"

record ModuleOptions =
  mo_Query :: ServiceCommandDescriptor
  mo_Tx :: ServiceCommandDescriptor

definition AutoCLIOptions :: ModuleOptions where
  "AutoCLIOptions = \<lparr>
     mo_Query = \<lparr>scd_Service = ''lumiwaveprotocol.lumiwaveprotocol.v1.Query'', scd_EnhanceCustomCommand = False,
       scd_RpcCommandOptions = [\<lparr>rpc_RpcMethod = ''Params'', rpc_Use = ''params'',
         rpc_Short = ''Shows the parameters of the module'', rpc_Skip = False\<rparr>]\<rparr>,
     mo_Tx = \<lparr>scd_Service = ''lumiwaveprotocol.lumiwaveprotocol.v1.Msg'', scd_EnhanceCustomCommand = True,
       scd_RpcCommandOptions = [\<lparr>rpc_RpcMethod = ''UpdateParams'', rpc_Use = '''', rpc_Short = '''', rpc_Skip = True\<rparr>]\<rparr>\<rparr>"

record SimulationState =
  sim_Accounts :: "addr list"
  sim_GenState :: "string \<rightharpoonup> string"

definition GenerateGenesisState :: "Sdk \<Rightarrow> LumiGenesisState JSONCodec \<Rightarrow> SimulationState \<Rightarrow> SimulationState res" where
  "GenerateGenesisState S cdc simState =
     (let accs = map (AccAddressString S) (sim_Accounts simState);
          lumiwaveprotocolGenesis = \<lparr>lg_Params = LumiDefaultParams\<rparr>
      in bindR (or_panic '''' (MarshalJSON cdc lumiwaveprotocolGenesis)) (\<lambda>bz.
         Ok (simState\<lparr>sim_GenState := (sim_GenState simState)(LumiModuleName \<mapsto> bz)\<rparr>)))"

definition WeightedOperations :: "SimulationState \<Rightarrow> ref list" where
  "WeightedOperations simState = []"

definition ProposalMsgs :: "SimulationState \<Rightarrow> ref list" where
  "ProposalMsgs simState = []"

section \<open>Properties\<close>

text \<open>What the SDK documents of \<open>LoadHeight\<close>: afterwards the last block of the app is the one of that height.\<close>

definition load_laws :: "('w, 'r, 'opts, 'x, 'gen, 'vals, 'cp) ExportLib \<Rightarrow> bool" where
  "load_laws E \<longleftrightarrow> (\<forall>h r r' app. LoadHeight E h r = (Ok (), r') \<longrightarrow> LastBlockHeight (ExportView E app r') = h)"

lemma exported_height:
  "ExportAppStateAndValidators app zero jailed modules = Ok (Exported e err) \<Longrightarrow>
   Height e = (if zero then 0 else wrap64 (LastBlockHeight app + 1))"
  by (auto simp: ExportAppStateAndValidators_def Let_def split_beta split: if_splits)

text \<open>An export of the state at a height is a genesis that starts at the next height, or at zero
  where this is asked for, whatever the height the database has reached.\<close>

theorem export_at_height:
  assumes "load_laws E" "0 \<le> height" "height < 2 ^ 63 - 1"
    and "appExport E libs mod_text perm_text db ts height forZeroHeight jailed appOpts modules r = (Ok (Exported e err), r')"
  shows "Height e = (if forZeroHeight then 0 else height + 1)"
proof -
  have ne: "height \<noteq> -1" using assms(2) by simp
  obtain app r2 where "LoadHeight E height r2 = (Ok (), r')"
    and run: "ExportAppStateAndValidators (ExportView E app r') forZeroHeight jailed modules = Ok (Exported e err)"
    using assms(4) by (auto simp: appExport_def ne bindA_Ok_iff ret_def throw_def query_def
        split: AppOpt.splits if_splits option.splits)
  then have "LastBlockHeight (ExportView E app r') = height" using assms(1) by (auto simp: load_laws_def)
  then show ?thesis using exported_height [OF run] assms(2,3) by (simp add: wrap64_id)
qed

text \<open>Without a home directory nothing is exported and no app is built.\<close>

theorem export_needs_home:
  assumes "OptsGet E appOpts FlagHome = OptString '''' \<or> (\<forall>s. OptsGet E appOpts FlagHome \<noteq> OptString s)"
  shows "appExport E libs mod_text perm_text db ts height forZeroHeight jailed appOpts modules r
    = (Err (Errorf ''application home not set''), r)"
  using assms by (auto simp: appExport_def throw_def split: AppOpt.splits)

lemma add_client_modules_eq:
  assumes "inj_on nm (set xs)"
  shows "add_client_modules nm adaptor xs (bm, opts) =
    (\<lambda>n. if n \<in> nm ` set xs then Some (adaptor n (the_inv_into (set xs) nm n)) else bm n,
     opts\<lparr>aco_Modules := (\<lambda>n. if n \<in> nm ` set xs then Some (the_inv_into (set xs) nm n) else aco_Modules opts n)\<rparr>)"
  using assms
proof (induction xs arbitrary: bm opts)
  case (Cons x xs)
  have inj: "inj_on nm (set xs)" using Cons.prems by (auto intro: inj_on_subset)
  have inv: "the_inv_into (insert x (set xs)) nm (nm y) = y" if "y \<in> insert x (set xs)" for y
    using Cons.prems that by (intro the_inv_into_f_f) simp_all
  have inv': "the_inv_into (set xs) nm (nm y) = y" if "y \<in> set xs" for y
    using inj that by (rule the_inv_into_f_f)
  have other: "y = x" if "nm x = nm y" "y \<in> set xs" for y
    using Cons.prems that by (metis inj_onD list.set_intros)
  show ?case
    by (auto simp: Cons.IH [OF inj] fun_eq_iff inv inv' dest!: other intro!: arg_cong [where f = "\<lambda>m. opts\<lparr>aco_Modules := m\<rparr>"])
qed simp

text \<open>The command line knows the same modules whatever the order in which Go visits their map.\<close>

theorem client_modules_order:
  assumes "inj_on nm (set xs)" "set ys = set xs"
  shows "add_client_modules nm adaptor ys s = add_client_modules nm adaptor xs s"
  using assms by (cases s) (simp add: add_client_modules_eq cong: if_cong)

text \<open>The genesis that the module generates for a simulation is accepted by its validation.\<close>

theorem simulation_genesis_valid:
  assumes "json_laws cdc" "GenerateGenesisState S cdc simState = Ok simState'"
  shows "\<exists>bz. sim_GenState simState' LumiModuleName = Some bz \<and> Lumi_ValidateGenesis cdc bz = Ok ()"
proof -
  obtain bz where "MarshalJSON cdc \<lparr>lg_Params = LumiDefaultParams\<rparr> = Ok bz"
    and s: "simState' = simState\<lparr>sim_GenState := (sim_GenState simState)(LumiModuleName \<mapsto> bz)\<rparr>"
    using assms(2) by (auto simp: GenerateGenesisState_def Let_def)
  then have "UnmarshalJSON cdc bz = Ok \<lparr>lg_Params = LumiDefaultParams\<rparr>" using assms(1) by (simp add: json_laws_def)
  then show ?thesis
    by (simp add: s Lumi_ValidateGenesis_def LumiGenesisState_Validate_def LumiParams_Validate_def)
qed

section \<open>Concrete instances\<close>

text \<open>The chain of \<open>memLibs\<close>, whose database has the state of height 9.\<close>

definition memExportLib :: "(Mem, string list, unit, MemStake, unit, unit, unit) ExportLib" where
  "memExportLib = \<lparr>OptsGet = (\<lambda>_ _. OptString ''home''), AsViper = Some,
     LoadHeight = (\<lambda>h. if h = 9 then ret () else throw (Errorf ''version does not exist'')),
     ExportView = (\<lambda>_ _. memExport)\<rparr>"

lemma memLibs_New_at: "New memLibs mem_mod_text mem_perm_text b () = New memLibs mem_mod_text mem_perm_text True ()"
  by (simp add: New_def memLibs_simps)

theorem export_at_height_witness:
  "\<exists>e err r'. appExport memExportLib (\<lambda>_ _ _. memLibs) mem_mod_text mem_perm_text () () 9 False [] () [] []
     = (Ok (Exported e err), r') \<and> Height e = 10"
proof -
  obtain app r' where new: "New memLibs mem_mod_text mem_perm_text True () [] = (Ok app, r')" by (rule memLibs_New)
  then have new_run: "bindA (New memLibs mem_mod_text mem_perm_text True ()) f [] = f app r'"
    for f :: "_ \<Rightarrow> (string list, 'z) act" by (rule bindA_run)
  have "\<exists>e err. ExportAppStateAndValidators memExport False [] [] = Ok (Exported e err)"
    by (simp add: ExportAppStateAndValidators_def memExport_def)
  then obtain e err where ex: "ExportAppStateAndValidators memExport False [] [] = Ok (Exported e err)" by blast
  have run: "appExport memExportLib (\<lambda>_ _ _. memLibs) mem_mod_text mem_perm_text () () 9 False [] () [] []
     = (Ok (Exported e err), r')"
    by (simp add: appExport_def memExportLib_def memLibs_New_at [of False] bindA_assoc new_run ex)
  have "load_laws memExportLib"
    by (auto simp: load_laws_def memExportLib_def memExport_def ret_def throw_def split: if_splits)
  from export_at_height [OF this _ _ run] run show ?thesis by auto
qed

theorem export_needs_home_witness:
  "appExport (memExportLib\<lparr>OptsGet := \<lambda>_ _. OptNil\<rparr>) (\<lambda>_ _ _. memLibs) mem_mod_text mem_perm_text () () (-1) False [] () [] []
     = (Err (Errorf ''application home not set''), [])"
  by (rule export_needs_home) simp

theorem client_modules_order_witness:
  "add_client_modules mem_lib_name (\<lambda>n x. x) (rev ibc_modules) (Map.empty, \<lparr>aco_Modules = Map.empty, aco_rest = ()\<rparr>)
   = add_client_modules mem_lib_name (\<lambda>n x. x) ibc_modules (Map.empty, \<lparr>aco_Modules = Map.empty, aco_rest = ()\<rparr>)"
proof -
  have "inj_on mem_lib_name (set ibc_modules)" by (simp add: inj_on_def ibc_modules_def mem_lib_name_def)
  then show ?thesis by (rule client_modules_order) simp
qed

theorem simulation_genesis_valid_witness:
  "\<exists>bz. sim_GenState ((\<lambda>r. case r of Ok s \<Rightarrow> s) (GenerateGenesisState memSdk memJson
      \<lparr>sim_Accounts = [''abc''], sim_GenState = Map.empty\<rparr>)) LumiModuleName = Some bz
    \<and> Lumi_ValidateGenesis memJson bz = Ok ()"
proof -
  let ?s = "\<lparr>sim_Accounts = [''abc''], sim_GenState = Map.empty\<rparr>"
  obtain s' where s': "GenerateGenesisState memSdk memJson ?s = Ok s'"
    by (simp add: GenerateGenesisState_def memJson_def)
  from simulation_genesis_valid [OF memJson_laws s'] show ?thesis by (simp add: s')
qed

end
