(* ===== verification/TestnetNodes.thy ===== *)
theory TestnetNodes
  imports InPlaceTestnet
begin

text \<open>
  The local testnet of several nodes (cmd/lumiwave-protocold/cmd/testnet_multi_node.go): the parsing of
  the flags, \<open>initTestnetFiles\<close>, which makes keys, genesis transactions and configuration files for
  every node, \<open>initGenFiles\<close>, \<open>collectGenFiles\<close> and the helpers on files.

  The file system, the keyring, the transaction builder and the genesis tools are the fields of \<open>Tools\<close>,
  over the state \<open>'w\<close> of the outside world; an object that is only handed on is a \<open>ref\<close>, a JSON text a
  \<open>json\<close>. The node configuration is a pointer that the loops write: it is passed along.

  What is shown: no two servers of the testnet listen on the same port; the peers of every node are all
  nodes, at the starting address and the ports on which they listen; the supply of the genesis file is the sum of its balances;
  all nodes get the same genesis; what the list of stakes does with a text that is not a number.
\<close>

type_synonym json = string

section \<open>Configuration\<close>

record initArgs =
  ia_algo :: string
  ia_chainID :: string
  ia_keyringBackend :: string
  ia_minGasPrices :: string
  ia_nodeDirPrefix :: string
  ia_numValidators :: int
  ia_outputDir :: string
  ia_startingIPAddress :: string
  ia_validatorsStakesAmount :: "int \<rightharpoonup> Coin"
  ia_ports :: "int \<rightharpoonup> string"

text \<open>\<open>nc_P2P_AddrBookStrict\<close> is the strict routability of addresses; no line of the command writes it.\<close>

record NodeConfig =
  nc_RootDir :: string
  nc_Moniker :: string
  nc_RPC_ListenAddress :: string
  nc_P2P_PersistentPeers :: string
  nc_P2P_AllowDuplicateIP :: bool
  nc_P2P_AddrBookStrict :: bool
  nc_P2P_ListenAddress :: string
  nc_ProxyApp :: string
  nc_PrometheusListenAddr :: string
  nc_Prometheus :: bool

record AppToml =
  at_MinGasPrices :: string
  at_API_Enable :: bool
  at_Telemetry_EnableHostnameLabel :: bool
  at_Telemetry_Enabled :: bool
  at_Telemetry_PrometheusRetentionTime :: int
  at_GRPC_Address :: string
  at_API_Address :: string

record Balance =
  bal_Address :: string
  bal_Coins :: "Coin list"

record AuthGenesis =
  ag_Params :: json
  ag_Accounts :: "addr list"

record BankGenesis =
  bg_Params :: json
  bg_Balances :: "Balance list"
  bg_Supply :: "Coin list"

record GenesisDoc =
  gdoc_ChainID :: string
  gdoc_AppState :: json

text \<open>
  \<open>FilepathJoin\<close>, \<open>FilepathBase\<close>, \<open>FilepathAbs\<close> and \<open>FilepathRel\<close> are the functions of path/filepath on the
  platform; \<open>GenesisFile\<close> is the path that a node configuration gives.
\<close>

record 'w Tools =
  FilepathJoin :: "string list \<Rightarrow> string"
  FilepathBase :: "string \<Rightarrow> string"
  FilepathAbs :: "'w \<Rightarrow> string \<Rightarrow> string res"
  FilepathRel :: "string \<Rightarrow> string \<Rightarrow> string res"
  FilepathIsAbs :: "string \<Rightarrow> bool"
  MkdirAll :: "string \<Rightarrow> ('w, unit) act"
  RemoveAll :: "string \<Rightarrow> ('w, unit) act"
  OsWriteFile :: "string \<Rightarrow> bytes \<Rightarrow> ('w, unit) act"
  OsOpen :: "string \<Rightarrow> ('w, ref) act"
  OsCreate :: "string \<Rightarrow> ('w, ref) act"
  IoCopy :: "ref \<Rightarrow> ref \<Rightarrow> ('w, int) act"
  FileSync :: "ref \<Rightarrow> ('w, unit) act"
  FileClose :: "ref \<Rightarrow> ('w, unit) act"
  RandIntn :: "int \<Rightarrow> 'w \<Rightarrow> int \<times> 'w"
  NewIntFromString :: "string \<Rightarrow> int option"
  tl_NewCoin :: "string \<Rightarrow> int \<Rightarrow> Coin res"
  DefaultBondDenom :: string
  TokensFromConsensusPower :: "int \<Rightarrow> int"
  CoinsSort :: "Coin list \<Rightarrow> Coin list"
  CoinsAdd :: "Coin list \<Rightarrow> Coin list \<Rightarrow> Coin list res"
  AddrText :: "addr \<Rightarrow> string"
  ValAddrText :: "addr \<Rightarrow> string"
  GenesisFile :: "NodeConfig \<Rightarrow> string"
  InitializeNodeValidatorFiles :: "NodeConfig \<Rightarrow> ('w, string \<times> ref) act"
  KeyringNew :: "string \<Rightarrow> string \<Rightarrow> ('w, ref) act"
  NewSigningAlgo :: "string \<Rightarrow> ref \<Rightarrow> ref res"
  GenerateSaveCoinKey :: "ref \<Rightarrow> string \<Rightarrow> ref \<Rightarrow> ('w, addr \<times> string) act"
  MarshalInfo :: "string \<Rightarrow> bytes res"
  NewMsgCreateValidator :: "string \<Rightarrow> ref \<Rightarrow> Coin \<Rightarrow> string \<Rightarrow> ref res"
  TxSetMsgs :: "ref \<Rightarrow> ref res"
  TxSetMemo :: "string \<Rightarrow> ref \<Rightarrow> ref"
  TxSign :: "string \<Rightarrow> string \<Rightarrow> ref \<Rightarrow> string \<Rightarrow> ref \<Rightarrow> ('w, ref) act"
  TxEncode :: "ref \<Rightarrow> bytes res"
  WriteAppConfig :: "string \<Rightarrow> AppToml \<Rightarrow> ('w, unit) act"
  WriteNodeConfig :: "string \<Rightarrow> NodeConfig \<Rightarrow> ('w, unit) act"
  mbm_DefaultGenesis :: "string \<rightharpoonup> json"
  AuthJSON :: "AuthGenesis JSONCodec"
  BankJSON :: "BankGenesis JSONCodec"
  PackAccounts :: "addr list \<Rightarrow> addr list res"
  SanitizeGenesisBalances :: "Balance list \<Rightarrow> Balance list"
  MarshalAppState :: "(string \<rightharpoonup> json) \<Rightarrow> json res"
  SaveGenesis :: "GenesisDoc \<Rightarrow> string \<Rightarrow> ('w, unit) act"
  AppGenesisFromFile :: "string \<Rightarrow> ('w, ref) act"
  GenAppState :: "NodeConfig \<Rightarrow> string \<Rightarrow> string \<Rightarrow> string \<Rightarrow> ref \<Rightarrow> ref \<Rightarrow> ('w, json) act"
  ExportGenesisFileWithTime :: "string \<Rightarrow> string \<Rightarrow> json \<Rightarrow> int \<Rightarrow> ('w, unit) act"
  TimeNow :: "'w \<Rightarrow> int"

section \<open>The flags\<close>

text \<open>The loops over the amounts and the ports; \<open>idx\<close> is the index of the next entry.\<close>

fun parse_stakes :: "'w Tools \<Rightarrow> string list \<Rightarrow> int \<Rightarrow> (int \<rightharpoonup> Coin) \<Rightarrow> (int \<rightharpoonup> Coin) res" where
  "parse_stakes t [] idx m = Ok m"
| "parse_stakes t (amount # amounts) idx m =
     (case NewIntFromString t amount of
        None \<Rightarrow> parse_stakes t amounts idx m
      | Some a \<Rightarrow> bindR (tl_NewCoin t (DefaultBondDenom t) a) (\<lambda>coin.
          parse_stakes t amounts (idx + 1) (m(idx \<mapsto> coin))))"

fun default_ports :: "nat \<Rightarrow> int \<Rightarrow> (int \<rightharpoonup> string) \<Rightarrow> (int \<rightharpoonup> string)" where
  "default_ports 0 i m = m"
| "default_ports (Suc n) i m = default_ports n (i + 1) (m(i \<mapsto> itoa (wrap64 (26657 - 3 * i))))"

fun parse_ports :: "string list \<Rightarrow> int \<Rightarrow> (int \<rightharpoonup> string) \<Rightarrow> (int \<rightharpoonup> string)" where
  "parse_ports [] idx m = m"
| "parse_ports (port # ports) idx m = parse_ports ports (idx + 1) (m(idx \<mapsto> port))"

definition parse_args :: "'w Tools \<Rightarrow> initArgs \<Rightarrow> string \<Rightarrow> string \<Rightarrow> initArgs res" where
  "parse_args t args stakes ports =
     bindR (parse_stakes t (Split stakes CHR '','') 0 Map.empty) (\<lambda>amounts.
     Ok (args\<lparr>ia_validatorsStakesAmount := amounts,
        ia_ports := (if ports = '''' then default_ports (nat (ia_numValidators args)) 0 Map.empty
          else parse_ports (Split ports CHR '','') 0 Map.empty)\<rparr>))"

section \<open>Files\<close>

definition writeFile :: "'w Tools \<Rightarrow> string \<Rightarrow> string \<Rightarrow> bytes \<Rightarrow> ('w, unit) act" where
  "writeFile t file dir contents =
     bindA (wrap_err (\<lambda>e. Wrap e (''could not create directory '' @ dir)) (MkdirAll t dir)) (\<lambda>_.
     OsWriteFile t file contents)"

text \<open>A deferred \<open>Close\<close>: it runs when the rest has ended, and its error is dropped.\<close>

definition closing :: "'w Tools \<Rightarrow> ref \<Rightarrow> ('w, 'a) act \<Rightarrow> ('w, 'a) act" where
  "closing t f m w = (let (r, w1) = m w; (_, w2) = FileClose t f w1 in (r, w2))"

definition copyFile :: "'w Tools \<Rightarrow> string \<Rightarrow> string \<Rightarrow> ('w, int) act" where
  "copyFile t src dstDir =
     (let fileName = FilepathBase t src; dst = FilepathJoin t [dstDir, fileName]
      in bindA (OsOpen t src) (\<lambda>sourceFile. closing t sourceFile (
         bindA (OsCreate t dst) (\<lambda>destinationFile. closing t destinationFile (
         bindA (IoCopy t destinationFile sourceFile) (\<lambda>bytesCopied.
         bindA (FileSync t destinationFile) (\<lambda>_.
         ret bytesCopied)))))))"

definition isSubDir :: "'w Tools \<Rightarrow> 'w \<Rightarrow> string \<Rightarrow> string \<Rightarrow> bool res" where
  "isSubDir t w src dstDir =
     bindR (FilepathAbs t w src) (\<lambda>absSrc.
     bindR (FilepathAbs t w dstDir) (\<lambda>absDstDir.
     bindR (FilepathRel t absDstDir absSrc) (\<lambda>relativePath.
     Ok (\<not> HasPrefix relativePath ''..'' \<and> \<not> FilepathIsAbs t relativePath))))"

definition charset :: string where "charset = ''abcdefghijklmnopqrstuvwxyz0123456789''"

fun generateRandomString :: "'w Tools \<Rightarrow> nat \<Rightarrow> 'w \<Rightarrow> string \<times> 'w" where
  "generateRandomString t 0 w = ([], w)"
| "generateRandomString t (Suc n) w =
     (let (x, w1) = RandIntn t (int (length charset)) w; (s, w2) = generateRandomString t n w1
      in (charset ! nat x # s, w2))"

section \<open>Genesis files\<close>

fun add_balances :: "'w Tools \<Rightarrow> Balance list \<Rightarrow> Coin list \<Rightarrow> Coin list res" where
  "add_balances t [] supply = Ok supply"
| "add_balances t (bal # bals) supply = bindR (CoinsAdd t supply (bal_Coins bal)) (add_balances t bals)"

fun save_genesis :: "'w Tools \<Rightarrow> GenesisDoc \<Rightarrow> string list \<Rightarrow> int \<Rightarrow> nat \<Rightarrow> ('w, unit) act" where
  "save_genesis t genDoc genFiles i 0 = ret ()"
| "save_genesis t genDoc genFiles i (Suc n) =
     (if nat i < length genFiles then
        bindA (SaveGenesis t genDoc (genFiles ! nat i)) (\<lambda>_. save_genesis t genDoc genFiles (i + 1) n)
      else panic ''runtime error: index out of range'')"

text \<open>The app state that is saved: the default one with the accounts, the balances and their supply.\<close>

definition genesis_app_state :: "'w Tools \<Rightarrow> addr list \<Rightarrow> Balance list \<Rightarrow> (string \<rightharpoonup> json) res" where
  "genesis_app_state t genAccounts genBalances =
     (let appGenState = mbm_DefaultGenesis t;
          raw = (\<lambda>m. case appGenState m of None \<Rightarrow> '''' | Some j \<Rightarrow> j)
      in bindR (or_panic '''' (UnmarshalJSON (AuthJSON t) (raw ''auth''))) (\<lambda>authGenState.
         bindR (PackAccounts t genAccounts) (\<lambda>accounts.
         bindR (or_panic '''' (MarshalJSON (AuthJSON t) (authGenState\<lparr>ag_Accounts := accounts\<rparr>))) (\<lambda>authJSON.
         bindR (or_panic '''' (UnmarshalJSON (BankJSON t) (raw ''bank''))) (\<lambda>bankGenState.
         let bankGenState = bankGenState\<lparr>bg_Balances := SanitizeGenesisBalances t genBalances\<rparr>
         in bindR (add_balances t (bg_Balances bankGenState) (bg_Supply bankGenState)) (\<lambda>supply.
         bindR (or_panic '''' (MarshalJSON (BankJSON t) (bankGenState\<lparr>bg_Supply := supply\<rparr>))) (\<lambda>bankJSON.
         Ok (appGenState(''auth'' \<mapsto> authJSON, ''bank'' \<mapsto> bankJSON)))))))))"

definition initGenFiles :: "'w Tools \<Rightarrow> string \<Rightarrow> addr list \<Rightarrow> Balance list \<Rightarrow> string list \<Rightarrow> int \<Rightarrow>
    ('w, unit) act" where
  "initGenFiles t chainID genAccounts genBalances genFiles numValidators =
     bindA (lift (genesis_app_state t genAccounts genBalances)) (\<lambda>appGenState.
     bindA (lift (MarshalAppState t appGenState)) (\<lambda>appGenStateJSON.
     save_genesis t \<lparr>gdoc_ChainID = chainID, gdoc_AppState = appGenStateJSON\<rparr> genFiles 0 (nat numValidators)))"

definition node_name :: "initArgs \<Rightarrow> int \<Rightarrow> string" where
  "node_name args i = ia_nodeDirPrefix args @ itoa i"

definition SetRoot :: "string \<Rightarrow> NodeConfig \<Rightarrow> NodeConfig" where
  "SetRoot root cfg = cfg\<lparr>nc_RootDir := root\<rparr>"

text \<open>\<open>args.ports[i]\<close> is the empty text when there is no entry.\<close>

definition port_of :: "initArgs \<Rightarrow> int \<Rightarrow> string" where
  "port_of args i = (case ia_ports args i of None \<Rightarrow> '''' | Some p \<Rightarrow> p)"

text \<open>
  What \<open>collectGenFiles\<close> writes into the configuration of node \<open>i\<close>. Of the configuration that it is given
  \<open>genutil.GenAppStateFromConfig\<close> sets only the persistent peers, which are set again here.
\<close>

definition final_config ::"initArgs \<Rightarrow> string \<Rightarrow> int \<Rightarrow> NodeConfig \<Rightarrow> NodeConfig" where
  "final_config args persistentPeers i cfg =
     cfg\<lparr>nc_P2P_PersistentPeers := persistentPeers, nc_P2P_AllowDuplicateIP := True,
       nc_P2P_ListenAddress := ''tcp://0.0.0.0:'' @ itoa (wrap64 (26656 - 3 * i)),
       nc_RPC_ListenAddress := ''tcp://127.0.0.1:'' @ port_of args i,
       nc_ProxyApp := ''tcp://127.0.0.1:'' @ itoa (wrap64 (26658 - 3 * i)),
       nc_PrometheusListenAddr := '':'' @ itoa (wrap64 (26660 + i)),
       nc_Prometheus := True\<rparr>"

fun collect_loop :: "'w Tools \<Rightarrow> initArgs \<Rightarrow> string \<Rightarrow> int \<Rightarrow> (string \<times> ref) list \<Rightarrow> int \<Rightarrow> json option \<Rightarrow>
    NodeConfig \<Rightarrow> ('w, unit) act" where
  "collect_loop t args persistentPeers genTime [] i appState cfg = ret ()"
| "collect_loop t args persistentPeers genTime ((nodeID, valPubKey) # nodes) i appState cfg =
     (let nodeDirName = node_name args i;
          nodeDir = FilepathJoin t [ia_outputDir args, nodeDirName];
          gentxsDir = FilepathJoin t [nodeDir, ''config'', ''gentx''];
          cfg = SetRoot nodeDir (cfg\<lparr>nc_Moniker := nodeDirName\<rparr>)
      in bindA (AppGenesisFromFile t (GenesisFile t cfg)) (\<lambda>appGenesis.
         bindA (GenAppState t cfg (ia_chainID args) gentxsDir nodeID valPubKey appGenesis) (\<lambda>nodeAppState.
         let cfg = final_config args persistentPeers i cfg
         in bindA (WriteNodeConfig t (FilepathJoin t [nc_RootDir cfg, ''config'', ''config.toml'']) cfg) (\<lambda>_.
            let state = (case appState of None \<Rightarrow> nodeAppState | Some s \<Rightarrow> s);
                genFile = GenesisFile t cfg
            in bindA (ExportGenesisFileWithTime t genFile (ia_chainID args) state genTime) (\<lambda>_.
               collect_loop t args persistentPeers genTime nodes (i + 1) (Some state) cfg)))))"

text \<open>The node ids and the keys are two arrays of length \<open>numValidators\<close>: \<open>nodes\<close> is the list of the pairs.\<close>

definition collectGenFiles :: "'w Tools \<Rightarrow> NodeConfig \<Rightarrow> (string \<times> ref) list \<Rightarrow> string \<Rightarrow> initArgs \<Rightarrow>
    ('w, unit) act" where
  "collectGenFiles t nodeConfig nodes persistentPeers args =
     bindA (gets (TimeNow t)) (\<lambda>genTime.
     collect_loop t args persistentPeers genTime nodes 0 None nodeConfig)"

section \<open>The nodes\<close>

definition node_toml :: "initArgs \<Rightarrow> int \<Rightarrow> AppToml \<Rightarrow> AppToml" where
  "node_toml args i toml = toml\<lparr>at_GRPC_Address := ia_startingIPAddress args @ '':'' @ itoa (wrap64 (9090 - 2 * i)),
     at_API_Address := ''tcp://localhost:'' @ itoa (wrap64 (1317 - i))\<rparr>"

definition memo_of :: "initArgs \<Rightarrow> int \<Rightarrow> string \<Rightarrow> string" where
  "memo_of args i nodeID = nodeID @ ''@'' @ ia_startingIPAddress args @ '':'' @ itoa (wrap64 (26656 - 3 * i))"

text \<open>What the loop of \<open>initTestnetFiles\<close> collects.\<close>

record Collected =
  co_nodes :: "(string \<times> ref) list"
  co_genAccounts :: "addr list"
  co_genBalances :: "Balance list"
  co_genFiles :: "string list"
  co_persistentPeers :: string
  co_gentxsFiles :: "string list"

text \<open>A call whose error makes the command remove the output directory before it returns the error.\<close>

definition or_remove :: "'w Tools \<Rightarrow> string \<Rightarrow> ('w, 'a) act \<Rightarrow> ('w, 'a) act" where
  "or_remove t dir m w = (case m w of
     (Err e, w') \<Rightarrow> (case RemoveAll t dir w' of (Panic p, w'') \<Rightarrow> (Panic p, w'') | (_, w'') \<Rightarrow> (Err e, w''))
   | other \<Rightarrow> other)"

definition init_node :: "'w Tools \<Rightarrow> initArgs \<Rightarrow> int \<Rightarrow> NodeConfig \<times> AppToml \<times> Collected \<Rightarrow>
    ('w, NodeConfig \<times> AppToml \<times> Collected) act" where
  "init_node t args i = (\<lambda>(cfg, toml, co).
     let nodeDirName = node_name args i;
         nodeDir = FilepathJoin t [ia_outputDir args, nodeDirName];
         gentxsDir = FilepathJoin t [ia_outputDir args, nodeDirName, ''config'', ''gentx''];
         cfg = (SetRoot nodeDir cfg)\<lparr>nc_Moniker := nodeDirName,
           nc_RPC_ListenAddress := ''tcp://0.0.0.0:'' @ port_of args i\<rparr>
     in bindA (or_remove t (ia_outputDir args) (MkdirAll t (FilepathJoin t [nodeDir, ''config'']))) (\<lambda>_.
        bindA (or_remove t (ia_outputDir args) (InitializeNodeValidatorFiles t cfg)) (\<lambda>(nodeID, valPubKey).
        let memo = memo_of args i nodeID;
            peers = (if co_persistentPeers co = '''' then memo else co_persistentPeers co @ '','' @ memo)
        in bindA (KeyringNew t (ia_keyringBackend args) nodeDir) (\<lambda>kb.
           bindA (lift (NewSigningAlgo t (ia_algo args) kb)) (\<lambda>algo.
           bindA (or_remove t (ia_outputDir args) (GenerateSaveCoinKey t kb nodeDirName algo)) (\<lambda>(addr, secret).
           bindA (lift (MarshalInfo t secret)) (\<lambda>cliPrint.
           bindA (writeFile t (FilepathJoin t [nodeDir, ''key_seed.json'']) nodeDir cliPrint) (\<lambda>_.
           bindA (lift (tl_NewCoin t ''testtoken'' (TokensFromConsensusPower t 1000))) (\<lambda>testCoin.
           bindA (lift (tl_NewCoin t (DefaultBondDenom t) (TokensFromConsensusPower t 500))) (\<lambda>stakeCoin.
           let balance = \<lparr>bal_Address = AddrText t addr, bal_Coins = CoinsSort t [testCoin, stakeCoin]\<rparr> in
           bindA (lift (case ia_validatorsStakesAmount args i of
                    Some c \<Rightarrow> Ok c
                  | None \<Rightarrow> tl_NewCoin t (DefaultBondDenom t) (TokensFromConsensusPower t 100))) (\<lambda>valTokens.
           bindA (lift (NewMsgCreateValidator t (ValAddrText t addr) valPubKey valTokens nodeDirName)) (\<lambda>createValMsg.
           bindA (lift (TxSetMsgs t createValMsg)) (\<lambda>txBuilder.
           bindA (TxSign t (ia_chainID args) memo kb nodeDirName (TxSetMemo t memo txBuilder)) (\<lambda>tx.
           bindA (lift (TxEncode t tx)) (\<lambda>txBz.
           let file = FilepathJoin t [gentxsDir, ''gentx-'' @ nodeID @ ''.json''] in
           bindA (writeFile t file gentxsDir txBz) (\<lambda>_.
           let toml = node_toml args i toml in bindA (WriteAppConfig t (FilepathJoin t [nodeDir, ''config'', ''app.toml'']) toml) (\<lambda>_.
              ret (cfg, toml, co\<lparr>co_nodes := co_nodes co @ [(nodeID, valPubKey)],
                co_genAccounts := co_genAccounts co @ [addr], co_genBalances := co_genBalances co @ [balance],
                co_genFiles := co_genFiles co @ [GenesisFile t cfg], co_persistentPeers := peers,
                co_gentxsFiles := co_gentxsFiles co @ [file]\<rparr>))))))))))))))))))"

fun init_nodes :: "'w Tools \<Rightarrow> initArgs \<Rightarrow> nat \<Rightarrow> int \<Rightarrow> NodeConfig \<times> AppToml \<times> Collected \<Rightarrow>
    ('w, NodeConfig \<times> AppToml \<times> Collected) act" where
  "init_nodes t args 0 i s = ret s"
| "init_nodes t args (Suc n) i s = bindA (init_node t args i s) (init_nodes t args n (i + 1))"

fun copy_gentxs :: "'w Tools \<Rightarrow> string \<Rightarrow> string list \<Rightarrow> ('w, unit) act" where
  "copy_gentxs t gentxsDir [] = ret ()"
| "copy_gentxs t gentxsDir (file # files) =
     bindA (\<lambda>w. case isSubDir t w file gentxsDir of
              Ok False \<Rightarrow> bindA (copyFile t file gentxsDir) (\<lambda>_. ret ()) w
            | Panic p \<Rightarrow> (Panic p, w)
            | _ \<Rightarrow> (Ok (), w)) (\<lambda>_.
     copy_gentxs t gentxsDir files)"

fun copy_all_gentxs :: "'w Tools \<Rightarrow> initArgs \<Rightarrow> string list \<Rightarrow> nat \<Rightarrow> int \<Rightarrow> ('w, unit) act" where
  "copy_all_gentxs t args files 0 i = ret ()"
| "copy_all_gentxs t args files (Suc n) i =
     (let nodeDir = FilepathJoin t [ia_outputDir args, node_name args i];
          gentxsDir = FilepathJoin t [nodeDir, ''config'', ''gentx'']
      in bindA (copy_gentxs t gentxsDir files) (\<lambda>_. copy_all_gentxs t args files n (i + 1)))"

text \<open>\<open>defaultConfig\<close> is \<open>srvconfig.DefaultConfig()\<close>; \<open>make\<close> panics for a negative number of validators.\<close>

definition initTestnetFiles :: "'w Tools \<Rightarrow> AppToml \<Rightarrow> NodeConfig \<Rightarrow> initArgs \<Rightarrow> ('w, unit) act" where
  "initTestnetFiles t defaultConfig nodeConfig args =
     bindA (if ia_chainID args = ''''
            then (\<lambda>w. let (s, w') = generateRandomString t 6 w in (Ok (args\<lparr>ia_chainID := ''chain-'' @ s\<rparr>), w'))
            else ret args) (\<lambda>args.
     if ia_numValidators args < 0 then panic ''runtime error: makeslice: len out of range'' else
     let n = nat (ia_numValidators args);
         appConfig = defaultConfig\<lparr>at_MinGasPrices := ia_minGasPrices args\<rparr>;
         appConfig = appConfig\<lparr>at_API_Enable := False, at_MinGasPrices := ''0.0001'' @ DefaultBondDenom t,
           at_Telemetry_EnableHostnameLabel := False, at_Telemetry_Enabled := False,
           at_Telemetry_PrometheusRetentionTime := 0\<rparr>;
         co = \<lparr>co_nodes = [], co_genAccounts = [], co_genBalances = [], co_genFiles = [],
           co_persistentPeers = '''', co_gentxsFiles = []\<rparr>
     in bindA (init_nodes t args n 0 (nodeConfig, appConfig, co)) (\<lambda>(nodeConfig, appConfig, co).
        bindA (initGenFiles t (ia_chainID args) (co_genAccounts co) (co_genBalances co) (co_genFiles co)
                 (ia_numValidators args)) (\<lambda>_.
        bindA (copy_all_gentxs t args (co_gentxsFiles co) n 0) (\<lambda>_.
        collectGenFiles t nodeConfig (co_nodes co) (co_persistentPeers co) args))))"

section \<open>Addresses and ports\<close>

lemma digits_chars: "c \<in> set (digits n) \<Longrightarrow> 48 \<le> (of_char c :: nat) \<and> (of_char c :: nat) \<le> 57"
proof (induction n rule: digits.induct)
  case (1 n)
  have le: "(of_char (char_of (48 + m) :: char) :: nat) = 48 + m" if "m < 10" for m :: nat
    using that by simp
  show ?case
  proof (cases "n < 10")
    case True
    then show ?thesis using 1(2) by (subst (asm) digits.simps) auto
  next
    case False
    then have "c \<in> set (digits (n div 10)) \<or> c = char_of (48 + n mod 10)"
      using 1(2) by (subst (asm) digits.simps) auto
    then show ?thesis using 1(1) [OF False] le [of "n mod 10"] by auto
  qed
qed

lemma digits_not_Nil [simp]: "digits n \<noteq> []"
  by (subst digits.simps) auto

lemmas digits_Nil [simp] = digits_not_Nil [symmetric]

lemma digit_inj: "a < 10 \<Longrightarrow> b < 10 \<Longrightarrow> (char_of (48 + a :: nat) :: char) = char_of (48 + b) \<longleftrightarrow> a = b"
  by (simp add: char_of_eq_iff [of "48 + a"] of_char_of)

lemma digits_inj: "digits m = digits n \<Longrightarrow> m = n"
proof (induction m arbitrary: n rule: digits.induct)
  case (1 m)
  note m = digits.simps [of m] and n = digits.simps [of n]
  show ?case
  proof (cases "m < 10 \<or> n < 10")
    case True
    then show ?thesis using 1(2) m n by (auto simp: digit_inj split: if_splits)
  next
    case False
    with 1(2) m n have "digits (m div 10) = digits (n div 10)" "m mod 10 = n mod 10"
      by (auto simp: digit_inj)
    then show ?thesis using 1(1) False by (metis div_mult_mod_eq)
  qed
qed

lemma itoa_inj: "0 \<le> x \<Longrightarrow> 0 \<le> y \<Longrightarrow> itoa x = itoa y \<longleftrightarrow> x = y"
  using digits_inj [of "nat x" "nat y"] by (auto simp: itoa_def)

lemma itoa_no_colon: "0 \<le> x \<Longrightarrow> CHR '':'' \<notin> set (itoa x)"
  using digits_chars [of "CHR '':''" "nat x"] by (auto simp: itoa_def)

text \<open>The port of an address: what follows the last colon.\<close>

definition port_text :: "string \<Rightarrow> string" where
  "port_text a = rev (takeWhile (\<lambda>c. c \<noteq> CHR '':'') (rev a))"

lemma port_text_append: "CHR '':'' \<notin> set p \<Longrightarrow> port_text (a @ CHR '':'' # p) = p"
proof -
  assume p: "CHR '':'' \<notin> set p"
  have "takeWhile (\<lambda>c. c \<noteq> CHR '':'') (rev p @ [CHR '':''] @ rev a) = rev p"
    using p by (subst takeWhile_append2) auto
  then show ?thesis by (simp add: port_text_def)
qed

lemma port_text_itoa: "0 \<le> x \<Longrightarrow> port_text (a @ CHR '':'' # itoa x) = itoa x"
  by (rule port_text_append [OF itoa_no_colon])

text \<open>The addresses on which the servers of node \<open>i\<close> listen: those of config.toml and of app.toml.\<close>

definition listen_addresses :: "initArgs \<Rightarrow> NodeConfig \<Rightarrow> AppToml \<Rightarrow> int \<Rightarrow> string list" where
  "listen_addresses args cfg toml i =
     (let c = final_config args '''' i cfg; t = node_toml args i toml
      in [nc_P2P_ListenAddress c, nc_RPC_ListenAddress c, nc_ProxyApp c, nc_PrometheusListenAddr c,
          at_GRPC_Address t, at_API_Address t])"

definition port_numbers :: "int \<Rightarrow> int list" where
  "port_numbers i = [26656 - 3 * i, 26657 - 3 * i, 26658 - 3 * i, 26660 + i, 9090 - 2 * i, 1317 - i]"

lemma default_ports_at: "default_ports n i m k =
    (if i \<le> k \<and> k < i + int n then Some (itoa (wrap64 (26657 - 3 * k))) else m k)"
  by (induction n arbitrary: i m) auto

lemma parse_args_default:
  assumes "parse_args t args stakes '''' = Ok a" "0 \<le> i" "i < ia_numValidators a"
  shows "port_of a i = itoa (wrap64 (26657 - 3 * i))"
  using assms by (auto simp: parse_args_def port_of_def default_ports_at)

lemma port_numbers_range: "0 \<le> i \<Longrightarrow> i < 1317 \<Longrightarrow> p \<in> set (port_numbers i) \<Longrightarrow> 0 < p \<and> p < 65536"
  by (auto simp: port_numbers_def)

lemma listen_ports:
  assumes "parse_args t args stakes '''' = Ok a" "0 \<le> i" "i < ia_numValidators a" "ia_numValidators a \<le> 1317"
  shows "map port_text (listen_addresses a cfg toml i) = map itoa (port_numbers i)"
proof -
  have b: "i < 1317" using assms by simp
  have w: "wrap64 (26656 - 3 * i) = 26656 - 3 * i" "wrap64 (26657 - 3 * i) = 26657 - 3 * i"
    "wrap64 (26658 - 3 * i) = 26658 - 3 * i" "wrap64 (26660 + i) = 26660 + i"
    "wrap64 (9090 - 2 * i) = 9090 - 2 * i" "wrap64 (1317 - i) = 1317 - i"
    using b assms(2) by simp_all
  have p: "0 \<le> x \<Longrightarrow> port_text (''tcp://0.0.0.0:'' @ itoa x) = itoa x"
    "0 \<le> x \<Longrightarrow> port_text (''tcp://127.0.0.1:'' @ itoa x) = itoa x"
    "0 \<le> x \<Longrightarrow> port_text (''tcp://localhost:'' @ itoa x) = itoa x"
    "0 \<le> x \<Longrightarrow> port_text ('':'' @ itoa x) = itoa x"
    "0 \<le> x \<Longrightarrow> port_text (h @ '':'' @ itoa x) = itoa x" for x h
    using port_text_itoa [of x "''tcp://0.0.0.0''"] port_text_itoa [of x "''tcp://127.0.0.1''"]
      port_text_itoa [of x "''tcp://localhost''"] port_text_itoa [of x "[]"] port_text_itoa [of x h]
    by simp_all
  show ?thesis
    using b assms(2)
    by (simp del: append.simps
        add: listen_addresses_def final_config_def node_toml_def port_numbers_def Let_def
          parse_args_default [OF assms(1-3)] w p)
qed

lemma distinct_concat_map:
  assumes "distinct xs" "\<And>x. x \<in> set xs \<Longrightarrow> distinct (f x)"
    "\<And>x y. x \<in> set xs \<Longrightarrow> y \<in> set xs \<Longrightarrow> x \<noteq> y \<Longrightarrow> set (f x) \<inter> set (f y) = {}"
  shows "distinct (concat (map f xs))"
  using assms
proof (induction xs)
  case (Cons x xs)
  then have "set (f x) \<inter> set (f y) = {}" if "y \<in> set xs" for y using that by auto
  with Cons show ?case by auto
qed simp

lemma port_numbers_distinct:
  assumes "n \<le> 1317"
  shows "distinct (concat (map port_numbers [0..n - 1]))"
proof (rule distinct_concat_map)
  show "distinct (port_numbers x)" if "x \<in> set [0..n - 1]" for x
    using that assms by (auto simp: port_numbers_def)
  show "set (port_numbers x) \<inter> set (port_numbers y) = {}"
    if "x \<in> set [0..n - 1]" "y \<in> set [0..n - 1]" "x \<noteq> y" for x y
  proof -
    have "0 \<le> x" "x < 1317" "0 \<le> y" "y < 1317" using that assms by auto
    with that(3) have "p \<noteq> q" if "p \<in> set (port_numbers x)" "q \<in> set (port_numbers y)" for p q
      using that unfolding port_numbers_def list.set by (elim insertE emptyE) (simp only:, (linarith | presburger))+
    then show ?thesis by blast
  qed
qed simp

text \<open>C30. Without a list of ports, no two servers of a testnet of at most 1317 nodes listen on the same port, and
  every port is a valid one: the P2P, RPC, proxy, Prometheus, gRPC and API servers of all nodes can run on one
  machine.\<close>

theorem testnet_ports_distinct:
  assumes "parse_args t args stakes '''' = Ok a" "ia_numValidators a \<le> 1317"
  shows "distinct (concat (map (\<lambda>i. map port_text (listen_addresses a cfg toml i)) [0..ia_numValidators a - 1]))
    \<and> (\<forall>i \<in> {0..<ia_numValidators a}. \<forall>p \<in> set (listen_addresses a cfg toml i).
         \<exists>n. 0 < n \<and> n < 65536 \<and> port_text p = itoa n)"
proof
  let ?is = "[0..ia_numValidators a - 1]"
  have eq: "concat (map (\<lambda>i. map port_text (listen_addresses a cfg toml i)) ?is) =
      map itoa (concat (map port_numbers ?is))"
    unfolding map_concat map_map comp_def
    by (intro arg_cong [of _ _ concat] map_cong refl listen_ports [OF assms(1) _ _ assms(2)]) auto
  have "0 < x" if "x \<in> set (concat (map port_numbers ?is))" for x
    using that port_numbers_range assms(2) by fastforce
  then have "inj_on itoa (set (concat (map port_numbers ?is)))"
    by (intro inj_onI) (metis itoa_inj less_imp_le)
  then show "distinct (concat (map (\<lambda>i. map port_text (listen_addresses a cfg toml i)) ?is))"
    unfolding eq distinct_map using port_numbers_distinct [OF assms(2)] by simp
  show "\<forall>i \<in> {0..<ia_numValidators a}. \<forall>p \<in> set (listen_addresses a cfg toml i).
         \<exists>n. 0 < n \<and> n < 65536 \<and> port_text p = itoa n"
  proof (intro ballI)
    fix i p assume i: "i \<in> {0..<ia_numValidators a}" and p: "p \<in> set (listen_addresses a cfg toml i)"
    then have "port_text p \<in> itoa ` set (port_numbers i)"
      using listen_ports [OF assms(1) _ _ assms(2), of i cfg toml] by (metis atLeastLessThan_iff imageI list.set_map)
    then show "\<exists>n. 0 < n \<and> n < 65536 \<and> port_text p = itoa n"
      using port_numbers_range [of i] i assms(2) by auto
  qed
qed

section \<open>The flags\<close>

definition new_coin_law :: "'w Tools \<Rightarrow> bool" where
  "new_coin_law t \<longleftrightarrow> (\<forall>d a c. tl_NewCoin t d a = Ok c \<longrightarrow> c = \<lparr>coin_denom = d, coin_amount = a\<rparr>)"

lemma parse_stakes_at:
  assumes "new_coin_law t" "parse_stakes t amounts idx m = Ok m'"
  shows "m' i = (if idx \<le> i \<and> i < idx + int (length (List.map_filter (NewIntFromString t) amounts))
     then Some \<lparr>coin_denom = DefaultBondDenom t,
       coin_amount = List.map_filter (NewIntFromString t) amounts ! nat (i - idx)\<rparr> else m i)"
  using assms(2)
proof (induction amounts arbitrary: idx m)
  case (Cons x xs)
  show ?case
  proof (cases "NewIntFromString t x")
    case None
    with Cons show ?thesis by (simp add: map_filter_simps)
  next
    case (Some a)
    from Cons.prems Some obtain c where c: "tl_NewCoin t (DefaultBondDenom t) a = Ok c"
      "parse_stakes t xs (idx + 1) (m(idx \<mapsto> c)) = Ok m'" by auto
    have eq: "c = \<lparr>coin_denom = DefaultBondDenom t, coin_amount = a\<rparr>"
      using assms(1) c(1) by (simp add: new_coin_law_def)
    have shift: "nat (i - idx) = Suc (nat (i - (idx + 1)))" if "idx + 1 \<le> i" using that by simp
    show ?thesis
      using Cons.IH [OF c(2)] Some eq shift by (auto simp: map_filter_simps)
  qed
qed (auto simp: map_filter_simps)

text \<open>The amounts of the stakes that are numbers are given to the validators in their order; a text that is
  not a number is skipped, so its validator gets the next amount, and the default is left to the last ones.\<close>

theorem stakes_skip_invalid:
  assumes "new_coin_law t" "parse_args t args stakes ports = Ok a" "0 \<le> i"
  shows "ia_validatorsStakesAmount a i =
    (let amounts = List.map_filter (NewIntFromString t) (Split stakes CHR '','')
     in if nat i < length amounts then Some \<lparr>coin_denom = DefaultBondDenom t, coin_amount = amounts ! nat i\<rparr>
        else None)"
proof -
  from assms(2) obtain m where m: "parse_stakes t (Split stakes CHR '','') 0 Map.empty = Ok m"
    "ia_validatorsStakesAmount a = m" by (auto simp: parse_args_def)
  show ?thesis
    using parse_stakes_at [OF assms(1) m(1), of i] m(2) assms(3) by (auto simp: Let_def nat_less_iff)
qed

lemma init_node_min_gas: "init_node t (args\<lparr>ia_minGasPrices := p\<rparr>) i = init_node t args i"
  by (simp add: init_node_def node_name_def memo_of_def port_of_def node_toml_def)

lemma init_nodes_min_gas: "init_nodes t (args\<lparr>ia_minGasPrices := p\<rparr>) n i = init_nodes t args n i"
proof (induction n arbitrary: i)
  case 0
  show ?case by (rule ext) simp
next
  case (Suc n)
  show ?case by (rule ext) (simp only: init_nodes.simps init_node_min_gas Suc)
qed

lemma copy_all_min_gas: "copy_all_gentxs t (args\<lparr>ia_minGasPrices := p\<rparr>) files n i = copy_all_gentxs t args files n i"
  by (induction n arbitrary: i) (simp_all add: node_name_def)

lemma collect_loop_min_gas: "collect_loop t (args\<lparr>ia_minGasPrices := p\<rparr>) peers time nodes i s cfg =
    collect_loop t args peers time nodes i s cfg"
  by (induction nodes arbitrary: i s cfg)
    (auto simp: node_name_def final_config_def port_of_def Let_def split: prod.splits)

text \<open>The minimum gas prices that the command is given have no effect: whatever they are, the same files
  are written.\<close>

theorem min_gas_prices_ignored:
  "initTestnetFiles t defaultConfig cfg (args\<lparr>ia_minGasPrices := p\<rparr>) w = initTestnetFiles t defaultConfig cfg args w"
proof -
  have eq: "args\<lparr>ia_minGasPrices := p, ia_chainID := c\<rparr> = args\<lparr>ia_chainID := c\<rparr>\<lparr>ia_minGasPrices := p\<rparr>" for c
    by simp
  show ?thesis
    unfolding initTestnetFiles_def collectGenFiles_def
    by (auto simp: bindA_def init_nodes_min_gas copy_all_min_gas collect_loop_min_gas eq Let_def
        split: prod.splits res.splits)
qed

section \<open>The supply\<close>

text \<open>
  The sum of two lists of coins is their sum in every denomination; the balances are sorted; what was
  marshalled is read back.
\<close>

definition genesis_tool_laws :: "'w Tools \<Rightarrow> bool" where
  "genesis_tool_laws t \<longleftrightarrow> json_laws (BankJSON t)
     \<and> (\<forall>bs. mset (SanitizeGenesisBalances t bs) = mset bs)
     \<and> (\<forall>a b c. CoinsAdd t a b = Ok c \<longrightarrow> (\<forall>d. coins_amount c d = coins_amount a d + coins_amount b d))"

lemma add_balances_amount:
  assumes "\<And>a b c d. CoinsAdd t a b = Ok c \<Longrightarrow> coins_amount c d = coins_amount a d + coins_amount b d"
    "add_balances t bals tot = Ok tot'"
  shows "coins_amount tot' d = coins_amount tot d + (\<Sum>b\<leftarrow>bals. coins_amount (bal_Coins b) d)"
  using assms(2)
proof (induction bals arbitrary: tot)
  case (Cons b bals)
  then show ?case using assms(1) by fastforce
qed simp

text \<open>The genesis file of the testnet is balanced: it holds the balances that were made for the nodes, and the
  supply of every denomination is that of the default genesis and the sum of these balances.\<close>

theorem genesis_supply:
  assumes "genesis_tool_laws t" "genesis_app_state t accounts balances = Ok st"
  shows "\<exists>bg0 j bg. UnmarshalJSON (BankJSON t) (case mbm_DefaultGenesis t ''bank'' of None \<Rightarrow> '''' | Some j \<Rightarrow> j) = Ok bg0
    \<and> st ''bank'' = Some j \<and> UnmarshalJSON (BankJSON t) j = Ok bg \<and> mset (bg_Balances bg) = mset balances
    \<and> (\<forall>d. coins_amount (bg_Supply bg) d =
        coins_amount (bg_Supply bg0) d + (\<Sum>b\<leftarrow>balances. coins_amount (bal_Coins b) d))"
proof -
  let ?bs = "SanitizeGenesisBalances t balances"
  from assms(2) obtain bg0 tot j au where
    bg0: "UnmarshalJSON (BankJSON t) (case mbm_DefaultGenesis t ''bank'' of None \<Rightarrow> [] | Some j \<Rightarrow> j) = Ok bg0"
    and tot: "add_balances t (bg_Balances (bg0\<lparr>bg_Balances := ?bs\<rparr>)) (bg_Supply (bg0\<lparr>bg_Balances := ?bs\<rparr>)) = Ok tot"
    and j: "MarshalJSON (BankJSON t) (bg0\<lparr>bg_Balances := ?bs, bg_Supply := tot\<rparr>) = Ok j"
      "(mbm_DefaultGenesis t)(''auth'' \<mapsto> au, ''bank'' \<mapsto> j) = st"
    unfolding genesis_app_state_def Let_def bindR_eq_Ok or_panic_Ok res.inject by blast
  from tot have tot: "add_balances t ?bs (bg_Supply bg0) = Ok tot" by simp
  have st: "st ''bank'' = Some j" using j(2) by auto
  have laws: "json_laws (BankJSON t)" "mset ?bs = mset balances"
    "CoinsAdd t a b = Ok c \<Longrightarrow> coins_amount c d = coins_amount a d + coins_amount b d" for a b c d
    using assms(1) by (auto simp: genesis_tool_laws_def)
  have read: "UnmarshalJSON (BankJSON t) j = Ok (bg0\<lparr>bg_Balances := ?bs, bg_Supply := tot\<rparr>)"
    using laws(1) j(1) by (simp add: json_laws_def)
  have sum: "(\<Sum>b\<leftarrow>?bs. coins_amount (bal_Coins b) d) = (\<Sum>b\<leftarrow>balances. coins_amount (bal_Coins b) d)" for d
  proof -
    have "mset (map (\<lambda>b. coins_amount (bal_Coins b) d) ?bs) = mset (map (\<lambda>b. coins_amount (bal_Coins b) d) balances)"
      unfolding mset_map laws(2) ..
    from arg_cong [OF this, of sum_mset] show ?thesis unfolding sum_mset_sum_list .
  qed
  have "coins_amount tot d = coins_amount (bg_Supply bg0) d + (\<Sum>b\<leftarrow>balances. coins_amount (bal_Coins b) d)" for d
    using add_balances_amount [OF laws(3) tot] sum by simp
  with bg0 st read laws(2) show ?thesis by auto
qed

section \<open>The files of the nodes\<close>

definition node_dir :: "'w Tools \<Rightarrow> initArgs \<Rightarrow> int \<Rightarrow> string" where
  "node_dir t args i = FilepathJoin t [ia_outputDir args, node_name args i]"

definition config_path :: "'w Tools \<Rightarrow> string \<Rightarrow> string" where
  "config_path t dir = FilepathJoin t [dir, ''config'', ''config.toml'']"

text \<open>
  The configuration files and the genesis files of a world. The two writers write the file of their path;
  \<open>GenAppStateFromConfig\<close> writes, of both kinds, only the files of the configuration that it is given; the
  path of the genesis file depends on the root directory only.
\<close>

definition node_files :: "'w Tools \<Rightarrow> ('w \<Rightarrow> string \<Rightarrow> NodeConfig option) \<Rightarrow>
    ('w \<Rightarrow> string \<Rightarrow> (string \<times> json \<times> int) option) \<Rightarrow> bool" where
  "node_files t conf gen \<longleftrightarrow>
     (\<forall>p c w w'. WriteNodeConfig t p c w = (Ok (), w') \<longrightarrow> conf w' = (conf w)(p \<mapsto> c) \<and> gen w' = gen w)
     \<and> (\<forall>f cid s time w w'. ExportGenesisFileWithTime t f cid s time w = (Ok (), w') \<longrightarrow>
          gen w' = (gen w)(f \<mapsto> (cid, s, time)) \<and> conf w' = conf w)
     \<and> (\<forall>f. when_ok conf (AppGenesisFromFile t f) \<and> when_ok gen (AppGenesisFromFile t f))
     \<and> (\<forall>c cid dir nid pk ag w s w'. GenAppState t c cid dir nid pk ag w = (Ok s, w') \<longrightarrow>
          (\<forall>p. p \<noteq> config_path t (nc_RootDir c) \<longrightarrow> conf w' p = conf w p)
          \<and> (\<forall>f. f \<noteq> GenesisFile t c \<longrightarrow> gen w' f = gen w f))
     \<and> (\<forall>c c'. nc_RootDir c = nc_RootDir c' \<longrightarrow> GenesisFile t c = GenesisFile t c')"

lemma node_filesD:
  assumes "node_files t conf gen"
  shows "WriteNodeConfig t p c w = (Ok (), w') \<Longrightarrow> conf w' = (conf w)(p \<mapsto> c) \<and> gen w' = gen w"
    and "ExportGenesisFileWithTime t f cid s time w = (Ok (), w') \<Longrightarrow>
      gen w' = (gen w)(f \<mapsto> (cid, s, time)) \<and> conf w' = conf w"
    and "AppGenesisFromFile t f w = (Ok ag, w') \<Longrightarrow> conf w' = conf w \<and> gen w' = gen w"
    and "GenAppState t c cid dir nid pk ag w = (Ok s, w') \<Longrightarrow> p \<noteq> config_path t (nc_RootDir c) \<Longrightarrow> conf w' p = conf w p"
    and "GenAppState t c cid dir nid pk ag w = (Ok s, w') \<Longrightarrow> f \<noteq> GenesisFile t c \<Longrightarrow> gen w' f = gen w f"
    and "nc_RootDir c = nc_RootDir c' \<Longrightarrow> GenesisFile t c = GenesisFile t c'"
proof -
  note laws = assms [unfolded node_files_def]
  note l1 = laws [THEN conjunct1, rule_format] and r1 = laws [THEN conjunct2]
  note l2 = r1 [THEN conjunct1, rule_format] and r2 = r1 [THEN conjunct2]
  note l3 = r2 [THEN conjunct1, rule_format] and r3 = r2 [THEN conjunct2]
  note l4 = r3 [THEN conjunct1, rule_format] and l5 = r3 [THEN conjunct2, rule_format]
  show "WriteNodeConfig t p c w = (Ok (), w') \<Longrightarrow> conf w' = (conf w)(p \<mapsto> c) \<and> gen w' = gen w" by (rule l1)
  show "ExportGenesisFileWithTime t f cid s time w = (Ok (), w') \<Longrightarrow>
      gen w' = (gen w)(f \<mapsto> (cid, s, time)) \<and> conf w' = conf w" by (rule l2)
  show "AppGenesisFromFile t f w = (Ok ag, w') \<Longrightarrow> conf w' = conf w \<and> gen w' = gen w"
    by (intro conjI when_okD [OF l3 [THEN conjunct1]] when_okD [OF l3 [THEN conjunct2]])
  show "GenAppState t c cid dir nid pk ag w = (Ok s, w') \<Longrightarrow> p \<noteq> config_path t (nc_RootDir c) \<Longrightarrow> conf w' p = conf w p"
    by (rule l4 [THEN conjunct1, rule_format])
  show "GenAppState t c cid dir nid pk ag w = (Ok s, w') \<Longrightarrow> f \<noteq> GenesisFile t c \<Longrightarrow> gen w' f = gen w f"
    by (rule l4 [THEN conjunct2, rule_format])
  show "nc_RootDir c = nc_RootDir c' \<Longrightarrow> GenesisFile t c = GenesisFile t c'" by (rule l5)
qed

lemma collect_step:
  assumes "node_files t conf gen"
    "collect_loop t args peers time ((nid, pk) # nodes) i s cfg w = (Ok (), w')"
  obtains c s' w1 where
    "conf w1 (config_path t (node_dir t args i)) = Some (final_config args peers i c)"
    "\<And>p. p \<noteq> config_path t (node_dir t args i) \<Longrightarrow> conf w1 p = conf w p"
    "gen w1 (GenesisFile t (SetRoot (node_dir t args i) cfg)) = Some (ia_chainID args, s', time)"
    "\<And>f. f \<noteq> GenesisFile t (SetRoot (node_dir t args i) cfg) \<Longrightarrow> gen w1 f = gen w f"
    "s = None \<or> s = Some s'" "nc_P2P_AddrBookStrict c = nc_P2P_AddrBookStrict cfg"
    "collect_loop t args peers time nodes (i + 1) (Some s') (final_config args peers i c) w1 = (Ok (), w')"
proof -
  let ?c = "SetRoot (node_dir t args i) (cfg\<lparr>nc_Moniker := node_name args i\<rparr>)"
  let ?f = "GenesisFile t (SetRoot (node_dir t args i) cfg)"
  let ?s = "\<lambda>a. case s of None \<Rightarrow> a | Some x \<Rightarrow> x"
  from assms(2) obtain ag wa a wb u1 wc u2 wd where
    a: "AppGenesisFromFile t (GenesisFile t ?c) w = (Ok ag, wa)"
    and b: "GenAppState t ?c (ia_chainID args) (FilepathJoin t [node_dir t args i, ''config'', ''gentx'']) nid pk ag wa = (Ok a, wb)"
    and c: "WriteNodeConfig t (FilepathJoin t [nc_RootDir (final_config args peers i ?c), ''config'', ''config.toml''])
      (final_config args peers i ?c) wb = (Ok u1, wc)"
    and d: "ExportGenesisFileWithTime t (GenesisFile t (final_config args peers i ?c)) (ia_chainID args) (?s a) time wc = (Ok u2, wd)"
    and rest: "collect_loop t args peers time nodes (i + 1) (Some (?s a)) (final_config args peers i ?c) wd = (Ok (), w')"
    unfolding collect_loop.simps Let_def bindA_Ok_iff node_dir_def by blast
  define s' where "s' = ?s a"
  have s: "s = None \<or> s = Some s'" unfolding s'_def by (cases s) simp_all
  have u: "u1 = ()" "u2 = ()" by simp_all
  note c = c [unfolded u] and d = d [folded s'_def, unfolded u] and rest = rest [folded s'_def]
  have root: "nc_RootDir (final_config args peers i ?c) = node_dir t args i" "nc_RootDir ?c = node_dir t args i"
    "nc_RootDir (SetRoot (node_dir t args i) cfg) = node_dir t args i"
    by (simp_all add: final_config_def SetRoot_def)
  have gf: "GenesisFile t ?c = ?f" "GenesisFile t (final_config args peers i ?c) = ?f"
    by (rule node_filesD(6) [OF assms(1)], simp add: root)+
  note laws = node_filesD [OF assms(1)]
  have wa: "conf wa = conf w" "gen wa = gen w" using laws(3) [OF a] by simp_all
  have wb: "p \<noteq> config_path t (node_dir t args i) \<Longrightarrow> conf wb p = conf wa p" "f \<noteq> ?f \<Longrightarrow> gen wb f = gen wa f" for p f
    using laws(4,5) [OF b] unfolding root gf by simp_all
  have wc: "conf wc = (conf wb)(config_path t (node_dir t args i) \<mapsto> final_config args peers i ?c)" "gen wc = gen wb"
    using laws(1) [OF c] unfolding root config_path_def by simp_all
  have wd: "gen wd = (gen wc)(?f \<mapsto> (ia_chainID args, s', time))" "conf wd = conf wc"
    using laws(2) [OF d] unfolding gf by simp_all
  show ?thesis
    by (rule that [of wd ?c s']) (use wa wb wc wd s rest in \<open>auto simp: SetRoot_def\<close>)
qed

lemma collect_conf:
  assumes "node_files t conf gen" "inj_on (\<lambda>k. config_path t (node_dir t args k)) {i..<i + int (length nodes)}"
    "collect_loop t args peers time nodes i s cfg w = (Ok (), w')"
  shows "(\<forall>k \<in> {i..<i + int (length nodes)}. \<exists>c. nc_P2P_AddrBookStrict c = nc_P2P_AddrBookStrict cfg
        \<and> conf w' (config_path t (node_dir t args k)) = Some (final_config args peers k c))
    \<and> (\<forall>p. p \<notin> (\<lambda>k. config_path t (node_dir t args k)) ` {i..<i + int (length nodes)} \<longrightarrow> conf w' p = conf w p)"
  using assms(2,3)
proof (induction nodes arbitrary: i s cfg w)
  case (Cons node nodes)
  let ?p = "\<lambda>k. config_path t (node_dir t args k)"
  obtain nid pk where node: "node = (nid, pk)" by (cases node)
  from assms(1) Cons.prems(2) [unfolded node] obtain c s' w1 where
    w1: "conf w1 (?p i) = Some (final_config args peers i c)" "\<And>p. p \<noteq> ?p i \<Longrightarrow> conf w1 p = conf w p"
    and strict: "nc_P2P_AddrBookStrict c = nc_P2P_AddrBookStrict cfg"
    and rest: "collect_loop t args peers time nodes (i + 1) (Some s') (final_config args peers i c) w1 = (Ok (), w')"
    by (rule collect_step) (rule that; assumption)
  have range: "{i..<i + int (length (node # nodes))} = insert i {i + 1..<i + 1 + int (length nodes)}" by auto
  have inj: "inj_on ?p {i + 1..<i + 1 + int (length nodes)}" "?p i \<notin> ?p ` {i + 1..<i + 1 + int (length nodes)}"
    using Cons.prems(1) unfolding range by auto
  have keeps: "nc_P2P_AddrBookStrict (final_config args peers i c) = nc_P2P_AddrBookStrict cfg"
    using strict by (simp add: final_config_def)
  show ?case
    using Cons.IH [OF inj(1) rest, unfolded keeps] w1 strict inj(2) unfolding range by auto
qed auto

lemma collect_gen:
  assumes "node_files t conf gen"
    "collect_loop t args peers time nodes i s cfg w = (Ok (), w')"
  shows "\<exists>s'. (s = None \<or> nodes = [] \<or> s = Some s')
    \<and> (\<forall>k \<in> {i..<i + int (length nodes)}.
         gen w' (GenesisFile t (SetRoot (node_dir t args k) cfg)) = Some (ia_chainID args, s', time))
    \<and> (\<forall>f. gen w' f = gen w f \<or> nodes \<noteq> [] \<and> gen w' f = Some (ia_chainID args, s', time))"
  using assms(2)
proof (induction nodes arbitrary: i s cfg w)
  case (Cons node nodes)
  let ?f = "\<lambda>cfg k. GenesisFile t (SetRoot (node_dir t args k) cfg)"
  have same: "?f c k = ?f c' k" for c k c' by (rule node_filesD(6) [OF assms(1)]) (simp add: SetRoot_def)
  obtain nid pk where node: "node = (nid, pk)" by (cases node)
  from assms(1) Cons.prems [unfolded node] obtain c s' w1 where
    w1: "gen w1 (?f cfg i) = Some (ia_chainID args, s', time)" "\<And>f. f \<noteq> ?f cfg i \<Longrightarrow> gen w1 f = gen w f"
    and s: "s = None \<or> s = Some s'"
    and rest: "collect_loop t args peers time nodes (i + 1) (Some s') (final_config args peers i c) w1 = (Ok (), w')"
    by (rule collect_step) (rule that; assumption)
  from Cons.IH [OF rest, unfolded same [of _ "final_config args peers i c" cfg]] obtain s'' where s'': "nodes = [] \<or> s'' = s'"
    and k: "\<forall>k \<in> {i + 1..<i + 1 + int (length nodes)}. gen w' (?f cfg k) = Some (ia_chainID args, s'', time)"
    and f: "\<forall>f. gen w' f = gen w1 f \<or> nodes \<noteq> [] \<and> gen w' f = Some (ia_chainID args, s'', time)"
    by auto
  have k': "\<forall>k \<in> {i + 1..<i + 1 + int (length nodes)}. gen w' (?f cfg k) = Some (ia_chainID args, s', time)"
    using k s'' by (cases nodes) auto
  have f': "gen w' f = gen w1 f \<or> gen w' f = Some (ia_chainID args, s', time)" for f
    using f s'' by auto
  have "gen w' (?f cfg i) = Some (ia_chainID args, s', time)" using f' [of "?f cfg i"] w1(1) by auto
  moreover have "{i..<i + int (length (node # nodes))} = insert i {i + 1..<i + 1 + int (length nodes)}" by auto
  moreover have "gen w' f = gen w f \<or> gen w' f = Some (ia_chainID args, s', time)" for f
    using f' [of f] w1 by (cases "f = ?f cfg i") auto
  ultimately show ?case using k' s by auto
qed auto

lemma init_node_collected:
  assumes "init_node t args i (cfg, toml, co) w = (Ok (cfg', toml', co'), w')"
  shows "\<exists>nid pk. co_nodes co' = co_nodes co @ [(nid, pk)] \<and> co_persistentPeers co' =
    Join ((if co_persistentPeers co = [] then [] else [co_persistentPeers co]) @ [memo_of args i nid]) '',''
    \<and> nc_P2P_AddrBookStrict cfg' = nc_P2P_AddrBookStrict cfg"
  using assms unfolding init_node_def Let_def prod.case
  by (elim bindA_OkE; simp only: split_paired_all prod.case; elim bindA_OkE; simp only: split_paired_all prod.case;
      elim bindA_OkE) (auto simp: SetRoot_def)

lemma Join_snoc_first: "Join (xs @ [m]) sep = j \<Longrightarrow> Join ([j] @ ms) sep = Join (xs @ m # ms) sep"
proof (induction xs arbitrary: j)
  case (Cons x xs)
  then show ?case by (cases "xs @ [m]"; cases ms) (auto simp: Join_Cons)
qed (cases ms, auto)

lemma Join_Nil_iff: "(\<And>x. x \<in> set xs \<Longrightarrow> x \<noteq> []) \<Longrightarrow> Join xs sep = [] \<longleftrightarrow> xs = []"
  by (cases xs rule: remdups_adj.cases) (auto simp: Join_Cons)

text \<open>The peers after the loop: the memos of all nodes in their order.\<close>

lemma init_nodes_collected:
  assumes "init_nodes t args n i (cfg, toml, co) w = (Ok (cfg', toml', co'), w')"
  shows "\<exists>ns. length ns = n \<and> co_nodes co' = co_nodes co @ ns \<and> co_persistentPeers co' =
    Join ((if co_persistentPeers co = [] then [] else [co_persistentPeers co])
      @ map (\<lambda>k. memo_of args (i + int k) (fst (ns ! k))) [0..<n]) '',''
    \<and> nc_P2P_AddrBookStrict cfg' = nc_P2P_AddrBookStrict cfg"
  using assms
proof (induction n arbitrary: i cfg toml co w)
  case (Suc n)
  let ?p = "\<lambda>co. if co_persistentPeers co = [] then [] else [co_persistentPeers co]"
  obtain s1 w1 where s1: "init_node t args i (cfg, toml, co) w = (Ok s1, w1)"
    "init_nodes t args n (i + 1) s1 w1 = (Ok (cfg', toml', co'), w')"
    using Suc.prems unfolding init_nodes.simps by (rule bindA_OkE)
  obtain cfg1 toml1 co1 where eq: "s1 = (cfg1, toml1, co1)" by (cases s1)
  note 1 = s1(1) [unfolded eq] and rest = s1(2) [unfolded eq]
  from init_node_collected [OF 1] obtain nid pk where c1: "co_nodes co1 = co_nodes co @ [(nid, pk)]"
    and p1: "co_persistentPeers co1 = Join (?p co @ [memo_of args i nid]) '',''"
    and strict: "nc_P2P_AddrBookStrict cfg1 = nc_P2P_AddrBookStrict cfg" by blast
  have "x \<noteq> []" if "x \<in> set (?p co @ [memo_of args i nid])" for x
    using that by (cases "co_persistentPeers co = []") (auto simp: memo_of_def)
  then have "co_persistentPeers co1 \<noteq> []" unfolding p1 by (subst Join_Nil_iff) blast+
  then have p1': "?p co1 = [co_persistentPeers co1]" by (rule if_not_P)
  from Suc.IH [OF rest] obtain ns where ns: "length ns = n" "co_nodes co' = co_nodes co1 @ ns"
    "co_persistentPeers co' = Join ([co_persistentPeers co1]
      @ map (\<lambda>k. memo_of args (i + 1 + int k) (fst (ns ! k))) [0..<n]) '',''"
    "nc_P2P_AddrBookStrict cfg' = nc_P2P_AddrBookStrict cfg1"
    unfolding p1' by blast
  let ?ns = "(nid, pk) # ns"
  have "co_persistentPeers co' = Join (?p co @ memo_of args i nid
      # map (\<lambda>k. memo_of args (i + 1 + int k) (fst (ns ! k))) [0..<n]) '',''"
    unfolding ns(3) by (rule Join_snoc_first) (simp only: p1)
  also have "memo_of args i nid # map (\<lambda>k. memo_of args (i + 1 + int k) (fst (ns ! k))) [0..<n] =
      map (\<lambda>k. memo_of args (i + int k) (fst (?ns ! k))) [0..<Suc n]"
    unfolding map_upt_Suc by (simp add: add.assoc)
  finally show ?case using ns(1,2,4) c1 strict by (intro exI [of _ ?ns]) simp
qed simp

lemma initTestnetFiles_cases:
  assumes "initTestnetFiles t defaultConfig cfg args w = (Ok (), w')"
  obtains cid ns peers time cfg1 w1 where "0 \<le> ia_numValidators args" "length ns = nat (ia_numValidators args)"
    "collect_loop t (args\<lparr>ia_chainID := cid\<rparr>) peers time ns 0 None cfg1 w1 = (Ok (), w')"
    "peers = Join (map (\<lambda>k. memo_of args (int k) (fst (ns ! k))) [0..<length ns]) '',''"
    "ia_chainID args \<noteq> [] \<longrightarrow> cid = ia_chainID args" "nc_P2P_AddrBookStrict cfg1 = nc_P2P_AddrBookStrict cfg"
proof -
  obtain a wa where a: "(if ia_chainID args = ''''
            then (\<lambda>w. let (s, w') = generateRandomString t 6 w in (Ok (args\<lparr>ia_chainID := ''chain-'' @ s\<rparr>), w'))
            else ret args) w = (Ok a, wa)"
    and rest: "(if ia_numValidators a < 0 then panic ''runtime error: makeslice: len out of range'' else
     let n = nat (ia_numValidators a);
         appConfig = defaultConfig\<lparr>at_MinGasPrices := ia_minGasPrices a\<rparr>;
         appConfig = appConfig\<lparr>at_API_Enable := False, at_MinGasPrices := ''0.0001'' @ DefaultBondDenom t,
           at_Telemetry_EnableHostnameLabel := False, at_Telemetry_Enabled := False,
           at_Telemetry_PrometheusRetentionTime := 0\<rparr>;
         co = \<lparr>co_nodes = [], co_genAccounts = [], co_genBalances = [], co_genFiles = [],
           co_persistentPeers = '''', co_gentxsFiles = []\<rparr>
     in bindA (init_nodes t a n 0 (cfg, appConfig, co)) (\<lambda>(nodeConfig, appConfig, co).
        bindA (initGenFiles t (ia_chainID a) (co_genAccounts co) (co_genBalances co) (co_genFiles co)
                 (ia_numValidators a)) (\<lambda>_.
        bindA (copy_all_gentxs t a (co_gentxsFiles co) n 0) (\<lambda>_.
        collectGenFiles t nodeConfig (co_nodes co) (co_persistentPeers co) a)))) wa = (Ok (), w')"
    using assms unfolding initTestnetFiles_def by (rule bindA_OkE)
  obtain cid where cid: "a = args\<lparr>ia_chainID := cid\<rparr>" "ia_chainID args \<noteq> [] \<longrightarrow> cid = ia_chainID args"
    using a by (auto split: if_splits prod.splits)
  have memo: "memo_of a i nid = memo_of args i nid" for i nid by (simp add: cid(1) memo_of_def)
  from rest have n: "0 \<le> ia_numValidators a" by (auto split: if_splits)
  from rest n obtain s w1 where s: "init_nodes t a (nat (ia_numValidators a)) 0 (cfg,
      defaultConfig\<lparr>at_MinGasPrices := ia_minGasPrices a, at_API_Enable := False, at_MinGasPrices := ''0.0001'' @ DefaultBondDenom t,
           at_Telemetry_EnableHostnameLabel := False, at_Telemetry_Enabled := False,
           at_Telemetry_PrometheusRetentionTime := 0\<rparr>, \<lparr>co_nodes = [], co_genAccounts = [], co_genBalances = [], co_genFiles = [],
           co_persistentPeers = '''', co_gentxsFiles = []\<rparr>) wa = (Ok s, w1)"
    and rest: "(case s of (nodeConfig, appConfig, co) \<Rightarrow>
        bindA (initGenFiles t (ia_chainID a) (co_genAccounts co) (co_genBalances co) (co_genFiles co)
                 (ia_numValidators a)) (\<lambda>_.
        bindA (copy_all_gentxs t a (co_gentxsFiles co) (nat (ia_numValidators a)) 0) (\<lambda>_.
        collectGenFiles t nodeConfig (co_nodes co) (co_persistentPeers co) a))) w1 = (Ok (), w')"
    unfolding Let_def not_less [symmetric] by (simp only: if_False) (erule bindA_OkE, blast)
  obtain cfg1 toml co where eq: "s = (cfg1, toml, co)" by (cases s)
  from init_nodes_collected [OF s [unfolded eq]] obtain ns where ns: "length ns = nat (ia_numValidators a)"
    "co_nodes co = ns" "co_persistentPeers co = Join (map (\<lambda>k. memo_of args (int k) (fst (ns ! k))) [0..<length ns]) '',''"
    "nc_P2P_AddrBookStrict cfg1 = nc_P2P_AddrBookStrict cfg"
    by (auto simp: memo)
  from rest [unfolded eq prod.case] obtain w2 w3 where
    "collectGenFiles t cfg1 (co_nodes co) (co_persistentPeers co) a w2 = (Ok (), w3)" "w3 = w'"
    by (elim bindA_OkE) blast
  then obtain time w4 where "collect_loop t a (co_persistentPeers co) time ns 0 None cfg1 w4 = (Ok (), w')"
    unfolding collectGenFiles_def ns(2) by (elim bindA_OkE) blast
  then show ?thesis
    using n ns cid by (intro that [of ns cid "co_persistentPeers co" time cfg1 w4]) simp_all
qed

lemma final_config_chain: "final_config (args\<lparr>ia_chainID := cid\<rparr>) peers i c = final_config args peers i c"
  by (simp add: final_config_def port_of_def)

lemma final_config_fields:
  "nc_P2P_PersistentPeers (final_config args peers i c) = peers"
  "nc_P2P_ListenAddress (final_config args peers i c) = ''tcp://0.0.0.0:'' @ itoa (wrap64 (26656 - 3 * i))"
  "nc_RPC_ListenAddress (final_config args peers i c) = ''tcp://127.0.0.1:'' @ port_of args i"
  "nc_P2P_AddrBookStrict (final_config args peers i c) = nc_P2P_AddrBookStrict c"
  by (simp_all add: final_config_def)

text \<open>The configuration files: that of every node is written from the memos of all nodes.\<close>

lemma testnet_node_configs:
  assumes "node_files t conf gen" "inj_on (\<lambda>k. config_path t (node_dir t args k)) {0..<ia_numValidators args}"
    "initTestnetFiles t defaultConfig cfg args w = (Ok (), w')"
  obtains ids where "length ids = nat (ia_numValidators args)"
    "\<And>i. i \<in> {0..<ia_numValidators args} \<Longrightarrow> \<exists>c. nc_P2P_AddrBookStrict c = nc_P2P_AddrBookStrict cfg
       \<and> conf w' (config_path t (node_dir t args i)) = Some (final_config args
           (Join (map (\<lambda>k. memo_of args (int k) (ids ! k)) [0..<length ids]) '','') i c)"
proof -
  from assms(3) obtain cid ns peers time cfg1 w1 where n: "0 \<le> ia_numValidators args" "length ns = nat (ia_numValidators args)"
    and loop: "collect_loop t (args\<lparr>ia_chainID := cid\<rparr>) peers time ns 0 None cfg1 w1 = (Ok (), w')"
    and peers: "peers = Join (map (\<lambda>k. memo_of args (int k) (fst (ns ! k))) [0..<length ns]) '',''"
    and strict: "nc_P2P_AddrBookStrict cfg1 = nc_P2P_AddrBookStrict cfg"
    by (rule initTestnetFiles_cases)
  have dir: "node_dir t (args\<lparr>ia_chainID := cid\<rparr>) k = node_dir t args k" for k by (simp add: node_dir_def node_name_def)
  have range: "{0..<0 + int (length ns)} = {0..<ia_numValidators args}" using n by simp
  let ?ids = "map fst ns"
  have peers': "peers = Join (map (\<lambda>k. memo_of args (int k) (?ids ! k)) [0..<length ?ids]) '',''"
    unfolding peers length_map by (rule arg_cong [of _ _ "\<lambda>l. Join l '',''"], rule map_cong) simp_all
  show ?thesis
  proof (rule that [of ?ids])
    show "length ?ids = nat (ia_numValidators args)" using n by simp
    show "\<exists>c. nc_P2P_AddrBookStrict c = nc_P2P_AddrBookStrict cfg
        \<and> conf w' (config_path t (node_dir t args i)) = Some (final_config args
            (Join (map (\<lambda>k. memo_of args (int k) (?ids ! k)) [0..<length ?ids]) '','') i c)"
      if "i \<in> {0..<ia_numValidators args}" for i
      using collect_conf [OF assms(1) _ loop, unfolded dir range final_config_chain strict, OF assms(2)] that
      unfolding peers' by blast
  qed
qed

lemma memo_port:
  assumes "0 \<le> k" "k < 1317"
  shows "memo_of args k nid = nid @ ''@'' @ ia_startingIPAddress args @ '':'' @ itoa (26656 - 3 * k)"
  using assms by (simp add: memo_of_def)

text \<open>The memos as the text that they make.\<close>

lemma peers_text:
  assumes "n \<le> 1317"
  shows "map (\<lambda>k. memo_of args (int k) (ids ! k)) [0..<n] =
    map (\<lambda>k. ids ! k @ ''@'' @ ia_startingIPAddress args @ '':'' @ itoa (26656 - 3 * int k)) [0..<n]"
  using assms by (intro map_cong refl memo_port) auto

text \<open>C31. The peers of a testnet of several nodes: the persistent peers in the configuration of every node are
  all nodes, in their order, as node \<open>k\<close> at the starting address and the port 26656 - 3k, which is the
  port on which node \<open>k\<close> is told to listen. So all peers have the one starting address; the help of the flag
  says that the addresses count up from it and that the port is always 46656.\<close>

theorem testnet_peers_listen:
  assumes "node_files t conf gen" "inj_on (\<lambda>k. config_path t (node_dir t args k)) {0..<ia_numValidators args}"
    "initTestnetFiles t defaultConfig cfg args w = (Ok (), w')" "ia_numValidators args \<le> 1317"
  shows "\<exists>ids. length ids = nat (ia_numValidators args) \<and> (\<forall>i \<in> {0..<ia_numValidators args}. \<exists>c.
      conf w' (config_path t (node_dir t args i)) = Some c
    \<and> nc_P2P_PersistentPeers c = Join (map (\<lambda>k. ids ! k @ ''@'' @ ia_startingIPAddress args @ '':''
         @ itoa (26656 - 3 * int k)) [0..<length ids]) '',''
    \<and> nc_P2P_ListenAddress c = ''tcp://0.0.0.0:'' @ itoa (26656 - 3 * i))"
proof -
  from assms(1-3) obtain ids where ids: "length ids = nat (ia_numValidators args)"
    and conf: "\<And>i. i \<in> {0..<ia_numValidators args} \<Longrightarrow> \<exists>c. nc_P2P_AddrBookStrict c = nc_P2P_AddrBookStrict cfg
       \<and> conf w' (config_path t (node_dir t args i)) = Some (final_config args
           (Join (map (\<lambda>k. memo_of args (int k) (ids ! k)) [0..<length ids]) '','') i c)"
    by (rule testnet_node_configs) (rule that; assumption)
  have "length ids \<le> 1317" using ids assms(4) by simp
  note conf = conf [unfolded peers_text [OF this]]
  show ?thesis
  proof (intro exI [of _ ids] conjI ballI ids)
    fix i assume i: "i \<in> {0..<ia_numValidators args}"
    then have "wrap64 (26656 - 3 * i) = 26656 - 3 * i" using assms(4) by simp
    note fields = final_config_fields(1,2) [of args _ i, unfolded this]
    from conf [OF i] fields show "\<exists>c. conf w' (config_path t (node_dir t args i)) = Some c
      \<and> nc_P2P_PersistentPeers c = Join (map (\<lambda>k. ids ! k @ ''@'' @ ia_startingIPAddress args @ '':''
           @ itoa (26656 - 3 * int k)) [0..<length ids]) '',''
      \<and> nc_P2P_ListenAddress c = ''tcp://0.0.0.0:'' @ itoa (26656 - 3 * i)" by blast
  qed
qed

text \<open>All nodes of a testnet start from one genesis: the genesis files of the nodes hold the same chain id, the
  same app state and the same time, and the chain id is the given one, if one was given.\<close>

theorem testnet_same_genesis:
  assumes "node_files t conf gen" "initTestnetFiles t defaultConfig cfg args w = (Ok (), w')"
  shows "\<exists>cid s time. (ia_chainID args \<noteq> [] \<longrightarrow> cid = ia_chainID args) \<and> (\<forall>i \<in> {0..<ia_numValidators args}.
      gen w' (GenesisFile t (SetRoot (node_dir t args i) cfg)) = Some (cid, s, time))"
proof -
  from assms(2) obtain cid ns peers time cfg1 w1 where n: "0 \<le> ia_numValidators args" "length ns = nat (ia_numValidators args)"
    and loop: "collect_loop t (args\<lparr>ia_chainID := cid\<rparr>) peers time ns 0 None cfg1 w1 = (Ok (), w')"
    and cid: "ia_chainID args \<noteq> [] \<longrightarrow> cid = ia_chainID args"
    by (rule initTestnetFiles_cases)
  have dir: "node_dir t (args\<lparr>ia_chainID := cid\<rparr>) k = node_dir t args k" for k by (simp add: node_dir_def node_name_def)
  have same: "GenesisFile t (SetRoot d cfg1) = GenesisFile t (SetRoot d cfg)" for d
    by (rule node_filesD(6) [OF assms(1)]) (simp add: SetRoot_def)
  have range: "{0..<0 + int (length ns)} = {0..<ia_numValidators args}" using n by simp
  from collect_gen [OF assms(1) loop, unfolded dir range same] obtain s where
    "\<forall>i \<in> {0..<ia_numValidators args}. gen w' (GenesisFile t (SetRoot (node_dir t args i) cfg)) = Some (cid, s, time)"
    by auto
  with cid show ?thesis by blast
qed

end
