(* ===== verification/MemTestnet.thy ===== *)
theory MemTestnet
  imports TestnetNodes
begin

text \<open>
  A concrete world of the local testnet of several nodes, on which the properties of \<open>TestnetNodes\<close> are applied.
\<close>

section \<open>Concrete instances\<close>

text \<open>
  A world of configuration and genesis files; the codec of the bank knows two genesis states, the default one
  and that of two nodes.
\<close>

type_synonym node_world = "(string \<Rightarrow> NodeConfig option) \<times> (string \<Rightarrow> (string \<times> json \<times> int) option)"

definition default_bank :: BankGenesis where
  "default_bank = \<lparr>bg_Params = ''p'', bg_Balances = [], bg_Supply = []\<rparr>"

definition memBalances :: "Balance list" where
  "memBalances = [\<lparr>bal_Address = ''b'', bal_Coins = [\<lparr>coin_denom = ''stake'', coin_amount = 5\<rparr>]\<rparr>,
     \<lparr>bal_Address = ''a'', bal_Coins = [\<lparr>coin_denom = ''stake'', coin_amount = 7\<rparr>]\<rparr>]"

definition memBank :: "BankGenesis JSONCodec" where
  "memBank = (let funded = default_bank\<lparr>bg_Balances := rev memBalances,
       bg_Supply := [\<lparr>coin_denom = ''stake'', coin_amount = 7\<rparr>, \<lparr>coin_denom = ''stake'', coin_amount = 5\<rparr>]\<rparr>
     in \<lparr>MarshalJSON = (\<lambda>g. if g = funded then Ok ''funded'' else if g = default_bank then Ok ''default'' else Err ErrInvalidGenesis),
         UnmarshalJSON = (\<lambda>t. if t = ''funded'' then Ok funded else if t = ''default'' then Ok default_bank else Err ErrInvalidGenesis)\<rparr>)"

definition memTools :: "node_world Tools" where
  "memTools = \<lparr>FilepathJoin = (\<lambda>ps. Join ps ''/''), FilepathBase = (\<lambda>p. p), FilepathAbs = (\<lambda>_. Ok),
     FilepathRel = (\<lambda>d p. Ok (if HasPrefix p d then ''in'' else ''..'')), FilepathIsAbs = (\<lambda>p. HasPrefix p ''/''),
     MkdirAll = (\<lambda>_. ret ()), RemoveAll = (\<lambda>_. ret ()), OsWriteFile = (\<lambda>_ _. ret ()), OsOpen = ret, OsCreate = ret,
     IoCopy = (\<lambda>_ _. ret 1), FileSync = (\<lambda>_. ret ()), FileClose = (\<lambda>_. ret ()), RandIntn = (\<lambda>n w. (0, w)),
     NewIntFromString = (\<lambda>s. if s \<noteq> [] \<and> list_all (\<lambda>c. 48 \<le> (of_char c :: nat) \<and> (of_char c :: nat) \<le> 57) s then Some (dec_digits (length s) s) else None),
     tl_NewCoin = (\<lambda>d a. if a < 0 then Panic ''negative coin amount'' else Ok \<lparr>coin_denom = d, coin_amount = a\<rparr>),
     DefaultBondDenom = ''stake'', TokensFromConsensusPower = (\<lambda>p. p * 1000000), CoinsSort = rev,
     CoinsAdd = (\<lambda>a b. Ok (a @ b)), AddrText = (\<lambda>a. a), ValAddrText = (\<lambda>a. a),
     GenesisFile = (\<lambda>c. Join [nc_RootDir c, ''config'', ''genesis.json''] ''/''),
     InitializeNodeValidatorFiles = (\<lambda>c. ret (''id-'' @ nc_Moniker c, ''pk'')), KeyringNew = (\<lambda>_ _. ret ''kb''),
     NewSigningAlgo = (\<lambda>a _. Ok a), GenerateSaveCoinKey = (\<lambda>_ n _. ret (''addr-'' @ n, ''secret'')), MarshalInfo = Ok,
     NewMsgCreateValidator = (\<lambda>_ _ _ _. Ok ''msg''), TxSetMsgs = Ok, TxSetMemo = (\<lambda>m t. t @ m),
     TxSign = (\<lambda>_ _ _ _. ret), TxEncode = Ok, WriteAppConfig = (\<lambda>_ _. ret ()),
     WriteNodeConfig = (\<lambda>p c. modify (\<lambda>(conf, gen). (conf(p \<mapsto> c), gen))),
     mbm_DefaultGenesis = [''bank'' \<mapsto> ''default'', ''auth'' \<mapsto> ''auth''],
     AuthJSON = \<lparr>MarshalJSON = (\<lambda>g. Ok (concat (ag_Accounts g))),
       UnmarshalJSON = (\<lambda>_. Ok \<lparr>ag_Params = '''', ag_Accounts = []\<rparr>)\<rparr>,
     BankJSON = memBank, PackAccounts = Ok, SanitizeGenesisBalances = rev,
     MarshalAppState = (\<lambda>s. Ok (case s ''bank'' of None \<Rightarrow> '''' | Some j \<Rightarrow> j)), SaveGenesis = (\<lambda>_ _. ret ()),
     AppGenesisFromFile = ret, GenAppState = (\<lambda>_ cid _ _ _ _. ret (cid @ ''-state'')),
     ExportGenesisFileWithTime = (\<lambda>f cid s time. modify (\<lambda>(conf, gen). (conf, gen(f \<mapsto> (cid, s, time))))),
     TimeNow = (\<lambda>_. 77)\<rparr>"

text \<open>The same world with a codec of the bank that forgets: \<open>initTestnetFiles\<close> runs to its end in it.\<close>

definition memToolsRun :: "node_world Tools" where
  "memToolsRun = memTools\<lparr>BankJSON := \<lparr>MarshalJSON = (\<lambda>g. Ok (concat (map bal_Address (bg_Balances g)))),
     UnmarshalJSON = (\<lambda>_. Ok default_bank)\<rparr>\<rparr>"

definition two_nodes :: initArgs where
  "two_nodes = \<lparr>ia_algo = ''secp256k1'', ia_chainID = ''lumi-1'', ia_keyringBackend = ''test'', ia_minGasPrices = '''',
     ia_nodeDirPrefix = ''val'', ia_numValidators = 2, ia_outputDir = ''out'', ia_startingIPAddress = ''localhost'',
     ia_validatorsStakesAmount = Map.empty, ia_ports = Map.empty\<rparr>"

definition some_config :: NodeConfig where
  "some_config = \<lparr>nc_RootDir = '''', nc_Moniker = '''', nc_RPC_ListenAddress = '''', nc_P2P_PersistentPeers = '''',
     nc_P2P_AllowDuplicateIP = False, nc_P2P_AddrBookStrict = True, nc_P2P_ListenAddress = '''', nc_ProxyApp = '''',
     nc_PrometheusListenAddr = '''', nc_Prometheus = False\<rparr>"

definition some_toml :: AppToml where
  "some_toml = \<lparr>at_MinGasPrices = '''', at_API_Enable = True, at_Telemetry_EnableHostnameLabel = True,
     at_Telemetry_Enabled = True, at_Telemetry_PrometheusRetentionTime = 60, at_GRPC_Address = '''', at_API_Address = ''''\<rparr>"

lemma memTools_laws: "node_files memTools fst snd" "node_files memToolsRun fst snd" "new_coin_law memTools"
  by (auto simp: node_files_def memTools_def memToolsRun_def when_ok_def modify_def new_coin_law_def split: if_splits)
  
lemma memRun_fields:
  "FilepathJoin memToolsRun = (\<lambda>ps. Join ps ''/'')" "FilepathBase memToolsRun = (\<lambda>p. p)" "FilepathAbs memToolsRun = (\<lambda>_. Ok)"
  "MkdirAll memToolsRun = (\<lambda>_. ret ())" "OsWriteFile memToolsRun = (\<lambda>_ _. ret ())" 
  "OsOpen memToolsRun = ret" "OsCreate memToolsRun = ret"
  "IoCopy memToolsRun = (\<lambda>_ _. ret 1)" "FileSync memToolsRun = (\<lambda>_. ret ())" "FileClose memToolsRun = (\<lambda>_. ret ())"
  "tl_NewCoin memToolsRun = (\<lambda>d a. if a < 0 then Panic ''negative coin amount'' else Ok \<lparr>coin_denom = d, coin_amount = a\<rparr>)" "DefaultBondDenom memToolsRun = ''stake''"
  "TokensFromConsensusPower memToolsRun = (\<lambda>p. p * 1000000)" "CoinsSort memToolsRun = rev"
  "CoinsAdd memToolsRun = (\<lambda>a b. Ok (a @ b))" "AddrText memToolsRun = (\<lambda>a. a)" "ValAddrText memToolsRun = (\<lambda>a. a)"
  "InitializeNodeValidatorFiles memToolsRun = (\<lambda>c. ret (''id-'' @ nc_Moniker c, ''pk''))"
  "KeyringNew memToolsRun = (\<lambda>_ _. ret ''kb'')" "NewSigningAlgo memToolsRun = (\<lambda>a _. Ok a)"
  "GenerateSaveCoinKey memToolsRun = (\<lambda>_ n _. ret (''addr-'' @ n, ''secret''))" "MarshalInfo memToolsRun = Ok"
  "NewMsgCreateValidator memToolsRun = (\<lambda>_ _ _ _. Ok ''msg'')" "TxSetMsgs memToolsRun = Ok"
  "TxSign memToolsRun = (\<lambda>_ _ _ _. ret)" "TxEncode memToolsRun = Ok" "WriteAppConfig memToolsRun = (\<lambda>_ _. ret ())"
  "WriteNodeConfig memToolsRun = (\<lambda>p c. modify (\<lambda>(conf, gen). (conf(p \<mapsto> c), gen)))"
  "PackAccounts memToolsRun = Ok" "SanitizeGenesisBalances memToolsRun = rev"
  "MarshalAppState memToolsRun = (\<lambda>s. Ok (case s ''bank'' of None \<Rightarrow> '''' | Some j \<Rightarrow> j))"
  "SaveGenesis memToolsRun = (\<lambda>_ _. ret ())" "AppGenesisFromFile memToolsRun = ret"
  "GenAppState memToolsRun = (\<lambda>_ cid _ _ _ _. ret (cid @ ''-state''))"
  "ExportGenesisFileWithTime memToolsRun = (\<lambda>f cid s time. modify (\<lambda>(conf, gen). (conf, gen(f \<mapsto> (cid, s, time)))))"
  "FilepathRel memToolsRun = (\<lambda>d p. Ok (if HasPrefix p d then ''in'' else ''..''))"
  "FilepathIsAbs memToolsRun = (\<lambda>p. HasPrefix p ''/'')" "TimeNow memToolsRun = (\<lambda>_. 77)"
  "TxSetMemo memToolsRun = (\<lambda>m t. t @ m)" "mbm_DefaultGenesis memToolsRun = [''bank'' \<mapsto> ''default'', ''auth'' \<mapsto> ''auth'']"
  "AuthJSON memToolsRun = \<lparr>MarshalJSON = (\<lambda>g. Ok (concat (ag_Accounts g))),
       UnmarshalJSON = (\<lambda>_. Ok \<lparr>ag_Params = '''', ag_Accounts = []\<rparr>)\<rparr>" "BankJSON memToolsRun = \<lparr>MarshalJSON = (\<lambda>g. Ok (concat (map bal_Address (bg_Balances g)))),
     UnmarshalJSON = (\<lambda>_. Ok default_bank)\<rparr>"
  by (simp_all add: memTools_def memToolsRun_def)

lemma ret_runs: "bindA (ret v) f = f v" "bindA (Pair (Ok v)) f = f v" "or_remove t d (ret v) = ret v" "lift (Ok v) = ret v" "wrap_err g (ret v) = ret v"
  by (simp_all add: or_remove_def wrap_err_def fun_eq_iff bindA_def)

lemma digit_chars: "(char_of (48::nat) :: char) = CHR ''0''" "(char_of (49::nat) :: char) = CHR ''1''"
  "(char_of (50::nat) :: char) = CHR ''2''" "(char_of (51::nat) :: char) = CHR ''3''"
  "(char_of (52::nat) :: char) = CHR ''4''" "(char_of (53::nat) :: char) = CHR ''5''"
  "(char_of (54::nat) :: char) = CHR ''6''" "(char_of (55::nat) :: char) = CHR ''7''"
  "(char_of (56::nat) :: char) = CHR ''8''" "(char_of (57::nat) :: char) = CHR ''9''"
  by code_simp+

lemma itoa_bit: "itoa 0 = ''0''" "itoa 1 = ''1''"
  by code_simp+

abbreviation "at_address ip args \<equiv> args\<lparr>ia_startingIPAddress := ip\<rparr>"

text \<open>In this world every step succeeds, so that \<open>initTestnetFiles\<close> runs to its end on any number of nodes.\<close>

lemma mem_init_node:
  "\<exists>s'. init_node memToolsRun args i s w = (Ok s', w) \<and>
     length (co_genFiles (snd (snd s'))) = Suc (length (co_genFiles (snd (snd s))))"
  by (cases s) (simp add: init_node_def Let_def memRun_fields ret_runs writeFile_def split: option.split)

lemma mem_init_nodes:
  "\<exists>s'. init_nodes memToolsRun args n i s w = (Ok s', w) \<and>
     length (co_genFiles (snd (snd s'))) = n + length (co_genFiles (snd (snd s)))"
proof (induction n arbitrary: i s)
  case (Suc n)
  obtain s1 where "init_node memToolsRun args i s w = (Ok s1, w)"
    "length (co_genFiles (snd (snd s1))) = Suc (length (co_genFiles (snd (snd s))))"
    using mem_init_node by blast
  with Suc.IH [of "i + 1" s1] show ?case by (auto simp: bindA_run)
qed (simp add: ret_def)

lemma mem_save_genesis:
  "0 \<le> i \<Longrightarrow> nat i + n \<le> length files \<Longrightarrow> save_genesis memToolsRun doc files i n w = (Ok (), w)"
  by (induction n arbitrary: i) (auto simp: memRun_fields ret_runs nat_add_distrib)

lemma mem_add_balances: "\<exists>cs. add_balances memToolsRun bs tot = Ok cs"
  by (induction bs arbitrary: tot) (simp_all add: memRun_fields)

lemma mem_initGenFiles:
  assumes "nat n \<le> length files"
  shows "initGenFiles memToolsRun cid accs bals files n w = (Ok (), w)"
proof -
  obtain cs where "add_balances memToolsRun (rev bals) (bg_Supply default_bank) = Ok cs"
    using mem_add_balances by blast
  then have "\<exists>st. genesis_app_state memToolsRun accs bals = Ok st"
    by (simp add: genesis_app_state_def memRun_fields Let_def)
  then show ?thesis
    using assms by (auto simp: initGenFiles_def memRun_fields ret_runs mem_save_genesis)
qed

lemma mem_copyFile: "copyFile memToolsRun src dir = ret 1"
  by (rule ext) (simp add: copyFile_def closing_def memRun_fields ret_runs Let_def)

lemma mem_copy_gentxs: "copy_gentxs memToolsRun dir files w = (Ok (), w)"
proof (induction files)
  case (Cons src files)
  let ?step = "\<lambda>w. case isSubDir memToolsRun w src dir of
       Ok False \<Rightarrow> bindA (copyFile memToolsRun src dir) (\<lambda>_. ret ()) w
     | Panic p \<Rightarrow> (Panic p, w) | _ \<Rightarrow> (Ok (), w)"
  have "?step w = (Ok (), w)"
    by (simp add: isSubDir_def memRun_fields mem_copyFile ret_runs split: bool.split)
  from bindA_run(1) [where m = ?step and w = w, OF this] show ?case
    unfolding copy_gentxs.simps by (rule trans) (rule Cons.IH)
qed simp

lemma mem_copy_all: "copy_all_gentxs memToolsRun args files n i w = (Ok (), w)"
  by (induction n arbitrary: i) (simp_all add: bindA_run mem_copy_gentxs Let_def)

lemma mem_collect: "\<exists>w'. collect_loop memToolsRun args peers time nodes i s cfg w = (Ok (), w')"
proof (induction nodes arbitrary: i s cfg w)
  case (Cons node nodes)
  then show ?case by (cases node) (simp add: Let_def memRun_fields ret_runs bindA_run)
qed (simp add: ret_def)

lemma mem_run:
  assumes "0 \<le> ia_numValidators args"
  obtains w' where "initTestnetFiles memToolsRun toml cfg args w = (Ok (), w')"
proof -
  let ?chain = "if ia_chainID args = '''' then (\<lambda>w. let (s, w') = generateRandomString memToolsRun 6 w
      in (Ok (args\<lparr>ia_chainID := ''chain-'' @ s\<rparr>), w')) else ret args"
  obtain cid w0 where chain: "?chain w = (Ok (args\<lparr>ia_chainID := cid\<rparr>), w0)"
  proof (cases "ia_chainID args = ''''")
    case True
    then show ?thesis
      using that by (cases "generateRandomString memToolsRun 6 w") simp
  next
    case False
    then show ?thesis using that [of "ia_chainID args" w] by simp
  qed
  let ?a = "args\<lparr>ia_chainID := cid\<rparr>" and ?n = "nat (ia_numValidators args)"
  let ?s = "(cfg, toml\<lparr>at_MinGasPrices := ia_minGasPrices ?a, at_API_Enable := False,
      at_MinGasPrices := ''0.0001'' @ DefaultBondDenom memToolsRun, at_Telemetry_EnableHostnameLabel := False,
      at_Telemetry_Enabled := False, at_Telemetry_PrometheusRetentionTime := 0\<rparr>,
      \<lparr>co_nodes = [], co_genAccounts = [], co_genBalances = [], co_genFiles = [], co_persistentPeers = '''', co_gentxsFiles = []\<rparr>)"
  obtain cfg1 toml1 co1 where nodes: "init_nodes memToolsRun ?a ?n 0 ?s w0 = (Ok (cfg1, toml1, co1), w0)"
    "length (co_genFiles co1) = ?n"
    using mem_init_nodes [of ?a ?n 0 ?s w0] by auto
  obtain w1 where w1: "collectGenFiles memToolsRun cfg1 (co_nodes co1) (co_persistentPeers co1) ?a w0 = (Ok (), w1)"
    using mem_collect [of ?a _ 77 "co_nodes co1"] by (fastforce simp: collectGenFiles_def bindA_run memRun_fields)
  have "initTestnetFiles memToolsRun toml cfg args w = (Ok (), w1)"
    unfolding initTestnetFiles_def
    by (rule trans [OF bindA_run(1) [where m = ?chain and w = w, OF chain]])
      (use assms nodes w1 mem_initGenFiles [of "ia_numValidators args" "co_genFiles co1"] in
        \<open>simp add: Let_def bindA_run mem_copy_all\<close>)
  then show ?thesis by (rule that)
qed

lemma run_two_nodes:
  obtains w' where "initTestnetFiles memToolsRun some_toml some_config (at_address ip two_nodes) (Map.empty, Map.empty) = (Ok (), w')"
  by (rule mem_run [of "at_address ip two_nodes"]) (simp add: two_nodes_def, rule that)

lemma two_nodes_local: "at_address ''localhost'' two_nodes = two_nodes"
  by (simp add: two_nodes_def)

lemma two_nodes_range: "{0..<ia_numValidators two_nodes} = {0, 1}"
  by (auto simp: two_nodes_def)

theorem testnet_ports_distinct_witness:
  "distinct (concat (map (\<lambda>i. map port_text (listen_addresses
     (two_nodes\<lparr>ia_ports := default_ports 2 0 Map.empty\<rparr>) some_config some_toml i)) [0..1]))"
proof -
  have "parse_args memTools two_nodes '''' '''' = Ok (two_nodes\<lparr>ia_ports := default_ports 2 0 Map.empty\<rparr>)"
    by (simp add: parse_args_def memTools_def two_nodes_def)
  from testnet_ports_distinct [OF this] show ?thesis by (simp add: two_nodes_def)
qed

theorem stakes_skip_invalid_witness:
  "\<exists>a. parse_args memTools two_nodes ''200,x,300'' '''' = Ok a
    \<and> ia_validatorsStakesAmount a 1 = Some \<lparr>coin_denom = ''stake'', coin_amount = 300\<rparr>"
proof -
  have amounts: "List.map_filter (NewIntFromString memTools) (Split ''200,x,300'' CHR '','') = [200, 300]"
    by (simp add: map_filter_simps memTools_def)
  have "is_ok (parse_args memTools two_nodes ''200,x,300'' '''')"
    by (simp add: parse_args_def memTools_def)
  then obtain a where a: "parse_args memTools two_nodes ''200,x,300'' '''' = Ok a"
    by (cases "parse_args memTools two_nodes ''200,x,300'' ''''") auto
  from stakes_skip_invalid [OF memTools_laws(3) a, of 1] a show ?thesis
    unfolding amounts by (simp add: memTools_def)
qed

theorem genesis_supply_witness:
  "\<exists>st bg. genesis_app_state memTools [''b'', ''a''] memBalances = Ok st \<and> st ''bank'' = Some ''funded''
    \<and> UnmarshalJSON memBank ''funded'' = Ok bg \<and> coins_amount (bg_Supply bg) ''stake'' = 12"
proof -
  have laws: "genesis_tool_laws memTools"
    by (auto simp: genesis_tool_laws_def json_laws_def memTools_def memBank_def Let_def coins_amount_def split: if_splits)
  have "is_ok (genesis_app_state memTools [''b'', ''a''] memBalances)
    \<and> (case genesis_app_state memTools [''b'', ''a''] memBalances of Ok st \<Rightarrow> st ''bank'' = Some ''funded'' | _ \<Rightarrow> False)"
    by (simp add: genesis_app_state_def memTools_def memBank_def Let_def default_bank_def memBalances_def)
  then obtain st where st: "genesis_app_state memTools [''b'', ''a''] memBalances = Ok st" "st ''bank'' = Some ''funded''"
    by (cases "genesis_app_state memTools [''b'', ''a''] memBalances") auto
  have bank: "BankJSON memTools = memBank" "(case mbm_DefaultGenesis memTools ''bank'' of None \<Rightarrow> '''' | Some j \<Rightarrow> j) = ''default''"
    "UnmarshalJSON memBank ''default'' = Ok default_bank" "coins_amount (bg_Supply default_bank) ''stake'' = 0"
    "(\<Sum>b\<leftarrow>memBalances. coins_amount (bal_Coins b) ''stake'') = 12"
    by (simp_all add: memTools_def memBank_def Let_def default_bank_def memBalances_def coins_amount_def)
  from genesis_supply [OF laws st(1), unfolded bank res.inject] st bank(4,5) show ?thesis by fastforce
qed

theorem testnet_peers_listen_witness:
  "\<exists>w' ids c. initTestnetFiles memToolsRun some_toml some_config (at_address ''192.168.0.1'' two_nodes) (Map.empty, Map.empty) = (Ok (), w')
    \<and> fst w' ''out/val1/config/config.toml'' = Some c
    \<and> nc_P2P_PersistentPeers c = ids ! 0 @ ''@192.168.0.1:26656,'' @ ids ! 1 @ ''@192.168.0.1:26653''
    \<and> nc_P2P_ListenAddress c = ''tcp://0.0.0.0:26653''"
proof -
  let ?args = "at_address ''192.168.0.1'' two_nodes"
  obtain w' where w': "initTestnetFiles memToolsRun some_toml some_config ?args (Map.empty, Map.empty) = (Ok (), w')"
    by (rule run_two_nodes)
  have range: "{0..<ia_numValidators ?args} = {0, 1}" by (auto simp: two_nodes_def)
  have inj: "inj_on (\<lambda>k. config_path memToolsRun (node_dir memToolsRun ?args k)) {0..<ia_numValidators ?args}"
    unfolding range by (rule inj_onI, elim insertE emptyE; simp; code_simp)
  have path: "config_path memToolsRun (node_dir memToolsRun ?args 1) = ''out/val1/config/config.toml''" by code_simp
  have itoa: "itoa 26656 = ''26656''" "itoa 26653 = ''26653''"
    by (simp_all add: itoa_def digits.simps digit_chars)
  have ip: "ia_startingIPAddress ?args = ''192.168.0.1''" "nat (ia_numValidators ?args) = Suc (Suc 0)" "ia_numValidators ?args \<le> 1317"
    by (simp_all add: two_nodes_def)
  from testnet_peers_listen [OF memTools_laws(2) inj w' ip(3)] obtain ids c where "length ids = Suc (Suc 0)"
    and c: "fst w' ''out/val1/config/config.toml'' = Some c"
    and peers: "nc_P2P_PersistentPeers c = Join (map (\<lambda>k. ids ! k @ ''@'' @ ia_startingIPAddress ?args @ '':'' @ itoa (26656 - 3 * int k))
         [0..<length ids]) '',''"
    and listen: "nc_P2P_ListenAddress c = ''tcp://0.0.0.0:'' @ itoa (26656 - 3 * 1)"
    unfolding range ip(2) path [symmetric] by blast
  then have "nc_P2P_PersistentPeers c = ids ! 0 @ ''@192.168.0.1:26656,'' @ ids ! 1 @ ''@192.168.0.1:26653''"
    unfolding ip(1) by (simp add: itoa)
  moreover have "nc_P2P_ListenAddress c = ''tcp://0.0.0.0:26653''" using listen by (simp add: itoa)
  ultimately show ?thesis using w' c by blast
qed

theorem testnet_same_genesis_witness:
  "\<exists>w'. initTestnetFiles memToolsRun some_toml some_config two_nodes (Map.empty, Map.empty) = (Ok (), w')
    \<and> snd w' ''out/val0/config/genesis.json'' \<noteq> None
    \<and> snd w' ''out/val0/config/genesis.json'' = snd w' ''out/val1/config/genesis.json''"
proof -
  obtain w' where w': "initTestnetFiles memToolsRun some_toml some_config two_nodes (Map.empty, Map.empty) = (Ok (), w')"
    by (rule run_two_nodes [of "''localhost''", unfolded two_nodes_local])
  have path: "GenesisFile memToolsRun (SetRoot (node_dir memToolsRun two_nodes 0) some_config) = ''out/val0/config/genesis.json''"
    "GenesisFile memToolsRun (SetRoot (node_dir memToolsRun two_nodes 1) some_config) = ''out/val1/config/genesis.json''" by code_simp+
  from testnet_same_genesis [OF memTools_laws(2) w', unfolded two_nodes_range] path w' show ?thesis by auto
qed

end
