(* ===== verification/TestnetCmd.thy ===== *)
theory TestnetCmd
  imports MemTestnet
begin

text \<open>
  The two commands that start testnets, as the user meets them: \<open>NewTestnetMultiNodeCmd\<close> with
  \<open>addTestnetFlagsToCmd\<close> (cmd/lumiwave-protocold/cmd/testnet_multi_node.go) and \<open>NewInPlaceTestnetCmd\<close>
  (cmd/lumiwave-protocold/cmd/testnet.go), with their texts, their flags and the reading of the flags.
  What the commands then do is in \<open>TestnetNodes\<close> and \<open>InPlaceTestnet\<close>.

  The flag set of cobra is the parameter \<open>FlagReader\<close>, the names of flags that the SDK defines are the
  fields of \<open>SdkFlags\<close>. What is shown: which testnet the command makes without any flag, and that the
  routability of addresses is left as it was.
\<close>

section \<open>Commands and flags\<close>

datatype FlagVal = StrVal string | IntVal int

record FlagSpec =
  fl_Name :: string
  fl_Shorthand :: string
  fl_Default :: FlagVal
  fl_Usage :: string

record TestnetCommand =
  tc_Use :: string
  tc_Short :: string
  tc_Long :: string
  tc_Example :: string
  tc_Flags :: "FlagSpec list"

record SdkFlags =
  FlagKeyringBackend :: string
  FlagChainID :: string
  FlagMinGasPrices :: string
  FlagKeyType :: string
  Secp256k1Type :: string

record FlagReader =
  fr_GetString :: "string \<Rightarrow> string res"
  fr_GetInt :: "string \<Rightarrow> int res"

definition str_flag :: "string \<Rightarrow> string \<Rightarrow> string \<Rightarrow> FlagSpec" where
  "str_flag name v usage = \<lparr>fl_Name = name, fl_Shorthand = '''', fl_Default = StrVal v, fl_Usage = usage\<rparr>"

definition flagNodeDirPrefix :: string where "flagNodeDirPrefix = ''node-dir-prefix''"
definition flagPorts :: string where "flagPorts = ''list-ports''"
definition flagNumValidators :: string where "flagNumValidators = ''v''"
definition flagOutputDir :: string where "flagOutputDir = ''output-dir''"
definition flagValidatorsStakeAmount :: string where "flagValidatorsStakeAmount = ''validators-stake-amount''"
definition flagStartingIPAddress :: string where "flagStartingIPAddress = ''starting-ip-address''"

lemmas flag_names = flagNodeDirPrefix_def flagPorts_def flagNumValidators_def flagOutputDir_def
  flagValidatorsStakeAmount_def flagStartingIPAddress_def

section \<open>The in-place testnet\<close>

text \<open>\<open>creator\<close> is \<open>server.InPlaceTestnetCreator\<close>, \<open>'na\<close> the type of \<open>newTestnetApp\<close>.\<close>

definition inPlaceTestnetCmd :: "('na \<Rightarrow> TestnetCommand) \<Rightarrow> 'na \<Rightarrow> TestnetCommand" where
  "inPlaceTestnetCmd creator startApp =
     (let cmd = creator startApp;
          module = ''github.com/LumiWave/lumiwave-protocol''
      in cmd\<lparr>tc_Short := ''Updates chain's application and consensus state with provided validator info and starts the node'',
        tc_Long := ''The test command modifies both application and consensus stores within a local mainnet node and starts the node,'' @ [CHR 0x0A] @
          ''with the aim of facilitating testing procedures. This command replaces existing validator data with updated information,'' @ [CHR 0x0A] @
          ''thereby removing the old validator set and introducing a new set suitable for local testing purposes. By altering the state extracted from the mainnet node,'' @ [CHR 0x0A] @
          ''it enables developers to configure their local environments to reflect mainnet conditions more accurately.'',
        tc_Example := module @ ''d in-place-testnet testing-1 cosmosvaloper1w7f3xx7e75p4l7qdym5msqem9rd4dyc4mq79dm --home $HOME/.'' @ module @
          ''d/validator1 --validator-privkey=6dq+/KHNvyiw2TToCgOpUpQKIzrLs69Rb8Az39xvmxPHNoPxY1Cil8FY+4DhT9YwD6s0tFABMlLcpaylzKKBOg== --accounts-to-fund='' @ [CHR 0x22] @
          ''cosmos1f7twgcq4ypzg7y24wuywy06xmdet8pc4473tnq,cosmos1qvuhm5m644660nd8377d6l7yz9e9hhm9evmx3x'' @ [CHR 0x22],
        tc_Flags := tc_Flags cmd @
          [str_flag ''accounts-to-fund'' '''' ''Comma-separated list of account addresses that will be funded for testing purposes'']\<rparr>)"

section \<open>The testnet of several nodes\<close>

definition addTestnetFlagsToCmd :: "SdkFlags \<Rightarrow> string \<Rightarrow> TestnetCommand \<Rightarrow> TestnetCommand" where
  "addTestnetFlagsToCmd F bond cmd = cmd\<lparr>tc_Flags := tc_Flags cmd @
     [\<lparr>fl_Name = flagNumValidators, fl_Shorthand = '''', fl_Default = IntVal 4,
        fl_Usage = ''Number of validators to initialize the testnet with''\<rparr>,
      \<lparr>fl_Name = flagOutputDir, fl_Shorthand = ''o'', fl_Default = StrVal ''./.testnets'',
        fl_Usage = ''Directory to store initialization data for the testnet''\<rparr>,
      str_flag (FlagChainID F) '''' ''genesis file chain-id, if left blank will be randomly created'',
      str_flag (FlagMinGasPrices F) (''0.0001'' @ bond)
        ''Minimum gas prices to accept for transactions; All fees in a tx must meet this minimum (e.g. 0.01photino,0.001stake)'',
      str_flag (FlagKeyType F) (Secp256k1Type F) ''Key signing algorithm to generate keys for'']\<rparr>"

text \<open>The function given to \<open>SetNormalizeFunc\<close>: the old name of a flag.\<close>

definition normalize_flag :: "SdkFlags \<Rightarrow> string \<Rightarrow> string" where
  "normalize_flag F name = (if name = ''algo'' then FlagKeyType F else name)"

definition multiNodeCmd :: "SdkFlags \<Rightarrow> string \<Rightarrow> TestnetCommand" where
  "multiNodeCmd F bond =
     (let cmd = \<lparr>tc_Use = ''multi-node'',
        tc_Short = ''Initialize config directories & files for a multi-validator testnet running locally via separate processes (e.g. Docker Compose or similar)'',
        tc_Long = ''multi-node will setup '' @ [CHR 0x22] @ ''v'' @ [CHR 0x22] @ '' number of directories and populate each with'' @ [CHR 0x0A] @
          ''necessary files (private validator, genesis, config, etc.) for running '' @ [CHR 0x22] @ ''v'' @ [CHR 0x22] @ '' validator nodes.'' @ [CHR 0x0A, CHR 0x0A] @
          ''Booting up a network with these validator folders is intended to be used with Docker Compose,'' @ [CHR 0x0A] @
          ''or a similar setup where each node has a manually configurable IP address.'' @ [CHR 0x0A, CHR 0x0A] @
          ''Note, strict routability for addresses is turned off in the config file.'' @ [CHR 0x0A, CHR 0x0A] @
          ''Example:'' @ [CHR 0x0A, CHR 0x09] @
          ''lumiwaveprotocold multi-node --v 4 --output-dir ./.testnets --validators-stake-amount 1000000,200000,300000,400000 --list-ports 47222,50434,52851,44210'' @
          [CHR 0x0A, CHR 0x09],
        tc_Example = '''', tc_Flags = []\<rparr>;
          cmd = addTestnetFlagsToCmd F bond cmd
      in cmd\<lparr>tc_Flags := tc_Flags cmd @
        [str_flag flagPorts '''' ''Ports of nodes (default 26657,26654,26651,26648.. )'',
         str_flag flagNodeDirPrefix ''validator'' ''Prefix the directory name for each node with (node results in node0, node1, ...)'',
         str_flag flagValidatorsStakeAmount ''100000000,100000000,100000000,100000000'' ''Amount of stake for each validator'',
         str_flag flagStartingIPAddress ''localhost'' ''Starting IP address (192.168.0.1 results in persistent peers list ID0@192.168.0.1:46656, ID1@192.168.0.2:46656, ...)'',
         str_flag (FlagKeyringBackend F) ''test'' ''Select keyring's backend (os|file|test)''] \<rparr>)"

section \<open>Reading the flags\<close>

text \<open>\<open>v, _ = cmd.Flags().Get...(name)\<close>: an error leaves the zero value.\<close>

definition value_or :: "'a \<Rightarrow> 'a res \<Rightarrow> 'a" where
  "value_or z r = (case r of Ok v \<Rightarrow> v | _ \<Rightarrow> z)"

definition read_stakes :: "'w Tools \<Rightarrow> FlagReader \<Rightarrow> (int \<rightharpoonup> Coin) res" where
  "read_stakes t fr = (case fr_GetString fr flagValidatorsStakeAmount of
     Ok s \<Rightarrow> parse_stakes t (Split s CHR '','') 0 Map.empty
   | _ \<Rightarrow> Ok Map.empty)"

definition read_ports :: "FlagReader \<Rightarrow> int \<Rightarrow> (int \<rightharpoonup> string)" where
  "read_ports fr numValidators = (case fr_GetString fr flagPorts of
     Ok s \<Rightarrow> (if s = '''' then default_ports (nat numValidators) 0 Map.empty
             else parse_ports (Split s CHR '','') 0 Map.empty)
   | _ \<Rightarrow> Map.empty)"

definition read_args :: "'w Tools \<Rightarrow> SdkFlags \<Rightarrow> FlagReader \<Rightarrow> initArgs res" where
  "read_args t F fr =
     (let str = (\<lambda>name. value_or '''' (fr_GetString fr name)); n = value_or 0 (fr_GetInt fr flagNumValidators)
      in bindR (read_stakes t fr) (\<lambda>amounts.
         Ok \<lparr>ia_algo = str (FlagKeyType F), ia_chainID = str (FlagChainID F),
           ia_keyringBackend = str (FlagKeyringBackend F), ia_minGasPrices = str (FlagMinGasPrices F),
           ia_nodeDirPrefix = str flagNodeDirPrefix, ia_numValidators = n, ia_outputDir = str flagOutputDir,
           ia_startingIPAddress = str flagStartingIPAddress, ia_validatorsStakesAmount = amounts,
           ia_ports = read_ports fr n\<rparr>))"

text \<open>\<open>RunE\<close>: \<open>getCtx\<close> is \<open>client.GetClientQueryContext(cmd)\<close>.\<close>

definition multiNode_RunE :: "'w Tools \<Rightarrow> SdkFlags \<Rightarrow> ('w, 'c) act \<Rightarrow> FlagReader \<Rightarrow> AppToml \<Rightarrow> NodeConfig \<Rightarrow>
    ('w, unit) act" where
  "multiNode_RunE t F getCtx fr defaultConfig config =
     bindA getCtx (\<lambda>clientCtx.
     bindA (lift (read_args t F fr)) (\<lambda>args.
     initTestnetFiles t defaultConfig config args))"

text \<open>The reading of readable flags is the parsing that \<open>TestnetNodes\<close> is about.\<close>

lemma read_args_parse:
  assumes "fr_GetString fr flagValidatorsStakeAmount = Ok stakes" "fr_GetString fr flagPorts = Ok ports"
    and "read_args t F fr = Ok a"
  shows "\<exists>args. parse_args t args stakes ports = Ok a"
proof -
  obtain m where m: "parse_stakes t (Split stakes CHR '','') 0 Map.empty = Ok m"
    "ia_validatorsStakesAmount a = m" "ia_ports a = read_ports fr (ia_numValidators a)"
    using assms(1,3) by (auto simp: read_args_def read_stakes_def Let_def)
  then have "parse_args t a stakes ports = Ok a"
    using assms(2) by (cases a) (auto simp: parse_args_def read_ports_def)
  then show ?thesis ..
qed

lemma first_ports: "default_ports 4 0 Map.empty = [0 \<mapsto> ''26657'', 1 \<mapsto> ''26654'', 2 \<mapsto> ''26651'', 3 \<mapsto> ''26648'']"
proof -
  have "default_ports (Suc (Suc (Suc (Suc 0)))) 0 Map.empty
      = [0 \<mapsto> itoa 26657, 1 \<mapsto> itoa 26654, 2 \<mapsto> itoa 26651, 3 \<mapsto> itoa 26648]" by simp
  moreover have "itoa 26657 = ''26657''" "itoa 26654 = ''26654''" "itoa 26651 = ''26651''" "itoa 26648 = ''26648''"
    by (simp_all add: itoa_def digits.simps digit_chars)
  ultimately show ?thesis by (simp add: eval_nat_numeral del: default_ports.simps)
qed

section \<open>Properties\<close>

text \<open>A flag that is not given has its default.\<close>

definition reads_defaults :: "FlagReader \<Rightarrow> FlagSpec list \<Rightarrow> bool" where
  "reads_defaults fr fs \<longleftrightarrow> (\<forall>f \<in> set fs. case fl_Default f of
     StrVal s \<Rightarrow> fr_GetString fr (fl_Name f) = Ok s
   | IntVal n \<Rightarrow> fr_GetInt fr (fl_Name f) = Ok n)"

text \<open>What is read without flags: four validators named validator0 to validator3 under ./.testnets, each with a
  stake of 100000000, and the ports 26657, 26654, 26651 and 26648.\<close>

lemma multi_node_defaults:
  assumes "reads_defaults fr (tc_Flags (multiNodeCmd F (DefaultBondDenom t)))"
    and "NewIntFromString t ''100000000'' = Some 100000000"
    and "\<And>a. 0 \<le> a \<Longrightarrow> tl_NewCoin t (DefaultBondDenom t) a = Ok \<lparr>coin_denom = DefaultBondDenom t, coin_amount = a\<rparr>"
  shows "\<exists>a. read_args t F fr = Ok a \<and> ia_numValidators a = 4 \<and> ia_outputDir a = ''./.testnets''
    \<and> ia_nodeDirPrefix a = ''validator'' \<and> ia_startingIPAddress a = ''localhost'' \<and> ia_chainID a = ''''
    \<and> map (ia_validatorsStakesAmount a) [0, 1, 2, 3]
        = replicate 4 (Some \<lparr>coin_denom = DefaultBondDenom t, coin_amount = 100000000\<rparr>)
    \<and> map (ia_ports a) [0, 1, 2, 3] = [Some ''26657'', Some ''26654'', Some ''26651'', Some ''26648'']"
proof -
  have s: "fr_GetString fr n = Ok v" if "(n, v) \<in> set
      [(flagOutputDir, ''./.testnets''), (FlagChainID F, ''''), (flagPorts, ''''), (flagNodeDirPrefix, ''validator''),
       (flagValidatorsStakeAmount, ''100000000,100000000,100000000,100000000''), (flagStartingIPAddress, ''localhost'')]" for n v
    using assms(1) that
    by (simp add: reads_defaults_def multiNodeCmd_def addTestnetFlagsToCmd_def str_flag_def Let_def) blast
  have n: "fr_GetInt fr flagNumValidators = Ok 4"
    using assms(1) by (simp add: reads_defaults_def multiNodeCmd_def addTestnetFlagsToCmd_def Let_def)
  note reads = s [of flagOutputDir "''./.testnets''"] s [of "FlagChainID F" "''''"] s [of flagPorts "''''"]
    s [of flagNodeDirPrefix "''validator''"] s [of flagStartingIPAddress "''localhost''"]
    s [of flagValidatorsStakeAmount "''100000000,100000000,100000000,100000000''"]
  let ?d = "''100000000''" and ?c = "\<lparr>coin_denom = DefaultBondDenom t, coin_amount = 100000000\<rparr>"
  have "Split ''100000000,100000000,100000000,100000000'' CHR '','' = [?d, ?d, ?d, ?d]" by code_simp
  then have stakes: "read_stakes t fr = Ok [0 \<mapsto> ?c, 1 \<mapsto> ?c, 2 \<mapsto> ?c, 3 \<mapsto> ?c]"
    using reads(6) assms(2) assms(3) [of 100000000] by (simp add: read_stakes_def)
  have "read_ports fr 4 = default_ports 4 0 Map.empty" using reads(3) by (simp add: read_ports_def)
  then have ports: "read_ports fr 4 = [0 \<mapsto> ''26657'', 1 \<mapsto> ''26654'', 2 \<mapsto> ''26651'', 3 \<mapsto> ''26648'']"
    by (simp only: first_ports)
  show ?thesis
    using stakes ports reads n by (simp add: read_args_def Let_def value_or_def eval_nat_numeral)
qed

lemma four_ports:
  assumes "map (ia_ports a) [0, 1, 2, 3] = [Some ''26657'', Some ''26654'', Some ''26651'', Some ''26648'']" "i \<in> {0..<4}"
  shows "port_of a i = itoa (26657 - 3 * i)"
proof -
  have "itoa 26657 = ''26657''" "itoa 26654 = ''26654''" "itoa 26651 = ''26651''" "itoa 26648 = ''26648''"
    by (simp_all add: itoa_def digits.simps digit_chars)
  moreover have "i = 0 \<or> i = 1 \<or> i = 2 \<or> i = 3" using assms(2) by auto
  ultimately show ?thesis using assms(1) by (auto simp: port_of_def)
qed

text \<open>C40. The command without flags, from its flags to the files of the testnet: when it succeeds there are
  four nodes, in the directories validator0 to validator3 of ./.testnets; the RPC servers listen on the
  ports 26657, 26654, 26651 and 26648 of the local host, as the help of \<open>--list-ports\<close> says, the P2P
  servers on the ports 26656, 26653, 26650 and 26647 of all interfaces, and every node has all four as its
  peers at localhost. The strict routability of addresses is in each of these files what it was in the
  configuration of the server, although the help says that it is turned off in them.\<close>

theorem multi_node_default_testnet:
  assumes flags: "reads_defaults fr (tc_Flags (multiNodeCmd F (DefaultBondDenom t)))"
    and amount: "NewIntFromString t ''100000000'' = Some 100000000"
    and coins: "\<And>a. 0 \<le> a \<Longrightarrow> tl_NewCoin t (DefaultBondDenom t) a = Ok \<lparr>coin_denom = DefaultBondDenom t, coin_amount = a\<rparr>"
    and files: "node_files t conf gen"
    and paths: "inj_on (\<lambda>k. config_path t (FilepathJoin t [''./.testnets'', ''validator'' @ itoa k])) {0..<4}"
    and run: "multiNode_RunE t F getCtx fr defaultConfig config w = (Ok (), w')"
  shows "\<exists>ids. length ids = 4 \<and> (\<forall>i \<in> {0..<4}. \<exists>c.
      conf w' (config_path t (FilepathJoin t [''./.testnets'', ''validator'' @ itoa i])) = Some c
    \<and> nc_RPC_ListenAddress c = ''tcp://127.0.0.1:'' @ itoa (26657 - 3 * i)
    \<and> nc_P2P_ListenAddress c = ''tcp://0.0.0.0:'' @ itoa (26656 - 3 * i)
    \<and> nc_P2P_PersistentPeers c = Join (map (\<lambda>k. ids ! k @ ''@'' @ ''localhost'' @ '':'' @ itoa (26656 - 3 * int k)) [0..<4]) '',''
    \<and> nc_P2P_AddrBookStrict c = nc_P2P_AddrBookStrict config)"
proof -
  obtain a where a: "read_args t F fr = Ok a" "ia_numValidators a = 4"
    "ia_outputDir a = ''./.testnets''" "ia_nodeDirPrefix a = ''validator''" "ia_startingIPAddress a = ''localhost''"
    and ports: "map (ia_ports a) [0, 1, 2, 3] = [Some ''26657'', Some ''26654'', Some ''26651'', Some ''26648'']"
    by (rule multi_node_defaults [OF flags amount, THEN exE], erule coins, elim conjE, rule that; assumption)
  have dir: "node_dir t a i = FilepathJoin t [''./.testnets'', ''validator'' @ itoa i]" for i
    by (simp add: node_dir_def node_name_def a)
  from run obtain w1 where "initTestnetFiles t defaultConfig config a w1 = (Ok (), w')"
    by (auto simp: multiNode_RunE_def bindA_Ok_iff a)
  from testnet_node_configs [OF files _ this, unfolded dir a, OF paths] obtain ids where ids: "length ids = nat 4"
    and conf: "\<And>i. i \<in> {0..<4} \<Longrightarrow> \<exists>c. nc_P2P_AddrBookStrict c = nc_P2P_AddrBookStrict config
       \<and> conf w' (config_path t (FilepathJoin t [''./.testnets'', ''validator'' @ itoa i])) = Some (final_config a
           (Join (map (\<lambda>k. memo_of a (int k) (ids ! k)) [0..<length ids]) '','') i c)" by blast
  have len: "length ids = 4" using ids by simp
  have peers: "map (\<lambda>k. memo_of a (int k) (ids ! k)) [0..<4] =
      map (\<lambda>k. ids ! k @ ''@'' @ ''localhost'' @ '':'' @ itoa (26656 - 3 * int k)) [0..<4]"
    using peers_text [of 4 a ids] unfolding a by simp
  show ?thesis
  proof (intro exI [of _ ids] conjI ballI len)
    fix i :: int assume i: "i \<in> {0..<4}"
    then have port: "wrap64 (26656 - 3 * i) = 26656 - 3 * i" by simp
    note fields = final_config_fields [of a _ i, unfolded port four_ports [OF ports i]]
    from conf [OF i, unfolded len peers] obtain c where c: "nc_P2P_AddrBookStrict c = nc_P2P_AddrBookStrict config"
      "conf w' (config_path t (FilepathJoin t [''./.testnets'', ''validator'' @ itoa i])) = Some (final_config a
         (Join (map (\<lambda>k. ids ! k @ ''@'' @ ''localhost'' @ '':'' @ itoa (26656 - 3 * int k)) [0..<4]) '','') i c)"
      by (elim exE conjE) (rule that)
    show "\<exists>c. conf w' (config_path t (FilepathJoin t [''./.testnets'', ''validator'' @ itoa i])) = Some c
        \<and> nc_RPC_ListenAddress c = ''tcp://127.0.0.1:'' @ itoa (26657 - 3 * i)
        \<and> nc_P2P_ListenAddress c = ''tcp://0.0.0.0:'' @ itoa (26656 - 3 * i)
        \<and> nc_P2P_PersistentPeers c = Join (map (\<lambda>k. ids ! k @ ''@'' @ ''localhost'' @ '':'' @ itoa (26656 - 3 * int k)) [0..<4]) '',''
        \<and> nc_P2P_AddrBookStrict c = nc_P2P_AddrBookStrict config"
      by (intro exI conjI, rule c(2), (rule fields)+) (simp only: fields c(1))
  qed
qed

section \<open>Concrete instances\<close>

definition memSdkFlags :: SdkFlags where
  "memSdkFlags = \<lparr>FlagKeyringBackend = ''keyring-backend'', FlagChainID = ''chain-id'',
     FlagMinGasPrices = ''minimum-gas-prices'', FlagKeyType = ''key-type'', Secp256k1Type = ''secp256k1''\<rparr>"

text \<open>A flag set in which nothing is given.\<close>

definition mem_reader :: FlagReader where
  "mem_reader = (let fs = tc_Flags (multiNodeCmd memSdkFlags ''stake'');
       get = (\<lambda>name. map_option fl_Default (find (\<lambda>f. fl_Name f = normalize_flag memSdkFlags name) fs))
     in \<lparr>fr_GetString = (\<lambda>name. case get name of Some (StrVal s) \<Rightarrow> Ok s | _ \<Rightarrow> Err (Errorf ''flag'')),
         fr_GetInt = (\<lambda>name. case get name of Some (IntVal n) \<Rightarrow> Ok n | _ \<Rightarrow> Err (Errorf ''flag''))\<rparr>)"

definition default_args :: initArgs where
  "default_args = \<lparr>ia_algo = ''secp256k1'', ia_chainID = '''', ia_keyringBackend = ''test'', ia_minGasPrices = ''0.0001stake'',
     ia_nodeDirPrefix = ''validator'', ia_numValidators = 4, ia_outputDir = ''./.testnets'', ia_startingIPAddress = ''localhost'',
     ia_validatorsStakesAmount = (let c = \<lparr>coin_denom = ''stake'', coin_amount = 100000000\<rparr> in [0 \<mapsto> c, 1 \<mapsto> c, 2 \<mapsto> c, 3 \<mapsto> c]),
     ia_ports = [0 \<mapsto> ''26657'', 1 \<mapsto> ''26654'', 2 \<mapsto> ''26651'', 3 \<mapsto> ''26648'']\<rparr>"

lemma mem_reader_defaults: "reads_defaults mem_reader (tc_Flags (multiNodeCmd memSdkFlags (DefaultBondDenom memToolsRun)))"
  by (simp add: reads_defaults_def mem_reader_def Let_def normalize_flag_def multiNodeCmd_def memSdkFlags_def
      addTestnetFlagsToCmd_def str_flag_def flag_names memToolsRun_def memTools_def)

lemma mem_strings:
  "fr_GetString mem_reader (FlagKeyType memSdkFlags) = Ok ''secp256k1''" "fr_GetString mem_reader (FlagChainID memSdkFlags) = Ok ''''"
  "fr_GetString mem_reader (FlagKeyringBackend memSdkFlags) = Ok ''test''"
  "fr_GetString mem_reader (FlagMinGasPrices memSdkFlags) = Ok ''0.0001stake''"
  "fr_GetString mem_reader flagNodeDirPrefix = Ok ''validator''" "fr_GetString mem_reader flagOutputDir = Ok ''./.testnets''"
  "fr_GetString mem_reader flagStartingIPAddress = Ok ''localhost''" "fr_GetString mem_reader flagPorts = Ok ''''"
  "fr_GetString mem_reader flagValidatorsStakeAmount = Ok ''100000000,100000000,100000000,100000000''"
  "fr_GetInt mem_reader flagNumValidators = Ok 4"
  by code_simp+

lemma mem_amount: "NewIntFromString memToolsRun ''100000000'' = Some 100000000"
  by code_simp

lemma mem_reads: "read_args memToolsRun memSdkFlags mem_reader = Ok default_args"
proof -
  let ?d = "''100000000''" and ?c = "\<lparr>coin_denom = ''stake'', coin_amount = 100000000\<rparr>"
  have "Split ''100000000,100000000,100000000,100000000'' CHR '','' = [?d, ?d, ?d, ?d]" by code_simp
  then have "read_stakes memToolsRun mem_reader = Ok [0 \<mapsto> ?c, 1 \<mapsto> ?c, 2 \<mapsto> ?c, 3 \<mapsto> ?c]"
    by (simp add: read_stakes_def mem_strings mem_amount memRun_fields)
  moreover have "read_ports mem_reader 4 = [0 \<mapsto> ''26657'', 1 \<mapsto> ''26654'', 2 \<mapsto> ''26651'', 3 \<mapsto> ''26648'']"
    by (simp add: read_ports_def mem_strings first_ports del: default_ports.simps)
  ultimately show ?thesis by (simp add: read_args_def mem_strings value_or_def Let_def default_args_def)
qed

theorem multi_node_default_testnet_witness:
  "\<exists>w' ids c. multiNode_RunE memToolsRun memSdkFlags (ret ()) mem_reader some_toml some_config (Map.empty, Map.empty) = (Ok (), w')
    \<and> fst w' ''./.testnets/validator3/config/config.toml'' = Some c
    \<and> nc_RPC_ListenAddress c = ''tcp://127.0.0.1:26648'' \<and> nc_P2P_ListenAddress c = ''tcp://0.0.0.0:26647''
    \<and> nc_P2P_PersistentPeers c = ids ! 0 @ ''@localhost:26656,'' @ ids ! 1 @ ''@localhost:26653,''
         @ ids ! 2 @ ''@localhost:26650,'' @ ids ! 3 @ ''@localhost:26647''
    \<and> nc_P2P_AddrBookStrict c"
proof -
  have coins: "\<And>a. 0 \<le> a \<Longrightarrow> tl_NewCoin memToolsRun (DefaultBondDenom memToolsRun) a
      = Ok \<lparr>coin_denom = DefaultBondDenom memToolsRun, coin_amount = a\<rparr>"
    by (simp add: memToolsRun_def memTools_def)
  let ?run = "multiNode_RunE memToolsRun memSdkFlags (ret ()) mem_reader some_toml some_config (Map.empty, Map.empty)"
  have n: "0 \<le> ia_numValidators default_args" by (simp add: default_args_def)
  obtain w' where w': "?run = (Ok (), w')"
    by (rule mem_run [OF n]) (rule that, simp add: multiNode_RunE_def mem_reads ret_runs)
  have four: "{0..<4} = {0, 1, 2, 3 :: int}" by auto
  have inj: "inj_on (\<lambda>k. config_path memToolsRun (FilepathJoin memToolsRun [''./.testnets'', ''validator'' @ itoa k])) {0..<4}"
    by (rule inj_onI) (simp add: config_path_def memRun_fields itoa_inj)
  have path: "config_path memToolsRun (FilepathJoin memToolsRun [''./.testnets'', ''validator'' @ itoa 3])
      = ''./.testnets/validator3/config/config.toml''" by code_simp
  have itoa: "itoa 26656 = ''26656''" "itoa 26653 = ''26653''" "itoa 26650 = ''26650''" "itoa 26647 = ''26647''" "itoa 26648 = ''26648''"
    by (simp_all add: itoa_def digits.simps digit_chars)
  from multi_node_default_testnet [OF mem_reader_defaults mem_amount coins memTools_laws(2) inj w'] obtain ids c where
    c: "fst w' ''./.testnets/validator3/config/config.toml'' = Some c"
      "nc_RPC_ListenAddress c = ''tcp://127.0.0.1:'' @ itoa (26657 - 3 * 3)"
      "nc_P2P_ListenAddress c = ''tcp://0.0.0.0:'' @ itoa (26656 - 3 * 3)"
      "nc_P2P_PersistentPeers c = Join (map (\<lambda>k. ids ! k @ ''@'' @ ''localhost'' @ '':'' @ itoa (26656 - 3 * int k)) [0..<4]) '',''"
      "nc_P2P_AddrBookStrict c = nc_P2P_AddrBookStrict some_config"
    unfolding four path [symmetric] by blast
  have "nc_P2P_PersistentPeers c = ids ! 0 @ ''@localhost:26656,'' @ ids ! 1 @ ''@localhost:26653,''
      @ ids ! 2 @ ''@localhost:26650,'' @ ids ! 3 @ ''@localhost:26647''"
    using c(4) by (simp add: eval_nat_numeral itoa)
  moreover have "nc_P2P_AddrBookStrict c" using c(5) by (simp add: some_config_def)
  moreover have "nc_RPC_ListenAddress c = ''tcp://127.0.0.1:26648''" "nc_P2P_ListenAddress c = ''tcp://0.0.0.0:26647''"
    using c(2,3) by (simp_all add: itoa)
  ultimately show ?thesis using w' c(1) by blast
qed

end
