(* ===== verification/GoClient.thy ===== *)
theory GoClient
  imports AppConfig
begin

text \<open>
  The commands of the example client (examples/go-client) that derive keys, send, look up and
  broadcast transactions and query balances and the chain: common.go, wallet.go, tx.go, tx_send.go,
  balance.go, chain.go and main.go. The watching of blocks is in \<open>BlockWatch\<close>.

  Parameters: the cryptography and the SDK's encodings (\<open>Crypto\<close>), the services behind a gRPC
  connection and the terminal (\<open>Net\<close>, over the state \<open>'w\<close> of the outside world), and the tables of
  package unicode for texts with non-ASCII letters. A command gets its flags as they were parsed.
  The deadline of a call is part of the service: a call that is too late returns an error.

  What is shown: the private key that the wallet command prints is the key with which the command for
  private keys signs, so that both ways of sending are one; with simulate-only nothing is broadcast.
\<close>

section \<open>Texts\<close>

text \<open>\<open>strings.TrimSpace\<close>: the bytes of the white space of Unicode, in UTF-8, are cut off at both ends.\<close>

definition utf8_spaces :: "string list" where
  "utf8_spaces = map (map char_of) ([[9], [10], [11], [12], [13], [32], [0xC2, 0x85], [0xC2, 0xA0], [0xE1, 0x9A, 0x80],
     [0xE2, 0x80, 0x80], [0xE2, 0x80, 0x81], [0xE2, 0x80, 0x82], [0xE2, 0x80, 0x83], [0xE2, 0x80, 0x84],
     [0xE2, 0x80, 0x85], [0xE2, 0x80, 0x86], [0xE2, 0x80, 0x87], [0xE2, 0x80, 0x88], [0xE2, 0x80, 0x89],
     [0xE2, 0x80, 0x8A], [0xE2, 0x80, 0xA8], [0xE2, 0x80, 0xA9], [0xE2, 0x80, 0xAF], [0xE2, 0x81, 0x9F],
     [0xE3, 0x80, 0x80]] :: nat list list)"

fun trim_prefixes :: "string list \<Rightarrow> nat \<Rightarrow> string \<Rightarrow> string" where
  "trim_prefixes ps 0 s = s"
| "trim_prefixes ps (Suc n) s = (case find (HasPrefix s) ps of
     None \<Rightarrow> s | Some p \<Rightarrow> trim_prefixes ps n (drop (length p) s))"

text \<open>Every round cuts off at least a byte: as many rounds as bytes are enough.\<close>

definition TrimLeft :: "string list \<Rightarrow> string \<Rightarrow> string" where
  "TrimLeft ps s = trim_prefixes ps (length s) s"

definition TrimSpace :: "string \<Rightarrow> string" where
  "TrimSpace s = rev (TrimLeft (map rev utf8_spaces) (rev (TrimLeft utf8_spaces s)))"

definition TrimPrefix :: "string \<Rightarrow> string \<Rightarrow> string" where
  "TrimPrefix s p = (if HasPrefix s p then drop (length p) s else s)"

definition lower :: "char \<Rightarrow> char" where
  "lower c = (let n = (of_char c :: nat) in if 65 \<le> n \<and> n \<le> 90 then char_of (n + 32) else c)"

definition ascii :: "string \<Rightarrow> bool" where
  "ascii s = list_all (\<lambda>c. (of_char c :: nat) < 128) s"

text \<open>\<open>strings.ToLower\<close>; \<open>unicode\<close> maps the texts that are not ASCII.\<close>

definition ToLower :: "(string \<Rightarrow> string) \<Rightarrow> string \<Rightarrow> string" where
  "ToLower unicode s = (if ascii s then map lower s else unicode s)"

definition hex_digit :: "nat \<Rightarrow> char" where
  "hex_digit n = char_of (if n < 10 then 48 + n else 87 + n)"

definition HexEncode :: "bytes \<Rightarrow> string" where
  "HexEncode bs = concat (map (\<lambda>b. let n = (of_char b :: nat) in [hex_digit (n div 16), hex_digit (n mod 16)]) bs)"

text \<open>The text of \<open>%#U\<close> for a byte: the code point, and the character when it is printable.\<close>

definition format_U :: "char \<Rightarrow> string" where
  "format_U c = (let n = (of_char c :: nat); upper = (\<lambda>d. char_of (if d < 10 then 48 + d else 55 + d) :: char)
     in ''U+00'' @ [upper (n div 16), upper (n mod 16)]
        @ (if 32 \<le> n \<and> n < 127 then '' '' @ [char_of (39 :: nat), c, char_of (39 :: nat)]
           else if 161 \<le> n \<and> n \<noteq> 173 then '' '' @ [char_of (39 :: nat), char_of (192 + n div 64), char_of (128 + n mod 64), char_of (39 :: nat)]
           else ''''))"

definition InvalidByteError :: "char \<Rightarrow> error" where
  "InvalidByteError c = Errorf (''encoding/hex: invalid byte: '' @ format_U c)"

fun HexDecode :: "string \<Rightarrow> bytes res" where
  "HexDecode [] = Ok []"
| "HexDecode [a] = (case unhex a of None \<Rightarrow> Err (InvalidByteError a)
     | Some _ \<Rightarrow> Err (Errorf ''encoding/hex: odd length hex string''))"
| "HexDecode (a # b # s) = (case unhex a of None \<Rightarrow> Err (InvalidByteError a)
     | Some h \<Rightarrow> (case unhex b of None \<Rightarrow> Err (InvalidByteError b)
     | Some l \<Rightarrow> bindR (HexDecode s) (\<lambda>bs. Ok (char_of (16 * h + l) # bs))))"

section \<open>Keys\<close>

record Crypto =
  cr_Sdk :: Sdk
  IsMnemonicValid :: "string \<Rightarrow> bool"
  NewSeed :: "string \<Rightarrow> string \<Rightarrow> bytes"
  ComputeMastersFromSeed :: "bytes \<Rightarrow> bytes \<times> bytes"
  HDPath :: "32 word \<Rightarrow> 32 word \<Rightarrow> 32 word \<Rightarrow> string"
  DerivePrivateKeyForPath :: "bytes \<Rightarrow> bytes \<Rightarrow> string \<Rightarrow> bytes res"
  PubKey :: "bytes \<Rightarrow> bytes"
  PubKeyAddress :: "bytes \<Rightarrow> addr"
  PrivKeySize :: nat
  SignBytes :: "bytes \<Rightarrow> bytes \<Rightarrow> bytes res"
  UnicodeToLower :: "string \<Rightarrow> string"
  cr_NewIntFromString :: "string \<Rightarrow> int option"
  cr_NewCoin :: "string \<Rightarrow> int \<Rightarrow> Coin res"
  Base64Decode :: "string \<Rightarrow> bytes res"
  Base64Encode :: "bytes \<Rightarrow> string"

definition derivePrivKeyAndAddress :: "Crypto \<Rightarrow> string \<Rightarrow> 32 word \<Rightarrow> 32 word \<Rightarrow> 32 word \<Rightarrow> (bytes \<times> addr) res" where
  "derivePrivKeyAndAddress C mnemonic coinType account index =
     (if \<not> IsMnemonicValid C mnemonic then Err (Errorf ''invalid mnemonic'') else
      let seed = NewSeed C mnemonic ''''; (masterPriv, chainCode) = ComputeMastersFromSeed C seed;
          hdPath = HDPath C coinType account index
      in bindR (mapErr (\<lambda>e. Wrap e ''failed to derive HD private key'') (DerivePrivateKeyForPath C masterPriv chainCode hdPath)) (\<lambda>privKey.
         Ok (privKey, PubKeyAddress C (PubKey C privKey))))"

definition parsePrivKeyAndAddress :: "Crypto \<Rightarrow> string \<Rightarrow> (bytes \<times> addr) res" where
  "parsePrivKeyAndAddress C privateKeyHex =
     (let normalized = TrimPrefix (ToLower (UnicodeToLower C) (TrimSpace privateKeyHex)) ''0x''
      in bindR (mapErr (\<lambda>e. Wrap e ''failed to decode private key hex'') (HexDecode normalized)) (\<lambda>keyBytes.
         if length keyBytes \<noteq> PrivKeySize C then Err (Errorf (''invalid private key length: '' @ itoa (int (length keyBytes))))
         else Ok (keyBytes, PubKeyAddress C (PubKey C keyBytes))))"

record WalletInfo =
  wi_Mnemonic :: string
  wi_HDPath :: string
  wi_Address :: string
  wi_PublicKeyHex :: string
  wi_PrivateKeyHex :: string

definition deriveWalletFromMnemonic :: "Crypto \<Rightarrow> string \<Rightarrow> 32 word \<Rightarrow> 32 word \<Rightarrow> 32 word \<Rightarrow> bool \<Rightarrow> WalletInfo res" where
  "deriveWalletFromMnemonic C mnemonic coinType account index showMnemonic =
     (if \<not> IsMnemonicValid C (TrimSpace mnemonic) then Err (Errorf ''invalid mnemonic'') else
      let seed = NewSeed C (TrimSpace mnemonic) ''''; (masterPriv, chainCode) = ComputeMastersFromSeed C seed;
          hdPath = HDPath C coinType account index
      in bindR (mapErr (\<lambda>e. Wrap e ''failed to derive private key from HD path'') (DerivePrivateKeyForPath C masterPriv chainCode hdPath)) (\<lambda>priv.
         let pub = PubKey C priv; addr = AccAddressString (cr_Sdk C) (PubKeyAddress C pub);
             info = \<lparr>wi_Mnemonic = '''', wi_HDPath = hdPath, wi_Address = addr,
               wi_PublicKeyHex = HexEncode pub, wi_PrivateKeyHex = HexEncode priv\<rparr>
         in Ok (if showMnemonic then info\<lparr>wi_Mnemonic := TrimSpace mnemonic\<rparr> else info)))"

definition wordsToEntropyBits :: "int \<Rightarrow> int res" where
  "wordsToEntropyBits words =
     (if words = 12 then Ok 128 else if words = 15 then Ok 160 else if words = 18 then Ok 192
      else if words = 21 then Ok 224 else if words = 24 then Ok 256
      else Err (Errorf (''unsupported word count: '' @ itoa words)))"

section \<open>Transactions\<close>

record TxBody =
  tb_Messages :: "ref list"
  tb_Memo :: string

record SignerInfo =
  si_PublicKey :: ref
  si_Direct :: bool
  si_Sequence :: u64

record AuthInfo =
  ai_SignerInfos :: "SignerInfo list"
  ai_FeeAmount :: "Coin list"
  ai_GasLimit :: u64

record TxRaw =
  tr_BodyBytes :: bytes
  tr_AuthInfoBytes :: bytes
  tr_Signatures :: "bytes list"

record TxLib =
  NewMsgSend :: "addr \<Rightarrow> addr \<Rightarrow> Coin list \<Rightarrow> ref"
  NewAnyWithMsg :: "ref \<Rightarrow> ref res"
  NewAnyWithKey :: "bytes \<Rightarrow> ref res"
  TxBodyMarshal :: "TxBody \<Rightarrow> bytes res"
  AuthInfoMarshal :: "AuthInfo \<Rightarrow> bytes res"
  DirectSignBytes :: "bytes \<Rightarrow> bytes \<Rightarrow> string \<Rightarrow> u64 \<Rightarrow> bytes res"
  TxRawMarshal :: "TxRaw \<Rightarrow> bytes res"

definition buildCoin :: "Crypto \<Rightarrow> string \<Rightarrow> string \<Rightarrow> Coin res" where
  "buildCoin C denom amount = (case cr_NewIntFromString C (TrimSpace amount) of
     None \<Rightarrow> Err (Errorf (''amount must be a positive integer: '' @ amount))
   | Some intAmount \<Rightarrow> if intAmount \<le> 0 then Err (Errorf (''amount must be a positive integer: '' @ amount))
       else cr_NewCoin C (TrimSpace denom) intAmount)"

definition buildAndSignMsgSendTx :: "Crypto \<Rightarrow> TxLib \<Rightarrow> ref \<Rightarrow> bytes \<Rightarrow> string \<Rightarrow> u64 \<Rightarrow> u64 \<Rightarrow> Coin list \<Rightarrow> u64 \<Rightarrow>
    string \<Rightarrow> bytes res" where
  "buildAndSignMsgSendTx C T msg privKey chainID accountNumber sequence fees gasLimit memo =
     bindR (mapErr (\<lambda>e. Wrap e ''failed to convert message to Any'') (NewAnyWithMsg T msg)) (\<lambda>msgAny.
     bindR (mapErr (\<lambda>e. Wrap e ''failed to encode tx body'') (TxBodyMarshal T \<lparr>tb_Messages = [msgAny], tb_Memo = memo\<rparr>)) (\<lambda>bodyBytes.
     bindR (mapErr (\<lambda>e. Wrap e ''failed to convert public key to Any'') (NewAnyWithKey T (PubKey C privKey))) (\<lambda>pubKeyAny.
     let authInfo = \<lparr>ai_SignerInfos = [\<lparr>si_PublicKey = pubKeyAny, si_Direct = True, si_Sequence = sequence\<rparr>],
           ai_FeeAmount = fees, ai_GasLimit = gasLimit\<rparr> in
     bindR (mapErr (\<lambda>e. Wrap e ''failed to encode auth info'') (AuthInfoMarshal T authInfo)) (\<lambda>authInfoBytes.
     bindR (mapErr (\<lambda>e. Wrap e ''failed to build sign bytes'') (DirectSignBytes T bodyBytes authInfoBytes chainID accountNumber)) (\<lambda>signBytes.
     bindR (mapErr (\<lambda>e. Wrap e ''failed to sign transaction'') (SignBytes C privKey signBytes)) (\<lambda>sig.
     mapErr (\<lambda>e. Wrap e ''failed to encode tx raw'')
       (TxRawMarshal T \<lparr>tr_BodyBytes = bodyBytes, tr_AuthInfoBytes = authInfoBytes, tr_Signatures = [sig]\<rparr>)))))))"

definition buildTxEventQuery :: "string \<Rightarrow> string \<Rightarrow> string" where
  "buildTxEventQuery sender recipient =
     (let quoted = (\<lambda>s. [char_of (39 :: nat)] @ s @ [char_of (39 :: nat)]) in
      Join ((if sender \<noteq> '''' then [''message.sender='' @ quoted sender] else [])
        @ (if recipient \<noteq> '''' then [''transfer.recipient='' @ quoted recipient] else [])) '' AND '')"

datatype BroadcastMode = BROADCAST_MODE_UNSPECIFIED | BROADCAST_MODE_ASYNC | BROADCAST_MODE_SYNC | BROADCAST_MODE_BLOCK

definition parseBroadcastMode :: "Crypto \<Rightarrow> string \<Rightarrow> BroadcastMode res" where
  "parseBroadcastMode C mode =
     (let m = ToLower (UnicodeToLower C) (TrimSpace mode) in
      if m = ''async'' then Ok BROADCAST_MODE_ASYNC
      else if m = ''sync'' then Ok BROADCAST_MODE_SYNC
      else if m = ''block'' then Ok BROADCAST_MODE_BLOCK
      else Err (Errorf (''unsupported mode: '' @ mode)))"

section \<open>The services\<close>

record BaseAccount =
  ba_AccountNumber :: u64
  ba_Sequence :: u64

datatype OutVal = OStr string | ONum int | OBool bool | OMsg ref | OObj "(string \<times> OutVal) list" | OWallet WalletInfo

record 'w Net =
  GrpcNewClient :: "string \<Rightarrow> ref res"
  CloseConn :: "ref \<Rightarrow> 'w \<Rightarrow> 'w"
  GetTx :: "ref \<Rightarrow> string \<Rightarrow> ('w, ref) act"
  GetTxsEvent :: "ref \<Rightarrow> string \<Rightarrow> u64 \<Rightarrow> u64 \<Rightarrow> ('w, u64 \<times> ref) act"
  SimulateTx :: "ref \<Rightarrow> bytes \<Rightarrow> ('w, ref) act"
  BroadcastTx :: "ref \<Rightarrow> bytes \<Rightarrow> BroadcastMode \<Rightarrow> ('w, ref) act"
  GetNodeInfo :: "ref \<Rightarrow> ('w, string \<times> ref \<times> ref) act"
  GetSyncing :: "ref \<Rightarrow> ('w, bool) act"
  GetLatestBlock :: "ref \<Rightarrow> ('w, ref \<times> ref) act"
  GetBlockByHeight :: "ref \<Rightarrow> int \<Rightarrow> ('w, ref) act"
  AccountInfo :: "ref \<Rightarrow> string \<Rightarrow> ('w, BaseAccount option) act"
  GetAccountResp :: "ref \<Rightarrow> string \<Rightarrow> ('w, ref) act"
  GetModuleParams :: "ref \<Rightarrow> ('w, ref) act"
  AllBalances :: "ref \<Rightarrow> string \<Rightarrow> ('w, ref) act"
  GetBalance :: "ref \<Rightarrow> string \<Rightarrow> string \<Rightarrow> ('w, ref) act"
  NewEntropy :: "int \<Rightarrow> ('w, bytes) act"
  NewMnemonic :: "bytes \<Rightarrow> string res"
  MarshalIndent :: "OutVal \<Rightarrow> string res"
  Println :: "string \<Rightarrow> 'w \<Rightarrow> 'w"

definition newGRPCConn :: "'w Net \<Rightarrow> string \<Rightarrow> ref res" where
  "newGRPCConn N endpoint =
     mapErr (\<lambda>e. Wrap e (''failed to connect gRPC endpoint ('' @ endpoint @ '')'')) (GrpcNewClient N endpoint)"

definition printJSON :: "'w Net \<Rightarrow> OutVal \<Rightarrow> ('w, unit) act" where
  "printJSON N v =
     bindA (lift (mapErr (\<lambda>e. Wrap e ''failed to marshal JSON'') (MarshalIndent N v))) (\<lambda>out. modify (Println N out))"

text \<open>A connection whose \<open>Close\<close> is deferred: it runs on every exit.\<close>

definition with_conn :: "'w Net \<Rightarrow> string \<Rightarrow> (ref \<Rightarrow> ('w, 'a) act) \<Rightarrow> ('w, 'a) act" where
  "with_conn N endpoint body =
     bindA (lift (newGRPCConn N endpoint)) (\<lambda>conn w. let (r, w') = body conn w in (r, CloseConn N conn w'))"

definition detectChainID :: "'w Net \<Rightarrow> ref \<Rightarrow> ('w, string) act" where
  "detectChainID N conn =
     bindA (wrap_err (\<lambda>e. Wrap e ''failed to auto-detect chain-id'') (GetNodeInfo N conn)) (\<lambda>(network, _).
     let chainID = TrimSpace network
     in if chainID = '''' then throw (Errorf ''chain-id is empty in node info'') else ret chainID)"

definition queryBaseAccount :: "'w Net \<Rightarrow> ref \<Rightarrow> string \<Rightarrow> ('w, BaseAccount) act" where
  "queryBaseAccount N conn address =
     bindA (wrap_err (\<lambda>e. Wrap e ''failed to query account info'') (AccountInfo N conn address)) (\<lambda>info.
     case info of None \<Rightarrow> throw (Errorf (''account info is empty: '' @ address)) | Some acc \<Rightarrow> ret acc)"

section \<open>Sending\<close>

record SendFlags =
  sf_endpoint :: string
  sf_chainID :: string
  sf_toAddress :: string
  sf_amount :: string
  sf_denom :: string
  sf_feeAmount :: string
  sf_feeDenom :: string
  sf_gasLimit :: u64
  sf_memo :: string
  sf_mode :: string
  sf_simulateOnly :: bool

text \<open>
  What \<open>runTxSend\<close> and \<open>runTxSendWithPrivateKey\<close> have in common: everything after the key and the
  sender's address. The two functions repeat it word for word.
\<close>

definition send_with_key :: "Crypto \<Rightarrow> TxLib \<Rightarrow> 'w Net \<Rightarrow> SendFlags \<Rightarrow> bytes \<times> addr \<Rightarrow> ('w, unit) act" where
  "send_with_key C T N fl = (\<lambda>(privKey, fromAddr).
     let S = cr_Sdk C in
     bindA (lift (mapErr (\<lambda>e. Wrap e ''failed to parse recipient address'') (AccAddressFromBech32 S (TrimSpace (sf_toAddress fl))))) (\<lambda>toAddr.
     bindA (lift (mapErr (\<lambda>e. Wrap e ''failed to parse send coin'') (buildCoin C (sf_denom fl) (sf_amount fl)))) (\<lambda>sendCoin.
     bindA (lift (mapErr (\<lambda>e. Wrap e ''failed to parse fee coin'') (buildCoin C (sf_feeDenom fl) (sf_feeAmount fl)))) (\<lambda>feeCoin.
     with_conn N (sf_endpoint fl) (\<lambda>conn.
       bindA (if TrimSpace (sf_chainID fl) = '''' then detectChainID N conn else ret (TrimSpace (sf_chainID fl))) (\<lambda>resolvedChainID.
       bindA (queryBaseAccount N conn (AccAddressString S fromAddr)) (\<lambda>baseAcc.
       bindA (lift (NewCoins S [sendCoin])) (\<lambda>sendCoins.
       bindA (lift (NewCoins S [feeCoin])) (\<lambda>feeCoins.
       bindA (lift (buildAndSignMsgSendTx C T (NewMsgSend T fromAddr toAddr sendCoins) privKey resolvedChainID
                (ba_AccountNumber baseAcc) (ba_Sequence baseAcc) feeCoins (sf_gasLimit fl) (sf_memo fl))) (\<lambda>txBytes.
       if sf_simulateOnly fl then
         bindA (wrap_err (\<lambda>e. Wrap e ''simulation failed'') (SimulateTx N conn txBytes)) (\<lambda>simResp.
         printJSON N (OObj [(''from'', OStr (AccAddressString S fromAddr)), (''to'', OStr (AccAddressString S toAddr)),
           (''amount'', OStr (CoinString S sendCoin)), (''chain_id'', OStr resolvedChainID),
           (''account_number'', ONum (uint (ba_AccountNumber baseAcc))), (''sequence'', ONum (uint (ba_Sequence baseAcc))),
           (''tx_bytes_base64'', OStr (Base64Encode C txBytes)), (''simulate'', OMsg simResp)]))
       else
         bindA (lift (parseBroadcastMode C (sf_mode fl))) (\<lambda>broadcastMode.
         bindA (wrap_err (\<lambda>e. Wrap e ''broadcast failed'') (BroadcastTx N conn txBytes broadcastMode)) (\<lambda>broadcastResp.
         printJSON N (OObj [(''from'', OStr (AccAddressString S fromAddr)), (''to'', OStr (AccAddressString S toAddr)),
           (''amount'', OStr (CoinString S sendCoin)), (''fee'', OStr (CoinString S feeCoin)), (''chain_id'', OStr resolvedChainID),
           (''account_number'', ONum (uint (ba_AccountNumber baseAcc))), (''sequence'', ONum (uint (ba_Sequence baseAcc))),
           (''tx_bytes_base64'', OStr (Base64Encode C txBytes)), (''broadcast'', OMsg broadcastResp)])))))))))))))"

text \<open>\<open>uint32(*coinType)\<close>: the flags are 64-bit unsigned integers.\<close>

definition runTxSend :: "Crypto \<Rightarrow> TxLib \<Rightarrow> 'w Net \<Rightarrow> string \<Rightarrow> u64 \<Rightarrow> u64 \<Rightarrow> u64 \<Rightarrow> SendFlags \<Rightarrow> ('w, unit) act" where
  "runTxSend C T N mnemonic coinType account index fl =
     (if TrimSpace mnemonic = '''' then throw (Errorf ''-from-mnemonic is required'')
      else if TrimSpace (sf_toAddress fl) = '''' then throw (Errorf ''-to-address is required'')
      else bindA (lift (derivePrivKeyAndAddress C (TrimSpace mnemonic) (ucast coinType) (ucast account) (ucast index)))
             (send_with_key C T N fl))"

definition runTxSendWithPrivateKey :: "Crypto \<Rightarrow> TxLib \<Rightarrow> 'w Net \<Rightarrow> string \<Rightarrow> SendFlags \<Rightarrow> ('w, unit) act" where
  "runTxSendWithPrivateKey C T N privateKeyHex fl =
     (if TrimSpace privateKeyHex = '''' then throw (Errorf ''-from-private-key-hex is required'')
      else if TrimSpace (sf_toAddress fl) = '''' then throw (Errorf ''-to-address is required'')
      else bindA (lift (parsePrivKeyAndAddress C (TrimSpace privateKeyHex))) (send_with_key C T N fl))"

section \<open>Looking up, simulating and broadcasting\<close>

definition runTxGet :: "'w Net \<Rightarrow> string \<Rightarrow> string \<Rightarrow> ('w, unit) act" where
  "runTxGet N endpoint hash =
     (if hash = '''' then throw (Errorf ''-hash is required'')
      else with_conn N endpoint (\<lambda>conn.
        bindA (wrap_err (\<lambda>e. Wrap e ''failed to query transaction'') (GetTx N conn (TrimSpace hash))) (\<lambda>resp.
        printJSON N (OMsg resp))))"

definition runTxSearch :: "'w Net \<Rightarrow> string \<Rightarrow> string \<Rightarrow> string \<Rightarrow> string \<Rightarrow> u64 \<Rightarrow> u64 \<Rightarrow> ('w, unit) act" where
  "runTxSearch N endpoint q sender recipient page limit =
     (let eventQuery = TrimSpace q;
          eventQuery = (if eventQuery = '''' then buildTxEventQuery (TrimSpace sender) (TrimSpace recipient) else eventQuery)
      in if eventQuery = '''' then throw (Errorf ''either -query or -sender/-recipient is required'')
         else with_conn N endpoint (\<lambda>conn.
           bindA (wrap_err (\<lambda>e. Wrap e ''failed to search transactions'') (GetTxsEvent N conn eventQuery page limit)) (\<lambda>(total, txs).
           printJSON N (OObj [(''query'', OStr eventQuery), (''total'', ONum (uint total)), (''tx_responses'', OMsg txs)]))))"

definition runTxSimulate :: "Crypto \<Rightarrow> 'w Net \<Rightarrow> string \<Rightarrow> string \<Rightarrow> ('w, unit) act" where
  "runTxSimulate C N endpoint txBytesB64 =
     (if TrimSpace txBytesB64 = '''' then throw (Errorf ''-tx-bytes-base64 is required'')
      else bindA (lift (mapErr (\<lambda>e. Wrap e ''failed to decode base64'') (Base64Decode C (TrimSpace txBytesB64)))) (\<lambda>txBytes.
        with_conn N endpoint (\<lambda>conn.
          bindA (wrap_err (\<lambda>e. Wrap e ''failed to simulate transaction'') (SimulateTx N conn txBytes)) (\<lambda>resp.
          printJSON N (OMsg resp)))))"

definition runTxBroadcast :: "Crypto \<Rightarrow> 'w Net \<Rightarrow> string \<Rightarrow> string \<Rightarrow> string \<Rightarrow> ('w, unit) act" where
  "runTxBroadcast C N endpoint txBytesB64 mode =
     (if TrimSpace txBytesB64 = '''' then throw (Errorf ''-tx-bytes-base64 is required'')
      else bindA (lift (mapErr (\<lambda>e. Wrap e ''failed to decode base64'') (Base64Decode C (TrimSpace txBytesB64)))) (\<lambda>txBytes.
        bindA (lift (parseBroadcastMode C mode)) (\<lambda>broadcastMode.
        with_conn N endpoint (\<lambda>conn.
          bindA (wrap_err (\<lambda>e. Wrap e ''failed to broadcast transaction'') (BroadcastTx N conn txBytes broadcastMode)) (\<lambda>resp.
          printJSON N (OMsg resp))))))"

section \<open>Wallet, balances and the chain\<close>

definition runWalletCreate :: "Crypto \<Rightarrow> 'w Net \<Rightarrow> int \<Rightarrow> u64 \<Rightarrow> u64 \<Rightarrow> u64 \<Rightarrow> ('w, unit) act" where
  "runWalletCreate C N words coinType account index =
     bindA (lift (wordsToEntropyBits words)) (\<lambda>entropyBits.
     bindA (wrap_err (\<lambda>e. Wrap e ''failed to generate entropy'') (NewEntropy N entropyBits)) (\<lambda>entropy.
     bindA (lift (mapErr (\<lambda>e. Wrap e ''failed to generate mnemonic'') (NewMnemonic N entropy))) (\<lambda>mnemonic.
     bindA (lift (deriveWalletFromMnemonic C mnemonic (ucast coinType) (ucast account) (ucast index) True)) (\<lambda>wallet.
     printJSON N (OWallet wallet)))))"

definition runWalletFromMnemonic :: "Crypto \<Rightarrow> 'w Net \<Rightarrow> string \<Rightarrow> u64 \<Rightarrow> u64 \<Rightarrow> u64 \<Rightarrow> bool \<Rightarrow> ('w, unit) act" where
  "runWalletFromMnemonic C N mnemonic coinType account index showMnemonic =
     (if TrimSpace mnemonic = '''' then throw (Errorf ''-mnemonic is required'')
      else bindA (lift (deriveWalletFromMnemonic C mnemonic (ucast coinType) (ucast account) (ucast index) showMnemonic)) (\<lambda>wallet.
        printJSON N (OWallet wallet)))"

definition runWalletValidate :: "Crypto \<Rightarrow> 'w Net \<Rightarrow> string \<Rightarrow> ('w, unit) act" where
  "runWalletValidate C N mnemonic =
     (if TrimSpace mnemonic = '''' then throw (Errorf ''-mnemonic is required'')
      else printJSON N (OObj [(''valid'', OBool (IsMnemonicValid C (TrimSpace mnemonic)))]))"

definition runBalanceAll :: "'w Net \<Rightarrow> string \<Rightarrow> string \<Rightarrow> ('w, unit) act" where
  "runBalanceAll N endpoint address =
     (if address = '''' then throw (Errorf ''-address is required'')
      else with_conn N endpoint (\<lambda>conn.
        bindA (wrap_err (\<lambda>e. Wrap e ''failed to query balances'') (AllBalances N conn address)) (\<lambda>balances.
        printJSON N (OObj [(''address'', OStr address), (''balances'', OMsg balances)]))))"

definition runBalanceByDenom :: "'w Net \<Rightarrow> string \<Rightarrow> string \<Rightarrow> string \<Rightarrow> ('w, unit) act" where
  "runBalanceByDenom N endpoint address denom =
     (if address = '''' then throw (Errorf ''-address is required'')
      else with_conn N endpoint (\<lambda>conn.
        bindA (wrap_err (\<lambda>e. Wrap e ''failed to query denom balance'') (GetBalance N conn address denom)) (\<lambda>balance.
        printJSON N (OObj [(''address'', OStr address), (''denom'', OStr denom), (''balance'', OMsg balance)]))))"

definition runChainStatus :: "'w Net \<Rightarrow> string \<Rightarrow> ('w, unit) act" where
  "runChainStatus N endpoint = with_conn N endpoint (\<lambda>conn.
     bindA (wrap_err (\<lambda>e. Wrap e ''failed to query node info'') (GetNodeInfo N conn)) (\<lambda>(_, nodeInfo, application).
     bindA (wrap_err (\<lambda>e. Wrap e ''failed to query sync status'') (GetSyncing N conn)) (\<lambda>syncing.
     bindA (wrap_err (\<lambda>e. Wrap e ''failed to query latest block'') (GetLatestBlock N conn)) (\<lambda>(_, latestBlock).
     printJSON N (OObj [(''node_info'', OMsg nodeInfo), (''application'', OMsg application), (''is_syncing'', OBool syncing),
       (''latest_block'', OMsg latestBlock)])))))"

definition runChainBlock :: "'w Net \<Rightarrow> string \<Rightarrow> int \<Rightarrow> ('w, unit) act" where
  "runChainBlock N endpoint height = with_conn N endpoint (\<lambda>conn.
     if height \<le> 0 then
       bindA (wrap_err (\<lambda>e. Wrap e ''failed to query latest block'') (GetLatestBlock N conn)) (\<lambda>(resp, _). printJSON N (OMsg resp))
     else
       bindA (wrap_err (\<lambda>e. Wrap e (''failed to query block (height='' @ itoa height @ '')'')) (GetBlockByHeight N conn height))
         (\<lambda>resp. printJSON N (OMsg resp)))"

definition runChainAccount :: "'w Net \<Rightarrow> string \<Rightarrow> string \<Rightarrow> ('w, unit) act" where
  "runChainAccount N endpoint address =
     (if address = '''' then throw (Errorf ''-address is required'')
      else with_conn N endpoint (\<lambda>conn.
        bindA (wrap_err (\<lambda>e. Wrap e ''failed to query account'') (GetAccountResp N conn address)) (\<lambda>resp. printJSON N (OMsg resp))))"

definition runModuleParams :: "'w Net \<Rightarrow> string \<Rightarrow> ('w, unit) act" where
  "runModuleParams N endpoint = with_conn N endpoint (\<lambda>conn.
     bindA (wrap_err (\<lambda>e. Wrap e ''failed to query module params'') (GetModuleParams N conn)) (\<lambda>resp. printJSON N (OMsg resp)))"

section \<open>The commands\<close>

text \<open>
  \<open>FlagSet.Parse\<close>: the flags of each command, with their defaults, or the error; it may print its usage.
\<close>

record 'w Flags =
  p_send :: "string list \<Rightarrow> ('w, string \<times> u64 \<times> u64 \<times> u64 \<times> SendFlags) act"
  p_send_privkey :: "string list \<Rightarrow> ('w, string \<times> SendFlags) act"
  p_get :: "string list \<Rightarrow> ('w, string \<times> string) act"
  p_search :: "string list \<Rightarrow> ('w, string \<times> string \<times> string \<times> string \<times> u64 \<times> u64) act"
  p_simulate :: "string list \<Rightarrow> ('w, string \<times> string) act"
  p_broadcast :: "string list \<Rightarrow> ('w, string \<times> string \<times> string) act"
  p_wallet_create :: "string list \<Rightarrow> ('w, int \<times> u64 \<times> u64 \<times> u64) act"
  p_wallet_mnemonic :: "string list \<Rightarrow> ('w, string \<times> u64 \<times> u64 \<times> u64 \<times> bool) act"
  p_wallet_validate :: "string list \<Rightarrow> ('w, string) act"
  p_balance_all :: "string list \<Rightarrow> ('w, string \<times> string) act"
  p_balance_denom :: "string list \<Rightarrow> ('w, string \<times> string \<times> string) act"
  p_status :: "string list \<Rightarrow> ('w, string) act"
  p_block :: "string list \<Rightarrow> ('w, string \<times> int) act"
  p_account :: "string list \<Rightarrow> ('w, string \<times> string) act"
  p_params :: "string list \<Rightarrow> ('w, string) act"

definition runTxCommand :: "Crypto \<Rightarrow> TxLib \<Rightarrow> 'w Net \<Rightarrow> 'w Flags \<Rightarrow> string list \<Rightarrow> ('w, unit) act" where
  "runTxCommand C T N P args = (case args of
     [] \<Rightarrow> throw (Errorf ''tx subcommand is required (send/send-privkey/get/search/simulate/broadcast)'')
   | sub # rest \<Rightarrow>
       if sub = ''send'' then bindA (p_send P rest) (\<lambda>(mnemonic, coinType, account, index, fl). runTxSend C T N mnemonic coinType account index fl)
       else if sub = ''send-privkey'' then bindA (p_send_privkey P rest) (\<lambda>(key, fl). runTxSendWithPrivateKey C T N key fl)
       else if sub = ''get'' then bindA (p_get P rest) (\<lambda>(endpoint, hash). runTxGet N endpoint hash)
       else if sub = ''search'' then bindA (p_search P rest) (\<lambda>(endpoint, q, sender, recipient, page, limit).
         runTxSearch N endpoint q sender recipient page limit)
       else if sub = ''simulate'' then bindA (p_simulate P rest) (\<lambda>(endpoint, tx). runTxSimulate C N endpoint tx)
       else if sub = ''broadcast'' then bindA (p_broadcast P rest) (\<lambda>(endpoint, tx, mode). runTxBroadcast C N endpoint tx mode)
       else throw (Errorf (''unsupported tx subcommand: '' @ sub)))"

definition runWalletCommand :: "Crypto \<Rightarrow> 'w Net \<Rightarrow> 'w Flags \<Rightarrow> string list \<Rightarrow> ('w, unit) act" where
  "runWalletCommand C N P args = (case args of
     [] \<Rightarrow> throw (Errorf ''wallet subcommand is required (create/from-mnemonic/validate)'')
   | sub # rest \<Rightarrow>
       if sub = ''create'' then bindA (p_wallet_create P rest) (\<lambda>(words, coinType, account, index). runWalletCreate C N words coinType account index)
       else if sub = ''from-mnemonic'' then bindA (p_wallet_mnemonic P rest) (\<lambda>(mnemonic, coinType, account, index, showMnemonic).
         runWalletFromMnemonic C N mnemonic coinType account index showMnemonic)
       else if sub = ''validate'' then bindA (p_wallet_validate P rest) (runWalletValidate C N)
       else throw (Errorf (''unsupported wallet subcommand: '' @ sub)))"

definition runBalanceCommand :: "'w Net \<Rightarrow> 'w Flags \<Rightarrow> string list \<Rightarrow> ('w, unit) act" where
  "runBalanceCommand N P args = (case args of
     [] \<Rightarrow> throw (Errorf ''balance subcommand is required (all/denom)'')
   | sub # rest \<Rightarrow>
       if sub = ''all'' then bindA (p_balance_all P rest) (\<lambda>(endpoint, address). runBalanceAll N endpoint address)
       else if sub = ''denom'' then bindA (p_balance_denom P rest) (\<lambda>(endpoint, address, denom). runBalanceByDenom N endpoint address denom)
       else throw (Errorf (''unsupported balance subcommand: '' @ sub)))"

text \<open>The watching of blocks, \<open>watch\<close>, is a parameter here: it may run for ever.\<close>

definition runChainCommand :: "'w Net \<Rightarrow> 'w Flags \<Rightarrow> (string list \<Rightarrow> ('w, unit) act) \<Rightarrow> string list \<Rightarrow> ('w, unit) act" where
  "runChainCommand N P watch args = (case args of
     [] \<Rightarrow> throw (Errorf ''chain subcommand is required (status/block/watch/account/module-params)'')
   | sub # rest \<Rightarrow>
       if sub = ''status'' then bindA (p_status P rest) (runChainStatus N)
       else if sub = ''block'' then bindA (p_block P rest) (\<lambda>(endpoint, height). runChainBlock N endpoint height)
       else if sub = ''watch'' then watch rest
       else if sub = ''account'' then bindA (p_account P rest) (\<lambda>(endpoint, address). runChainAccount N endpoint address)
       else if sub = ''module-params'' then bindA (p_params P rest) (runModuleParams N)
       else throw (Errorf (''unsupported chain subcommand: '' @ sub)))"

section \<open>The client\<close>

definition root_usage :: "string list" where
  "root_usage =
     [''LumiWave Go Client Sample'',
      '''',
      ''Usage:'',
      ''  go run ./examples/go-client <command> <subcommand> [flags]'',
      '''',
      ''Commands:'',
      ''  wallet   Wallet create/restore/validate'',
      ''  balance  Coin/token balance queries'',
      ''  tx       Transaction query/search/simulate/broadcast'',
      ''  chain    Chain status/block/account/module params'',
      '''',
      ''wallet subcommands:'',
      ''  create          Create a new mnemonic wallet'',
      ''  from-mnemonic   Restore wallet from mnemonic'',
      ''  validate        Validate mnemonic'',
      '''',
      ''balance subcommands:'',
      ''  all             Query all balances for an address'',
      ''  denom           Query a specific denom balance'',
      '''',
      ''tx subcommands:'',
      ''  send            Send using mnemonic'',
      ''  send-privkey    Send using private key(hex)'',
      ''  get             Get one tx by hash'',
      ''  search          Search tx list by event query'',
      ''  simulate        Simulate tx bytes(base64)'',
      ''  broadcast       Broadcast tx bytes(base64)'',
      '''',
      ''chain subcommands:'',
      ''  status          Query node status/sync/latest block'',
      ''  block           Query a specific height or latest block'',
      ''  watch           Watch latest blocks and print each new block snapshot'',
      ''  account         Query account info(account number/sequence)'',
      ''  module-params   Query lumiwaveprotocol module params'',
      '''',
      ''Examples:'',
      ''  go run ./examples/go-client wallet create'',
      ''  go run ./examples/go-client balance all --address lumi1...'',
      ''  go run ./examples/go-client tx send --from-mnemonic \"...\" --to-address lumi1... --amount 1000 --denom ulwp'',
      ''  go run ./examples/go-client tx send-privkey --from-private-key-hex <HEX> --to-address lumi1... --amount 1000 --denom ulwp'',
      ''  go run ./examples/go-client tx get --hash ABCDEF...'',
      ''  go run ./examples/go-client chain watch --interval 2s'',
      ''  go run ./examples/go-client chain status'']"

text \<open>
  \<open>os.Exit\<close> ends the process, so that a program is its exit code; \<open>fprintf\<close> writes to the error output.
\<close>

definition printRootUsage :: "'w Net \<Rightarrow> 'w \<Rightarrow> 'w" where
  "printRootUsage N = Println N (Join root_usage [CHR 0x0A])"

definition exitErr :: "(string \<Rightarrow> 'w \<Rightarrow> 'w) \<Rightarrow> error \<Rightarrow> 'w \<Rightarrow> nat \<times> 'w" where
  "exitErr fprintf err w = (1, fprintf (''error: '' @ ErrorText err @ [CHR 0x0A]) w)"

definition client_main :: "(string \<Rightarrow> 'w \<Rightarrow> 'w) \<Rightarrow> Crypto \<Rightarrow> TxLib \<Rightarrow> 'w Net \<Rightarrow> 'w Flags \<Rightarrow> (string list \<Rightarrow> ('w, unit) act) \<Rightarrow>
    string list \<Rightarrow> 'w \<Rightarrow> nat res \<times> 'w" where
  "client_main fprintf C T N P watch args w =
     (if length args < 2 then (Ok 1, printRootUsage N w)
      else let cmd = args ! 1; rest = drop 2 args;
         (err, w) =
           (if cmd = ''wallet'' then runWalletCommand C N P rest w
            else if cmd = ''balance'' then runBalanceCommand N P rest w
            else if cmd = ''tx'' then runTxCommand C T N P rest w
            else if cmd = ''chain'' then runChainCommand N P watch rest w
            else (Err (Errorf (''unsupported command: '' @ cmd)), printRootUsage N w))
       in (case err of
             Err e \<Rightarrow> (let (code, w) = exitErr fprintf e w in (Ok code, w))
           | Ok _ \<Rightarrow> (Ok 0, w)
           | Panic p \<Rightarrow> (Panic p, w)))"

section \<open>Hexadecimal texts\<close>

definition hex_lower :: "char \<Rightarrow> bool" where
  "hex_lower c \<longleftrightarrow> (let n = (of_char c :: nat) in 48 \<le> n \<and> n \<le> 57 \<or> 97 \<le> n \<and> n \<le> 102)"

lemma of_char_small: "n < 256 \<Longrightarrow> (of_char (char_of (n :: nat)) :: nat) = n"
  by simp

lemma hex_digit_props:
  assumes "n < 16"
  shows "unhex (hex_digit n) = Some n" "hex_lower (hex_digit n)"
  using assms by (auto simp: unhex_def hex_digit_def hex_lower_def Let_def)

lemma of_char_bound: "(of_char c :: nat) < 256"
  by (rule nat_of_char_less_256)

lemma HexDecode_HexEncode: "HexDecode (HexEncode bs) = Ok bs"
proof (induction bs)
  case (Cons b bs)
  let ?n = "of_char b :: nat"
  have b: "?n div 16 < 16" "?n mod 16 < 16" using of_char_bound [of b] by (auto simp: less_mult_imp_div_less)
  have "char_of (16 * (?n div 16) + ?n mod 16) = b" by simp
  with Cons b show ?case by (simp add: HexEncode_def Let_def hex_digit_props)
qed (simp add: HexEncode_def)

lemma HexEncode_lower: "c \<in> set (HexEncode bs) \<Longrightarrow> hex_lower c"
  using of_char_bound by (auto simp: HexEncode_def Let_def hex_digit_props less_mult_imp_div_less)

lemma hex_lower_lower: "hex_lower c \<Longrightarrow> lower c = c \<and> (of_char c :: nat) < 128"
  by (auto simp: hex_lower_def lower_def Let_def)

lemma ToLower_hex: "(\<And>c. c \<in> set s \<Longrightarrow> hex_lower c) \<Longrightarrow> ToLower u s = s"
  using hex_lower_lower by (auto simp: ToLower_def ascii_def list_all_iff intro: map_idI)

text \<open>A text that neither begins nor ends with white space is not changed.\<close>

lemma trim_prefixes_none: "find (HasPrefix s) ps = None \<Longrightarrow> trim_prefixes ps n s = s"
  by (cases n) auto

lemma no_prefix:
  assumes "\<And>p. p \<in> set ps \<Longrightarrow> p \<noteq> [] \<and> hd p \<notin> set s"
  shows "find (HasPrefix s) ps = None"
proof -
  have "\<not> HasPrefix s p" if "p \<in> set ps" for p
  proof
    assume "HasPrefix s p"
    with assms [OF that] have "p \<noteq> []" "hd p \<notin> set s" "take (length p) s = p" by (auto simp: HasPrefix_def)
    then show False by (cases p; cases s) auto
  qed
  then show ?thesis by (auto simp: find_None_iff)
qed

lemma spaces_not_hex: "p \<in> set utf8_spaces \<Longrightarrow> p \<noteq> [] \<and> \<not> hex_lower (hd p) \<and> \<not> hex_lower (last p)"
  by (auto simp: utf8_spaces_def hex_lower_def Let_def)

lemma TrimSpace_hex: "(\<And>c. c \<in> set s \<Longrightarrow> hex_lower c) \<Longrightarrow> TrimSpace s = s"
proof -
  assume s: "\<And>c. c \<in> set s \<Longrightarrow> hex_lower c"
  have "find (HasPrefix s) utf8_spaces = None" by (rule no_prefix) (use s spaces_not_hex in blast)
  moreover have "find (HasPrefix (rev s)) (map rev utf8_spaces) = None"
  proof (rule no_prefix)
    fix p assume "p \<in> set (map rev utf8_spaces)"
    then obtain q where q: "q \<in> set utf8_spaces" "p = rev q" by auto
    from spaces_not_hex [OF q(1)] have "q \<noteq> []" "last q \<notin> set s" using s by blast+
    then show "p \<noteq> [] \<and> hd p \<notin> set (rev s)" by (simp add: q(2) hd_rev)
  qed
  ultimately show ?thesis by (simp add: TrimSpace_def TrimLeft_def trim_prefixes_none)
qed

lemma TrimPrefix_hex: "(\<And>c. c \<in> set s \<Longrightarrow> hex_lower c) \<Longrightarrow> TrimPrefix s ''0x'' = s"
proof -
  assume s: "\<And>c. c \<in> set s \<Longrightarrow> hex_lower c"
  have "\<not> HasPrefix s ''0x''"
  proof
    assume "HasPrefix s ''0x''"
    then have "CHR ''x'' \<in> set s" unfolding HasPrefix_def by (metis in_set_takeD list.set_intros(1,2))
    then show False using s by (fastforce simp: hex_lower_def Let_def)
  qed
  then show ?thesis by (simp add: TrimPrefix_def)
qed

section \<open>Properties\<close>

lemma derive_agree:
  assumes "deriveWalletFromMnemonic C mnemonic coinType account index showMnemonic = Ok info"
  obtains k where "derivePrivKeyAndAddress C (TrimSpace mnemonic) coinType account index = Ok (k, PubKeyAddress C (PubKey C k))"
    "\<exists>m c p. DerivePrivateKeyForPath C m c p = Ok k" "wi_PrivateKeyHex info = HexEncode k"
    "wi_Address info = AccAddressString (cr_Sdk C) (PubKeyAddress C (PubKey C k))"
proof -
  obtain m c where mc: "ComputeMastersFromSeed C (NewSeed C (TrimSpace mnemonic) '''') = (m, c)" by fastforce
  let ?d = "DerivePrivateKeyForPath C m c (HDPath C coinType account index)"
  from assms mc obtain k where "?d = Ok k" by (cases ?d) (auto simp: deriveWalletFromMnemonic_def Let_def split: if_splits)
  with assms mc show ?thesis
    by (intro that [of k]) (auto simp: deriveWalletFromMnemonic_def derivePrivKeyAndAddress_def Let_def split: if_splits)
qed

lemma parse_printed_key:
  assumes "length k = PrivKeySize C"
  shows "parsePrivKeyAndAddress C (HexEncode k) = Ok (k, PubKeyAddress C (PubKey C k))"
    "TrimSpace (HexEncode k) = HexEncode k"
  using assms HexEncode_lower
  by (simp_all add: parsePrivKeyAndAddress_def TrimSpace_hex ToLower_hex TrimPrefix_hex HexDecode_HexEncode)

text \<open>C33. The private key that the wallet command prints is the wallet's: with it the command for private keys does
  exactly what the command for the mnemonic does, and the sender is the address that the wallet command printed.\<close>

theorem wallet_key_sends_as_wallet:
  assumes "deriveWalletFromMnemonic C mnemonic (ucast coinType) (ucast account) (ucast index) showMnemonic = Ok info"
    "\<And>m c p k. DerivePrivateKeyForPath C m c p = Ok k \<Longrightarrow> length k = PrivKeySize C" "0 < PrivKeySize C" "TrimSpace mnemonic \<noteq> ''''"
  shows "runTxSendWithPrivateKey C T N (wi_PrivateKeyHex info) fl w = runTxSend C T N mnemonic coinType account index fl w
    \<and> (\<exists>k addr. parsePrivKeyAndAddress C (wi_PrivateKeyHex info) = Ok (k, addr) \<and> wi_Address info = AccAddressString (cr_Sdk C) addr)"
proof -
  obtain k where k: "derivePrivKeyAndAddress C (TrimSpace mnemonic) (ucast coinType) (ucast account) (ucast index) =
      Ok (k, PubKeyAddress C (PubKey C k))"
    "\<exists>m c p. DerivePrivateKeyForPath C m c p = Ok k" "wi_PrivateKeyHex info = HexEncode k"
    "wi_Address info = AccAddressString (cr_Sdk C) (PubKeyAddress C (PubKey C k))"
    using assms(1) by (rule derive_agree)
  have len: "length k = PrivKeySize C" using k(2) assms(2) by blast
  then have "HexEncode k \<noteq> []" using assms(3) by (cases k) (auto simp: HexEncode_def Let_def)
  then show ?thesis
    using k assms(4) parse_printed_key [OF len]
    by (auto simp: runTxSend_def runTxSendWithPrivateKey_def)
qed

text \<open>Only a broadcast changes the chain.\<close>

definition net_laws :: "'w Net \<Rightarrow> ('w \<Rightarrow> 'c) \<Rightarrow> bool" where
  "net_laws N chain \<longleftrightarrow> (\<forall>conn. preserves chain (GetNodeInfo N conn) \<and> (\<forall>a. preserves chain (AccountInfo N conn a))
     \<and> (\<forall>tx. preserves chain (SimulateTx N conn tx)) \<and> (\<forall>w. chain (CloseConn N conn w) = chain w))
     \<and> (\<forall>s w. chain (Println N s w) = chain w)"

lemma net_preserves:
  assumes "net_laws N chain"
  shows "preserves chain (printJSON N v)" "preserves chain (detectChainID N conn)" "preserves chain (queryBaseAccount N conn a)"
    "(\<And>conn. preserves chain (body conn)) \<Longrightarrow> preserves chain (with_conn N endpoint body)"
proof -
  have laws: "preserves chain (GetNodeInfo N c)" "preserves chain (AccountInfo N c a)" "chain (CloseConn N c w) = chain w"
    "chain (Println N s w) = chain w" for c w s
    using assms by (simp_all add: net_laws_def)
  show "preserves chain (printJSON N v)" unfolding printJSON_def by (intro preserves_bindA preserves_modify preserves_basic laws)
  show "preserves chain (detectChainID N conn)" unfolding detectChainID_def Let_def
    by (auto intro!: preserves_bindA preserves_wrap_must laws split: prod.split)
  show "preserves chain (queryBaseAccount N conn a)" unfolding queryBaseAccount_def
    by (auto intro!: preserves_bindA preserves_wrap_must laws split: option.split)
  show "preserves chain (with_conn N endpoint body)" if "\<And>conn. preserves chain (body conn)"
  proof -
    have "preserves chain (\<lambda>w. let (r, w') = body c w in (r, CloseConn N c w'))" for c
      using that [of c] laws(3) by (auto simp: preserves_def split: prod.split) (metis snd_conv)
    then show ?thesis unfolding with_conn_def by (intro preserves_bindA preserves_basic)
  qed
qed

text \<open>With simulate-only nothing is sent: neither of the two commands changes the chain, whatever the node
  answers and wherever the command stops.\<close>

theorem simulate_only_changes_nothing:
  assumes "net_laws N chain" "sf_simulateOnly fl"
  shows "chain (snd (runTxSend C T N mnemonic coinType account index fl w)) = chain w
    \<and> chain (snd (runTxSendWithPrivateKey C T N key fl w)) = chain w"
proof -
  have sim: "preserves chain (SimulateTx N conn tx)" for conn tx using assms(1) by (simp add: net_laws_def)
  have "preserves chain (send_with_key C T N fl k)" for k
    unfolding send_with_key_def Let_def
    by (auto simp: assms(2) split: prod.split
        intro!: preserves_bindA net_preserves [OF assms(1)] preserves_wrap_must sim)
  then have "preserves chain (runTxSend C T N mnemonic coinType account index fl)"
    "preserves chain (runTxSendWithPrivateKey C T N key fl)"
    unfolding runTxSend_def runTxSendWithPrivateKey_def by (auto intro!: preserves_bindA)
  then show ?thesis by (simp add: preserves_def)
qed

section \<open>Concrete instances\<close>

text \<open>A node that keeps what was broadcast, and a toy cryptography with keys of two bytes.\<close>

definition memCrypto :: Crypto where
  "memCrypto = \<lparr>cr_Sdk = memSdk, IsMnemonicValid = (\<lambda>m. m = ''face''), NewSeed = (\<lambda>m p. m @ p),
     ComputeMastersFromSeed = (\<lambda>s. (s, ''chain'')), HDPath = (\<lambda>_ _ _. ''m/44/118/0/0/0''),
     DerivePrivateKeyForPath = (\<lambda>_ _ _. Ok ''ke''), PubKey = (\<lambda>k. k @ ''.pub''), PubKeyAddress = (\<lambda>_. ''abc''),
     PrivKeySize = 2, SignBytes = (\<lambda>k b. Ok (k @ b)), UnicodeToLower = (\<lambda>s. s),
     cr_NewIntFromString = (\<lambda>s. Some (int (length s))), cr_NewCoin = (\<lambda>d a. Ok \<lparr>coin_denom = d, coin_amount = a\<rparr>),
     Base64Decode = Ok, Base64Encode = (\<lambda>b. b)\<rparr>"

definition memTxLib :: TxLib where
  "memTxLib = \<lparr>NewMsgSend = (\<lambda>f t _. f @ t), NewAnyWithMsg = Ok, NewAnyWithKey = Ok, TxBodyMarshal = (\<lambda>b. Ok (tb_Memo b)),
     AuthInfoMarshal = (\<lambda>_. Ok ''auth''), DirectSignBytes = (\<lambda>b a c _. Ok (b @ a @ c)),
     TxRawMarshal = (\<lambda>r. Ok (tr_BodyBytes r @ tr_AuthInfoBytes r @ concat (tr_Signatures r)))\<rparr>"

definition memNet :: "bytes list Net" where
  "memNet = \<lparr>GrpcNewClient = Ok, CloseConn = (\<lambda>_ w. w), GetTx = (\<lambda>_. ret), GetTxsEvent = (\<lambda>_ _ _ _. ret (0, '''')),
     SimulateTx = (\<lambda>_ _. ret ''gas''), BroadcastTx = (\<lambda>_ tx _. bindA (modify (\<lambda>w. tx # w)) (\<lambda>_. ret ''ok'')),
     GetNodeInfo = (\<lambda>_. ret ('' lumi-1 '', '''', '''')), GetSyncing = (\<lambda>_. ret False), GetLatestBlock = (\<lambda>_. ret ('''', '''')),
     GetBlockByHeight = (\<lambda>_ _. ret ''''), AccountInfo = (\<lambda>_ _. ret (Some \<lparr>ba_AccountNumber = 7, ba_Sequence = 3\<rparr>)),
     GetAccountResp = (\<lambda>_. ret), GetModuleParams = (\<lambda>_. ret ''''), AllBalances = (\<lambda>_. ret), GetBalance = (\<lambda>_ _. ret),
     NewEntropy = (\<lambda>_. ret ''entropy''), NewMnemonic = (\<lambda>_. Ok ''face''), MarshalIndent = (\<lambda>_. Ok ''{}''), Println = (\<lambda>_ w. w)\<rparr>"

definition some_flags :: "bool \<Rightarrow> SendFlags" where
  "some_flags simulateOnly = \<lparr>sf_endpoint = ''localhost:9090'', sf_chainID = '''', sf_toAddress = ''lumi1xyz'', sf_amount = ''1000'',
     sf_denom = ''ulwp'', sf_feeAmount = ''500'', sf_feeDenom = ''ulwp'', sf_gasLimit = 200000, sf_memo = '''', sf_mode = ''sync'',
     sf_simulateOnly = simulateOnly\<rparr>"

theorem wallet_key_sends_as_wallet_witness:
  "\<exists>info. deriveWalletFromMnemonic memCrypto ''face'' (ucast (118 :: u64)) (ucast (0 :: u64)) (ucast (0 :: u64)) False = Ok info
    \<and> wi_PrivateKeyHex info = ''6b65''
    \<and> runTxSendWithPrivateKey memCrypto memTxLib memNet ''6b65'' (some_flags False) [] =
        runTxSend memCrypto memTxLib memNet ''face'' 118 0 0 (some_flags False) []"
proof -
  have trim: "TrimSpace ''face'' = ''face''" by (rule TrimSpace_hex) (auto simp: hex_lower_def)
  obtain info where info: "deriveWalletFromMnemonic memCrypto ''face'' (ucast (118 :: u64)) (ucast (0 :: u64)) (ucast (0 :: u64)) False = Ok info"
    by (simp add: deriveWalletFromMnemonic_def trim memCrypto_def)
  have hex: "wi_PrivateKeyHex info = HexEncode ''ke''"
    using info by (auto simp: deriveWalletFromMnemonic_def trim memCrypto_def)
  have "HexEncode ''ke'' = ''6b65''" by (simp add: HexEncode_def hex_digit_def char_of_eq_iff)
  moreover have "runTxSendWithPrivateKey memCrypto memTxLib memNet (wi_PrivateKeyHex info) (some_flags False) [] =
      runTxSend memCrypto memTxLib memNet ''face'' 118 0 0 (some_flags False) []"
    by (rule wallet_key_sends_as_wallet [OF info, THEN conjunct1]) (simp_all add: memCrypto_def trim)
  ultimately show ?thesis using info hex by metis
qed

theorem simulate_only_changes_nothing_witness:
  "snd (runTxSend memCrypto memTxLib memNet ''face'' 118 0 0 (some_flags True) []) = []"
proof -
  have laws: "net_laws memNet (\<lambda>w. w)" by (simp add: net_laws_def memNet_def)
  from simulate_only_changes_nothing [OF laws, of "some_flags True"] show ?thesis by (simp add: some_flags_def)
qed

end
