(* ===== verification/BlockWatch.thy ===== *)
theory BlockWatch
  imports GoClient
begin

text \<open>
  The watching of blocks in the example client (examples/go-client/chain_watch.go): the polling loop
  \<open>watchLatestBlocks\<close>, the collection of a block with its transactions and validators, the pagination
  \<open>fetchAllBlockTxs\<close> and the printable form of a block.

  The two loops of the code need not end: they are partial functions into \<open>option\<close>, and not returning
  is \<open>None\<close>. The node, the clock and the terminal are the fields of \<open>Node\<close> over the outside world \<open>'w\<close>.
  A pointer that may be nil is an option; the getters of the generated code answer the zero value for nil.

  What is shown: the blocks that are reported have strictly increasing heights; the pagination
  of the transactions of a block, against a node of the SDK, ends after one page, so that a block with more
  transactions than the limit is cut.
\<close>

section \<open>Data\<close>

record TxBodyV =
  bv_MessageTypes :: "string list"
  bv_Memo :: string
  bv_TimeoutHeight :: u64

record FeeV =
  fv_Amount :: "Coin list"
  fv_GasLimit :: u64

text \<open>Of a message, a signer and a public key only the type URL is read.\<close>

record AuthInfoV =
  av_SignerKeys :: "string option list"
  av_Fee :: "FeeV option"

record TxV =
  tv_Body :: "TxBodyV option"
  tv_AuthInfo :: "AuthInfoV option"
  tv_Signatures :: "bytes list"

record BlockID =
  bi_Hash :: bytes
  bi_PartSetTotal :: "32 word"
  bi_PartSetHash :: bytes

record HeaderV =
  hv_ChainID :: string
  hv_Height :: int
  hv_Time :: int
  hv_ProposerAddress :: string
  hv_LastCommitHash :: bytes
  hv_DataHash :: bytes
  hv_ValidatorsHash :: bytes
  hv_NextValidatorsHash :: bytes
  hv_ConsensusHash :: bytes
  hv_AppHash :: bytes
  hv_LastResultsHash :: bytes
  hv_EvidenceHash :: bytes

record BlockV =
  bk_Header :: HeaderV
  bk_LastCommit :: "bytes list option"
  bk_Evidence :: "bytes list"

record ValidatorV =
  vv_Address :: string
  vv_PubKeyType :: "string option"
  vv_VotingPower :: int
  vv_ProposerPriority :: int

record BlockSnapshot =
  bs_Height :: int
  bs_DetectedAt :: int
  bs_BlockID :: "BlockID option"
  bs_Block :: "BlockV option"
  bs_TxCount :: int
  bs_Txs :: "TxV list"
  bs_Validators :: "ValidatorV list"

record PrintableBlockID =
  pb_Hash :: string
  pb_PartSetTotal :: "32 word"
  pb_PartSetHash :: string

record PrintableBlockHeader =
  ph_ChainID :: string
  ph_Height :: int
  ph_Time :: int
  ph_ProposerAddress :: string
  ph_LastCommitHash :: string
  ph_DataHash :: string
  ph_ValidatorsHash :: string
  ph_NextValidators :: string
  ph_ConsensusHash :: string
  ph_AppHash :: string
  ph_LastResultsHash :: string
  ph_EvidenceHash :: string
  ph_EvidenceCount :: int
  ph_LastCommitSigNum :: int

record PrintableTx =
  pt_Index :: int
  pt_Memo :: string
  pt_TimeoutHeight :: u64
  pt_MessageTypes :: "string list"
  pt_SignerPubTypes :: "string list"
  pt_FeeAmount :: "string list"
  pt_GasLimit :: u64
  pt_SignatureCount :: int

record PrintableValidator =
  pv_Address :: string
  pv_PubKeyType :: string
  pv_VotingPower :: int
  pv_ProposerPriority :: int

record PrintableBlockSnapshot =
  ps_Height :: int
  ps_DetectedAt :: int
  ps_BlockID :: PrintableBlockID
  ps_Header :: PrintableBlockHeader
  ps_TxCount :: int
  ps_Txs :: "PrintableTx list"
  ps_Validators :: "PrintableValidator list"

text \<open>\<open>zeroTime\<close> is the zero value of \<open>time.Time\<close>.\<close>

definition zero_block_id :: PrintableBlockID where
  "zero_block_id = \<lparr>pb_Hash = '''', pb_PartSetTotal = 0, pb_PartSetHash = ''''\<rparr>"

definition zero_header :: "int \<Rightarrow> PrintableBlockHeader" where
  "zero_header zeroTime = \<lparr>ph_ChainID = '''', ph_Height = 0, ph_Time = zeroTime, ph_ProposerAddress = '''', ph_LastCommitHash = '''',
     ph_DataHash = '''', ph_ValidatorsHash = '''', ph_NextValidators = '''', ph_ConsensusHash = '''', ph_AppHash = '''',
     ph_LastResultsHash = '''', ph_EvidenceHash = '''', ph_EvidenceCount = 0, ph_LastCommitSigNum = 0\<rparr>"

definition printable_tx :: "Sdk \<Rightarrow> int \<Rightarrow> TxV \<Rightarrow> PrintableTx" where
  "printable_tx S i tx =
     \<lparr>pt_Index = i,
      pt_Memo = (case tv_Body tx of None \<Rightarrow> '''' | Some body \<Rightarrow> bv_Memo body),
      pt_TimeoutHeight = (case tv_Body tx of None \<Rightarrow> 0 | Some body \<Rightarrow> bv_TimeoutHeight body),
      pt_MessageTypes = (case tv_Body tx of None \<Rightarrow> [] | Some body \<Rightarrow> bv_MessageTypes body),
      pt_SignerPubTypes = (case tv_AuthInfo tx of None \<Rightarrow> [] | Some a \<Rightarrow> List.map_filter (\<lambda>k. k) (av_SignerKeys a)),
      pt_FeeAmount = (case tv_AuthInfo tx of None \<Rightarrow> [] | Some a \<Rightarrow>
         (case av_Fee a of None \<Rightarrow> [] | Some fee \<Rightarrow> map (CoinString S) (fv_Amount fee))),
      pt_GasLimit = (case tv_AuthInfo tx of None \<Rightarrow> 0 | Some a \<Rightarrow>
         (case av_Fee a of None \<Rightarrow> 0 | Some fee \<Rightarrow> fv_GasLimit fee)),
      pt_SignatureCount = int (length (tv_Signatures tx))\<rparr>"

fun printable_txs :: "Sdk \<Rightarrow> int \<Rightarrow> TxV list \<Rightarrow> PrintableTx list" where
  "printable_txs S i [] = []"
| "printable_txs S i (tx # txs) = printable_tx S i tx # printable_txs S (i + 1) txs"

definition buildPrintableBlockSnapshot :: "Sdk \<Rightarrow> int \<Rightarrow> BlockSnapshot \<Rightarrow> PrintableBlockSnapshot" where
  "buildPrintableBlockSnapshot S zeroTime snapshot =
     \<lparr>ps_Height = bs_Height snapshot, ps_DetectedAt = bs_DetectedAt snapshot,
      ps_BlockID = (case bs_BlockID snapshot of None \<Rightarrow> zero_block_id
        | Some b \<Rightarrow> \<lparr>pb_Hash = HexEncode (bi_Hash b), pb_PartSetTotal = bi_PartSetTotal b, pb_PartSetHash = HexEncode (bi_PartSetHash b)\<rparr>),
      ps_Header = (case bs_Block snapshot of None \<Rightarrow> zero_header zeroTime
        | Some b \<Rightarrow> let header = bk_Header b in
            \<lparr>ph_ChainID = hv_ChainID header, ph_Height = hv_Height header, ph_Time = hv_Time header,
             ph_ProposerAddress = hv_ProposerAddress header, ph_LastCommitHash = HexEncode (hv_LastCommitHash header),
             ph_DataHash = HexEncode (hv_DataHash header), ph_ValidatorsHash = HexEncode (hv_ValidatorsHash header),
             ph_NextValidators = HexEncode (hv_NextValidatorsHash header), ph_ConsensusHash = HexEncode (hv_ConsensusHash header),
             ph_AppHash = HexEncode (hv_AppHash header), ph_LastResultsHash = HexEncode (hv_LastResultsHash header),
             ph_EvidenceHash = HexEncode (hv_EvidenceHash header), ph_EvidenceCount = int (length (bk_Evidence b)),
             ph_LastCommitSigNum = (case bk_LastCommit b of None \<Rightarrow> 0 | Some sigs \<Rightarrow> int (length sigs))\<rparr>),
      ps_TxCount = bs_TxCount snapshot,
      ps_Txs = printable_txs S 0 (bs_Txs snapshot),
      ps_Validators = map (\<lambda>v. \<lparr>pv_Address = vv_Address v, pv_PubKeyType = (case vv_PubKeyType v of None \<Rightarrow> '''' | Some t \<Rightarrow> t),
        pv_VotingPower = vv_VotingPower v, pv_ProposerPriority = vv_ProposerPriority v\<rparr>) (bs_Validators snapshot)\<rparr>"

section \<open>The node\<close>

text \<open>
  \<open>GetBlockWithTxs\<close> answers the transactions of a page and the page response, if any: the next key and the
  total. \<open>WaitTick\<close> waits for the ticker or the end of the context; it tells which it was.
\<close>

record 'w Node =
  GetBlockWithTxs :: "int \<Rightarrow> bytes \<Rightarrow> u64 \<Rightarrow> ('w, TxV list \<times> (bytes \<times> u64) option) act"
  LatestBlock :: "('w, BlockID option \<times> BlockV option) act"
  GetValidatorSetByHeight :: "int \<Rightarrow> ('w, ValidatorV list) act"
  TimeNowUTC :: "'w \<Rightarrow> int"
  CtxDone :: "'w \<Rightarrow> bool"
  WaitTick :: "'w \<Rightarrow> bool \<times> 'w"

section \<open>Fetching\<close>

partial_function (option) fetch_pages :: "'w Node \<Rightarrow> int \<Rightarrow> u64 \<Rightarrow> TxV list \<Rightarrow> bytes \<Rightarrow> 'w \<Rightarrow> (TxV list res \<times> 'w) option" where
  "fetch_pages N height limit allTxs nextKey w =
     (case GetBlockWithTxs N height nextKey limit w of
        (Err e, w') \<Rightarrow> Some (Err (Wrap e ''failed to query block txs''), w')
      | (Panic p, w') \<Rightarrow> Some (Panic p, w')
      | (Ok (txs, page), w') \<Rightarrow>
          (case page of None \<Rightarrow> Some (Ok (allTxs @ txs), w')
           | Some (key, _) \<Rightarrow> if length key = 0 then Some (Ok (allTxs @ txs), w')
               else fetch_pages N height limit (allTxs @ txs) key w'))"

definition fetchAllBlockTxs :: "'w Node \<Rightarrow> int \<Rightarrow> u64 \<Rightarrow> 'w \<Rightarrow> (TxV list res \<times> 'w) option" where
  "fetchAllBlockTxs N height limit w = fetch_pages N height (if limit = 0 then 100 else limit) [] '''' w"

text \<open>What a block snapshot is completed with after the transactions.\<close>

definition fetch_validators :: "'w Node \<Rightarrow> bool \<Rightarrow> BlockSnapshot \<Rightarrow> ('w, BlockSnapshot) act" where
  "fetch_validators N includeValidators snapshot =
     (if includeValidators then
        bindA (wrap_err (\<lambda>e. Wrap e ''failed to query validator set'') (GetValidatorSetByHeight N (bs_Height snapshot))) (\<lambda>vs.
        ret (snapshot\<lparr>bs_Validators := vs\<rparr>))
      else ret snapshot)"

text \<open>An error of this query is ignored; \<open>int\<close> of the unsigned total wraps.\<close>

definition fetch_count :: "'w Node \<Rightarrow> BlockSnapshot \<Rightarrow> ('w, BlockSnapshot) act" where
  "fetch_count N snapshot w = (case GetBlockWithTxs N (bs_Height snapshot) '''' 1 w of
      (Ok (_, Some (_, num)), w') \<Rightarrow> (Ok (snapshot\<lparr>bs_TxCount := sint num\<rparr>), w')
    | (Panic p, w') \<Rightarrow> (Panic p, w')
    | (_, w') \<Rightarrow> (Ok snapshot, w'))"

definition fetchLatestBlockSnapshot :: "'w Node \<Rightarrow> bool \<Rightarrow> bool \<Rightarrow> u64 \<Rightarrow> 'w \<Rightarrow> (BlockSnapshot res \<times> 'w) option" where
  "fetchLatestBlockSnapshot N includeTxs includeValidators txPageLimit w =
     (case bindA (wrap_err (\<lambda>e. Wrap e ''failed to query latest block'') (LatestBlock N)) (\<lambda>(blockId, sdkBlock).
           case sdkBlock of None \<Rightarrow> throw (Errorf ''sdk block is empty'')
           | Some b \<Rightarrow> bindA (gets (TimeNowUTC N)) (\<lambda>now.
               ret \<lparr>bs_Height = hv_Height (bk_Header b), bs_DetectedAt = now, bs_BlockID = blockId, bs_Block = Some b,
                 bs_TxCount = 0, bs_Txs = [], bs_Validators = []\<rparr>)) w of
        (Err e, w1) \<Rightarrow> Some (Err e, w1)
      | (Panic p, w1) \<Rightarrow> Some (Panic p, w1)
      | (Ok snapshot, w1) \<Rightarrow>
          if includeTxs then
            (case fetchAllBlockTxs N (bs_Height snapshot) txPageLimit w1 of
               None \<Rightarrow> None
             | Some (Err e, w2) \<Rightarrow> Some (Err e, w2)
             | Some (Panic p, w2) \<Rightarrow> Some (Panic p, w2)
             | Some (Ok txs, w2) \<Rightarrow>
                 Some (fetch_validators N includeValidators (snapshot\<lparr>bs_Txs := txs, bs_TxCount := int (length txs)\<rparr>) w2))
          else Some (bindA (fetch_validators N includeValidators snapshot) (fetch_count N) w1))"

section \<open>Watching\<close>

partial_function (option) watch_loop :: "'w Node \<Rightarrow> bool \<Rightarrow> ('w \<Rightarrow> (BlockSnapshot option res \<times> 'w) option) \<Rightarrow>
    (BlockSnapshot \<Rightarrow> ('w, unit) act) \<Rightarrow> int \<Rightarrow> 'w \<Rightarrow> (unit res \<times> 'w) option" where
  "watch_loop N once fetch onNewBlock lastHeight w =
     (if CtxDone N w then Some (Ok (), w) else
      Option.bind (fetch w) (\<lambda>(r, w1). case r of
        Err e \<Rightarrow> Some (Err e, w1)
      | Panic p \<Rightarrow> Some (Panic p, w1)
      | Ok s \<Rightarrow>
          (case s of
             Some snapshot \<Rightarrow>
               if lastHeight < bs_Height snapshot then
                 (case onNewBlock snapshot w1 of
                    (Err e, w2) \<Rightarrow> Some (Err e, w2)
                  | (Panic p, w2) \<Rightarrow> Some (Panic p, w2)
                  | (Ok _, w2) \<Rightarrow> if once then Some (Ok (), w2)
                      else (case WaitTick N w2 of (stop, w3) \<Rightarrow> if stop then Some (Ok (), w3)
                        else watch_loop N once fetch onNewBlock (bs_Height snapshot) w3))
               else (case WaitTick N w1 of (stop, w3) \<Rightarrow> if stop then Some (Ok (), w3)
                        else watch_loop N once fetch onNewBlock lastHeight w3)
           | None \<Rightarrow> (case WaitTick N w1 of (stop, w3) \<Rightarrow> if stop then Some (Ok (), w3)
                        else watch_loop N once fetch onNewBlock lastHeight w3))))"

definition watchLatestBlocks :: "'w Node \<Rightarrow> int \<Rightarrow> bool \<Rightarrow> ('w \<Rightarrow> (BlockSnapshot option res \<times> 'w) option) \<Rightarrow>
    (BlockSnapshot \<Rightarrow> ('w, unit) act) \<Rightarrow> 'w \<Rightarrow> (unit res \<times> 'w) option" where
  "watchLatestBlocks N interval once fetch onNewBlock w =
     (if interval \<le> 0 then Some (Err (Errorf ''interval must be > 0''), w)
      else watch_loop N once fetch onNewBlock (-1) w)"

record WatchFlags =
  wf_endpoint :: string
  wf_interval :: int
  wf_includeTxs :: bool
  wf_includeValidators :: bool
  wf_txPageLimit :: u64
  wf_once :: bool

text \<open>\<open>json_of\<close> is the value that encoding/json sees in the printable snapshot; \<open>services\<close> are those of a connection.\<close>

definition report_block :: "Sdk \<Rightarrow> int \<Rightarrow> 'w Net \<Rightarrow> (PrintableBlockSnapshot \<Rightarrow> OutVal) \<Rightarrow> BlockSnapshot \<Rightarrow> ('w, unit) act" where
  "report_block S zeroTime net json_of snapshot =
     bindA (modify (Println net (''new block detected: height='' @ itoa (bs_Height snapshot) @ '' tx_count='' @ itoa (bs_TxCount snapshot)))) (\<lambda>_.
     printJSON net (json_of (buildPrintableBlockSnapshot S zeroTime snapshot)))"

definition runChainWatch :: "Sdk \<Rightarrow> int \<Rightarrow> 'w Net \<Rightarrow> (PrintableBlockSnapshot \<Rightarrow> OutVal) \<Rightarrow> (ref \<Rightarrow> 'w Node) \<Rightarrow> WatchFlags \<Rightarrow> 'w \<Rightarrow>
    (unit res \<times> 'w) option" where
  "runChainWatch S zeroTime net json_of services fl w =
     (case newGRPCConn net (wf_endpoint fl) of
        Err e \<Rightarrow> Some (Err e, w)
      | Panic p \<Rightarrow> Some (Panic p, w)
      | Ok conn \<Rightarrow>
          map_option (\<lambda>(r, w'). (r, CloseConn net conn w'))
            (watchLatestBlocks (services conn) (wf_interval fl) (wf_once fl)
              (\<lambda>w. map_option (\<lambda>(r, w'). (bindR r (\<lambda>s. Ok (Some s)), w'))
                (fetchLatestBlockSnapshot (services conn) (wf_includeTxs fl) (wf_includeValidators fl) (wf_txPageLimit fl) w))
              (report_block S zeroTime net json_of) w))"

section \<open>Properties\<close>

text \<open>
  \<open>GetBlockWithTxs\<close> of the Cosmos SDK pages by the offset of the request, not by its key, and its page response has the
  total only, never a next key. The client sends no offset, so that it is always answered the first \<open>limit\<close>
  transactions of the block; \<open>all height\<close> are those of a block.
\<close>

definition pages_by_offset :: "'w Node \<Rightarrow> (int \<Rightarrow> TxV list) \<Rightarrow> bool" where
  "pages_by_offset N all \<longleftrightarrow> (\<forall>height key limit w. \<exists>w'. GetBlockWithTxs N height key limit w =
     (Ok (take (unat limit) (all height), Some ('''', of_nat (length (all height)))), w'))"

lemma fetchAllBlockTxs_page:
  assumes "pages_by_offset N all"
  shows "\<exists>w'. fetchAllBlockTxs N height limit w =
    Some (Ok (take (unat (if limit = 0 then 100 else limit)) (all height)), w')"
proof -
  let ?l = "if limit = 0 then 100 else limit"
  obtain w' where "GetBlockWithTxs N height '''' ?l w =
      (Ok (take (unat ?l) (all height), Some ('''', of_nat (length (all height)))), w')"
    using assms unfolding pages_by_offset_def by blast
  then show ?thesis by (simp add: fetchAllBlockTxs_def fetch_pages.simps)
qed

lemma fetch_count_total:
  assumes "pages_by_offset N all" "length (all (bs_Height s)) < 2 ^ 63" "fetch_count N s w = (Ok s', w')"
  shows "bs_Height s' = bs_Height s \<and> bs_TxCount s' = int (length (all (bs_Height s)))"
proof -
  obtain w1 where "GetBlockWithTxs N (bs_Height s) '''' 1 w =
      (Ok (take (unat (1 :: u64)) (all (bs_Height s)), Some ('''', of_nat (length (all (bs_Height s))))), w1)"
    using assms(1) unfolding pages_by_offset_def by blast
  moreover have "sint (of_nat (length (all (bs_Height s))) :: u64) = int (length (all (bs_Height s)))"
    using assms(2) signed_take_bit_int_eq_self [of 63 "int (length (all (bs_Height s)))"] by (simp add: signed_of_nat)
  ultimately show ?thesis using assms(3) by (auto simp: fetch_count_def)
qed

text \<open>C34. The client does not fetch all transactions of a block from a node of the Cosmos SDK. The pagination ends, after one
  page: what it returns are the first \<open>limit\<close> transactions (100 for a limit of zero), so that it is all of them
  exactly when there are not more. The number of transactions that a snapshot shows is therefore cut at the limit when the
  transactions are included, while it is the true number when they are not.\<close>

theorem fetch_all_txs_first_page:
  assumes "pages_by_offset N all"
  shows "let n = unat (if limit = 0 then 100 else limit) in
      (\<exists>txs w'. fetchAllBlockTxs N height limit w = Some (Ok txs, w') \<and> txs = take n (all height)
        \<and> (txs = all height \<longleftrightarrow> length (all height) \<le> n))
    \<and> (\<forall>s w'. fetchLatestBlockSnapshot N True False limit w = Some (Ok s, w') \<longrightarrow>
         bs_Txs s = take n (all (bs_Height s)) \<and> bs_TxCount s = int (min n (length (all (bs_Height s)))))
    \<and> (\<forall>s w'. fetchLatestBlockSnapshot N False False limit w = Some (Ok s, w')
         \<and> length (all (bs_Height s)) < 2 ^ 63 \<longrightarrow> bs_TxCount s = int (length (all (bs_Height s))))"
proof -
  let ?n = "unat (if limit = 0 then 100 else limit)"
  have eq: "take n xs = xs \<longleftrightarrow> length xs \<le> n" for n and xs :: "TxV list" by (rule take_all_iff)
  have incl: "bs_Txs s = take ?n (all (bs_Height s)) \<and> bs_TxCount s = int (min ?n (length (all (bs_Height s))))"
    if run: "fetchLatestBlockSnapshot N True False limit w = Some (Ok s, w')" for s w'
  proof -
    from run obtain s0 w1 txs w2 where
      f: "fetchAllBlockTxs N (bs_Height s0) limit w1 = Some (Ok txs, w2)"
      and s: "s = s0\<lparr>bs_Txs := txs, bs_TxCount := int (length txs)\<rparr>"
      by (auto simp: fetchLatestBlockSnapshot_def fetch_validators_def split: prod.splits res.splits option.splits)
    have "txs = take ?n (all (bs_Height s0))"
      using fetchAllBlockTxs_page [OF assms, of "bs_Height s0" limit w1] f by auto
    then show ?thesis by (simp add: s min.commute)
  qed
  have excl: "bs_TxCount s = int (length (all (bs_Height s)))"
    if run: "fetchLatestBlockSnapshot N False False limit w = Some (Ok s, w')"
      and small: "length (all (bs_Height s)) < 2 ^ 63" for s w'
  proof -
    from run obtain s0 w1 where c: "fetch_count N s0 w1 = (Ok s, w')"
      by (auto simp: fetchLatestBlockSnapshot_def fetch_validators_def bindA_run split: prod.splits res.splits)
    have h: "bs_Height s = bs_Height s0" using c by (auto simp: fetch_count_def split: prod.splits res.splits option.splits)
    then show ?thesis using fetch_count_total [OF assms _ c] small by simp
  qed
  show ?thesis
    using fetchAllBlockTxs_page [OF assms, of height limit w] incl excl by (auto simp: Let_def eq)
qed

text \<open>
  \<open>seen\<close> are the heights of the blocks that were reported: fetching and waiting report nothing, a report
  that fails may or may not have been made.
\<close>

definition reports :: "'w Node \<Rightarrow> ('w \<Rightarrow> (BlockSnapshot option res \<times> 'w) option) \<Rightarrow> (BlockSnapshot \<Rightarrow> ('w, unit) act) \<Rightarrow>
    ('w \<Rightarrow> int list) \<Rightarrow> bool" where
  "reports N fetch onNewBlock seen \<longleftrightarrow>
     (\<forall>w r w'. fetch w = Some (r, w') \<longrightarrow> seen w' = seen w) \<and> (\<forall>w b w'. WaitTick N w = (b, w') \<longrightarrow> seen w' = seen w)
     \<and> (\<forall>s w u w'. onNewBlock s w = (Ok u, w') \<longrightarrow> seen w' = seen w @ [bs_Height s])
     \<and> (\<forall>s w r w'. onNewBlock s w = (r, w') \<longrightarrow> seen w' = seen w \<or> seen w' = seen w @ [bs_Height s])"

definition extends :: "int \<Rightarrow> int list \<Rightarrow> int list \<Rightarrow> bool" where
  "extends h old new \<longleftrightarrow> (\<exists>hs. new = old @ hs \<and> sorted_wrt (<) (h # hs))"

lemma extends_refl: "extends h xs xs"
  by (simp add: extends_def)

lemma extends_step: "h < h' \<Longrightarrow> extends h' (xs @ [h']) ys \<Longrightarrow> extends h xs ys"
  unfolding extends_def by fastforce

lemma extends_snoc: "h < h' \<Longrightarrow> extends h xs (xs @ [h'])"
  by (simp add: extends_def)

lemma reportsD:
  assumes "reports N fetch onNewBlock seen"
  shows "fetch w = Some (r, w') \<Longrightarrow> seen w' = seen w" "WaitTick N w = (b, w') \<Longrightarrow> seen w' = seen w"
    "onNewBlock s w = (Ok u, w') \<Longrightarrow> seen w' = seen w @ [bs_Height s]"
    "onNewBlock s w = (q, w') \<Longrightarrow> seen w' = seen w \<or> seen w' = seen w @ [bs_Height s]"
proof -
  note laws = assms [unfolded reports_def]
  show "fetch w = Some (r, w') \<Longrightarrow> seen w' = seen w"
    by (rule laws [THEN conjunct1, rule_format])
  show "WaitTick N w = (b, w') \<Longrightarrow> seen w' = seen w"
    by (rule laws [THEN conjunct2, THEN conjunct1, rule_format])
  show "onNewBlock s w = (Ok u, w') \<Longrightarrow> seen w' = seen w @ [bs_Height s]"
    by (rule laws [THEN conjunct2, THEN conjunct2, THEN conjunct1, rule_format])
  show "onNewBlock s w = (q, w') \<Longrightarrow> seen w' = seen w \<or> seen w' = seen w @ [bs_Height s]"
    by (rule laws [THEN conjunct2, THEN conjunct2, THEN conjunct2, rule_format])
qed

lemma watch_loop_extends:
  assumes "reports N fetch onNewBlock seen" "watch_loop N once fetch onNewBlock lastHeight w = Some res"
  shows "extends lastHeight (seen w) (seen (snd res))"
proof (rule watch_loop.raw_induct [where P = "\<lambda>N once fetch onNewBlock lastHeight w res.
    reports N fetch onNewBlock seen \<longrightarrow> extends lastHeight (seen w) (seen (snd res))", OF _ assms(2), rule_format, OF _ assms(1)])
  fix loop :: "'a Node \<Rightarrow> bool \<Rightarrow> ('a \<Rightarrow> (BlockSnapshot option res \<times> 'a) option) \<Rightarrow> (BlockSnapshot \<Rightarrow> ('a, unit) act) \<Rightarrow>
      int \<Rightarrow> 'a \<Rightarrow> (unit res \<times> 'a) option"
    and N :: "'a Node" and once fetch onNewBlock lastHeight w res
  assume IH: "\<And>N once fetch onNewBlock lastHeight w res. loop N once fetch onNewBlock lastHeight w = Some res \<Longrightarrow>
      reports N fetch onNewBlock seen \<Longrightarrow> extends lastHeight (seen w) (seen (snd res))"
    and eq: "(if CtxDone N w then Some (Ok (), w) else
      Option.bind (fetch w) (\<lambda>(r, w1). case r of
        Err e \<Rightarrow> Some (Err e, w1)
      | Panic p \<Rightarrow> Some (Panic p, w1)
      | Ok s \<Rightarrow>
          (case s of
             Some snapshot \<Rightarrow>
               if lastHeight < bs_Height snapshot then
                 (case onNewBlock snapshot w1 of
                    (Err e, w2) \<Rightarrow> Some (Err e, w2)
                  | (Panic p, w2) \<Rightarrow> Some (Panic p, w2)
                  | (Ok _, w2) \<Rightarrow> if once then Some (Ok (), w2)
                      else (case WaitTick N w2 of (stop, w3) \<Rightarrow> if stop then Some (Ok (), w3)
                        else loop N once fetch onNewBlock (bs_Height snapshot) w3))
               else (case WaitTick N w1 of (stop, w3) \<Rightarrow> if stop then Some (Ok (), w3)
                        else loop N once fetch onNewBlock lastHeight w3)
           | None \<Rightarrow> (case WaitTick N w1 of (stop, w3) \<Rightarrow> if stop then Some (Ok (), w3)
                        else loop N once fetch onNewBlock lastHeight w3)))) = Some res"
    and rep: "reports N fetch onNewBlock seen"
  note laws = reportsD [OF rep]
  have tail: "extends h (seen wx) (seen (snd res))"
    if "(case WaitTick N wx of (stop, w3) \<Rightarrow> if stop then Some (Ok (), w3) else loop N once fetch onNewBlock h w3) = Some res" for h wx
  proof -
    obtain stop w3 where tick: "WaitTick N wx = (stop, w3)" by fastforce
    with that laws(2) [OF tick] show ?thesis
      using IH [of N once fetch onNewBlock h w3 res] rep by (cases stop) (auto simp: extends_refl)
  qed
  show "extends lastHeight (seen w) (seen (snd res))"
  proof (cases "CtxDone N w")
    case True
    with eq show ?thesis by (auto simp: extends_refl)
  next
    case False
    with eq obtain r w1 where f: "fetch w = Some (r, w1)" by (cases "fetch w") auto
    note s1 = laws(1) [OF f]
    show ?thesis
    proof (cases "\<exists>s. r = Ok (Some s) \<and> lastHeight < bs_Height s")
      case True
      then obtain s where s: "r = Ok (Some s)" "lastHeight < bs_Height s" by blast
      obtain q w2 where cb: "onNewBlock s w1 = (q, w2)" by fastforce
      have snoc: "extends lastHeight (seen w) (seen w2)"
        using laws(4) [OF cb] s1 s(2) by (auto simp: extends_refl extends_snoc)
      show ?thesis
      proof (cases q)
        case (Ok u)
        note s2 = laws(3) [OF cb [unfolded Ok]]
        show ?thesis
        proof (cases once)
          case True
          with eq False f s cb Ok snoc show ?thesis by auto
        next
          case not_once: False
          with eq False f s cb Ok have "extends (bs_Height s) (seen w2) (seen (snd res))"
            by (intro tail) simp
          then show ?thesis using s2 s1 s(2) by (intro extends_step [of lastHeight "bs_Height s"]) simp_all
        qed
      qed (use eq False f s cb snoc in auto)
    next
      case no: False
      show ?thesis
      proof (cases "\<exists>s. r = Ok s")
        case True
        with eq False f no have "extends lastHeight (seen w1) (seen (snd res))"
          by (intro tail) (auto split: option.splits if_splits)
        then show ?thesis by (simp add: s1)
      next
        case False
        then show ?thesis using eq \<open>\<not> CtxDone N w\<close> f s1 by (cases r) (auto simp: extends_refl)
      qed
    qed
  qed
qed

text \<open>C35. However long the node is watched, the blocks that are reported have strictly increasing heights, none of
  them negative: no block is reported twice, and none that is older than one that was reported.\<close>

theorem watched_heights_increase:
  assumes "reports N fetch onNewBlock seen" "watchLatestBlocks N interval once fetch onNewBlock w = Some (r, w')"
  shows "\<exists>hs. seen w' = seen w @ hs \<and> sorted_wrt (<) hs \<and> (\<forall>h \<in> set hs. 0 \<le> h)"
proof (cases "interval \<le> 0")
  case True
  with assms(2) show ?thesis by (simp add: watchLatestBlocks_def)
next
  case False
  with assms(2) have "watch_loop N once fetch onNewBlock (-1) w = Some (r, w')" by (simp add: watchLatestBlocks_def)
  from watch_loop_extends [OF assms(1) this] show ?thesis by (fastforce simp: extends_def)
qed

section \<open>Concrete instances\<close>

text \<open>A node with three transactions in every block; the world is the heights to come and those reported.\<close>

definition some_tx :: "string \<Rightarrow> TxV" where
  "some_tx memo = \<lparr>tv_Body = Some \<lparr>bv_MessageTypes = [''/cosmos.bank.v1beta1.MsgSend''], bv_Memo = memo, bv_TimeoutHeight = 0\<rparr>,
     tv_AuthInfo = None, tv_Signatures = []\<rparr>"

definition memNode :: "(int list \<times> int list) Node" where
  "memNode = \<lparr>GetBlockWithTxs = (\<lambda>_ key limit. let all = [some_tx ''a'', some_tx ''b'', some_tx ''c''] in
        ret (take (unat limit) all, Some ('''', 3))),
     LatestBlock = ret (None, None), GetValidatorSetByHeight = (\<lambda>_. ret []), TimeNowUTC = (\<lambda>_. 0),
     CtxDone = (\<lambda>w. fst w = []), WaitTick = (\<lambda>w. (False, w))\<rparr>"

definition memFetch :: "int list \<times> int list \<Rightarrow> (BlockSnapshot option res \<times> int list \<times> int list) option" where
  "memFetch w = Some (Ok (Some \<lparr>bs_Height = hd (fst w), bs_DetectedAt = 0, bs_BlockID = None, bs_Block = None, bs_TxCount = 0,
     bs_Txs = [], bs_Validators = []\<rparr>), (tl (fst w), snd w))"

definition memReport :: "BlockSnapshot \<Rightarrow> (int list \<times> int list, unit) act" where
  "memReport s = modify (\<lambda>w. (fst w, snd w @ [bs_Height s]))"

theorem fetch_all_txs_first_page_witness:
  "\<exists>w'. fetchAllBlockTxs memNode 9 2 ([], []) = Some (Ok [some_tx ''a'', some_tx ''b''], w')"
proof -
  have "pages_by_offset memNode (\<lambda>_. [some_tx ''a'', some_tx ''b'', some_tx ''c''])"
    by (auto simp: pages_by_offset_def memNode_def Let_def)
  from fetch_all_txs_first_page [OF this, of 2 9 "([], [])"] show ?thesis by (auto simp: Let_def)
qed

theorem watched_heights_increase_witness:
  "\<exists>r w'. watchLatestBlocks memNode 2 False memFetch memReport ([5, 5, 6, 4, 7], []) = Some (r, w') \<and> snd w' = [5, 6, 7]
    \<and> sorted_wrt (<) (snd w')"
proof -
  have laws: "reports memNode memFetch memReport snd"
    by (auto simp: reports_def memNode_def memFetch_def memReport_def)
  have run: "watchLatestBlocks memNode 2 False memFetch memReport ([5, 5, 6, 4, 7], []) = Some (Ok (), ([], [5, 6, 7]))"
    by (simp add: watchLatestBlocks_def watch_loop.simps memNode_def memFetch_def memReport_def)
  from watched_heights_increase [OF laws run] run show ?thesis by auto
qed

end
