(* ===== verification/AppApi.thy ===== *)
theory AppApi
  imports AppModules
begin

text \<open>
  What is left of app/app.go, and docs/docs.go: the directory of the node, the configuration that is
  handed to the injector, the accessors of the app, and the HTTP routes of its API with the OpenAPI
  console. The server, its router and the template of the console are parameters. What is shown: the
  console reads the specification from a path that is served.
\<close>

section \<open>The directory of the node\<close>

text \<open>The two global variables that \<open>init\<close> sets: \<open>clienthelpers.EnvPrefix\<close> and \<open>DefaultNodeHome\<close>.\<close>

record AppGlobals =
  EnvPrefix :: string
  DefaultNodeHome :: string

definition app_init :: "(string \<Rightarrow> string \<Rightarrow> string res) \<Rightarrow> (AppGlobals, unit) act" where
  "app_init GetNodeHomeDirectory =
     bindA (modify (\<lambda>g. g\<lparr>EnvPrefix := Name\<rparr>)) (\<lambda>_ g.
       case GetNodeHomeDirectory (EnvPrefix g) (''.'' @ Name) of
         Ok dir \<Rightarrow> (Ok (), g\<lparr>DefaultNodeHome := dir\<rparr>)
       | Err e \<Rightarrow> (Panic (ErrorText e), g)
       | Panic p \<Rightarrow> (Panic p, g))"

section \<open>The configuration for the injector\<close>

text \<open>A configuration of depinject: the modules of \<open>appConfig\<close> and what is supplied beside them.\<close>

datatype 'b DepConfig = ModulesOf "(ConfName \<times> ModConfig) list" | SupplyBasics "(ModName \<times> 'b) list"

definition AppConfig :: "('v \<Rightarrow> 'b) \<Rightarrow> 'v \<Rightarrow> 'b DepConfig list" where
  "AppConfig NewAppModuleBasic DefaultMessageValidator =
     [ModulesOf appConfig, SupplyBasics [(M_genutil, NewAppModuleBasic DefaultMessageValidator)]]"

section \<open>Accessors\<close>

definition LegacyAmino :: "('w, 'r) App \<Rightarrow> ref" where "LegacyAmino app = a_legacyAmino app"
definition AppCodec :: "('w, 'r) App \<Rightarrow> ref" where "AppCodec app = a_appCodec app"
definition InterfaceRegistryOf :: "('w, 'r) App \<Rightarrow> ref" where "InterfaceRegistryOf app = a_interfaceRegistry app"
definition TxConfig :: "('w, 'r) App \<Rightarrow> ref" where "TxConfig app = a_txConfig app"
definition SimulationManager :: "('w, 'r) App \<Rightarrow> ref" where "SimulationManager app = a_sm app"

section \<open>The OpenAPI console\<close>

definition apiFile :: string where "apiFile = ''/static/openapi.json''"
definition indexFile :: string where "indexFile = ''template/index.tpl''"

record ConsoleData =
  Title :: string
  URL :: string

text \<open>\<open>'o\<close> is the state that a handler writes its answer to. The static files are served by the library.\<close>

datatype 'o HttpHandler = ServeStatic | HandlerFunc "('o, unit) act"

text \<open>
  \<open>parse\<close> gives the \<open>Execute\<close> of a template. Its error is dropped: then the template is nil, and the
  request panics. An error of \<open>Execute\<close> is dropped too.
\<close>

definition docs_handler :: "(string \<Rightarrow> (ConsoleData \<Rightarrow> ('o, unit) act) res) \<Rightarrow> string \<Rightarrow> ('o, unit) act" where
  "docs_handler parse title =
     (case parse indexFile of
        Ok execute \<Rightarrow> ignore (execute \<lparr>Title = title, URL = apiFile\<rparr>)
      | _ \<Rightarrow> panic ''runtime error: invalid memory address or nil pointer dereference'')"

definition RegisterOpenAPIService :: "(string \<Rightarrow> (ConsoleData \<Rightarrow> ('o, unit) act) res) \<Rightarrow> string \<Rightarrow>
    (string \<times> 'o HttpHandler) list \<Rightarrow> (string \<times> 'o HttpHandler) list" where
  "RegisterOpenAPIService parse appName rtr =
     rtr @ [(apiFile, ServeStatic), (''/'', HandlerFunc (docs_handler parse appName))]"

text \<open>
  \<open>runtimeRoutes\<close> is \<open>app.App.RegisterAPIRoutes\<close>, \<open>swagger\<close> is \<open>server.RegisterSwaggerAPI\<close>; both add
  routes to the router of the server.
\<close>

definition RegisterAPIRoutes :: "((string \<times> 'o HttpHandler) list, unit) act \<Rightarrow>
    (bool \<Rightarrow> ((string \<times> 'o HttpHandler) list, unit) act) \<Rightarrow>
    (string \<Rightarrow> (ConsoleData \<Rightarrow> ('o, unit) act) res) \<Rightarrow> bool \<Rightarrow> ((string \<times> 'o HttpHandler) list, unit) act" where
  "RegisterAPIRoutes runtimeRoutes swagger parse apiSwagger =
     bindA runtimeRoutes (\<lambda>_.
     bindA (must '''' (swagger apiSwagger)) (\<lambda>_.
     modify (RegisterOpenAPIService parse Name)))"

text \<open>When the routes are registered, the console is served, with the name of the app as its title, and
  the specification that it is told to read is a static file that is served too.\<close>

lemma console_links_specification:
  assumes "RegisterAPIRoutes runtimeRoutes swagger parse apiSwagger rtr = (Ok (), rtr')" "parse indexFile = Ok execute"
  shows "(''/'', HandlerFunc (ignore (execute \<lparr>Title = Name, URL = apiFile\<rparr>))) \<in> set rtr'
    \<and> (apiFile, ServeStatic) \<in> set rtr'"
  using assms by (auto simp: RegisterAPIRoutes_def bindA_Ok_iff RegisterOpenAPIService_def docs_handler_def)

text \<open>A failure of \<open>swagger\<close> stops the node.\<close>

lemma swagger_error_panics:
  assumes "runtimeRoutes rtr = (Ok (), rtr1)" "swagger apiSwagger rtr1 = (Err e, rtr2)"
  shows "RegisterAPIRoutes runtimeRoutes swagger parse apiSwagger rtr = (Panic (ErrorText e), rtr2)"
  using assms by (simp add: RegisterAPIRoutes_def bindA_run must_def)

lemma app_init_sets:
  assumes "app_init dir g = (Ok (), g')"
  shows "EnvPrefix g' = ''lumiwave-protocol'' \<and> dir ''lumiwave-protocol'' ''.lumiwave-protocol'' = Ok (DefaultNodeHome g')"
  using assms by (auto simp: app_init_def Name_def split: res.splits)

end
