(* ===== verification/Spec2Isabelle.thy ===== *)
theory Spec2Isabelle
  imports TokenQuery Ledger MsgRpc QueryRpc LumiService Daemon TestnetCmd BlockWatch AppApi
begin

text \<open>
  LumiWave protocol: a Cosmos SDK chain with a token factory and a controller of the yearly inflation.

  The program and its parts

  The chain is an app of the Cosmos SDK (app/). Its own modules are x/tokenfactory, where any account
  creates denominations \<open>factory/{creator}/{subdenom}\<close> and their admin mints, burns, moves and hooks
  them, and x/lumiwaveprotocol, which sets the maximum of the inflation of x/mint at the start of every
  block. A transaction reaches the message server of the token factory (keeper/msg_server.go), which asks
  the keeper's store for the admin of the denomination and then calls the keeper (createdenom.go,
  bankactions.go, before_send.go), which calls the bank, the accounts, the community pool and the wasm
  contracts. A query reaches the keeper over gRPC or, as HTTP, through the generated gateway. The daemon
  (cmd/lumiwave-protocold) builds the app, exports its state and makes local testnets; examples/go-client is a
  client that makes wallets, sends transactions and watches blocks.

  How Go is modelled (\<open>Prelude\<close>, \<open>GoLib\<close>)

  A function with an error result is a function into \<open>res\<close>, with \<open>Ok\<close>, \<open>Err\<close> for a returned error and
  \<open>Panic\<close> for a run-time panic. A method on a state \<open>'w\<close> is a function \<open>'w \<Rightarrow> 'a res \<times> 'w\<close>, whose
  state next to an error is the one reached by then: Go undoes nothing. Structs are records, interfaces are records
  of functions, strings and byte slices are lists of characters, uint64 is \<open>64 word\<close>, an int64 in
  arithmetic is \<open>int\<close> with \<open>wrap64\<close> written at every operation that may overflow. A Go map that is
  iterated is an association list or a list of keys in an arbitrary order, so that what is proved holds for every order. An object
  that the code only hands on is a \<open>ref\<close>. \<open>preserves\<close>, \<open>when_ok\<close> and \<open>unless_ok\<close> are the frame rules:
  what an operation leaves as it was on all exits, on the successful and on the failing ones.

  The code of other packages is not modelled. It is a parameter: records of functions (\<open>Sdk\<close> and the
  interfaces of x/tokenfactory/types/expected_keepers.go in the theory \<open>Sdk\<close>, \<open>MintKeeper\<close> and \<open>DecLib\<close> in
  \<open>Inflation\<close>, \<open>Runtime\<close> of grpc-gateway in \<open>Gateway\<close>, \<open>UpgradeKeeper\<close> in \<open>Upgrades\<close>, \<open>Libs\<close> in \<open>AppWiring\<close>,
  \<open>Tools\<close> in \<open>TestnetNodes\<close>, \<open>Crypto\<close>, \<open>TxLib\<close> and \<open>Net\<close> in \<open>GoClient\<close>, \<open>Client\<close> in \<open>TokenCli\<close>, \<open>CmdLib\<close> and
  \<open>RootLib\<close> in \<open>Daemon\<close>, \<open>ClientConn\<close> in \<open>Rpc\<close>, \<open>SdkFlags\<close> and \<open>FlagReader\<close> in \<open>TestnetCmd\<close>). What a theorem relies on is a named predicate over such a record: \<open>sdk_laws\<close>
  (which characters denominations and addresses have, that an address read back is the same), \<open>kv_laws\<close> (the store is
  a map, its iterators are sorted and exact), \<open>bank_store_laws\<close>, \<open>other_store_laws\<close> (a keeper writes its
  own store only), \<open>bank_metadata_laws\<close>, \<open>supply_laws\<close>, \<open>param_laws\<close>, \<open>module_account_laws\<close>, \<open>json_laws\<close>,
  \<open>item_laws\<close>, \<open>codec_laws\<close>, \<open>dec_laws\<close>, \<open>mint_laws\<close>, \<open>upgrade_laws\<close>, \<open>subspace_laws\<close>, the two \<open>runtime_laws\<close>, \<open>staking_laws\<close>,
  \<open>distr_laws\<close>, \<open>staking_store_laws\<close>, \<open>cast_laws\<close>, \<open>genesis_tool_laws\<close>, \<open>node_files\<close>, \<open>zero_keeper_panics\<close>,
  \<open>net_laws\<close>, \<open>pages_by_offset\<close>, \<open>reports\<close>, \<open>submission_laws\<close>, \<open>client_no_panic\<close>, \<open>load_laws\<close>, \<open>amino_laws\<close>,
  \<open>codec_total\<close>, \<open>resolves\<close>, \<open>serves\<close>, \<open>reads_defaults\<close>. \<open>env_ok\<close>
  bundles those of the keeper of the token factory. \<open>MemChain\<close> and \<open>MemKeeper\<close> are a chain in memory that
  satisfies them, and \<open>MemTestnet\<close>, \<open>memMint\<close>, \<open>memExport\<close>, \<open>memLibs\<close>, \<open>memCrypto\<close>, \<open>memClient\<close> and others
  are worlds for the other interfaces; the theorems are applied to them, at concrete inputs, in the theorems
  whose names end in \<open>_witness\<close>.

  x/tokenfactory

  \<open>Denoms\<close>: types/denoms.go and keys.go, the names of denominations and the keys of the store; names are
  injective, bounded and taken apart again, keys never meet. \<open>TokenTypes\<close>, \<open>Msgs\<close>: the messages and their
  \<open>ValidateBasic\<close>. \<open>Keeper\<close>: keeper.go, params.go, admins.go, creators.go; the locale \<open>denom_cell\<close> is the
  contract of a value kept per denomination. \<open>CreateDenom\<close>, \<open>BankActions\<close>, \<open>BeforeSend\<close>: the files of these names; effect and
  failure of a creation, what is checked before the bank is called, the listener that never panics, what it
  does when the gas runs out, and the coins it does not get to. \<open>MsgServer\<close>: msg_server.go and types/events.go; the locale \<open>admin_gated\<close> is
  the contract of the six handlers that act for an admin.

  \<open>Registry\<close> is the abstract specification: the admins, the hooks and the creator index as maps, with
  the relation \<open>reg_step\<close> of what an account may change. The message server refines it, step by step and
  for every sequence of messages (\<open>deliver_refines_registry\<close>, \<open>reachable_registry_invariant\<close>); only the
  admin changes an admin, a hook or a supply. \<open>Ledger\<close> is about runs of messages: the supply is accounted
  for by the mint and burn messages that went through, and nothing happens to a denomination while its
  admin sends nothing. \<open>TokenGenesis\<close> is types/genesis.go and keeper/genesis.go
  with the genesis functions of module.go, \<open>GenesisRegistry\<close> the export of a running module and its
  import: admins survive, hooks are lost. \<open>TokenQuery\<close> is keeper/grpc_query.go, \<open>Gateway\<close> types/query.pb.gw.go:
  a denomination reaches its routes percent-encoded twice, not once and not plain. \<open>TokenCli\<close> is
  client/cli: the locale \<open>tx_command\<close> is the contract of a command that submits one message, which acts in the
  registry for the account it is run for only. \<open>TokenModule\<close> is the rest of module.go, and types/codec.go.

  The generated codecs (the .pb.go files of both modules)

  \<open>Wire\<close> has the varints, \<open>Proto\<close> the skipping of unknown fields, the field loop and the backward writing
  of a sized buffer, \<open>WireEnds\<close> that the skipping ends; \<open>MetaCodec\<close>, \<open>GenesisCodec\<close>, \<open>QueryCodec\<close>, \<open>TxCodec\<close> and
  \<open>LumiCodec\<close> have \<open>Size\<close>, \<open>MarshalToSizedBuffer\<close>, \<open>Marshal\<close> and \<open>Unmarshal\<close> of every message. The
  locale \<open>pb_message\<close> is the contract of a message type, from which the round trip and the exact size
  follow, interpreted for every message without a field of the SDK; those with coins, durations or denom metadata have a lemma
  \<open>_codec_laws\<close> under \<open>codec_laws\<close> of that field. \<open>TxWire\<close> puts the messages of transactions together
  with the names under which they are registered: no bytes make a decoder panic, and a message that is packed with its type URL is
  read back as it was.

  The generated services (the same files)

  \<open>Rpc\<close> has what the services share: the body of a handler, the descriptors, the call of a client and
  \<open>serves\<close>, what gRPC promises of a connection. \<open>MsgRpc\<close> and \<open>QueryRpc\<close> are the message and the query service
  of the token factory: every message has exactly one handler, which ends in the method of the message
  server, and a query over the network is answered as the keeper answers it, errors included; an
  empty creation fee, as in the default parameters, arrives as a nil one.

  x/lumiwaveprotocol

  \<open>Inflation\<close> is module/module.go: the schedule, the year of a height and \<open>BeginBlock\<close>, with its int64
  arithmetic; the maximum never rises, the minter is kept below it, and every block of the years 1 to 132
  ends while every block from year 133 on panics. \<open>LumiKeeper\<close> is the keeper, its genesis and
  depinject.go, \<open>LumiGateway\<close> the HTTP gateway, \<open>LumiService\<close> has both services, types/codec.go and the
  functions of the module that register them.

  The app and the daemon

  \<open>Upgrades\<close> is app/upgrades. \<open>AppConfig\<close> has the module accounts and the orders of app/app_config.go, app/ante.go and
  app/genesis_account.go. \<open>AppWiring\<close> is \<open>New\<close> of app/app.go with app/ibc.go and app/wasm.go: what each keeper is
  given, and that the token factory gets a wasm keeper that does not exist yet. \<open>AppModules\<close> has the configuration of the modules,
  \<open>RegisterIBC\<close> and app/config.go, \<open>AppApi\<close> the rest of app/app.go (the home directory, the configuration for the
  injector, the accessors, the HTTP routes) and docs/docs.go; \<open>Export\<close> is app/export.go. \<open>Daemon\<close> is main.go,
  root.go, commands.go and config.go of the daemon, with autocli.go and simulation.go. \<open>InPlaceTestnet\<close> is testnet.go,
  \<open>TestnetNodes\<close> testnet_multi_node.go: the ports of the nodes, their genesis and their peers. \<open>TestnetCmd\<close> has the
  two commands with their texts and flags, and the files of the testnet that is made when no flag is given.

  The example client

  \<open>GoClient\<close> is examples/go-client but for chain_watch.go, which is \<open>BlockWatch\<close>:
  the printed private key sends as the wallet does, the reported heights increase, and of a block with more
  transactions than the limit only the first page is fetched.

  Loops, bounds and fuel

  Loops over slices are structural recursions. The skipping of a field in \<open>Proto\<close> recurses while the
  index moves forward; \<open>skip_steps\<close> in \<open>WireEnds\<close> is the same loop with fuel, and the length of the input
  and one is shown to be enough. \<open>trim_prefixes\<close> of \<open>GoClient\<close> has as fuel the length of the text, of which every
  round takes a character at least. The loops that may run forever, \<open>fetch_pages\<close> and \<open>watch_loop\<close> of
  \<open>BlockWatch\<close>, are partial functions into an option: the first ends, after one page, against a node that
  pages by offset as the Cosmos SDK does; the second is meant to run on. Byte strings are assumed shorter than \<open>2 ^ 63\<close>, as they are in Go. The ports of a
  testnet are valid and distinct up to 1317 nodes, the most that the port numbers allow.

  Not modelled

  Of the generated .pb.go files the compressed file descriptors, the getters, \<open>Equal\<close>, \<open>String\<close> and the \<open>XXX_\<close> methods:
  they are data, read a field or hand on to the protobuf runtime. \<open>Route\<close> and \<open>Type\<close> of the messages are constants
  that nothing in the repository reads. \<open>Logger\<close> is a call of the SDK. Methods without a body
  that only mark a type (\<open>IsAppModule\<close>, \<open>RegisterInvariants\<close>), and the methods of
  \<open>AppModuleBasic\<close> that only call a function modelled here. The static files of docs/. The parsing of
  flags by cobra and package flag: a command is modelled from its parsed flags, but its checks of their values are
  in the model. The gas that the store charges and goroutines: the chain runs messages one after the
  other, and the closing of a gateway connection, the only goroutine, is a value. The scripts, the protobuf
  sources and the OpenAPI files are not Go code.
\<close>

end
